(* ===== verification/Podway_Prelude.thy ===== *)
theory Podway_Prelude
  imports Main "HOL-Library.Word"
begin

text \<open>
  Shared vocabulary of the development.

  A fallible Rust function returning \<open>Result<T, E>\<close> is a HOL function into \<open>'e + 'a\<close>
  (\<open>Inl\<close> is \<open>Err\<close>, \<open>Inr\<close> is \<open>Ok\<close>); the operator \<open>?\<close> is \<open>rbind\<close>.
  A \<open>for\<close> loop that can return early is \<open>for_each\<close>; the loop
  \<open>for x in xs { if !seen.insert(key(x)) { return Err(e) } }\<close> is \<open>for_unique\<close>.
  The locale \<open>fenced_machine\<close> is the contract every mutable aggregate of the program keeps:
  a rejected command changes nothing, an accepted one keeps the invariant and advances the
  optimistic-concurrency revision by exactly one.
\<close>

section \<open>Collections of rewrite rules\<close>

named_theorems result_simps "unfolding of the result combinators"
named_theorems wf_intros "introduction rules for well-formedness invariants"

section \<open>Machine integers\<close>

type_synonym u8 = "8 word"
type_synonym u16 = "16 word"
type_synonym u32 = "32 word"
type_synonym u64 = "64 word"
type_synonym i64 = "64 word"  \<comment> \<open>read with \<open>sint\<close>\<close>

text \<open>\<open>u64::checked_add(1)\<close>: \<open>None\<close> when the maximum would wrap.\<close>

definition checked_succ :: "u64 \<Rightarrow> u64 option" where
  "checked_succ w = (if w = - 1 then None else Some (w + 1))"

lemma unat_succ: "(w :: u64) \<noteq> - 1 \<Longrightarrow> unat (w + 1) = Suc (unat w)"
  by (metis Suc_eq_plus1 add.commute add_eq_0_iff unatSuc)

lemma checked_succ_Some: "checked_succ w = Some v \<Longrightarrow> unat v = Suc (unat w)"
  by (auto simp: checked_succ_def unat_succ split: if_splits)

lemma checked_succ_eq_Some: "checked_succ w = Some v \<longleftrightarrow> w \<noteq> - 1 \<and> v = w + 1"
  by (auto simp: checked_succ_def)

lemma checked_succ_eq_None: "checked_succ w = None \<longleftrightarrow> unat w = 2 ^ 64 - 1"
proof -
  have "w = - 1 \<longleftrightarrow> unat w = unat (- 1 :: u64)" by (simp only: word_unat_eq_iff)
  moreover have "unat (- 1 :: u64) = 2 ^ 64 - 1" by (simp add: unsigned_minus_1_eq_mask mask_eq_exp_minus_1)
  ultimately show ?thesis by (simp add: checked_succ_def)
qed

lemma unat_u64_less: "unat (w :: u64) < 2 ^ 64"
  using unsigned_less[where 'a = nat, of w] by simp

lemma checked_succ_nat: "checked_succ w = Some v \<longleftrightarrow> unat v = Suc (unat w)"
proof
  assume "unat v = Suc (unat w)"
  moreover from this have "w \<noteq> - 1"
    using unat_u64_less[of v] checked_succ_eq_None[of w] by (auto simp: checked_succ_def)
  ultimately show "checked_succ w = Some v"
    by (simp add: checked_succ_eq_Some word_unat_eq_iff unat_succ)
qed (rule checked_succ_Some)

text \<open>\<open>usize::saturating_add\<close> and \<open>u32::saturating_mul\<close>, on the values of the words.\<close>

definition saturating_add64 :: "u64 \<Rightarrow> u64 \<Rightarrow> u64" where
  "saturating_add64 a b = (if unat a + unat b < 2 ^ 64 then a + b else - 1)"

definition saturating_mul32 :: "u32 \<Rightarrow> u32 \<Rightarrow> u32" where
  "saturating_mul32 a b = (if unat a * unat b < 2 ^ 32 then a * b else - 1)"

lemma unat_saturating_add64:
  "unat (saturating_add64 a b) = min (unat a + unat b) (2 ^ 64 - 1)"
proof -
  have "unat (- 1 :: u64) = 2 ^ 64 - 1" by (simp add: unsigned_minus_1_eq_mask mask_eq_exp_minus_1)
  then show ?thesis by (auto simp: saturating_add64_def unat_word_ariths)
qed

lemma unat_saturating_mul32:
  "unat (saturating_mul32 a b) = min (unat a * unat b) (2 ^ 32 - 1)"
proof -
  have "unat (- 1 :: u32) = 2 ^ 32 - 1" by (simp add: unsigned_minus_1_eq_mask mask_eq_exp_minus_1)
  then show ?thesis by (auto simp: saturating_mul32_def unat_word_ariths)
qed

section \<open>Results\<close>

definition rbind :: "'e + 'a \<Rightarrow> ('a \<Rightarrow> 'e + 'b) \<Rightarrow> 'e + 'b" where
  "rbind r f = (case r of Inl e \<Rightarrow> Inl e | Inr x \<Rightarrow> f x)"

definition map_err :: "('e \<Rightarrow> 'f) \<Rightarrow> 'e + 'a \<Rightarrow> 'f + 'a" where
  "map_err f r = (case r of Inl e \<Rightarrow> Inl (f e) | Inr x \<Rightarrow> Inr x)"

definition ok_or :: "'e \<Rightarrow> 'a option \<Rightarrow> 'e + 'a" where
  "ok_or e x = (case x of None \<Rightarrow> Inl e | Some y \<Rightarrow> Inr y)"

definition is_ok :: "'e + 'a \<Rightarrow> bool" where
  "is_ok r = (case r of Inl _ \<Rightarrow> False | Inr _ \<Rightarrow> True)"

definition is_some_and :: "'a option \<Rightarrow> ('a \<Rightarrow> bool) \<Rightarrow> bool" where
  "is_some_and x p = (case x of None \<Rightarrow> False | Some y \<Rightarrow> p y)"

definition is_none_or :: "'a option \<Rightarrow> ('a \<Rightarrow> bool) \<Rightarrow> bool" where
  "is_none_or x p = (case x of None \<Rightarrow> True | Some y \<Rightarrow> p y)"

lemma rbind_simps [simp, result_simps]:
  "rbind (Inl e) f = Inl e"
  "rbind (Inr x) f = f x"
  by (simp_all add: rbind_def)

lemma rbind_eq_Inr [simp]: "rbind r f = Inr y \<longleftrightarrow> (\<exists>x. r = Inr x \<and> f x = Inr y)"
  by (cases r) auto

lemma rbind_eq_Inl: "rbind r f = Inl e \<longleftrightarrow> r = Inl e \<or> (\<exists>x. r = Inr x \<and> f x = Inl e)"
  by (cases r) auto

lemma map_err_simps [simp, result_simps]:
  "map_err g (Inl e) = Inl (g e)"
  "map_err g (Inr x) = Inr x"
  by (simp_all add: map_err_def)

lemma map_err_eq_Inr [simp]: "map_err g r = Inr y \<longleftrightarrow> r = Inr y"
  by (cases r) auto

lemma ok_or_simps [simp, result_simps]:
  "ok_or e None = Inl e"
  "ok_or e (Some x) = Inr x"
  by (simp_all add: ok_or_def)

lemma ok_or_eq_Inr [simp]: "ok_or e x = Inr y \<longleftrightarrow> x = Some y"
  by (cases x) auto

lemma is_ok_simps [simp, result_simps]:
  "\<not> is_ok (Inl e)"
  "is_ok (Inr x)"
  by (simp_all add: is_ok_def)

lemma is_ok_iff: "is_ok r \<longleftrightarrow> (\<exists>x. r = Inr x)"
  by (cases r) auto

lemma is_some_and_simps [simp, result_simps]:
  "\<not> is_some_and None p"
  "is_some_and (Some x) p = p x"
  by (simp_all add: is_some_and_def)

lemma is_none_or_simps [simp, result_simps]:
  "is_none_or None p"
  "is_none_or (Some x) p = p x"
  by (simp_all add: is_none_or_def)

section \<open>Loops with an early return\<close>

fun for_each :: "('a \<Rightarrow> 'e + unit) \<Rightarrow> 'a list \<Rightarrow> 'e + unit" where
  "for_each f [] = Inr ()"
| "for_each f (x # xs) = rbind (f x) (\<lambda>_. for_each f xs)"

lemma for_each_ok [simp]: "for_each f xs = Inr () \<longleftrightarrow> (\<forall>x\<in>set xs. f x = Inr ())"
  by (induction xs) auto

text \<open>\<open>iter.map(f).collect::<Result<Vec<_>, _>>()\<close>: the first error, or all the results.\<close>

fun collect_ok :: "('a \<Rightarrow> 'e + 'b) \<Rightarrow> 'a list \<Rightarrow> 'e + 'b list" where
  "collect_ok f [] = Inr []"
| "collect_ok f (x # xs) = rbind (f x) (\<lambda>y. rbind (collect_ok f xs) (\<lambda>ys. Inr (y # ys)))"

lemma collect_ok_cong [fundef_cong]:
  "xs = ys \<Longrightarrow> (\<And>x. x \<in> set ys \<Longrightarrow> f x = g x) \<Longrightarrow> collect_ok f xs = collect_ok g ys"
  by (induction ys arbitrary: xs) auto

lemma collect_ok_Inr: "collect_ok f xs = Inr ys \<longleftrightarrow> list_all2 (\<lambda>x y. f x = Inr y) xs ys"
  by (induction xs arbitrary: ys) (auto simp: list_all2_Cons1)

lemma collect_ok_pure: "(\<And>x. x \<in> set xs \<Longrightarrow> f x = Inr (g x)) \<Longrightarrow> collect_ok f xs = Inr (map g xs)"
  by (induction xs) auto

lemma collect_ok_length: "collect_ok f xs = Inr ys \<Longrightarrow> length ys = length xs"
  by (auto simp: collect_ok_Inr list_all2_lengthD)

text \<open>
  The body may validate an element before its key is inserted, as the choice and media-type
  loops of the code do; \<open>seen\<close> is the \<open>BTreeSet\<close> of the keys met so far.
\<close>

fun for_unique :: "('a \<Rightarrow> 'e + unit) \<Rightarrow> ('a \<Rightarrow> 'k) \<Rightarrow> 'e \<Rightarrow> 'k list \<Rightarrow> 'a list \<Rightarrow> 'e + unit" where
  "for_unique body key err seen [] = Inr ()"
| "for_unique body key err seen (x # xs) =
     rbind (body x) (\<lambda>_.
       if key x \<in> set seen then Inl err
       else for_unique body key err (key x # seen) xs)"

lemma for_unique_ok_gen:
  "for_unique body key err seen xs = Inr () \<longleftrightarrow>
     (\<forall>x\<in>set xs. body x = Inr ()) \<and> distinct (map key xs) \<and> set (map key xs) \<inter> set seen = {}"
  by (induction xs arbitrary: seen) (auto simp: image_iff)

lemma for_unique_ok [simp]:
  "for_unique body key err [] xs = Inr () \<longleftrightarrow>
     (\<forall>x\<in>set xs. body x = Inr ()) \<and> distinct (map key xs)"
  by (simp add: for_unique_ok_gen)

abbreviation check_unique :: "('a \<Rightarrow> 'k) \<Rightarrow> 'e \<Rightarrow> 'a list \<Rightarrow> 'e + unit" where
  "check_unique key err xs \<equiv> for_unique (\<lambda>_. Inr ()) key err [] xs"

section \<open>Lists\<close>

text \<open>\<open>slice.iter().position(p)\<close>, \<open>slice.get(i)\<close> and \<open>slice.last()\<close>.\<close>

fun position :: "('a \<Rightarrow> bool) \<Rightarrow> 'a list \<Rightarrow> nat option" where
  "position p [] = None"
| "position p (x # xs) = (if p x then Some 0 else map_option Suc (position p xs))"

definition nth_opt :: "'a list \<Rightarrow> nat \<Rightarrow> 'a option" where
  "nth_opt xs i = (if i < length xs then Some (xs ! i) else None)"

definition last_opt :: "'a list \<Rightarrow> 'a option" where
  "last_opt xs = (if xs = [] then None else Some (last xs))"

lemma position_None [simp]: "position p xs = None \<longleftrightarrow> (\<forall>x\<in>set xs. \<not> p x)"
  by (induction xs) auto

lemma position_SomeD:
  "position p xs = Some i \<Longrightarrow> i < length xs \<and> p (xs ! i) \<and> (\<forall>j<i. \<not> p (xs ! j))"
proof (induction xs arbitrary: i)
  case Nil
  then show ?case by simp
next
  case (Cons x xs)
  show ?case
  proof (cases "p x")
    case True
    with Cons.prems show ?thesis by simp
  next
    case False
    with Cons.prems obtain k where "position p xs = Some k" and "i = Suc k" by auto
    with Cons.IH[of k] False show ?thesis by (auto simp: less_Suc_eq_0_disj nth_Cons)
  qed
qed

lemma position_last: "\<forall>x\<in>set xs. \<not> p x \<Longrightarrow> p y \<Longrightarrow> position p (xs @ [y]) = Some (length xs)"
  by (induction xs) auto

lemma last_opt_simps [simp]:
  "last_opt [] = None"
  "last_opt (xs @ [x]) = Some x"
  by (simp_all add: last_opt_def)

lemma last_opt_None [simp]: "last_opt xs = None \<longleftrightarrow> xs = []"
  by (simp add: last_opt_def)

lemma last_opt_Some [simp]: "last_opt xs = Some x \<longleftrightarrow> (\<exists>ys. xs = ys @ [x])"
  by (auto simp: last_opt_def) (metis append_butlast_last_id)

lemma find_SomeD: "find p xs = Some x \<Longrightarrow> x \<in> set xs \<and> p x"
  by (induction xs) (auto split: if_splits)

lemma find_append:
  "find p (xs @ ys) = (case find p xs of None \<Rightarrow> find p ys | Some x \<Rightarrow> Some x)"
  by (induction xs) auto

section \<open>The contract of a fenced mutable aggregate\<close>

text \<open>
  \<open>step op s\<close> is a Rust method on \<open>&mut self\<close>: its result and the state afterwards.
\<close>

locale fenced_machine =
  fixes step :: "'op \<Rightarrow> 's \<Rightarrow> ('e + unit) \<times> 's"
    and inv :: "'s \<Rightarrow> bool"
    and rev :: "'s \<Rightarrow> nat"
  assumes reject_frame: "step op s = (Inl e, s') \<Longrightarrow> s' = s"
    and accept_inv: "inv s \<Longrightarrow> step op s = (Inr (), s') \<Longrightarrow> inv s'"
    and accept_rev: "step op s = (Inr (), s') \<Longrightarrow> rev s' = Suc (rev s)"
begin

fun run :: "'op list \<Rightarrow> 's \<Rightarrow> 's" where
  "run [] s = s"
| "run (op # ops) s = run ops (snd (step op s))"

fun accepted :: "'op list \<Rightarrow> 's \<Rightarrow> nat" where
  "accepted [] s = 0"
| "accepted (op # ops) s =
     (if is_ok (fst (step op s)) then 1 else 0) + accepted ops (snd (step op s))"

lemma step_inv: "inv s \<Longrightarrow> inv (snd (step op s))"
proof (cases "step op s")
  case (Pair r s')
  assume "inv s"
  with Pair show ?thesis by (cases r) (auto dest: accept_inv reject_frame)
qed

lemma step_rev:
  "rev (snd (step op s)) = rev s + (if is_ok (fst (step op s)) then 1 else 0)"
proof (cases "step op s")
  case (Pair r s')
  then show ?thesis by (cases r) (auto dest: accept_rev reject_frame)
qed

lemma run_inv: "inv s \<Longrightarrow> inv (run ops s)"
  by (induction ops arbitrary: s) (auto intro: step_inv)

lemma run_rev: "rev (run ops s) = rev s + accepted ops s"
  by (induction ops arbitrary: s) (auto simp: step_rev)

lemma run_append: "run (xs @ ys) s = run ys (run xs s)"
  by (induction xs arbitrary: s) auto

text \<open>A command retried against a state that has not moved gives the same answer again.\<close>

lemma reject_repeat:
  assumes "step op s = (Inl e, s')"
  shows "step op s' = (Inl e, s')"
  using reject_frame[OF assms] assms by simp

end

end
