(* ===== verification/Rust_Text.thy ===== *)
theory Rust_Text
  imports Podway_Prelude
begin

text \<open>
  Rust strings. A \<open>str\<close> is the list of its Unicode scalar values, so \<open>s.chars().count()\<close>
  is \<open>length s\<close>; \<open>s.as_bytes()\<close> is its UTF-8 encoding \<open>as_bytes s\<close>. The functions of the
  standard library the program calls on text (\<open>trim\<close>, \<open>char::is_whitespace\<close>,
  \<open>char::is_control\<close>, \<open>split\<close>, \<open>split_once\<close>, \<open>starts_with\<close>, \<open>strip_prefix\<close>) are given with
  their Unicode meaning. \<open>lit\<close> turns an ASCII literal into text.
\<close>

section \<open>Scalars, bytes and literals\<close>

type_synonym scalar = nat
type_synonym byte = nat
type_synonym str = "scalar list"

definition lit :: "string \<Rightarrow> str" where
  "lit s = map of_char s"

definition utf8_char :: "scalar \<Rightarrow> byte list" where
  "utf8_char c =
     (if c < 0x80 then [c]
      else if c < 0x800 then [0xC0 + c div 64, 0x80 + c mod 64]
      else if c < 0x10000 then [0xE0 + c div 4096, 0x80 + c div 64 mod 64, 0x80 + c mod 64]
      else [0xF0 + c div 262144, 0x80 + c div 4096 mod 64, 0x80 + c div 64 mod 64, 0x80 + c mod 64])"

definition as_bytes :: "str \<Rightarrow> byte list" where
  "as_bytes s = concat (map utf8_char s)"

definition byte_len :: "str \<Rightarrow> nat" where
  "byte_len s = length (as_bytes s)"

definition is_ascii_lowercase :: "byte \<Rightarrow> bool" where
  "is_ascii_lowercase b \<longleftrightarrow> 97 \<le> b \<and> b \<le> 122"

definition is_ascii_digit :: "byte \<Rightarrow> bool" where
  "is_ascii_digit b \<longleftrightarrow> 48 \<le> b \<and> b \<le> 57"

definition is_lower_hex :: "byte \<Rightarrow> bool" where
  "is_lower_hex b \<longleftrightarrow> is_ascii_digit b \<or> 97 \<le> b \<and> b \<le> 102"

lemmas ascii_classes = is_ascii_lowercase_def is_ascii_digit_def is_lower_hex_def

lemma as_bytes_simps [simp]:
  "as_bytes [] = []"
  "as_bytes (c # s) = utf8_char c @ as_bytes s"
  "as_bytes (s @ t) = as_bytes s @ as_bytes t"
  by (simp_all add: as_bytes_def)

lemma utf8_char_ascii [simp]: "c < 128 \<Longrightarrow> utf8_char c = [c]"
  by (simp add: utf8_char_def)

lemma utf8_char_length: "1 \<le> length (utf8_char c) \<and> length (utf8_char c) \<le> 4"
  by (simp add: utf8_char_def)

text \<open>Every byte of a non-ASCII scalar has its high bit set.\<close>

lemma utf8_char_high: "128 \<le> c \<Longrightarrow> b \<in> set (utf8_char c) \<Longrightarrow> 128 \<le> b"
  by (auto simp: utf8_char_def split: if_splits)

lemma length_le_byte_len: "length s \<le> byte_len s"
proof (induction s)
  case Nil
  then show ?case by (simp add: byte_len_def)
next
  case (Cons c s)
  then show ?case using utf8_char_length[of c] by (simp add: byte_len_def)
qed

text \<open>A text whose bytes are all ASCII is its own encoding.\<close>

lemma as_bytes_ascii: "\<forall>b\<in>set (as_bytes s). b < 128 \<Longrightarrow> as_bytes s = s"
proof (induction s)
  case Nil
  then show ?case by simp
next
  case (Cons c s)
  have "c < 128"
  proof (rule ccontr)
    assume "\<not> c < 128"
    moreover obtain b where "b \<in> set (utf8_char c)"
      using utf8_char_length[of c] by (cases "utf8_char c") auto
    ultimately have "128 \<le> b" and "b \<in> set (as_bytes (c # s))"
      using utf8_char_high[of c b] by simp_all
    with Cons.prems show False by (meson not_le)
  qed
  with Cons show ?case by simp
qed

lemma as_bytes_ascii_text: "\<forall>c\<in>set s. c < 128 \<Longrightarrow> as_bytes s = s"
  by (induction s) auto

lemma lit_inject: "lit s = lit t \<longleftrightarrow> s = t"
proof
  have "inj (of_char :: char \<Rightarrow> nat)" by (rule injI) (metis char_of_char)
  moreover assume "lit s = lit t"
  ultimately show "s = t" by (simp add: lit_def map_injective)
qed simp

section \<open>Character classes and trimming\<close>

text \<open>\<open>char::is_whitespace\<close>: the Unicode property \<open>White_Space\<close>.\<close>

definition is_whitespace :: "scalar \<Rightarrow> bool" where
  "is_whitespace c \<longleftrightarrow>
     0x09 \<le> c \<and> c \<le> 0x0D \<or> c = 0x20 \<or> c = 0x85 \<or> c = 0xA0 \<or> c = 0x1680 \<or>
     0x2000 \<le> c \<and> c \<le> 0x200A \<or> c = 0x2028 \<or> c = 0x2029 \<or> c = 0x202F \<or> c = 0x205F \<or> c = 0x3000"

text \<open>\<open>char::is_control\<close>: the general category \<open>Cc\<close>.\<close>

definition is_control :: "scalar \<Rightarrow> bool" where
  "is_control c \<longleftrightarrow> c \<le> 0x1F \<or> 0x7F \<le> c \<and> c \<le> 0x9F"

definition trim :: "str \<Rightarrow> str" where
  "trim s = rev (dropWhile is_whitespace (rev (dropWhile is_whitespace s)))"

lemma trim_Nil [simp]: "trim [] = []"
  by (simp add: trim_def)

lemma trim_eq_Nil: "trim s = [] \<longleftrightarrow> (\<forall>c\<in>set s. is_whitespace c)"
proof -
  have "trim s = [] \<longleftrightarrow> (\<forall>c\<in>set (dropWhile is_whitespace s). is_whitespace c)"
    by (simp add: trim_def dropWhile_eq_Nil_conv)
  also have "\<dots> \<longleftrightarrow> (\<forall>c\<in>set s. is_whitespace c)"
    by (induction s) auto
  finally show ?thesis .
qed

lemma length_trim_le: "length (trim s) \<le> length s"
  using length_dropWhile_le[of is_whitespace "rev (dropWhile is_whitespace s)"]
    length_dropWhile_le[of is_whitespace s]
  by (simp add: trim_def)

section \<open>Splitting and prefixes\<close>

fun starts_with :: "str \<Rightarrow> str \<Rightarrow> bool" where
  "starts_with s [] = True"
| "starts_with [] (p # ps) = False"
| "starts_with (c # s) (p # ps) = (c = p \<and> starts_with s ps)"

definition strip_prefix :: "str \<Rightarrow> str \<Rightarrow> str option" where
  "strip_prefix p s = (if starts_with s p then Some (drop (length p) s) else None)"

fun split_on :: "scalar \<Rightarrow> str \<Rightarrow> str list" where
  "split_on d [] = [[]]"
| "split_on d (c # s) =
     (if c = d then [] # split_on d s
      else (case split_on d s of [] \<Rightarrow> [[c]] | w # ws \<Rightarrow> (c # w) # ws))"

fun split_once :: "scalar \<Rightarrow> str \<Rightarrow> (str \<times> str) option" where
  "split_once d [] = None"
| "split_once d (c # s) =
     (if c = d then Some ([], s) else map_option (\<lambda>(a, b). (c # a, b)) (split_once d s))"

fun join_with :: "scalar \<Rightarrow> str list \<Rightarrow> str" where
  "join_with d [] = []"
| "join_with d [w] = w"
| "join_with d (w # ws) = w @ d # join_with d ws"

lemma starts_with_iff: "starts_with s p \<longleftrightarrow> (\<exists>t. s = p @ t)"
  by (induction s p rule: starts_with.induct) auto

lemma starts_with_append [simp]: "starts_with (p @ s) p"
  by (auto simp: starts_with_iff)

lemma strip_prefix_append [simp]: "strip_prefix p (p @ s) = Some s"
  by (simp add: strip_prefix_def)

lemma strip_prefix_Some: "strip_prefix p s = Some t \<longleftrightarrow> s = p @ t"
  by (auto simp: strip_prefix_def starts_with_iff)

lemma split_on_not_Nil [simp]: "split_on d s \<noteq> []"
  by (induction s) (auto split: list.splits)

lemma join_split_on: "join_with d (split_on d s) = s"
proof (induction s)
  case Nil
  then show ?case by simp
next
  case (Cons c s)
  then obtain w ws where ws: "split_on d s = w # ws"
    by (metis neq_Nil_conv split_on_not_Nil)
  with Cons show ?case by (cases ws) auto
qed

lemma split_on_no_sep: "w \<in> set (split_on d s) \<Longrightarrow> d \<notin> set w"
  by (induction s arbitrary: w) (auto split: if_splits list.splits)

lemma split_on_append_word:
  "d \<notin> set w \<Longrightarrow> split_on d (w @ d # s) = w # split_on d s"
  by (induction w) auto

lemma split_on_word [simp]: "d \<notin> set w \<Longrightarrow> split_on d w = [w]"
  by (induction w) auto

lemma split_on_join:
  "ws \<noteq> [] \<Longrightarrow> \<forall>w\<in>set ws. d \<notin> set w \<Longrightarrow> split_on d (join_with d ws) = ws"
  by (induction d ws rule: join_with.induct) (auto simp: split_on_append_word)

lemma split_once_Some:
  "split_once d s = Some (a, b) \<longleftrightarrow> s = a @ d # b \<and> d \<notin> set a"
proof (induction s arbitrary: a)
  case Nil
  then show ?case by simp
next
  case (Cons c s)
  then show ?case by (cases a) auto
qed

lemma split_once_None: "split_once d s = None \<longleftrightarrow> d \<notin> set s"
  by (induction s) auto

section \<open>Integers\<close>

text \<open>\<open>str::parse::<i64>\<close>: an optional sign and at least one ASCII digit, within the range.\<close>

definition decimal_value :: "str \<Rightarrow> int" where
  "decimal_value ds = foldl (\<lambda>a d. 10 * a + (int d - 48)) 0 ds"

definition parse_i64 :: "str \<Rightarrow> i64 option" where
  "parse_i64 s =
     (let (negative, digits) =
        (case s of
           [] \<Rightarrow> (False, [])
         | c # cs \<Rightarrow> if c = 45 then (True, cs) else if c = 43 then (False, cs) else (False, s))
      in if digits = [] \<or> \<not> (\<forall>d\<in>set digits. is_ascii_digit d) then None
         else let n = (if negative then - decimal_value digits else decimal_value digits)
              in if - (2 ^ 63) \<le> n \<and> n < 2 ^ 63 then Some (of_int n) else None)"

end
