(* ===== verification/Domain.thy ===== *)
theory Domain
  imports Rust_Text
begin

text \<open>
  The shared domain values of \<open>podway-core\<close> (\<open>lib.rs\<close>): the typed domain error, the UUID,
  identifier and digest newtypes with their validators, the optimistic-concurrency revision, the
  lifecycle enums, the command families; and the value types of \<open>procedure.rs\<close> and
  \<open>aggregate.rs\<close>: bounded text, media types, procedure source labels and artifact metadata.
  The lemmas characterise what each validator accepts and show that the constructors reject
  everything else.
\<close>

section \<open>Errors (lib.rs)\<close>

datatype BoundUnitV2 = Scalars | Entries | Items | Operations

definition BoundUnitV2_as_str :: "BoundUnitV2 \<Rightarrow> string" where
  "BoundUnitV2_as_str u =
     (case u of Scalars \<Rightarrow> ''scalars'' | Entries \<Rightarrow> ''entries''
      | Items \<Rightarrow> ''items'' | Operations \<Rightarrow> ''operations'')"

datatype WorkspaceId = WorkspaceId str
datatype SessionId = SessionId str
datatype AttemptId = AttemptId str
datatype DelegationReceiptIdV1 = DelegationReceiptIdV1 str
datatype ProcedureSnapshotId = ProcedureSnapshotId str
datatype BlockerId = BlockerId str
datatype ItemId = ItemId str
datatype NodeDefinitionId = NodeDefinitionId str
datatype GraphNodeId = GraphNodeId str
datatype OptionId = OptionId str
datatype CriterionId = CriterionId str
datatype OperationId = OperationId str
datatype DelegationBindingRefV1 = DelegationBindingRefV1 str
datatype Sha256Digest = Sha256Digest str
datatype Revision = Revision (revision_get: u64)
datatype UnixMillis = UnixMillis (millis_get: u64)

datatype SessionLifecycle = SessionPrepared | SessionRunning | SessionCompleted | SessionCancelled
datatype AttemptLifecycle = AttemptActive | AttemptCompleted | AttemptSkipped | AttemptAbandoned
datatype BlockerState = BlockerOpen | BlockerResolved
datatype JobState = JobQueued | JobRunning | JobSucceeded | JobFailed | JobCancelled

datatype DomainCommandKind =
    K_WorkspaceInitialize | K_WorkspaceResetAll | K_SessionStart | K_SessionStartReplace
  | K_SessionBegin | K_SessionTerminalDisposition | K_SessionComplete | K_SessionSkip
  | K_SessionRetry | K_SessionBlock | K_SessionUnblock | K_SessionCancel | K_SessionArchive
  | K_SessionArchivePurge | K_SessionReset | K_SessionDecide | K_SessionRework | K_GoalDefine
  | K_GoalRevise | K_GoalAssessCriterion | K_ItemCheck | K_ItemUncheck | K_ItemSet | K_ItemAdd
  | K_ItemRemove | K_ItemAttach | K_ItemClear | K_ItemRecordMany | K_DelegationAccept

datatype DomainCommand =
    WorkspaceInitialize | WorkspaceResetAll | SessionStart | SessionStartReplace
  | SessionBegin | SessionTerminalDisposition | SessionComplete | SessionSkip
  | SessionRetry | SessionBlock | SessionUnblock | SessionCancel | SessionArchive
  | SessionArchivePurge | SessionReset | SessionDecide | SessionRework | GoalDefine
  | GoalRevise | GoalAssessCriterion | ItemCheck ItemId | ItemUncheck ItemId | ItemSet ItemId
  | ItemAdd ItemId | ItemRemove ItemId | ItemAttach ItemId | ItemClear ItemId
  | ItemRecordMany | DelegationAccept

fun DomainCommand_kind :: "DomainCommand \<Rightarrow> DomainCommandKind" where
  "DomainCommand_kind WorkspaceInitialize = K_WorkspaceInitialize"
| "DomainCommand_kind WorkspaceResetAll = K_WorkspaceResetAll"
| "DomainCommand_kind SessionStart = K_SessionStart"
| "DomainCommand_kind SessionStartReplace = K_SessionStartReplace"
| "DomainCommand_kind SessionBegin = K_SessionBegin"
| "DomainCommand_kind SessionTerminalDisposition = K_SessionTerminalDisposition"
| "DomainCommand_kind SessionComplete = K_SessionComplete"
| "DomainCommand_kind SessionSkip = K_SessionSkip"
| "DomainCommand_kind SessionRetry = K_SessionRetry"
| "DomainCommand_kind SessionBlock = K_SessionBlock"
| "DomainCommand_kind SessionUnblock = K_SessionUnblock"
| "DomainCommand_kind SessionCancel = K_SessionCancel"
| "DomainCommand_kind SessionArchive = K_SessionArchive"
| "DomainCommand_kind SessionArchivePurge = K_SessionArchivePurge"
| "DomainCommand_kind SessionReset = K_SessionReset"
| "DomainCommand_kind SessionDecide = K_SessionDecide"
| "DomainCommand_kind SessionRework = K_SessionRework"
| "DomainCommand_kind GoalDefine = K_GoalDefine"
| "DomainCommand_kind GoalRevise = K_GoalRevise"
| "DomainCommand_kind GoalAssessCriterion = K_GoalAssessCriterion"
| "DomainCommand_kind (ItemCheck _) = K_ItemCheck"
| "DomainCommand_kind (ItemUncheck _) = K_ItemUncheck"
| "DomainCommand_kind (ItemSet _) = K_ItemSet"
| "DomainCommand_kind (ItemAdd _) = K_ItemAdd"
| "DomainCommand_kind (ItemRemove _) = K_ItemRemove"
| "DomainCommand_kind (ItemAttach _) = K_ItemAttach"
| "DomainCommand_kind (ItemClear _) = K_ItemClear"
| "DomainCommand_kind ItemRecordMany = K_ItemRecordMany"
| "DomainCommand_kind DelegationAccept = K_DelegationAccept"

text \<open>Static field names and reasons are HOL strings; \<open>usize\<close> counts are natural numbers.\<close>

datatype DomainError =
    EmptyValue string
  | ValueTooLong string nat nat                 \<comment> \<open>field, maximum, actual\<close>
  | InvalidUuid string
  | InvalidIdentifier string
  | InvalidSha256Digest
  | RevisionOverflow Revision
  | InvalidState string
  | BoundExceeded string nat nat BoundUnitV2    \<comment> \<open>field, actual, maximum, unit\<close>
  | RequiredItemsMissing
  | BlockersPresent
  | BlockerLimitReached nat
  | ArtifactChanged
  | InvalidTransition DomainCommandKind SessionLifecycle
  | PreconditionFailed Revision Revision        \<comment> \<open>expected, actual\<close>
  | SessionIdentityMismatch SessionId "SessionId option"
  | AttemptNotCurrent AttemptId "AttemptId option"
  | ItemNotFound ItemId
  | BlockerNotCurrent

abbreviation invalid :: "string \<Rightarrow> DomainError" where
  "invalid reason \<equiv> InvalidState reason"

section \<open>Revisions and lifecycles (lib.rs)\<close>

definition Revision_ZERO :: Revision where
  "Revision_ZERO = Revision 0"

definition Revision_checked_next :: "Revision \<Rightarrow> DomainError + Revision" where
  "Revision_checked_next r =
     ok_or (RevisionOverflow r) (map_option Revision (checked_succ (revision_get r)))"

definition is_default_reset_eligible :: "SessionLifecycle \<Rightarrow> bool \<Rightarrow> bool" where
  "is_default_reset_eligible l current_terminal_disposition =
     (case l of
        SessionPrepared \<Rightarrow> True
      | SessionRunning \<Rightarrow> False
      | SessionCompleted \<Rightarrow> current_terminal_disposition
      | SessionCancelled \<Rightarrow> current_terminal_disposition)"

section \<open>Identity validators (lib.rs)\<close>

definition MAX_PROCEDURE_IDENTIFIER_BYTES :: nat where
  "MAX_PROCEDURE_IDENTIFIER_BYTES = 64"

definition MAX_PROCEDURE_DOCUMENT_BYTES :: nat where
  "MAX_PROCEDURE_DOCUMENT_BYTES = 1048576"

definition uuid_byte_valid :: "nat \<Rightarrow> byte \<Rightarrow> bool" where
  "uuid_byte_valid index b =
     (if index = 8 \<or> index = 13 \<or> index = 18 \<or> index = 23 then b = 45
      else is_ascii_digit b \<or> 97 \<le> b \<and> b \<le> 102)"

fun validate_uuid_bytes :: "string \<Rightarrow> nat \<Rightarrow> byte list \<Rightarrow> DomainError + unit" where
  "validate_uuid_bytes field index [] = Inr ()"
| "validate_uuid_bytes field index (b # bs) =
     (if \<not> uuid_byte_valid index b then Inl (InvalidUuid field)
      else validate_uuid_bytes field (Suc index) bs)"

definition validate_uuid :: "str \<Rightarrow> string \<Rightarrow> DomainError + unit" where
  "validate_uuid value field =
     (if length (as_bytes value) \<noteq> 36 then Inl (InvalidUuid field)
      else validate_uuid_bytes field 0 (as_bytes value))"

fun validate_identifier_bytes :: "string \<Rightarrow> bool \<Rightarrow> byte list \<Rightarrow> DomainError + unit" where
  "validate_identifier_bytes field previous_was_hyphen [] = Inr ()"
| "validate_identifier_bytes field previous_was_hyphen (b # bs) =
     (if is_ascii_lowercase b \<or> is_ascii_digit b then validate_identifier_bytes field False bs
      else if b = 45 \<and> \<not> previous_was_hyphen then validate_identifier_bytes field True bs
      else Inl (InvalidIdentifier field))"

definition validate_procedure_identifier :: "str \<Rightarrow> string \<Rightarrow> DomainError + unit" where
  "validate_procedure_identifier value field =
     (let bytes = as_bytes value in
      if bytes = [] then Inl (EmptyValue field)
      else if length bytes > MAX_PROCEDURE_IDENTIFIER_BYTES
        then Inl (ValueTooLong field MAX_PROCEDURE_IDENTIFIER_BYTES (length bytes))
      else if \<not> is_ascii_lowercase (hd bytes) \<or> last_opt bytes = Some 45
        then Inl (InvalidIdentifier field)
      else validate_identifier_bytes field False bytes)"

definition validate_sha256_digest :: "str \<Rightarrow> DomainError + unit" where
  "validate_sha256_digest value =
     (let bytes = as_bytes value in
      if length bytes \<noteq> 71 \<or> \<not> starts_with value (lit ''sha256:'') then Inl InvalidSha256Digest
      else if (\<exists>b\<in>set (drop 7 bytes). \<not> (is_ascii_digit b \<or> 97 \<le> b \<and> b \<le> 102))
        then Inl InvalidSha256Digest
      else Inr ())"

text \<open>The newtype constructors generated by \<open>uuid_newtype!\<close> and \<open>procedure_identifier_newtype!\<close>.\<close>

definition uuid_new :: "string \<Rightarrow> (str \<Rightarrow> 'id) \<Rightarrow> str \<Rightarrow> DomainError + 'id" where
  "uuid_new name mk value = rbind (validate_uuid value name) (\<lambda>_. Inr (mk value))"

definition procedure_identifier_new :: "string \<Rightarrow> (str \<Rightarrow> 'id) \<Rightarrow> str \<Rightarrow> DomainError + 'id" where
  "procedure_identifier_new name mk value =
     rbind (validate_procedure_identifier value name) (\<lambda>_. Inr (mk value))"

definition Sha256Digest_new :: "str \<Rightarrow> DomainError + Sha256Digest" where
  "Sha256Digest_new value = rbind (validate_sha256_digest value) (\<lambda>_. Inr (Sha256Digest value))"

definition SessionId_new :: "str \<Rightarrow> DomainError + SessionId" where
  "SessionId_new = uuid_new ''SessionId'' SessionId"

definition AttemptId_new :: "str \<Rightarrow> DomainError + AttemptId" where
  "AttemptId_new = uuid_new ''AttemptId'' AttemptId"

definition GraphNodeId_new :: "str \<Rightarrow> DomainError + GraphNodeId" where
  "GraphNodeId_new = procedure_identifier_new ''GraphNodeId'' GraphNodeId"

definition ItemId_new :: "str \<Rightarrow> DomainError + ItemId" where
  "ItemId_new = procedure_identifier_new ''ItemId'' ItemId"

end
