(* ===== verification/Domain_Values.thy ===== *)
theory Domain_Values
  imports Domain
begin

text \<open>
  The bounded value types of \<open>procedure.rs\<close> and \<open>aggregate.rs\<close> (text validation, media types,
  procedure source labels, canonical document bytes, artifact metadata) and the theorems on all
  identity and value validators: each accepts exactly a declaratively given set of texts, source
  labels survive a round trip through their display form, and an admitted artifact path cannot
  leave the worktree.
\<close>

section \<open>Text and media types (procedure.rs)\<close>

definition validate_text :: "string \<Rightarrow> str \<Rightarrow> nat \<Rightarrow> nat \<Rightarrow> bool \<Rightarrow> DomainError + unit" where
  "validate_text field value minimum maximum require_non_whitespace =
     (let actual = length value in
      if actual < minimum \<or> actual > maximum then Inl (invalid field)
      else if require_non_whitespace \<and> trim value = [] then Inl (invalid field)
      else Inr ())"

definition is_media_token :: "byte \<Rightarrow> bool" where
  "is_media_token b \<longleftrightarrow> is_ascii_lowercase b \<or> is_ascii_digit b \<or>
     b \<in> {33, 35, 36, 38, 94, 95, 46, 43, 45}"

definition validate_media_type :: "str \<Rightarrow> DomainError + unit" where
  "validate_media_type value =
     (if byte_len value > 255 then Inl (invalid ''media type exceeds 255 bytes'')
      else case split_once 47 value of
        None \<Rightarrow> Inl (invalid ''media type must contain exactly one slash'')
      | Some (kind, subtype) \<Rightarrow>
          if kind = [] \<or> subtype = [] \<or> 47 \<in> set subtype
          then Inl (invalid ''media type must contain a type and subtype'')
          else if \<not> (is_ascii_lowercase (hd (as_bytes kind)) \<or> is_ascii_digit (hd (as_bytes kind)))
               \<or> \<not> (is_ascii_lowercase (hd (as_bytes subtype)) \<or> is_ascii_digit (hd (as_bytes subtype)))
               \<or> \<not> (\<forall>b\<in>set (as_bytes kind). is_media_token b)
               \<or> \<not> (\<forall>b\<in>set (as_bytes subtype). is_media_token b)
          then Inl (invalid ''media type must be lowercase ASCII without parameters'')
          else Inr ())"

section \<open>Procedure source labels (procedure.rs)\<close>

datatype ProcedureSourceKindV1 = SourcePreset | SourceFile

definition ProcedureSourceKindV1_as_str :: "ProcedureSourceKindV1 \<Rightarrow> str" where
  "ProcedureSourceKindV1_as_str k = (case k of SourcePreset \<Rightarrow> lit ''preset'' | SourceFile \<Rightarrow> lit ''file'')"

definition ProcedureSourceKindV1_from_row_value :: "str \<Rightarrow> DomainError + ProcedureSourceKindV1" where
  "ProcedureSourceKindV1_from_row_value value =
     (if value = lit ''preset'' then Inr SourcePreset
      else if value = lit ''file'' then Inr SourceFile
      else Inl (invalid ''unknown procedure source kind''))"

record ProcedureSourceLabelV1 =
  source_kind :: ProcedureSourceKindV1
  source_label :: str
  source_display :: str

definition ProcedureSourceLabelV1_from_parts ::
    "ProcedureSourceKindV1 \<Rightarrow> str \<Rightarrow> DomainError + ProcedureSourceLabelV1" where
  "ProcedureSourceLabelV1_from_parts kind label =
     (if starts_with label (lit ''preset:'') \<or> starts_with label (lit ''procedure:'')
      then Inl (invalid ''procedure source raw label must not contain a display prefix'')
      else rbind (validate_text ''procedure source label'' label 1 4000 True) (\<lambda>_.
        let display = (case kind of SourcePreset \<Rightarrow> lit ''preset:'' @ label
                       | SourceFile \<Rightarrow> lit ''procedure:'' @ label) in
        rbind (validate_text ''procedure source display label'' display 1 4000 True) (\<lambda>_.
          Inr \<lparr>source_kind = kind, source_label = label, source_display = display\<rparr>)))"

definition ProcedureSourceLabelV1_new :: "str \<Rightarrow> DomainError + ProcedureSourceLabelV1" where
  "ProcedureSourceLabelV1_new value =
     (case strip_prefix (lit ''preset:'') value of
        Some label \<Rightarrow> ProcedureSourceLabelV1_from_parts SourcePreset label
      | None \<Rightarrow>
         (case strip_prefix (lit ''procedure:'') value of
            Some label \<Rightarrow> ProcedureSourceLabelV1_from_parts SourceFile label
          | None \<Rightarrow> ProcedureSourceLabelV1_from_parts SourceFile value))"

datatype CanonicalProcedureJsonV1 = CanonicalProcedureJsonV1 str

definition CanonicalProcedureJsonV1_new :: "str \<Rightarrow> DomainError + CanonicalProcedureJsonV1" where
  "CanonicalProcedureJsonV1_new value =
     (if value = [] then Inl (invalid ''canonical procedure JSON must not be empty'')
      else if byte_len value > MAX_PROCEDURE_DOCUMENT_BYTES
      then Inl (ValueTooLong ''canonical procedure JSON'' MAX_PROCEDURE_DOCUMENT_BYTES (byte_len value))
      else Inr (CanonicalProcedureJsonV1 value))"

datatype ItemTypeV1 =
    TyConfirm | TyText | TyChoice | TyInteger | TyList | TyArtifact | TyCheckResult

section \<open>Reasons and actors (record\_v2.rs)\<close>

datatype ReasonV2 = ReasonV2 (reason_as_str: str)
datatype ActorAttributionV2 = ActorAttributionV2 (actor_as_str: str)

definition MAX_RECORD_REASON_CHARS :: nat where
  "MAX_RECORD_REASON_CHARS = 2000"

definition MAX_ACTOR_ATTRIBUTION_CHARS :: nat where
  "MAX_ACTOR_ATTRIBUTION_CHARS = 256"

definition ReasonV2_new :: "str \<Rightarrow> DomainError + ReasonV2" where
  "ReasonV2_new value =
     rbind (validate_text ''record reason'' value 1 MAX_RECORD_REASON_CHARS True) (\<lambda>_. Inr (ReasonV2 value))"

definition ActorAttributionV2_new :: "str \<Rightarrow> DomainError + ActorAttributionV2" where
  "ActorAttributionV2_new value =
     rbind (validate_text ''actor attribution'' value 1 MAX_ACTOR_ATTRIBUTION_CHARS True)
       (\<lambda>_. Inr (ActorAttributionV2 value))"

section \<open>Artifact metadata (aggregate.rs)\<close>

datatype ArtifactLocationKindV1 = LocalPath | ExternalReference

record ArtifactValueV1 =
  location_kind :: ArtifactLocationKindV1
  location :: str
  artifact_digest :: Sha256Digest
  size_bytes :: u64
  artifact_media_type :: str

definition validate_safe_local_path :: "str \<Rightarrow> DomainError + unit" where
  "validate_safe_local_path path =
     (if path = [] \<or> byte_len path > 4000 \<or> starts_with path (lit ''/'') \<or> 92 \<in> set path
      then Inl (invalid ''artifact path must be a bounded relative POSIX path'')
      else if \<exists>component\<in>set (split_on 47 path).
                component = [] \<or> component = lit ''.'' \<or> component = lit ''..''
      then Inl (invalid ''artifact path contains an unsafe component'')
      else if \<exists>c\<in>set path. is_control c
      then Inl (invalid ''artifact path contains a control character'')
      else Inr ())"

definition validate_external_reference :: "str \<Rightarrow> DomainError + unit" where
  "validate_external_reference reference =
     (if trim reference = [] \<or> byte_len reference > 4000
      then Inl (invalid ''artifact reference must be non-empty and bounded'')
      else if \<exists>c\<in>set reference. is_control c
      then Inl (invalid ''artifact reference contains a control character'')
      else Inr ())"

definition ArtifactValueV1_new ::
    "ArtifactLocationKindV1 \<Rightarrow> str \<Rightarrow> Sha256Digest \<Rightarrow> u64 \<Rightarrow> str \<Rightarrow> DomainError + ArtifactValueV1" where
  "ArtifactValueV1_new kind loc digest size_b media =
     rbind (validate_media_type media) (\<lambda>_.
       Inr \<lparr>location_kind = kind, location = loc, artifact_digest = digest,
            size_bytes = size_b, artifact_media_type = media\<rparr>)"

definition ArtifactValueV1_local_path ::
    "str \<Rightarrow> Sha256Digest \<Rightarrow> u64 \<Rightarrow> str \<Rightarrow> DomainError + ArtifactValueV1" where
  "ArtifactValueV1_local_path path digest size_b media =
     rbind (validate_safe_local_path path) (\<lambda>_.
       ArtifactValueV1_new LocalPath path digest size_b media)"

definition ArtifactValueV1_external_reference ::
    "str \<Rightarrow> Sha256Digest \<Rightarrow> u64 \<Rightarrow> str \<Rightarrow> DomainError + ArtifactValueV1" where
  "ArtifactValueV1_external_reference reference digest size_b media =
     rbind (validate_external_reference reference) (\<lambda>_.
       ArtifactValueV1_new ExternalReference reference digest size_b media)"

section \<open>What the validators accept\<close>

lemma validate_text_ok [simp]:
  "validate_text f v lo hi req = Inr () \<longleftrightarrow>
     lo \<le> length v \<and> length v \<le> hi \<and> (req \<longrightarrow> trim v \<noteq> [])"
  by (auto simp: validate_text_def Let_def)

lemma validate_text_err: "validate_text f v lo hi req = Inl e \<Longrightarrow> e = invalid f"
  by (auto simp: validate_text_def Let_def split: if_splits)

subsection \<open>UUIDs\<close>

lemma validate_uuid_bytes_ok:
  "validate_uuid_bytes f i bs = Inr () \<longleftrightarrow> (\<forall>j<length bs. uuid_byte_valid (i + j) (bs ! j))"
proof (induction bs arbitrary: i)
  case Nil
  then show ?case by simp
next
  case (Cons b bs)
  then show ?case by (auto simp: less_Suc_eq_0_disj)
qed

lemma uuid_byte_valid_ascii: "uuid_byte_valid i b \<Longrightarrow> b < 128"
  by (auto simp: uuid_byte_valid_def is_ascii_digit_def split: if_splits)

lemma validate_uuid_ok:
  "validate_uuid v f = Inr () \<longleftrightarrow> length v = 36 \<and> (\<forall>j<36. uuid_byte_valid j (v ! j))"
  (is "?L \<longleftrightarrow> ?R")
proof
  assume ?L
  then have len: "length (as_bytes v) = 36"
    and ok: "\<forall>j<length (as_bytes v). uuid_byte_valid j (as_bytes v ! j)"
    by (auto simp: validate_uuid_def validate_uuid_bytes_ok split: if_splits)
  then have "\<forall>b\<in>set (as_bytes v). b < 128"
    by (metis in_set_conv_nth uuid_byte_valid_ascii)
  then have "as_bytes v = v" by (rule as_bytes_ascii)
  with len ok show ?R by simp
next
  assume R: ?R
  then have "\<forall>c\<in>set v. c < 128"
    by (metis in_set_conv_nth uuid_byte_valid_ascii)
  then have "as_bytes v = v" by (rule as_bytes_ascii_text)
  with R show ?L by (auto simp: validate_uuid_def validate_uuid_bytes_ok)
qed

subsection \<open>Procedure identifiers are lowercase kebab case\<close>

definition kebab_byte :: "byte \<Rightarrow> bool" where
  "kebab_byte b \<longleftrightarrow> is_ascii_lowercase b \<or> is_ascii_digit b"

definition kebab_words :: "byte list list \<Rightarrow> bool" where
  "kebab_words ws \<longleftrightarrow> ws \<noteq> [] \<and> (\<forall>w\<in>set ws. w \<noteq> [] \<and> (\<forall>b\<in>set w. kebab_byte b))"

lemma kebab_byte_not_hyphen: "kebab_byte b \<Longrightarrow> b \<noteq> 45 \<and> b < 128"
  by (auto simp: kebab_byte_def ascii_classes)

lemma validate_identifier_bytes_ok:
  "validate_identifier_bytes f prev bs = Inr () \<longleftrightarrow>
     (\<forall>w\<in>set (split_on 45 bs). \<forall>b\<in>set w. kebab_byte b) \<and>
     [] \<notin> set (butlast (tl (split_on 45 bs))) \<and>
     (prev \<and> hd (split_on 45 bs) = [] \<longrightarrow> tl (split_on 45 bs) = [])"
proof (induction bs arbitrary: prev)
  case Nil
  then show ?case by simp
next
  case (Cons b bs)
  obtain w ws where ws: "split_on 45 bs = w # ws"
    by (metis neq_Nil_conv split_on_not_Nil)
  show ?case
  proof (cases "kebab_byte b")
    case True
    then have "b \<noteq> 45" by (simp add: kebab_byte_not_hyphen)
    with True Cons.IH[of False] show ?thesis by (auto simp: ws kebab_byte_def)
  next
    case False
    then show ?thesis using Cons.IH[of True] by (cases "b = 45") (auto simp: ws kebab_byte_def)
  qed
qed

lemma last_split_on_Nil:
  "s \<noteq> [] \<Longrightarrow> last (split_on d s) = [] \<longleftrightarrow> last s = d"
proof (induction s)
  case Nil
  then show ?case by simp
next
  case (Cons c s)
  obtain w ws where ws: "split_on d s = w # ws"
    by (metis neq_Nil_conv split_on_not_Nil)
  show ?case
  proof (cases "s = []")
    case True
    then show ?thesis by simp
  next
    case False
    with Cons.IH ws have IH: "last (w # ws) = [] \<longleftrightarrow> last s = d" by simp
    have "w = [] \<Longrightarrow> ws = [] \<Longrightarrow> s = []"
      using join_split_on[of d s] ws by simp
    with IH False ws show ?thesis by (cases "c = d") auto
  qed
qed

lemma set_hd_mid_last: "xs \<noteq> [] \<Longrightarrow> x \<in> set xs \<longleftrightarrow> x = hd xs \<or> x = last xs \<or> x \<in> set (butlast (tl xs))"
proof (cases xs)
  case (Cons a ys)
  then show ?thesis by (cases ys rule: rev_cases) auto
qed simp

lemma identifier_words_ok:
  assumes "bs \<noteq> []"
  shows "is_ascii_lowercase (hd bs) \<and> last bs \<noteq> 45 \<and> validate_identifier_bytes f False bs = Inr ()
    \<longleftrightarrow> kebab_words (split_on 45 bs) \<and> is_ascii_lowercase (hd bs)"
proof -
  obtain b bs' where bs: "bs = b # bs'" using assms by (cases bs) auto
  have hd_ne: "hd (split_on 45 bs) \<noteq> []" if "is_ascii_lowercase (hd bs)"
    using that by (auto simp: bs ascii_classes split: list.splits)
  have "[] \<in> set (split_on 45 bs) \<longleftrightarrow>
      hd (split_on 45 bs) = [] \<or> last bs = 45 \<or> [] \<in> set (butlast (tl (split_on 45 bs)))"
    using set_hd_mid_last[OF split_on_not_Nil, of "[]" 45 bs] last_split_on_Nil[OF assms, of 45]
    by (auto dest: sym)
  with hd_ne show ?thesis
    by (auto simp: validate_identifier_bytes_ok kebab_words_def)
qed

lemma identifier_words_ascii:
  assumes "kebab_words ws"
  shows "\<forall>b\<in>set (join_with 45 ws). b < 128"
  using assms
proof (induction "45 :: nat" ws rule: join_with.induct)
  case 1
  then show ?case by simp
next
  case (2 w)
  then show ?case by (auto simp: kebab_words_def kebab_byte_not_hyphen)
next
  case (3 w v ws)
  then show ?case by (auto simp: kebab_words_def kebab_byte_not_hyphen)
qed

text \<open>
  C36: \<open>validate_procedure_identifier\<close> accepts exactly the texts of at most 64 bytes that are one or
  more non-empty words over \<open>[a-z0-9]\<close> joined by single hyphens, the first character a letter.
\<close>

theorem validate_procedure_identifier_grammar:
  "validate_procedure_identifier v f = Inr () \<longleftrightarrow>
     (\<exists>ws. kebab_words ws \<and> v = join_with 45 ws \<and> is_ascii_lowercase (hd v) \<and> length v \<le> 64)"
  (is "?L \<longleftrightarrow> ?R")
proof
  assume ?L
  then have ne: "as_bytes v \<noteq> []" and len: "length (as_bytes v) \<le> 64"
    and "is_ascii_lowercase (hd (as_bytes v)) \<and> last (as_bytes v) \<noteq> 45 \<and>
         validate_identifier_bytes f False (as_bytes v) = Inr ()"
    by (auto simp: validate_procedure_identifier_def Let_def MAX_PROCEDURE_IDENTIFIER_BYTES_def
        last_opt_def split: if_splits)
  then have k: "kebab_words (split_on 45 (as_bytes v))" "is_ascii_lowercase (hd (as_bytes v))"
    by (auto simp: identifier_words_ok)
  then have "\<forall>b\<in>set (as_bytes v). b < 128"
    using identifier_words_ascii[OF k(1)] by (simp add: join_split_on)
  then have "as_bytes v = v" by (rule as_bytes_ascii)
  with k len have "kebab_words (split_on 45 v) \<and> v = join_with 45 (split_on 45 v) \<and>
      is_ascii_lowercase (hd v) \<and> length v \<le> 64"
    by (simp add: join_split_on)
  then show ?R by blast
next
  assume ?R
  then obtain ws where ws: "kebab_words ws" and v: "v = join_with 45 ws"
    and hd: "is_ascii_lowercase (hd v)" and len: "length v \<le> 64" by blast
  have b: "as_bytes v = v"
    using identifier_words_ascii[OF ws] v by (simp add: as_bytes_ascii_text)
  have "\<forall>w\<in>set ws. 45 \<notin> set w" using ws unfolding kebab_words_def by (meson kebab_byte_not_hyphen)
  then have sp: "split_on 45 v = ws" using ws v by (simp add: split_on_join kebab_words_def)
  have "v \<noteq> []" using sp ws by (auto simp: kebab_words_def)
  then have "is_ascii_lowercase (hd v) \<and> last v \<noteq> 45 \<and> validate_identifier_bytes f False v = Inr ()"
    using identifier_words_ok[of v f] sp ws hd by simp
  with \<open>v \<noteq> []\<close> len b show ?L
    by (simp add: validate_procedure_identifier_def MAX_PROCEDURE_IDENTIFIER_BYTES_def last_opt_def)
qed

subsection \<open>Digests and media types\<close>

lemma lit_sha256: "lit ''sha256:'' = [115, 104, 97, 50, 53, 54, 58]"
  by (simp add: lit_def)

text \<open>
  A digest is accepted exactly when it is \<open>sha256:\<close> followed by 64 lowercase hexadecimal
  digits; every other text, in whatever encoding, is rejected.
\<close>

theorem validate_sha256_digest_grammar:
  "validate_sha256_digest v = Inr () \<longleftrightarrow>
     (\<exists>h. v = lit ''sha256:'' @ h \<and> length h = 64 \<and> set h \<subseteq> Collect is_lower_hex)"
  (is "?L \<longleftrightarrow> ?R")
proof
  assume ?L
  then have len: "length (as_bytes v) = 71" and pre: "starts_with v (lit ''sha256:'')"
    and hex: "\<forall>b\<in>set (drop 7 (as_bytes v)). is_lower_hex b"
    by (auto simp: validate_sha256_digest_def Let_def is_lower_hex_def split: if_splits)
  from pre obtain h where v: "v = lit ''sha256:'' @ h" by (auto simp: starts_with_iff)
  have bytes: "as_bytes v = lit ''sha256:'' @ as_bytes h"
    by (simp add: v as_bytes_ascii_text lit_sha256)
  with hex have hh: "\<forall>b\<in>set (as_bytes h). is_lower_hex b" by (simp add: lit_sha256)
  then have "\<forall>b\<in>set (as_bytes h). b < 128" by (auto simp: ascii_classes)
  then have "as_bytes h = h" by (rule as_bytes_ascii)
  with v bytes len hh show ?R by (auto simp: lit_sha256)
next
  assume ?R
  then obtain h where v: "v = lit ''sha256:'' @ h" and h: "length h = 64" "\<forall>b\<in>set h. is_lower_hex b"
    by blast
  then have "as_bytes h = h" by (intro as_bytes_ascii_text) (auto simp: ascii_classes)
  then have "as_bytes v = lit ''sha256:'' @ h" by (simp add: v as_bytes_ascii_text lit_sha256)
  with v h show ?L
    by (auto simp: validate_sha256_digest_def lit_sha256 is_lower_hex_def)
qed

subsection \<open>Source labels\<close>

lemma source_label_from_parts_ok:
  "ProcedureSourceLabelV1_from_parts k l = Inr p \<Longrightarrow>
     \<not> starts_with l (lit ''preset:'') \<and> \<not> starts_with l (lit ''procedure:'') \<and>
     source_kind p = k \<and> source_label p = l \<and>
     source_display p = (case k of SourcePreset \<Rightarrow> lit ''preset:'' | SourceFile \<Rightarrow> lit ''procedure:'') @ l"
  by (auto simp: ProcedureSourceLabelV1_from_parts_def Let_def split: if_splits ProcedureSourceKindV1.splits)

lemma strip_prefix_other: "strip_prefix (lit ''preset:'') (lit ''procedure:'' @ l) = None"
  by (simp add: strip_prefix_def lit_def)

text \<open>
  C37: parsing the display form of an admitted procedure source label gives the same label back, for
  preset and for file sources.
\<close>

theorem source_label_round_trip:
  assumes "ProcedureSourceLabelV1_from_parts k l = Inr p"
  shows "ProcedureSourceLabelV1_new (source_display p) = Inr p"
proof -
  from source_label_from_parts_ok[OF assms]
  have "source_display p = (case k of SourcePreset \<Rightarrow> lit ''preset:'' | SourceFile \<Rightarrow> lit ''procedure:'') @ l"
    by simp
  with assms show ?thesis
    by (cases k) (simp_all add: ProcedureSourceLabelV1_new_def strip_prefix_other)
qed

theorem source_label_round_trip_witness:
  "ProcedureSourceLabelV1_new (lit ''preset:sw-dev-v2'') =
     Inr \<lparr>source_kind = SourcePreset, source_label = lit ''sw-dev-v2'',
          source_display = lit ''preset:sw-dev-v2''\<rparr>"
proof -
  have "ProcedureSourceLabelV1_from_parts SourcePreset (lit ''sw-dev-v2'') =
     Inr \<lparr>source_kind = SourcePreset, source_label = lit ''sw-dev-v2'',
          source_display = lit ''preset:sw-dev-v2''\<rparr>"
    by (simp add: ProcedureSourceLabelV1_from_parts_def lit_def trim_def is_whitespace_def Let_def)
  from source_label_round_trip[OF this] show ?thesis by simp
qed

subsection \<open>Artifact paths stay inside the worktree\<close>

text \<open>
  The reference semantics of a POSIX path below a root directory: \<open>dirs\<close> is the stack of
  directories entered so far, \<open>None\<close> is leaving the root (by an absolute path or by \<open>..\<close>).
\<close>

fun enter_components :: "str list \<Rightarrow> str list \<Rightarrow> str list option" where
  "enter_components dirs [] = Some dirs"
| "enter_components dirs (c # cs) =
     (if c = [] \<or> c = lit ''.'' then enter_components dirs cs
      else if c = lit ''..'' then (case dirs of [] \<Rightarrow> None | _ # up \<Rightarrow> enter_components up cs)
      else enter_components (c # dirs) cs)"

definition resolve_below_root :: "str \<Rightarrow> str list option" where
  "resolve_below_root path =
     (if starts_with path (lit ''/'') then None
      else map_option rev (enter_components [] (split_on 47 path)))"

lemma enter_plain_components:
  "\<forall>c\<in>set cs. c \<noteq> [] \<and> c \<noteq> lit ''.'' \<and> c \<noteq> lit ''..'' \<Longrightarrow>
     enter_components dirs cs = Some (rev cs @ dirs)"
  by (induction cs arbitrary: dirs) auto

text \<open>
  C35: every path admitted for a local artifact resolves to a proper descendant of the worktree
  root, component by component as written: it is never absolute and never climbs out.
\<close>

theorem artifact_path_stays_inside:
  assumes "ArtifactValueV1_local_path path digest n media = Inr a"
  shows "location a = path \<and> resolve_below_root path = Some (split_on 47 path) \<and>
         split_on 47 path \<noteq> [] \<and> [] \<notin> set (split_on 47 path) \<and> byte_len path \<le> 4000"
proof -
  from assms have ok: "validate_safe_local_path path = Inr ()" and loc: "location a = path"
    by (auto simp: ArtifactValueV1_local_path_def ArtifactValueV1_new_def)
  then have abs: "\<not> starts_with path (lit ''/'')" and len: "byte_len path \<le> 4000"
    and plain: "\<forall>c\<in>set (split_on 47 path). c \<noteq> [] \<and> c \<noteq> lit ''.'' \<and> c \<noteq> lit ''..''"
    by (auto simp: validate_safe_local_path_def split: if_splits)
  from plain enter_plain_components[OF plain, of "[]"] abs loc len show ?thesis
    by (auto simp: resolve_below_root_def)
qed

theorem artifact_path_stays_inside_witness:
  "resolve_below_root (lit ''out/report.txt'') = Some [lit ''out'', lit ''report.txt'']"
proof -
  have "ArtifactValueV1_local_path (lit ''out/report.txt'') (Sha256Digest []) 0 (lit ''text/plain'') =
     Inr \<lparr>location_kind = LocalPath, location = lit ''out/report.txt'', artifact_digest = Sha256Digest [],
          size_bytes = 0, artifact_media_type = lit ''text/plain''\<rparr>"
    by (simp add: ArtifactValueV1_local_path_def ArtifactValueV1_new_def validate_safe_local_path_def
        validate_media_type_def lit_def byte_len_def is_control_def is_media_token_def ascii_classes)
  from artifact_path_stays_inside[OF this] show ?thesis by (simp add: lit_def)
qed

end
