(* ===== verification/Session_Trace.thy ===== *)
theory Session_Trace
  imports Domain_Values
begin

text \<open>
  The session cursor and execution trace of \<open>session_v2.rs\<close>: the three checked counters, one
  attempt, the terminal disposition and \<open>SessionTraceV2\<close> with its trust-boundary reconstruction
  and its mutating operations. A method on \<open>&mut self\<close> is a function from the trace to its result
  and the trace afterwards, so what a failing call leaves behind is part of the model.
\<close>

section \<open>Checked counters\<close>

datatype TraceSequenceV2 = TraceSequenceV2 (trace_get: u64)
datatype AttemptNumberV2 = AttemptNumberV2 (number_get: u64)
datatype GoalRevisionNumberV2 = GoalRevisionNumberV2 (goal_get: u64)

text \<open>The derived \<open>Ord\<close> of the newtypes compares the wrapped integers.\<close>

instantiation TraceSequenceV2 :: linorder
begin
definition less_eq_TraceSequenceV2 :: "TraceSequenceV2 \<Rightarrow> TraceSequenceV2 \<Rightarrow> bool" where
  "less_eq_TraceSequenceV2 a b \<longleftrightarrow> trace_get a \<le> trace_get b"
definition less_TraceSequenceV2 :: "TraceSequenceV2 \<Rightarrow> TraceSequenceV2 \<Rightarrow> bool" where
  "less_TraceSequenceV2 a b \<longleftrightarrow> trace_get a < trace_get b"
instance
  by standard (auto simp: less_eq_TraceSequenceV2_def less_TraceSequenceV2_def TraceSequenceV2.expand)
end

instantiation AttemptNumberV2 :: linorder
begin
definition less_eq_AttemptNumberV2 :: "AttemptNumberV2 \<Rightarrow> AttemptNumberV2 \<Rightarrow> bool" where
  "less_eq_AttemptNumberV2 a b \<longleftrightarrow> number_get a \<le> number_get b"
definition less_AttemptNumberV2 :: "AttemptNumberV2 \<Rightarrow> AttemptNumberV2 \<Rightarrow> bool" where
  "less_AttemptNumberV2 a b \<longleftrightarrow> number_get a < number_get b"
instance
  by standard (auto simp: less_eq_AttemptNumberV2_def less_AttemptNumberV2_def AttemptNumberV2.expand)
end

instantiation GoalRevisionNumberV2 :: linorder
begin
definition less_eq_GoalRevisionNumberV2 :: "GoalRevisionNumberV2 \<Rightarrow> GoalRevisionNumberV2 \<Rightarrow> bool" where
  "less_eq_GoalRevisionNumberV2 a b \<longleftrightarrow> goal_get a \<le> goal_get b"
definition less_GoalRevisionNumberV2 :: "GoalRevisionNumberV2 \<Rightarrow> GoalRevisionNumberV2 \<Rightarrow> bool" where
  "less_GoalRevisionNumberV2 a b \<longleftrightarrow> goal_get a < goal_get b"
instance
  by standard
    (auto simp: less_eq_GoalRevisionNumberV2_def less_GoalRevisionNumberV2_def GoalRevisionNumberV2.expand)
end

lemmas counter_order =
  less_eq_TraceSequenceV2_def less_TraceSequenceV2_def
  less_eq_AttemptNumberV2_def less_AttemptNumberV2_def
  less_eq_GoalRevisionNumberV2_def less_GoalRevisionNumberV2_def

definition TraceSequenceV2_FIRST :: TraceSequenceV2 where
  "TraceSequenceV2_FIRST = TraceSequenceV2 1"

definition AttemptNumberV2_FIRST :: AttemptNumberV2 where
  "AttemptNumberV2_FIRST = AttemptNumberV2 1"

definition GoalRevisionNumberV2_FIRST :: GoalRevisionNumberV2 where
  "GoalRevisionNumberV2_FIRST = GoalRevisionNumberV2 1"

lemmas counter_firsts = TraceSequenceV2_FIRST_def AttemptNumberV2_FIRST_def GoalRevisionNumberV2_FIRST_def

definition TraceSequenceV2_checked_next :: "TraceSequenceV2 \<Rightarrow> DomainError + TraceSequenceV2" where
  "TraceSequenceV2_checked_next s =
     ok_or (RevisionOverflow (Revision (trace_get s)))
       (map_option TraceSequenceV2 (checked_succ (trace_get s)))"

definition AttemptNumberV2_checked_next :: "AttemptNumberV2 \<Rightarrow> DomainError + AttemptNumberV2" where
  "AttemptNumberV2_checked_next n =
     ok_or (RevisionOverflow (Revision (number_get n)))
       (map_option AttemptNumberV2 (checked_succ (number_get n)))"

definition GoalRevisionNumberV2_checked_next ::
    "GoalRevisionNumberV2 \<Rightarrow> DomainError + GoalRevisionNumberV2" where
  "GoalRevisionNumberV2_checked_next g =
     ok_or (RevisionOverflow (Revision (goal_get g)))
       (map_option GoalRevisionNumberV2 (checked_succ (goal_get g)))"

section \<open>Attempts\<close>

datatype AttemptValidityV2 = Valid | Stale

definition is_valid :: "AttemptValidityV2 \<Rightarrow> bool" where
  "is_valid v = (case v of Valid \<Rightarrow> True | Stale \<Rightarrow> False)"

record SessionAttemptV2 =
  att_attempt_id :: AttemptId
  att_graph_node_id :: GraphNodeId
  att_number :: AttemptNumberV2
  att_trace :: TraceSequenceV2
  att_lifecycle :: AttemptLifecycle
  att_validity :: AttemptValidityV2
  att_goal_revision :: "GoalRevisionNumberV2 option"

definition SessionAttemptV2_new ::
    "AttemptId \<Rightarrow> GraphNodeId \<Rightarrow> AttemptNumberV2 \<Rightarrow> TraceSequenceV2 \<Rightarrow> AttemptLifecycle \<Rightarrow>
     AttemptValidityV2 \<Rightarrow> GoalRevisionNumberV2 option \<Rightarrow> DomainError + SessionAttemptV2" where
  "SessionAttemptV2_new aid node number tr lifecycle validity goal =
     (if number < AttemptNumberV2_FIRST then Inl (invalid ''attempt number must be nonzero'')
      else if tr < TraceSequenceV2_FIRST then Inl (invalid ''trace sequence must be nonzero'')
      else if is_some_and goal (\<lambda>g. g < GoalRevisionNumberV2_FIRST)
        then Inl (invalid ''goal revision must be nonzero'')
      else if lifecycle = AttemptActive \<and> \<not> is_valid validity
        then Inl (invalid ''an active attempt must be valid'')
      else if lifecycle = AttemptAbandoned \<and> is_valid validity
        then Inl (invalid ''an abandoned attempt must be stale'')
      else Inr \<lparr>att_attempt_id = aid, att_graph_node_id = node, att_number = number, att_trace = tr,
                att_lifecycle = lifecycle, att_validity = validity, att_goal_revision = goal\<rparr>)"

definition is_active :: "SessionAttemptV2 \<Rightarrow> bool" where
  "is_active a \<longleftrightarrow> att_lifecycle a = AttemptActive"

record ActiveCursorV2 =
  cur_graph_node_id :: GraphNodeId
  cur_attempt_id :: AttemptId
  cur_trace :: TraceSequenceV2

definition ActiveCursorV2_from_attempt :: "SessionAttemptV2 \<Rightarrow> ActiveCursorV2" where
  "ActiveCursorV2_from_attempt a =
     \<lparr>cur_graph_node_id = att_graph_node_id a, cur_attempt_id = att_attempt_id a,
      cur_trace = att_trace a\<rparr>"

datatype AdvanceTerminalV2 = AdvanceCompleted | AdvanceSkipped

definition terminal_lifecycle :: "AdvanceTerminalV2 \<Rightarrow> AttemptLifecycle" where
  "terminal_lifecycle p = (case p of AdvanceCompleted \<Rightarrow> AttemptCompleted | AdvanceSkipped \<Rightarrow> AttemptSkipped)"

section \<open>The trace and its reconstruction\<close>

record SessionTraceV2 =
  tr_session_id :: SessionId
  tr_lifecycle :: SessionLifecycle
  tr_revision :: Revision
  tr_attempts :: "SessionAttemptV2 list"

text \<open>
  The reconstruction loop: the \<open>BTreeSet\<close>s of attempt identifiers and of nodes with a valid
  attempt, the \<open>BTreeMap\<close> of the last attempt number per node and the expected trace sequence.
\<close>

definition check_attempt_number ::
    "(GraphNodeId \<rightharpoonup> AttemptNumberV2) \<Rightarrow> SessionAttemptV2 \<Rightarrow> DomainError + unit" where
  "check_attempt_number numbers a =
     (case numbers (att_graph_node_id a) of
        None \<Rightarrow>
          if att_number a \<noteq> AttemptNumberV2_FIRST
          then Inl (invalid ''a node's first attempt number must be FIRST'')
          else Inr ()
      | Some previous \<Rightarrow>
          rbind (AttemptNumberV2_checked_next previous) (\<lambda>expected.
            if att_number a \<noteq> expected
            then Inl (invalid ''attempt numbers must increase by one per graph node'')
            else Inr ()))"

fun validate_reconstruction_loop ::
    "AttemptId set \<Rightarrow> (GraphNodeId \<rightharpoonup> AttemptNumberV2) \<Rightarrow> GraphNodeId set \<Rightarrow> TraceSequenceV2 \<Rightarrow>
     SessionAttemptV2 list \<Rightarrow> DomainError + unit" where
  "validate_reconstruction_loop ids numbers valids next_trace [] = Inr ()"
| "validate_reconstruction_loop ids numbers valids next_trace (a # rest) =
     (if att_trace a \<noteq> next_trace
      then Inl (invalid ''trace sequence numbers must start at FIRST and be consecutive'')
      else rbind (TraceSequenceV2_checked_next next_trace) (\<lambda>next_trace'.
        if is_some_and (att_goal_revision a) (\<lambda>g. g < GoalRevisionNumberV2_FIRST)
        then Inl (invalid ''goal revision must be nonzero'')
        else if att_attempt_id a \<in> ids
        then Inl (invalid ''attempt identifiers must be globally unique'')
        else rbind (check_attempt_number numbers a) (\<lambda>_.
            if is_valid (att_validity a) \<and> att_graph_node_id a \<in> valids
            then Inl (invalid ''a graph node has more than one valid attempt'')
            else validate_reconstruction_loop (insert (att_attempt_id a) ids)
                   (numbers(att_graph_node_id a \<mapsto> att_number a))
                   (if is_valid (att_validity a) then insert (att_graph_node_id a) valids else valids)
                   next_trace' rest)))"

definition validate_reconstruction :: "SessionAttemptV2 list \<Rightarrow> DomainError + unit" where
  "validate_reconstruction attempts =
     validate_reconstruction_loop {} Map.empty {} TraceSequenceV2_FIRST attempts"

definition SessionTraceV2_from_parts ::
    "SessionId \<Rightarrow> SessionLifecycle \<Rightarrow> Revision \<Rightarrow> SessionAttemptV2 list \<Rightarrow> DomainError + SessionTraceV2" where
  "SessionTraceV2_from_parts sid lifecycle revision attempts =
     rbind (validate_reconstruction attempts) (\<lambda>_.
       let active_count = length (filter is_active attempts);
           trace = \<lparr>tr_session_id = sid, tr_lifecycle = lifecycle, tr_revision = revision,
                    tr_attempts = attempts\<rparr>;
           terminal = (\<lambda>shape.
             if revision = Revision_ZERO
             then Inl (invalid ''a terminal session requires a nonzero revision'')
             else if active_count \<noteq> 0
             then Inl (invalid ''a terminal session must have no active attempt'')
             else case last_opt attempts of
               None \<Rightarrow> Inl (invalid ''a terminal session requires an attempt'')
             | Some l \<Rightarrow>
                 if \<not> shape l then Inl (invalid ''the terminal session attempt is inconsistent'')
                 else Inr trace)
       in case lifecycle of
         SessionPrepared \<Rightarrow>
           if revision \<noteq> Revision_ZERO \<or> attempts \<noteq> []
           then Inl (invalid ''a prepared session requires revision zero and no attempts'')
           else Inr trace
       | SessionRunning \<Rightarrow>
           if revision = Revision_ZERO
           then Inl (invalid ''a running session requires a nonzero revision'')
           else if active_count \<noteq> 1
           then Inl (invalid ''a running session requires exactly one active attempt'')
           else if \<not> is_some_and (last_opt attempts) is_active
           then Inl (invalid ''the active attempt must be the last trace member'')
           else Inr trace
       | SessionCompleted \<Rightarrow>
           terminal (\<lambda>l. (att_lifecycle l = AttemptCompleted \<or> att_lifecycle l = AttemptSkipped) \<and>
                         is_valid (att_validity l))
       | SessionCancelled \<Rightarrow>
           terminal (\<lambda>l. att_lifecycle l = AttemptAbandoned \<and> \<not> is_valid (att_validity l)))"

definition SessionTraceV2_prepared :: "SessionId \<Rightarrow> SessionTraceV2" where
  "SessionTraceV2_prepared sid =
     \<lparr>tr_session_id = sid, tr_lifecycle = SessionPrepared, tr_revision = Revision_ZERO,
      tr_attempts = []\<rparr>"

definition first_attempt ::
    "GraphNodeId \<Rightarrow> AttemptId \<Rightarrow> GoalRevisionNumberV2 option \<Rightarrow> DomainError + SessionAttemptV2" where
  "first_attempt entry_node aid goal =
     SessionAttemptV2_new aid entry_node AttemptNumberV2_FIRST TraceSequenceV2_FIRST
       AttemptActive Valid goal"

definition SessionTraceV2_start ::
    "SessionId \<Rightarrow> GraphNodeId \<Rightarrow> AttemptId \<Rightarrow> GoalRevisionNumberV2 option \<Rightarrow>
     DomainError + SessionTraceV2" where
  "SessionTraceV2_start sid entry_node aid goal =
     rbind (first_attempt entry_node aid goal) (\<lambda>a.
       Inr \<lparr>tr_session_id = sid, tr_lifecycle = SessionRunning, tr_revision = Revision 1,
            tr_attempts = [a]\<rparr>)"

definition active_attempt :: "SessionTraceV2 \<Rightarrow> SessionAttemptV2 option" where
  "active_attempt t = find is_active (tr_attempts t)"

definition active_cursor :: "SessionTraceV2 \<Rightarrow> ActiveCursorV2 option" where
  "active_cursor t = map_option ActiveCursorV2_from_attempt (active_attempt t)"

section \<open>Read-only preparation\<close>

definition require_running_active :: "SessionTraceV2 \<Rightarrow> AttemptId \<Rightarrow> DomainError + nat" where
  "require_running_active t expected =
     (if tr_lifecycle t \<noteq> SessionRunning then Inl (invalid ''the session is not running'')
      else rbind (ok_or (AttemptNotCurrent expected None) (position is_active (tr_attempts t))) (\<lambda>i.
        if att_attempt_id (tr_attempts t ! i) \<noteq> expected
        then Inl (AttemptNotCurrent expected (Some (att_attempt_id (tr_attempts t ! i))))
        else Inr i))"

definition valid_attempt_trace :: "SessionTraceV2 \<Rightarrow> GraphNodeId \<Rightarrow> TraceSequenceV2 option" where
  "valid_attempt_trace t node =
     map_option att_trace
       (find (\<lambda>a. is_valid (att_validity a) \<and> att_graph_node_id a = node) (tr_attempts t))"

definition next_trace :: "SessionTraceV2 \<Rightarrow> DomainError + TraceSequenceV2" where
  "next_trace t =
     (case last_opt (tr_attempts t) of
        Some a \<Rightarrow> TraceSequenceV2_checked_next (att_trace a)
      | None \<Rightarrow> Inr TraceSequenceV2_FIRST)"

definition next_attempt_number_for :: "SessionTraceV2 \<Rightarrow> GraphNodeId \<Rightarrow> DomainError + AttemptNumberV2" where
  "next_attempt_number_for t node =
     (case find (\<lambda>a. att_graph_node_id a = node) (rev (tr_attempts t)) of
        Some a \<Rightarrow> AttemptNumberV2_checked_next (att_number a)
      | None \<Rightarrow> Inr AttemptNumberV2_FIRST)"

definition prepare_fresh ::
    "SessionTraceV2 \<Rightarrow> GraphNodeId \<Rightarrow> AttemptId \<Rightarrow> GoalRevisionNumberV2 option \<Rightarrow>
     DomainError + SessionAttemptV2 \<times> Revision" where
  "prepare_fresh t node fresh_id goal =
     (if \<exists>a\<in>set (tr_attempts t). att_attempt_id a = fresh_id
      then Inl (invalid ''attempt identifiers must be globally unique'')
      else rbind (next_attempt_number_for t node) (\<lambda>number.
        rbind (next_trace t) (\<lambda>tr.
          rbind (Revision_checked_next (tr_revision t)) (\<lambda>next_revision.
            rbind (SessionAttemptV2_new fresh_id node number tr AttemptActive Valid goal) (\<lambda>a.
              Inr (a, next_revision))))))"

section \<open>Mutating operations\<close>

text \<open>
  \<open>modify\<close> is the assignment through \<open>self.attempts[index]\<close>; the index always comes from
  \<open>position\<close>, so it is in range.
\<close>

definition modify :: "nat \<Rightarrow> ('a \<Rightarrow> 'a) \<Rightarrow> 'a list \<Rightarrow> 'a list" where
  "modify i f xs = xs[i := f (xs ! i)]"

definition stale_from :: "TraceSequenceV2 \<Rightarrow> SessionAttemptV2 \<Rightarrow> SessionAttemptV2" where
  "stale_from from_trace a =
     (if is_valid (att_validity a) \<and> from_trace \<le> att_trace a then a\<lparr>att_validity := Stale\<rparr> else a)"

definition stale_suffix_from_trace :: "TraceSequenceV2 \<Rightarrow> SessionAttemptV2 list \<Rightarrow> SessionAttemptV2 list" where
  "stale_suffix_from_trace from_trace attempts = map (stale_from from_trace) attempts"

type_synonym 's outcome = "(DomainError + unit) \<times> 's"

text \<open>\<open>try_mut r t f\<close>: propagate a failing read with \<open>?\<close> before anything is written.\<close>

definition try_mut :: "DomainError + 'a \<Rightarrow> 's \<Rightarrow> ('a \<Rightarrow> 's outcome) \<Rightarrow> 's outcome" where
  "try_mut r t f = (case r of Inl e \<Rightarrow> (Inl e, t) | Inr x \<Rightarrow> f x)"

definition SessionTraceV2_begin ::
    "SessionTraceV2 \<Rightarrow> GraphNodeId \<Rightarrow> AttemptId \<Rightarrow> GoalRevisionNumberV2 option \<Rightarrow> SessionTraceV2 outcome" where
  "SessionTraceV2_begin t entry_node aid goal =
     (if tr_lifecycle t \<noteq> SessionPrepared \<or> tr_revision t \<noteq> Revision_ZERO \<or> tr_attempts t \<noteq> []
      then (Inl (invalid ''only a prepared session may begin''), t)
      else try_mut (first_attempt entry_node aid goal) t (\<lambda>a.
        (Inr (), t\<lparr>tr_attempts := tr_attempts t @ [a], tr_lifecycle := SessionRunning,
                    tr_revision := Revision 1\<rparr>)))"

definition bind_initial_goal_revision :: "SessionTraceV2 \<Rightarrow> AttemptId \<Rightarrow> SessionTraceV2 outcome" where
  "bind_initial_goal_revision t expected_active =
     try_mut (require_running_active t expected_active) t (\<lambda>i.
       if att_goal_revision (tr_attempts t ! i) \<noteq> None
       then (Inl (invalid ''the active attempt already has a goal revision''), t)
       else
         let t' = t\<lparr>tr_attempts :=
               modify i (\<lambda>a. a\<lparr>att_goal_revision := Some GoalRevisionNumberV2_FIRST\<rparr>) (tr_attempts t)\<rparr>
         in try_mut (Revision_checked_next (tr_revision t')) t' (\<lambda>r.
              (Inr (), t'\<lparr>tr_revision := r\<rparr>)))"

definition bind_initial_goal_revision_at_start :: "SessionTraceV2 \<Rightarrow> AttemptId \<Rightarrow> SessionTraceV2 outcome" where
  "bind_initial_goal_revision_at_start t expected_active =
     (if tr_revision t \<noteq> Revision 1 \<or> length (tr_attempts t) \<noteq> 1
      then (Inl (invalid ''initial goal admission requires a fresh session trace''), t)
      else try_mut (require_running_active t expected_active) t (\<lambda>i.
        if att_goal_revision (tr_attempts t ! i) \<noteq> None
        then (Inl (invalid ''the active attempt already has a goal revision''), t)
        else (Inr (), t\<lparr>tr_attempts :=
               modify i (\<lambda>a. a\<lparr>att_goal_revision := Some GoalRevisionNumberV2_FIRST\<rparr>) (tr_attempts t)\<rparr>)))"

definition SessionTraceV2_advance ::
    "SessionTraceV2 \<Rightarrow> AttemptId \<Rightarrow> AdvanceTerminalV2 \<Rightarrow> GraphNodeId \<Rightarrow> AttemptId \<Rightarrow>
     GoalRevisionNumberV2 option \<Rightarrow> SessionTraceV2 outcome" where
  "SessionTraceV2_advance t expected_active prior_terminal next_node fresh_id goal =
     try_mut (require_running_active t expected_active) t (\<lambda>i.
       if valid_attempt_trace t next_node \<noteq> None
       then (Inl (invalid ''the target graph node already has a valid attempt''), t)
       else try_mut (prepare_fresh t next_node fresh_id goal) t (\<lambda>(fresh, next_revision).
         (Inr (), t\<lparr>tr_attempts :=
              modify i (\<lambda>a. a\<lparr>att_lifecycle := terminal_lifecycle prior_terminal\<rparr>) (tr_attempts t) @ [fresh],
            tr_revision := next_revision\<rparr>)))"

definition SessionTraceV2_finish ::
    "SessionTraceV2 \<Rightarrow> AttemptId \<Rightarrow> AdvanceTerminalV2 \<Rightarrow> SessionTraceV2 outcome" where
  "SessionTraceV2_finish t expected_active prior_terminal =
     try_mut (require_running_active t expected_active) t (\<lambda>i.
       try_mut (Revision_checked_next (tr_revision t)) t (\<lambda>next_revision.
         (Inr (), t\<lparr>tr_attempts :=
              modify i (\<lambda>a. a\<lparr>att_lifecycle := terminal_lifecycle prior_terminal\<rparr>) (tr_attempts t),
            tr_lifecycle := SessionCompleted, tr_revision := next_revision\<rparr>)))"

definition SessionTraceV2_retry ::
    "SessionTraceV2 \<Rightarrow> AttemptId \<Rightarrow> AttemptId \<Rightarrow> GoalRevisionNumberV2 option \<Rightarrow> SessionTraceV2 outcome" where
  "SessionTraceV2_retry t expected_active fresh_id goal =
     try_mut (require_running_active t expected_active) t (\<lambda>i.
       let node = att_graph_node_id (tr_attempts t ! i) in
       try_mut (prepare_fresh t node fresh_id goal) t (\<lambda>(fresh, next_revision).
         (Inr (), t\<lparr>tr_attempts :=
              modify i (\<lambda>a. a\<lparr>att_lifecycle := AttemptAbandoned, att_validity := Stale\<rparr>) (tr_attempts t)
                @ [fresh],
            tr_revision := next_revision\<rparr>)))"

definition SessionTraceV2_cancel :: "SessionTraceV2 \<Rightarrow> AttemptId \<Rightarrow> SessionTraceV2 outcome" where
  "SessionTraceV2_cancel t expected_active =
     try_mut (require_running_active t expected_active) t (\<lambda>i.
       try_mut (Revision_checked_next (tr_revision t)) t (\<lambda>next_revision.
         (Inr (), t\<lparr>tr_attempts :=
              modify i (\<lambda>a. a\<lparr>att_lifecycle := AttemptAbandoned, att_validity := Stale\<rparr>) (tr_attempts t),
            tr_lifecycle := SessionCancelled, tr_revision := next_revision\<rparr>)))"

definition SessionTraceV2_rework_to ::
    "SessionTraceV2 \<Rightarrow> AttemptId \<Rightarrow> GraphNodeId \<Rightarrow> AttemptId \<Rightarrow> GoalRevisionNumberV2 option \<Rightarrow>
     SessionTraceV2 outcome" where
  "SessionTraceV2_rework_to t expected_active target_node fresh_id goal =
     try_mut (require_running_active t expected_active) t (\<lambda>i.
       try_mut (ok_or (invalid ''rework target has no valid attempt on the trace'')
                  (valid_attempt_trace t target_node)) t (\<lambda>target_trace.
         try_mut (prepare_fresh t target_node fresh_id goal) t (\<lambda>(fresh, next_revision).
           (Inr (), t\<lparr>tr_attempts :=
                stale_suffix_from_trace target_trace
                  (modify i (\<lambda>a. a\<lparr>att_lifecycle := AttemptCompleted\<rparr>) (tr_attempts t)) @ [fresh],
              tr_revision := next_revision\<rparr>))))"

definition SessionTraceV2_manual_rework ::
    "SessionTraceV2 \<Rightarrow> AttemptId option \<Rightarrow> GraphNodeId \<Rightarrow> AttemptId \<Rightarrow> GoalRevisionNumberV2 option \<Rightarrow>
     SessionTraceV2 outcome" where
  "SessionTraceV2_manual_rework t expected_active target_node fresh_id goal =
     (case tr_lifecycle t of
        SessionPrepared \<Rightarrow> (Inl (invalid ''a prepared session cannot be manually reworked''), t)
      | SessionRunning \<Rightarrow>
          try_mut (ok_or (invalid ''running manual rework requires the active attempt'') expected_active) t
            (\<lambda>expected.
             try_mut (require_running_active t expected) t (\<lambda>i.
               try_mut (ok_or (invalid ''rework target has no valid attempt on the trace'')
                          (valid_attempt_trace t target_node)) t (\<lambda>target_trace.
                 try_mut (prepare_fresh t target_node fresh_id goal) t (\<lambda>(fresh, next_revision).
                   (Inr (), t\<lparr>tr_attempts :=
                        stale_suffix_from_trace target_trace
                          (modify i (\<lambda>a. a\<lparr>att_lifecycle := AttemptAbandoned\<rparr>) (tr_attempts t)) @ [fresh],
                      tr_revision := next_revision\<rparr>)))))
      | SessionCompleted \<Rightarrow>
          if expected_active \<noteq> None
          then (Inl (invalid ''completed manual rework accepts no active attempt fence''), t)
          else try_mut (ok_or (invalid ''rework target has no valid attempt on the trace'')
                          (valid_attempt_trace t target_node)) t (\<lambda>target_trace.
                 try_mut (prepare_fresh t target_node fresh_id goal) t (\<lambda>(fresh, next_revision).
                   (Inr (), t\<lparr>tr_attempts :=
                        stale_suffix_from_trace target_trace (tr_attempts t) @ [fresh],
                      tr_lifecycle := SessionRunning, tr_revision := next_revision\<rparr>)))
      | SessionCancelled \<Rightarrow> (Inl (invalid ''a cancelled session cannot be manually reworked''), t))"

section \<open>Terminal dispositions\<close>

datatype TerminalDispositionKindV2 = HandedOff | NotRequired | DispositionSuperseded

record TerminalDispositionV2 =
  disp_session_id :: SessionId
  disp_terminal_session_revision :: Revision
  disp_kind :: TerminalDispositionKindV2
  disp_summary :: "str option"
  disp_stable_reference :: "str option"
  disp_reason :: "str option"
  disp_successor_session_id :: "SessionId option"
  disp_actor :: "ActorAttributionV2 option"
  disp_recorded_at :: UnixMillis

definition MAX_TERMINAL_DISPOSITION_CHARACTERS_V2 :: nat where
  "MAX_TERMINAL_DISPOSITION_CHARACTERS_V2 = 4000"

definition bounded_disposition_text :: "str \<Rightarrow> DomainError + str" where
  "bounded_disposition_text value =
     (if trim value = [] then Inl (invalid ''terminal disposition text must be non-blank'')
      else if length value > MAX_TERMINAL_DISPOSITION_CHARACTERS_V2
      then Inl (ValueTooLong ''terminal disposition text'' MAX_TERMINAL_DISPOSITION_CHARACTERS_V2 (length value))
      else Inr value)"

definition TerminalDispositionV2_new ::
    "SessionId \<Rightarrow> Revision \<Rightarrow> TerminalDispositionKindV2 \<Rightarrow> str option \<Rightarrow> str option \<Rightarrow> str option \<Rightarrow>
     SessionId option \<Rightarrow> ActorAttributionV2 option \<Rightarrow> UnixMillis \<Rightarrow> DomainError + TerminalDispositionV2" where
  "TerminalDispositionV2_new sid revision kind summary stable_reference reason successor actor recorded_at =
     (if revision = Revision_ZERO then Inl (invalid ''terminal disposition revision must be nonzero'')
      else Inr \<lparr>disp_session_id = sid, disp_terminal_session_revision = revision, disp_kind = kind,
                disp_summary = summary, disp_stable_reference = stable_reference, disp_reason = reason,
                disp_successor_session_id = successor, disp_actor = actor, disp_recorded_at = recorded_at\<rparr>)"

definition TerminalDispositionV2_handed_off ::
    "SessionId \<Rightarrow> Revision \<Rightarrow> str \<Rightarrow> str \<Rightarrow> ActorAttributionV2 option \<Rightarrow> UnixMillis \<Rightarrow> DomainError + TerminalDispositionV2" where
  "TerminalDispositionV2_handed_off sid revision summary stable_reference actor recorded_at =
     rbind (bounded_disposition_text summary) (\<lambda>summary'.
       rbind (bounded_disposition_text stable_reference) (\<lambda>reference'.
         TerminalDispositionV2_new sid revision HandedOff (Some summary') (Some reference') None None
           actor recorded_at))"

definition TerminalDispositionV2_not_required ::
    "SessionId \<Rightarrow> Revision \<Rightarrow> str \<Rightarrow> ActorAttributionV2 option \<Rightarrow> UnixMillis \<Rightarrow> DomainError + TerminalDispositionV2" where
  "TerminalDispositionV2_not_required sid revision reason actor recorded_at =
     rbind (bounded_disposition_text reason) (\<lambda>reason'.
       TerminalDispositionV2_new sid revision NotRequired None None (Some reason') None actor recorded_at)"

definition TerminalDispositionV2_superseded ::
    "SessionId \<Rightarrow> Revision \<Rightarrow> str \<Rightarrow> SessionId \<Rightarrow> ActorAttributionV2 option \<Rightarrow> UnixMillis \<Rightarrow>
     DomainError + TerminalDispositionV2" where
  "TerminalDispositionV2_superseded sid revision reason successor actor recorded_at =
     (if sid = successor
      then Inl (invalid ''superseded disposition requires a distinct successor session'')
      else rbind (bounded_disposition_text reason) (\<lambda>reason'.
        TerminalDispositionV2_new sid revision DispositionSuperseded None None (Some reason')
          (Some successor) actor recorded_at))"

end
