(* ===== verification/Session_Trace_Inv.thy ===== *)
theory Session_Trace_Inv
  imports Session_Trace
begin

text \<open>
  The invariant of \<open>SessionTraceV2\<close> and its preservation. \<open>attempts_wf\<close> and \<open>trace_wf\<close> say
  declaratively what the reconstruction loop of \<open>from_parts\<close> checks; every operation keeps them.
  \<open>att_evolves\<close> is how one attempt may change over time; a trace only ever evolves and grows.
\<close>

section \<open>Declarative invariant\<close>

abbreviation valid_att :: "SessionAttemptV2 \<Rightarrow> bool" where
  "valid_att a \<equiv> is_valid (att_validity a)"

abbreviation trace_nat :: "SessionAttemptV2 \<Rightarrow> nat" where
  "trace_nat a \<equiv> unat (trace_get (att_trace a))"

abbreviation number_nat :: "SessionAttemptV2 \<Rightarrow> nat" where
  "number_nat a \<equiv> unat (number_get (att_number a))"

definition node_count :: "GraphNodeId \<Rightarrow> SessionAttemptV2 list \<Rightarrow> nat" where
  "node_count node ats = length (filter (\<lambda>a. att_graph_node_id a = node) ats)"

text \<open>What \<open>SessionAttemptV2::new\<close> guarantees of one attempt.\<close>

definition att_wf :: "SessionAttemptV2 \<Rightarrow> bool" where
  "att_wf a \<longleftrightarrow>
     AttemptNumberV2_FIRST \<le> att_number a \<and> TraceSequenceV2_FIRST \<le> att_trace a \<and>
     is_none_or (att_goal_revision a) (\<lambda>g. GoalRevisionNumberV2_FIRST \<le> g) \<and>
     (att_lifecycle a = AttemptActive \<longrightarrow> valid_att a) \<and>
     (att_lifecycle a = AttemptAbandoned \<longrightarrow> \<not> valid_att a)"

definition attempts_wf :: "SessionAttemptV2 list \<Rightarrow> bool" where
  "attempts_wf ats \<longleftrightarrow>
     (\<forall>i<length ats. trace_nat (ats ! i) = Suc i) \<and>
     (\<forall>i<length ats. number_nat (ats ! i) = Suc (node_count (att_graph_node_id (ats ! i)) (take i ats))) \<and>
     distinct (map att_attempt_id ats) \<and>
     distinct (map att_graph_node_id (filter valid_att ats)) \<and>
     (\<forall>a\<in>set ats. att_wf a)"

definition lifecycle_wf :: "SessionLifecycle \<Rightarrow> Revision \<Rightarrow> SessionAttemptV2 list \<Rightarrow> bool" where
  "lifecycle_wf l r ats \<longleftrightarrow>
     (case l of
        SessionPrepared \<Rightarrow> r = Revision_ZERO \<and> ats = []
      | SessionRunning \<Rightarrow> r \<noteq> Revision_ZERO \<and> ats \<noteq> [] \<and> is_active (last ats) \<and>
          (\<forall>a\<in>set (butlast ats). \<not> is_active a)
      | SessionCompleted \<Rightarrow> r \<noteq> Revision_ZERO \<and> ats \<noteq> [] \<and> (\<forall>a\<in>set ats. \<not> is_active a) \<and>
          att_lifecycle (last ats) \<in> {AttemptCompleted, AttemptSkipped} \<and> valid_att (last ats)
      | SessionCancelled \<Rightarrow> r \<noteq> Revision_ZERO \<and> ats \<noteq> [] \<and> (\<forall>a\<in>set ats. \<not> is_active a) \<and>
          att_lifecycle (last ats) = AttemptAbandoned \<and> \<not> valid_att (last ats))"

definition trace_wf :: "SessionTraceV2 \<Rightarrow> bool" where
  "trace_wf t \<longleftrightarrow>
     attempts_wf (tr_attempts t) \<and> lifecycle_wf (tr_lifecycle t) (tr_revision t) (tr_attempts t)"

lemma node_count_simps [simp]:
  "node_count n [] = 0"
  "node_count n (a # ats) = (if att_graph_node_id a = n then 1 else 0) + node_count n ats"
  "node_count n (ats @ bs) = node_count n ats + node_count n bs"
  by (simp_all add: node_count_def)

lemma is_valid_simps [simp]: "is_valid Valid" "\<not> is_valid Stale"
  by (simp_all add: is_valid_def)

lemma attempts_wf_Nil [simp]: "attempts_wf []"
  by (simp add: attempts_wf_def)

lemma attempts_wf_snoc:
  "attempts_wf (ats @ [a]) \<longleftrightarrow>
     attempts_wf ats \<and> trace_nat a = Suc (length ats) \<and>
     number_nat a = Suc (node_count (att_graph_node_id a) ats) \<and>
     att_attempt_id a \<notin> att_attempt_id ` set ats \<and>
     (valid_att a \<longrightarrow> (\<forall>b\<in>set ats. valid_att b \<longrightarrow> att_graph_node_id b \<noteq> att_graph_node_id a)) \<and>
     att_wf a"
  by (auto simp: attempts_wf_def less_Suc_eq all_conj_distrib imp_disjL nth_append image_iff)

lemma attempts_wf_append: "attempts_wf (ats @ bs) \<Longrightarrow> attempts_wf ats"
  by (induction bs rule: rev_induct) (auto simp: attempts_wf_snoc simp flip: append_assoc)

section \<open>How an attempt may change\<close>

definition att_evolves :: "SessionAttemptV2 \<Rightarrow> SessionAttemptV2 \<Rightarrow> bool" where
  "att_evolves a b \<longleftrightarrow>
     att_attempt_id b = att_attempt_id a \<and> att_graph_node_id b = att_graph_node_id a \<and>
     att_number b = att_number a \<and> att_trace b = att_trace a \<and>
     (att_goal_revision b = att_goal_revision a \<or>
        att_goal_revision a = None \<and> is_active a \<and> att_goal_revision b = Some GoalRevisionNumberV2_FIRST) \<and>
     (valid_att b \<longrightarrow> valid_att a) \<and>
     (\<not> is_active a \<longrightarrow> att_lifecycle b = att_lifecycle a)"

definition trace_evolves :: "SessionTraceV2 \<Rightarrow> SessionTraceV2 \<Rightarrow> bool" where
  "trace_evolves t t' \<longleftrightarrow>
     tr_session_id t' = tr_session_id t \<and>
     (\<exists>old fresh. tr_attempts t' = old @ fresh \<and> list_all2 att_evolves (tr_attempts t) old)"

lemma att_evolves_refl [simp]: "att_evolves a a"
  by (simp add: att_evolves_def)

lemma att_evolves_trans: "att_evolves a b \<Longrightarrow> att_evolves b c \<Longrightarrow> att_evolves a c"
  by (auto simp: att_evolves_def is_active_def)

lemma list_evolves_refl [simp]: "list_all2 att_evolves ats ats"
  by (simp add: list_all2_refl)

lemma trace_evolves_refl: "trace_evolves t t"
  unfolding trace_evolves_def by (metis append_Nil2 list_evolves_refl)

lemma trace_evolves_trans:
  assumes "trace_evolves a b" and "trace_evolves b c"
  shows "trace_evolves a c"
proof -
  from assms obtain old fresh old' fresh' where
    b: "tr_attempts b = old @ fresh" "list_all2 att_evolves (tr_attempts a) old" and
    c: "tr_attempts c = old' @ fresh'" "list_all2 att_evolves (tr_attempts b) old'"
    by (auto simp: trace_evolves_def)
  from c(2) b(1) obtain o1 o2 where o: "old' = o1 @ o2" "list_all2 att_evolves old o1"
    by (auto simp: list_all2_append1)
  have "list_all2 att_evolves (tr_attempts a) o1"
    by (rule list_all2_trans[OF _ b(2) o(2)]) (rule att_evolves_trans)
  with assms c(1) o(1) show ?thesis by (auto simp: trace_evolves_def)
qed

text \<open>Evolving a well-formed list of attempts keeps it well formed.\<close>

lemma evolves_maps:
  assumes "list_all2 att_evolves ats bs"
  shows "map att_attempt_id bs = map att_attempt_id ats \<and> map att_graph_node_id bs = map att_graph_node_id ats"
  using assms by (induction rule: list_all2_induct) (auto simp: att_evolves_def)

lemma evolves_node_count:
  "list_all2 att_evolves ats bs \<Longrightarrow> node_count n bs = node_count n ats"
  by (induction rule: list_all2_induct) (auto simp: att_evolves_def)

lemma evolves_valid_nodes:
  "list_all2 att_evolves ats bs \<Longrightarrow>
     distinct (map att_graph_node_id (filter valid_att ats)) \<Longrightarrow>
     distinct (map att_graph_node_id (filter valid_att bs)) \<and>
     att_graph_node_id ` set (filter valid_att bs) \<subseteq> att_graph_node_id ` set (filter valid_att ats)"
proof (induction rule: list_all2_induct)
  case Nil
  then show ?case by simp
next
  case (Cons a ats b bs)
  have ab: "att_graph_node_id b = att_graph_node_id a" "valid_att b \<Longrightarrow> valid_att a"
    using Cons.hyps(1) by (simp_all add: att_evolves_def)
  show ?case
  proof (cases "valid_att b")
    case True
    with ab Cons show ?thesis by simp blast
  next
    case False
    with ab Cons show ?thesis by (cases "valid_att a") auto
  qed
qed

lemma attempts_wf_evolves:
  assumes ev: "list_all2 att_evolves ats bs" and wf: "attempts_wf ats" and bs: "\<forall>b\<in>set bs. att_wf b"
  shows "attempts_wf bs"
proof -
  have len: "length bs = length ats" using ev by (simp add: list_all2_lengthD)
  have nth: "att_evolves (ats ! i) (bs ! i)" if "i < length ats" for i
    using ev that by (simp add: list_all2_nthD)
  have cnt: "node_count n (take i bs) = node_count n (take i ats)" for n i
    using ev by (intro evolves_node_count) (simp add: list_all2_takeI)
  show ?thesis
    unfolding attempts_wf_def
  proof (intro conjI)
    show "\<forall>i<length bs. trace_nat (bs ! i) = Suc i"
      using wf nth len by (auto simp: attempts_wf_def att_evolves_def)
    show "\<forall>i<length bs. number_nat (bs ! i) = Suc (node_count (att_graph_node_id (bs ! i)) (take i bs))"
      using wf nth len cnt by (auto simp: attempts_wf_def att_evolves_def)
    show "distinct (map att_attempt_id bs)"
      using wf evolves_maps[OF ev] by (simp add: attempts_wf_def)
    show "distinct (map att_graph_node_id (filter valid_att bs))"
      using evolves_valid_nodes[OF ev] wf by (simp add: attempts_wf_def)
    show "\<forall>a\<in>set bs. att_wf a" by (rule bs)
  qed
qed

section \<open>Reconstruction accepts exactly the well-formed traces\<close>

lemma checked_next_ok [simp]:
  "TraceSequenceV2_checked_next s = Inr s' \<longleftrightarrow> checked_succ (trace_get s) = Some (trace_get s')"
  "AttemptNumberV2_checked_next n = Inr n' \<longleftrightarrow> checked_succ (number_get n) = Some (number_get n')"
  "Revision_checked_next r = Inr r' \<longleftrightarrow> checked_succ (revision_get r) = Some (revision_get r')"
  by (cases s', simp add: TraceSequenceV2_checked_next_def,
      cases n', simp add: AttemptNumberV2_checked_next_def,
      cases r', simp add: Revision_checked_next_def)

lemma u64_eq_nat: "(a :: u64) = b \<longleftrightarrow> unat a = unat b"
  by (simp add: word_unat_eq_iff)

lemma number_eq_nat: "(n :: AttemptNumberV2) = m \<longleftrightarrow> unat (number_get n) = unat (number_get m)"
  by (metis AttemptNumberV2.expand u64_eq_nat)

lemma trace_eq_nat: "(n :: TraceSequenceV2) = m \<longleftrightarrow> unat (trace_get n) = unat (trace_get m)"
  by (metis TraceSequenceV2.expand u64_eq_nat)

lemma number_check_ok:
  assumes "\<And>n. numbers n = None \<longleftrightarrow> node_count n pre = 0"
    and "\<And>n k. numbers n = Some k \<Longrightarrow> unat (number_get k) = node_count n pre"
  shows "check_attempt_number numbers a = Inr () \<longleftrightarrow>
     number_nat a = Suc (node_count (att_graph_node_id a) pre)"
proof (cases "numbers (att_graph_node_id a)")
  case None
  moreover from None assms(1) have "node_count (att_graph_node_id a) pre = 0" by blast
  ultimately show ?thesis
    by (simp add: check_attempt_number_def number_eq_nat AttemptNumberV2_FIRST_def)
next
  case (Some k)
  then have k: "unat (number_get k) = node_count (att_graph_node_id a) pre" by (rule assms(2))
  with Some show ?thesis by (auto simp: check_attempt_number_def checked_succ_nat)
qed

lemma validate_reconstruction_loop_ok:
  assumes "attempts_wf pre"
    and "\<forall>a\<in>set ats. att_wf a"
    and "ids = att_attempt_id ` set pre"
    and "\<And>n. numbers n = None \<longleftrightarrow> node_count n pre = 0"
    and "\<And>n k. numbers n = Some k \<Longrightarrow> unat (number_get k) = node_count n pre"
    and "valids = att_graph_node_id ` {a \<in> set pre. valid_att a}"
    and "unat (trace_get nt) = Suc (length pre)"
  shows "validate_reconstruction_loop ids numbers valids nt ats = Inr () \<longleftrightarrow>
     attempts_wf (pre @ ats) \<and> Suc (length (pre @ ats)) < 2 ^ 64"
  using assms
proof (induction ats arbitrary: pre ids numbers valids nt)
  case Nil
  then show ?case using unat_u64_less[of "trace_get nt"] by simp
next
  case (Cons a rest)
  let ?nt' = "TraceSequenceV2 (trace_get nt + 1)"
  let ?valids' = "if valid_att a then insert (att_graph_node_id a) valids else valids"
  let ?numbers' = "numbers(att_graph_node_id a \<mapsto> att_number a)"
  have goal: "\<not> is_some_and (att_goal_revision a) (\<lambda>g. g < GoalRevisionNumberV2_FIRST)"
    using Cons.prems(2) by (cases "att_goal_revision a") (auto simp: att_wf_def)
  have step: "validate_reconstruction_loop ids numbers valids nt (a # rest) = Inr () \<longleftrightarrow>
      attempts_wf (pre @ [a]) \<and> trace_get nt \<noteq> - 1 \<and>
      validate_reconstruction_loop (insert (att_attempt_id a) ids) ?numbers' ?valids' ?nt' rest = Inr ()"
  proof -
    have "TraceSequenceV2_checked_next nt =
        (if trace_get nt = - 1 then Inl (RevisionOverflow (Revision (trace_get nt))) else Inr ?nt')"
      by (simp add: TraceSequenceV2_checked_next_def checked_succ_def)
    moreover have "att_graph_node_id a \<in> valids \<longleftrightarrow>
        (\<exists>b\<in>set pre. valid_att b \<and> att_graph_node_id b = att_graph_node_id a)"
      using Cons.prems(6) by (simp add: image_iff Bex_def) metis
    moreover have "att_trace a = nt \<longleftrightarrow> trace_nat a = Suc (length pre)"
      using Cons.prems(7) by (simp add: trace_eq_nat)
    ultimately show ?thesis
      using Cons.prems(1-3) goal number_check_ok[OF Cons.prems(4,5), of a]
      by (cases "trace_get nt = - 1") (auto simp: attempts_wf_snoc)
  qed
  show ?case
  proof (cases "attempts_wf (pre @ [a]) \<and> trace_get nt \<noteq> - 1")
    case True
    then have wf: "attempts_wf (pre @ [a])" and nt: "unat (trace_get ?nt') = Suc (length (pre @ [a]))"
      using Cons.prems(7) by (simp_all add: unat_succ)
    have num: "number_nat a = Suc (node_count (att_graph_node_id a) pre)"
      using wf by (simp add: attempts_wf_snoc)
    have "validate_reconstruction_loop (insert (att_attempt_id a) ids) ?numbers' ?valids' ?nt' rest = Inr ()
        \<longleftrightarrow> attempts_wf ((pre @ [a]) @ rest) \<and> Suc (length ((pre @ [a]) @ rest)) < 2 ^ 64"
      using Cons.prems num nt by (intro Cons.IH[OF wf]) (auto split: if_splits)
    with True step show ?thesis by simp
  next
    case False
    have "attempts_wf (pre @ a # rest) \<Longrightarrow> attempts_wf (pre @ [a])"
      using attempts_wf_append[of "pre @ [a]" rest] by simp
    moreover have "Suc (length (pre @ a # rest)) < 2 ^ 64 \<Longrightarrow> trace_get nt \<noteq> - 1"
      using Cons.prems(7) checked_succ_eq_None[of "trace_get nt"] by (auto simp: checked_succ_def)
    ultimately show ?thesis using step False by blast
  qed
qed

lemma validate_reconstruction_ok:
  assumes "\<forall>a\<in>set ats. att_wf a"
  shows "validate_reconstruction ats = Inr () \<longleftrightarrow> attempts_wf ats \<and> Suc (length ats) < 2 ^ 64"
  using validate_reconstruction_loop_ok[of "[]" ats "{}" Map.empty "{}" TraceSequenceV2_FIRST] assms
  by (simp add: validate_reconstruction_def TraceSequenceV2_FIRST_def)

lemma one_active_last:
  assumes "ats \<noteq> []" and "is_active (last ats)"
  shows "length (filter is_active ats) = 1 \<longleftrightarrow> (\<forall>a\<in>set (butlast ats). \<not> is_active a)"
proof -
  have "filter is_active ats = filter is_active (butlast ats) @ [last ats]"
    using assms by (metis append_butlast_last_id filter.simps filter_append)
  then show ?thesis by (simp add: filter_empty_conv)
qed

lemma from_parts_ok:
  assumes "\<forall>a\<in>set ats. att_wf a"
  shows "SessionTraceV2_from_parts sid l r ats = Inr t \<longleftrightarrow>
     t = \<lparr>tr_session_id = sid, tr_lifecycle = l, tr_revision = r, tr_attempts = ats\<rparr> \<and>
     trace_wf t \<and> Suc (length ats) < 2 ^ 64"
proof -
  let ?t = "\<lparr>tr_session_id = sid, tr_lifecycle = l, tr_revision = r, tr_attempts = ats\<rparr>"
  have none: "filter is_active ats = [] \<longleftrightarrow> (\<forall>a\<in>set ats. \<not> is_active a)"
    by (simp add: filter_empty_conv)
  have "SessionTraceV2_from_parts sid l r ats = Inr t \<longleftrightarrow>
      validate_reconstruction ats = Inr () \<and> t = ?t \<and> lifecycle_wf l r ats"
  proof (cases l)
    case SessionPrepared
    then show ?thesis by (auto simp: SessionTraceV2_from_parts_def Let_def lifecycle_wf_def)
  next
    case SessionRunning
    then show ?thesis using one_active_last[of ats]
      by (cases "ats = []")
        (auto simp: SessionTraceV2_from_parts_def Let_def lifecycle_wf_def last_opt_def)
  next
    case SessionCompleted
    then show ?thesis
      by (cases "ats = []")
        (auto simp: SessionTraceV2_from_parts_def Let_def lifecycle_wf_def last_opt_def none)
  next
    case SessionCancelled
    then show ?thesis
      by (cases "ats = []")
        (auto simp: SessionTraceV2_from_parts_def Let_def lifecycle_wf_def last_opt_def none)
  qed
  then show ?thesis using validate_reconstruction_ok[OF assms] by (auto simp: trace_wf_def)
qed

section \<open>The active attempt of a running session\<close>

lemma running_split:
  assumes "trace_wf t" and "tr_lifecycle t = SessionRunning"
  obtains ats a where "tr_attempts t = ats @ [a]" and "is_active a" and "\<forall>b\<in>set ats. \<not> is_active b"
  using assms
  by (auto simp: trace_wf_def lifecycle_wf_def) (metis append_butlast_last_id)

lemma require_running_active_ok:
  assumes "trace_wf t" and "require_running_active t e = Inr i"
  obtains ats a where "tr_lifecycle t = SessionRunning" and "tr_attempts t = ats @ [a]"
    and "is_active a" and "\<forall>b\<in>set ats. \<not> is_active b" and "att_attempt_id a = e" and "i = length ats"
proof -
  from assms(2) have run: "tr_lifecycle t = SessionRunning"
    by (auto simp: require_running_active_def split: if_splits)
  from running_split[OF assms(1) run] obtain ats a where
    s: "tr_attempts t = ats @ [a]" "is_active a" "\<forall>b\<in>set ats. \<not> is_active b" .
  with assms(2) run show ?thesis
    by (intro that) (auto simp: require_running_active_def position_last split: if_splits)
qed

lemma modify_last [simp]: "modify (length xs) f (xs @ [x]) = xs @ [f x]"
  by (simp add: modify_def)

section \<open>Fresh attempts\<close>

definition fresh_for ::
    "SessionAttemptV2 list \<Rightarrow> GraphNodeId \<Rightarrow> AttemptId \<Rightarrow> GoalRevisionNumberV2 option \<Rightarrow>
     SessionAttemptV2 \<Rightarrow> bool" where
  "fresh_for ats node fid goal f \<longleftrightarrow>
     att_attempt_id f = fid \<and> att_graph_node_id f = node \<and> att_goal_revision f = goal \<and>
     att_lifecycle f = AttemptActive \<and> att_validity f = Valid \<and>
     trace_nat f = Suc (length ats) \<and> number_nat f = Suc (node_count node ats) \<and>
     fid \<notin> att_attempt_id ` set ats \<and> att_wf f"

lemma last_number_of_node:
  assumes "attempts_wf ats"
  shows "(case find (\<lambda>a. att_graph_node_id a = node) (rev ats) of
            None \<Rightarrow> node_count node ats = 0 | Some a \<Rightarrow> number_nat a = node_count node ats)"
  using assms by (induction ats rule: rev_induct) (auto simp: attempts_wf_snoc split: option.splits)

lemma next_attempt_number_nat:
  assumes "attempts_wf (tr_attempts t)" and "next_attempt_number_for t node = Inr n"
  shows "unat (number_get n) = Suc (node_count node (tr_attempts t))"
  using assms last_number_of_node[OF assms(1), of node]
  by (auto simp: next_attempt_number_for_def checked_succ_nat AttemptNumberV2_FIRST_def
      split: option.splits)

lemma next_trace_nat:
  assumes "attempts_wf (tr_attempts t)" and "next_trace t = Inr s"
  shows "unat (trace_get s) = Suc (length (tr_attempts t))"
  using assms
  by (auto simp: next_trace_def checked_succ_nat TraceSequenceV2_FIRST_def attempts_wf_snoc
      split: option.splits)

lemma SessionAttemptV2_new_ok:
  "SessionAttemptV2_new aid node n tr l v g = Inr a \<longleftrightarrow>
     a = \<lparr>att_attempt_id = aid, att_graph_node_id = node, att_number = n, att_trace = tr,
          att_lifecycle = l, att_validity = v, att_goal_revision = g\<rparr> \<and> att_wf a"
  by (cases g) (auto simp: SessionAttemptV2_new_def att_wf_def)

lemma prepare_fresh_ok:
  assumes "attempts_wf (tr_attempts t)" and "prepare_fresh t node fid goal = Inr (f, r)"
  shows "fresh_for (tr_attempts t) node fid goal f"
    and "unat (revision_get r) = Suc (unat (revision_get (tr_revision t)))"
proof -
  from assms(2) obtain n s where
    n: "next_attempt_number_for t node = Inr n" and s: "next_trace t = Inr s"
    and r: "Revision_checked_next (tr_revision t) = Inr r"
    and f: "SessionAttemptV2_new fid node n s AttemptActive Valid goal = Inr f"
    and fid: "fid \<notin> att_attempt_id ` set (tr_attempts t)"
    by (auto simp: prepare_fresh_def split: if_splits)
  show "fresh_for (tr_attempts t) node fid goal f"
    using f fid next_attempt_number_nat[OF assms(1) n] next_trace_nat[OF assms(1) s]
    by (auto simp: fresh_for_def SessionAttemptV2_new_ok)
  show "unat (revision_get r) = Suc (unat (revision_get (tr_revision t)))"
    using r by (simp add: checked_succ_nat)
qed

lemma fresh_for_active: "fresh_for ats node fid goal f \<Longrightarrow> is_active f \<and> valid_att f \<and> att_wf f"
  by (simp add: fresh_for_def is_active_def)

lemma revision_nonzero: "unat (revision_get r) = Suc n \<Longrightarrow> r \<noteq> Revision_ZERO"
  by (auto simp: Revision_ZERO_def)

text \<open>
  Every operation that opens an attempt evolves the old ones until none is active and none on the
  target node is valid, then appends the fresh attempt.
\<close>

lemma wf_push_fresh:
  assumes "attempts_wf ats" and "list_all2 att_evolves ats old"
    and "\<forall>b\<in>set old. att_wf b \<and> \<not> is_active b"
    and "\<forall>b\<in>set old. valid_att b \<longrightarrow> att_graph_node_id b \<noteq> node"
    and "fresh_for ats node fid goal f"
    and "unat (revision_get r) = Suc n"
  shows "attempts_wf (old @ [f])" and "lifecycle_wf SessionRunning r (old @ [f])"
proof -
  have "attempts_wf old"
    by (rule attempts_wf_evolves[OF assms(2,1)]) (use assms(3) in blast)
  moreover have "length old = length ats" using assms(2) by (simp add: list_all2_lengthD)
  moreover have "att_attempt_id ` set old = att_attempt_id ` set ats"
    using evolves_maps[OF assms(2)] by (metis set_map)
  moreover have "node_count node old = node_count node ats"
    using assms(2) by (rule evolves_node_count)
  ultimately show "attempts_wf (old @ [f])"
    using assms(4,5) by (simp add: attempts_wf_snoc fresh_for_def)
  show "lifecycle_wf SessionRunning r (old @ [f])"
    using assms(3) fresh_for_active[OF assms(5)] revision_nonzero[OF assms(6)]
    by (simp add: lifecycle_wf_def)
qed

section \<open>Staling the suffix\<close>

lemma stale_from_simps [simp]:
  "att_attempt_id (stale_from s a) = att_attempt_id a"
  "att_graph_node_id (stale_from s a) = att_graph_node_id a"
  "att_number (stale_from s a) = att_number a"
  "att_trace (stale_from s a) = att_trace a"
  "att_lifecycle (stale_from s a) = att_lifecycle a"
  "att_goal_revision (stale_from s a) = att_goal_revision a"
  "is_active (stale_from s a) = is_active a"
  "valid_att (stale_from s a) \<longleftrightarrow> valid_att a \<and> att_trace a < s"
  by (auto simp: stale_from_def is_active_def)

lemma stale_from_evolves [simp]: "att_evolves a (stale_from s a)"
  by (simp add: att_evolves_def)

lemma stale_from_wf: "att_wf a \<Longrightarrow> \<not> is_active a \<Longrightarrow> att_wf (stale_from s a)"
  by (auto simp: att_wf_def is_active_def)

lemma valid_attempt_trace_Some:
  "valid_attempt_trace t node = Some s \<Longrightarrow>
     \<exists>a\<in>set (tr_attempts t). valid_att a \<and> att_graph_node_id a = node \<and> att_trace a = s"
  by (auto simp: valid_attempt_trace_def dest: find_SomeD)

lemma valid_attempt_trace_None:
  "valid_attempt_trace t node = None \<longleftrightarrow>
     (\<forall>a\<in>set (tr_attempts t). valid_att a \<longrightarrow> att_graph_node_id a \<noteq> node)"
  by (auto simp: valid_attempt_trace_def find_None_iff)

lemma unique_valid_node:
  assumes "distinct (map att_graph_node_id (filter valid_att ats))"
    and "a \<in> set ats" "b \<in> set ats" "valid_att a" "valid_att b"
    and "att_graph_node_id a = att_graph_node_id b"
  shows "a = b"
proof -
  have "inj_on att_graph_node_id (set (filter valid_att ats))" using assms(1) by (simp add: distinct_map)
  with assms(2-6) show ?thesis by (auto dest: inj_onD)
qed

lemma stale_suffix_clears_target:
  assumes "attempts_wf (tr_attempts t)" and "valid_attempt_trace t node = Some s"
    and "b \<in> set (map (stale_from s) (tr_attempts t))" and "valid_att b"
  shows "att_graph_node_id b \<noteq> node"
proof
  assume node: "att_graph_node_id b = node"
  from assms(3) obtain c where c: "c \<in> set (tr_attempts t)" "b = stale_from s c" by auto
  from valid_attempt_trace_Some[OF assms(2)] obtain a where
    a: "a \<in> set (tr_attempts t)" "valid_att a" "att_graph_node_id a = node" "att_trace a = s" by blast
  have "c = a"
    using assms(1,4) a c node by (intro unique_valid_node[of "tr_attempts t"]) (auto simp: attempts_wf_def)
  with a c assms(4) show False by simp
qed

end
