(* ===== verification/Session_Trace_Ops.thy ===== *)
theory Session_Trace_Ops
  imports Session_Trace_Inv
begin

text \<open>
  Theorems on the operations of \<open>SessionTraceV2\<close>: each keeps the invariant, leaves the trace
  untouched when it fails, advances the revision by exactly one when it succeeds, and never
  rewrites history. The valid path of a trace (the nodes of its valid attempts, in order) is its
  abstraction: on it the operations are push, keep, drop and truncate-then-push, which is the
  abstract cursor machine \<open>cursor_step\<close> the detailed operations refine.
\<close>

section \<open>One command of the trace\<close>

datatype TraceCommand =
    TcBegin GraphNodeId AttemptId "GoalRevisionNumberV2 option"
  | TcAdvance AttemptId AdvanceTerminalV2 GraphNodeId AttemptId "GoalRevisionNumberV2 option"
  | TcFinish AttemptId AdvanceTerminalV2
  | TcRetry AttemptId AttemptId "GoalRevisionNumberV2 option"
  | TcCancel AttemptId
  | TcRework AttemptId GraphNodeId AttemptId "GoalRevisionNumberV2 option"
  | TcManualRework "AttemptId option" GraphNodeId AttemptId "GoalRevisionNumberV2 option"

fun trace_step :: "TraceCommand \<Rightarrow> SessionTraceV2 \<Rightarrow> SessionTraceV2 outcome" where
  "trace_step (TcBegin n a g) t = SessionTraceV2_begin t n a g"
| "trace_step (TcAdvance e p n a g) t = SessionTraceV2_advance t e p n a g"
| "trace_step (TcFinish e p) t = SessionTraceV2_finish t e p"
| "trace_step (TcRetry e a g) t = SessionTraceV2_retry t e a g"
| "trace_step (TcCancel e) t = SessionTraceV2_cancel t e"
| "trace_step (TcRework e n a g) t = SessionTraceV2_rework_to t e n a g"
| "trace_step (TcManualRework e n a g) t = SessionTraceV2_manual_rework t e n a g"

lemma try_mut_Inr [simp]:
  "try_mut r t f = (Inr x, t') \<longleftrightarrow> (\<exists>y. r = Inr y \<and> f y = (Inr x, t'))"
  by (cases r) (auto simp: try_mut_def)

lemma try_mut_Inl:
  "try_mut r t f = (Inl e, t') \<longleftrightarrow> r = Inl e \<and> t' = t \<or> (\<exists>y. r = Inr y \<and> f y = (Inl e, t'))"
  by (cases r) (auto simp: try_mut_def)

lemmas trace_ops_defs =
  SessionTraceV2_begin_def SessionTraceV2_advance_def SessionTraceV2_finish_def
  SessionTraceV2_retry_def SessionTraceV2_cancel_def SessionTraceV2_rework_to_def
  SessionTraceV2_manual_rework_def

section \<open>A rejected command changes nothing\<close>

lemma trace_step_reject: "trace_step c t = (Inl e, t') \<Longrightarrow> t' = t"
  by (cases c)
    (auto simp: trace_ops_defs try_mut_Inl Let_def split: if_splits prod.splits SessionLifecycle.splits)

section \<open>An accepted command keeps the invariant\<close>

lemma lifecycle_update_evolves:
  "is_active a \<Longrightarrow> att_evolves a (a\<lparr>att_lifecycle := l\<rparr>)"
  "is_active a \<Longrightarrow> att_evolves a (a\<lparr>att_lifecycle := l, att_validity := Stale\<rparr>)"
  by (simp_all add: att_evolves_def)

lemma terminal_lifecycle_cases:
  "terminal_lifecycle p = AttemptCompleted \<or> terminal_lifecycle p = AttemptSkipped"
  by (cases p) (simp_all add: terminal_lifecycle_def)

lemma terminal_not_active [simp]:
  "terminal_lifecycle p \<noteq> AttemptActive" "terminal_lifecycle p \<noteq> AttemptAbandoned"
  by (cases p; simp add: terminal_lifecycle_def)+

lemma evolve_last:
  "att_evolves a b \<Longrightarrow> list_all2 att_evolves (ats @ [a]) (ats @ [b])"
  by (simp add: list_all2_append)

lemma evolve_stale:
  "att_evolves a b \<Longrightarrow>
     list_all2 att_evolves (ats @ [a]) (map (stale_from s) (ats @ [b]))"
  by (auto simp: list_all2_append list_all2_map2 list_all2_refl intro: att_evolves_trans[OF _ stale_from_evolves])

lemma trace_wf_attempts: "trace_wf t \<Longrightarrow> attempts_wf (tr_attempts t) \<and> (\<forall>a\<in>set (tr_attempts t). att_wf a)"
  by (simp add: trace_wf_def attempts_wf_def)

lemma active_wf: "att_wf a \<Longrightarrow> is_active a \<Longrightarrow> valid_att a"
  by (simp add: att_wf_def is_active_def)

lemma terminal_wf: "att_wf a \<Longrightarrow> att_wf (a\<lparr>att_lifecycle := terminal_lifecycle p\<rparr>)"
  by (simp add: att_wf_def)

lemma abandoned_wf: "att_wf a \<Longrightarrow> att_wf (a\<lparr>att_lifecycle := AttemptAbandoned, att_validity := Stale\<rparr>)"
  by (simp add: att_wf_def)

lemma is_active_update [simp]: "is_active (a\<lparr>att_lifecycle := l\<rparr>) \<longleftrightarrow> l = AttemptActive"
  "is_active (a\<lparr>att_lifecycle := l, att_validity := v\<rparr>) \<longleftrightarrow> l = AttemptActive"
  by (simp_all add: is_active_def)

lemma fresh_push_trace_wf:
  assumes "trace_wf t" and "list_all2 att_evolves (tr_attempts t) old"
    and "\<forall>b\<in>set old. att_wf b \<and> \<not> is_active b"
    and "\<forall>b\<in>set old. valid_att b \<longrightarrow> att_graph_node_id b \<noteq> node"
    and "prepare_fresh t node fid goal = Inr (f, r)"
    and "t' = t\<lparr>tr_attempts := old @ [f], tr_lifecycle := SessionRunning, tr_revision := r\<rparr>"
  shows "trace_wf t' \<and> trace_evolves t t'"
proof -
  have wf: "attempts_wf (tr_attempts t)" using assms(1) by (simp add: trace_wf_def)
  note f = prepare_fresh_ok[OF wf assms(5)]
  show ?thesis
    using wf_push_fresh[OF wf assms(2-4) f] assms(2,6)
    by (auto simp: trace_wf_def trace_evolves_def)
qed

lemma begin_accept:
  assumes "trace_wf t" and "SessionTraceV2_begin t n a g = (Inr (), t')"
  shows "trace_wf t' \<and> trace_evolves t t'"
proof -
  from assms(2) obtain f where t: "tr_attempts t = []" and f: "first_attempt n a g = Inr f"
    and t': "t' = t\<lparr>tr_attempts := [f], tr_lifecycle := SessionRunning, tr_revision := Revision 1\<rparr>"
    by (auto simp: SessionTraceV2_begin_def split: if_splits)
  have "attempts_wf ([] @ [f])" and "is_active f"
    using f unfolding attempts_wf_snoc
    by (auto simp: first_attempt_def SessionAttemptV2_new_ok is_active_def counter_firsts)
  with t t' show ?thesis
    by (simp add: trace_wf_def trace_evolves_def lifecycle_wf_def Revision_ZERO_def)
qed

lemma advance_accept:
  assumes wf: "trace_wf t" and op: "SessionTraceV2_advance t e p n fid g = (Inr (), t')"
  shows "trace_wf t' \<and> trace_evolves t t'"
proof -
  from op obtain i f r where i: "require_running_active t e = Inr i"
    and none: "valid_attempt_trace t n = None"
    and f: "prepare_fresh t n fid g = Inr (f, r)"
    and t': "t' = t\<lparr>tr_attempts := modify i (\<lambda>a. a\<lparr>att_lifecycle := terminal_lifecycle p\<rparr>) (tr_attempts t) @ [f],
                    tr_revision := r\<rparr>"
    by (auto simp: SessionTraceV2_advance_def split: if_splits prod.splits)
  from require_running_active_ok[OF wf i] obtain ats a where
    run: "tr_lifecycle t = SessionRunning" and s: "tr_attempts t = ats @ [a]" "is_active a"
      "\<forall>b\<in>set ats. \<not> is_active b" "i = length ats" by metis
  let ?old = "ats @ [a\<lparr>att_lifecycle := terminal_lifecycle p\<rparr>]"
  show ?thesis
  proof (rule fresh_push_trace_wf[OF wf _ _ _ f])
    show "list_all2 att_evolves (tr_attempts t) ?old"
      using s by (simp add: evolve_last lifecycle_update_evolves)
    show "\<forall>b\<in>set ?old. att_wf b \<and> \<not> is_active b"
      using s trace_wf_attempts[OF wf] by (simp add: terminal_wf)
    show "\<forall>b\<in>set ?old. valid_att b \<longrightarrow> att_graph_node_id b \<noteq> n"
      using s none by (simp add: valid_attempt_trace_None)
    show "t' = t\<lparr>tr_attempts := ?old @ [f], tr_lifecycle := SessionRunning, tr_revision := r\<rparr>"
      using t' s run by simp
  qed
qed

lemma finish_accept:
  assumes wf: "trace_wf t" and op: "SessionTraceV2_finish t e p = (Inr (), t')"
  shows "trace_wf t' \<and> trace_evolves t t'"
proof -
  from op obtain i r where i: "require_running_active t e = Inr i"
    and r: "Revision_checked_next (tr_revision t) = Inr r"
    and t': "t' = t\<lparr>tr_attempts := modify i (\<lambda>a. a\<lparr>att_lifecycle := terminal_lifecycle p\<rparr>) (tr_attempts t),
                    tr_lifecycle := SessionCompleted, tr_revision := r\<rparr>"
    by (auto simp: SessionTraceV2_finish_def)
  from require_running_active_ok[OF wf i] obtain ats a where
    s: "tr_attempts t = ats @ [a]" "is_active a" "\<forall>b\<in>set ats. \<not> is_active b" "i = length ats" by metis
  let ?new = "ats @ [a\<lparr>att_lifecycle := terminal_lifecycle p\<rparr>]"
  have ev: "list_all2 att_evolves (tr_attempts t) ?new"
    using s by (simp add: evolve_last lifecycle_update_evolves)
  have a: "\<forall>b\<in>set (tr_attempts t). att_wf b" using trace_wf_attempts[OF wf] by blast
  have "attempts_wf ?new"
    using a s trace_wf_attempts[OF wf] by (intro attempts_wf_evolves[OF ev]) (simp_all add: terminal_wf)
  moreover have "valid_att a" using a s by (simp add: active_wf)
  ultimately show ?thesis
    using t' s ev r terminal_lifecycle_cases[of p]
    by (auto simp: trace_wf_def trace_evolves_def lifecycle_wf_def revision_nonzero checked_succ_nat)
qed

lemma cancel_accept:
  assumes wf: "trace_wf t" and op: "SessionTraceV2_cancel t e = (Inr (), t')"
  shows "trace_wf t' \<and> trace_evolves t t'"
proof -
  from op obtain i r where i: "require_running_active t e = Inr i"
    and r: "Revision_checked_next (tr_revision t) = Inr r"
    and t': "t' = t\<lparr>tr_attempts := modify i (\<lambda>a. a\<lparr>att_lifecycle := AttemptAbandoned, att_validity := Stale\<rparr>)
                       (tr_attempts t),
                    tr_lifecycle := SessionCancelled, tr_revision := r\<rparr>"
    by (auto simp: SessionTraceV2_cancel_def)
  from require_running_active_ok[OF wf i] obtain ats a where
    s: "tr_attempts t = ats @ [a]" "is_active a" "\<forall>b\<in>set ats. \<not> is_active b" "i = length ats" by metis
  let ?new = "ats @ [a\<lparr>att_lifecycle := AttemptAbandoned, att_validity := Stale\<rparr>]"
  have ev: "list_all2 att_evolves (tr_attempts t) ?new"
    using s by (simp add: evolve_last lifecycle_update_evolves)
  have "attempts_wf ?new"
    using s trace_wf_attempts[OF wf] by (intro attempts_wf_evolves[OF ev]) (simp_all add: abandoned_wf)
  then show ?thesis
    using t' s ev r
    by (auto simp: trace_wf_def trace_evolves_def lifecycle_wf_def revision_nonzero checked_succ_nat)
qed

lemma retry_accept:
  assumes wf: "trace_wf t" and op: "SessionTraceV2_retry t e fid g = (Inr (), t')"
  shows "trace_wf t' \<and> trace_evolves t t'"
proof -
  from op obtain i f r where i: "require_running_active t e = Inr i"
    and f: "prepare_fresh t (att_graph_node_id (tr_attempts t ! i)) fid g = Inr (f, r)"
    and t': "t' = t\<lparr>tr_attempts := modify i (\<lambda>a. a\<lparr>att_lifecycle := AttemptAbandoned, att_validity := Stale\<rparr>)
                       (tr_attempts t) @ [f],
                    tr_revision := r\<rparr>"
    by (auto simp: SessionTraceV2_retry_def Let_def split: if_splits prod.splits)
  from require_running_active_ok[OF wf i] obtain ats a where
    run: "tr_lifecycle t = SessionRunning" and s: "tr_attempts t = ats @ [a]" "is_active a"
      "\<forall>b\<in>set ats. \<not> is_active b" "i = length ats" by metis
  have f': "prepare_fresh t (att_graph_node_id a) fid g = Inr (f, r)" using f s by simp
  have va: "valid_att a" using s trace_wf_attempts[OF wf] by (simp add: active_wf)
  let ?old = "ats @ [a\<lparr>att_lifecycle := AttemptAbandoned, att_validity := Stale\<rparr>]"
  show ?thesis
  proof (rule fresh_push_trace_wf[OF wf _ _ _ f'])
    show "list_all2 att_evolves (tr_attempts t) ?old"
      using s by (simp add: evolve_last lifecycle_update_evolves)
    show "\<forall>b\<in>set ?old. att_wf b \<and> \<not> is_active b"
      using s trace_wf_attempts[OF wf] by (simp add: abandoned_wf)
    show "\<forall>b\<in>set ?old. valid_att b \<longrightarrow> att_graph_node_id b \<noteq> att_graph_node_id a"
      using s va trace_wf_attempts[OF wf] by (auto simp: attempts_wf_snoc)
    show "t' = t\<lparr>tr_attempts := ?old @ [f], tr_lifecycle := SessionRunning, tr_revision := r\<rparr>"
      using t' s run by simp
  qed
qed

lemma trace_le_last:
  assumes "attempts_wf (ats @ [a])" and "c \<in> set (ats @ [a])"
  shows "att_trace c \<le> att_trace a"
proof -
  from assms(2) obtain i where i: "i < length (ats @ [a])" "c = (ats @ [a]) ! i"
    by (metis in_set_conv_nth)
  with assms(1) have "trace_nat c = Suc i" and "trace_nat a = Suc (length ats)"
    by (simp_all add: attempts_wf_def) (metis lessI nth_append_length)
  with i show ?thesis by (simp add: counter_order word_le_nat_alt)
qed

lemma rework_push:
  assumes wf: "trace_wf t" and s: "tr_attempts t = ats @ [a]" "is_active a" "\<forall>b\<in>set ats. \<not> is_active b"
    and target: "valid_attempt_trace t n = Some s" and f: "prepare_fresh t n fid g = Inr (f, r)"
    and l: "l = AttemptCompleted \<or> l = AttemptAbandoned"
    and t': "t' = t\<lparr>tr_attempts := map (stale_from s) (ats @ [a\<lparr>att_lifecycle := l\<rparr>]) @ [f],
                    tr_lifecycle := SessionRunning, tr_revision := r\<rparr>"
  shows "trace_wf t' \<and> trace_evolves t t'"
proof -
  let ?old = "map (stale_from s) (ats @ [a\<lparr>att_lifecycle := l\<rparr>])"
  note wfs = trace_wf_attempts[OF wf]
  from valid_attempt_trace_Some[OF target] have le: "s \<le> att_trace a"
    using wfs s(1) trace_le_last[of ats a] by (metis (full_types))
  show ?thesis
  proof (rule fresh_push_trace_wf[OF wf _ _ _ f t'])
    show "list_all2 att_evolves (tr_attempts t) ?old"
      unfolding s(1) by (rule evolve_stale) (simp add: lifecycle_update_evolves s)
    have "att_wf (stale_from s (a\<lparr>att_lifecycle := l\<rparr>))"
      using wfs s l le by (auto simp: att_wf_def)
    then show "\<forall>b\<in>set ?old. att_wf b \<and> \<not> is_active b"
      using wfs s l by (auto simp: stale_from_wf)
    show "\<forall>b\<in>set ?old. valid_att b \<longrightarrow> att_graph_node_id b \<noteq> n"
    proof (intro ballI impI)
      fix b assume "b \<in> set ?old" and vb: "valid_att b"
      moreover have "\<not> valid_att (stale_from s (a\<lparr>att_lifecycle := l\<rparr>))" using le by (simp add: not_less)
      ultimately have "b \<in> set (map (stale_from s) (tr_attempts t))" using s by auto
      with wfs target vb show "att_graph_node_id b \<noteq> n"
        by (metis stale_suffix_clears_target)
    qed
  qed
qed

lemma rework_to_accept:
  assumes wf: "trace_wf t" and op: "SessionTraceV2_rework_to t e n fid g = (Inr (), t')"
  shows "trace_wf t' \<and> trace_evolves t t'"
proof -
  from op obtain i s f r where i: "require_running_active t e = Inr i"
    and target: "valid_attempt_trace t n = Some s" and f: "prepare_fresh t n fid g = Inr (f, r)"
    and t': "t' = t\<lparr>tr_attempts := stale_suffix_from_trace s
                 (modify i (\<lambda>a. a\<lparr>att_lifecycle := AttemptCompleted\<rparr>) (tr_attempts t)) @ [f],
               tr_revision := r\<rparr>"
    by (auto simp: SessionTraceV2_rework_to_def)
  from require_running_active_ok[OF wf i] obtain ats a where
    run: "tr_lifecycle t = SessionRunning" and s: "tr_attempts t = ats @ [a]" "is_active a"
      "\<forall>b\<in>set ats. \<not> is_active b" "i = length ats" by metis
  show ?thesis
    by (rule rework_push[OF wf s(1-3) target f, of AttemptCompleted])
      (simp_all add: t' s run stale_suffix_from_trace_def)
qed

lemma manual_rework_accept:
  assumes wf: "trace_wf t" and op: "SessionTraceV2_manual_rework t e n fid g = (Inr (), t')"
  shows "trace_wf t' \<and> trace_evolves t t'"
proof (cases "tr_lifecycle t")
  case SessionRunning
  with op obtain x i s f r where i: "require_running_active t x = Inr i"
    and target: "valid_attempt_trace t n = Some s" and f: "prepare_fresh t n fid g = Inr (f, r)"
    and t': "t' = t\<lparr>tr_attempts := stale_suffix_from_trace s
                 (modify i (\<lambda>a. a\<lparr>att_lifecycle := AttemptAbandoned\<rparr>) (tr_attempts t)) @ [f],
               tr_revision := r\<rparr>"
    by (auto simp: SessionTraceV2_manual_rework_def)
  from require_running_active_ok[OF wf i] obtain ats a where
    s: "tr_attempts t = ats @ [a]" "is_active a" "\<forall>b\<in>set ats. \<not> is_active b" "i = length ats" by metis
  show ?thesis
    by (rule rework_push[OF wf s(1-3) target f, of AttemptAbandoned])
      (simp_all add: t' s SessionRunning stale_suffix_from_trace_def)
next
  case SessionCompleted
  with op obtain s f r where target: "valid_attempt_trace t n = Some s"
    and f: "prepare_fresh t n fid g = Inr (f, r)"
    and t': "t' = t\<lparr>tr_attempts := map (stale_from s) (tr_attempts t) @ [f],
                    tr_lifecycle := SessionRunning, tr_revision := r\<rparr>"
    by (auto simp: SessionTraceV2_manual_rework_def stale_suffix_from_trace_def split: if_splits)
  note wfs = trace_wf_attempts[OF wf]
  have idle: "\<forall>a\<in>set (tr_attempts t). \<not> is_active a"
    using wf SessionCompleted by (simp add: trace_wf_def lifecycle_wf_def)
  show ?thesis
  proof (rule fresh_push_trace_wf[OF wf _ _ _ f t'])
    show "list_all2 att_evolves (tr_attempts t) (map (stale_from s) (tr_attempts t))"
      by (simp add: list_all2_map2 list_all2_refl)
    show "\<forall>b\<in>set (map (stale_from s) (tr_attempts t)). att_wf b \<and> \<not> is_active b"
      using idle wfs by (simp add: stale_from_wf)
    show "\<forall>b\<in>set (map (stale_from s) (tr_attempts t)). valid_att b \<longrightarrow> att_graph_node_id b \<noteq> n"
      using wfs target stale_suffix_clears_target by blast
  qed
qed (use op in \<open>simp_all add: SessionTraceV2_manual_rework_def\<close>)

lemmas trace_accepts =
  begin_accept advance_accept finish_accept retry_accept cancel_accept rework_to_accept
  manual_rework_accept

lemma trace_step_accept:
  "trace_wf t \<Longrightarrow> trace_step c t = (Inr (), t') \<Longrightarrow> trace_wf t' \<and> trace_evolves t t'"
  by (cases c) (auto dest: trace_accepts)

lemma prepare_fresh_revision:
  "prepare_fresh t n fid g = Inr (f, r) \<Longrightarrow>
     unat (revision_get r) = Suc (unat (revision_get (tr_revision t)))"
  by (auto simp: prepare_fresh_def checked_succ_nat split: if_splits)

lemma trace_step_revision:
  assumes "trace_step c t = (Inr (), t')"
  shows "unat (revision_get (tr_revision t')) = Suc (unat (revision_get (tr_revision t)))"
proof (cases c)
  case (TcBegin n a g)
  with assms show ?thesis by (auto simp: SessionTraceV2_begin_def Revision_ZERO_def split: if_splits)
next
  case (TcAdvance e p n a g)
  with assms show ?thesis
    by (auto simp: SessionTraceV2_advance_def intro: prepare_fresh_revision split: if_splits)
next
  case (TcFinish e p)
  with assms show ?thesis by (auto simp: SessionTraceV2_finish_def checked_succ_nat)
next
  case (TcRetry e a g)
  with assms show ?thesis by (auto simp: SessionTraceV2_retry_def Let_def intro: prepare_fresh_revision)
next
  case (TcCancel e)
  with assms show ?thesis by (auto simp: SessionTraceV2_cancel_def checked_succ_nat)
next
  case (TcRework e n a g)
  with assms show ?thesis by (auto simp: SessionTraceV2_rework_to_def intro: prepare_fresh_revision)
next
  case (TcManualRework e n a g)
  with assms show ?thesis
    by (auto simp: SessionTraceV2_manual_rework_def intro: prepare_fresh_revision
        split: if_splits SessionLifecycle.splits)
qed

interpretation trace_machine: fenced_machine
  trace_step trace_wf "\<lambda>t. unat (revision_get (tr_revision t))"
  by unfold_locales (rule trace_step_reject, assumption, blast dest: trace_step_accept,
    rule trace_step_revision)

end
