(* ===== verification/Session_Trace_Props.thy ===== *)
theory Session_Trace_Props
  imports Session_Trace_Ops
begin

text \<open>
  Reachable traces and the properties of the session cursor: the invariant of every reachable
  trace, the round trip through persisted parts, the single cursor, immutable history, the
  refinement of the abstract cursor machine and the exact admission conditions of every command.
\<close>

section \<open>Reachable traces\<close>

text \<open>
  Every way the methods of \<open>SessionTraceV2\<close> can be called, failing calls included: their state
  afterwards is reachable too.
\<close>

inductive trace_reach :: "SessionTraceV2 \<Rightarrow> bool" where
  prepared: "trace_reach (SessionTraceV2_prepared sid)"
| started: "SessionTraceV2_start sid n a g = Inr t \<Longrightarrow> trace_reach t"
| step: "trace_reach t \<Longrightarrow> trace_reach (snd (trace_step c t))"
| bind_goal: "trace_reach t \<Longrightarrow> trace_reach (snd (bind_initial_goal_revision t e))"
| bind_goal_at_start: "trace_reach t \<Longrightarrow> trace_reach (snd (bind_initial_goal_revision_at_start t e))"

lemma prepared_wf: "trace_wf (SessionTraceV2_prepared sid)"
  by (simp add: trace_wf_def lifecycle_wf_def SessionTraceV2_prepared_def)

lemma started_wf:
  assumes "SessionTraceV2_start sid n a g = Inr t"
  shows "trace_wf t"
proof -
  have "SessionTraceV2_begin (SessionTraceV2_prepared sid) n a g = (Inr (), t)"
    using assms
    by (auto simp: SessionTraceV2_start_def SessionTraceV2_begin_def SessionTraceV2_prepared_def try_mut_def
        split: sum.splits)
  with prepared_wf begin_accept show ?thesis by blast
qed

lemma goal_update_wf:
  assumes wf: "trace_wf t" and i: "require_running_active t e = Inr i"
    and none: "att_goal_revision (tr_attempts t ! i) = None"
    and t': "t' = t\<lparr>tr_attempts :=
               modify i (\<lambda>a. a\<lparr>att_goal_revision := Some GoalRevisionNumberV2_FIRST\<rparr>) (tr_attempts t)\<rparr>"
  shows "trace_wf t' \<and> trace_evolves t t'"
proof -
  from require_running_active_ok[OF wf i] obtain ats a where
    run: "tr_lifecycle t = SessionRunning" and s: "tr_attempts t = ats @ [a]" "is_active a"
      "\<forall>b\<in>set ats. \<not> is_active b" "i = length ats" by metis
  let ?new = "ats @ [a\<lparr>att_goal_revision := Some GoalRevisionNumberV2_FIRST\<rparr>]"
  have ev: "list_all2 att_evolves (tr_attempts t) ?new"
    unfolding s(1) using none s by (intro evolve_last) (simp add: att_evolves_def)
  have "attempts_wf ?new"
    using s trace_wf_attempts[OF wf]
    by (intro attempts_wf_evolves[OF ev]) (simp_all add: att_wf_def counter_firsts)
  with ev s run t' wf show ?thesis
    by (auto simp: trace_wf_def trace_evolves_def lifecycle_wf_def is_active_def)
qed

lemma revision_update_wf:
  "trace_wf t \<Longrightarrow> tr_lifecycle t \<noteq> SessionPrepared \<Longrightarrow> r \<noteq> Revision_ZERO \<Longrightarrow> trace_wf (t\<lparr>tr_revision := r\<rparr>)"
  by (auto simp: trace_wf_def lifecycle_wf_def split: SessionLifecycle.splits)

lemma bind_goal_wf: "trace_wf t \<Longrightarrow> trace_wf (snd (bind_initial_goal_revision t e)) \<and>
    trace_evolves t (snd (bind_initial_goal_revision t e))"
proof (cases "require_running_active t e")
  case (Inr i)
  assume wf: "trace_wf t"
  from require_running_active_ok[OF wf Inr] have run: "tr_lifecycle t = SessionRunning" .
  show ?thesis
  proof (cases "att_goal_revision (tr_attempts t ! i)")
    case None
    let ?t = "t\<lparr>tr_attempts :=
               modify i (\<lambda>a. a\<lparr>att_goal_revision := Some GoalRevisionNumberV2_FIRST\<rparr>) (tr_attempts t)\<rparr>"
    note g = goal_update_wf[OF wf Inr None refl]
    show ?thesis
    proof (cases "Revision_checked_next (tr_revision t)")
      case (Inr r)
      then have "r \<noteq> Revision_ZERO" by (simp add: checked_succ_nat revision_nonzero)
      with g run have "trace_wf (?t\<lparr>tr_revision := r\<rparr>)" by (intro revision_update_wf) auto
      moreover have "bind_initial_goal_revision t e = (Inr (), ?t\<lparr>tr_revision := r\<rparr>)"
        using Inr None \<open>require_running_active t e = Inr i\<close>
        by (simp add: bind_initial_goal_revision_def try_mut_def Let_def del: checked_next_ok)
      ultimately show ?thesis using g by (simp add: trace_evolves_def)
    next
      case (Inl x)
      with g None \<open>require_running_active t e = Inr i\<close> show ?thesis
        by (simp add: bind_initial_goal_revision_def try_mut_def)
    qed
  next
    case (Some g)
    with Inr wf show ?thesis
      by (simp add: bind_initial_goal_revision_def try_mut_def trace_evolves_refl)
  qed
qed (simp add: bind_initial_goal_revision_def try_mut_def trace_evolves_refl)

lemma bind_goal_at_start_wf: "trace_wf t \<Longrightarrow> trace_wf (snd (bind_initial_goal_revision_at_start t e)) \<and>
    trace_evolves t (snd (bind_initial_goal_revision_at_start t e))"
proof (cases "require_running_active t e")
  case (Inr i)
  assume wf: "trace_wf t"
  with Inr goal_update_wf[OF wf Inr] show ?thesis
    by (cases "att_goal_revision (tr_attempts t ! i)")
      (auto simp: bind_initial_goal_revision_at_start_def try_mut_def trace_evolves_refl)
qed (simp add: bind_initial_goal_revision_at_start_def try_mut_def trace_evolves_refl)

lemma reach_wf: "trace_reach t \<Longrightarrow> trace_wf t"
  by (induction rule: trace_reach.induct)
    (auto simp: prepared_wf started_wf bind_goal_wf bind_goal_at_start_wf intro: trace_machine.step_inv)

lemma step_evolves: "trace_wf t \<Longrightarrow> trace_evolves t (snd (trace_step c t))"
proof (cases "trace_step c t")
  case (Pair r t')
  assume "trace_wf t"
  with Pair show ?thesis
    by (cases r) (auto dest: trace_step_accept trace_step_reject simp: trace_evolves_refl)
qed

section \<open>The valid path\<close>

definition path_of :: "SessionAttemptV2 list \<Rightarrow> GraphNodeId list" where
  "path_of ats = map att_graph_node_id (filter valid_att ats)"

definition valid_path :: "SessionTraceV2 \<Rightarrow> GraphNodeId list" where
  "valid_path t = path_of (tr_attempts t)"

lemma path_of_append [simp]: "path_of (xs @ ys) = path_of xs @ path_of ys"
  by (simp add: path_of_def)

lemma path_of_simps [simp]:
  "path_of [] = []"
  "path_of (a # ats) = (if valid_att a then att_graph_node_id a # path_of ats else path_of ats)"
  by (simp_all add: path_of_def)

lemma attempts_sorted:
  "attempts_wf ats \<Longrightarrow> sorted_wrt (\<lambda>a b. att_trace a < att_trace b) ats"
  by (auto simp: sorted_wrt_iff_nth_less attempts_wf_def counter_order word_less_nat_alt)

lemma path_stale:
  assumes wf: "attempts_wf ats" and x: "x \<in> set ats" "valid_att x"
  shows "path_of (map (stale_from (att_trace x)) ats) =
     takeWhile (\<lambda>m. m \<noteq> att_graph_node_id x) (path_of ats)"
proof -
  let ?vs = "filter valid_att ats" and ?s = "att_trace x"
  have "x \<in> set ?vs" using x by simp
  then obtain us ws where vs: "?vs = us @ x # ws" by (meson split_list)
  have "sorted_wrt (\<lambda>a b. att_trace a < att_trace b) ?vs"
    using attempts_sorted[OF wf] by (rule sorted_wrt_filter)
  then have lt: "\<forall>u\<in>set us. att_trace u < ?s" and gt: "\<forall>w\<in>set ws. \<not> att_trace w < ?s"
    unfolding vs by (auto simp: sorted_wrt_append not_less)
  have "filter valid_att (map (stale_from ?s) ats) = map (stale_from ?s) (filter (\<lambda>a. att_trace a < ?s) ?vs)"
    by (simp add: filter_map comp_def)
  moreover have "filter (\<lambda>a. att_trace a < ?s) ?vs = us"
    unfolding vs using lt gt by (simp add: filter_id_conv filter_empty_conv)
  ultimately have l: "path_of (map (stale_from ?s) ats) = map att_graph_node_id us"
    by (simp add: path_of_def comp_def)
  have "distinct (map att_graph_node_id ?vs)" using wf by (simp add: attempts_wf_def)
  then have "att_graph_node_id x \<notin> set (map att_graph_node_id us)" unfolding vs by auto
  then have "\<forall>m\<in>set (map att_graph_node_id us). m \<noteq> att_graph_node_id x" by metis
  then have "takeWhile (\<lambda>m. m \<noteq> att_graph_node_id x) (map att_graph_node_id us @ att_graph_node_id x # map att_graph_node_id ws)
      = map att_graph_node_id us"
    by (subst takeWhile_append2) auto
  with l vs show ?thesis by (simp add: path_of_def)
qed

lemma path_mem: "n \<in> set (path_of ats) \<longleftrightarrow> (\<exists>a\<in>set ats. valid_att a \<and> att_graph_node_id a = n)"
  by (auto simp: path_of_def)

section \<open>The abstract cursor machine\<close>

type_synonym cursor = "SessionLifecycle \<times> GraphNodeId list"

definition cursor_of :: "SessionTraceV2 \<Rightarrow> cursor" where
  "cursor_of t = (tr_lifecycle t, valid_path t)"

fun cursor_enabled :: "TraceCommand \<Rightarrow> cursor \<Rightarrow> bool" where
  "cursor_enabled (TcBegin n a g) (l, path) = (l = SessionPrepared)"
| "cursor_enabled (TcAdvance e p n a g) (l, path) = (l = SessionRunning \<and> n \<notin> set path)"
| "cursor_enabled (TcFinish e p) (l, path) = (l = SessionRunning)"
| "cursor_enabled (TcRetry e a g) (l, path) = (l = SessionRunning)"
| "cursor_enabled (TcCancel e) (l, path) = (l = SessionRunning)"
| "cursor_enabled (TcRework e n a g) (l, path) = (l = SessionRunning \<and> n \<in> set path)"
| "cursor_enabled (TcManualRework e n a g) (l, path) =
     ((if e = None then l = SessionCompleted else l = SessionRunning) \<and> n \<in> set path)"

fun cursor_step :: "TraceCommand \<Rightarrow> cursor \<Rightarrow> cursor" where
  "cursor_step (TcBegin n a g) (l, path) = (SessionRunning, [n])"
| "cursor_step (TcAdvance e p n a g) (l, path) = (SessionRunning, path @ [n])"
| "cursor_step (TcFinish e p) (l, path) = (SessionCompleted, path)"
| "cursor_step (TcRetry e a g) (l, path) = (SessionRunning, path)"
| "cursor_step (TcCancel e) (l, path) = (SessionCancelled, butlast path)"
| "cursor_step (TcRework e n a g) (l, path) = (SessionRunning, takeWhile (\<lambda>m. m \<noteq> n) path @ [n])"
| "cursor_step (TcManualRework e n a g) (l, path) = (SessionRunning, takeWhile (\<lambda>m. m \<noteq> n) path @ [n])"

lemma fresh_path: "prepare_fresh t n fid g = Inr (f, r) \<Longrightarrow> valid_att f \<and> att_graph_node_id f = n"
  by (auto simp: prepare_fresh_def SessionAttemptV2_new_ok split: if_splits)

lemma rework_path:
  assumes wf: "trace_wf t" and s: "tr_attempts t = ats @ [a]"
    and target: "valid_attempt_trace t n = Some s"
  shows "path_of (map (stale_from s) (ats @ [a\<lparr>att_lifecycle := l\<rparr>])) =
     takeWhile (\<lambda>m. m \<noteq> n) (valid_path t)" and "n \<in> set (valid_path t)"
proof -
  from valid_attempt_trace_Some[OF target] obtain x where
    x: "x \<in> set (tr_attempts t)" "valid_att x" "att_graph_node_id x = n" "att_trace x = s" by blast
  have "path_of (map (stale_from s) (ats @ [a\<lparr>att_lifecycle := l\<rparr>])) = path_of (map (stale_from s) (tr_attempts t))"
    using s by simp
  also have "\<dots> = takeWhile (\<lambda>m. m \<noteq> n) (valid_path t)"
    using path_stale[OF _ x(1,2)] trace_wf_attempts[OF wf] x(3,4) by (simp add: valid_path_def)
  finally show "path_of (map (stale_from s) (ats @ [a\<lparr>att_lifecycle := l\<rparr>])) =
     takeWhile (\<lambda>m. m \<noteq> n) (valid_path t)" .
  show "n \<in> set (valid_path t)" using x by (auto simp: valid_path_def path_mem)
qed

lemma running_path:
  assumes wf: "trace_wf t" and i: "require_running_active t e = Inr i"
  obtains ats a where "tr_lifecycle t = SessionRunning" and "tr_attempts t = ats @ [a]"
    and "i = length ats" and "valid_att a" and "valid_path t = path_of ats @ [att_graph_node_id a]"
proof -
  from require_running_active_ok[OF wf i] obtain ats a where
    run: "tr_lifecycle t = SessionRunning" and s: "tr_attempts t = ats @ [a]" "is_active a"
      "\<forall>b\<in>set ats. \<not> is_active b" "i = length ats" by metis
  moreover have "valid_att a" using s trace_wf_attempts[OF wf] by (simp add: active_wf)
  ultimately show ?thesis by (intro that) (simp_all add: valid_path_def)
qed

lemma rework_to_refines:
  assumes wf: "trace_wf t" and op: "SessionTraceV2_rework_to t e n fid g = (Inr (), t')"
  shows "tr_lifecycle t = SessionRunning \<and> n \<in> set (valid_path t) \<and>
    cursor_of t' = (SessionRunning, takeWhile (\<lambda>m. m \<noteq> n) (valid_path t) @ [n])"
proof -
  from op obtain i s f r where i: "require_running_active t e = Inr i"
    and target: "valid_attempt_trace t n = Some s" and f: "prepare_fresh t n fid g = Inr (f, r)"
    and t': "t' = t\<lparr>tr_attempts := stale_suffix_from_trace s
                 (modify i (\<lambda>a. a\<lparr>att_lifecycle := AttemptCompleted\<rparr>) (tr_attempts t)) @ [f],
               tr_revision := r\<rparr>"
    by (auto simp: SessionTraceV2_rework_to_def)
  from running_path[OF wf i] obtain ats a where
    s: "tr_lifecycle t = SessionRunning" "tr_attempts t = ats @ [a]" "i = length ats" by metis
  show ?thesis
    using rework_path(1)[OF wf s(2) target, of AttemptCompleted] rework_path(2)[OF wf s(2) target] fresh_path[OF f] s t'
    by (simp add: cursor_of_def valid_path_def stale_suffix_from_trace_def split: if_splits)
qed

lemma manual_rework_refines:
  assumes wf: "trace_wf t" and op: "SessionTraceV2_manual_rework t e n fid g = (Inr (), t')"
  shows "(if e = None then tr_lifecycle t = SessionCompleted else tr_lifecycle t = SessionRunning) \<and>
    n \<in> set (valid_path t) \<and>
    cursor_of t' = (SessionRunning, takeWhile (\<lambda>m. m \<noteq> n) (valid_path t) @ [n])"
proof (cases "tr_lifecycle t")
  case SessionRunning
  with op obtain x i s f r where e: "e = Some x" and i: "require_running_active t x = Inr i"
    and target: "valid_attempt_trace t n = Some s" and f: "prepare_fresh t n fid g = Inr (f, r)"
    and t': "t' = t\<lparr>tr_attempts := stale_suffix_from_trace s
                 (modify i (\<lambda>a. a\<lparr>att_lifecycle := AttemptAbandoned\<rparr>) (tr_attempts t)) @ [f],
               tr_revision := r\<rparr>"
    by (auto simp: SessionTraceV2_manual_rework_def)
  from running_path[OF wf i] obtain ats a where
    s: "tr_attempts t = ats @ [a]" "i = length ats" by metis
  show ?thesis
    using rework_path(1)[OF wf s(1) target, of AttemptAbandoned] rework_path(2)[OF wf s(1) target]
      fresh_path[OF f] s t' SessionRunning e
    by (simp add: cursor_of_def valid_path_def stale_suffix_from_trace_def split: if_splits)
next
  case SessionCompleted
  with op obtain s f r where e: "e = None" and target: "valid_attempt_trace t n = Some s"
    and f: "prepare_fresh t n fid g = Inr (f, r)"
    and t': "t' = t\<lparr>tr_attempts := map (stale_from s) (tr_attempts t) @ [f],
                    tr_lifecycle := SessionRunning, tr_revision := r\<rparr>"
    by (auto simp: SessionTraceV2_manual_rework_def stale_suffix_from_trace_def split: if_splits)
  from valid_attempt_trace_Some[OF target] obtain x where
    x: "x \<in> set (tr_attempts t)" "valid_att x" "att_graph_node_id x = n" "att_trace x = s" by blast
  have "path_of (map (stale_from s) (tr_attempts t)) = takeWhile (\<lambda>m. m \<noteq> n) (valid_path t)"
    using path_stale[OF _ x(1,2)] trace_wf_attempts[OF wf] x(3,4) by (simp add: valid_path_def)
  with x fresh_path[OF f] t' e SessionCompleted show ?thesis
    by (auto simp: cursor_of_def valid_path_def path_mem)
qed (use op in \<open>simp_all add: SessionTraceV2_manual_rework_def\<close>)

lemma cursor_refines:
  assumes wf: "trace_wf t" and op: "trace_step c t = (Inr (), t')"
  shows "cursor_enabled c (cursor_of t) \<and> cursor_of t' = cursor_step c (cursor_of t)"
proof (cases c)
  case (TcBegin n a g)
  with op show ?thesis
    by (auto simp: SessionTraceV2_begin_def cursor_of_def valid_path_def first_attempt_def
        SessionAttemptV2_new_ok split: if_splits)
next
  case (TcAdvance e p n a g)
  with op obtain i f r where i: "require_running_active t e = Inr i"
    and none: "valid_attempt_trace t n = None" and f: "prepare_fresh t n a g = Inr (f, r)"
    and t': "t' = t\<lparr>tr_attempts := modify i (\<lambda>a. a\<lparr>att_lifecycle := terminal_lifecycle p\<rparr>) (tr_attempts t) @ [f],
                    tr_revision := r\<rparr>"
    by (auto simp: SessionTraceV2_advance_def split: if_splits prod.splits)
  from running_path[OF wf i] obtain ats b where
    s: "tr_lifecycle t = SessionRunning" "tr_attempts t = ats @ [b]" "i = length ats" "valid_att b" by metis
  have "n \<notin> set (valid_path t)"
    using none by (auto simp: valid_path_def path_mem valid_attempt_trace_None)
  with TcAdvance t' s fresh_path[OF f] show ?thesis by (simp add: cursor_of_def valid_path_def)
next
  case (TcFinish e p)
  with op obtain i r where i: "require_running_active t e = Inr i"
    and t': "t' = t\<lparr>tr_attempts := modify i (\<lambda>a. a\<lparr>att_lifecycle := terminal_lifecycle p\<rparr>) (tr_attempts t),
                    tr_lifecycle := SessionCompleted, tr_revision := r\<rparr>"
    by (auto simp: SessionTraceV2_finish_def)
  from running_path[OF wf i] obtain ats b where
    "tr_lifecycle t = SessionRunning" "tr_attempts t = ats @ [b]" "i = length ats" "valid_att b" by metis
  with TcFinish t' show ?thesis by (simp add: cursor_of_def valid_path_def)
next
  case (TcRetry e a g)
  with op obtain i f r where i: "require_running_active t e = Inr i"
    and f: "prepare_fresh t (att_graph_node_id (tr_attempts t ! i)) a g = Inr (f, r)"
    and t': "t' = t\<lparr>tr_attempts := modify i (\<lambda>a. a\<lparr>att_lifecycle := AttemptAbandoned, att_validity := Stale\<rparr>)
                       (tr_attempts t) @ [f], tr_revision := r\<rparr>"
    by (auto simp: SessionTraceV2_retry_def Let_def)
  from running_path[OF wf i] obtain ats b where
    "tr_lifecycle t = SessionRunning" "tr_attempts t = ats @ [b]" "i = length ats" "valid_att b" by metis
  with TcRetry t' fresh_path[OF f] show ?thesis by (simp add: cursor_of_def valid_path_def)
next
  case (TcCancel e)
  with op obtain i r where i: "require_running_active t e = Inr i"
    and t': "t' = t\<lparr>tr_attempts := modify i (\<lambda>a. a\<lparr>att_lifecycle := AttemptAbandoned, att_validity := Stale\<rparr>)
                       (tr_attempts t), tr_lifecycle := SessionCancelled, tr_revision := r\<rparr>"
    by (auto simp: SessionTraceV2_cancel_def)
  from running_path[OF wf i] obtain ats b where
    "tr_lifecycle t = SessionRunning" "tr_attempts t = ats @ [b]" "i = length ats" "valid_att b" by metis
  with TcCancel t' show ?thesis by (simp add: cursor_of_def valid_path_def)
next
  case (TcRework e n a g)
  with op rework_to_refines[OF wf] show ?thesis by (simp add: cursor_of_def)
next
  case (TcManualRework e n a g)
  with op manual_rework_refines[OF wf] show ?thesis by (simp add: cursor_of_def)
qed

section \<open>Exact admission\<close>

text \<open>What a command needs besides being enabled on the abstract cursor.\<close>

definition goal_ok :: "GoalRevisionNumberV2 option \<Rightarrow> bool" where
  "goal_ok g \<longleftrightarrow> g \<noteq> Some (GoalRevisionNumberV2 0)"

definition room_for_fresh :: "SessionTraceV2 \<Rightarrow> AttemptId \<Rightarrow> GoalRevisionNumberV2 option \<Rightarrow> bool" where
  "room_for_fresh t fid g \<longleftrightarrow>
     fid \<notin> att_attempt_id ` set (tr_attempts t) \<and> goal_ok g \<and>
     Suc (length (tr_attempts t)) < 2 ^ 64 \<and> Suc (unat (revision_get (tr_revision t))) < 2 ^ 64"

definition fence_ok :: "SessionTraceV2 \<Rightarrow> AttemptId \<Rightarrow> bool" where
  "fence_ok t e \<longleftrightarrow> map_option att_attempt_id (last_opt (tr_attempts t)) = Some e"

fun fences_ok :: "TraceCommand \<Rightarrow> SessionTraceV2 \<Rightarrow> bool" where
  "fences_ok (TcBegin n a g) t = goal_ok g"
| "fences_ok (TcAdvance e p n a g) t = (fence_ok t e \<and> room_for_fresh t a g)"
| "fences_ok (TcFinish e p) t = (fence_ok t e \<and> Suc (unat (revision_get (tr_revision t))) < 2 ^ 64)"
| "fences_ok (TcRetry e a g) t = (fence_ok t e \<and> room_for_fresh t a g)"
| "fences_ok (TcCancel e) t = (fence_ok t e \<and> Suc (unat (revision_get (tr_revision t))) < 2 ^ 64)"
| "fences_ok (TcRework e n a g) t = (fence_ok t e \<and> room_for_fresh t a g)"
| "fences_ok (TcManualRework e n a g) t = (is_none_or e (fence_ok t) \<and> room_for_fresh t a g)"

lemma goal_ok_first: "goal_ok g \<longleftrightarrow> is_none_or g (\<lambda>g. GoalRevisionNumberV2_FIRST \<le> g)"
proof (cases g)
  case (Some x)
  have "1 \<le> goal_get x \<longleftrightarrow> goal_get x \<noteq> 0"
    by (simp add: word_le_nat_alt word_unat_eq_iff Suc_le_eq)
  with Some show ?thesis
    by (cases x) (simp add: goal_ok_def counter_order counter_firsts)
qed (simp add: goal_ok_def)

lemma checked_succ_room: "(\<exists>v. checked_succ w = Some v) \<longleftrightarrow> Suc (unat w) < 2 ^ 64"
  using checked_succ_eq_None[of w] unat_u64_less[of w] by (cases "checked_succ w") auto

lemma fresh_new_ok:
  assumes "unat (number_get n) = Suc k" and "unat (trace_get s) = Suc m"
  shows "is_ok (SessionAttemptV2_new fid node n s AttemptActive Valid g) \<longleftrightarrow> goal_ok g"
proof -
  have "AttemptNumberV2_FIRST \<le> n" "TraceSequenceV2_FIRST \<le> s"
    using assms by (simp_all add: counter_order counter_firsts word_le_nat_alt)
  then show ?thesis
    by (auto simp: is_ok_iff SessionAttemptV2_new_ok att_wf_def goal_ok_first)
qed

lemma node_count_le: "node_count n ats \<le> length ats"
  by (simp add: node_count_def)

lemma next_number_room:
  assumes "attempts_wf (tr_attempts t)" and "Suc (length (tr_attempts t)) < 2 ^ 64"
  shows "\<exists>n. next_attempt_number_for t node = Inr n"
proof (cases "find (\<lambda>a. att_graph_node_id a = node) (rev (tr_attempts t))")
  case (Some a)
  with last_number_of_node[OF assms(1), of node] have "number_nat a = node_count node (tr_attempts t)"
    by simp
  with assms(2) node_count_le[of node "tr_attempts t"] have "Suc (number_nat a) < 2 ^ 64" by linarith
  then obtain v where "checked_succ (number_get (att_number a)) = Some v"
    using checked_succ_room by blast
  with Some show ?thesis
    by (auto simp: next_attempt_number_for_def intro!: exI[of _ "AttemptNumberV2 v"])
qed (simp add: next_attempt_number_for_def)

lemma next_trace_room:
  assumes "attempts_wf (tr_attempts t)"
  shows "(\<exists>s. next_trace t = Inr s) \<longleftrightarrow> Suc (length (tr_attempts t)) < 2 ^ 64"
proof (cases "tr_attempts t" rule: rev_cases)
  case (snoc ats a)
  with assms have "trace_nat a = length (tr_attempts t)" by (simp add: attempts_wf_snoc)
  then have "(\<exists>v. checked_succ (trace_get (att_trace a)) = Some v) \<longleftrightarrow>
      Suc (length (tr_attempts t)) < 2 ^ 64" by (simp add: checked_succ_room)
  moreover have "(\<exists>s. next_trace t = Inr s) \<longleftrightarrow> (\<exists>v. checked_succ (trace_get (att_trace a)) = Some v)"
    using snoc by (auto simp: next_trace_def) (metis TraceSequenceV2.sel)
  ultimately show ?thesis by simp
qed (simp add: next_trace_def)

lemma prepare_fresh_room:
  assumes wf: "attempts_wf (tr_attempts t)"
  shows "(\<exists>f r. prepare_fresh t node fid g = Inr (f, r)) \<longleftrightarrow> room_for_fresh t fid g" (is "?L \<longleftrightarrow> ?R")
proof
  assume ?L
  then obtain f r where pf: "prepare_fresh t node fid g = Inr (f, r)" by blast
  then have fid: "fid \<notin> att_attempt_id ` set (tr_attempts t)"
    by (auto simp: prepare_fresh_def simp del: checked_next_ok split: if_splits)
  from pf obtain n s where
    n: "next_attempt_number_for t node = Inr n" and s: "next_trace t = Inr s"
    and r: "Revision_checked_next (tr_revision t) = Inr r"
    and f: "SessionAttemptV2_new fid node n s AttemptActive Valid g = Inr f"
    by (auto simp: prepare_fresh_def simp del: checked_next_ok split: if_splits)
  have "goal_ok g"
    using f fresh_new_ok[OF next_attempt_number_nat[OF wf n] next_trace_nat[OF wf s], of fid node g] by simp
  moreover have "Suc (unat (revision_get (tr_revision t))) < 2 ^ 64"
    using r checked_succ_room by auto
  ultimately show ?R using fid s next_trace_room[OF wf] by (auto simp: room_for_fresh_def)
next
  assume R: ?R
  then obtain n s v where n: "next_attempt_number_for t node = Inr n" and s: "next_trace t = Inr s"
    and v: "checked_succ (revision_get (tr_revision t)) = Some v"
    using next_number_room[OF wf] next_trace_room[OF wf] checked_succ_room
    by (auto simp: room_for_fresh_def) metis
  have r: "Revision_checked_next (tr_revision t) = Inr (Revision v)" using v by simp
  obtain f where f: "SessionAttemptV2_new fid node n s AttemptActive Valid g = Inr f"
    using R fresh_new_ok[OF next_attempt_number_nat[OF wf n] next_trace_nat[OF wf s], of fid node g]
    by (auto simp: room_for_fresh_def is_ok_iff)
  have "prepare_fresh t node fid g = Inr (f, Revision v)"
    using R n s r f by (auto simp: prepare_fresh_def room_for_fresh_def simp del: checked_next_ok)
  then show ?L by blast
qed

lemma require_running_active_iff:
  assumes wf: "trace_wf t"
  shows "(\<exists>i. require_running_active t e = Inr i) \<longleftrightarrow> tr_lifecycle t = SessionRunning \<and> fence_ok t e" (is "?L \<longleftrightarrow> ?R")
proof
  assume ?L
  then obtain i where "require_running_active t e = Inr i" by blast
  from require_running_active_ok[OF wf this] show ?R by (metis fence_ok_def last_opt_simps(2) option.simps(9))
next
  assume R: ?R
  then obtain ats a where s: "tr_attempts t = ats @ [a]" "is_active a" "\<forall>b\<in>set ats. \<not> is_active b"
    using running_split[OF wf] by metis
  with R have "require_running_active t e = Inr (length ats)"
    by (simp add: require_running_active_def position_last fence_ok_def)
  then show ?L by blast
qed

lemma valid_target_iff: "(\<exists>s. valid_attempt_trace t n = Some s) \<longleftrightarrow> n \<in> set (valid_path t)"
proof -
  have "valid_attempt_trace t n = None \<longleftrightarrow> n \<notin> set (valid_path t)"
    unfolding valid_attempt_trace_None valid_path_def path_mem by blast
  then show ?thesis by (cases "valid_attempt_trace t n") auto
qed

lemma revision_room:
  "(\<exists>r. Revision_checked_next (tr_revision t) = Inr r) \<longleftrightarrow> Suc (unat (revision_get (tr_revision t))) < 2 ^ 64"
  using checked_succ_room[of "revision_get (tr_revision t)"] by (auto intro: exI[of _ "Revision _"])

text \<open>A mutation succeeds exactly when every read it propagates succeeds.\<close>

lemma try_mut_accepts:
  "(\<exists>t'. try_mut r t f = (Inr (), t')) \<longleftrightarrow> (\<exists>x. r = Inr x \<and> (\<exists>t'. f x = (Inr (), t')))"
  by (cases r) (auto simp: try_mut_def)

lemma first_attempt_room: "(\<exists>a. first_attempt n fid g = Inr a) \<longleftrightarrow> goal_ok g"
proof -
  have "is_ok (first_attempt n fid g) \<longleftrightarrow> goal_ok g"
    unfolding first_attempt_def by (rule fresh_new_ok) (simp_all add: counter_firsts)
  then show ?thesis by (simp add: is_ok_iff)
qed

lemma step_admission:
  assumes wf: "trace_wf t"
  shows "(\<exists>t'. trace_step c t = (Inr (), t')) \<longleftrightarrow> cursor_enabled c (cursor_of t) \<and> fences_ok c t"
proof -
  note fresh = prepare_fresh_room[OF conjunct1[OF trace_wf_attempts[OF wf]]]
  note active = require_running_active_iff[OF wf]
  note target = valid_target_iff[of t]
  have none: "valid_attempt_trace t n = None \<longleftrightarrow> n \<notin> set (valid_path t)" for n
    using target[of n] by (cases "valid_attempt_trace t n") auto
  show ?thesis
  proof (cases c)
    case (TcBegin n a g)
    with wf show ?thesis
      using first_attempt_room[of n a g]
      by (auto simp: SessionTraceV2_begin_def try_mut_def cursor_of_def trace_wf_def lifecycle_wf_def split: sum.splits)
  next
    case (TcAdvance e p n a g)
    then show ?thesis
      using active[of e] fresh[of n a g] none[of n]
      by (auto simp: SessionTraceV2_advance_def try_mut_accepts cursor_of_def)
  next
    case (TcFinish e p)
    then show ?thesis
      using active[of e] revision_room[of t]
      by (auto simp: SessionTraceV2_finish_def try_mut_accepts cursor_of_def)
  next
    case (TcRetry e a g)
    then show ?thesis
      using active[of e] fresh[of _ a g]
      by (fastforce simp: SessionTraceV2_retry_def try_mut_accepts cursor_of_def Let_def)
  next
    case (TcCancel e)
    then show ?thesis
      using active[of e] revision_room[of t]
      by (auto simp: SessionTraceV2_cancel_def try_mut_accepts cursor_of_def)
  next
    case (TcRework e n a g)
    then show ?thesis
      using active[of e] fresh[of n a g] target[of n]
      by (auto simp: SessionTraceV2_rework_to_def try_mut_accepts cursor_of_def)
  next
    case (TcManualRework e n a g)
    then show ?thesis
      using active[of "the e"] fresh[of n a g] target[of n]
      by (cases "tr_lifecycle t"; cases e)
        (auto simp: SessionTraceV2_manual_rework_def try_mut_accepts cursor_of_def)
  qed
qed

section \<open>Properties of the session trace\<close>

text \<open>A two-node example session used by the witnesses.\<close>

definition demo_attempt :: "nat \<Rightarrow> AttemptId" where
  "demo_attempt n = AttemptId [n]"

definition demo_node :: "nat \<Rightarrow> GraphNodeId" where
  "demo_node n = GraphNodeId [n]"

definition demo_prepared :: SessionTraceV2 where
  "demo_prepared = SessionTraceV2_prepared (SessionId [7])"

definition demo_commands :: "TraceCommand list" where
  "demo_commands =
     [TcBegin (demo_node 1) (demo_attempt 1) None,
      TcAdvance (demo_attempt 1) AdvanceCompleted (demo_node 2) (demo_attempt 2) None]"

definition demo_running :: SessionTraceV2 where
  "demo_running = trace_machine.run demo_commands demo_prepared"

lemma demo_running_eq:
  "demo_running =
     \<lparr>tr_session_id = SessionId [7], tr_lifecycle = SessionRunning, tr_revision = Revision 2,
      tr_attempts =
        [\<lparr>att_attempt_id = demo_attempt 1, att_graph_node_id = demo_node 1, att_number = AttemptNumberV2 1,
          att_trace = TraceSequenceV2 1, att_lifecycle = AttemptCompleted, att_validity = Valid,
          att_goal_revision = None\<rparr>,
         \<lparr>att_attempt_id = demo_attempt 2, att_graph_node_id = demo_node 2, att_number = AttemptNumberV2 1,
          att_trace = TraceSequenceV2 2, att_lifecycle = AttemptActive, att_validity = Valid,
          att_goal_revision = None\<rparr>]\<rparr>"
  unfolding demo_running_def demo_commands_def demo_prepared_def trace_machine.run.simps
  by code_simp

lemma demo_reach: "trace_reach demo_running"
  unfolding demo_running_def demo_commands_def demo_prepared_def trace_machine.run.simps
  by (intro trace_reach.intros)

lemma run_evolves: "trace_wf t \<Longrightarrow> trace_evolves t (trace_machine.run cs t)"
proof (induction cs arbitrary: t)
  case (Cons c cs)
  have "trace_evolves t (snd (trace_step c t))" by (rule step_evolves[OF Cons.prems])
  moreover have "trace_evolves (snd (trace_step c t)) (trace_machine.run cs (snd (trace_step c t)))"
    by (rule Cons.IH) (rule trace_machine.step_inv[OF Cons.prems])
  ultimately show ?case by (auto intro: trace_evolves_trans)
qed (simp add: trace_evolves_refl)

text \<open>
  C12: Refinement. On a reachable trace every accepted command is a step of the abstract cursor
  machine, whose whole state is the session lifecycle and the path of graph nodes with a valid
  attempt: advancing appends the target, retry keeps the path, cancel drops its end, and both kinds
  of rework cut the path back to the target and put it at the end again.
\<close>

theorem trace_refines_cursor:
  assumes "trace_reach t" and "trace_step c t = (Inr (), t')"
  shows "cursor_enabled c (cursor_of t) \<and> cursor_of t' = cursor_step c (cursor_of t)"
  using cursor_refines[OF reach_wf[OF assms(1)] assms(2)] .

theorem trace_refines_cursor_witness:
  "cursor_of (snd (trace_step (TcRework (demo_attempt 2) (demo_node 1) (demo_attempt 3) None) demo_running)) =
     (SessionRunning, [demo_node 1])"
proof -
  let ?c = "TcRework (demo_attempt 2) (demo_node 1) (demo_attempt 3) None"
  have "trace_step ?c demo_running = (Inr (), snd (trace_step ?c demo_running))"
    unfolding demo_running_eq by code_simp
  from trace_refines_cursor[OF demo_reach this]
  have "cursor_of (snd (trace_step ?c demo_running)) = cursor_step ?c (cursor_of demo_running)" ..
  then show ?thesis unfolding demo_running_eq by (simp add: cursor_of_def valid_path_def)
qed

text \<open>
  C13: Exact admission. On a reachable trace a command is accepted if and only if it is enabled on
  the abstract cursor, its expected active attempt is the current one, the fresh attempt identifier
  was never used, its goal revision is not zero, and the trace and revision counters have room: no
  other check of the code can fail, and none of these can be missed.
\<close>

theorem trace_step_admission:
  assumes "trace_reach t"
  shows "is_ok (fst (trace_step c t)) \<longleftrightarrow> cursor_enabled c (cursor_of t) \<and> fences_ok c t"
proof -
  have "is_ok (fst (trace_step c t)) \<longleftrightarrow> (\<exists>t'. trace_step c t = (Inr (), t'))"
    by (cases "trace_step c t") (auto simp: is_ok_iff)
  with step_admission[OF reach_wf[OF assms]] show ?thesis by simp
qed

theorem trace_step_admission_witness:
  "is_ok (fst (trace_step (TcFinish (demo_attempt 2) AdvanceCompleted) demo_running)) \<and>
   \<not> is_ok (fst (trace_step (TcFinish (demo_attempt 1) AdvanceCompleted) demo_running))"
  using trace_step_admission[OF demo_reach, of "TcFinish (demo_attempt 2) AdvanceCompleted"]
    trace_step_admission[OF demo_reach, of "TcFinish (demo_attempt 1) AdvanceCompleted"]
  by (simp add: demo_running_eq cursor_of_def fence_ok_def last_opt_def demo_attempt_def)

text \<open>
  C16: Round trip. Every trace the operations can produce survives persistence: reconstructing it
  from its parts through the trust boundary gives the same trace back. The bound excludes only a
  trace whose next sequence number no longer fits the counter.
\<close>

theorem trace_reconstruction_round_trip:
  assumes "trace_reach t" and "Suc (length (tr_attempts t)) < 2 ^ 64"
  shows "SessionTraceV2_from_parts (tr_session_id t) (tr_lifecycle t) (tr_revision t) (tr_attempts t) = Inr t"
proof -
  note wf = reach_wf[OF assms(1)]
  show ?thesis using from_parts_ok[of "tr_attempts t"] trace_wf_attempts[OF wf] wf assms(2) by simp
qed

theorem trace_reconstruction_round_trip_witness:
  "SessionTraceV2_from_parts (tr_session_id demo_running) (tr_lifecycle demo_running)
     (tr_revision demo_running) (tr_attempts demo_running) = Inr demo_running"
  by (rule trace_reconstruction_round_trip[OF demo_reach]) (simp add: demo_running_eq)

text \<open>
  C15: The trust boundary is exact. From individually well-formed attempts, and while the next trace
  sequence number still fits the 64-bit counter, reconstruction accepts precisely the well-formed traces:
  consecutive trace sequence, per-node attempt numbers counting
  from one, distinct attempt identifiers, at most one valid attempt per graph node, and the
  lifecycle's condition on the revision and on the active attempt.
\<close>

theorem trace_reconstruction_exact:
  assumes "\<forall>a\<in>set ats. att_wf a"
  shows "is_ok (SessionTraceV2_from_parts sid l r ats) \<longleftrightarrow>
     trace_wf \<lparr>tr_session_id = sid, tr_lifecycle = l, tr_revision = r, tr_attempts = ats\<rparr> \<and>
     Suc (length ats) < 2 ^ 64"
  using from_parts_ok[OF assms] by (simp add: is_ok_iff)

theorem trace_reconstruction_exact_witness:
  "length (tr_attempts demo_running) = 2 \<and>
   is_ok (SessionTraceV2_from_parts (tr_session_id demo_running) SessionRunning (tr_revision demo_running)
     (tr_attempts demo_running)) \<and>
   \<not> is_ok (SessionTraceV2_from_parts (tr_session_id demo_running) SessionCompleted (tr_revision demo_running)
     (tr_attempts demo_running)) \<and>
   \<not> is_ok (SessionTraceV2_from_parts (tr_session_id demo_running) SessionRunning (tr_revision demo_running)
     (rev (tr_attempts demo_running)))"
proof -
  have wf: "\<forall>a\<in>set (tr_attempts demo_running). att_wf a" "\<forall>a\<in>set (rev (tr_attempts demo_running)). att_wf a"
    using trace_wf_attempts[OF reach_wf[OF demo_reach]] by simp_all
  have l: "tr_lifecycle demo_running = SessionRunning" "length (tr_attempts demo_running) = 2"
    by (simp_all add: demo_running_eq)
  have t: "trace_wf \<lparr>tr_session_id = tr_session_id demo_running, tr_lifecycle = SessionRunning,
      tr_revision = tr_revision demo_running, tr_attempts = tr_attempts demo_running\<rparr>"
    using reach_wf[OF demo_reach] by (simp add: demo_running_eq)
  show ?thesis
    using l t trace_reconstruction_exact[OF wf(1), of "tr_session_id demo_running"]
      trace_reconstruction_exact[OF wf(2), of "tr_session_id demo_running" SessionRunning "tr_revision demo_running"]
    by (simp add: demo_running_eq trace_wf_def lifecycle_wf_def is_active_def)
qed

text \<open>
  One cursor. A reachable session has an active cursor exactly while it runs; the cursor is the
  newest attempt, that attempt is valid, and no other attempt is active.
\<close>

theorem trace_single_cursor:
  assumes "trace_reach t"
  shows "(active_cursor t \<noteq> None \<longleftrightarrow> tr_lifecycle t = SessionRunning) \<and>
    (\<forall>a. active_attempt t = Some a \<longrightarrow>
       (\<exists>ats. tr_attempts t = ats @ [a] \<and> valid_att a \<and> is_active a \<and> (\<forall>b\<in>set ats. \<not> is_active b)))"
proof -
  note wf = reach_wf[OF assms]
  show ?thesis
  proof (cases "tr_lifecycle t = SessionRunning")
    case True
    with running_split[OF wf] obtain ats a where
      s: "tr_attempts t = ats @ [a]" "is_active a" "\<forall>b\<in>set ats. \<not> is_active b" by metis
    moreover have "valid_att a" using s trace_wf_attempts[OF wf] by (simp add: active_wf)
    moreover have "find is_active (tr_attempts t) = Some a"
      using s by (auto simp: find_append dest: find_SomeD split: option.splits)
    ultimately show ?thesis
      using True by (auto simp: active_cursor_def active_attempt_def ActiveCursorV2_from_attempt_def)
  next
    case False
    with wf have "\<forall>a\<in>set (tr_attempts t). \<not> is_active a"
      by (cases "tr_lifecycle t") (auto simp: trace_wf_def lifecycle_wf_def filter_empty_conv)
    then have "find is_active (tr_attempts t) = None" by (simp add: find_None_iff)
    with False show ?thesis by (simp add: active_cursor_def active_attempt_def)
  qed
qed

theorem trace_single_cursor_witness:
  "active_cursor demo_running \<noteq> None \<and>
   (\<exists>a ats. active_attempt demo_running = Some a \<and> tr_attempts demo_running = ats @ [a])"
proof -
  have "tr_lifecycle demo_running = SessionRunning" by (simp add: demo_running_eq)
  moreover have "active_attempt demo_running \<noteq> None"
    by (simp add: demo_running_eq active_attempt_def is_active_def)
  ultimately show ?thesis using trace_single_cursor[OF demo_reach] by blast
qed

text \<open>
  C14: Append-only history under optimistic concurrency. Whatever sequence of commands is applied,
  accepted or rejected, every recorded attempt keeps its identity, node, number and position, a
  stale attempt never becomes valid again and a settled one never becomes active again, and the
  revision is the starting one plus the number of accepted commands, without wrap-around.
\<close>

theorem trace_history_append_only:
  assumes "trace_reach t"
  shows "trace_evolves t (trace_machine.run cs t) \<and> trace_wf (trace_machine.run cs t) \<and>
    unat (revision_get (tr_revision (trace_machine.run cs t))) =
      unat (revision_get (tr_revision t)) + trace_machine.accepted cs t"
  using run_evolves[OF reach_wf[OF assms]] trace_machine.run_inv[OF reach_wf[OF assms]]
    trace_machine.run_rev[of cs t]
  by simp

theorem trace_history_append_only_witness:
  "trace_evolves demo_prepared demo_running \<and>
   unat (revision_get (tr_revision demo_running)) = trace_machine.accepted demo_commands demo_prepared"
proof -
  have "trace_reach demo_prepared" unfolding demo_prepared_def by (rule trace_reach.prepared)
  from trace_history_append_only[OF this, of demo_commands] show ?thesis
    unfolding demo_running_def
    by (simp add: demo_prepared_def SessionTraceV2_prepared_def Revision_ZERO_def)
qed

text \<open>
  C38: Rejection is not a no-op for the goal binding. When the revision counter is exhausted,
  \<open>bind_initial_goal_revision\<close> returns an error after it has already written the goal revision into
  the active attempt: the caller's trace differs from the one it passed in.
\<close>

theorem bind_goal_overflow_mutates:
  assumes "trace_wf t" and "require_running_active t e = Inr i"
    and "att_goal_revision (tr_attempts t ! i) = None" and "tr_revision t = Revision (- 1)"
  shows "\<not> is_ok (fst (bind_initial_goal_revision t e)) \<and>
    att_goal_revision (tr_attempts (snd (bind_initial_goal_revision t e)) ! i) = Some GoalRevisionNumberV2_FIRST"
proof -
  from require_running_active_ok[OF assms(1,2)] obtain ats a where
    "tr_attempts t = ats @ [a]" "i = length ats" by metis
  with assms(2-) show ?thesis
    by (simp add: bind_initial_goal_revision_def try_mut_def Revision_checked_next_def checked_succ_def)
qed

theorem bind_goal_overflow_mutates_witness:
  "fst (bind_initial_goal_revision (demo_running\<lparr>tr_revision := Revision (- 1)\<rparr>) (demo_attempt 2)) \<noteq> Inr ()"
proof -
  let ?t = "demo_running\<lparr>tr_revision := Revision (- 1)\<rparr>"
  have "trace_wf ?t"
    by (rule revision_update_wf[OF reach_wf[OF demo_reach]]) (simp_all add: demo_running_eq Revision_ZERO_def)
  moreover have "require_running_active ?t (demo_attempt 2) = Inr 1"
    unfolding demo_running_eq by code_simp
  ultimately show ?thesis
    using bind_goal_overflow_mutates[of ?t "demo_attempt 2" 1] by (auto simp: demo_running_eq)
qed

end
