(* ===== verification/Limits.thy ===== *)
theory Limits
  imports Domain_Values
begin

text \<open>
  The scale envelope of \<open>procedure_v2/limits.rs\<close>: the constants every admission bound of the domain
  uses, and the saturating byte charge of a complete graph-counter array. Constants whose Rust type
  is an unsigned integer are natural numbers; every comparison in the code widens to \<open>usize\<close> or
  \<open>u64\<close> first.
\<close>

definition MAX_TEXT_SCALARS_V2 :: nat where
  "MAX_TEXT_SCALARS_V2 = 65536"

definition MAX_LIST_ENTRIES_V2 :: nat where
  "MAX_LIST_ENTRIES_V2 = 1000"

definition MAX_LIST_ENTRY_SCALARS_V2 :: nat where
  "MAX_LIST_ENTRY_SCALARS_V2 = 8192"

definition MAX_LIST_TOTAL_SCALARS_V2 :: nat where
  "MAX_LIST_TOTAL_SCALARS_V2 = 1000000"

definition MAX_ATTEMPT_CONTENT_SCALARS_V2 :: nat where
  "MAX_ATTEMPT_CONTENT_SCALARS_V2 = 16777216"

definition MAX_ITEMS_PER_DEFINITION_V2 :: nat where
  "MAX_ITEMS_PER_DEFINITION_V2 = 128"

lemmas limits =
  MAX_TEXT_SCALARS_V2_def MAX_LIST_ENTRIES_V2_def MAX_LIST_ENTRY_SCALARS_V2_def
  MAX_LIST_TOTAL_SCALARS_V2_def MAX_ATTEMPT_CONTENT_SCALARS_V2_def MAX_ITEMS_PER_DEFINITION_V2_def

section \<open>The graph-counter charge\<close>

definition MAX_GRAPH_COUNTER_FIXED_JSON_BYTES_V2 :: u64 where
  "MAX_GRAPH_COUNTER_FIXED_JSON_BYTES_V2 = 103"

text \<open>\<open>usize\<close> is 64 bits wide on every supported target.\<close>

fun graph_counter_loop :: "u64 \<Rightarrow> u64 \<Rightarrow> u64 list \<Rightarrow> u64" where
  "graph_counter_loop bytes count [] = bytes"
| "graph_counter_loop bytes count (identifier_bytes # rest) =
     (let bytes' = (if count \<noteq> 0 then saturating_add64 bytes 1 else bytes);
          bytes'' = saturating_add64 (saturating_add64 bytes' MAX_GRAPH_COUNTER_FIXED_JSON_BYTES_V2)
                      identifier_bytes
      in graph_counter_loop bytes'' (saturating_add64 count 1) rest)"

definition maximum_graph_counter_array_json_bytes_v2 :: "u64 list \<Rightarrow> u64" where
  "maximum_graph_counter_array_json_bytes_v2 identifier_byte_lengths =
     graph_counter_loop 2 0 identifier_byte_lengths"

text \<open>The exact length of the array: two brackets, the objects, and the separating commas.\<close>

definition counter_array_length :: "nat list \<Rightarrow> nat" where
  "counter_array_length lengths =
     2 + sum_list (map (\<lambda>l. 103 + l) lengths) + (length lengths - 1)"

lemma saturating_count_nonzero: "saturating_add64 count 1 \<noteq> 0"
  by (simp add: word_unat_eq_iff unat_saturating_add64)

lemma min_sat: "min (min a m + b) m = min (a + b) (m :: nat)"
  by simp

lemma graph_counter_step:
  assumes "unat (graph_counter_loop bytes' count' ls) = min (unat bytes' + rest) m"
    and "unat bytes' = min (min (min (unat bytes + c) m + k) m + l) m"
  shows "unat (graph_counter_loop bytes' count' ls) = min (unat bytes + c + k + l + rest) m"
  unfolding assms by (simp only: min_sat)

lemma graph_counter_loop_sat:
  "unat (graph_counter_loop bytes count ls) =
     min (unat bytes + (sum_list (map (\<lambda>l. 103 + unat l) ls)
            + (if count = 0 then length ls - 1 else length ls))) (2 ^ 64 - 1)"
proof (induction ls arbitrary: bytes count)
  case Nil
  have "unat bytes \<le> 2 ^ 64 - 1" using unat_u64_less[of bytes] by linarith
  then show ?case by simp
next
  case (Cons l ls)
  define c :: nat where "c = (if count \<noteq> 0 then 1 else 0)"
  define sep where "sep = (if count \<noteq> 0 then saturating_add64 bytes 1 else bytes)"
  have "unat bytes \<le> 2 ^ 64 - 1" using unat_u64_less[of bytes] by linarith
  then have sep: "unat sep = min (unat bytes + c) (2 ^ 64 - 1)"
    by (simp add: sep_def c_def unat_saturating_add64)
  let ?b = "saturating_add64 (saturating_add64 sep MAX_GRAPH_COUNTER_FIXED_JSON_BYTES_V2) l"
  have b: "unat ?b = min (min (min (unat bytes + c) (2 ^ 64 - 1) + 103) (2 ^ 64 - 1) + unat l) (2 ^ 64 - 1)"
    by (simp only: unat_saturating_add64 sep) (simp add: MAX_GRAPH_COUNTER_FIXED_JSON_BYTES_V2_def)
  have "unat (graph_counter_loop bytes count (l # ls)) =
      min (unat bytes + c + 103 + unat l + (sum_list (map (\<lambda>l. 103 + unat l) ls) + length ls)) (2 ^ 64 - 1)"
    using graph_counter_step[OF _ b] Cons.IH[of ?b "saturating_add64 count 1"]
    by (simp only: graph_counter_loop.simps Let_def sep_def[symmetric] saturating_count_nonzero if_False)
  moreover have "unat bytes + c + 103 + unat l + (sum_list (map (\<lambda>l. 103 + unat l) ls) + length ls) =
      unat bytes + (sum_list (map (\<lambda>l. 103 + unat l) (l # ls))
        + (if count = 0 then length (l # ls) - 1 else length (l # ls)))"
    by (simp add: c_def)
  ultimately show ?case by (simp only:)
qed

text \<open>
  C40: the saturating charge for a graph-counter array is the exact compact-JSON length of the array
  at maximum counter values, or the largest \<open>usize\<close> when that length does not fit: it never wraps
  to a small number that admission would accept.
\<close>

theorem graph_counter_charge_exact:
  "unat (maximum_graph_counter_array_json_bytes_v2 ls) =
     min (counter_array_length (map unat ls)) (2 ^ 64 - 1)"
proof -
  have "unat (2 :: u64) + (sum_list (map (\<lambda>l. 103 + unat l) ls) + (length ls - 1)) =
      counter_array_length (map unat ls)"
    by (simp add: counter_array_length_def comp_def)
  then show ?thesis
    by (simp only: maximum_graph_counter_array_json_bytes_v2_def graph_counter_loop_sat simp_thms if_True)
qed

end
