(* ===== verification/Recorded_Items.thy ===== *)
theory Recorded_Items
  imports Session_Trace Limits
begin

text \<open>
  Recorded item values of \<open>record_v2.rs\<close>: external check results, the seven kinds of recorded value
  with their constructors, and the bounded item set of one attempt. \<open>u64\<close> sums of the lengths of
  texts held in memory are natural numbers: they stay far below \<open>2 ^ 64\<close>.
\<close>

section \<open>Check results\<close>

datatype CheckResultOutcomeV2 = OutcomePass | OutcomeFail | OutcomeInconclusive

definition CheckResultOutcomeV2_as_str :: "CheckResultOutcomeV2 \<Rightarrow> str" where
  "CheckResultOutcomeV2_as_str o' =
     (case o' of OutcomePass \<Rightarrow> lit ''pass'' | OutcomeFail \<Rightarrow> lit ''fail''
      | OutcomeInconclusive \<Rightarrow> lit ''inconclusive'')"

definition CheckResultOutcomeV2_from_str :: "str \<Rightarrow> DomainError + CheckResultOutcomeV2" where
  "CheckResultOutcomeV2_from_str value =
     (if value = lit ''pass'' then Inr OutcomePass
      else if value = lit ''fail'' then Inr OutcomeFail
      else if value = lit ''inconclusive'' then Inr OutcomeInconclusive
      else Inl (invalid ''unknown external check result outcome''))"

record CheckResultInputBasisV2 =
  basis_descriptor :: str
  basis_digest :: Sha256Digest

definition CheckResultInputBasisV2_new :: "str \<Rightarrow> Sha256Digest \<Rightarrow> DomainError + CheckResultInputBasisV2" where
  "CheckResultInputBasisV2_new descriptor digest =
     rbind (validate_text ''check result input descriptor'' descriptor 1 512 True) (\<lambda>_.
       Inr \<lparr>basis_descriptor = descriptor, basis_digest = digest\<rparr>)"

record CheckResultExecutorV2 =
  executor_name :: str
  executor_version :: str

definition CheckResultExecutorV2_new :: "str \<Rightarrow> str \<Rightarrow> DomainError + CheckResultExecutorV2" where
  "CheckResultExecutorV2_new name version =
     rbind (validate_text ''check result executor name'' name 1 128 True) (\<lambda>_.
       rbind (validate_text ''check result executor version'' version 1 64 True) (\<lambda>_.
         Inr \<lparr>executor_name = name, executor_version = version\<rparr>))"

record CheckResultValueV2 =
  cr_operation_id :: OperationId
  cr_operation_digest :: Sha256Digest
  cr_input_basis :: CheckResultInputBasisV2
  cr_executor :: CheckResultExecutorV2
  cr_outcome :: CheckResultOutcomeV2
  cr_summary :: str
  cr_output_digest :: Sha256Digest

definition CheckResultValueV2_new ::
    "OperationId \<Rightarrow> Sha256Digest \<Rightarrow> CheckResultInputBasisV2 \<Rightarrow> CheckResultExecutorV2 \<Rightarrow>
     CheckResultOutcomeV2 \<Rightarrow> str \<Rightarrow> Sha256Digest \<Rightarrow> DomainError + CheckResultValueV2" where
  "CheckResultValueV2_new operation_id operation_digest input_basis executor outcome summary output_digest =
     rbind (validate_text ''check result summary'' summary 1 2000 True) (\<lambda>_.
       Inr \<lparr>cr_operation_id = operation_id, cr_operation_digest = operation_digest,
            cr_input_basis = input_basis, cr_executor = executor, cr_outcome = outcome,
            cr_summary = summary, cr_output_digest = output_digest\<rparr>)"

section \<open>Recorded values\<close>

datatype RecordedItemValueV2 =
    RvConfirm
  | RvText str
  | RvChoice str
  | RvInteger i64
  | RvList "str list"
  | RvArtifact ArtifactValueV1
  | RvCheckResult CheckResultValueV2

definition RecordedItemValueV2_text :: "str \<Rightarrow> DomainError + RecordedItemValueV2" where
  "RecordedItemValueV2_text value =
     rbind (validate_text ''recorded text value'' value 0 MAX_TEXT_SCALARS_V2 False) (\<lambda>_. Inr (RvText value))"

definition RecordedItemValueV2_choice :: "str \<Rightarrow> DomainError + RecordedItemValueV2" where
  "RecordedItemValueV2_choice value =
     rbind (validate_text ''recorded choice value'' value 1 120 False) (\<lambda>_. Inr (RvChoice value))"

definition RecordedItemValueV2_list :: "str list \<Rightarrow> DomainError + RecordedItemValueV2" where
  "RecordedItemValueV2_list values =
     (if length values > MAX_LIST_ENTRIES_V2
      then Inl (invalid ''recorded list value exceeds the v2 entry maximum'')
      else rbind (for_each (\<lambda>entry.
             validate_text ''recorded list entry'' entry 1 MAX_LIST_ENTRY_SCALARS_V2 True) values) (\<lambda>_.
        Inr (RvList values)))"

fun RecordedItemValueV2_item_type :: "RecordedItemValueV2 \<Rightarrow> ItemTypeV1" where
  "RecordedItemValueV2_item_type RvConfirm = TyConfirm"
| "RecordedItemValueV2_item_type (RvText _) = TyText"
| "RecordedItemValueV2_item_type (RvChoice _) = TyChoice"
| "RecordedItemValueV2_item_type (RvInteger _) = TyInteger"
| "RecordedItemValueV2_item_type (RvList _) = TyList"
| "RecordedItemValueV2_item_type (RvArtifact _) = TyArtifact"
| "RecordedItemValueV2_item_type (RvCheckResult _) = TyCheckResult"

fun as_text :: "RecordedItemValueV2 \<Rightarrow> str option" where
  "as_text (RvText v) = Some v"
| "as_text _ = None"

fun as_choice :: "RecordedItemValueV2 \<Rightarrow> str option" where
  "as_choice (RvChoice v) = Some v"
| "as_choice _ = None"

fun as_integer :: "RecordedItemValueV2 \<Rightarrow> i64 option" where
  "as_integer (RvInteger v) = Some v"
| "as_integer _ = None"

fun as_list :: "RecordedItemValueV2 \<Rightarrow> str list option" where
  "as_list (RvList v) = Some v"
| "as_list _ = None"

fun as_artifact :: "RecordedItemValueV2 \<Rightarrow> ArtifactValueV1 option" where
  "as_artifact (RvArtifact v) = Some v"
| "as_artifact _ = None"

fun as_check_result :: "RecordedItemValueV2 \<Rightarrow> CheckResultValueV2 option" where
  "as_check_result (RvCheckResult v) = Some v"
| "as_check_result _ = None"

section \<open>The recorded items of one attempt\<close>

record RecordedItemV2 =
  ri_id :: ItemId
  ri_value :: RecordedItemValueV2

datatype RecordedItemSetV2 = RecordedItemSetV2 (recorded_items: "RecordedItemV2 list")

definition recorded_content_scalars_v2 :: "RecordedItemValueV2 list \<Rightarrow> nat" where
  "recorded_content_scalars_v2 values =
     sum_list (map (\<lambda>value.
       case as_text value of
         Some text \<Rightarrow> length text
       | None \<Rightarrow> (case as_list value of
           Some entries \<Rightarrow> sum_list (map length entries)
         | None \<Rightarrow> 0)) values)"

definition attempt_content_scalars_v2 :: "RecordedItemV2 list \<Rightarrow> nat" where
  "attempt_content_scalars_v2 items = recorded_content_scalars_v2 (map ri_value items)"

definition attempt_content_bound_error_v2 :: "nat \<Rightarrow> DomainError" where
  "attempt_content_bound_error_v2 actual =
     BoundExceeded ''attempt recorded content'' actual MAX_ATTEMPT_CONTENT_SCALARS_V2 Scalars"

definition RecordedItemSetV2_new :: "RecordedItemV2 list \<Rightarrow> DomainError + RecordedItemSetV2" where
  "RecordedItemSetV2_new items =
     (if length items > MAX_ITEMS_PER_DEFINITION_V2
      then Inl (BoundExceeded ''attempt recorded items'' (length items) MAX_ITEMS_PER_DEFINITION_V2 Items)
      else rbind (check_unique ri_id (invalid ''recorded item identifiers must be unique'') items) (\<lambda>_.
        let content = attempt_content_scalars_v2 items in
        if content > MAX_ATTEMPT_CONTENT_SCALARS_V2 then Inl (attempt_content_bound_error_v2 content)
        else Inr (RecordedItemSetV2 items)))"

section \<open>Facts\<close>

lemma outcome_round_trip:
  "CheckResultOutcomeV2_from_str s = Inr out \<longleftrightarrow> s = CheckResultOutcomeV2_as_str out"
  by (cases out) (auto simp: CheckResultOutcomeV2_from_str_def CheckResultOutcomeV2_as_str_def lit_def)

lemma recorded_item_set_ok:
  "RecordedItemSetV2_new items = Inr s \<longleftrightarrow>
     s = RecordedItemSetV2 items \<and> length items \<le> MAX_ITEMS_PER_DEFINITION_V2 \<and>
     distinct (map ri_id items) \<and> attempt_content_scalars_v2 items \<le> MAX_ATTEMPT_CONTENT_SCALARS_V2"
  by (auto simp: RecordedItemSetV2_new_def Let_def not_le)

end
