(* ===== verification/Item_Specs.thy ===== *)
theory Item_Specs
  imports Recorded_Items
begin

text \<open>
  Item specifications of \<open>procedure_v2/items.rs\<close>: typed predicates with a three-valued outcome,
  conditions and option guards, the seven item declarations with their bounds, and the admission,
  bound-error and satisfaction checks of a recorded value against its declaration.
\<close>

section \<open>Predicates\<close>

datatype NodeKindV2 = KindAction | KindDecision

datatype PredicateScalarV2 = PsBoolean bool | PsInteger i64 | PsText str

definition PredicateScalarV2_text :: "str \<Rightarrow> DomainError + PredicateScalarV2" where
  "PredicateScalarV2_text value =
     rbind (validate_text ''predicate scalar'' value 1 120 True) (\<lambda>_. Inr (PsText value))"

datatype ItemPredicateOperatorV2 =
    OpEquals PredicateScalarV2
  | OpNotEquals PredicateScalarV2
  | OpEmpty
  | OpNonEmpty
  | OpAtLeast i64
  | OpAtMost i64

fun ItemPredicateOperatorV2_expected :: "ItemPredicateOperatorV2 \<Rightarrow> PredicateScalarV2 option" where
  "ItemPredicateOperatorV2_expected (OpEquals v) = Some v"
| "ItemPredicateOperatorV2_expected (OpNotEquals v) = Some v"
| "ItemPredicateOperatorV2_expected _ = None"

fun integer_expected :: "ItemPredicateOperatorV2 \<Rightarrow> i64 option" where
  "integer_expected (OpAtLeast v) = Some v"
| "integer_expected (OpAtMost v) = Some v"
| "integer_expected _ = None"

record ItemPredicateV2 =
  ip_item :: ItemId
  ip_field_outcome :: bool
  ip_operator :: ItemPredicateOperatorV2

datatype ConditionStateV2 = Met | Unmet | Unevaluable

datatype PredicateActualV2 = PaScalar PredicateScalarV2 | PaCount u32 | PaUnavailable

record PredicateStatusV2 =
  ps_predicate :: ItemPredicateV2
  ps_state :: ConditionStateV2
  ps_actual :: PredicateActualV2

record ConditionStatusV2 =
  cs_state :: ConditionStateV2
  cs_predicates :: "PredicateStatusV2 list"

definition PredicateStatusV2_unevaluable :: "ItemPredicateV2 \<Rightarrow> PredicateStatusV2" where
  "PredicateStatusV2_unevaluable p =
     \<lparr>ps_predicate = p, ps_state = Unevaluable, ps_actual = PaUnavailable\<rparr>"

definition scalar_value :: "RecordedItemValueV2 \<Rightarrow> PredicateScalarV2 option" where
  "scalar_value value =
     (case RecordedItemValueV2_item_type value of
        TyConfirm \<Rightarrow> Some (PsBoolean True)
      | TyChoice \<Rightarrow> map_option PsText (as_choice value)
      | TyInteger \<Rightarrow> map_option PsInteger (as_integer value)
      | TyCheckResult \<Rightarrow>
          map_option (\<lambda>v. PsText (CheckResultOutcomeV2_as_str (cr_outcome v))) (as_check_result value)
      | TyText \<Rightarrow> None | TyList \<Rightarrow> None | TyArtifact \<Rightarrow> None)"

text \<open>\<open>u32::try_from(n).unwrap_or(u32::MAX)\<close>.\<close>

definition u32_clamped :: "nat \<Rightarrow> u32" where
  "u32_clamped n = (if n < 2 ^ 32 then of_nat n else - 1)"

definition collection_count :: "RecordedItemValueV2 \<Rightarrow> u32 option" where
  "collection_count value =
     (case map_option (\<lambda>v. u32_clamped (length (trim v))) (as_text value) of
        Some n \<Rightarrow> Some n
      | None \<Rightarrow> map_option (\<lambda>v. u32_clamped (length v)) (as_list value))"

definition operator_result ::
    "ItemPredicateOperatorV2 \<Rightarrow> RecordedItemValueV2 \<Rightarrow> (bool \<times> PredicateActualV2) option" where
  "operator_result operator value =
     (case operator of
        OpEquals expected \<Rightarrow> map_option (\<lambda>actual. (actual = expected, PaScalar actual)) (scalar_value value)
      | OpNotEquals expected \<Rightarrow> map_option (\<lambda>actual. (actual \<noteq> expected, PaScalar actual)) (scalar_value value)
      | OpEmpty \<Rightarrow> map_option (\<lambda>count. (count = 0, PaCount count)) (collection_count value)
      | OpNonEmpty \<Rightarrow> map_option (\<lambda>count. (count \<noteq> 0, PaCount count)) (collection_count value)
      | OpAtLeast expected \<Rightarrow>
          map_option (\<lambda>actual. (sint expected \<le> sint actual, PaScalar (PsInteger actual))) (as_integer value)
      | OpAtMost expected \<Rightarrow>
          map_option (\<lambda>actual. (sint actual \<le> sint expected, PaScalar (PsInteger actual))) (as_integer value))"

definition ItemPredicateV2_evaluate ::
    "ItemPredicateV2 \<Rightarrow> RecordedItemValueV2 option \<Rightarrow> PredicateStatusV2" where
  "ItemPredicateV2_evaluate p value =
     (case value of
        None \<Rightarrow> PredicateStatusV2_unevaluable p
      | Some value \<Rightarrow>
          let (state, actual) =
            (case operator_result (ip_operator p) value of
               Some r \<Rightarrow> r | None \<Rightarrow> (False, PaUnavailable))
          in case actual of
               PaUnavailable \<Rightarrow> PredicateStatusV2_unevaluable p
             | _ \<Rightarrow> \<lparr>ps_predicate = p, ps_state = (if state then Met else Unmet), ps_actual = actual\<rparr>)"

definition condition_status :: "PredicateStatusV2 list \<Rightarrow> ConditionStatusV2" where
  "condition_status predicates =
     \<lparr>cs_state =
        (if \<exists>s\<in>set predicates. ps_state s = Unmet then Unmet
         else if \<exists>s\<in>set predicates. ps_state s = Unevaluable then Unevaluable
         else Met),
      cs_predicates = predicates\<rparr>"

section \<open>Conditions and guards\<close>

datatype ItemConditionV2 = ItemConditionV2 (condition_predicates: "ItemPredicateV2 list")

definition ItemConditionV2_new :: "ItemPredicateV2 list \<Rightarrow> DomainError + ItemConditionV2" where
  "ItemConditionV2_new predicates =
     (if predicates = [] \<or> length predicates > 4
      then Inl (invalid ''required_when must contain between one and four predicates'')
      else Inr (ItemConditionV2 predicates))"

definition ItemConditionV2_evaluate ::
    "ItemConditionV2 \<Rightarrow> (ItemId \<Rightarrow> RecordedItemValueV2 option) \<Rightarrow> ConditionStatusV2" where
  "ItemConditionV2_evaluate c value =
     condition_status (map (\<lambda>p. ItemPredicateV2_evaluate p (value (ip_item p))) (condition_predicates c))"

record EvidencePredicateV2 =
  ep_source_node :: GraphNodeId
  ep_item :: ItemId
  ep_field_outcome :: bool
  ep_operator :: ItemPredicateOperatorV2

definition EvidencePredicateV2_evaluate ::
    "EvidencePredicateV2 \<Rightarrow> RecordedItemValueV2 option \<Rightarrow> PredicateStatusV2" where
  "EvidencePredicateV2_evaluate p value =
     ItemPredicateV2_evaluate
       \<lparr>ip_item = ep_item p, ip_field_outcome = ep_field_outcome p, ip_operator = ep_operator p\<rparr> value"

datatype OptionGuardV2 = OptionGuardV2 (guard_predicates: "EvidencePredicateV2 list")

definition OptionGuardV2_new :: "EvidencePredicateV2 list \<Rightarrow> DomainError + OptionGuardV2" where
  "OptionGuardV2_new predicates =
     (if predicates = [] \<or> length predicates > 4
      then Inl (invalid ''guards must contain between one and four predicates'')
      else Inr (OptionGuardV2 predicates))"

definition OptionGuardV2_evaluate ::
    "OptionGuardV2 \<Rightarrow> (GraphNodeId \<Rightarrow> ItemId \<Rightarrow> RecordedItemValueV2 option) \<Rightarrow> ConditionStatusV2" where
  "OptionGuardV2_evaluate g value =
     condition_status
       (map (\<lambda>p. EvidencePredicateV2_evaluate p (value (ep_source_node p) (ep_item p))) (guard_predicates g))"

section \<open>Item declarations\<close>

record ItemCommonV2 =
  ic_id :: ItemId
  ic_prompt :: str
  ic_help :: "str option"
  ic_required :: bool
  ic_required_when :: "ItemConditionV2 option"

definition ItemCommonV2_new :: "ItemId \<Rightarrow> str \<Rightarrow> str option \<Rightarrow> bool \<Rightarrow> DomainError + ItemCommonV2" where
  "ItemCommonV2_new iid prompt help required =
     rbind (validate_text ''item prompt'' prompt 1 300 True) (\<lambda>_.
       rbind (case help of None \<Rightarrow> Inr () | Some h \<Rightarrow> validate_text ''item help'' h 0 1000 False) (\<lambda>_.
         Inr \<lparr>ic_id = iid, ic_prompt = prompt, ic_help = help, ic_required = required,
              ic_required_when = None\<rparr>))"

definition with_required_when ::
    "ItemCommonV2 \<Rightarrow> ItemConditionV2 option \<Rightarrow> DomainError + ItemCommonV2" where
  "with_required_when c required_when =
     (if ic_required c \<and> required_when \<noteq> None
      then Inl (invalid ''an item with required_when must declare required: false'')
      else Inr (c\<lparr>ic_required_when := required_when\<rparr>))"

record TextItemSpecV2 =
  txt_common :: ItemCommonV2
  txt_min_length :: u32
  txt_max_length :: u32
  txt_multiline :: bool

definition TextItemSpecV2_new :: "ItemCommonV2 \<Rightarrow> u32 \<Rightarrow> u32 \<Rightarrow> bool \<Rightarrow> DomainError + TextItemSpecV2" where
  "TextItemSpecV2_new common min_length max_length multiline =
     (if unat max_length > MAX_TEXT_SCALARS_V2
      then Inl (BoundExceeded ''text max_length'' (unat max_length) MAX_TEXT_SCALARS_V2 Scalars)
      else if min_length > max_length then Inl (invalid ''invalid text length constraints'')
      else Inr \<lparr>txt_common = common, txt_min_length = min_length, txt_max_length = max_length,
                txt_multiline = multiline\<rparr>)"

record ChoiceItemSpecV2 =
  cho_common :: ItemCommonV2
  cho_choices :: "str list"

definition ChoiceItemSpecV2_new :: "ItemCommonV2 \<Rightarrow> str list \<Rightarrow> DomainError + ChoiceItemSpecV2" where
  "ChoiceItemSpecV2_new common choices =
     (if length choices < 1 \<or> length choices > 32
      then Inl (invalid ''choice count must be between one and 32'')
      else rbind (for_unique (\<lambda>choice. validate_text ''choice'' choice 1 120 True) id
             (invalid ''choice values must be unique'') [] choices) (\<lambda>_.
        Inr \<lparr>cho_common = common, cho_choices = choices\<rparr>))"

record IntegerItemSpecV2 =
  int_common :: ItemCommonV2
  int_minimum :: "i64 option"
  int_maximum :: "i64 option"

definition IntegerItemSpecV2_new ::
    "ItemCommonV2 \<Rightarrow> i64 option \<Rightarrow> i64 option \<Rightarrow> DomainError + IntegerItemSpecV2" where
  "IntegerItemSpecV2_new common minimum maximum =
     (if (case (minimum, maximum) of (Some lo, Some hi) \<Rightarrow> sint lo > sint hi | _ \<Rightarrow> False)
      then Inl (invalid ''integer minimum must not exceed maximum'')
      else Inr \<lparr>int_common = common, int_minimum = minimum, int_maximum = maximum\<rparr>)"

record ListItemSpecV2 =
  lis_common :: ItemCommonV2
  lis_min_items :: u16
  lis_max_items :: u16
  lis_max_item_length :: u16
  lis_max_total_length :: u32
  lis_unique :: bool

definition ListItemSpecV2_new ::
    "ItemCommonV2 \<Rightarrow> u16 \<Rightarrow> u16 \<Rightarrow> u16 \<Rightarrow> u32 \<Rightarrow> bool \<Rightarrow> DomainError + ListItemSpecV2" where
  "ListItemSpecV2_new common min_items max_items max_item_length max_total_length unique =
     (if unat max_items > MAX_LIST_ENTRIES_V2
      then Inl (BoundExceeded ''list max_items'' (unat max_items) MAX_LIST_ENTRIES_V2 Entries)
      else if max_items = 0 \<or> min_items > max_items
      then Inl (invalid ''invalid list item count constraints'')
      else if unat max_item_length > MAX_LIST_ENTRY_SCALARS_V2
      then Inl (BoundExceeded ''list max_item_length'' (unat max_item_length) MAX_LIST_ENTRY_SCALARS_V2 Scalars)
      else if max_item_length = 0 then Inl (invalid ''invalid list entry length constraint'')
      else if unat max_total_length > MAX_LIST_TOTAL_SCALARS_V2
      then Inl (BoundExceeded ''list max_total_length'' (unat max_total_length) MAX_LIST_TOTAL_SCALARS_V2 Scalars)
      else if max_total_length = 0 \<or> unat min_items > unat max_total_length
      then Inl (invalid ''invalid list total content constraint'')
      else Inr \<lparr>lis_common = common, lis_min_items = min_items, lis_max_items = max_items,
                lis_max_item_length = max_item_length, lis_max_total_length = max_total_length,
                lis_unique = unique\<rparr>)"

definition effective_total_length :: "ListItemSpecV2 \<Rightarrow> u32" where
  "effective_total_length s =
     (let product = saturating_mul32 (ucast (lis_max_items s)) (ucast (lis_max_item_length s)) in
      if product < lis_max_total_length s then product else lis_max_total_length s)"

record ArtifactItemSpecV2 =
  art_common :: ItemCommonV2
  art_allowed_media_types :: "str list"

definition ArtifactItemSpecV2_new :: "ItemCommonV2 \<Rightarrow> str list \<Rightarrow> DomainError + ArtifactItemSpecV2" where
  "ArtifactItemSpecV2_new common allowed_media_types =
     (if length allowed_media_types > 64 then Inl (invalid ''too many allowed media types'')
      else rbind (for_unique validate_media_type id (invalid ''allowed media types must be unique'') []
             allowed_media_types) (\<lambda>_.
        Inr \<lparr>art_common = common, art_allowed_media_types = allowed_media_types\<rparr>))"

record CheckResultItemSpecV2 =
  chk_common :: ItemCommonV2
  chk_operation_id :: OperationId
  chk_operation_digest :: Sha256Digest
  chk_accepted_outcomes :: "CheckResultOutcomeV2 list"

definition CheckResultItemSpecV2_new ::
    "ItemCommonV2 \<Rightarrow> OperationId \<Rightarrow> Sha256Digest \<Rightarrow> CheckResultOutcomeV2 list \<Rightarrow>
     DomainError + CheckResultItemSpecV2" where
  "CheckResultItemSpecV2_new common operation_id operation_digest accepted_outcomes =
     (if length accepted_outcomes < 1 \<or> length accepted_outcomes > 3
      then Inl (invalid ''check result accepted outcomes must contain between one and three values'')
      else if card (set accepted_outcomes) \<noteq> length accepted_outcomes
      then Inl (invalid ''check result accepted outcomes must be unique'')
      else Inr \<lparr>chk_common = common, chk_operation_id = operation_id,
                chk_operation_digest = operation_digest, chk_accepted_outcomes = accepted_outcomes\<rparr>)"

datatype CheckResultUnsatisfiedReasonV2 = OperationIdMismatch | OperationDigestMismatch | OutcomeNotAccepted

definition unsatisfied_reason ::
    "CheckResultItemSpecV2 \<Rightarrow> CheckResultValueV2 \<Rightarrow> CheckResultUnsatisfiedReasonV2 option" where
  "unsatisfied_reason s value =
     (if cr_operation_id value \<noteq> chk_operation_id s then Some OperationIdMismatch
      else if cr_operation_digest value \<noteq> chk_operation_digest s then Some OperationDigestMismatch
      else if cr_outcome value \<notin> set (chk_accepted_outcomes s) then Some OutcomeNotAccepted
      else None)"

datatype ItemSpecV2 =
    SpecConfirm ItemCommonV2
  | SpecText TextItemSpecV2
  | SpecChoice ChoiceItemSpecV2
  | SpecInteger IntegerItemSpecV2
  | SpecList ListItemSpecV2
  | SpecArtifact ArtifactItemSpecV2
  | SpecCheckResult CheckResultItemSpecV2

fun ItemSpecV2_common :: "ItemSpecV2 \<Rightarrow> ItemCommonV2" where
  "ItemSpecV2_common (SpecConfirm c) = c"
| "ItemSpecV2_common (SpecText s) = txt_common s"
| "ItemSpecV2_common (SpecChoice s) = cho_common s"
| "ItemSpecV2_common (SpecInteger s) = int_common s"
| "ItemSpecV2_common (SpecList s) = lis_common s"
| "ItemSpecV2_common (SpecArtifact s) = art_common s"
| "ItemSpecV2_common (SpecCheckResult s) = chk_common s"

definition ItemSpecV2_id :: "ItemSpecV2 \<Rightarrow> ItemId" where
  "ItemSpecV2_id s = ic_id (ItemSpecV2_common s)"

fun ItemSpecV2_item_type :: "ItemSpecV2 \<Rightarrow> ItemTypeV1" where
  "ItemSpecV2_item_type (SpecConfirm _) = TyConfirm"
| "ItemSpecV2_item_type (SpecText _) = TyText"
| "ItemSpecV2_item_type (SpecChoice _) = TyChoice"
| "ItemSpecV2_item_type (SpecInteger _) = TyInteger"
| "ItemSpecV2_item_type (SpecList _) = TyList"
| "ItemSpecV2_item_type (SpecArtifact _) = TyArtifact"
| "ItemSpecV2_item_type (SpecCheckResult _) = TyCheckResult"

text \<open>\<open>values.get(index).copied().flatten()\<close>: an index past the end is absent.\<close>

definition slot_value :: "ItemSpecV2 list \<Rightarrow> RecordedItemValueV2 option list \<Rightarrow> ItemId \<Rightarrow> RecordedItemValueV2 option" where
  "slot_value definition_items values source =
     (case position (\<lambda>item. ItemSpecV2_id item = source) definition_items of
        None \<Rightarrow> None
      | Some index \<Rightarrow> if index < length values then values ! index else None)"

definition ItemSpecV2_condition_status ::
    "ItemSpecV2 \<Rightarrow> ItemSpecV2 list \<Rightarrow> RecordedItemValueV2 option list \<Rightarrow> ConditionStatusV2 option" where
  "ItemSpecV2_condition_status s definition_items values =
     map_option (\<lambda>c. ItemConditionV2_evaluate c (slot_value definition_items values))
       (ic_required_when (ItemSpecV2_common s))"

definition required_now :: "ItemSpecV2 \<Rightarrow> ItemSpecV2 list \<Rightarrow> RecordedItemValueV2 option list \<Rightarrow> bool" where
  "required_now s definition_items values \<longleftrightarrow>
     ic_required (ItemSpecV2_common s) \<or>
     is_some_and (ItemSpecV2_condition_status s definition_items values) (\<lambda>status. cs_state status = Met)"

fun admits_recorded_value :: "ItemSpecV2 \<Rightarrow> RecordedItemValueV2 \<Rightarrow> bool" where
  "admits_recorded_value (SpecConfirm _) value = (RecordedItemValueV2_item_type value = TyConfirm)"
| "admits_recorded_value (SpecText s) value =
     is_some_and (as_text value) (\<lambda>v.
       unat (txt_min_length s) \<le> length (trim v) \<and> length (trim v) \<le> unat (txt_max_length s))"
| "admits_recorded_value (SpecChoice s) value = is_some_and (as_choice value) (\<lambda>v. v \<in> set (cho_choices s))"
| "admits_recorded_value (SpecInteger s) value =
     is_some_and (as_integer value) (\<lambda>v.
       is_none_or (int_minimum s) (\<lambda>lo. sint lo \<le> sint v) \<and>
       is_none_or (int_maximum s) (\<lambda>hi. sint v \<le> sint hi))"
| "admits_recorded_value (SpecList s) value =
     is_some_and (as_list value) (\<lambda>vs.
       unat (lis_min_items s) \<le> length vs \<and> length vs \<le> unat (lis_max_items s) \<and>
       (\<forall>v\<in>set vs. length v \<le> unat (lis_max_item_length s)) \<and>
       sum_list (map length vs) \<le> unat (lis_max_total_length s) \<and>
       (\<not> lis_unique s \<or> card (set vs) = length vs))"
| "admits_recorded_value (SpecArtifact s) value =
     is_some_and (as_artifact value) (\<lambda>v.
       art_allowed_media_types s = [] \<or> artifact_media_type v \<in> set (art_allowed_media_types s))"
| "admits_recorded_value (SpecCheckResult _) value = (RecordedItemValueV2_item_type value = TyCheckResult)"

fun recorded_value_bound_error :: "ItemSpecV2 \<Rightarrow> RecordedItemValueV2 \<Rightarrow> DomainError option" where
  "recorded_value_bound_error (SpecText s) value =
     (case as_text value of None \<Rightarrow> None | Some v \<Rightarrow>
        if length (trim v) > unat (txt_max_length s)
        then Some (BoundExceeded ''item text value'' (length (trim v)) (unat (txt_max_length s)) Scalars)
        else None)"
| "recorded_value_bound_error (SpecList s) value =
     (case as_list value of None \<Rightarrow> None | Some vs \<Rightarrow>
        if length vs > unat (lis_max_items s)
        then Some (BoundExceeded ''item list entries'' (length vs) (unat (lis_max_items s)) Entries)
        else case find (\<lambda>actual. actual > unat (lis_max_item_length s)) (map length vs) of
          Some actual \<Rightarrow>
            Some (BoundExceeded ''item list entry'' actual (unat (lis_max_item_length s)) Scalars)
        | None \<Rightarrow>
            if sum_list (map length vs) > unat (lis_max_total_length s)
            then Some (BoundExceeded ''item list content'' (sum_list (map length vs))
                         (unat (lis_max_total_length s)) Scalars)
            else None)"
| "recorded_value_bound_error _ value = None"

fun is_satisfied_by :: "ItemSpecV2 \<Rightarrow> RecordedItemValueV2 \<Rightarrow> bool" where
  "is_satisfied_by (SpecCheckResult s) value =
     is_some_and (as_check_result value) (\<lambda>v. unsatisfied_reason s v = None)"
| "is_satisfied_by s value = admits_recorded_value s value"

fun check_result_unsatisfied_reason ::
    "ItemSpecV2 \<Rightarrow> RecordedItemValueV2 \<Rightarrow> CheckResultUnsatisfiedReasonV2 option" where
  "check_result_unsatisfied_reason (SpecCheckResult s) value =
     (case as_check_result value of None \<Rightarrow> None | Some v \<Rightarrow> unsatisfied_reason s v)"
| "check_result_unsatisfied_reason _ value = None"

end
