(* ===== verification/Canonical_Json.thy ===== *)
theory Canonical_Json
  imports Domain_Values "HOL-Library.List_Lexorder"
begin

text \<open>
  JSON values and the canonical encoding of \<open>canonical.rs\<close>: compact text, object keys sorted by
  their UTF-8 bytes, integer numbers only. \<open>serde_json\<close> and \<open>sha2\<close> are external crates: the
  encoding of a string, the parser and the hexadecimal SHA-256 digest are parameters, bundled in
  the record \<open>externals\<close>; the value type of \<open>serde_json\<close> is the datatype its documentation gives.
\<close>

section \<open>Values\<close>

text \<open>
  An object is the list of its entries, read with \<open>map_of\<close>; a float carries its bits. Objects the
  code builds with \<open>json!\<close> or \<open>insert\<close> list their entries in source order.
\<close>

datatype Value =
    VNull
  | VBool bool
  | VInt int
  | VFloat nat
  | VString str
  | VArray "Value list"
  | VObject "(str \<times> Value) list"

type_synonym json_map = "(str \<times> Value) list"

fun Value_as_i64 :: "Value \<Rightarrow> i64 option" where
  "Value_as_i64 (VInt n) = (if - (2 ^ 63) \<le> n \<and> n < 2 ^ 63 then Some (of_int n) else None)"
| "Value_as_i64 _ = None"

fun Value_as_u64 :: "Value \<Rightarrow> u64 option" where
  "Value_as_u64 (VInt n) = (if 0 \<le> n \<and> n < 2 ^ 64 then Some (of_int n) else None)"
| "Value_as_u64 _ = None"

fun Value_as_bool :: "Value \<Rightarrow> bool option" where
  "Value_as_bool (VBool b) = Some b"
| "Value_as_bool _ = None"

fun Value_as_str :: "Value \<Rightarrow> str option" where
  "Value_as_str (VString s) = Some s"
| "Value_as_str _ = None"

fun Value_as_array :: "Value \<Rightarrow> Value list option" where
  "Value_as_array (VArray vs) = Some vs"
| "Value_as_array _ = None"

fun Value_as_object :: "Value \<Rightarrow> json_map option" where
  "Value_as_object (VObject m) = Some m"
| "Value_as_object _ = None"

definition json_get :: "json_map \<Rightarrow> string \<Rightarrow> Value option" where
  "json_get m key = map_of m (lit key)"

section \<open>External functions\<close>

record externals =
  ext_json_string :: "str \<Rightarrow> byte list"   \<comment> \<open>\<open>serde_json::to_writer\<close> of a string\<close>
  ext_json_from_slice :: "byte list \<Rightarrow> str + Value"   \<comment> \<open>\<open>serde_json::from_slice\<close>, the error rendered\<close>
  ext_sha256_hex :: "byte list \<Rightarrow> str"    \<comment> \<open>\<open>format!("{:x}", Sha256::digest(bytes))\<close>\<close>

section \<open>Integer text\<close>

text \<open>\<open>to_string\<close> of a signed or unsigned integer.\<close>

fun nat_text :: "nat \<Rightarrow> byte list" where
  "nat_text n = (if n < 10 then [48 + n] else nat_text (n div 10) @ [48 + n mod 10])"

declare nat_text.simps [simp del]

definition int_text :: "int \<Rightarrow> byte list" where
  "int_text n = (if n < 0 then 45 # nat_text (nat (- n)) else nat_text (nat n))"

section \<open>The canonical encoding\<close>

datatype CanonicalJsonErrorV1 = Serialization str | InvalidJson str | NonCanonical | UnsupportedNumber

text \<open>Elements separated by a comma, as the loops over arrays and entries write them.\<close>

fun comma_separated :: "byte list list \<Rightarrow> byte list" where
  "comma_separated [] = []"
| "comma_separated [p] = p"
| "comma_separated (p # ps) = p @ [44] @ comma_separated ps"

lemma entry_size: "(k, v) \<in> set kvs \<Longrightarrow> size v < Suc (size_list (size_prod (\<lambda>_. 0) size) kvs)"
  by (induction kvs) auto

lemma sorted_entry_size [termination_simp]:
  "(k, v) \<in> set (sort_key f kvs) \<Longrightarrow> size v < Suc (size_list (size_prod (\<lambda>_. 0) size) kvs)"
  by (simp only: set_sort entry_size)

fun write_canonical_json :: "externals \<Rightarrow> Value \<Rightarrow> CanonicalJsonErrorV1 + byte list" where
  "write_canonical_json ext VNull = Inr (lit ''null'')"
| "write_canonical_json ext (VBool b) = Inr (if b then lit ''true'' else lit ''false'')"
| "write_canonical_json ext (VInt n) =
     (if Value_as_i64 (VInt n) \<noteq> None \<or> Value_as_u64 (VInt n) \<noteq> None then Inr (int_text n)
      else Inl UnsupportedNumber)"
| "write_canonical_json ext (VFloat f) = Inl UnsupportedNumber"
| "write_canonical_json ext (VString s) = Inr (ext_json_string ext s)"
| "write_canonical_json ext (VArray vs) =
     rbind (collect_ok (write_canonical_json ext) vs) (\<lambda>parts. Inr ([91] @ comma_separated parts @ [93]))"
| "write_canonical_json ext (VObject kvs) =
     rbind (collect_ok (\<lambda>(k, v).
         rbind (write_canonical_json ext v) (\<lambda>bytes. Inr (ext_json_string ext k @ [58] @ bytes)))
         (sort_key (\<lambda>(k, v). as_bytes k) kvs)) (\<lambda>parts. Inr ([123] @ comma_separated parts @ [125]))"

definition canonicalize_value :: "externals \<Rightarrow> Value \<Rightarrow> CanonicalJsonErrorV1 + byte list" where
  "canonicalize_value ext v = write_canonical_json ext v"

definition verify_canonical_json_value_v1 ::
    "externals \<Rightarrow> byte list \<Rightarrow> Value \<Rightarrow> CanonicalJsonErrorV1 + unit" where
  "verify_canonical_json_value_v1 ext input value =
     rbind (canonicalize_value ext value) (\<lambda>canonical.
       if canonical = input then Inr () else Inl NonCanonical)"

definition verify_canonical_json_v1 :: "externals \<Rightarrow> byte list \<Rightarrow> CanonicalJsonErrorV1 + unit" where
  "verify_canonical_json_v1 ext input =
     rbind (map_err InvalidJson (ext_json_from_slice ext input)) (\<lambda>value.
       verify_canonical_json_value_v1 ext input value)"

end
