(* ===== verification/Recorded_Digests.thy ===== *)
theory Recorded_Digests
  imports Canonical_Json Recorded_Items
begin

text \<open>
  The JSON form of recorded item values and the digests of \<open>workflow_v2.rs\<close> that evidence
  references and page tokens are bound to: SHA-256 over the canonical JSON of the complete
  recorded values in author order.
\<close>

section \<open>Structural errors (procedure_state_error_v2.rs)\<close>

datatype ProcedureStateErrorV2 = ProcedureStateErrorV2 (state_error_reason: string)

abbreviation state_invalid :: "string \<Rightarrow> ProcedureStateErrorV2" where
  "state_invalid reason \<equiv> ProcedureStateErrorV2 reason"

section \<open>Recorded values as JSON\<close>

primrec ItemId_as_str :: "ItemId \<Rightarrow> str" where
  "ItemId_as_str (ItemId s) = s"
primrec OperationId_as_str :: "OperationId \<Rightarrow> str" where
  "OperationId_as_str (OperationId s) = s"
primrec Sha256Digest_as_str :: "Sha256Digest \<Rightarrow> str" where
  "Sha256Digest_as_str (Sha256Digest s) = s"

lemma digest_str_inject [simp]: "Sha256Digest_as_str d = Sha256Digest_as_str e \<longleftrightarrow> d = e"
  by (cases d; cases e) simp

lemma operation_str_inject [simp]: "OperationId_as_str i = OperationId_as_str j \<longleftrightarrow> i = j"
  by (cases i; cases j) simp

lemma item_str_inject [simp]: "ItemId_as_str i = ItemId_as_str j \<longleftrightarrow> i = j"
  by (cases i; cases j) simp

abbreviation json_text :: "string \<Rightarrow> Value" where
  "json_text s \<equiv> VString (lit s)"

definition artifact_json :: "ArtifactValueV1 \<Rightarrow> Value" where
  "artifact_json artifact = VObject
     [(lit ''kind'', json_text ''artifact''),
      (lit ''location_kind'',
         case location_kind artifact of LocalPath \<Rightarrow> json_text ''local_path''
         | ExternalReference \<Rightarrow> json_text ''external_reference''),
      (lit ''location'', VString (location artifact)),
      (lit ''digest'', VString (Sha256Digest_as_str (artifact_digest artifact))),
      (lit ''size_bytes'', VInt (uint (size_bytes artifact))),
      (lit ''media_type'', VString (artifact_media_type artifact))]"

definition check_result_json :: "CheckResultValueV2 \<Rightarrow> Value" where
  "check_result_json result = VObject
     [(lit ''kind'', json_text ''check_result''),
      (lit ''operation_id'', VString (OperationId_as_str (cr_operation_id result))),
      (lit ''operation_digest'', VString (Sha256Digest_as_str (cr_operation_digest result))),
      (lit ''input_basis'', VObject
         [(lit ''descriptor'', VString (basis_descriptor (cr_input_basis result))),
          (lit ''digest'', VString (Sha256Digest_as_str (basis_digest (cr_input_basis result))))]),
      (lit ''executor'', VObject
         [(lit ''name'', VString (executor_name (cr_executor result))),
          (lit ''version'', VString (executor_version (cr_executor result)))]),
      (lit ''outcome'', VString (CheckResultOutcomeV2_as_str (cr_outcome result))),
      (lit ''summary'', VString (cr_summary result)),
      (lit ''output_digest'', VString (Sha256Digest_as_str (cr_output_digest result)))]"

definition kind_and_value :: "string \<Rightarrow> Value \<Rightarrow> Value" where
  "kind_and_value kind v = VObject [(lit ''kind'', json_text kind), (lit ''value'', v)]"

definition item_value_json_v2 :: "RecordedItemValueV2 \<Rightarrow> ProcedureStateErrorV2 + Value" where
  "item_value_json_v2 value =
     (case RecordedItemValueV2_item_type value of
        TyConfirm \<Rightarrow> Inr (VObject [(lit ''kind'', json_text ''confirm'')])
      | TyText \<Rightarrow> rbind (ok_or (state_invalid ''Procedure v2 text item value is invalid'') (as_text value))
          (\<lambda>v. Inr (kind_and_value ''text'' (VString v)))
      | TyChoice \<Rightarrow> rbind (ok_or (state_invalid ''Procedure v2 choice item value is invalid'') (as_choice value))
          (\<lambda>v. Inr (kind_and_value ''choice'' (VString v)))
      | TyInteger \<Rightarrow> rbind (ok_or (state_invalid ''Procedure v2 integer item value is invalid'') (as_integer value))
          (\<lambda>v. Inr (kind_and_value ''integer'' (VInt (sint v))))
      | TyList \<Rightarrow> rbind (ok_or (state_invalid ''Procedure v2 list item value is invalid'') (as_list value))
          (\<lambda>v. Inr (kind_and_value ''list'' (VArray (map VString v))))
      | TyArtifact \<Rightarrow> rbind (ok_or (state_invalid ''Procedure v2 artifact item value is invalid'') (as_artifact value))
          (\<lambda>v. Inr (artifact_json v))
      | TyCheckResult \<Rightarrow>
          rbind (ok_or (state_invalid ''Procedure v2 check result item value is invalid'') (as_check_result value))
          (\<lambda>v. Inr (check_result_json v)))"

section \<open>Digests\<close>

definition sha256_digest_of :: "externals \<Rightarrow> byte list \<Rightarrow> DomainError + Sha256Digest" where
  "sha256_digest_of ext bytes = Sha256Digest_new (lit ''sha256:'' @ ext_sha256_hex ext bytes)"

definition recorded_value_digest_v2 ::
    "externals \<Rightarrow> RecordedItemValueV2 \<Rightarrow> ProcedureStateErrorV2 + Sha256Digest" where
  "recorded_value_digest_v2 ext value =
     rbind (item_value_json_v2 value) (\<lambda>json.
     rbind (map_err (\<lambda>_. state_invalid ''Procedure v2 recorded value is not canonicalizable'')
              (canonicalize_value ext json)) (\<lambda>canonical.
       map_err (\<lambda>_. state_invalid ''Procedure v2 recorded value digest is invalid'')
         (sha256_digest_of ext canonical)))"

definition recorded_value_encoded_size_v2 ::
    "externals \<Rightarrow> RecordedItemValueV2 \<Rightarrow> ProcedureStateErrorV2 + u64" where
  "recorded_value_encoded_size_v2 ext value =
     rbind (item_value_json_v2 value) (\<lambda>json.
     rbind (map_err (\<lambda>_. state_invalid ''Procedure v2 recorded value is not canonicalizable'')
              (canonicalize_value ext json)) (\<lambda>canonical.
       if length canonical < 2 ^ 64 then Inr (of_nat (length canonical))
       else Inl (state_invalid ''Procedure v2 recorded value size is out of range'')))"

definition recorded_item_json :: "RecordedItemV2 \<Rightarrow> ProcedureStateErrorV2 + Value" where
  "recorded_item_json item =
     rbind (item_value_json_v2 (ri_value item)) (\<lambda>v.
       Inr (VObject [(lit ''id'', VString (ItemId_as_str (ri_id item))), (lit ''value'', v)]))"

definition canonical_recorded_items_json_v2 ::
    "externals \<Rightarrow> RecordedItemSetV2 \<Rightarrow> ProcedureStateErrorV2 + byte list" where
  "canonical_recorded_items_json_v2 ext items =
     rbind (collect_ok recorded_item_json (recorded_items items)) (\<lambda>values.
       map_err (\<lambda>_. state_invalid ''Procedure v2 recorded items are not canonicalizable'')
         (canonicalize_value ext (VArray values)))"

definition recorded_items_digest_v2 ::
    "externals \<Rightarrow> RecordedItemSetV2 \<Rightarrow> ProcedureStateErrorV2 + Sha256Digest" where
  "recorded_items_digest_v2 ext items =
     rbind (canonical_recorded_items_json_v2 ext items) (\<lambda>canonical.
       map_err (\<lambda>_. state_invalid ''Procedure v2 recorded item digest is invalid'')
         (sha256_digest_of ext canonical))"

end
