(* ===== verification/Procedure_Model.thy ===== *)
theory Procedure_Model
  imports Item_Specs
begin

text \<open>
  The declarative procedure of \<open>procedure_v2\<close>: node definitions (\<open>definitions.rs\<close>), delegation
  declarations (\<open>delegation.rs\<close>), the placed graph (\<open>graph.rs\<close>) and session-goal values
  (\<open>goal.rs\<close>), each with the bounds its constructor enforces. Input structs with the same fields as
  the value they build are the same record.
\<close>

section \<open>Node definitions\<close>

text \<open>\<open>if let Some(x) = &x { validate_text(...)? }\<close>.\<close>

definition validate_optional_text :: "string \<Rightarrow> str option \<Rightarrow> nat \<Rightarrow> nat \<Rightarrow> bool \<Rightarrow> DomainError + unit" where
  "validate_optional_text field value lo hi nonblank =
     (case value of None \<Rightarrow> Inr () | Some v \<Rightarrow> validate_text field v lo hi nonblank)"

definition validate_instructions :: "str list \<Rightarrow> DomainError + unit" where
  "validate_instructions instructions =
     (if length instructions > 16 then Inl (invalid ''too many definition instructions'')
      else for_each (\<lambda>i. validate_text ''definition instruction'' i 1 1000 True) instructions)"

definition validate_item_specs :: "ItemSpecV2 list \<Rightarrow> DomainError + unit" where
  "validate_item_specs items =
     (if length items > MAX_ITEMS_PER_DEFINITION_V2
      then Inl (BoundExceeded ''definition items'' (length items) MAX_ITEMS_PER_DEFINITION_V2 Items)
      else check_unique ItemSpecV2_id (invalid ''definition item identifiers must be unique'') items)"

record ActionDefinitionV2 =
  ad_id :: NodeDefinitionId
  ad_title :: str
  ad_intent :: str
  ad_description :: "str option"
  ad_instructions :: "str list"
  ad_items :: "ItemSpecV2 list"

definition ActionDefinitionV2_new ::
    "NodeDefinitionId \<Rightarrow> str \<Rightarrow> str \<Rightarrow> str option \<Rightarrow> str list \<Rightarrow> ItemSpecV2 list \<Rightarrow>
     DomainError + ActionDefinitionV2" where
  "ActionDefinitionV2_new did title intent description instructions items =
     rbind (validate_text ''definition title'' title 1 120 True) (\<lambda>_.
     rbind (validate_text ''action intent'' intent 1 300 True) (\<lambda>_.
     rbind (validate_optional_text ''definition description'' description 0 1000 False) (\<lambda>_.
     rbind (validate_instructions instructions) (\<lambda>_.
     rbind (validate_item_specs items) (\<lambda>_.
       Inr \<lparr>ad_id = did, ad_title = title, ad_intent = intent, ad_description = description,
            ad_instructions = instructions, ad_items = items\<rparr>)))))"

record ReasonPolicyV2 =
  rp_required :: bool
  rp_prompt :: "str option"

definition ReasonPolicyV2_new :: "bool \<Rightarrow> str option \<Rightarrow> DomainError + ReasonPolicyV2" where
  "ReasonPolicyV2_new required prompt =
     (if \<not> required then Inl (invalid ''a declared reason policy requires required: true'')
      else rbind (validate_optional_text ''reason policy prompt'' prompt 0 300 False) (\<lambda>_.
        Inr \<lparr>rp_required = required, rp_prompt = prompt\<rparr>))"

record DecisionOptionV2 =
  do_id :: OptionId
  do_label :: str
  do_criteria :: "str option"
  do_guards :: "OptionGuardV2 option"

definition DecisionOptionV2_new :: "OptionId \<Rightarrow> str \<Rightarrow> str option \<Rightarrow> DomainError + DecisionOptionV2" where
  "DecisionOptionV2_new oid label criteria =
     rbind (validate_text ''option label'' label 1 120 True) (\<lambda>_.
     rbind (validate_optional_text ''option criteria'' criteria 0 500 False) (\<lambda>_.
       Inr \<lparr>do_id = oid, do_label = label, do_criteria = criteria, do_guards = None\<rparr>))"

definition with_guards :: "DecisionOptionV2 \<Rightarrow> OptionGuardV2 option \<Rightarrow> DecisionOptionV2" where
  "with_guards opt guards = opt\<lparr>do_guards := guards\<rparr>"

definition validate_options :: "DecisionOptionV2 list \<Rightarrow> DomainError + unit" where
  "validate_options options =
     (if length options < 1 \<or> length options > 8
      then Inl (invalid ''decision option count must be between one and eight'')
      else check_unique do_id (invalid ''decision option identifiers must be unique'') options)"

definition validate_evidence_guidance :: "str list \<Rightarrow> DomainError + unit" where
  "validate_evidence_guidance entries =
     (if length entries > 8 then Inl (invalid ''too many evidence guidance entries'')
      else for_each (\<lambda>e. validate_text ''evidence guidance'' e 1 200 True) entries)"

datatype AssessmentTargetV2 = SESSION_GOAL

definition AssessmentTargetV2_from_str :: "str \<Rightarrow> DomainError + AssessmentTargetV2" where
  "AssessmentTargetV2_from_str value =
     (if value = lit ''session_goal'' then Inr SESSION_GOAL
      else Inl (invalid ''assessment target must be session_goal''))"

datatype GoalOutcome = GoalAchieved | GoalNotAchieved | GoalSuperseded

definition GoalOutcome_as_str :: "GoalOutcome \<Rightarrow> str" where
  "GoalOutcome_as_str out =
     (case out of GoalAchieved \<Rightarrow> lit ''achieved'' | GoalNotAchieved \<Rightarrow> lit ''not_achieved''
      | GoalSuperseded \<Rightarrow> lit ''superseded'')"

definition GoalOutcome_from_str :: "str \<Rightarrow> DomainError + GoalOutcome" where
  "GoalOutcome_from_str value =
     (if value = lit ''achieved'' then Inr GoalAchieved
      else if value = lit ''not_achieved'' then Inr GoalNotAchieved
      else if value = lit ''superseded'' then Inr GoalSuperseded
      else Inl (invalid ''unknown goal outcome''))"

record AssessmentOutcomeMappingV2 =
  om_option_id :: OptionId
  om_outcome :: GoalOutcome

record AssessmentContractV2 =
  ac_target :: AssessmentTargetV2
  ac_outcomes :: "AssessmentOutcomeMappingV2 list"

definition AssessmentContractV2_with_target ::
    "AssessmentTargetV2 \<Rightarrow> AssessmentOutcomeMappingV2 list \<Rightarrow> DomainError + AssessmentContractV2" where
  "AssessmentContractV2_with_target target outcomes =
     (if length outcomes < 3 \<or> length outcomes > 8
      then Inl (invalid ''assessment outcome mapping count must be between three and eight'')
      else rbind (check_unique om_option_id
             (invalid ''assessment outcome option identifiers must be unique'') outcomes) (\<lambda>_.
        Inr \<lparr>ac_target = target, ac_outcomes = outcomes\<rparr>))"

record DecisionDefinitionV2 =
  dd_id :: NodeDefinitionId
  dd_title :: str
  dd_description :: "str option"
  dd_objective :: str
  dd_prompt :: str
  dd_evidence_guidance :: "str list"
  dd_items :: "ItemSpecV2 list"
  dd_options :: "DecisionOptionV2 list"
  dd_reason :: ReasonPolicyV2
  dd_assessment :: "AssessmentContractV2 option"

definition DecisionDefinitionV2_new :: "DecisionDefinitionV2 \<Rightarrow> DomainError + DecisionDefinitionV2" where
  "DecisionDefinitionV2_new input =
     rbind (validate_text ''definition title'' (dd_title input) 1 120 True) (\<lambda>_.
     rbind (validate_optional_text ''definition description'' (dd_description input) 0 1000 False) (\<lambda>_.
     rbind (validate_text ''decision objective'' (dd_objective input) 1 300 True) (\<lambda>_.
     rbind (validate_text ''decision prompt'' (dd_prompt input) 1 500 True) (\<lambda>_.
     rbind (validate_evidence_guidance (dd_evidence_guidance input)) (\<lambda>_.
     rbind (validate_item_specs (dd_items input)) (\<lambda>_.
     rbind (validate_options (dd_options input)) (\<lambda>_.
       Inr input)))))))"

section \<open>Delegation declarations\<close>

datatype DelegationRoleRefV1 = DelegationRoleRefV1 str

definition DelegationRoleRefV1_new :: "str \<Rightarrow> DomainError + DelegationRoleRefV1" where
  "DelegationRoleRefV1_new value =
     (if value = [] \<or> byte_len value > 256 \<or> (\<exists>c\<in>set value. is_control c)
      then Inl (invalid ''delegation role reference must be one to 256 UTF-8 bytes without control characters'')
      else Inr (DelegationRoleRefV1 value))"

datatype DelegationAfterAcceptV1 = Retain | Release

definition DelegationAfterAcceptV1_as_str :: "DelegationAfterAcceptV1 \<Rightarrow> str" where
  "DelegationAfterAcceptV1_as_str a = (case a of Retain \<Rightarrow> lit ''retain'' | Release \<Rightarrow> lit ''release'')"

definition DelegationAfterAcceptV1_from_str :: "str \<Rightarrow> DomainError + DelegationAfterAcceptV1" where
  "DelegationAfterAcceptV1_from_str value =
     (if value = lit ''retain'' then Inr Retain
      else if value = lit ''release'' then Inr Release
      else Inl (invalid ''delegation after_accept must be retain or release''))"

record DelegationDeclarationV1 =
  dl_binding_ref :: DelegationBindingRefV1
  dl_role_ref :: DelegationRoleRefV1
  dl_role_snapshot_digest :: Sha256Digest
  dl_max_rounds :: u8
  dl_after_accept :: DelegationAfterAcceptV1

definition DelegationDeclarationV1_new ::
    "DelegationBindingRefV1 \<Rightarrow> DelegationRoleRefV1 \<Rightarrow> Sha256Digest \<Rightarrow> u8 \<Rightarrow> DelegationAfterAcceptV1 \<Rightarrow>
     DomainError + DelegationDeclarationV1" where
  "DelegationDeclarationV1_new binding_ref role_ref role_snapshot_digest max_rounds after_accept =
     (if \<not> (1 \<le> max_rounds \<and> max_rounds \<le> 32)
      then Inl (invalid ''delegation max_rounds must be between one and 32'')
      else Inr \<lparr>dl_binding_ref = binding_ref, dl_role_ref = role_ref,
                dl_role_snapshot_digest = role_snapshot_digest, dl_max_rounds = max_rounds,
                dl_after_accept = after_accept\<rparr>)"

section \<open>The placed graph\<close>

datatype TransitionEffectV2 = EffectAdvance | EffectRework

definition TransitionEffectV2_as_str :: "TransitionEffectV2 \<Rightarrow> str" where
  "TransitionEffectV2_as_str e = (case e of EffectAdvance \<Rightarrow> lit ''advance'' | EffectRework \<Rightarrow> lit ''rework'')"

definition TransitionEffectV2_from_str :: "str \<Rightarrow> DomainError + TransitionEffectV2" where
  "TransitionEffectV2_from_str value =
     (if value = lit ''advance'' then Inr EffectAdvance
      else if value = lit ''rework'' then Inr EffectRework
      else Inl (invalid ''unknown transition effect''))"

record DecisionRouteV2 =
  route_to :: GraphNodeId
  route_effect :: TransitionEffectV2

record DecisionRouteEntryV2 =
  entry_option_id :: OptionId
  entry_route :: DecisionRouteV2

datatype DecisionRouteMapV2 = DecisionRouteMapV2 (route_entries: "DecisionRouteEntryV2 list")

definition DecisionRouteMapV2_new :: "DecisionRouteEntryV2 list \<Rightarrow> DomainError + DecisionRouteMapV2" where
  "DecisionRouteMapV2_new entries =
     (if length entries < 1 \<or> length entries > 8
      then Inl (invalid ''route count must be between one and eight'')
      else rbind (check_unique entry_option_id (invalid ''route option identifiers must be unique'') entries)
        (\<lambda>_. Inr (DecisionRouteMapV2 entries)))"

record SkipPolicyV2 =
  skip_allowed :: bool
  skip_reason_required :: bool

definition SkipPolicyV2_new :: "bool \<Rightarrow> bool \<Rightarrow> DomainError + SkipPolicyV2" where
  "SkipPolicyV2_new allowed reason_required =
     (if \<not> allowed then Inl (invalid ''a declared skip policy requires allowed: true'')
      else Inr \<lparr>skip_allowed = allowed, skip_reason_required = reason_required\<rparr>)"

datatype ActionOutcomeV2 = OutcomeNext GraphNodeId | OutcomeTerminal

fun next_target :: "ActionOutcomeV2 \<Rightarrow> GraphNodeId option" where
  "next_target (OutcomeNext t) = Some t"
| "next_target OutcomeTerminal = None"

record EvidenceReferenceV2 =
  er_source_node :: GraphNodeId
  er_required :: bool
  er_selected_items :: "ItemId list option"

definition EvidenceReferenceV2_new ::
    "GraphNodeId \<Rightarrow> bool \<Rightarrow> ItemId list option \<Rightarrow> DomainError + EvidenceReferenceV2" where
  "EvidenceReferenceV2_new source_node required selected_items =
     rbind (case selected_items of
         None \<Rightarrow> Inr ()
       | Some items \<Rightarrow>
           if length items < 1 \<or> length items > 16
           then Inl (invalid ''selected item count must be between one and sixteen'')
           else check_unique id (invalid ''selected item identifiers must be unique'') items) (\<lambda>_.
       Inr \<lparr>er_source_node = source_node, er_required = required, er_selected_items = selected_items\<rparr>)"

datatype EvidenceFromListV2 = EvidenceFromListV2 (evidence_entries: "EvidenceReferenceV2 list")

definition EvidenceFromListV2_new :: "EvidenceReferenceV2 list \<Rightarrow> DomainError + EvidenceFromListV2" where
  "EvidenceFromListV2_new entries =
     (if length entries < 1 \<or> length entries > 8
      then Inl (invalid ''evidence reference count must be between one and eight'')
      else Inr (EvidenceFromListV2 entries))"

record ActionPlacementV2 =
  ap_id :: GraphNodeId
  ap_definition :: NodeDefinitionId
  ap_evidence_from :: "EvidenceFromListV2 option"
  ap_skip :: "SkipPolicyV2 option"
  ap_delegation :: "DelegationDeclarationV1 option"
  ap_outcome :: ActionOutcomeV2

definition ActionPlacementV2_new ::
    "GraphNodeId \<Rightarrow> NodeDefinitionId \<Rightarrow> EvidenceFromListV2 option \<Rightarrow> SkipPolicyV2 option \<Rightarrow>
     ActionOutcomeV2 \<Rightarrow> ActionPlacementV2" where
  "ActionPlacementV2_new gid def_id evidence_from skip outcome =
     \<lparr>ap_id = gid, ap_definition = def_id, ap_evidence_from = evidence_from, ap_skip = skip,
      ap_delegation = None, ap_outcome = outcome\<rparr>"

definition ActionPlacementV2_delegated ::
    "GraphNodeId \<Rightarrow> NodeDefinitionId \<Rightarrow> EvidenceFromListV2 option \<Rightarrow> DelegationDeclarationV1 \<Rightarrow>
     ActionOutcomeV2 \<Rightarrow> ActionPlacementV2" where
  "ActionPlacementV2_delegated gid def_id evidence_from decl outcome =
     \<lparr>ap_id = gid, ap_definition = def_id, ap_evidence_from = evidence_from, ap_skip = None,
      ap_delegation = Some decl, ap_outcome = outcome\<rparr>"

record DecisionPlacementV2 =
  dp_id :: GraphNodeId
  dp_definition :: NodeDefinitionId
  dp_evidence_from :: "EvidenceFromListV2 option"
  dp_routes :: DecisionRouteMapV2

datatype GraphPlacementV2 = PlaceAction ActionPlacementV2 | PlaceDecision DecisionPlacementV2

fun GraphPlacementV2_id :: "GraphPlacementV2 \<Rightarrow> GraphNodeId" where
  "GraphPlacementV2_id (PlaceAction p) = ap_id p"
| "GraphPlacementV2_id (PlaceDecision p) = dp_id p"

fun GraphPlacementV2_node_kind :: "GraphPlacementV2 \<Rightarrow> NodeKindV2" where
  "GraphPlacementV2_node_kind (PlaceAction p) = KindAction"
| "GraphPlacementV2_node_kind (PlaceDecision p) = KindDecision"

datatype ManualReworkTargetListV2 = ManualReworkTargetListV2 (rework_targets: "GraphNodeId list")

definition ManualReworkTargetListV2_new :: "GraphNodeId list \<Rightarrow> DomainError + ManualReworkTargetListV2" where
  "ManualReworkTargetListV2_new targets =
     (if length targets < 1 \<or> length targets > 64
      then Inl (invalid ''manual rework target count must be between one and 64'')
      else rbind (check_unique id (invalid ''manual rework targets must be unique'') targets) (\<lambda>_.
        Inr (ManualReworkTargetListV2 targets)))"

record ProcedureGraphV2 =
  pg_entry :: GraphNodeId
  pg_placements :: "GraphPlacementV2 list"
  pg_manual_rework :: "ManualReworkTargetListV2 option"

definition MAX_GRAPH_NODES_PER_PROCEDURE_V2 :: nat where
  "MAX_GRAPH_NODES_PER_PROCEDURE_V2 = 1024"

text \<open>The loop over the placements returns whether it met the entry.\<close>

fun placements_loop ::
    "GraphNodeId \<Rightarrow> GraphNodeId list \<Rightarrow> bool \<Rightarrow> GraphPlacementV2 list \<Rightarrow> DomainError + bool" where
  "placements_loop entry seen entry_present [] = Inr entry_present"
| "placements_loop entry seen entry_present (p # ps) =
     (if GraphPlacementV2_id p \<in> set seen then Inl (invalid ''graph node identifiers must be unique'')
      else placements_loop entry (GraphPlacementV2_id p # seen)
             (entry_present \<or> GraphPlacementV2_id p = entry) ps)"

definition ProcedureGraphV2_new ::
    "GraphNodeId \<Rightarrow> GraphPlacementV2 list \<Rightarrow> ManualReworkTargetListV2 option \<Rightarrow> DomainError + ProcedureGraphV2" where
  "ProcedureGraphV2_new entry placements manual_rework =
     (if placements = [] \<or> length placements > MAX_GRAPH_NODES_PER_PROCEDURE_V2
      then Inl (invalid ''graph node count must be between one and 1024'')
      else rbind (placements_loop entry [] False placements) (\<lambda>entry_present.
        if \<not> entry_present then Inl (invalid ''the entry graph node must be present in the graph'')
        else Inr \<lparr>pg_entry = entry, pg_placements = placements, pg_manual_rework = manual_rework\<rparr>))"

definition ProcedureGraphV2_placement :: "ProcedureGraphV2 \<Rightarrow> GraphNodeId \<Rightarrow> GraphPlacementV2 option" where
  "ProcedureGraphV2_placement g gid = find (\<lambda>p. GraphPlacementV2_id p = gid) (pg_placements g)"

definition ProcedureGraphV2_node_kind :: "ProcedureGraphV2 \<Rightarrow> GraphNodeId \<Rightarrow> NodeKindV2 option" where
  "ProcedureGraphV2_node_kind g gid =
     map_option GraphPlacementV2_node_kind (ProcedureGraphV2_placement g gid)"

section \<open>Session goals\<close>

datatype GoalTrackingOptIn = GoalTrackingOptIn (tracking_enabled: bool)

definition GoalTrackingOptIn_from_bool :: "bool \<Rightarrow> DomainError + GoalTrackingOptIn" where
  "GoalTrackingOptIn_from_bool value =
     (if \<not> value then Inl (invalid ''goal_tracking accepts only true; omit the key to disable'')
      else Inr (GoalTrackingOptIn True))"

datatype GoalStatementV2 = GoalStatementV2 (goal_statement_str: str)

definition GoalStatementV2_new :: "str \<Rightarrow> DomainError + GoalStatementV2" where
  "GoalStatementV2_new value =
     rbind (validate_text ''goal statement'' value 1 1000 True) (\<lambda>_. Inr (GoalStatementV2 value))"

record GoalCriterionV2 =
  gc_id :: CriterionId
  gc_statement :: str

definition GoalCriterionV2_new :: "CriterionId \<Rightarrow> str \<Rightarrow> DomainError + GoalCriterionV2" where
  "GoalCriterionV2_new cid statement =
     rbind (validate_text ''criterion statement'' statement 1 300 True) (\<lambda>_.
       Inr \<lparr>gc_id = cid, gc_statement = statement\<rparr>)"

datatype GoalDefinitionV2 = GoalDefinitionV2 (goal_criteria: "GoalCriterionV2 list")

definition GoalDefinitionV2_new :: "GoalCriterionV2 list \<Rightarrow> DomainError + GoalDefinitionV2" where
  "GoalDefinitionV2_new criteria =
     (if length criteria < 1 \<or> length criteria > 16
      then Inl (invalid ''goal criterion count must be between one and 16'')
      else rbind (check_unique gc_id (invalid ''goal criterion identifiers must be unique'') criteria) (\<lambda>_.
        Inr (GoalDefinitionV2 criteria)))"

datatype GoalRevisionReasonV2 = GoalRevisionReasonV2 (goal_reason_str: str)

definition GoalRevisionReasonV2_new :: "str \<Rightarrow> DomainError + GoalRevisionReasonV2" where
  "GoalRevisionReasonV2_new value =
     rbind (validate_text ''goal revision reason'' value 1 1000 True) (\<lambda>_. Inr (GoalRevisionReasonV2 value))"

datatype CriterionAssessmentReasonV2 = CriterionAssessmentReasonV2 (assessment_reason_str: str)

definition CriterionAssessmentReasonV2_new :: "str \<Rightarrow> DomainError + CriterionAssessmentReasonV2" where
  "CriterionAssessmentReasonV2_new value =
     rbind (validate_text ''criterion assessment reason'' value 1 2000 True) (\<lambda>_.
       Inr (CriterionAssessmentReasonV2 value))"

section \<open>The graph as a map\<close>

lemma placements_loop_ok:
  "placements_loop entry seen present ps = Inr b \<longleftrightarrow>
     distinct (map GraphPlacementV2_id ps) \<and> set (map GraphPlacementV2_id ps) \<inter> set seen = {} \<and>
     (b \<longleftrightarrow> present \<or> entry \<in> GraphPlacementV2_id ` set ps)"
  by (induction ps arbitrary: seen present) (auto simp: image_iff)

lemma procedure_graph_ok:
  "ProcedureGraphV2_new entry ps mr = Inr g \<longleftrightarrow>
     g = \<lparr>pg_entry = entry, pg_placements = ps, pg_manual_rework = mr\<rparr> \<and>
     length ps \<le> 1024 \<and> distinct (map GraphPlacementV2_id ps) \<and> entry \<in> GraphPlacementV2_id ` set ps"
proof -
  have "placements_loop entry [] False ps = Inr True \<longleftrightarrow>
      distinct (map GraphPlacementV2_id ps) \<and> entry \<in> GraphPlacementV2_id ` set ps"
    by (simp add: placements_loop_ok)
  then show ?thesis
    by (auto simp: ProcedureGraphV2_new_def MAX_GRAPH_NODES_PER_PROCEDURE_V2_def)
qed

lemma find_unique_id:
  "distinct (map f ps) \<Longrightarrow> p \<in> set ps \<Longrightarrow> find (\<lambda>q. f q = f p) ps = Some p"
  by (induction ps) (auto simp: image_iff)

text \<open>
  C39: a constructed graph is a map from node identifiers to placements: construction accepts exactly
  the lists of one to 1024 placements with distinct identifiers that contain the entry, and then
  looking up an identifier returns a placement if and only if it is one of the placements with that
  identifier; the entry is always found.
\<close>

theorem procedure_graph_lookup:
  assumes "ProcedureGraphV2_new entry ps mr = Inr g"
  shows "(ProcedureGraphV2_placement g n = Some p \<longleftrightarrow> p \<in> set ps \<and> GraphPlacementV2_id p = n) \<and>
    (\<exists>q. ProcedureGraphV2_placement g (pg_entry g) = Some q)"
proof -
  from assms have g: "pg_placements g = ps" "pg_entry g = entry" and d: "distinct (map GraphPlacementV2_id ps)"
    and e: "entry \<in> GraphPlacementV2_id ` set ps" by (simp_all add: procedure_graph_ok)
  have look: "ProcedureGraphV2_placement g n = Some p \<longleftrightarrow> p \<in> set ps \<and> GraphPlacementV2_id p = n" for n p
    using find_unique_id[OF d] find_SomeD[of "\<lambda>q. GraphPlacementV2_id q = n" ps p]
    by (auto simp: ProcedureGraphV2_placement_def g)
  with e g show ?thesis by auto
qed

theorem procedure_graph_lookup_witness:
  "\<exists>q. ProcedureGraphV2_placement
     \<lparr>pg_entry = GraphNodeId [1],
      pg_placements = [PlaceAction (ActionPlacementV2_new (GraphNodeId [1]) (NodeDefinitionId [1]) None None
        OutcomeTerminal)], pg_manual_rework = None\<rparr> (GraphNodeId [1]) = Some q"
proof -
  let ?p = "PlaceAction (ActionPlacementV2_new (GraphNodeId [1]) (NodeDefinitionId [1]) None None OutcomeTerminal)"
  have "ProcedureGraphV2_new (GraphNodeId [1]) [?p] None =
      Inr \<lparr>pg_entry = GraphNodeId [1], pg_placements = [?p], pg_manual_rework = None\<rparr>"
    by (simp add: procedure_graph_ok ActionPlacementV2_new_def)
  from procedure_graph_lookup[OF this] show ?thesis by (simp add: ActionPlacementV2_new_def)
qed

end
