(* ===== verification/Workflow_Records.thy ===== *)
theory Workflow_Records
  imports Procedure_Model
begin

text \<open>
  Immutable workflow-memory records: resolved evidence, decision and rework records
  (\<open>record_v2.rs\<close>), and the goal-tracking records with the agreement between criterion results and
  the recorded outcome (\<open>goal_record_v2.rs\<close>). Input structs with the same fields as the value they
  build are the same record.
\<close>

section \<open>Resolved evidence\<close>

record EvidenceReferenceSnapshotV2 =
  es_source_node :: GraphNodeId
  es_source_attempt_id :: AttemptId
  es_source_attempt_number :: AttemptNumberV2
  es_items_digest :: Sha256Digest
  es_resolved_at :: UnixMillis

definition EvidenceReferenceSnapshotV2_new ::
    "GraphNodeId \<Rightarrow> AttemptId \<Rightarrow> AttemptNumberV2 \<Rightarrow> Sha256Digest \<Rightarrow> UnixMillis \<Rightarrow>
     DomainError + EvidenceReferenceSnapshotV2" where
  "EvidenceReferenceSnapshotV2_new source_node source_attempt_id source_attempt_number items_digest resolved_at =
     (if source_attempt_number < AttemptNumberV2_FIRST
      then Inl (invalid ''resolved reference source attempt number must be nonzero'')
      else Inr \<lparr>es_source_node = source_node, es_source_attempt_id = source_attempt_id,
                es_source_attempt_number = source_attempt_number, es_items_digest = items_digest,
                es_resolved_at = resolved_at\<rparr>)"

datatype ResolvedEvidenceReferenceV2 =
    Resolved EvidenceReferenceSnapshotV2
  | Skipped EvidenceReferenceSnapshotV2
  | Unresolved GraphNodeId

fun ResolvedEvidenceReferenceV2_source_node :: "ResolvedEvidenceReferenceV2 \<Rightarrow> GraphNodeId" where
  "ResolvedEvidenceReferenceV2_source_node (Resolved s) = es_source_node s"
| "ResolvedEvidenceReferenceV2_source_node (Skipped s) = es_source_node s"
| "ResolvedEvidenceReferenceV2_source_node (Unresolved n) = n"

fun ResolvedEvidenceReferenceV2_snapshot ::
    "ResolvedEvidenceReferenceV2 \<Rightarrow> EvidenceReferenceSnapshotV2 option" where
  "ResolvedEvidenceReferenceV2_snapshot (Resolved s) = Some s"
| "ResolvedEvidenceReferenceV2_snapshot (Skipped s) = Some s"
| "ResolvedEvidenceReferenceV2_snapshot (Unresolved n) = None"

datatype ResolvedEvidenceSetV2 = ResolvedEvidenceSetV2 (evidence_references: "ResolvedEvidenceReferenceV2 list")

definition ResolvedEvidenceSetV2_new :: "ResolvedEvidenceReferenceV2 list \<Rightarrow> DomainError + ResolvedEvidenceSetV2" where
  "ResolvedEvidenceSetV2_new references =
     (if length references > 8 then Inl (invalid ''an attempt holds at most eight resolved references'')
      else Inr (ResolvedEvidenceSetV2 references))"

section \<open>Decision and rework records\<close>

record DecisionRecordV2 =
  dr_trace :: TraceSequenceV2
  dr_session_id :: SessionId
  dr_session_revision :: Revision
  dr_procedure_snapshot_id :: ProcedureSnapshotId
  dr_procedure_digest :: Sha256Digest
  dr_graph_node_id :: GraphNodeId
  dr_node_definition_id :: NodeDefinitionId
  dr_attempt_id :: AttemptId
  dr_attempt_number :: AttemptNumberV2
  dr_goal_revision :: "GoalRevisionNumberV2 option"
  dr_selected_option :: OptionId
  dr_route_effect :: TransitionEffectV2
  dr_route_target :: GraphNodeId
  dr_reason :: ReasonV2
  dr_evidence :: ResolvedEvidenceSetV2
  dr_actor :: "ActorAttributionV2 option"
  dr_recorded_at :: UnixMillis

definition DecisionRecordV2_new :: "DecisionRecordV2 \<Rightarrow> DomainError + DecisionRecordV2" where
  "DecisionRecordV2_new input =
     (if dr_trace input < TraceSequenceV2_FIRST
      then Inl (invalid ''decision record trace sequence must be nonzero'')
      else if dr_session_revision input = Revision_ZERO
      then Inl (invalid ''decision record session revision must be nonzero'')
      else if dr_attempt_number input < AttemptNumberV2_FIRST
      then Inl (invalid ''decision record attempt number must be nonzero'')
      else if is_some_and (dr_goal_revision input) (\<lambda>goal. goal < GoalRevisionNumberV2_FIRST)
      then Inl (invalid ''decision record goal revision must be nonzero'')
      else Inr input)"

datatype ReworkKindV2 = ReworkDeclared | ReworkManual

definition ReworkKindV2_as_str :: "ReworkKindV2 \<Rightarrow> str" where
  "ReworkKindV2_as_str k = (case k of ReworkDeclared \<Rightarrow> lit ''declared'' | ReworkManual \<Rightarrow> lit ''manual'')"

definition ReworkKindV2_from_str :: "str \<Rightarrow> DomainError + ReworkKindV2" where
  "ReworkKindV2_from_str value =
     (if value = lit ''declared'' then Inr ReworkDeclared
      else if value = lit ''manual'' then Inr ReworkManual
      else Inl (invalid ''unknown rework kind''))"

record ReworkRecordV2 =
  rr_trace :: TraceSequenceV2
  rr_kind :: ReworkKindV2
  rr_from_node :: GraphNodeId
  rr_to_node :: GraphNodeId
  rr_target_attempt_id :: AttemptId
  rr_reason :: ReasonV2
  rr_reactivated :: bool
  rr_actor :: "ActorAttributionV2 option"
  rr_recorded_at :: UnixMillis

definition ReworkRecordV2_new :: "ReworkRecordV2 \<Rightarrow> DomainError + ReworkRecordV2" where
  "ReworkRecordV2_new input =
     (if rr_trace input < TraceSequenceV2_FIRST
      then Inl (invalid ''rework record trace sequence must be nonzero'')
      else Inr input)"

section \<open>Goal revisions\<close>

record GoalRevisionRecordV2 =
  gr_revision :: GoalRevisionNumberV2
  gr_predecessor :: "GoalRevisionNumberV2 option"
  gr_statement :: GoalStatementV2
  gr_criteria :: GoalDefinitionV2
  gr_reason :: "GoalRevisionReasonV2 option"
  gr_rework_to :: "GraphNodeId option"
  gr_reactivated :: bool
  gr_actor :: "ActorAttributionV2 option"
  gr_binding_trace :: TraceSequenceV2
  gr_created_at :: UnixMillis

definition GoalRevisionRecordV2_new ::
    "GoalRevisionNumberV2 \<Rightarrow> GoalRevisionNumberV2 option \<Rightarrow> GoalStatementV2 \<Rightarrow> GoalDefinitionV2 \<Rightarrow>
     GoalRevisionReasonV2 option \<Rightarrow> GraphNodeId option \<Rightarrow> bool \<Rightarrow> ActorAttributionV2 option \<Rightarrow>
     TraceSequenceV2 \<Rightarrow> UnixMillis \<Rightarrow> DomainError + GoalRevisionRecordV2" where
  "GoalRevisionRecordV2_new revision predecessor statement criteria reason rework_to reactivated actor
       binding_trace created_at =
     (if revision < GoalRevisionNumberV2_FIRST then Inl (invalid ''goal revision must be nonzero'')
      else if binding_trace < TraceSequenceV2_FIRST
      then Inl (invalid ''goal revision binding trace must be nonzero'')
      else rbind
        (if revision = GoalRevisionNumberV2_FIRST
         then if predecessor \<noteq> None \<or> reason \<noteq> None \<or> rework_to \<noteq> None
              then Inl (invalid ''the first goal revision carries no predecessor, reason, or rework target'')
              else if reactivated
              then Inl (invalid ''the first goal revision cannot reactivate a session'')
              else Inr ()
         else if predecessor = None \<or> reason = None \<or> rework_to = None
         then Inl (invalid ''a later goal revision requires a predecessor, reason, and rework target'')
         else Inr ()) (\<lambda>_.
        Inr \<lparr>gr_revision = revision, gr_predecessor = predecessor, gr_statement = statement,
             gr_criteria = criteria, gr_reason = reason, gr_rework_to = rework_to,
             gr_reactivated = reactivated, gr_actor = actor, gr_binding_trace = binding_trace,
             gr_created_at = created_at\<rparr>))"

section \<open>Criterion assessments\<close>

datatype CriterionStatusV2 = Satisfied | Unsatisfied | NotApplicable

definition CriterionStatusV2_as_str :: "CriterionStatusV2 \<Rightarrow> str" where
  "CriterionStatusV2_as_str s =
     (case s of Satisfied \<Rightarrow> lit ''satisfied'' | Unsatisfied \<Rightarrow> lit ''unsatisfied''
      | NotApplicable \<Rightarrow> lit ''not_applicable'')"

definition CriterionStatusV2_from_str :: "str \<Rightarrow> DomainError + CriterionStatusV2" where
  "CriterionStatusV2_from_str value =
     (if value = lit ''satisfied'' then Inr Satisfied
      else if value = lit ''unsatisfied'' then Inr Unsatisfied
      else if value = lit ''not_applicable'' then Inr NotApplicable
      else Inl (invalid ''unknown criterion assessment status''))"

datatype CriterionCitationV2 = CiteEvidence GraphNodeId | CiteItem ItemId

datatype CriterionAssessmentModeV2 = ModeAssessment | ModeApplicability

definition CriterionAssessmentModeV2_from_status :: "CriterionStatusV2 \<Rightarrow> CriterionAssessmentModeV2" where
  "CriterionAssessmentModeV2_from_status s =
     (case s of Satisfied \<Rightarrow> ModeAssessment | Unsatisfied \<Rightarrow> ModeAssessment | NotApplicable \<Rightarrow> ModeApplicability)"

record CriterionAssessmentResultV2 =
  car_criterion_id :: CriterionId
  car_status :: CriterionStatusV2
  car_reason :: CriterionAssessmentReasonV2
  car_citations :: "CriterionCitationV2 list"

definition CriterionAssessmentResultV2_new ::
    "CriterionId \<Rightarrow> CriterionStatusV2 \<Rightarrow> CriterionAssessmentReasonV2 \<Rightarrow> CriterionCitationV2 list \<Rightarrow>
     DomainError + CriterionAssessmentResultV2" where
  "CriterionAssessmentResultV2_new criterion_id status reason citations =
     (if length citations > 4 then Inl (invalid ''a criterion result carries at most four citations'')
      else if card (set citations) \<noteq> length citations
      then Inl (invalid ''criterion result citations must be unique'')
      else if status = NotApplicable \<and> citations \<noteq> []
      then Inl (invalid ''a not_applicable criterion result must not cite evidence'')
      else Inr \<lparr>car_criterion_id = criterion_id, car_status = status, car_reason = reason,
                car_citations = citations\<rparr>)"

definition CriterionAssessmentResultV2_mode :: "CriterionAssessmentResultV2 \<Rightarrow> CriterionAssessmentModeV2" where
  "CriterionAssessmentResultV2_mode r = CriterionAssessmentModeV2_from_status (car_status r)"

record CriterionAssessmentBatchEntryV2 =
  cab_criterion_id :: CriterionId
  cab_status :: str
  cab_reason :: str
  cab_citations :: "CriterionCitationV2 list"

definition CriterionAssessmentBatchEntryV2_into_result ::
    "CriterionAssessmentBatchEntryV2 \<Rightarrow> DomainError + CriterionAssessmentResultV2" where
  "CriterionAssessmentBatchEntryV2_into_result e =
     (if length (cab_citations e) > 4
      then Inl (invalid ''a criterion result carries at most four citations'')
      else rbind (CriterionStatusV2_from_str (cab_status e)) (\<lambda>status.
        if card (set (cab_citations e)) \<noteq> length (cab_citations e)
        then Inl (invalid ''criterion result citations must be unique'')
        else rbind (CriterionAssessmentReasonV2_new (cab_reason e)) (\<lambda>reason.
          CriterionAssessmentResultV2_new (cab_criterion_id e) status reason (cab_citations e))))"

section \<open>Final goal assessments\<close>

definition validate_assessment_consistency ::
    "GoalRevisionNumberV2 \<Rightarrow> GoalOutcome \<Rightarrow> CriterionAssessmentResultV2 list \<Rightarrow> DomainError + unit" where
  "validate_assessment_consistency goal_revision outcome results =
     (if goal_revision < GoalRevisionNumberV2_FIRST
      then Inl (invalid ''goal assessment goal revision must be nonzero'')
      else if length results < 1 \<or> length results > 16
      then Inl (invalid ''a goal assessment records between one and sixteen criterion results'')
      else rbind (check_unique car_criterion_id
             (invalid ''goal assessment criterion identifiers must be unique'') results) (\<lambda>_.
        let mode = CriterionAssessmentModeV2_from_status (car_status (results ! 0)) in
        rbind (for_each (\<lambda>r. if CriterionAssessmentResultV2_mode r \<noteq> mode
             then Inl (invalid ''criterion assessment modes must be homogeneous within one assessment'')
             else Inr ()) results) (\<lambda>_.
          case outcome of
            GoalAchieved \<Rightarrow>
              if mode \<noteq> ModeAssessment then Inl (invalid ''achieved requires assessment mode'')
              else if \<not> (\<forall>r\<in>set results. car_status r = Satisfied)
              then Inl (invalid ''achieved requires every criterion satisfied'')
              else Inr ()
          | GoalNotAchieved \<Rightarrow>
              if mode \<noteq> ModeAssessment then Inl (invalid ''not_achieved requires assessment mode'')
              else if \<not> (\<exists>r\<in>set results. car_status r = Unsatisfied)
              then Inl (invalid ''not_achieved requires at least one unsatisfied criterion'')
              else Inr ()
          | GoalSuperseded \<Rightarrow>
              if mode \<noteq> ModeApplicability then Inl (invalid ''superseded requires applicability mode'')
              else Inr ())))"

record GoalAssessmentRecordV2 =
  ga_goal_revision :: GoalRevisionNumberV2
  ga_outcome :: GoalOutcome
  ga_criterion_results :: "CriterionAssessmentResultV2 list"
  ga_evidence :: ResolvedEvidenceSetV2
  ga_actor :: "ActorAttributionV2 option"
  ga_decision_attempt_id :: AttemptId
  ga_decision_graph_node_id :: GraphNodeId
  ga_decision_trace :: TraceSequenceV2
  ga_recorded_at :: UnixMillis

definition GoalAssessmentRecordV2_new ::
    "GoalRevisionNumberV2 \<Rightarrow> GoalOutcome \<Rightarrow> CriterionAssessmentResultV2 list \<Rightarrow> ResolvedEvidenceSetV2 \<Rightarrow>
     ActorAttributionV2 option \<Rightarrow> AttemptId \<Rightarrow> GraphNodeId \<Rightarrow> TraceSequenceV2 \<Rightarrow> UnixMillis \<Rightarrow>
     DomainError + GoalAssessmentRecordV2" where
  "GoalAssessmentRecordV2_new goal_revision outcome criterion_results evidence actor decision_attempt_id
       decision_graph_node_id decision_trace recorded_at =
     rbind (validate_assessment_consistency goal_revision outcome criterion_results) (\<lambda>_.
       if decision_trace < TraceSequenceV2_FIRST
       then Inl (invalid ''goal assessment decision trace must be nonzero'')
       else Inr \<lparr>ga_goal_revision = goal_revision, ga_outcome = outcome,
                 ga_criterion_results = criterion_results, ga_evidence = evidence, ga_actor = actor,
                 ga_decision_attempt_id = decision_attempt_id,
                 ga_decision_graph_node_id = decision_graph_node_id, ga_decision_trace = decision_trace,
                 ga_recorded_at = recorded_at\<rparr>)"

section \<open>The outcome is a function of the results\<close>

text \<open>The outcome a complete set of criterion results stands for, if it stands for one.\<close>

definition outcome_of :: "CriterionAssessmentResultV2 list \<Rightarrow> GoalOutcome option" where
  "outcome_of results =
     (let statuses = car_status ` set results in
      if statuses = {Satisfied} then Some GoalAchieved
      else if statuses = {NotApplicable} then Some GoalSuperseded
      else if statuses = {Unsatisfied} \<or> statuses = {Satisfied, Unsatisfied} then Some GoalNotAchieved
      else None)"

lemma mode_cases:
  "CriterionAssessmentModeV2_from_status s = ModeApplicability \<longleftrightarrow> s = NotApplicable"
  "CriterionAssessmentModeV2_from_status s = ModeAssessment \<longleftrightarrow> s \<noteq> NotApplicable"
  by (cases s; simp add: CriterionAssessmentModeV2_from_status_def)+

lemma homogeneous_modes:
  assumes "rs \<noteq> []"
  shows "(\<forall>r\<in>set rs. CriterionAssessmentResultV2_mode r =
        CriterionAssessmentModeV2_from_status (car_status (rs ! 0))) \<longleftrightarrow>
    car_status ` set rs = {NotApplicable} \<or> NotApplicable \<notin> car_status ` set rs"
proof (cases "car_status (rs ! 0) = NotApplicable")
  case True
  from assms have "rs ! 0 \<in> set rs" by (simp add: nth_mem)
  with True have na: "NotApplicable \<in> car_status ` set rs" by (metis image_eqI)
  have m: "CriterionAssessmentModeV2_from_status (car_status (rs ! 0)) = ModeApplicability"
    using True by (simp add: mode_cases)
  show ?thesis unfolding m using na by (auto simp: CriterionAssessmentResultV2_mode_def mode_cases)
next
  case False
  from assms have "rs ! 0 \<in> set rs" by (simp add: nth_mem)
  with False have n: "\<not> car_status ` set rs = {NotApplicable}" by blast
  have m: "CriterionAssessmentModeV2_from_status (car_status (rs ! 0)) = ModeAssessment"
    using False by (simp add: mode_cases)
  show ?thesis unfolding m using n by (auto simp: CriterionAssessmentResultV2_mode_def mode_cases image_iff)
qed

definition outcome_agrees :: "GoalOutcome \<Rightarrow> CriterionStatusV2 set \<Rightarrow> bool" where
  "outcome_agrees out S \<longleftrightarrow>
     (case out of
        GoalAchieved \<Rightarrow> NotApplicable \<notin> S \<and> S \<subseteq> {Satisfied}
      | GoalNotAchieved \<Rightarrow> NotApplicable \<notin> S \<and> Unsatisfied \<in> S
      | GoalSuperseded \<Rightarrow> S = {NotApplicable})"

lemma status_set_cases:
  fixes S :: "CriterionStatusV2 set"
  shows "S \<in> {{}, {Satisfied}, {Unsatisfied}, {NotApplicable}, {Satisfied, Unsatisfied},
    {Satisfied, NotApplicable}, {Unsatisfied, NotApplicable}, {Satisfied, Unsatisfied, NotApplicable}}"
proof -
  have "S \<in> Pow {Satisfied, Unsatisfied, NotApplicable}" using CriterionStatusV2.exhaust by auto
  then show ?thesis unfolding Pow_insert Pow_empty by auto
qed

lemma outcome_of_agrees:
  assumes "rs \<noteq> []"
  shows "outcome_of rs = Some out \<longleftrightarrow> outcome_agrees out (car_status ` set rs)"
proof -
  have "car_status ` set rs \<noteq> {}" using assms by simp
  then show ?thesis
    using status_set_cases[of "car_status ` set rs"] unfolding outcome_of_def Let_def outcome_agrees_def
    by (elim insertE emptyE; cases out) auto
qed

lemma first_mode:
  assumes "rs \<noteq> []" and "car_status ` set rs = {NotApplicable} \<or> NotApplicable \<notin> car_status ` set rs"
  shows "CriterionAssessmentModeV2_from_status (car_status (rs ! 0)) = ModeAssessment \<longleftrightarrow>
      NotApplicable \<notin> car_status ` set rs"
    and "CriterionAssessmentModeV2_from_status (car_status (rs ! 0)) = ModeApplicability \<longleftrightarrow>
      car_status ` set rs = {NotApplicable}"
proof -
  from assms(1) have "car_status (rs ! 0) \<in> car_status ` set rs" by (simp add: nth_mem)
  with assms(2) show "CriterionAssessmentModeV2_from_status (car_status (rs ! 0)) = ModeAssessment \<longleftrightarrow>
      NotApplicable \<notin> car_status ` set rs"
    and "CriterionAssessmentModeV2_from_status (car_status (rs ! 0)) = ModeApplicability \<longleftrightarrow>
      car_status ` set rs = {NotApplicable}"
    unfolding mode_cases by auto
qed

lemma all_satisfied_image: "(\<forall>r\<in>set rs. car_status r = Satisfied) \<longleftrightarrow> car_status ` set rs \<subseteq> {Satisfied}"
  by blast

lemma any_unsatisfied_image: "(\<exists>r\<in>set rs. car_status r = Unsatisfied) \<longleftrightarrow> Unsatisfied \<in> car_status ` set rs"
  by force

lemma outcome_branch:
  assumes "rs \<noteq> []" and "mode = CriterionAssessmentModeV2_from_status (car_status (rs ! 0))"
  shows "(\<forall>r\<in>set rs. CriterionAssessmentResultV2_mode r = mode) \<and>
    (case out of
       GoalAchieved \<Rightarrow> mode = ModeAssessment \<and> (\<forall>r\<in>set rs. car_status r = Satisfied)
     | GoalNotAchieved \<Rightarrow> mode = ModeAssessment \<and> (\<exists>r\<in>set rs. car_status r = Unsatisfied)
     | GoalSuperseded \<Rightarrow> mode = ModeApplicability) \<longleftrightarrow> outcome_agrees out (car_status ` set rs)"
proof (cases "car_status ` set rs = {NotApplicable} \<or> NotApplicable \<notin> car_status ` set rs")
  case True
  with homogeneous_modes[OF assms(1)] first_mode[OF assms(1) True] show ?thesis
    unfolding assms(2) all_satisfied_image any_unsatisfied_image outcome_agrees_def by (cases out) simp_all
next
  case False
  with homogeneous_modes[OF assms(1)] show ?thesis
    unfolding assms(2) outcome_agrees_def by (cases out) auto
qed

lemma consistency_branches:
  "validate_assessment_consistency g out rs = Inr () \<longleftrightarrow>
     GoalRevisionNumberV2_FIRST \<le> g \<and> 1 \<le> length rs \<and> length rs \<le> 16 \<and>
     distinct (map car_criterion_id rs) \<and>
     (\<forall>r\<in>set rs. CriterionAssessmentResultV2_mode r =
        CriterionAssessmentModeV2_from_status (car_status (rs ! 0))) \<and>
     (case out of
       GoalAchieved \<Rightarrow> CriterionAssessmentModeV2_from_status (car_status (rs ! 0)) = ModeAssessment \<and>
         (\<forall>r\<in>set rs. car_status r = Satisfied)
     | GoalNotAchieved \<Rightarrow> CriterionAssessmentModeV2_from_status (car_status (rs ! 0)) = ModeAssessment \<and>
         (\<exists>r\<in>set rs. car_status r = Unsatisfied)
     | GoalSuperseded \<Rightarrow> CriterionAssessmentModeV2_from_status (car_status (rs ! 0)) = ModeApplicability)"
  unfolding validate_assessment_consistency_def Let_def
  by (cases out) (auto simp: not_less not_le Suc_le_eq split: if_splits)

text \<open>
  C34: a goal assessment can never record a contradictory outcome. The consistency check accepts an
  outcome if and only if the goal revision is nonzero, there are one to sixteen results with distinct
  criteria, and the outcome is the one function of the recorded statuses: achieved when all are
  satisfied, superseded when all are not applicable, not achieved when none is not applicable and
  some is unsatisfied; mixed statuses have no acceptable outcome.
\<close>

theorem assessment_outcome_determined:
  "validate_assessment_consistency g out rs = Inr () \<longleftrightarrow>
     g \<noteq> GoalRevisionNumberV2 0 \<and> length rs \<in> {1..16} \<and> distinct (map car_criterion_id rs) \<and>
     outcome_of rs = Some out"
proof (cases "rs = []")
  case True
  then show ?thesis by (simp add: consistency_branches)
next
  case False
  have "GoalRevisionNumberV2_FIRST \<le> g \<longleftrightarrow> g \<noteq> GoalRevisionNumberV2 0"
    by (cases g) (simp add: counter_order counter_firsts word_le_nat_alt word_unat_eq_iff Suc_le_eq)
  with outcome_branch[OF False refl, of out] outcome_of_agrees[OF False, of out] show ?thesis
    unfolding consistency_branches by auto
qed

section \<open>Closed vocabularies\<close>

text \<open>
  The persisted vocabularies are lossless. For every closed enumeration of the records, parsing
  a text succeeds with a value exactly when the text is that value's name, so names are distinct and
  nothing else is accepted.
\<close>

theorem vocabularies_round_trip:
  "(CriterionStatusV2_from_str s = Inr status \<longleftrightarrow> s = CriterionStatusV2_as_str status) \<and>
   (ReworkKindV2_from_str s = Inr kind \<longleftrightarrow> s = ReworkKindV2_as_str kind) \<and>
   (TransitionEffectV2_from_str s = Inr effect \<longleftrightarrow> s = TransitionEffectV2_as_str effect) \<and>
   (GoalOutcome_from_str s = Inr out \<longleftrightarrow> s = GoalOutcome_as_str out) \<and>
   (DelegationAfterAcceptV1_from_str s = Inr after \<longleftrightarrow> s = DelegationAfterAcceptV1_as_str after) \<and>
   (CheckResultOutcomeV2_from_str s = Inr res \<longleftrightarrow> s = CheckResultOutcomeV2_as_str res) \<and>
   (ProcedureSourceKindV1_from_row_value s = Inr src \<longleftrightarrow> s = ProcedureSourceKindV1_as_str src)"
proof (intro conjI)
  show "CriterionStatusV2_from_str s = Inr status \<longleftrightarrow> s = CriterionStatusV2_as_str status"
    by (cases status) (auto simp: CriterionStatusV2_from_str_def CriterionStatusV2_as_str_def lit_def)
  show "ReworkKindV2_from_str s = Inr kind \<longleftrightarrow> s = ReworkKindV2_as_str kind"
    by (cases kind) (auto simp: ReworkKindV2_from_str_def ReworkKindV2_as_str_def lit_def)
  show "TransitionEffectV2_from_str s = Inr effect \<longleftrightarrow> s = TransitionEffectV2_as_str effect"
    by (cases effect) (auto simp: TransitionEffectV2_from_str_def TransitionEffectV2_as_str_def lit_def)
  show "GoalOutcome_from_str s = Inr out \<longleftrightarrow> s = GoalOutcome_as_str out"
    by (cases out) (auto simp: GoalOutcome_from_str_def GoalOutcome_as_str_def lit_def)
  show "DelegationAfterAcceptV1_from_str s = Inr after \<longleftrightarrow> s = DelegationAfterAcceptV1_as_str after"
    by (cases after) (auto simp: DelegationAfterAcceptV1_from_str_def DelegationAfterAcceptV1_as_str_def lit_def)
  show "CheckResultOutcomeV2_from_str s = Inr res \<longleftrightarrow> s = CheckResultOutcomeV2_as_str res"
    by (rule outcome_round_trip)
  show "ProcedureSourceKindV1_from_row_value s = Inr src \<longleftrightarrow> s = ProcedureSourceKindV1_as_str src"
    by (cases src) (auto simp: ProcedureSourceKindV1_from_row_value_def ProcedureSourceKindV1_as_str_def lit_def)
qed

section \<open>Batch entries\<close>

text \<open>
  A batch entry of \<open>goal.assess_criteria\<close> becomes a result exactly when the individually typed
  construction accepts its parts: the deferred checks neither admit nor lose anything.
\<close>

theorem batch_entry_agrees:
  "CriterionAssessmentBatchEntryV2_into_result e = Inr r \<longleftrightarrow>
     (\<exists>status reason.
        CriterionStatusV2_from_str (cab_status e) = Inr status \<and>
        CriterionAssessmentReasonV2_new (cab_reason e) = Inr reason \<and>
        CriterionAssessmentResultV2_new (cab_criterion_id e) status reason (cab_citations e) = Inr r)"
  by (auto simp: CriterionAssessmentBatchEntryV2_into_result_def CriterionAssessmentResultV2_new_def
      split: if_splits)

end
