(* ===== verification/Snapshot_Model.thy ===== *)
theory Snapshot_Model
  imports Recorded_Digests Workflow_Records
begin

text \<open>
  The immutable procedure snapshot: \<open>CanonicalProcedureDocumentV2\<close>, \<open>ProcedureRuntimeV2\<close> and
  \<open>ProcedureSnapshotV2\<close> of \<open>graph_v2.rs\<close>, and the workflow-memory model parsed out of the
  snapshot document by \<open>workflow_v2.rs\<close> (items, evidence references, options and their guards,
  assessment outcomes, routes, manual rework targets). A \<open>BTreeMap\<close> is a map; of two entries with
  the same key the later one stays, as with \<open>insert\<close> and \<open>collect\<close>.
\<close>

section \<open>Identifiers and text\<close>

primrec GraphNodeId_as_str :: "GraphNodeId \<Rightarrow> str" where
  "GraphNodeId_as_str (GraphNodeId s) = s"
primrec NodeDefinitionId_as_str :: "NodeDefinitionId \<Rightarrow> str" where
  "NodeDefinitionId_as_str (NodeDefinitionId s) = s"

definition NodeDefinitionId_new :: "str \<Rightarrow> DomainError + NodeDefinitionId" where
  "NodeDefinitionId_new = procedure_identifier_new ''NodeDefinitionId'' NodeDefinitionId"

definition OptionId_new :: "str \<Rightarrow> DomainError + OptionId" where
  "OptionId_new = procedure_identifier_new ''OptionId'' OptionId"

definition OperationId_new :: "str \<Rightarrow> DomainError + OperationId" where
  "OperationId_new = procedure_identifier_new ''OperationId'' OperationId"

definition ItemPredicateOperatorV2_as_str :: "ItemPredicateOperatorV2 \<Rightarrow> string" where
  "ItemPredicateOperatorV2_as_str operator =
     (case operator of OpEquals _ \<Rightarrow> ''equals'' | OpNotEquals _ \<Rightarrow> ''not_equals'' | OpEmpty \<Rightarrow> ''empty''
      | OpNonEmpty \<Rightarrow> ''non_empty'' | OpAtLeast _ \<Rightarrow> ''at_least'' | OpAtMost _ \<Rightarrow> ''at_most'')"

definition ConditionStateV2_as_str :: "ConditionStateV2 \<Rightarrow> string" where
  "ConditionStateV2_as_str s =
     (case s of Met \<Rightarrow> ''met'' | Unmet \<Rightarrow> ''unmet'' | Unevaluable \<Rightarrow> ''unevaluable'')"

section \<open>Reading objects\<close>

abbreviation get_array :: "json_map \<Rightarrow> string \<Rightarrow> Value list option" where
  "get_array m key \<equiv> Option.bind (json_get m key) Value_as_array"
abbreviation get_object :: "json_map \<Rightarrow> string \<Rightarrow> json_map option" where
  "get_object m key \<equiv> Option.bind (json_get m key) Value_as_object"
abbreviation get_str :: "json_map \<Rightarrow> string \<Rightarrow> str option" where
  "get_str m key \<equiv> Option.bind (json_get m key) Value_as_str"
abbreviation get_bool :: "json_map \<Rightarrow> string \<Rightarrow> bool option" where
  "get_bool m key \<equiv> Option.bind (json_get m key) Value_as_bool"
abbreviation get_i64 :: "json_map \<Rightarrow> string \<Rightarrow> i64 option" where
  "get_i64 m key \<equiv> Option.bind (json_get m key) Value_as_i64"

text \<open>\<open>map_or(Ok(fallback), f)\<close> on an optional part of the document.\<close>

definition map_or_ok :: "'b \<Rightarrow> ('a \<Rightarrow> 'e + 'b) \<Rightarrow> 'a option \<Rightarrow> 'e + 'b" where
  "map_or_ok fallback f x = (case x of None \<Rightarrow> Inr fallback | Some y \<Rightarrow> f y)"

lemma map_or_ok_simps [simp, result_simps]:
  "map_or_ok d f None = Inr d"
  "map_or_ok d f (Some y) = f y"
  by (simp_all add: map_or_ok_def)

lemma map_or_ok_cong [fundef_cong]:
  "x = y \<Longrightarrow> d = d' \<Longrightarrow> (\<And>z. y = Some z \<Longrightarrow> f z = g z) \<Longrightarrow> map_or_ok d f x = map_or_ok d' g y"
  by (cases y) auto

definition required_text :: "json_map \<Rightarrow> string \<Rightarrow> ProcedureStateErrorV2 + str" where
  "required_text m field = ok_or (state_invalid ''Procedure v2 memory metadata is incomplete'') (get_str m field)"

definition required_string :: "json_map \<Rightarrow> string \<Rightarrow> ProcedureStateErrorV2 + str" where
  "required_string m field = ok_or (state_invalid ''canonical Procedure v2 metadata is incomplete'') (get_str m field)"

definition optional_u32 :: "json_map \<Rightarrow> string \<Rightarrow> u32 \<Rightarrow> ProcedureStateErrorV2 + u32" where
  "optional_u32 m key fallback =
     map_or_ok fallback (\<lambda>v. ok_or (state_invalid ''Procedure v2 item constraint is invalid'')
       (Option.bind (Value_as_u64 v) (\<lambda>n. if unat n < 2 ^ 32 then Some (ucast n) else None))) (json_get m key)"

definition optional_u16 :: "json_map \<Rightarrow> string \<Rightarrow> u16 \<Rightarrow> ProcedureStateErrorV2 + u16" where
  "optional_u16 m key fallback =
     map_or_ok fallback (\<lambda>v. ok_or (state_invalid ''Procedure v2 item constraint is invalid'')
       (Option.bind (Value_as_u64 v) (\<lambda>n. if unat n < 2 ^ 16 then Some (ucast n) else None))) (json_get m key)"

definition parse_item_type :: "str \<Rightarrow> ProcedureStateErrorV2 + ItemTypeV1" where
  "parse_item_type v =
     (if v = lit ''confirm'' then Inr TyConfirm
      else if v = lit ''text'' then Inr TyText
      else if v = lit ''choice'' then Inr TyChoice
      else if v = lit ''integer'' then Inr TyInteger
      else if v = lit ''list'' then Inr TyList
      else if v = lit ''artifact'' then Inr TyArtifact
      else if v = lit ''check_result'' then Inr TyCheckResult
      else Inl (state_invalid ''Procedure v2 item type is invalid''))"

section \<open>Predicates and conditions\<close>

definition parse_predicate_scalar_v2 :: "Value \<Rightarrow> ProcedureStateErrorV2 + PredicateScalarV2" where
  "parse_predicate_scalar_v2 v =
     (case Value_as_bool v of Some b \<Rightarrow> Inr (PsBoolean b)
      | None \<Rightarrow> (case Value_as_i64 v of Some n \<Rightarrow> Inr (PsInteger n)
      | None \<Rightarrow> (case Value_as_str v of
          Some s \<Rightarrow> map_err (\<lambda>_. state_invalid ''Procedure v2 predicate scalar is invalid'') (PredicateScalarV2_text s)
      | None \<Rightarrow> Inl (state_invalid ''Procedure v2 predicate scalar is invalid''))))"

definition parse_evidence_predicate_v2 :: "Value \<Rightarrow> ProcedureStateErrorV2 + EvidencePredicateV2" where
  "parse_evidence_predicate_v2 v =
     rbind (ok_or (state_invalid ''Procedure v2 decision option guard is invalid'') (Value_as_object v)) (\<lambda>predicate.
     rbind (ok_or (state_invalid ''Procedure v2 decision option guard evidence is invalid'')
              (get_object predicate ''evidence'')) (\<lambda>evidence.
     rbind (required_text evidence ''node'') (\<lambda>node.
     rbind (map_err (\<lambda>_. state_invalid ''Procedure v2 decision option guard source is invalid'')
              (GraphNodeId_new node)) (\<lambda>source_node.
     rbind (required_text evidence ''item'') (\<lambda>item_text.
     rbind (map_err (\<lambda>_. state_invalid ''Procedure v2 decision option guard item is invalid'')
              (ItemId_new item_text)) (\<lambda>item.
     rbind (case json_get predicate ''equals'' of
         Some e \<Rightarrow> rbind (parse_predicate_scalar_v2 e) (\<lambda>s. Inr (OpEquals s))
       | None \<Rightarrow> (case json_get predicate ''not_equals'' of
         Some e \<Rightarrow> rbind (parse_predicate_scalar_v2 e) (\<lambda>s. Inr (OpNotEquals s))
       | None \<Rightarrow> if get_bool predicate ''empty'' = Some True then Inr OpEmpty
                 else if get_bool predicate ''non_empty'' = Some True then Inr OpNonEmpty
                 else (case get_i64 predicate ''at_least'' of Some n \<Rightarrow> Inr (OpAtLeast n)
                 | None \<Rightarrow> (case get_i64 predicate ''at_most'' of Some n \<Rightarrow> Inr (OpAtMost n)
                 | None \<Rightarrow> Inl (state_invalid ''Procedure v2 decision option guard operator is invalid''))))) (\<lambda>operator.
       Inr \<lparr>ep_source_node = source_node, ep_item = item,
            ep_field_outcome = (get_str predicate ''field'' = Some (lit ''outcome'')),
            ep_operator = operator\<rparr>)))))))"

definition predicate_scalar_value_v2 :: "PredicateScalarV2 \<Rightarrow> Value" where
  "predicate_scalar_value_v2 s =
     (case s of PsBoolean b \<Rightarrow> VBool b | PsInteger n \<Rightarrow> VInt (sint n) | PsText t \<Rightarrow> VString t)"

definition evidence_predicate_status_value_v2 :: "EvidencePredicateV2 \<Rightarrow> PredicateStatusV2 \<Rightarrow> Value" where
  "evidence_predicate_status_value_v2 predicate status =
     VObject
       ([(lit ''source'', VObject
           ([(lit ''kind'', json_text ''evidence''),
             (lit ''graph_node_id'', VString (GraphNodeId_as_str (ep_source_node predicate))),
             (lit ''item_id'', VString (ItemId_as_str (ep_item predicate)))] @
            (if ep_field_outcome predicate then [(lit ''field'', json_text ''outcome'')] else []))),
         (lit ''operator'', json_text (ItemPredicateOperatorV2_as_str (ep_operator predicate)))] @
        (case ep_operator predicate of
           OpEquals expected \<Rightarrow> [(lit ''expected'', predicate_scalar_value_v2 expected)]
         | OpNotEquals expected \<Rightarrow> [(lit ''expected'', predicate_scalar_value_v2 expected)]
         | OpAtLeast expected \<Rightarrow> [(lit ''expected'', VInt (sint expected))]
         | OpAtMost expected \<Rightarrow> [(lit ''expected'', VInt (sint expected))]
         | OpEmpty \<Rightarrow> [] | OpNonEmpty \<Rightarrow> []) @
        (case ps_actual status of
           PaScalar actual \<Rightarrow> [(lit ''actual'', predicate_scalar_value_v2 actual)]
         | PaCount actual \<Rightarrow> [(lit ''actual_count'', VInt (uint actual))]
         | PaUnavailable \<Rightarrow> []) @
        [(lit ''state'', json_text (ConditionStateV2_as_str (ps_state status)))])"

definition parse_item_predicate :: "Value \<Rightarrow> ProcedureStateErrorV2 + ItemPredicateV2" where
  "parse_item_predicate v =
     rbind (ok_or (state_invalid ''Procedure v2 required_when predicate is invalid'') (Value_as_object v)) (\<lambda>predicate.
     rbind (required_text predicate ''item'') (\<lambda>item_text.
     rbind (map_err (\<lambda>_. state_invalid ''Procedure v2 required_when item is invalid'') (ItemId_new item_text)) (\<lambda>item.
     rbind (case get_str predicate ''field'' of
         None \<Rightarrow> Inr False
       | Some field \<Rightarrow> if field = lit ''outcome'' then Inr True
                       else Inl (state_invalid ''Procedure v2 required_when field is invalid'')) (\<lambda>field_outcome.
     rbind (map_or_ok [] (\<lambda>e. rbind (parse_predicate_scalar_v2 e) (\<lambda>s. Inr [OpEquals s]))
              (json_get predicate ''equals'')) (\<lambda>equals.
     rbind (map_or_ok [] (\<lambda>e. rbind (parse_predicate_scalar_v2 e) (\<lambda>s. Inr [OpNotEquals s]))
              (json_get predicate ''not_equals'')) (\<lambda>not_equals.
       let operators = equals @ not_equals
         @ (if get_bool predicate ''empty'' = Some True then [OpEmpty] else [])
         @ (if get_bool predicate ''non_empty'' = Some True then [OpNonEmpty] else [])
         @ (case get_i64 predicate ''at_least'' of Some n \<Rightarrow> [OpAtLeast n] | None \<Rightarrow> [])
         @ (case get_i64 predicate ''at_most'' of Some n \<Rightarrow> [OpAtMost n] | None \<Rightarrow> [])
       in case operators of
            [operator] \<Rightarrow> Inr \<lparr>ip_item = item, ip_field_outcome = field_outcome, ip_operator = operator\<rparr>
          | _ \<Rightarrow> Inl (state_invalid ''Procedure v2 required_when operator is invalid'')))))))"

definition parse_item_condition_v2 :: "Value \<Rightarrow> ProcedureStateErrorV2 + ItemConditionV2" where
  "parse_item_condition_v2 v =
     rbind (ok_or (state_invalid ''Procedure v2 required_when declaration is invalid'') (Value_as_array v)) (\<lambda>entries.
     rbind (collect_ok parse_item_predicate entries) (\<lambda>predicates.
       map_err (\<lambda>_. state_invalid ''Procedure v2 required_when declaration is invalid'')
         (ItemConditionV2_new predicates)))"

section \<open>Item declarations\<close>

definition DEFAULT_TEXT_MAX_SCALARS_V2 :: u32 where
  "DEFAULT_TEXT_MAX_SCALARS_V2 = 4000"
definition DEFAULT_LIST_MAX_ITEMS_V2 :: u16 where
  "DEFAULT_LIST_MAX_ITEMS_V2 = 50"
definition DEFAULT_LIST_MAX_ITEM_SCALARS_V2 :: u16 where
  "DEFAULT_LIST_MAX_ITEM_SCALARS_V2 = 500"
definition DEFAULT_LIST_MAX_TOTAL_SCALARS_V2 :: u32 where
  "DEFAULT_LIST_MAX_TOTAL_SCALARS_V2 = 1000000"

definition unwrap_or :: "'a \<Rightarrow> 'a option \<Rightarrow> 'a" where
  "unwrap_or fallback x = (case x of None \<Rightarrow> fallback | Some y \<Rightarrow> y)"

definition parse_item_common :: "json_map \<Rightarrow> ProcedureStateErrorV2 + ItemCommonV2" where
  "parse_item_common item =
     rbind (case json_get item ''required_when'' of
         None \<Rightarrow> Inr None
       | Some v \<Rightarrow> rbind (parse_item_condition_v2 v) (\<lambda>c. Inr (Some c))) (\<lambda>required_when.
     rbind (required_text item ''id'') (\<lambda>id_text.
     rbind (map_err (\<lambda>_. state_invalid ''Procedure v2 item identity is invalid'') (ItemId_new id_text)) (\<lambda>iid.
     rbind (required_text item ''prompt'') (\<lambda>prompt.
     rbind (ok_or (state_invalid ''Procedure v2 item requirement is invalid'') (get_bool item ''required'')) (\<lambda>required.
       map_err (\<lambda>_. state_invalid ''Procedure v2 item declaration is invalid'')
         (rbind (ItemCommonV2_new iid prompt (get_str item ''help'') required) (\<lambda>common.
            with_required_when common required_when)))))))"

definition item_declared :: "DomainError + ItemSpecV2 \<Rightarrow> ProcedureStateErrorV2 + ItemSpecV2" where
  "item_declared r = map_err (\<lambda>_. state_invalid ''Procedure v2 item declaration is invalid'') r"

definition parse_item_spec_v2 :: "json_map \<Rightarrow> ProcedureStateErrorV2 + ItemSpecV2" where
  "parse_item_spec_v2 item =
     rbind (parse_item_common item) (\<lambda>common.
     rbind (required_text item ''type'') (\<lambda>type_text.
     rbind (parse_item_type type_text) (\<lambda>item_type.
       case item_type of
         TyConfirm \<Rightarrow> item_declared (Inr (SpecConfirm common))
       | TyText \<Rightarrow>
           rbind (optional_u32 item ''min_length'' 0) (\<lambda>min_length.
           rbind (optional_u32 item ''max_length'' DEFAULT_TEXT_MAX_SCALARS_V2) (\<lambda>max_length.
             item_declared (rbind (TextItemSpecV2_new common min_length max_length
               (unwrap_or True (get_bool item ''multiline''))) (\<lambda>s. Inr (SpecText s)))))
       | TyChoice \<Rightarrow>
           rbind (ok_or (state_invalid ''Procedure v2 choice declaration is invalid'') (get_array item ''choices'')) (\<lambda>entries.
           rbind (collect_ok (\<lambda>choice. ok_or (state_invalid ''Procedure v2 choice declaration is invalid'')
                    (Value_as_str choice)) entries) (\<lambda>choices.
             item_declared (rbind (ChoiceItemSpecV2_new common choices) (\<lambda>s. Inr (SpecChoice s)))))
       | TyInteger \<Rightarrow>
           item_declared (rbind (IntegerItemSpecV2_new common (get_i64 item ''minimum'') (get_i64 item ''maximum''))
             (\<lambda>s. Inr (SpecInteger s)))
       | TyList \<Rightarrow>
           rbind (optional_u16 item ''min_items'' 0) (\<lambda>min_items.
           rbind (optional_u16 item ''max_items'' DEFAULT_LIST_MAX_ITEMS_V2) (\<lambda>max_items.
           rbind (optional_u16 item ''max_item_length'' DEFAULT_LIST_MAX_ITEM_SCALARS_V2) (\<lambda>max_item_length.
           rbind (optional_u32 item ''max_total_length'' DEFAULT_LIST_MAX_TOTAL_SCALARS_V2) (\<lambda>max_total_length.
             item_declared (rbind (ListItemSpecV2_new common min_items max_items max_item_length max_total_length
               (unwrap_or True (get_bool item ''unique''))) (\<lambda>s. Inr (SpecList s)))))))
       | TyArtifact \<Rightarrow>
           rbind (map_or_ok [] (collect_ok (\<lambda>m. ok_or (state_invalid ''Procedure v2 artifact media type is invalid'')
                    (Value_as_str m))) (get_array item ''allowed_media_types'')) (\<lambda>media_types.
             item_declared (rbind (ArtifactItemSpecV2_new common media_types) (\<lambda>s. Inr (SpecArtifact s))))
       | TyCheckResult \<Rightarrow>
           rbind (required_text item ''operation_id'') (\<lambda>op_text.
           rbind (map_err (\<lambda>_. state_invalid ''Procedure v2 check result operation identity is invalid'')
                    (OperationId_new op_text)) (\<lambda>operation_id.
           rbind (required_text item ''operation_digest'') (\<lambda>digest_text.
           rbind (map_err (\<lambda>_. state_invalid ''Procedure v2 check result operation digest is invalid'')
                    (Sha256Digest_new digest_text)) (\<lambda>operation_digest.
           rbind (ok_or (state_invalid ''Procedure v2 check result outcomes are invalid'')
                    (get_array item ''accepted_outcomes'')) (\<lambda>entries.
           rbind (collect_ok (\<lambda>out. rbind (ok_or (state_invalid ''Procedure v2 check result outcome is invalid'')
                    (Value_as_str out)) (\<lambda>text. map_err (\<lambda>_. state_invalid ''Procedure v2 check result outcome is invalid'')
                      (CheckResultOutcomeV2_from_str text))) entries) (\<lambda>outcomes.
             item_declared (rbind (CheckResultItemSpecV2_new common operation_id operation_digest outcomes)
               (\<lambda>s. Inr (SpecCheckResult s))))))))))))"

section \<open>Graph nodes of the snapshot (graph_v2.rs)\<close>

record GraphNodeSnapshotV2 =
  gn_graph_node_id :: GraphNodeId
  gn_node_definition_id :: NodeDefinitionId
  gn_placement_index :: u32
  gn_node_kind :: NodeKindV2
  gn_goal_assessment :: bool
  gn_canonical_placement_json :: "byte list"
  gn_action_target :: "ProcedureStateErrorV2 + GraphNodeId option"
  gn_invalid_next_type :: bool
  gn_terminal :: bool
  gn_skip :: "SkipPolicyV2 option"
  gn_delegated :: bool

definition GraphNodeSnapshotV2_advance_target ::
    "GraphNodeSnapshotV2 \<Rightarrow> ProcedureStateErrorV2 + GraphNodeId option" where
  "GraphNodeSnapshotV2_advance_target n = gn_action_target n"

definition GraphNodeSnapshotV2_next_target ::
    "GraphNodeSnapshotV2 \<Rightarrow> ProcedureStateErrorV2 + GraphNodeId option" where
  "GraphNodeSnapshotV2_next_target n =
     (if gn_invalid_next_type n then Inl (state_invalid ''Procedure v2 action target is invalid'')
      else GraphNodeSnapshotV2_advance_target n)"

definition GraphNodeSnapshotV2_action_outcome ::
    "GraphNodeSnapshotV2 \<Rightarrow> ProcedureStateErrorV2 + ActionOutcomeV2" where
  "GraphNodeSnapshotV2_action_outcome n =
     rbind (GraphNodeSnapshotV2_advance_target n) (\<lambda>target.
       case (target, gn_terminal n) of
         (Some t, False) \<Rightarrow> Inr (OutcomeNext t)
       | (None, True) \<Rightarrow> Inr OutcomeTerminal
       | _ \<Rightarrow> Inl (state_invalid ''Procedure v2 action outcome is invalid''))"

section \<open>The workflow-memory model of a snapshot\<close>

record EvidenceSpecV2 =
  ev_source_node :: GraphNodeId
  ev_required :: bool
  ev_selected_item_ids :: "ItemId list"

record NodeMemorySpecV2 =
  nm_node_kind :: NodeKindV2
  nm_node_definition_id :: NodeDefinitionId
  nm_items :: "ItemSpecV2 list"
  nm_evidence :: "EvidenceSpecV2 list"
  nm_options :: "OptionId list"
  nm_option_guards :: "OptionId \<rightharpoonup> OptionGuardV2"
  nm_reason_required :: bool
  nm_goal_assessment :: bool
  nm_assessment_outcomes :: "OptionId \<rightharpoonup> GoalOutcome"
  nm_terminal :: bool
  nm_advance_target :: "GraphNodeId option"
  nm_routes :: "OptionId \<rightharpoonup> GraphNodeId \<times> TransitionEffectV2"

record SnapshotMemoryModelV2 =
  mm_nodes :: "GraphNodeId \<rightharpoonup> NodeMemorySpecV2"
  mm_manual_rework_targets :: "GraphNodeId list"

definition btree_map :: "('k \<times> 'v) list \<Rightarrow> 'k \<rightharpoonup> 'v" where
  "btree_map entries = map_of (rev entries)"

definition parse_items :: "json_map \<Rightarrow> ProcedureStateErrorV2 + ItemSpecV2 list" where
  "parse_items def_map =
     map_or_ok [] (collect_ok (\<lambda>v.
       rbind (ok_or (state_invalid ''Procedure v2 item definition is invalid'') (Value_as_object v)) parse_item_spec_v2))
       (get_array def_map ''items'')"

definition parse_evidence_spec :: "Value \<Rightarrow> ProcedureStateErrorV2 + EvidenceSpecV2" where
  "parse_evidence_spec v =
     rbind (ok_or (state_invalid ''Procedure v2 evidence declaration is invalid'') (Value_as_object v)) (\<lambda>reference.
     rbind (map_or_ok [] (collect_ok (\<lambda>item.
         rbind (ok_or (state_invalid ''Procedure v2 evidence selector is invalid'') (Value_as_str item)) (\<lambda>text.
           map_err (\<lambda>_. state_invalid ''Procedure v2 evidence selector is invalid'') (ItemId_new text))))
         (get_array reference ''items'')) (\<lambda>selected.
     rbind (required_text reference ''node'') (\<lambda>node.
     rbind (map_err (\<lambda>_. state_invalid ''Procedure v2 evidence source is invalid'') (GraphNodeId_new node)) (\<lambda>source.
       Inr \<lparr>ev_source_node = source, ev_required = unwrap_or True (get_bool reference ''required''),
            ev_selected_item_ids = selected\<rparr>))))"

definition parse_option :: "Value \<Rightarrow> ProcedureStateErrorV2 + OptionId \<times> OptionGuardV2 option" where
  "parse_option v =
     rbind (ok_or (state_invalid ''Procedure v2 decision option is invalid'') (Value_as_object v)) (\<lambda>option_map.
     rbind (required_text option_map ''id'') (\<lambda>id_text.
     rbind (map_err (\<lambda>_. state_invalid ''Procedure v2 option identity is invalid'') (OptionId_new id_text)) (\<lambda>option_id.
       case get_array option_map ''guards'' of
         None \<Rightarrow> Inr (option_id, None)
       | Some guards \<Rightarrow>
           rbind (collect_ok parse_evidence_predicate_v2 guards) (\<lambda>predicates.
           rbind (map_err (\<lambda>_. state_invalid ''Procedure v2 decision option guards are invalid'')
                    (OptionGuardV2_new predicates)) (\<lambda>guard. Inr (option_id, Some guard))))))"

definition parse_options ::
    "json_map \<Rightarrow> ProcedureStateErrorV2 + OptionId list \<times> (OptionId \<rightharpoonup> OptionGuardV2)" where
  "parse_options def_map =
     map_or_ok ([], Map.empty) (\<lambda>options.
       rbind (collect_ok parse_option options) (\<lambda>parsed.
         Inr (map fst parsed,
              btree_map (List.map_filter (\<lambda>(oid, g). map_option (Pair oid) g) parsed))))
       (get_array def_map ''options'')"

definition parse_assessment_outcomes ::
    "json_map \<Rightarrow> ProcedureStateErrorV2 + (OptionId \<rightharpoonup> GoalOutcome)" where
  "parse_assessment_outcomes def_map =
     map_or_ok Map.empty (\<lambda>outcomes.
       rbind (collect_ok (\<lambda>(key, v).
           rbind (map_err (\<lambda>_. state_invalid ''Procedure v2 assessment option is invalid'') (OptionId_new key)) (\<lambda>oid.
           rbind (ok_or (state_invalid ''Procedure v2 assessment outcome is invalid'') (Value_as_str v)) (\<lambda>text.
           rbind (map_err (\<lambda>_. state_invalid ''Procedure v2 assessment outcome is invalid'')
                    (GoalOutcome_from_str text)) (\<lambda>out. Inr (oid, out))))) outcomes) (\<lambda>entries.
         Inr (btree_map entries)))
       (Option.bind (get_object def_map ''assessment'') (\<lambda>a. get_object a ''outcomes''))"

definition parse_routes ::
    "json_map \<Rightarrow> ProcedureStateErrorV2 + (OptionId \<rightharpoonup> GraphNodeId \<times> TransitionEffectV2)" where
  "parse_routes placement =
     map_or_ok Map.empty (\<lambda>routes.
       rbind (collect_ok (\<lambda>(key, v).
           rbind (ok_or (state_invalid ''Procedure v2 decision route is invalid'') (Value_as_object v)) (\<lambda>route.
           rbind (map_err (\<lambda>_. state_invalid ''Procedure v2 option identity is invalid'') (OptionId_new key)) (\<lambda>oid.
           rbind (required_text route ''to'') (\<lambda>to_text.
           rbind (map_err (\<lambda>_. state_invalid ''Procedure v2 route target is invalid'') (GraphNodeId_new to_text)) (\<lambda>target.
           rbind (required_text route ''effect'') (\<lambda>effect_text.
           rbind (map_err (\<lambda>_. state_invalid ''Procedure v2 route effect is invalid'')
                    (TransitionEffectV2_from_str effect_text)) (\<lambda>effect. Inr (oid, target, effect)))))))) routes) (\<lambda>entries.
         Inr (btree_map entries)))
       (get_object placement ''routes'')"

definition parse_manual_rework_targets :: "json_map \<Rightarrow> ProcedureStateErrorV2 + GraphNodeId list" where
  "parse_manual_rework_targets root =
     map_or_ok [] (collect_ok (\<lambda>target.
         rbind (ok_or (state_invalid ''Procedure v2 manual rework target is invalid'') (Value_as_str target)) (\<lambda>text.
           map_err (\<lambda>_. state_invalid ''Procedure v2 manual rework target is invalid'') (GraphNodeId_new text))))
       (Option.bind (get_object root ''manual_rework'') (\<lambda>m. get_array m ''allowed_targets''))"

definition targets_session_goal :: "json_map \<Rightarrow> bool" where
  "targets_session_goal def_map \<longleftrightarrow>
     Option.bind (get_object def_map ''assessment'') (\<lambda>a. get_str a ''target'') = Some (lit ''session_goal'')"

definition parse_node_memory_spec ::
    "json_map \<Rightarrow> json_map \<Rightarrow> GraphNodeSnapshotV2 \<Rightarrow> ProcedureStateErrorV2 + GraphNodeId \<times> NodeMemorySpecV2" where
  "parse_node_memory_spec root definitions node =
     rbind (ok_or (state_invalid ''Procedure v2 placement memory metadata is invalid'')
       (Option.bind (Option.bind (get_object root ''graph'') (\<lambda>graph. get_array graph ''nodes'')) (\<lambda>placements.
          let i = unat (gn_placement_index node) in
          if i < length placements then Value_as_object (placements ! i) else None))) (\<lambda>placement.
     rbind (ok_or (state_invalid ''Procedure v2 memory definition is absent'')
       (Option.bind (map_of definitions (NodeDefinitionId_as_str (gn_node_definition_id node))) Value_as_object)) (\<lambda>def_map.
     rbind (parse_items def_map) (\<lambda>items.
     rbind (map_or_ok [] (collect_ok parse_evidence_spec) (get_array placement ''evidence_from'')) (\<lambda>evidence.
     rbind (parse_options def_map) (\<lambda>(options, option_guards).
     rbind (parse_assessment_outcomes def_map) (\<lambda>assessment_outcomes.
     rbind (parse_routes placement) (\<lambda>routes.
     rbind (GraphNodeSnapshotV2_advance_target node) (\<lambda>advance_target.
       Inr (gn_graph_node_id node,
         \<lparr>nm_node_kind = gn_node_kind node, nm_node_definition_id = gn_node_definition_id node,
          nm_items = items, nm_evidence = evidence, nm_options = options, nm_option_guards = option_guards,
          nm_reason_required =
            unwrap_or False (Option.bind (get_object def_map ''reason'') (\<lambda>r. get_bool r ''required'')),
          nm_goal_assessment = targets_session_goal def_map, nm_assessment_outcomes = assessment_outcomes,
          nm_terminal = gn_terminal node, nm_advance_target = advance_target, nm_routes = routes\<rparr>)))))))))"

definition SnapshotMemoryModelV2_parse ::
    "json_map \<Rightarrow> GraphNodeSnapshotV2 list \<Rightarrow> ProcedureStateErrorV2 + SnapshotMemoryModelV2" where
  "SnapshotMemoryModelV2_parse root graph_nodes =
     rbind (ok_or (state_invalid ''Procedure v2 node definitions are missing'')
              (get_object root ''node_definitions'')) (\<lambda>definitions.
     rbind (collect_ok (parse_node_memory_spec root definitions) graph_nodes) (\<lambda>nodes.
     rbind (parse_manual_rework_targets root) (\<lambda>targets.
       Inr \<lparr>mm_nodes = btree_map nodes, mm_manual_rework_targets = targets\<rparr>)))"

definition SnapshotMemoryModelV2_node ::
    "SnapshotMemoryModelV2 \<Rightarrow> GraphNodeId \<Rightarrow> ProcedureStateErrorV2 + NodeMemorySpecV2" where
  "SnapshotMemoryModelV2_node model gid =
     ok_or (state_invalid ''Procedure v2 workflow-memory node is absent'') (mm_nodes model gid)"

definition SnapshotMemoryModelV2_items ::
    "SnapshotMemoryModelV2 \<Rightarrow> GraphNodeId \<Rightarrow> ProcedureStateErrorV2 + ItemSpecV2 list" where
  "SnapshotMemoryModelV2_items model gid =
     rbind (SnapshotMemoryModelV2_node model gid) (\<lambda>spec. Inr (nm_items spec))"

section \<open>Documents, runtimes and snapshots (graph_v2.rs)\<close>

primrec canonical_json_str :: "CanonicalProcedureJsonV1 \<Rightarrow> str" where
  "canonical_json_str (CanonicalProcedureJsonV1 s) = s"

record CanonicalProcedureDocumentV2 =
  doc_canonical_json :: CanonicalProcedureJsonV1
  doc_digest :: Sha256Digest
  doc_document :: Value

definition CanonicalProcedureDocumentV2_new ::
    "externals \<Rightarrow> CanonicalProcedureJsonV1 \<Rightarrow> Sha256Digest \<Rightarrow> ProcedureStateErrorV2 + CanonicalProcedureDocumentV2" where
  "CanonicalProcedureDocumentV2_new ext json digest =
     (let bytes = as_bytes (canonical_json_str json) in
      rbind (map_err (\<lambda>_. state_invalid ''Procedure v2 snapshot JSON must be canonical'')
               (verify_canonical_json_v1 ext bytes)) (\<lambda>_.
      if lit ''sha256:'' @ ext_sha256_hex ext bytes \<noteq> Sha256Digest_as_str digest
      then Inl (state_invalid ''Procedure v2 snapshot digest does not match its canonical JSON'')
      else rbind (map_err (\<lambda>_. state_invalid ''Procedure v2 snapshot JSON is not a document'')
             (ext_json_from_slice ext bytes)) (\<lambda>document.
        Inr \<lparr>doc_canonical_json = json, doc_digest = digest, doc_document = document\<rparr>)))"

record ProcedureRuntimeV2 =
  rt_procedure_id :: str
  rt_procedure_version :: str
  rt_name :: str
  rt_purpose :: str
  rt_digest :: Sha256Digest
  rt_canonical_json :: CanonicalProcedureJsonV1
  rt_goal_tracking :: bool
  rt_entry_graph_node_id :: GraphNodeId
  rt_graph_nodes :: "GraphNodeSnapshotV2 list"
  rt_memory_model :: "ProcedureStateErrorV2 + SnapshotMemoryModelV2"

definition parse_skip_policy :: "json_map \<Rightarrow> SkipPolicyV2 option" where
  "parse_skip_policy placement =
     (case get_object placement ''skip'' of
        None \<Rightarrow> None
      | Some skip \<Rightarrow>
          if get_bool skip ''allowed'' = Some True
          then Some \<lparr>skip_allowed = True, skip_reason_required = (get_bool skip ''reason_required'' = Some True)\<rparr>
          else None)"

text \<open>The part of one iteration after its identity was found to be fresh.\<close>

definition parse_graph_node ::
    "externals \<Rightarrow> json_map \<Rightarrow> nat \<Rightarrow> Value \<Rightarrow> json_map \<Rightarrow> GraphNodeId \<Rightarrow>
     ProcedureStateErrorV2 + GraphNodeSnapshotV2" where
  "parse_graph_node ext definitions index placement placement_object graph_node_id =
     rbind (required_string placement_object ''use'') (\<lambda>definition_text.
     rbind (map_err (\<lambda>_. state_invalid ''Procedure v2 node definition identity is invalid'')
              (NodeDefinitionId_new definition_text)) (\<lambda>node_definition_id.
     rbind (ok_or (state_invalid ''Procedure v2 graph placement names no definition'')
              (Option.bind (map_of definitions definition_text) Value_as_object)) (\<lambda>def_map.
     rbind (required_string def_map ''type'') (\<lambda>kind_text.
     rbind (if kind_text = lit ''action'' then Inr KindAction
            else if kind_text = lit ''decision'' then Inr KindDecision
            else Inl (state_invalid ''Procedure v2 node definition kind is invalid'')) (\<lambda>node_kind.
     rbind (map_err (\<lambda>_. state_invalid ''Procedure v2 graph placement is not canonicalizable'')
              (canonicalize_value ext placement)) (\<lambda>canonical_placement_json.
     rbind (if index < 2 ^ 32 then Inr (of_nat index)
            else Inl (state_invalid ''Procedure v2 graph placement index is out of bounds'')) (\<lambda>placement_index.
       Inr \<lparr>gn_graph_node_id = graph_node_id, gn_node_definition_id = node_definition_id,
            gn_placement_index = placement_index, gn_node_kind = node_kind,
            gn_goal_assessment = targets_session_goal def_map,
            gn_canonical_placement_json = canonical_placement_json,
            gn_action_target =
              (case get_str placement_object ''next'' of
                 None \<Rightarrow> Inr None
               | Some target \<Rightarrow> rbind (map_err (\<lambda>_. state_invalid ''Procedure v2 action target is invalid'')
                                  (GraphNodeId_new target)) (\<lambda>t. Inr (Some t))),
            gn_invalid_next_type = is_some_and (json_get placement_object ''next'') (\<lambda>v. Value_as_str v = None),
            gn_terminal = (get_bool placement_object ''terminal'' = Some True),
            gn_skip = parse_skip_policy placement_object,
            gn_delegated = (json_get placement_object ''delegation'' \<noteq> None)\<rparr>)))))))"

fun parse_graph_nodes ::
    "externals \<Rightarrow> json_map \<Rightarrow> nat \<Rightarrow> GraphNodeId list \<Rightarrow> Value list \<Rightarrow>
     ProcedureStateErrorV2 + GraphNodeSnapshotV2 list" where
  "parse_graph_nodes ext definitions index seen [] = Inr []"
| "parse_graph_nodes ext definitions index seen (placement # rest) =
     rbind (ok_or (state_invalid ''Procedure v2 graph placement must be an object'')
              (Value_as_object placement)) (\<lambda>placement_object.
     rbind (required_string placement_object ''id'') (\<lambda>id_text.
     rbind (map_err (\<lambda>_. state_invalid ''Procedure v2 graph node identity is invalid'')
              (GraphNodeId_new id_text)) (\<lambda>graph_node_id.
       if graph_node_id \<in> set seen
       then Inl (state_invalid ''Procedure v2 graph node identities must be unique'')
       else rbind (parse_graph_node ext definitions index placement placement_object graph_node_id) (\<lambda>node.
         rbind (parse_graph_nodes ext definitions (Suc index) (graph_node_id # seen) rest) (\<lambda>nodes.
           Inr (node # nodes))))))"

definition PROCEDURE_SCHEMA_V2 :: str where
  "PROCEDURE_SCHEMA_V2 = lit ''podway.procedure/v2''"

definition ProcedureRuntimeV2_from_admitted_document ::
    "externals \<Rightarrow> CanonicalProcedureDocumentV2 \<Rightarrow> ProcedureStateErrorV2 + ProcedureRuntimeV2" where
  "ProcedureRuntimeV2_from_admitted_document ext doc =
     rbind (ok_or (state_invalid ''Procedure v2 snapshot must be a JSON object'')
              (Value_as_object (doc_document doc))) (\<lambda>document.
     rbind (required_string document ''schema'') (\<lambda>schema.
     if schema \<noteq> PROCEDURE_SCHEMA_V2 then Inl (state_invalid ''Procedure v2 snapshot has the wrong schema'') else
     rbind (required_string document ''id'') (\<lambda>procedure_id.
     rbind (required_string document ''version'') (\<lambda>procedure_version.
     rbind (required_string document ''name'') (\<lambda>name.
     rbind (required_string document ''purpose'') (\<lambda>purpose.
     rbind (case json_get document ''goal_tracking'' of
         None \<Rightarrow> Inr False
       | Some v \<Rightarrow> if v = VBool True then Inr True
                   else Inl (state_invalid ''Procedure v2 goal tracking must be absent or true'')) (\<lambda>goal_tracking.
     rbind (ok_or (state_invalid ''Procedure v2 node definitions are missing'')
              (get_object document ''node_definitions'')) (\<lambda>definitions.
     rbind (ok_or (state_invalid ''Procedure v2 graph is missing'') (get_object document ''graph'')) (\<lambda>graph.
     rbind (required_string graph ''entry'') (\<lambda>entry_text.
     rbind (map_err (\<lambda>_. state_invalid ''Procedure v2 entry graph node identity is invalid'')
              (GraphNodeId_new entry_text)) (\<lambda>entry_graph_node_id.
     rbind (ok_or (state_invalid ''Procedure v2 graph placements are missing'') (get_array graph ''nodes'')) (\<lambda>placements.
     if placements = [] \<or> length placements > MAX_GRAPH_NODES_PER_PROCEDURE_V2
     then Inl (state_invalid ''Procedure v2 graph node count is out of bounds'') else
     rbind (parse_graph_nodes ext definitions 0 [] placements) (\<lambda>graph_nodes.
     if entry_graph_node_id \<notin> set (map gn_graph_node_id graph_nodes)
     then Inl (state_invalid ''Procedure v2 entry graph node is absent'')
     else Inr \<lparr>rt_procedure_id = procedure_id, rt_procedure_version = procedure_version, rt_name = name,
               rt_purpose = purpose, rt_digest = doc_digest doc, rt_canonical_json = doc_canonical_json doc,
               rt_goal_tracking = goal_tracking, rt_entry_graph_node_id = entry_graph_node_id,
               rt_graph_nodes = graph_nodes,
               rt_memory_model = SnapshotMemoryModelV2_parse document graph_nodes\<rparr>)))))))))))))"

definition ProcedureRuntimeV2_graph_node :: "ProcedureRuntimeV2 \<Rightarrow> GraphNodeId \<Rightarrow> GraphNodeSnapshotV2 option" where
  "ProcedureRuntimeV2_graph_node rt gid = find (\<lambda>n. gn_graph_node_id n = gid) (rt_graph_nodes rt)"

definition item_declarations_v2 :: "ProcedureRuntimeV2 \<Rightarrow> GraphNodeId \<Rightarrow> ProcedureStateErrorV2 + ItemSpecV2 list" where
  "item_declarations_v2 rt node =
     rbind (rt_memory_model rt) (\<lambda>model. SnapshotMemoryModelV2_items model node)"

record ProcedureSnapshotV2 =
  snap_snapshot_id :: ProcedureSnapshotId
  snap_runtime :: ProcedureRuntimeV2
  snap_source :: ProcedureSourceLabelV1
  snap_created_at :: UnixMillis

definition ProcedureSnapshotV2_from_admitted_document ::
    "externals \<Rightarrow> ProcedureSnapshotId \<Rightarrow> CanonicalProcedureDocumentV2 \<Rightarrow> ProcedureSourceLabelV1 \<Rightarrow> UnixMillis \<Rightarrow>
     ProcedureStateErrorV2 + ProcedureSnapshotV2" where
  "ProcedureSnapshotV2_from_admitted_document ext sid doc source created_at =
     rbind (ProcedureRuntimeV2_from_admitted_document ext doc) (\<lambda>runtime.
       Inr \<lparr>snap_snapshot_id = sid, snap_runtime = runtime, snap_source = source, snap_created_at = created_at\<rparr>)"

definition ProcedureSnapshotV2_memory_model ::
    "ProcedureSnapshotV2 \<Rightarrow> ProcedureStateErrorV2 + SnapshotMemoryModelV2" where
  "ProcedureSnapshotV2_memory_model snap = rt_memory_model (snap_runtime snap)"

definition ProcedureSnapshotV2_graph_node :: "ProcedureSnapshotV2 \<Rightarrow> GraphNodeId \<Rightarrow> GraphNodeSnapshotV2 option" where
  "ProcedureSnapshotV2_graph_node snap gid = ProcedureRuntimeV2_graph_node (snap_runtime snap) gid"

end
