(* ===== verification/Item_Props.thy ===== *)
theory Item_Props
  imports Item_Specs Snapshot_Model
begin

text \<open>
  Properties of item declarations: three-valued conditions are Kleene conjunctions that only gain
  information as items are recorded, admission decomposes into the reported upper bounds and the
  remaining constraints, and every declaration the constructors accept can be satisfied.
\<close>

section \<open>Three-valued conditions\<close>

text \<open>Kleene's strong conjunction on the condition states.\<close>

fun kleene_and :: "ConditionStateV2 \<Rightarrow> ConditionStateV2 \<Rightarrow> ConditionStateV2" where
  "kleene_and Met s = s"
| "kleene_and Unmet s = Unmet"
| "kleene_and Unevaluable s = (if s = Unmet then Unmet else Unevaluable)"

definition kleene_all :: "ConditionStateV2 list \<Rightarrow> ConditionStateV2" where
  "kleene_all ss = foldr kleene_and ss Met"

lemma kleene_all_cases:
  "kleene_all ss = (if Unmet \<in> set ss then Unmet else if Unevaluable \<in> set ss then Unevaluable else Met)"
proof (induction ss)
  case (Cons s ss)
  then show ?case by (cases s) (auto simp: kleene_all_def)
qed (simp add: kleene_all_def)

lemma condition_status_kleene: "cs_state (condition_status ps) = kleene_all (map ps_state ps)"
proof -
  have "Unmet \<in> set (map ps_state ps) \<longleftrightarrow> (\<exists>s\<in>set ps. ps_state s = Unmet)"
    "Unevaluable \<in> set (map ps_state ps) \<longleftrightarrow> (\<exists>s\<in>set ps. ps_state s = Unevaluable)"
    by force+
  then show ?thesis by (simp only: condition_status_def kleene_all_cases ConditionStatusV2.select_convs)
qed

lemma kleene_all_Cons: "kleene_all (s # ss) = kleene_and s (kleene_all ss)"
  by (simp add: kleene_all_def)

lemma kleene_and_mono:
  assumes "kleene_and a b \<noteq> Unevaluable"
    and "a \<noteq> Unevaluable \<Longrightarrow> a' = a" and "b \<noteq> Unevaluable \<Longrightarrow> b' = b"
  shows "kleene_and a' b' = kleene_and a b"
  using assms by (cases a; cases b; cases a') auto

lemma kleene_all_mono:
  assumes "\<And>x. f x \<noteq> Unevaluable \<Longrightarrow> g x = f x"
  shows "kleene_all (map f xs) \<noteq> Unevaluable \<Longrightarrow> kleene_all (map g xs) = kleene_all (map f xs)"
proof (induction xs)
  case (Cons x xs)
  then show ?case
    unfolding list.map kleene_all_Cons by (intro kleene_and_mono) (auto intro: assms)
qed simp

text \<open>The information order: a value may become known, never change.\<close>

definition slots_extend :: "RecordedItemValueV2 option list \<Rightarrow> RecordedItemValueV2 option list \<Rightarrow> bool" where
  "slots_extend vs ws \<longleftrightarrow>
     length vs \<le> length ws \<and> (\<forall>i<length vs. vs ! i \<noteq> None \<longrightarrow> ws ! i = vs ! i)"

lemma slot_value_extend:
  "slots_extend vs ws \<Longrightarrow> slot_value items vs x = Some v \<Longrightarrow> slot_value items ws x = Some v"
  by (cases "position (\<lambda>item. ItemSpecV2_id item = x) items")
    (auto simp: slot_value_def slots_extend_def split: if_splits)

lemma predicate_state:
  "ps_state (ItemPredicateV2_evaluate p None) = Unevaluable"
  by (simp add: ItemPredicateV2_evaluate_def PredicateStatusV2_unevaluable_def)

lemma evaluate_extend:
  assumes "slots_extend vs ws"
    and "cs_state (ItemConditionV2_evaluate c (slot_value items vs)) \<noteq> Unevaluable"
  shows "cs_state (ItemConditionV2_evaluate c (slot_value items ws)) =
         cs_state (ItemConditionV2_evaluate c (slot_value items vs))"
proof -
  let ?s = "\<lambda>vs p. ps_state (ItemPredicateV2_evaluate p (slot_value items vs (ip_item p)))"
  have known: "?s vs p \<noteq> Unevaluable \<Longrightarrow> ?s ws p = ?s vs p" for p
    using slot_value_extend[OF assms(1), of items "ip_item p"]
    by (cases "slot_value items vs (ip_item p)") (auto simp: predicate_state)
  have "kleene_all (map (?s vs) (condition_predicates c)) \<noteq> Unevaluable \<Longrightarrow>
      kleene_all (map (?s ws) (condition_predicates c)) = kleene_all (map (?s vs) (condition_predicates c))"
    by (rule kleene_all_mono[OF known])
  with assms(2) show ?thesis
    by (simp add: ItemConditionV2_evaluate_def condition_status_kleene comp_def)
qed

text \<open>
  C32: a condition is the Kleene conjunction of its predicates, and its verdict is stable: once it is
  met or unmet, recording values in slots that were empty cannot change it. A predicate over a
  missing item is unevaluable, so a condition with a missing source never makes an item required.
\<close>

theorem condition_verdict_stable:
  assumes "slots_extend vs ws"
    and "ItemSpecV2_condition_status s items vs = Some st" and "cs_state st \<noteq> Unevaluable"
  shows "\<exists>st'. ItemSpecV2_condition_status s items ws = Some st' \<and> cs_state st' = cs_state st"
  using assms evaluate_extend[OF assms(1)]
  by (auto simp: ItemSpecV2_condition_status_def)

theorem condition_verdict_stable_witness:
  "\<exists>st'. ItemSpecV2_condition_status
       (SpecConfirm \<lparr>ic_id = ItemId [2], ic_prompt = [97], ic_help = None, ic_required = False,
          ic_required_when = Some (ItemConditionV2
            [\<lparr>ip_item = ItemId [1], ip_field_outcome = False, ip_operator = OpEquals (PsBoolean True)\<rparr>])\<rparr>)
       [SpecConfirm \<lparr>ic_id = ItemId [1], ic_prompt = [97], ic_help = None, ic_required = True,
          ic_required_when = None\<rparr>]
       [Some RvConfirm, Some RvConfirm] = Some st' \<and> cs_state st' = Met"
proof -
  let ?s = "SpecConfirm \<lparr>ic_id = ItemId [2], ic_prompt = [97], ic_help = None, ic_required = False,
          ic_required_when = Some (ItemConditionV2
            [\<lparr>ip_item = ItemId [1], ip_field_outcome = False, ip_operator = OpEquals (PsBoolean True)\<rparr>])\<rparr>"
  let ?items = "[SpecConfirm \<lparr>ic_id = ItemId [1], ic_prompt = [97], ic_help = None, ic_required = True,
          ic_required_when = None\<rparr>]"
  obtain st where st: "ItemSpecV2_condition_status ?s ?items [Some RvConfirm, None] = Some st"
    and met: "cs_state st = Met"
    by (simp add: ItemSpecV2_condition_status_def ItemConditionV2_evaluate_def condition_status_def
        slot_value_def ItemSpecV2_id_def ItemPredicateV2_evaluate_def operator_result_def scalar_value_def)
  have ext: "slots_extend [Some RvConfirm, None] [Some RvConfirm, Some RvConfirm]"
    by (auto simp: slots_extend_def less_Suc_eq)
  from met have "cs_state st \<noteq> Unevaluable" by simp
  from condition_verdict_stable[OF ext st this] met show ?thesis by simp
qed

section \<open>Admission and bound errors\<close>

text \<open>What a declaration asks of a value besides its upper bounds.\<close>

fun admits_below_bounds :: "ItemSpecV2 \<Rightarrow> RecordedItemValueV2 \<Rightarrow> bool" where
  "admits_below_bounds (SpecText s) value =
     is_some_and (as_text value) (\<lambda>v. unat (txt_min_length s) \<le> length (trim v))"
| "admits_below_bounds (SpecList s) value =
     is_some_and (as_list value) (\<lambda>vs. unat (lis_min_items s) \<le> length vs \<and> (lis_unique s \<longrightarrow> distinct vs))"
| "admits_below_bounds s value = admits_recorded_value s value"

lemma card_set_distinct: "card (set xs) = length xs \<longleftrightarrow> distinct xs"
  by (metis card_distinct distinct_card)

lemma find_length_None:
  "find (\<lambda>actual. actual > m) (map length vs) = None \<longleftrightarrow> (\<forall>v\<in>set vs. length v \<le> m)"
  by (auto simp: find_None_iff)

lemma list_admission:
  "admits_recorded_value (SpecList s) value \<longleftrightarrow>
     recorded_value_bound_error (SpecList s) value = None \<and> admits_below_bounds (SpecList s) value"
proof (cases "as_list value")
  case (Some vs)
  have "recorded_value_bound_error (SpecList s) value = None \<longleftrightarrow>
      length vs \<le> unat (lis_max_items s) \<and> (\<forall>v\<in>set vs. length v \<le> unat (lis_max_item_length s)) \<and>
      sum_list (map length vs) \<le> unat (lis_max_total_length s)"
    using Some find_length_None[of "unat (lis_max_item_length s)" vs]
    by (cases "find (\<lambda>actual. actual > unat (lis_max_item_length s)) (map length vs)") auto
  with Some show ?thesis by (auto simp: card_set_distinct)
qed simp

lemma text_admission:
  "admits_recorded_value (SpecText s) value \<longleftrightarrow>
     recorded_value_bound_error (SpecText s) value = None \<and> admits_below_bounds (SpecText s) value"
  by (cases "as_text value") (auto simp: not_less)

text \<open>
  C31: the bound check that runs before admission is exact: a value is admitted if and only if no
  bound error is reported and the declaration's remaining constraints hold, and every reported bound
  error names a measured size strictly above the declared maximum.
\<close>

theorem admission_splits_into_bounds:
  "(admits_recorded_value s v \<longleftrightarrow> recorded_value_bound_error s v = None \<and> admits_below_bounds s v) \<and>
   (\<forall>e. recorded_value_bound_error s v = Some e \<longrightarrow>
      (\<exists>field actual maximum unit. e = BoundExceeded field actual maximum unit \<and> maximum < actual))"
proof (rule conjI)
  show "admits_recorded_value s v \<longleftrightarrow> recorded_value_bound_error s v = None \<and> admits_below_bounds s v"
    using list_admission text_admission by (cases s) (simp_all del: admits_recorded_value.simps(2,5))
  show "\<forall>e. recorded_value_bound_error s v = Some e \<longrightarrow>
      (\<exists>field actual maximum unit. e = BoundExceeded field actual maximum unit \<and> maximum < actual)"
    by (cases s) (auto split: option.splits if_splits dest: find_SomeD)
qed

theorem admission_splits_into_bounds_witness:
  "\<exists>field actual maximum unit.
     recorded_value_bound_error
       (SpecText \<lparr>txt_common = \<lparr>ic_id = ItemId [1], ic_prompt = [97], ic_help = None, ic_required = True,
          ic_required_when = None\<rparr>, txt_min_length = 0, txt_max_length = 2, txt_multiline = False\<rparr>)
       (RvText [97, 98, 99]) = Some (BoundExceeded field actual maximum unit) \<and> maximum < actual"
proof -
  let ?s = "SpecText \<lparr>txt_common = \<lparr>ic_id = ItemId [1], ic_prompt = [97], ic_help = None, ic_required = True,
          ic_required_when = None\<rparr>, txt_min_length = 0, txt_max_length = 2, txt_multiline = False\<rparr>"
  have "\<not> admits_recorded_value ?s (RvText [97, 98, 99])"
    by (simp add: trim_def is_whitespace_def)
  moreover have "admits_below_bounds ?s (RvText [97, 98, 99])" by simp
  ultimately show ?thesis
    using admission_splits_into_bounds[of ?s "RvText [97, 98, 99]"] by (metis not_None_eq)
qed

section \<open>Satisfiability of declarations\<close>

text \<open>
  A declaration or value that the public constructors return, the identifiers and digests inside it
  included: a digest only exists in the form its constructor accepts.
\<close>

primrec digest_constructible :: "Sha256Digest \<Rightarrow> bool" where
  "digest_constructible (Sha256Digest s) = (Sha256Digest_new s = Inr (Sha256Digest s))"

primrec operation_constructible :: "OperationId \<Rightarrow> bool" where
  "operation_constructible (OperationId s) = (OperationId_new s = Inr (OperationId s))"

fun spec_constructible :: "ItemSpecV2 \<Rightarrow> bool" where
  "spec_constructible (SpecConfirm c) = True"
| "spec_constructible (SpecText s) =
     (TextItemSpecV2_new (txt_common s) (txt_min_length s) (txt_max_length s) (txt_multiline s) = Inr s)"
| "spec_constructible (SpecChoice s) = (ChoiceItemSpecV2_new (cho_common s) (cho_choices s) = Inr s)"
| "spec_constructible (SpecInteger s) =
     (IntegerItemSpecV2_new (int_common s) (int_minimum s) (int_maximum s) = Inr s)"
| "spec_constructible (SpecList s) =
     (ListItemSpecV2_new (lis_common s) (lis_min_items s) (lis_max_items s) (lis_max_item_length s)
        (lis_max_total_length s) (lis_unique s) = Inr s)"
| "spec_constructible (SpecArtifact s) =
     (ArtifactItemSpecV2_new (art_common s) (art_allowed_media_types s) = Inr s)"
| "spec_constructible (SpecCheckResult s) =
     (CheckResultItemSpecV2_new (chk_common s) (chk_operation_id s) (chk_operation_digest s)
        (chk_accepted_outcomes s) = Inr s \<and>
      operation_constructible (chk_operation_id s) \<and> digest_constructible (chk_operation_digest s))"

definition check_result_constructible :: "CheckResultValueV2 \<Rightarrow> bool" where
  "check_result_constructible v \<longleftrightarrow>
     CheckResultInputBasisV2_new (basis_descriptor (cr_input_basis v)) (basis_digest (cr_input_basis v)) =
       Inr (cr_input_basis v) \<and>
     CheckResultExecutorV2_new (executor_name (cr_executor v)) (executor_version (cr_executor v)) =
       Inr (cr_executor v) \<and>
     CheckResultValueV2_new (cr_operation_id v) (cr_operation_digest v) (cr_input_basis v) (cr_executor v)
       (cr_outcome v) (cr_summary v) (cr_output_digest v) = Inr v \<and>
     operation_constructible (cr_operation_id v) \<and> digest_constructible (cr_operation_digest v) \<and>
     digest_constructible (basis_digest (cr_input_basis v)) \<and> digest_constructible (cr_output_digest v)"

definition artifact_constructible :: "ArtifactValueV1 \<Rightarrow> bool" where
  "artifact_constructible v \<longleftrightarrow> digest_constructible (artifact_digest v) \<and>
     (case location_kind v of
        LocalPath \<Rightarrow>
          ArtifactValueV1_local_path (location v) (artifact_digest v) (size_bytes v) (artifact_media_type v)
      | ExternalReference \<Rightarrow>
          ArtifactValueV1_external_reference (location v) (artifact_digest v) (size_bytes v)
            (artifact_media_type v)) = Inr v"

fun value_constructible :: "RecordedItemValueV2 \<Rightarrow> bool" where
  "value_constructible RvConfirm = True"
| "value_constructible (RvText t) = (RecordedItemValueV2_text t = Inr (RvText t))"
| "value_constructible (RvChoice c) = (RecordedItemValueV2_choice c = Inr (RvChoice c))"
| "value_constructible (RvInteger n) = True"
| "value_constructible (RvList vs) = (RecordedItemValueV2_list vs = Inr (RvList vs))"
| "value_constructible (RvArtifact a) = artifact_constructible a"
| "value_constructible (RvCheckResult r) = check_result_constructible r"

lemma trim_no_space: "\<forall>c\<in>set s. \<not> is_whitespace c \<Longrightarrow> trim s = s"
proof -
  assume none: "\<forall>c\<in>set s. \<not> is_whitespace c"
  then have "dropWhile is_whitespace s = s" by (cases s) auto
  moreover have "dropWhile is_whitespace (rev s) = rev s"
  proof (cases "rev s")
    case (Cons c cs)
    then have "c \<in> set s" by (metis list.set_intros(1) set_rev)
    with none Cons show ?thesis by simp
  qed simp
  ultimately show ?thesis by (simp add: trim_def)
qed

lemma text_satisfiable:
  assumes "spec_constructible (SpecText s)"
  shows "\<exists>v. value_constructible v \<and> is_satisfied_by (SpecText s) v"
proof -
  from assms have "unat (txt_max_length s) \<le> MAX_TEXT_SCALARS_V2" "txt_min_length s \<le> txt_max_length s"
    by (auto simp: TextItemSpecV2_new_def split: if_splits)
  moreover have "trim (replicate n 97) = replicate n 97" for n
    by (rule trim_no_space) (simp add: is_whitespace_def)
  ultimately show ?thesis
    by (intro exI[of _ "RvText (replicate (unat (txt_min_length s)) 97)"])
      (simp add: RecordedItemValueV2_text_def word_le_nat_alt)
qed

lemma choice_satisfiable:
  assumes "spec_constructible (SpecChoice s)"
  shows "\<exists>v. value_constructible v \<and> is_satisfied_by (SpecChoice s) v"
proof -
  from assms obtain c cs where "cho_choices s = c # cs" "1 \<le> length c" "length c \<le> 120"
    by (cases "cho_choices s") (auto simp: ChoiceItemSpecV2_new_def split: if_splits)
  then show ?thesis
    by (intro exI[of _ "RvChoice c"]) (simp add: RecordedItemValueV2_choice_def)
qed

lemma integer_satisfiable:
  assumes "spec_constructible (SpecInteger s)"
  shows "\<exists>v. value_constructible v \<and> is_satisfied_by (SpecInteger s) v"
proof -
  from assms have le: "\<And>lo hi. int_minimum s = Some lo \<Longrightarrow> int_maximum s = Some hi \<Longrightarrow> sint lo \<le> sint hi"
    by (auto simp: IntegerItemSpecV2_new_def split: if_splits)
  define n where "n = (case int_minimum s of Some lo \<Rightarrow> lo | None \<Rightarrow>
      case int_maximum s of Some hi \<Rightarrow> hi | None \<Rightarrow> 0)"
  have "is_satisfied_by (SpecInteger s) (RvInteger n)"
    using le by (cases "int_minimum s"; cases "int_maximum s") (simp_all add: n_def)
  then show ?thesis by (intro exI[of _ "RvInteger n"]) simp
qed

definition scalar_words :: "nat \<Rightarrow> str list" where
  "scalar_words n = map (\<lambda>i. [19968 + i]) [0..<n]"

lemma scalar_words_facts:
  "length (scalar_words n) = n"
  "distinct (scalar_words n)"
  "v \<in> set (scalar_words n) \<Longrightarrow> length v = 1"
  "v \<in> set (scalar_words n) \<Longrightarrow> trim v \<noteq> []"
  "sum_list (map length (scalar_words n)) = n"
  by (auto simp: scalar_words_def distinct_map inj_on_def trim_eq_Nil is_whitespace_def comp_def sum_list_triv)

lemma list_satisfiable:
  assumes "spec_constructible (SpecList s)"
  shows "\<exists>v. value_constructible v \<and> is_satisfied_by (SpecList s) v"
proof -
  let ?n = "unat (lis_min_items s)"
  from assms have max: "unat (lis_max_items s) \<le> MAX_LIST_ENTRIES_V2" "lis_min_items s \<le> lis_max_items s"
    and one: "lis_max_item_length s \<noteq> 0" and total: "?n \<le> unat (lis_max_total_length s)"
    by (auto simp: ListItemSpecV2_new_def split: if_splits)
  from one have one: "1 \<le> unat (lis_max_item_length s)" by (simp add: Suc_le_eq unat_gt_0)
  from max have le: "?n \<le> unat (lis_max_items s)" by (simp add: word_le_nat_alt)
  have "RecordedItemValueV2_list (scalar_words ?n) = Inr (RvList (scalar_words ?n))"
    using max le scalar_words_facts
    by (auto simp: RecordedItemValueV2_list_def limits)
  moreover have "is_satisfied_by (SpecList s) (RvList (scalar_words ?n))"
    using le one total scalar_words_facts by (auto simp: card_set_distinct)
  ultimately show ?thesis by (intro exI[of _ "RvList (scalar_words ?n)"]) simp
qed

definition zero_digest :: Sha256Digest where
  "zero_digest = Sha256Digest (lit ''sha256:'' @ replicate 64 48)"

lemma zero_digest_constructible [simp]: "digest_constructible zero_digest"
proof -
  have "validate_sha256_digest (lit ''sha256:'' @ replicate 64 48) = Inr ()"
    unfolding validate_sha256_digest_grammar by (intro exI[of _ "replicate 64 48"]) (simp add: is_lower_hex_def ascii_classes)
  then show ?thesis by (simp add: zero_digest_def Sha256Digest_new_def)
qed

lemma artifact_satisfiable:
  assumes "spec_constructible (SpecArtifact s)"
  shows "\<exists>v. value_constructible v \<and> is_satisfied_by (SpecArtifact s) v"
proof -
  define m where "m = (case art_allowed_media_types s of [] \<Rightarrow> lit ''text/plain'' | t # _ \<Rightarrow> t)"
  have "validate_media_type (lit ''text/plain'') = Inr ()"
    by (simp add: validate_media_type_def lit_def byte_len_def is_media_token_def ascii_classes)
  with assms have m: "validate_media_type m = Inr ()"
    by (cases "art_allowed_media_types s") (auto simp: m_def ArtifactItemSpecV2_new_def split: if_splits)
  have "validate_safe_local_path (lit ''a'') = Inr ()"
    by (simp add: validate_safe_local_path_def lit_def byte_len_def is_control_def)
  with m show ?thesis
    by (intro exI[of _ "RvArtifact \<lparr>location_kind = LocalPath, location = lit ''a'',
          artifact_digest = zero_digest, size_bytes = 0, artifact_media_type = m\<rparr>"])
      (cases "art_allowed_media_types s"; simp add: artifact_constructible_def ArtifactValueV1_local_path_def
        ArtifactValueV1_new_def m_def)
qed

lemma check_result_satisfiable:
  assumes "spec_constructible (SpecCheckResult s)"
  shows "\<exists>v. value_constructible v \<and> is_satisfied_by (SpecCheckResult s) v"
proof -
  from assms obtain out outs where "chk_accepted_outcomes s = out # outs"
    by (cases "chk_accepted_outcomes s") (auto simp: CheckResultItemSpecV2_new_def)
  moreover have "trim (lit ''a'') \<noteq> []" "length (lit ''a'') = 1"
    by (simp_all add: lit_def trim_def is_whitespace_def)
  moreover from assms have "operation_constructible (chk_operation_id s)" "digest_constructible (chk_operation_digest s)"
    by simp_all
  ultimately show ?thesis
    by (intro exI[of _ "RvCheckResult \<lparr>cr_operation_id = chk_operation_id s,
          cr_operation_digest = chk_operation_digest s,
          cr_input_basis = \<lparr>basis_descriptor = lit ''a'', basis_digest = zero_digest\<rparr>,
          cr_executor = \<lparr>executor_name = lit ''a'', executor_version = lit ''a''\<rparr>,
          cr_outcome = out, cr_summary = lit ''a'', cr_output_digest = zero_digest\<rparr>"])
      (simp add: check_result_constructible_def CheckResultInputBasisV2_new_def CheckResultExecutorV2_new_def
        CheckResultValueV2_new_def unsatisfied_reason_def)
qed

text \<open>
  C30: no dead declarations. Whatever item declaration the constructors accept, some recorded value
  that the value constructors accept satisfies it; in particular the bounds of a list declaration
  (entry count, entry length, total content, uniqueness) never contradict each other.
\<close>

theorem item_spec_satisfiable:
  assumes "spec_constructible s"
  shows "\<exists>v. value_constructible v \<and> is_satisfied_by s v"
proof (cases s)
  case (SpecConfirm c)
  then show ?thesis by (intro exI[of _ RvConfirm]) simp
qed (use assms text_satisfiable choice_satisfiable integer_satisfiable list_satisfiable
      artifact_satisfiable check_result_satisfiable in metis)+

theorem item_spec_satisfiable_witness:
  "(\<exists>v. value_constructible v \<and> is_satisfied_by
     (SpecList \<lparr>lis_common = \<lparr>ic_id = ItemId [1], ic_prompt = [97], ic_help = None, ic_required = True,
        ic_required_when = None\<rparr>, lis_min_items = 3, lis_max_items = 4, lis_max_item_length = 1,
        lis_max_total_length = 3, lis_unique = True\<rparr>) v) \<and>
   (\<exists>v. value_constructible v \<and> is_satisfied_by
     (SpecCheckResult \<lparr>chk_common = \<lparr>ic_id = ItemId [1], ic_prompt = [97], ic_help = None, ic_required = True,
        ic_required_when = None\<rparr>, chk_operation_id = OperationId (lit ''op''), chk_operation_digest = zero_digest,
        chk_accepted_outcomes = [OutcomePass]\<rparr>) v)"
proof (intro conjI; rule item_spec_satisfiable)
  have "OperationId_new (lit ''op'') = Inr (OperationId (lit ''op''))" by code_simp
  then show "spec_constructible (SpecCheckResult \<lparr>chk_common = \<lparr>ic_id = ItemId [1], ic_prompt = [97], ic_help = None,
      ic_required = True, ic_required_when = None\<rparr>, chk_operation_id = OperationId (lit ''op''),
      chk_operation_digest = zero_digest, chk_accepted_outcomes = [OutcomePass]\<rparr>)"
    by (simp add: CheckResultItemSpecV2_new_def)
qed (simp add: ListItemSpecV2_new_def limits)

section \<open>The effective list ceiling\<close>

lemma unat_widen: "unat (ucast (w :: u16) :: u32) = unat w"
proof -
  have "unat w < 2 ^ 16" using unsigned_less[where 'a = nat, of w] by simp
  then have "unat w < 2 ^ 32" by simp
  then show ?thesis by (simp add: unsigned_ucast_eq take_bit_nat_eq_self_iff)
qed

text \<open>
  C33: the effective total ceiling of an accepted list declaration is the smaller of the declared
  total and the product of the entry ceilings, computed without saturation, and no admitted list
  value exceeds it.
\<close>

theorem effective_total_length_bounds:
  assumes "spec_constructible (SpecList s)"
  shows "unat (effective_total_length s) =
      min (unat (lis_max_items s) * unat (lis_max_item_length s)) (unat (lis_max_total_length s)) \<and>
    (\<forall>vs. admits_recorded_value (SpecList s) (RvList vs) \<longrightarrow>
       sum_list (map length vs) \<le> unat (effective_total_length s))"
proof -
  let ?p = "unat (lis_max_items s) * unat (lis_max_item_length s)"
  from assms have "unat (lis_max_items s) \<le> 1000" "unat (lis_max_item_length s) \<le> 8192"
    by (auto simp: ListItemSpecV2_new_def limits split: if_splits)
  then have p: "?p \<le> 1000 * 8192" by (rule mult_le_mono)
  have "unat (saturating_mul32 (ucast (lis_max_items s)) (ucast (lis_max_item_length s))) = ?p"
    using p by (simp add: unat_saturating_mul32 unat_widen)
  then have eff: "unat (effective_total_length s) = min ?p (unat (lis_max_total_length s))"
    by (simp add: effective_total_length_def Let_def word_less_nat_alt min_def)
  have "sum_list (map length vs) \<le> ?p" if "admits_recorded_value (SpecList s) (RvList vs)" for vs
  proof -
    from that have "\<forall>v\<in>set vs. length v \<le> unat (lis_max_item_length s)"
      and len: "length vs \<le> unat (lis_max_items s)" by auto
    then have "sum_list (map length vs) \<le> length vs * unat (lis_max_item_length s)"
      by (induction vs) auto
    also have "\<dots> \<le> ?p" using len by (rule mult_le_mono1)
    finally show ?thesis .
  qed
  with eff show ?thesis by auto
qed

theorem effective_total_length_bounds_witness:
  "unat (effective_total_length \<lparr>lis_common = \<lparr>ic_id = ItemId [1], ic_prompt = [97], ic_help = None,
      ic_required = True, ic_required_when = None\<rparr>, lis_min_items = 0, lis_max_items = 4,
      lis_max_item_length = 10, lis_max_total_length = 100, lis_unique = False\<rparr>) = 40"
proof -
  let ?s = "\<lparr>lis_common = \<lparr>ic_id = ItemId [1], ic_prompt = [97], ic_help = None,
      ic_required = True, ic_required_when = None\<rparr>, lis_min_items = 0, lis_max_items = 4,
      lis_max_item_length = 10, lis_max_total_length = 100, lis_unique = False\<rparr>"
  have "spec_constructible (SpecList ?s)" by (simp add: ListItemSpecV2_new_def limits)
  from effective_total_length_bounds[OF this] show ?thesis by simp
qed

end
