(* ===== verification/Node_Set.thy ===== *)
theory Node_Set
  imports Procedure_Model
begin

text \<open>
  The fixed-size bit set of \<open>procedure_v2_graph.rs\<close>: sixteen 64-bit words covering the 1024 node
  indices of a procedure graph. The lemmas show that it is a set of indices: insertion,
  intersection and membership are the set operations, and two sets are equal exactly when they have
  the same members.
\<close>

unbundle bit_operations_syntax

definition NODE_SET_WORDS :: nat where
  "NODE_SET_WORDS = 16"  \<comment> \<open>\<open>1024.div_ceil(64)\<close>\<close>

datatype NodeSet = NodeSet (node_words: "u64 list")

definition NodeSet_empty :: NodeSet where
  "NodeSet_empty = NodeSet (replicate NODE_SET_WORDS 0)"

definition NodeSet_insert :: "nat \<Rightarrow> NodeSet \<Rightarrow> NodeSet" where
  "NodeSet_insert node s =
     (if node < MAX_GRAPH_NODES_PER_PROCEDURE_V2
      then NodeSet ((node_words s)[node div 64 := node_words s ! (node div 64) OR push_bit (node mod 64) 1])
      else s)"

definition NodeSet_intersect :: "NodeSet \<Rightarrow> NodeSet \<Rightarrow> NodeSet" where
  "NodeSet_intersect s other = NodeSet (map2 (AND) (node_words s) (node_words other))"

definition NodeSet_contains :: "NodeSet \<Rightarrow> nat \<Rightarrow> bool" where
  "NodeSet_contains s node \<longleftrightarrow>
     node < MAX_GRAPH_NODES_PER_PROCEDURE_V2 \<and>
     (node_words s ! (node div 64)) AND push_bit (node mod 64) 1 \<noteq> 0"

section \<open>The bit set is a set\<close>

definition nset_wf :: "NodeSet \<Rightarrow> bool" where
  "nset_wf s \<longleftrightarrow> length (node_words s) = NODE_SET_WORDS"

definition nset :: "NodeSet \<Rightarrow> nat set" where
  "nset s = {n. NodeSet_contains s n}"

lemma contains_bit:
  "NodeSet_contains s node \<longleftrightarrow> node < 1024 \<and> bit (node_words s ! (node div 64)) (node mod 64)"
  by (simp add: NodeSet_contains_def MAX_GRAPH_NODES_PER_PROCEDURE_V2_def and_exp_eq_0_iff_not_bit)

lemma nset_iff: "n \<in> nset s \<longleftrightarrow> NodeSet_contains s n"
  by (simp add: nset_def)

lemma nset_wf_simps [simp, wf_intros]:
  "nset_wf NodeSet_empty"
  "nset_wf s \<Longrightarrow> nset_wf (NodeSet_insert n s)"
  "nset_wf s \<Longrightarrow> nset_wf t \<Longrightarrow> nset_wf (NodeSet_intersect s t)"
  by (simp_all add: nset_wf_def NodeSet_empty_def NodeSet_insert_def NodeSet_intersect_def)

lemma nset_bound: "nset s \<subseteq> {..<1024}"
  by (auto simp: nset_iff contains_bit)

lemma nset_empty [simp]: "nset NodeSet_empty = {}"
proof -
  have "(n :: nat) < 1024 \<Longrightarrow> n div 64 < 16" for n by simp
  then show ?thesis by (auto simp: nset_iff contains_bit NodeSet_empty_def NODE_SET_WORDS_def)
qed

lemma insert_contains:
  assumes "nset_wf s" and "m < 1024"
  shows "NodeSet_contains (NodeSet_insert m s) n \<longleftrightarrow> n = m \<or> NodeSet_contains s n"
proof (cases "n div 64 = m div 64")
  case True
  have len: "m div 64 < length (node_words s)" using assms by (simp add: nset_wf_def NODE_SET_WORDS_def)
  have pos: "possible_bit TYPE(64 word) (n mod 64)" by simp
  have "n = m \<longleftrightarrow> n mod 64 = m mod 64" using True by (metis div_mult_mod_eq)
  with True len assms pos show ?thesis
    by (auto simp: contains_bit NodeSet_insert_def MAX_GRAPH_NODES_PER_PROCEDURE_V2_def bit_or_iff bit_exp_iff)
next
  case False
  with assms(2) show ?thesis
    by (auto simp: contains_bit NodeSet_insert_def MAX_GRAPH_NODES_PER_PROCEDURE_V2_def)
qed

lemma nset_insert [simp]: "nset_wf s \<Longrightarrow> m < 1024 \<Longrightarrow> nset (NodeSet_insert m s) = insert m (nset s)"
  by (auto simp: nset_iff insert_contains)

lemma nset_intersect [simp]:
  assumes "nset_wf s" and "nset_wf t"
  shows "nset (NodeSet_intersect s t) = nset s \<inter> nset t"
proof -
  have "n < 1024 \<Longrightarrow> n div 64 < 16" for n :: nat by simp
  with assms show ?thesis
    by (auto simp: nset_iff contains_bit NodeSet_intersect_def nset_wf_def NODE_SET_WORDS_def bit_and_iff)
qed

lemma nset_eq_iff:
  assumes "nset_wf s" and "nset_wf t"
  shows "s = t \<longleftrightarrow> nset s = nset t"
proof
  assume same: "nset s = nset t"
  have "node_words s = node_words t"
  proof (rule nth_equalityI)
    show "length (node_words s) = length (node_words t)" using assms by (simp add: nset_wf_def)
    fix i assume "i < length (node_words s)"
    with assms(1) have i: "i < 16" by (simp add: nset_wf_def NODE_SET_WORDS_def)
    show "node_words s ! i = node_words t ! i"
    proof (rule bit_word_eqI)
      fix k assume "k < LENGTH(64)"
      then have k: "k < 64" by simp
      have "(64 * i + k) div 64 = i" "(64 * i + k) mod 64 = k" "64 * i + k < 1024" using i k by auto
      moreover have "64 * i + k \<in> nset s \<longleftrightarrow> 64 * i + k \<in> nset t" using same by simp
      ultimately show "bit (node_words s ! i) k = bit (node_words t ! i) k"
        by (simp add: nset_iff contains_bit)
    qed
  qed
  then show "s = t" by (simp add: NodeSet.expand)
qed simp

end
