(* ===== verification/Graph_Index.thy ===== *)
theory Graph_Index
  imports Node_Set
begin

text \<open>
  The graph analyses of \<open>procedure_v2_graph.rs\<close>: the dense author-ordered index of a procedure
  graph and, over it, breadth-first distances, reachability, terminal reachability, the
  assessment-free-to-terminal set, iterative dominators, depth-first finish orders and strongly
  connected components. A \<open>while let\<close> loop over a work list is a \<open>partial_function\<close> into
  \<open>option\<close>, so that not returning is \<open>None\<close>; that every loop returns is proved, not assumed.
\<close>

section \<open>The index\<close>

record Successor =
  sc_target :: nat
  sc_effect :: "TransitionEffectV2 option"

record GraphIndex =
  gi_placements :: "GraphPlacementV2 list"
  gi_index_by_id :: "GraphNodeId \<rightharpoonup> nat"
  gi_successors :: "Successor list list"
  gi_predecessors :: "nat list list"
  gi_entry :: nat

definition index_placements :: "GraphPlacementV2 list \<Rightarrow> GraphNodeId \<rightharpoonup> nat" where
  "index_placements placements =
     foldl (\<lambda>m (i, p). m(GraphPlacementV2_id p \<mapsto> i)) Map.empty (enumerate 0 placements)"

definition placement_successors :: "(GraphNodeId \<rightharpoonup> nat) \<Rightarrow> GraphPlacementV2 \<Rightarrow> Successor list" where
  "placement_successors index_by_id placement =
     (case placement of
        PlaceAction action \<Rightarrow>
          (case ap_outcome action of
             OutcomeNext target \<Rightarrow>
               (case index_by_id target of
                  None \<Rightarrow> [] | Some i \<Rightarrow> [\<lparr>sc_target = i, sc_effect = None\<rparr>])
           | OutcomeTerminal \<Rightarrow> [])
      | PlaceDecision decision \<Rightarrow>
          List.map_filter (\<lambda>entry.
            map_option (\<lambda>i. \<lparr>sc_target = i, sc_effect = Some (route_effect (entry_route entry))\<rparr>)
              (index_by_id (route_to (entry_route entry)))) (route_entries (dp_routes decision)))"

definition add_predecessor :: "nat \<Rightarrow> nat list list \<Rightarrow> Successor \<Rightarrow> nat list list" where
  "add_predecessor source predecessors edge =
     (if sc_target edge < length predecessors
      then predecessors[sc_target edge := predecessors ! sc_target edge @ [source]] else predecessors)"

definition index_predecessors :: "nat \<Rightarrow> Successor list list \<Rightarrow> nat list list" where
  "index_predecessors count successors =
     foldl (\<lambda>preds (source, edges). foldl (add_predecessor source) preds edges)
       (replicate count []) (enumerate 0 successors)"

definition GraphIndex_new :: "ProcedureGraphV2 \<Rightarrow> GraphIndex" where
  "GraphIndex_new graph =
     (let placements = pg_placements graph;
          index_by_id = index_placements placements;
          successors = map (placement_successors index_by_id) placements
      in \<lparr>gi_placements = placements, gi_index_by_id = index_by_id, gi_successors = successors,
          gi_predecessors = index_predecessors (length placements) successors,
          gi_entry = (case index_by_id (pg_entry graph) of Some i \<Rightarrow> i | None \<Rightarrow> 0)\<rparr>)"

definition GraphIndex_node_count :: "GraphIndex \<Rightarrow> nat" where
  "GraphIndex_node_count g = length (gi_placements g)"

definition index_of :: "GraphIndex \<Rightarrow> GraphNodeId \<Rightarrow> nat option" where
  "index_of g gid = gi_index_by_id g gid"

text \<open>\<open>slice.get(node)\<close> with an empty slice as the default.\<close>

definition nth_or_nil :: "'a list list \<Rightarrow> nat \<Rightarrow> 'a list" where
  "nth_or_nil xs i = (if i < length xs then xs ! i else [])"

definition index_placement :: "GraphIndex \<Rightarrow> nat \<Rightarrow> GraphPlacementV2 option" where
  "index_placement g node = nth_opt (gi_placements g) node"

definition successors :: "GraphIndex \<Rightarrow> nat \<Rightarrow> Successor list" where
  "successors g node = nth_or_nil (gi_successors g) node"

definition is_terminal :: "GraphIndex \<Rightarrow> nat \<Rightarrow> bool" where
  "is_terminal g node =
     (case nth_opt (gi_placements g) node of
        Some (PlaceAction action) \<Rightarrow> ap_outcome action = OutcomeTerminal
      | _ \<Rightarrow> False)"

section \<open>Breadth-first distances and reachability\<close>

definition saturating_succ32 :: "u32 \<Rightarrow> u32" where
  "saturating_succ32 w = (if w = - 1 then - 1 else w + 1)"

definition next_distance :: "u32 option list \<Rightarrow> nat \<Rightarrow> u32" where
  "next_distance distances current =
     saturating_succ32 (case distances ! current of Some d \<Rightarrow> d | None \<Rightarrow> 0)"

definition visit_distance ::
    "u32 \<Rightarrow> u32 option list \<times> nat list \<Rightarrow> nat \<Rightarrow> u32 option list \<times> nat list" where
  "visit_distance distance = (\<lambda>(distances, frontier) target.
     if target < length distances \<and> distances ! target = None
     then (distances[target := Some distance], frontier @ [target])
     else (distances, frontier))"

partial_function (option) distances_loop ::
    "GraphIndex \<Rightarrow> u32 option list \<times> nat list \<Rightarrow> u32 option list option" where
  [code]: "distances_loop g st =
     (case st of (distances, frontier) \<Rightarrow>
       (case frontier of
          [] \<Rightarrow> Some distances
        | current # rest \<Rightarrow>
            distances_loop g
              (foldl (visit_distance (next_distance distances current)) (distances, rest)
                 (map sc_target (successors g current)))))"

definition distances_from :: "GraphIndex \<Rightarrow> nat \<Rightarrow> u32 option list option" where
  "distances_from g node =
     (let distances = replicate (GraphIndex_node_count g) None in
      if node \<ge> GraphIndex_node_count g then Some distances
      else distances_loop g (distances[node := Some 0], [node]))"

definition reachable_from :: "GraphIndex \<Rightarrow> nat \<Rightarrow> NodeSet option" where
  "reachable_from g node =
     map_option (\<lambda>distances.
       foldl (\<lambda>s (i, d). if d \<noteq> None then NodeSet_insert i s else s) NodeSet_empty (enumerate 0 distances))
       (distances_from g node)"

section \<open>Reverse walks from the terminal actions\<close>

definition visit_predecessor ::
    "(nat \<Rightarrow> bool) \<Rightarrow> NodeSet \<times> nat list \<Rightarrow> nat \<Rightarrow> NodeSet \<times> nat list" where
  "visit_predecessor blocked = (\<lambda>(seen, frontier) p.
     if \<not> NodeSet_contains seen p \<and> \<not> blocked p then (NodeSet_insert p seen, frontier @ [p])
     else (seen, frontier))"

partial_function (option) reverse_walk ::
    "GraphIndex \<Rightarrow> (nat \<Rightarrow> bool) \<Rightarrow> NodeSet \<times> nat list \<Rightarrow> NodeSet option" where
  [code]: "reverse_walk g blocked st =
     (case st of (seen, frontier) \<Rightarrow>
       (case frontier of
          [] \<Rightarrow> Some seen
        | current # rest \<Rightarrow>
            reverse_walk g blocked
              (foldl (visit_predecessor blocked) (seen, rest) (nth_or_nil (gi_predecessors g) current))))"

definition walk_seeds :: "GraphIndex \<Rightarrow> (nat \<Rightarrow> bool) \<Rightarrow> NodeSet \<times> nat list" where
  "walk_seeds g seed =
     foldl (\<lambda>(seen, frontier) node.
         if seed node then (NodeSet_insert node seen, frontier @ [node]) else (seen, frontier))
       (NodeSet_empty, []) [0..<GraphIndex_node_count g]"

definition terminal_reachable_nodes :: "GraphIndex \<Rightarrow> NodeSet option" where
  "terminal_reachable_nodes g =
     reverse_walk g (\<lambda>_. False) (walk_seeds g (is_terminal g))"

definition assessment_free_to_terminal :: "GraphIndex \<Rightarrow> (nat \<Rightarrow> bool) \<Rightarrow> NodeSet option" where
  "assessment_free_to_terminal g is_assessment =
     reverse_walk g is_assessment (walk_seeds g (\<lambda>node. is_terminal g node \<and> \<not> is_assessment node))"

section \<open>Depth-first finish order\<close>

definition edge_included :: "bool \<Rightarrow> Successor \<Rightarrow> bool" where
  "edge_included include_rework edge \<longleftrightarrow> include_rework \<or> sc_effect edge \<noteq> Some EffectRework"

text \<open>The inner loop: the next included edge at or after the position, and the position after it.\<close>

fun next_edge_target :: "bool \<Rightarrow> Successor list \<Rightarrow> nat \<Rightarrow> nat option \<times> nat" where
  "next_edge_target include_rework [] next_edge = (None, next_edge)"
| "next_edge_target include_rework (edge # edges) next_edge =
     (if edge_included include_rework edge then (Some (sc_target edge), Suc next_edge)
      else next_edge_target include_rework edges (Suc next_edge))"

text \<open>The stack grows at its end in the code; here its top is the head of the list.\<close>

partial_function (option) dfs_loop ::
    "GraphIndex \<Rightarrow> bool \<Rightarrow> bool list \<times> nat list \<times> (nat \<times> nat) list \<Rightarrow> (bool list \<times> nat list) option" where
  [code]: "dfs_loop g include_rework st =
     (case st of (visited, finish_order, stack) \<Rightarrow>
       (case stack of
          [] \<Rightarrow> Some (visited, finish_order)
        | frame # rest \<Rightarrow>
            (case frame of (node, next_edge) \<Rightarrow>
              (case next_edge_target include_rework (drop next_edge (successors g node)) next_edge of
                 (target, next_edge') \<Rightarrow>
                   (case target of
                      Some target \<Rightarrow>
                        if \<not> visited ! target
                        then dfs_loop g include_rework
                               (visited[target := True], finish_order, (target, 0) # (node, next_edge') # rest)
                        else dfs_loop g include_rework (visited, finish_order, (node, next_edge') # rest)
                    | None \<Rightarrow> dfs_loop g include_rework (visited, finish_order @ [node], rest))))))"

definition depth_first_finish_order_with_visited ::
    "GraphIndex \<Rightarrow> nat \<Rightarrow> bool \<Rightarrow> bool list \<Rightarrow> (bool list \<times> nat list) option" where
  "depth_first_finish_order_with_visited g start include_rework visited =
     (if start \<ge> GraphIndex_node_count g \<or> visited ! start then Some (visited, [])
      else dfs_loop g include_rework (visited[start := True], [], [(start, 0)]))"

definition depth_first_finish_order :: "GraphIndex \<Rightarrow> nat \<Rightarrow> bool \<Rightarrow> nat list option" where
  "depth_first_finish_order g start include_rework =
     map_option snd
       (depth_first_finish_order_with_visited g start include_rework (replicate (GraphIndex_node_count g) False))"

section \<open>Dominators\<close>

definition dominator_update ::
    "GraphIndex \<Rightarrow> NodeSet \<Rightarrow> NodeSet list \<times> bool \<Rightarrow> nat \<Rightarrow> NodeSet list \<times> bool" where
  "dominator_update g reachable = (\<lambda>(dominators, changed) node.
     if node = gi_entry g \<or> \<not> NodeSet_contains reachable node then (dominators, changed)
     else case filter (NodeSet_contains reachable) (nth_or_nil (gi_predecessors g) node) of
       [] \<Rightarrow> (dominators, changed)
     | first # incoming \<Rightarrow>
         let next = NodeSet_insert node
               (foldl (\<lambda>s p. NodeSet_intersect s (dominators ! p)) (dominators ! first) incoming)
         in if next \<noteq> dominators ! node then (dominators[node := next], True)
            else (dominators, changed))"

fun dominator_passes ::
    "GraphIndex \<Rightarrow> NodeSet \<Rightarrow> nat list \<Rightarrow> nat \<Rightarrow> NodeSet list \<Rightarrow> NodeSet list" where
  "dominator_passes g reachable traversal 0 dominators = dominators"
| "dominator_passes g reachable traversal (Suc passes) dominators =
     (case foldl (dominator_update g reachable) (dominators, False) traversal of
        (dominators', changed) \<Rightarrow>
          if changed then dominator_passes g reachable traversal passes dominators' else dominators')"

definition dominators :: "GraphIndex \<Rightarrow> NodeSet list option" where
  "dominators g =
     (case reachable_from g (gi_entry g) of
        None \<Rightarrow> None
      | Some reachable \<Rightarrow>
          let count = GraphIndex_node_count g;
              all_reachable = foldl (\<lambda>s node. if NodeSet_contains reachable node then NodeSet_insert node s else s)
                NodeSet_empty [0..<count];
              initial = map (\<lambda>node.
                if node = gi_entry g then NodeSet_insert node NodeSet_empty
                else if NodeSet_contains reachable node then all_reachable
                else NodeSet_empty) [0..<count]
          in map_option (\<lambda>order. dominator_passes g reachable (rev order) (Suc count) initial)
               (depth_first_finish_order g (gi_entry g) True))"

definition dominates :: "NodeSet list \<Rightarrow> nat \<Rightarrow> nat \<Rightarrow> bool" where
  "dominates doms candidate node \<longleftrightarrow>
     is_some_and (nth_opt doms node) (\<lambda>s. NodeSet_contains s candidate)"

definition strictly_dominates :: "NodeSet list \<Rightarrow> nat \<Rightarrow> nat \<Rightarrow> bool" where
  "strictly_dominates doms candidate node \<longleftrightarrow> candidate \<noteq> node \<and> dominates doms candidate node"

section \<open>Strongly connected components\<close>

text \<open>The finish order of the whole graph, one search per node that is still unvisited.\<close>

fun finish_orders :: "GraphIndex \<Rightarrow> bool \<Rightarrow> nat list \<Rightarrow> bool list \<Rightarrow> nat list \<Rightarrow> nat list option" where
  "finish_orders g include_rework [] visited finish_order = Some finish_order"
| "finish_orders g include_rework (node # nodes) visited finish_order =
     (if visited ! node then finish_orders g include_rework nodes visited finish_order
      else case depth_first_finish_order_with_visited g node include_rework visited of
        None \<Rightarrow> None
      | Some (visited', order) \<Rightarrow> finish_orders g include_rework nodes visited' (finish_order @ order))"

definition reverse_edges :: "GraphIndex \<Rightarrow> bool \<Rightarrow> nat list list" where
  "reverse_edges g include_rework =
     foldl (\<lambda>reverse source.
         foldl (\<lambda>r edge.
             if edge_included include_rework edge
             then r[sc_target edge := r ! sc_target edge @ [source]] else r) reverse (successors g source))
       (replicate (GraphIndex_node_count g) []) [0..<GraphIndex_node_count g]"

definition visit_component :: "bool list \<times> nat list \<Rightarrow> nat \<Rightarrow> bool list \<times> nat list" where
  "visit_component = (\<lambda>(assigned, stack) p.
     if \<not> assigned ! p then (assigned[p := True], p # stack) else (assigned, stack))"

partial_function (option) component_loop ::
    "nat list list \<Rightarrow> bool list \<times> nat list \<times> nat list \<Rightarrow> (bool list \<times> nat list) option" where
  [code]: "component_loop reverse st =
     (case st of (assigned, component, stack) \<Rightarrow>
       (case stack of
          [] \<Rightarrow> Some (assigned, component)
        | node # rest \<Rightarrow>
            (case foldl visit_component (assigned, rest) (rev (reverse ! node)) of
               (assigned', stack') \<Rightarrow> component_loop reverse (assigned', component @ [node], stack'))))"

fun collect_components ::
    "nat list list \<Rightarrow> bool list \<Rightarrow> nat list list \<Rightarrow> nat list \<Rightarrow> nat list list option" where
  "collect_components reverse assigned components [] = Some components"
| "collect_components reverse assigned components (start # starts) =
     (if assigned ! start then collect_components reverse assigned components starts
      else case component_loop reverse (assigned[start := True], [], [start]) of
        None \<Rightarrow> None
      | Some (assigned', component) \<Rightarrow>
          collect_components reverse assigned' (components @ [component]) starts)"

text \<open>\<open>component.first().copied().unwrap_or(usize::MAX)\<close>\<close>

definition component_key :: "nat list \<Rightarrow> nat" where
  "component_key c = (case c of [] \<Rightarrow> 2 ^ 64 - 1 | first # _ \<Rightarrow> first)"

definition components :: "GraphIndex \<Rightarrow> bool \<Rightarrow> nat list list option" where
  "components g include_rework =
     (let count = GraphIndex_node_count g in
      case finish_orders g include_rework [0..<count] (replicate count False) [] of
        None \<Rightarrow> None
      | Some finish_order \<Rightarrow>
          map_option (\<lambda>cs. sort_key component_key (map sort cs))
            (collect_components (reverse_edges g include_rework) (replicate count False) []
               (rev finish_order)))"

definition strongly_connected_components :: "GraphIndex \<Rightarrow> nat list list option" where
  "strongly_connected_components g = components g True"

definition cyclic_component_count :: "GraphIndex \<Rightarrow> nat option" where
  "cyclic_component_count g =
     map_option (\<lambda>cs. length (filter (\<lambda>component.
       length component > 1 \<or>
       (case component of [] \<Rightarrow> False | node # _ \<Rightarrow>
          \<exists>edge\<in>set (successors g node). sc_target edge = node)) cs))
       (strongly_connected_components g)"

definition advance_only_cycles :: "GraphIndex \<Rightarrow> nat list list option" where
  "advance_only_cycles g =
     map_option (filter (\<lambda>component.
       length component > 1 \<or>
       (case component of [] \<Rightarrow> False | node # _ \<Rightarrow>
          \<exists>edge\<in>set (successors g node).
            sc_target edge = node \<and> sc_effect edge \<noteq> Some EffectRework)))
       (components g False)"

section \<open>Goal-revision safe targets\<close>

datatype ParsedNodeDefinition = ParsedAction ActionDefinitionV2 | ParsedDecision DecisionDefinitionV2

record ParsedProcedureV2 =
  pp_id :: str
  pp_version :: str
  pp_name :: str
  pp_purpose :: str
  pp_description :: "str option"
  pp_goal_tracking :: "GoalTrackingOptIn option"
  pp_node_definitions :: "ParsedNodeDefinition list"
  pp_graph :: ProcedureGraphV2

fun ParsedNodeDefinition_id :: "ParsedNodeDefinition \<Rightarrow> NodeDefinitionId" where
  "ParsedNodeDefinition_id (ParsedAction d) = ad_id d"
| "ParsedNodeDefinition_id (ParsedDecision d) = dd_id d"

definition assessment_definitions :: "ParsedProcedureV2 \<Rightarrow> NodeDefinitionId list" where
  "assessment_definitions procedure =
     List.map_filter (\<lambda>d. case d of
         ParsedDecision d \<Rightarrow> if dd_assessment d \<noteq> None then Some (dd_id d) else None
       | ParsedAction _ \<Rightarrow> None) (pp_node_definitions procedure)"

definition goal_revision_safe_targets_v2 :: "ParsedProcedureV2 \<Rightarrow> GraphNodeId list option" where
  "goal_revision_safe_targets_v2 procedure =
     (let g = GraphIndex_new (pp_graph procedure);
          defs = assessment_definitions procedure
      in map_option (\<lambda>unsafe.
           map (\<lambda>(_, p). GraphPlacementV2_id p)
             (filter (\<lambda>(i, _). \<not> NodeSet_contains unsafe i) (enumerate 0 (pg_placements (pp_graph procedure)))))
           (assessment_free_to_terminal g (\<lambda>i.
              case index_placement g i of
                Some (PlaceDecision p) \<Rightarrow> dp_definition p \<in> set defs
              | _ \<Rightarrow> False)))"

end
