(* ===== verification/Frontier_Search.thy ===== *)
theory Frontier_Search
  imports Podway_Prelude
begin

text \<open>
  The contract of a work-list search: a loop that pops a node, marks and pushes its unmarked and
  unblocked neighbours, and stops when the work list is empty. Every such loop over a finite node
  set returns, and then exactly the nodes reachable from the marked ones are marked. The order in
  which the work list is kept (queue or stack) and the representation of the marks are parameters.
\<close>

locale frontier_search =
  fixes N :: "nat set"
    and nbrs :: "nat \<Rightarrow> nat list"
    and blocked :: "nat \<Rightarrow> bool"
    and inv :: "'s \<Rightarrow> bool"
    and seen :: "'s \<Rightarrow> nat set"
    and pop :: "nat \<Rightarrow> 's \<Rightarrow> 's"
    and visit :: "'s \<Rightarrow> nat \<Rightarrow> 's \<times> nat list \<Rightarrow> nat \<Rightarrow> 's \<times> nat list"
    and loop :: "'s \<times> nat list \<Rightarrow> 's option"
  assumes finite_nodes: "finite N"
    and nbrs_nodes: "x \<in> N \<Longrightarrow> set (nbrs x) \<subseteq> N"
    and seen_nodes: "inv s \<Longrightarrow> seen s \<subseteq> N"
    and pop_inv: "inv s \<Longrightarrow> inv (pop x s) \<and> seen (pop x s) = seen s"
    and visit_old: "inv s \<Longrightarrow> y \<in> N \<Longrightarrow> y \<in> seen s \<or> blocked y \<Longrightarrow> visit s0 x (s, q) y = (s, q)"
    and visit_new: "inv s \<Longrightarrow> y \<in> N \<Longrightarrow> y \<notin> seen s \<Longrightarrow> \<not> blocked y \<Longrightarrow>
      \<exists>s' q'. visit s0 x (s, q) y = (s', q') \<and> inv s' \<and> seen s' = insert y (seen s) \<and>
        set q' = insert y (set q) \<and> length q' = Suc (length q)"
    and loop_nil: "loop (s, []) = Some s"
    and loop_cons: "inv s \<Longrightarrow> x \<in> N \<Longrightarrow>
      loop (s, x # q) = loop (foldl (visit s x) (pop x s, q) (nbrs x))"
begin

definition edges :: "(nat \<times> nat) set" where
  "edges = {(x, y). x \<in> N \<and> y \<in> set (nbrs x) \<and> \<not> blocked y}"

definition weight :: "'s \<times> nat list \<Rightarrow> nat" where
  "weight st = 2 * card (N - seen (fst st)) + length (snd st)"

lemma visit_all:
  assumes "inv s" and "set ys \<subseteq> N"
  shows "\<exists>s' q'. foldl (visit s0 x) (s, q) ys = (s', q') \<and> inv s' \<and>
    seen s' = seen s \<union> {y \<in> set ys. \<not> blocked y} \<and> set q' = set q \<union> (seen s' - seen s) \<and>
    weight (s', q') \<le> weight (s, q)"
  using assms
proof (induction ys arbitrary: s q)
  case (Cons y ys)
  then have y: "y \<in> N" and ys: "set ys \<subseteq> N" by auto
  show ?case
  proof (cases "y \<in> seen s \<or> blocked y")
    case True
    with visit_old[OF Cons.prems(1) y True] Cons.IH[OF Cons.prems(1) ys, of q] show ?thesis by auto
  next
    case False
    then obtain s1 q1 where v: "visit s0 x (s, q) y = (s1, q1)" and s1: "inv s1" "seen s1 = insert y (seen s)"
      and q1: "set q1 = insert y (set q)" "length q1 = Suc (length q)"
      using visit_new[OF Cons.prems(1) y, of s0 x q] by blast
    have "N - seen s = insert y (N - seen s1)" "y \<notin> N - seen s1" using False y s1(2) by auto
    then have "card (N - seen s) = Suc (card (N - seen s1))" using finite_nodes by simp
    then have w: "weight (s1, q1) \<le> weight (s, q)" using q1(2) by (simp add: weight_def)
    from Cons.IH[OF s1(1) ys, of q1] obtain s' q' where
      "foldl (visit s0 x) (s1, q1) ys = (s', q')" "inv s'" "seen s' = seen s1 \<union> {y \<in> set ys. \<not> blocked y}"
      "set q' = set q1 \<union> (seen s' - seen s1)" "weight (s', q') \<le> weight (s1, q1)" by blast
    with v w s1(2) q1(1) False show ?thesis by (intro exI[of _ s'] exI[of _ q']) auto
  qed
qed auto

lemma closed_image:
  assumes "\<And>x y. x \<in> S \<Longrightarrow> (x, y) \<in> edges \<Longrightarrow> y \<in> S"
  shows "edges\<^sup>* `` S = S"
proof -
  have "(x, y) \<in> edges\<^sup>* \<Longrightarrow> x \<in> S \<Longrightarrow> y \<in> S" for x y
    by (induction rule: rtrancl_induct) (auto intro: assms)
  then show ?thesis by auto
qed

text \<open>The loop invariant: the work list is marked, and every marked node outside it is closed.\<close>

definition pending :: "'s \<Rightarrow> nat list \<Rightarrow> bool" where
  "pending s q \<longleftrightarrow>
     inv s \<and> set q \<subseteq> seen s \<and> (\<forall>x y. x \<in> seen s \<longrightarrow> x \<notin> set q \<longrightarrow> (x, y) \<in> edges \<longrightarrow> y \<in> seen s)"

lemma pending_nil: "pending s [] \<Longrightarrow> loop (s, []) = Some s \<and> inv s \<and> seen s = edges\<^sup>* `` seen s"
  using closed_image[of "seen s"] by (auto simp: pending_def loop_nil)

lemma pending_step:
  assumes pend: "pending s (x # rest)"
  obtains s' q' where "foldl (visit s x) (pop x s, rest) (nbrs x) = (s', q')"
    and "loop (s, x # rest) = loop (s', q')" and "pending s' q'"
    and "weight (s', q') < weight (s, x # rest)" and "seen s \<subseteq> seen s'" and "seen s' \<subseteq> edges\<^sup>* `` seen s"
    and "set q' = set rest \<union> (seen s' - seen s)"
proof -
  from pend have i: "inv s" and sub: "set rest \<subseteq> seen s" and x: "x \<in> seen s" by (auto simp: pending_def)
  with seen_nodes have xN: "x \<in> N" by blast
  note p = pop_inv[OF i, of x]
  obtain s' q' where f: "foldl (visit s x) (pop x s, rest) (nbrs x) = (s', q')" and i': "inv s'"
    and sn: "seen s' = seen s \<union> {y \<in> set (nbrs x). \<not> blocked y}"
    and qn: "set q' = set rest \<union> (seen s' - seen s)" and w: "weight (s', q') \<le> weight (pop x s, rest)"
    using visit_all[OF conjunct1[OF p] nbrs_nodes[OF xN], of s x rest] p by auto
  have "y \<in> seen s'" if "z \<in> seen s'" "z \<notin> set q'" "(z, y) \<in> edges" for z y
  proof (cases "z = x")
    case True
    with that(3) sn show ?thesis by (auto simp: edges_def)
  next
    case False
    with that(1,2) qn have "z \<in> seen s" "z \<notin> set (x # rest)" by auto
    with pend that(3) sn show ?thesis by (auto simp: pending_def)
  qed
  with i' qn sn sub have "pending s' q'" by (auto simp: pending_def)
  moreover have "seen s' \<subseteq> edges\<^sup>* `` seen s" using sn x xN by (auto simp: edges_def)
  ultimately show ?thesis
    using that[OF f] loop_cons[OF i xN, of rest] f w p sn qn by (auto simp: weight_def)
qed

lemma image_sandwich:
  assumes "S \<subseteq> T" and "T \<subseteq> edges\<^sup>* `` S"
  shows "edges\<^sup>* `` T = edges\<^sup>* `` S"
  using assms by (auto intro: rtrancl_trans) (meson Image_iff rtrancl_trans subsetD)

theorem loop_marks_reachable:
  "pending s q \<Longrightarrow> \<exists>r. loop (s, q) = Some r \<and> inv r \<and> seen r = edges\<^sup>* `` seen s"
proof (induction "weight (s, q)" arbitrary: s q rule: less_induct)
  case less
  show ?case
  proof (cases q)
    case Nil
    with less.prems pending_nil[of s] show ?thesis by auto
  next
    case (Cons x rest)
    with less.prems obtain s' q' where "loop (s, x # rest) = loop (s', q')" "pending s' q'"
      "weight (s', q') < weight (s, x # rest)" "seen s \<subseteq> seen s'" "seen s' \<subseteq> edges\<^sup>* `` seen s"
      using pending_step by metis
    with less.hyps[of s' q'] image_sandwich[of "seen s" "seen s'"] Cons show ?thesis by auto
  qed
qed

end

text \<open>A search that also records the nodes it pops, in order.\<close>

locale logged_search = frontier_search +
  fixes log :: "'a \<Rightarrow> nat list"
  assumes log_pop: "log (pop x s) = log s @ [x]"
    and log_visit: "inv s \<Longrightarrow> y \<in> N \<Longrightarrow> log (fst (visit s0 x (s, q) y)) = log s"
begin

lemma log_visit_all:
  assumes "inv s" and "set ys \<subseteq> N"
  shows "log (fst (foldl (visit s0 x) (s, q) ys)) = log s"
  using assms
proof (induction ys arbitrary: s q)
  case (Cons y ys)
  then have y: "y \<in> N" and ys: "set ys \<subseteq> N" by auto
  obtain s1 q1 where v: "visit s0 x (s, q) y = (s1, q1)" by fastforce
  have "inv s1"
    using v visit_old[OF Cons.prems(1) y, of s0 x q] visit_new[OF Cons.prems(1) y, of s0 x q] Cons.prems(1)
    by (cases "y \<in> seen s \<or> blocked y") auto
  with v Cons.IH[OF _ ys, of s1 q1] log_visit[OF Cons.prems(1) y, of s0 x q] show ?case by simp
qed simp

theorem loop_logs_marked:
  "pending s q \<Longrightarrow> \<exists>r. loop (s, q) = Some r \<and> set (log r) = set (log s) \<union> set q \<union> (seen r - seen s)"
proof (induction "weight (s, q)" arbitrary: s q rule: less_induct)
  case less
  show ?case
  proof (cases q)
    case Nil
    with less.prems show ?thesis by (auto simp: loop_nil)
  next
    case (Cons x rest)
    with less.prems obtain s' q' where f: "foldl (visit s x) (pop x s, rest) (nbrs x) = (s', q')"
      and st: "loop (s, x # rest) = loop (s', q')" "pending s' q'" "weight (s', q') < weight (s, x # rest)"
        "seen s \<subseteq> seen s'" "set q' = set rest \<union> (seen s' - seen s)"
      using pending_step by metis
    from less.prems Cons have i: "inv s" and xN: "x \<in> N" using seen_nodes by (auto simp: pending_def)
    have lg: "log s' = log s @ [x]"
      using log_visit_all[OF conjunct1[OF pop_inv[OF i]] nbrs_nodes[OF xN], of s x x rest] f
      by (simp add: log_pop)
    from less.hyps[of s' q'] st Cons obtain r where
      r: "loop (s, q) = Some r" "set (log r) = set (log s') \<union> set q' \<union> (seen r - seen s')" by auto
    from loop_marks_reachable[OF st(2)] r(1) st(1) Cons have "seen s' \<subseteq> seen r" by auto
    with r lg st(4,5) Cons show ?thesis by auto
  qed
qed

lemma visit_all_distinct:
  assumes "inv s" and "set ys \<subseteq> N" and "distinct q" and "set q \<subseteq> seen s"
  shows "distinct (snd (foldl (visit s0 x) (s, q) ys))"
  using assms
proof (induction ys arbitrary: s q)
  case (Cons y ys)
  then have y: "y \<in> N" and ys: "set ys \<subseteq> N" by auto
  show ?case
  proof (cases "y \<in> seen s \<or> blocked y")
    case True
    with visit_old[OF Cons.prems(1) y True] Cons.IH[OF Cons.prems(1) ys] Cons.prems show ?thesis by simp
  next
    case False
    then obtain s1 q1 where v: "visit s0 x (s, q) y = (s1, q1)" "inv s1" "seen s1 = insert y (seen s)"
      and q1: "set q1 = insert y (set q)" "length q1 = Suc (length q)"
      using visit_new[OF Cons.prems(1) y, of s0 x q] by blast
    have "y \<notin> set q" using False Cons.prems(4) by auto
    then have "card (set q1) = length q1" using q1 distinct_card[OF Cons.prems(3)] by simp
    then have "distinct q1" by (rule card_distinct)
    with Cons.IH[OF v(2) ys] q1 v Cons.prems(4) show ?thesis by auto
  qed
qed simp

theorem loop_logs_distinct:
  "pending s q \<Longrightarrow> distinct (log s @ q) \<Longrightarrow> set (log s) \<subseteq> seen s \<Longrightarrow>
     \<exists>r. loop (s, q) = Some r \<and> distinct (log r)"
proof (induction "weight (s, q)" arbitrary: s q rule: less_induct)
  case less
  show ?case
  proof (cases q)
    case Nil
    with less.prems show ?thesis by (auto simp: loop_nil)
  next
    case (Cons x rest)
    with less.prems obtain s' q' where f: "foldl (visit s x) (pop x s, rest) (nbrs x) = (s', q')"
      and st: "loop (s, x # rest) = loop (s', q')" "pending s' q'" "weight (s', q') < weight (s, x # rest)"
        "seen s \<subseteq> seen s'" "set q' = set rest \<union> (seen s' - seen s)"
      using pending_step by metis
    from less.prems(1) Cons have i: "inv s" and sub: "x \<in> seen s" "set rest \<subseteq> seen s" by (auto simp: pending_def)
    then have xN: "x \<in> N" using seen_nodes by auto
    note p = pop_inv[OF i, of x]
    have lg: "log s' = log s @ [x]"
      using log_visit_all[OF conjunct1[OF p] nbrs_nodes[OF xN], of s x rest] f by (simp add: log_pop)
    have "distinct q'"
      using visit_all_distinct[OF conjunct1[OF p] nbrs_nodes[OF xN], of rest s x] f p sub less.prems(2) Cons by simp
    with lg st(5) sub less.prems(2,3) Cons have "distinct (log s' @ q')" by auto
    moreover have "set (log s') \<subseteq> seen s'" using lg st(4) sub less.prems(3) by auto
    ultimately show ?thesis using less.hyps[of s' q'] st(1-3) Cons by simp
  qed
qed

end

end
