(* ===== verification/Graph_Walks.thy ===== *)
theory Graph_Walks
  imports Graph_Index Frontier_Search
begin

text \<open>
  Correctness of the graph walks. The locale \<open>indexed_graph\<close> is the contract of a built index:
  in-range successors, predecessors that mirror them, an entry and at most 1024 nodes. Inside it the
  breadth-first and reverse walks are instances of \<open>frontier_search\<close>, so they return and mark
  exactly the reachable nodes; an index built from a constructed procedure graph satisfies it.
\<close>

section \<open>Loop equations\<close>

lemma distances_loop_eqs [simp]:
  "distances_loop g (ds, []) = Some ds"
  "distances_loop g (ds, x # q) =
     distances_loop g (foldl (visit_distance (next_distance ds x)) (ds, q) (map sc_target (successors g x)))"
  by (subst distances_loop.simps, simp)+

lemma reverse_walk_eqs [simp]:
  "reverse_walk g b (s, []) = Some s"
  "reverse_walk g b (s, x # q) =
     reverse_walk g b (foldl (visit_predecessor b) (s, q) (nth_or_nil (gi_predecessors g) x))"
  by (subst reverse_walk.simps, simp)+

lemma component_loop_eqs [simp]:
  "component_loop r (a, c, []) = Some (a, c)"
  "component_loop r (a, c, x # q) =
     (case foldl visit_component (a, q) (rev (r ! x)) of (a', q') \<Rightarrow> component_loop r (a', c @ [x], q'))"
  by (subst component_loop.simps, simp)+

section \<open>The contract of a built index\<close>

definition graph_edges :: "GraphIndex \<Rightarrow> (nat \<times> nat) set" where
  "graph_edges g = {(u, v). u < GraphIndex_node_count g \<and> v \<in> sc_target ` set (successors g u)}"

locale indexed_graph =
  fixes g :: GraphIndex
  assumes count_bound: "GraphIndex_node_count g \<le> 1024"
    and successor_rows: "length (gi_successors g) = GraphIndex_node_count g"
    and predecessor_rows: "length (gi_predecessors g) = GraphIndex_node_count g"
    and targets_bound: "u < GraphIndex_node_count g \<Longrightarrow> e \<in> set (gi_successors g ! u) \<Longrightarrow>
      sc_target e < GraphIndex_node_count g"
    and predecessors_mirror: "v < GraphIndex_node_count g \<Longrightarrow>
      u \<in> set (gi_predecessors g ! v) \<longleftrightarrow> (u, v) \<in> graph_edges g"
    and entry_bound: "gi_entry g < GraphIndex_node_count g"
begin

abbreviation count :: nat where "count \<equiv> GraphIndex_node_count g"
abbreviation E :: "(nat \<times> nat) set" where "E \<equiv> graph_edges g"

lemma edge_bounds: "(u, v) \<in> E \<Longrightarrow> u < count \<and> v < count"
  using targets_bound successor_rows by (auto simp: graph_edges_def successors_def nth_or_nil_def)

lemma predecessors_eq: "v < count \<Longrightarrow> set (nth_or_nil (gi_predecessors g) v) = {u. (u, v) \<in> E}"
  using predecessors_mirror predecessor_rows by (auto simp: nth_or_nil_def)

lemma path_bound: "(u, v) \<in> E\<^sup>* \<Longrightarrow> u < count \<Longrightarrow> v < count"
  by (induction rule: rtrancl_induct) (auto dest: edge_bounds)

definition marked :: "u32 option list \<Rightarrow> nat set" where
  "marked ds = {i. i < length ds \<and> ds ! i \<noteq> None}"

sublocale bfs: frontier_search "{..<count}" "\<lambda>x. map sc_target (successors g x)" "\<lambda>_. False"
    "\<lambda>ds. length ds = count" marked "\<lambda>_ ds. ds" "\<lambda>ds x. visit_distance (next_distance ds x)"
    "distances_loop g"
proof unfold_locales
  fix x assume "x \<in> {..<count}"
  then show "set (map sc_target (successors g x)) \<subseteq> {..<count}"
    using targets_bound successor_rows by (auto simp: successors_def nth_or_nil_def)
next
  fix s :: "u32 option list" and y s0 x q
  assume "length s = count" "y \<in> {..<count}" "y \<notin> marked s" "\<not> False"
  then show "\<exists>s' q'. visit_distance (next_distance s0 x) (s, q) y = (s', q') \<and> length s' = count \<and>
      marked s' = insert y (marked s) \<and> set q' = insert y (set q) \<and> length q' = Suc (length q)"
    by (auto simp: visit_distance_def marked_def nth_list_update)
next
  fix s :: "u32 option list" and x q assume "length s = count" "x \<in> {..<count}"
  then show "distances_loop g (s, x # q) =
      distances_loop g (foldl (visit_distance (next_distance s x)) (s, q) (map sc_target (successors g x)))"
    by simp
qed (auto simp: marked_def visit_distance_def)

lemma bfs_edges: "bfs.edges = E"
  by (auto simp: bfs.edges_def graph_edges_def)

lemma distances_exact:
  assumes "x < count"
  shows "\<exists>ds. distances_from g x = Some ds \<and> length ds = count \<and>
    (\<forall>y<count. ds ! y \<noteq> None \<longleftrightarrow> (x, y) \<in> E\<^sup>*)"
proof -
  let ?ds = "(replicate count None)[x := Some 0]"
  have m: "marked ?ds = {x}" using assms by (auto simp: marked_def nth_list_update)
  have "bfs.pending ?ds [x]" using m by (simp add: bfs.pending_def)
  from bfs.loop_marks_reachable[OF this] obtain ds where
    ds: "distances_loop g (?ds, [x]) = Some ds" "length ds = count" "marked ds = E\<^sup>* `` {x}"
    by (auto simp: bfs_edges m)
  have "ds ! y \<noteq> None \<longleftrightarrow> (x, y) \<in> E\<^sup>*" if "y < count" for y
  proof -
    from that ds(2) have "ds ! y \<noteq> None \<longleftrightarrow> y \<in> marked ds" by (simp add: marked_def)
    with ds(3) show ?thesis by simp
  qed
  with assms ds(1,2) show ?thesis by (simp add: distances_from_def Let_def)
qed

text \<open>Collecting the indices that satisfy a test into a bit set.\<close>

lemma collect_bits:
  assumes "\<forall>i\<in>set is. i < 1024" and "nset_wf s"
  shows "nset_wf (foldl (\<lambda>s i. if P i then NodeSet_insert i s else s) s is) \<and>
    nset (foldl (\<lambda>s i. if P i then NodeSet_insert i s else s) s is) = nset s \<union> {i \<in> set is. P i}"
  using assms by (induction "is" arbitrary: s) auto

lemma collect_enumerated:
  "foldl (\<lambda>s (i, d). if Q d then NodeSet_insert i s else s) s (enumerate k ds) =
     foldl (\<lambda>s i. if Q (ds ! (i - k)) then NodeSet_insert i s else s) s [k..<k + length ds]"
proof (induction ds arbitrary: s k)
  case (Cons d ds)
  have "[k..<k + length (d # ds)] = k # [Suc k..<Suc k + length ds]" by (simp add: upt_rec)
  moreover have "foldl (\<lambda>s i. if Q (ds ! (i - Suc k)) then NodeSet_insert i s else s) t [Suc k..<Suc k + length ds] =
      foldl (\<lambda>s i. if Q ((d # ds) ! (i - k)) then NodeSet_insert i s else s) t [Suc k..<Suc k + length ds]" for t
    by (rule foldl_cong) (auto simp: nth_Cons' Suc_diff_le)
  ultimately show ?case by (simp add: Cons.IH)
qed simp

lemma reachable_exact:
  assumes "x < count"
  shows "\<exists>r. reachable_from g x = Some r \<and> nset_wf r \<and> nset r = E\<^sup>* `` {x}"
proof -
  from distances_exact[OF assms] obtain ds where
    ds: "distances_from g x = Some ds" "length ds = count" "\<forall>y<count. ds ! y \<noteq> None \<longleftrightarrow> (x, y) \<in> E\<^sup>*" by blast
  let ?r = "foldl (\<lambda>s i. if ds ! i \<noteq> None then NodeSet_insert i s else s) NodeSet_empty [0..<count]"
  have "reachable_from g x = Some ?r"
    using ds(1,2) collect_enumerated[of "\<lambda>d. d \<noteq> None" NodeSet_empty 0 ds]
    by (simp add: reachable_from_def)
  moreover have "nset_wf ?r \<and> nset ?r = {} \<union> {i \<in> set [0..<count]. ds ! i \<noteq> None}"
    using collect_bits[of "[0..<count]" NodeSet_empty] count_bound by auto
  moreover have "{i \<in> set [0..<count]. ds ! i \<noteq> None} = E\<^sup>* `` {x}"
    using ds(3) path_bound[OF _ assms] by auto
  ultimately show ?thesis by auto
qed

sublocale rw: frontier_search "{..<count}" "nth_or_nil (gi_predecessors g)" blocked
    "\<lambda>s. nset_wf s \<and> nset s \<subseteq> {..<count}" nset "\<lambda>_ s. s" "\<lambda>_ _. visit_predecessor blocked"
    "reverse_walk g blocked"
  for blocked
proof unfold_locales
  fix x assume "x \<in> {..<count}"
  then show "set (nth_or_nil (gi_predecessors g) x) \<subseteq> {..<count}"
    using predecessors_eq[of x] edge_bounds by auto
next
  fix s y q assume s: "nset_wf s \<and> nset s \<subseteq> {..<count}" and y: "y \<in> {..<count}" and n: "y \<notin> nset s" "\<not> blocked y"
  from y count_bound have "y < 1024" by simp
  with s y n show "\<exists>s' q'. visit_predecessor blocked (s, q) y = (s', q') \<and>
      (nset_wf s' \<and> nset s' \<subseteq> {..<count}) \<and> nset s' = insert y (nset s) \<and>
      set q' = insert y (set q) \<and> length q' = Suc (length q)"
    by (simp add: visit_predecessor_def nset_iff)
qed (auto simp: visit_predecessor_def nset_iff)

lemma rw_edges: "rw.edges blocked = {(x, y). (y, x) \<in> E \<and> \<not> blocked y}"
  using predecessors_eq edge_bounds by (auto simp: rw.edges_def)

lemma walk_seeds_fold:
  assumes "nset_wf s" and "\<forall>i\<in>set is. i < 1024"
  shows "\<exists>s' q'. foldl (\<lambda>(seen, frontier) node.
         if seed node then (NodeSet_insert node seen, frontier @ [node]) else (seen, frontier)) (s, q) is = (s', q') \<and>
     nset_wf s' \<and> nset s' = nset s \<union> {i \<in> set is. seed i} \<and> set q' = set q \<union> {i \<in> set is. seed i}"
  using assms
proof (induction "is" arbitrary: s q)
  case (Cons i "is")
  show ?case
  proof (cases "seed i")
    case True
    with Cons.IH[of "NodeSet_insert i s" "q @ [i]"] Cons.prems show ?thesis by auto
  next
    case False
    with Cons.IH[of s q] Cons.prems show ?thesis by auto
  qed
qed auto

lemma reverse_walk_exact:
  assumes seeds: "\<And>i. seed i \<Longrightarrow> \<not> blocked i"
  shows "\<exists>r. reverse_walk g blocked (walk_seeds g seed) = Some r \<and> nset_wf r \<and>
    nset r = {(x, y). (y, x) \<in> E \<and> \<not> blocked y}\<^sup>* `` {i. i < count \<and> seed i}"
proof -
  have "\<forall>i\<in>set [0..<count]. i < 1024" using count_bound by auto
  from walk_seeds_fold[OF nset_wf_simps(1) this, of seed "[]"] obtain s q where
    w: "walk_seeds g seed = (s, q)" and s: "nset_wf s" "nset s = {i. i < count \<and> seed i}"
      "set q = {i. i < count \<and> seed i}"
    by (auto simp: walk_seeds_def)
  then have "rw.pending blocked s q" by (auto simp: rw.pending_def)
  from rw.loop_marks_reachable[OF this] w s(2) show ?thesis by (auto simp: rw_edges)
qed

lemma is_terminal_bound: "is_terminal g t \<Longrightarrow> t < count"
  by (auto simp: is_terminal_def nth_opt_def GraphIndex_node_count_def split: if_splits)

lemma terminal_reachable_exact:
  "\<exists>r. terminal_reachable_nodes g = Some r \<and> nset_wf r \<and>
     nset r = {u. \<exists>t. is_terminal g t \<and> (u, t) \<in> E\<^sup>*}"
proof -
  have "{(x, y). (y, x) \<in> E \<and> \<not> False} = E\<inverse>" by auto
  then have "{(x, y). (y, x) \<in> E \<and> \<not> False}\<^sup>* = (E\<^sup>*)\<inverse>" by (simp add: rtrancl_converse)
  with reverse_walk_exact[of "is_terminal g" "\<lambda>_. False"] is_terminal_bound show ?thesis
    unfolding terminal_reachable_nodes_def by fastforce
qed

end

section \<open>Walks\<close>

text \<open>A walk is a nonempty list of nodes, each an edge away from the next.\<close>

definition walk :: "('a \<times> 'a) set \<Rightarrow> 'a \<Rightarrow> 'a list \<Rightarrow> 'a \<Rightarrow> bool" where
  "walk R u p v \<longleftrightarrow> p \<noteq> [] \<and> hd p = u \<and> last p = v \<and> successively (\<lambda>x y. (x, y) \<in> R) p"

lemma walk_single: "walk R u [u] u"
  by (simp add: walk_def)

lemma walk_Cons: "walk R u (u # p) v \<longleftrightarrow> p = [] \<and> u = v \<or> (\<exists>w. (u, w) \<in> R \<and> walk R w p v)"
  by (cases p) (auto simp: walk_def)

lemma walk_head: "walk R u p v \<Longrightarrow> \<exists>q. p = u # q"
  by (cases p) (auto simp: walk_def)

lemma walk_append: "walk R u p v \<Longrightarrow> (v, w) \<in> R \<Longrightarrow> walk R u (p @ [w]) w"
  by (auto simp: walk_def successively_append_iff)

lemma walk_rtrancl: "(\<exists>p. walk R u p v) \<longleftrightarrow> (u, v) \<in> R\<^sup>*"
proof
  assume "\<exists>p. walk R u p v"
  then obtain p where "walk R u p v" ..
  then show "(u, v) \<in> R\<^sup>*"
  proof (induction p arbitrary: u)
    case (Cons x p)
    then have "x = u" by (simp add: walk_def)
    with Cons show ?case by (auto simp: walk_Cons intro: converse_rtrancl_into_rtrancl)
  qed (simp add: walk_def)
next
  assume "(u, v) \<in> R\<^sup>*"
  then show "\<exists>p. walk R u p v"
    by (induction rule: rtrancl_induct) (auto intro: walk_single walk_append)
qed

lemma walk_nodes: "walk R u p v \<Longrightarrow> x \<in> set p \<Longrightarrow> x \<noteq> u \<Longrightarrow> \<exists>y. (y, x) \<in> R"
proof (induction p arbitrary: u)
  case (Cons z p)
  then have "z = u" by (simp add: walk_def)
  with Cons.prems Cons.IH show ?case by (auto simp: walk_Cons)
qed (simp add: walk_def)

lemma walk_filtered:
  "(\<exists>p. walk R u p v \<and> (\<forall>x\<in>set p. Q x)) \<longleftrightarrow> Q v \<and> (u, v) \<in> {(x, y). (x, y) \<in> R \<and> Q x}\<^sup>*"
proof
  assume "\<exists>p. walk R u p v \<and> (\<forall>x\<in>set p. Q x)"
  then obtain p where "walk R u p v" "\<forall>x\<in>set p. Q x" by blast
  then show "Q v \<and> (u, v) \<in> {(x, y). (x, y) \<in> R \<and> Q x}\<^sup>*"
  proof (induction p arbitrary: u)
    case (Cons x p)
    then have "x = u" by (simp add: walk_def)
    with Cons show ?case by (auto simp: walk_Cons intro: converse_rtrancl_into_rtrancl)
  qed (simp add: walk_def)
next
  assume "Q v \<and> (u, v) \<in> {(x, y). (x, y) \<in> R \<and> Q x}\<^sup>*"
  then have "(u, v) \<in> {(x, y). (x, y) \<in> R \<and> Q x}\<^sup>*" "Q v" by auto
  then show "\<exists>p. walk R u p v \<and> (\<forall>x\<in>set p. Q x)"
  proof (induction rule: converse_rtrancl_induct)
    case base
    then show ?case using walk_single[of R v] by (intro exI[of _ "[v]"]) simp
  next
    case (step y z)
    then obtain p where "walk R z p v" "\<forall>x\<in>set p. Q x" by blast
    with step show ?case by (intro exI[of _ "y # p"]) (auto simp: walk_Cons)
  qed
qed

context indexed_graph
begin

lemma assessment_free_exact:
  "\<exists>r. assessment_free_to_terminal g a = Some r \<and> nset_wf r \<and>
     nset r = {u. \<exists>t p. is_terminal g t \<and> walk E u p t \<and> (\<forall>x\<in>set p. \<not> a x)}"
proof -
  let ?R = "{(x, y). (x, y) \<in> E \<and> \<not> a x}"
  have "{(x, y). (y, x) \<in> E \<and> \<not> a y} = ?R\<inverse>" by auto
  then have c: "{(x, y). (y, x) \<in> E \<and> \<not> a y}\<^sup>* = (?R\<^sup>*)\<inverse>" by (simp add: rtrancl_converse)
  have "u \<in> (?R\<^sup>*)\<inverse> `` {i. i < count \<and> is_terminal g i \<and> \<not> a i} \<longleftrightarrow>
      (\<exists>t p. is_terminal g t \<and> walk E u p t \<and> (\<forall>x\<in>set p. \<not> a x))" for u
    using walk_filtered[of E u _ "\<lambda>x. \<not> a x"] is_terminal_bound by auto
  then have "(?R\<^sup>*)\<inverse> `` {i. i < count \<and> is_terminal g i \<and> \<not> a i} =
      {u. \<exists>t p. is_terminal g t \<and> walk E u p t \<and> (\<forall>x\<in>set p. \<not> a x)}" by blast
  with reverse_walk_exact[of "\<lambda>i. is_terminal g i \<and> \<not> a i" a] c show ?thesis
    unfolding assessment_free_to_terminal_def by simp
qed

end

section \<open>A built index satisfies the contract\<close>

lemma index_placements_append:
  "index_placements (ps @ [p]) = (index_placements ps)(GraphPlacementV2_id p \<mapsto> length ps)"
  by (simp add: index_placements_def enumerate_append_eq)

lemma index_placements_Some:
  "index_placements ps x = Some i \<Longrightarrow> i < length ps \<and> GraphPlacementV2_id (ps ! i) = x"
proof (induction ps rule: rev_induct)
  case (snoc p ps)
  then show ?case by (auto simp: index_placements_append nth_append split: if_splits)
qed (simp add: index_placements_def)

lemma index_placements_dom: "(\<exists>i. index_placements ps x = Some i) \<longleftrightarrow> x \<in> GraphPlacementV2_id ` set ps"
proof (induction ps rule: rev_induct)
  case (snoc p ps)
  then show ?case by (auto simp: index_placements_append)
qed (simp add: index_placements_def)

lemma index_placements_nth:
  assumes "distinct (map GraphPlacementV2_id ps)" and "i < length ps"
  shows "index_placements ps (GraphPlacementV2_id (ps ! i)) = Some i"
proof -
  from assms(2) obtain j where "index_placements ps (GraphPlacementV2_id (ps ! i)) = Some j"
    using index_placements_dom[of ps "GraphPlacementV2_id (ps ! i)"] by auto
  moreover from index_placements_Some[OF this] have "j = i"
    using assms by (metis distinct_conv_nth length_map nth_map)
  ultimately show ?thesis by simp
qed

lemma placement_successors_target:
  "e \<in> set (placement_successors m p) \<Longrightarrow> \<exists>x. m x = Some (sc_target e)"
  by (auto simp: placement_successors_def map_filter_def split: GraphPlacementV2.splits
      ActionOutcomeV2.splits option.splits)

lemma add_predecessor_row:
  "length (foldl (add_predecessor u) preds es) = length preds \<and>
   (v < length preds \<longrightarrow> set (foldl (add_predecessor u) preds es ! v) =
      set (preds ! v) \<union> (if v \<in> sc_target ` set es then {u} else {}))"
proof (induction es arbitrary: preds)
  case (Cons e es)
  have "length (add_predecessor u preds e) = length preds" by (simp add: add_predecessor_def)
  moreover have "v < length preds \<Longrightarrow> set (add_predecessor u preds e ! v) =
      set (preds ! v) \<union> (if v = sc_target e then {u} else {})"
    by (auto simp: add_predecessor_def nth_list_update)
  ultimately show ?case using Cons.IH[of "add_predecessor u preds e"] by auto
qed simp

lemma index_predecessors_rows:
  "length (index_predecessors n ss) = n \<and>
   (v < n \<longrightarrow> set (index_predecessors n ss ! v) = {u. u < length ss \<and> v \<in> sc_target ` set (ss ! u)})"
proof (induction ss rule: rev_induct)
  case (snoc es ss)
  have "index_predecessors n (ss @ [es]) = foldl (add_predecessor (length ss)) (index_predecessors n ss) es"
    by (simp add: index_predecessors_def enumerate_append_eq)
  then show ?case
    using snoc add_predecessor_row[of "length ss" "index_predecessors n ss" es v]
    by (auto simp: nth_append less_Suc_eq)
qed (simp add: index_predecessors_def)

lemma built_index_fields:
  "gi_placements (GraphIndex_new G) = pg_placements G"
  "gi_index_by_id (GraphIndex_new G) = index_placements (pg_placements G)"
  "gi_successors (GraphIndex_new G) =
     map (placement_successors (index_placements (pg_placements G))) (pg_placements G)"
  "GraphIndex_node_count (GraphIndex_new G) = length (pg_placements G)"
  by (simp_all add: GraphIndex_new_def Let_def GraphIndex_node_count_def)

theorem built_indexed:
  assumes "ProcedureGraphV2_new entry ps mr = Inr G"
  shows "indexed_graph (GraphIndex_new G)"
proof -
  from assms have ps: "pg_placements G = ps" "length ps \<le> 1024" and e: "pg_entry G = entry"
    "entry \<in> GraphPlacementV2_id ` set ps" by (auto simp: procedure_graph_ok)
  let ?g = "GraphIndex_new G" and ?m = "index_placements ps"
  have rows: "u < length ps \<Longrightarrow> successors ?g u = placement_successors ?m (ps ! u)" for u
    by (simp add: successors_def nth_or_nil_def built_index_fields ps)
  have tgt: "sc_target e < length ps" if "e \<in> set (placement_successors ?m p)" for e p
    using placement_successors_target[OF that] index_placements_Some by blast
  from e obtain i where i: "?m entry = Some i" using index_placements_dom by blast
  show ?thesis
  proof
    show "GraphIndex_node_count ?g \<le> 1024" by (simp add: built_index_fields ps)
    show "length (gi_successors ?g) = GraphIndex_node_count ?g" by (simp add: built_index_fields)
    show "length (gi_predecessors ?g) = GraphIndex_node_count ?g"
      using index_predecessors_rows by (simp add: GraphIndex_new_def Let_def GraphIndex_node_count_def)
    show "gi_entry ?g < GraphIndex_node_count ?g"
      using i index_placements_Some[OF i] by (simp add: GraphIndex_new_def Let_def GraphIndex_node_count_def ps e)
  next
    fix u e assume "u < GraphIndex_node_count ?g" "e \<in> set (gi_successors ?g ! u)"
    then show "sc_target e < GraphIndex_node_count ?g" using tgt by (auto simp: built_index_fields ps)
  next
    fix u v assume "v < GraphIndex_node_count ?g"
    then have v: "v < length ps" by (simp add: built_index_fields ps)
    have "gi_predecessors ?g = index_predecessors (length ps) (map (placement_successors ?m) ps)"
      by (simp add: GraphIndex_new_def Let_def ps)
    with v index_predecessors_rows[of "length ps" "map (placement_successors ?m) ps" v]
    show "u \<in> set (gi_predecessors ?g ! v) \<longleftrightarrow> (u, v) \<in> graph_edges ?g"
      by (auto simp: graph_edges_def built_index_fields ps rows)
  qed
qed

text \<open>
  The fields of \<open>ProcedureGraphV2\<close> are private, so every value of the type was returned by its
  constructor; \<open>built_graph\<close> is the type of those values.
\<close>

typedef built_graph = "{G. \<exists>entry ps mr. ProcedureGraphV2_new entry ps mr = Inr G}"
proof -
  let ?p = "PlaceAction (ActionPlacementV2_new (GraphNodeId [1]) (NodeDefinitionId [1]) None None OutcomeTerminal)"
  have "ProcedureGraphV2_new (GraphNodeId [1]) [?p] None =
      Inr \<lparr>pg_entry = GraphNodeId [1], pg_placements = [?p], pg_manual_rework = None\<rparr>"
    by (simp add: procedure_graph_ok ActionPlacementV2_new_def)
  then show ?thesis by blast
qed

interpretation built: indexed_graph "GraphIndex_new (Rep_built_graph G)" for G
  using Rep_built_graph[of G] built_indexed by blast

end
