(* ===== verification/Graph_Search_Order.thy ===== *)
theory Graph_Search_Order
  imports Graph_Walks
begin

text \<open>
  Correctness of the iterative depth-first search: from any set of visited nodes it returns, its
  finish order lists exactly the nodes it newly visited, and these are closed under the included
  edges; from an empty set it lists exactly the nodes reachable from the start.
\<close>

section \<open>The inner edge loop\<close>

lemma next_edge_Some:
  "next_edge_target inc es k = (Some t, j) \<Longrightarrow>
     \<exists>pre e post. es = pre @ e # post \<and> (\<forall>x\<in>set pre. \<not> edge_included inc x) \<and> edge_included inc e \<and>
       t = sc_target e \<and> j = k + length pre + 1"
proof (induction inc es k rule: next_edge_target.induct)
  case (2 inc e es k)
  show ?case
  proof (cases "edge_included inc e")
    case True
    with "2.prems" show ?thesis by (intro exI[of _ "[]"] exI[of _ e] exI[of _ es]) simp
  next
    case False
    with "2.IH" "2.prems" obtain pre e' post where
      "es = pre @ e' # post" "\<forall>x\<in>set pre. \<not> edge_included inc x" "edge_included inc e'"
      "t = sc_target e'" "j = Suc k + length pre + 1" by auto
    with False show ?thesis by (intro exI[of _ "e # pre"] exI[of _ e'] exI[of _ post]) simp
  qed
qed simp

lemma next_edge_None:
  "next_edge_target inc es k = (None, j) \<Longrightarrow> \<forall>e\<in>set es. \<not> edge_included inc e"
  by (induction inc es k rule: next_edge_target.induct) (auto split: if_splits)

lemma dfs_loop_eqs:
  "dfs_loop g inc (vis, fin, []) = Some (vis, fin)"
  "next_edge_target inc (drop i (successors g u)) i = (None, j) \<Longrightarrow>
     dfs_loop g inc (vis, fin, (u, i) # st) = dfs_loop g inc (vis, fin @ [u], st)"
  "next_edge_target inc (drop i (successors g u)) i = (Some t, j) \<Longrightarrow> vis ! t \<Longrightarrow>
     dfs_loop g inc (vis, fin, (u, i) # st) = dfs_loop g inc (vis, fin, (u, j) # st)"
  "next_edge_target inc (drop i (successors g u)) i = (Some t, j) \<Longrightarrow> \<not> vis ! t \<Longrightarrow>
     dfs_loop g inc (vis, fin, (u, i) # st) = dfs_loop g inc (vis[t := True], fin, (t, 0) # (u, j) # st)"
  by (subst dfs_loop.simps, simp)+

section \<open>The search\<close>

definition included_edges :: "GraphIndex \<Rightarrow> bool \<Rightarrow> (nat \<times> nat) set" where
  "included_edges g inc =
     {(u, v). u < GraphIndex_node_count g \<and> (\<exists>e\<in>set (successors g u). edge_included inc e \<and> sc_target e = v)}"

lemma included_all: "included_edges g True = graph_edges g"
  by (auto simp: included_edges_def graph_edges_def edge_included_def)

lemma included_subset: "included_edges g inc \<subseteq> graph_edges g"
  by (auto simp: included_edges_def graph_edges_def)

definition flagged :: "bool list \<Rightarrow> nat set" where
  "flagged vis = {i. i < length vis \<and> vis ! i}"

lemma flagged_update: "t < length vis \<Longrightarrow> flagged (vis[t := True]) = insert t (flagged vis)"
  by (auto simp: flagged_def nth_list_update)

context indexed_graph
begin

abbreviation A :: "bool \<Rightarrow> (nat \<times> nat) set" where "A inc \<equiv> included_edges g inc"

lemma included_bounds: "(u, v) \<in> A inc \<Longrightarrow> u < count \<and> v < count"
  using included_subset edge_bounds by blast

definition frame_ok :: "bool \<Rightarrow> nat set \<Rightarrow> nat \<times> nat \<Rightarrow> bool" where
  "frame_ok inc F = (\<lambda>(u, i). u < count \<and>
     (\<forall>e\<in>set (take i (successors g u)). edge_included inc e \<longrightarrow> sc_target e \<in> F))"

definition closed_at :: "bool \<Rightarrow> nat set \<Rightarrow> nat \<Rightarrow> bool" where
  "closed_at inc F u \<longleftrightarrow> (\<forall>v. (u, v) \<in> A inc \<longrightarrow> v \<in> F)"

lemma frame_mono: "frame_ok inc F fr \<Longrightarrow> F \<subseteq> F' \<Longrightarrow> frame_ok inc F' fr"
  by (auto simp: frame_ok_def)

lemma closed_mono: "closed_at inc F u \<Longrightarrow> F \<subseteq> F' \<Longrightarrow> closed_at inc F' u"
  by (auto simp: closed_at_def)

definition dfs_inv :: "bool \<Rightarrow> nat set \<Rightarrow> bool list \<times> nat list \<times> (nat \<times> nat) list \<Rightarrow> bool" where
  "dfs_inv inc V0 = (\<lambda>(vis, fin, st).
     length vis = count \<and> flagged vis = V0 \<union> set fin \<union> fst ` set st \<and>
     (\<forall>fr\<in>set st. frame_ok inc (flagged vis) fr) \<and> (\<forall>u\<in>set fin. closed_at inc (flagged vis) u))"

lemma dfs_invI:
  assumes "length vis = count" and "flagged vis = V0 \<union> set fin \<union> fst ` set st"
    and "\<And>fr. fr \<in> set st \<Longrightarrow> frame_ok inc (flagged vis) fr"
    and "\<And>u. u \<in> set fin \<Longrightarrow> closed_at inc (flagged vis) u"
  shows "dfs_inv inc V0 (vis, fin, st)"
  using assms by (simp add: dfs_inv_def)

lemma dfs_invD:
  assumes "dfs_inv inc V0 (vis, fin, st)"
  shows "length vis = count" and "flagged vis = V0 \<union> set fin \<union> fst ` set st"
    and "\<And>fr. fr \<in> set st \<Longrightarrow> frame_ok inc (flagged vis) fr"
    and "\<And>u. u \<in> set fin \<Longrightarrow> closed_at inc (flagged vis) u"
  using assms by (auto simp: dfs_inv_def)

definition dfs_weight :: "bool list \<times> nat list \<times> (nat \<times> nat) list \<Rightarrow> nat" where
  "dfs_weight = (\<lambda>(vis, fin, st).
     (\<Sum>u\<in>{..<count} - flagged vis. length (successors g u) + 2) +
     sum_list (map (\<lambda>(u, i). length (successors g u) - i + 1) st))"

lemma take_edge:
  assumes "drop i es = pre @ e # post" and "j = i + length pre + 1"
  shows "set (take j es) = set (take i es) \<union> set pre \<union> {e}" and "i < length es"
    and "j \<le> length es" and "e \<in> set es"
proof -
  show i: "i < length es" using assms(1) by (metis drop_all list.discI append_is_Nil_conv not_less)
  have es: "es = take i es @ pre @ e # post" using assms(1) by (metis append_take_drop_id)
  have "take j es = take i es @ take (j - i) (drop i es)" using assms(2) i
    by (metis le_add1 add.assoc le_add_diff_inverse take_add)
  also have "take (j - i) (drop i es) = pre @ [e]" using assms by simp
  finally show "set (take j es) = set (take i es) \<union> set pre \<union> {e}" by auto
  have "length (drop i es) = length pre + Suc (length post)" by (simp only: assms(1) length_append list.size)
  then show "j \<le> length es" using assms(2) by simp
  show "e \<in> set es" by (subst es) simp
qed

lemma dfs_step_edge:
  assumes inv: "dfs_inv inc V0 (vis, fin, (u, i) # st)"
    and next_e: "next_edge_target inc (drop i (successors g u)) i = (Some t, j)"
  shows "t < count" and "(u, t) \<in> A inc"
    and "vis ! t \<Longrightarrow> dfs_inv inc V0 (vis, fin, (u, j) # st) \<and>
      dfs_weight (vis, fin, (u, j) # st) < dfs_weight (vis, fin, (u, i) # st)"
    and "\<not> vis ! t \<Longrightarrow> dfs_inv inc V0 (vis[t := True], fin, (t, 0) # (u, j) # st) \<and>
      dfs_weight (vis[t := True], fin, (t, 0) # (u, j) # st) < dfs_weight (vis, fin, (u, i) # st)"
proof -
  from next_edge_Some[OF next_e] obtain pre e post where
    d: "drop i (successors g u) = pre @ e # post" "\<forall>x\<in>set pre. \<not> edge_included inc x"
      "edge_included inc e" "t = sc_target e" "j = i + length pre + 1" by blast
  note tk = take_edge[OF d(1,5)]
  note I = dfs_invD[OF inv]
  have fr: "frame_ok inc (flagged vis) (u, i)" by (rule I(3)) simp
  then have u: "u < count" by (simp add: frame_ok_def)
  note len = I(1)
  show A: "(u, t) \<in> A inc" using u tk(4) d(3,4) by (auto simp: included_edges_def)
  then show t: "t < count" using included_bounds by blast
  have new: "frame_ok inc (insert t (flagged vis)) (u, j)"
    using fr d(2,4) tk(1) by (auto simp: frame_ok_def)
  have less: "length (successors g u) - j + 1 < length (successors g u) - i + 1"
    using tk(2) d(5) by simp
  show "vis ! t \<Longrightarrow> dfs_inv inc V0 (vis, fin, (u, j) # st) \<and>
      dfs_weight (vis, fin, (u, j) # st) < dfs_weight (vis, fin, (u, i) # st)"
  proof -
    assume "vis ! t"
    with t len have "t \<in> flagged vis" by (simp add: flagged_def)
    then have nf: "frame_ok inc (flagged vis) (u, j)" using new by (simp add: insert_absorb)
    have "dfs_inv inc V0 (vis, fin, (u, j) # st)"
    proof (rule dfs_invI)
      show "flagged vis = V0 \<union> set fin \<union> fst ` set ((u, j) # st)" using I(2) by simp
    qed (use I nf in auto)
    with less show ?thesis by (simp add: dfs_weight_def)
  qed
  show "\<not> vis ! t \<Longrightarrow> dfs_inv inc V0 (vis[t := True], fin, (t, 0) # (u, j) # st) \<and>
      dfs_weight (vis[t := True], fin, (t, 0) # (u, j) # st) < dfs_weight (vis, fin, (u, i) # st)"
  proof -
    assume "\<not> vis ! t"
    with len t have tn: "t \<notin> flagged vis" and fl: "flagged (vis[t := True]) = insert t (flagged vis)"
      by (auto simp: flagged_def flagged_update nth_list_update)
    have "{..<count} - flagged vis = insert t ({..<count} - flagged (vis[t := True]))" using fl tn t by auto
    moreover have "t \<notin> {..<count} - flagged (vis[t := True])" using fl by simp
    ultimately have "(\<Sum>u\<in>{..<count} - flagged vis. length (successors g u) + 2) =
        length (successors g t) + 2 + (\<Sum>u\<in>{..<count} - flagged (vis[t := True]). length (successors g u) + 2)"
      by simp
    with less have "dfs_weight (vis[t := True], fin, (t, 0) # (u, j) # st) < dfs_weight (vis, fin, (u, i) # st)"
      by (simp add: dfs_weight_def)
    moreover have "dfs_inv inc V0 (vis[t := True], fin, (t, 0) # (u, j) # st)"
    proof (rule dfs_invI)
      show "flagged (vis[t := True]) = V0 \<union> set fin \<union> fst ` set ((t, 0) # (u, j) # st)"
        unfolding fl I(2) by auto
      show "frame_ok inc (flagged (vis[t := True])) fr" if "fr \<in> set ((t, 0) # (u, j) # st)" for fr
        using that new t I(3) frame_mono[of inc "flagged vis" fr "insert t (flagged vis)"]
        by (auto simp: fl frame_ok_def)
      show "closed_at inc (flagged (vis[t := True])) w" if "w \<in> set fin" for w
        using closed_mono[OF I(4)[OF that]] fl by blast
    qed (use len in simp)
    ultimately show ?thesis by blast
  qed
qed

lemma dfs_step_pop:
  assumes inv: "dfs_inv inc V0 (vis, fin, (u, i) # st)"
    and next_e: "next_edge_target inc (drop i (successors g u)) i = (None, j)"
  shows "dfs_inv inc V0 (vis, fin @ [u], st)"
    and "dfs_weight (vis, fin @ [u], st) < dfs_weight (vis, fin, (u, i) # st)"
proof -
  note rest = next_edge_None[OF next_e] and I = dfs_invD[OF inv]
  have fr: "frame_ok inc (flagged vis) (u, i)" by (rule I(3)) simp
  have "v \<in> flagged vis" if "(u, v) \<in> A inc" for v
  proof -
    from that obtain e where e: "e \<in> set (successors g u)" "edge_included inc e" "sc_target e = v"
      by (auto simp: included_edges_def)
    then have "e \<in> set (take i (successors g u))"
      using rest by (metis UnE append_take_drop_id set_append)
    with fr e show ?thesis by (auto simp: frame_ok_def)
  qed
  then have cl: "closed_at inc (flagged vis) u" by (simp add: closed_at_def)
  show "dfs_inv inc V0 (vis, fin @ [u], st)"
  proof (rule dfs_invI)
    show "flagged vis = V0 \<union> set (fin @ [u]) \<union> fst ` set st" unfolding I(2) by auto
  qed (use I cl in auto)
  show "dfs_weight (vis, fin @ [u], st) < dfs_weight (vis, fin, (u, i) # st)"
    by (simp add: dfs_weight_def)
qed

text \<open>
  The search rule: the loop returns, and a property that holds of its state at the start and is kept
  by a push of an unvisited node, by a skip of a visited one and by a pop holds when it returns.
\<close>

lemma dfs_rule:
  assumes push: "\<And>vis fin st u i t j. P (vis, fin, (u, i) # st) \<Longrightarrow> dfs_inv inc V0 (vis, fin, (u, i) # st) \<Longrightarrow>
      (u, t) \<in> A inc \<Longrightarrow> t \<notin> flagged vis \<Longrightarrow> flagged (vis[t := True]) = insert t (flagged vis) \<Longrightarrow>
      P (vis[t := True], fin, (t, 0) # (u, j) # st)"
    and skip: "\<And>vis fin st u i j. P (vis, fin, (u, i) # st) \<Longrightarrow> P (vis, fin, (u, j) # st)"
    and pop: "\<And>vis fin st u i. P (vis, fin, (u, i) # st) \<Longrightarrow> dfs_inv inc V0 (vis, fin @ [u], st) \<Longrightarrow>
      P (vis, fin @ [u], st)"
  shows "dfs_inv inc V0 s \<Longrightarrow> P s \<Longrightarrow> \<exists>vis' fin'. dfs_loop g inc s = Some (vis', fin') \<and>
     dfs_inv inc V0 (vis', fin', []) \<and> P (vis', fin', [])"
proof (induction "dfs_weight s" arbitrary: s rule: less_induct)
  case less
  obtain vis fin st where s: "s = (vis, fin, st)" by (cases s) auto
  show ?case
  proof (cases st)
    case Nil
    with less.prems s show ?thesis by (simp add: dfs_loop_eqs(1))
  next
    case (Cons frame rest)
    obtain u i where s: "s = (vis, fin, (u, i) # rest)" using s Cons by (cases frame) auto
    obtain t j where nx: "next_edge_target inc (drop i (successors g u)) i = (t, j)" by fastforce
    show ?thesis
    proof (cases t)
      case None
      with nx have nx: "next_edge_target inc (drop i (successors g u)) i = (None, j)" by simp
      note st = dfs_step_pop[OF less.prems(1)[unfolded s] nx]
      from less.hyps[OF st(2)[folded s] st(1) pop[OF less.prems(2)[unfolded s] st(1)]]
        dfs_loop_eqs(2)[OF nx, of vis fin rest] s show ?thesis by simp
    next
      case (Some t')
      with nx have nx: "next_edge_target inc (drop i (successors g u)) i = (Some t', j)" by simp
      note st = dfs_step_edge[OF less.prems(1)[unfolded s] nx]
      have len: "t' < length vis" using st(1) dfs_invD(1)[OF less.prems(1)[unfolded s]] by simp
      show ?thesis
      proof (cases "vis ! t'")
        case True
        from less.hyps[of "(vis, fin, (u, j) # rest)"] st(3)[OF True] skip[OF less.prems(2)[unfolded s], of j]
          dfs_loop_eqs(3)[OF nx True, of fin rest] s show ?thesis by simp
      next
        case False
        then have "t' \<notin> flagged vis" by (simp add: flagged_def)
        from less.hyps[of "(vis[t' := True], fin, (t', 0) # (u, j) # rest)"] st(4)[OF False]
          push[OF less.prems(2)[unfolded s] less.prems(1)[unfolded s] st(2) this flagged_update[OF len], of j]
          dfs_loop_eqs(4)[OF nx False, of fin rest] s show ?thesis by simp
      qed
    qed
  qed
qed

text \<open>The flags only grow, and only by nodes that the stack reaches.\<close>

lemma dfs_returns:
  assumes "dfs_inv inc V0 (vis, fin, st)"
  shows "\<exists>vis' fin'. dfs_loop g inc (vis, fin, st) = Some (vis', fin') \<and>
     dfs_inv inc V0 (vis', fin', []) \<and> flagged vis \<subseteq> flagged vis' \<and>
     flagged vis' \<subseteq> flagged vis \<union> (A inc)\<^sup>* `` (fst ` set st)"
proof -
  let ?R = "(A inc)\<^sup>* `` (fst ` set st)"
  let ?P = "\<lambda>(v, f :: nat list, q :: (nat \<times> nat) list).
    flagged vis \<subseteq> flagged v \<and> flagged v \<subseteq> flagged vis \<union> ?R \<and> fst ` set q \<subseteq> ?R"
  have edge: "(u, t) \<in> A inc \<Longrightarrow> u \<in> ?R \<Longrightarrow> t \<in> ?R" for u t by (auto intro: rtrancl_into_rtrancl)
  have "?P (v[t := True], f, (t, 0) # (u, j) # q)"
    if "?P (v, f, (u, i) # q)" "(u, t) \<in> A inc" "flagged (v[t := True]) = insert t (flagged v)"
    for v f q u i t j
  proof -
    from that(1) have "u \<in> ?R" by simp
    from edge[OF that(2) this] that(1,3) show ?thesis by auto
  qed
  from dfs_rule[of ?P inc V0, OF this _ _ assms] show ?thesis by fastforce
qed

lemma finish_order_visits:
  assumes "length vis = count" and "x < count"
    and closed: "\<And>u v. u \<in> flagged vis \<Longrightarrow> (u, v) \<in> A inc \<Longrightarrow> v \<in> flagged vis"
  shows "\<exists>vis' order. depth_first_finish_order_with_visited g x inc vis = Some (vis', order) \<and>
    length vis' = count \<and> flagged vis' = flagged vis \<union> set order \<and> x \<in> flagged vis' \<and>
    set order \<subseteq> flagged vis \<union> (A inc)\<^sup>* `` {x} \<and>
    (\<forall>u v. u \<in> flagged vis' \<longrightarrow> (u, v) \<in> A inc \<longrightarrow> v \<in> flagged vis')"
proof (cases "vis ! x")
  case True
  then have "x \<in> flagged vis" using assms(1,2) by (simp add: flagged_def)
  with True assms(1) closed show ?thesis by (auto simp: depth_first_finish_order_with_visited_def)
next
  case False
  let ?vis = "vis[x := True]"
  have fl: "flagged ?vis = insert x (flagged vis)" using assms(1,2) by (simp add: flagged_update)
  have "dfs_inv inc (flagged vis) (?vis, [], [(x, 0)])" using assms(1,2) fl by (auto simp: dfs_inv_def frame_ok_def)
  from dfs_returns[OF this] obtain vis' order where
    r: "dfs_loop g inc (?vis, [], [(x, 0)]) = Some (vis', order)" and
    i: "dfs_inv inc (flagged vis) (vis', order, [])" and
    mono: "flagged ?vis \<subseteq> flagged vis'" and sub: "flagged vis' \<subseteq> flagged ?vis \<union> (A inc)\<^sup>* `` {x}" by auto
  from i have fl': "length vis' = count" "flagged vis' = flagged vis \<union> set order"
    and fin: "\<forall>u\<in>set order. \<forall>v. (u, v) \<in> A inc \<longrightarrow> v \<in> flagged vis'" by (auto simp: dfs_inv_def closed_at_def)
  have "x \<in> flagged vis'" using mono fl by auto
  with r fl' fin sub fl closed False assms(2) show ?thesis
    by (auto simp: depth_first_finish_order_with_visited_def)
qed

lemma flagged_fresh [simp]: "flagged (replicate n False) = {}"
  by (simp add: flagged_def)

theorem finish_order_exact:
  assumes "x < count"
  shows "\<exists>order. depth_first_finish_order g x inc = Some order \<and> set order = (A inc)\<^sup>* `` {x}"
proof -
  from finish_order_visits[of "replicate count False" x inc] assms obtain vis' order where
    r: "depth_first_finish_order_with_visited g x inc (replicate count False) = Some (vis', order)" and
    o: "x \<in> set order" "set order \<subseteq> (A inc)\<^sup>* `` {x}"
      "\<forall>u v. u \<in> set order \<longrightarrow> (u, v) \<in> A inc \<longrightarrow> v \<in> set order" by auto
  have "v \<in> set order" if "(x, v) \<in> (A inc)\<^sup>*" for v
    using that by (induction rule: rtrancl_induct) (use o in auto)
  with o r show ?thesis by (auto simp: depth_first_finish_order_def)
qed

section \<open>The order of the search\<close>

text \<open>
  A node is settled in a finish order when the last node it reaches also reaches it. A finished node
  that is not settled yet is anchored: the lowest node of the stack that it reaches also reaches it.
\<close>

definition settled :: "bool \<Rightarrow> nat list \<Rightarrow> nat \<Rightarrow> bool" where
  "settled inc L y \<longleftrightarrow> (\<exists>L1 z L2. L = L1 @ z # L2 \<and> (y, z) \<in> (A inc)\<^sup>* \<and> (z, y) \<in> (A inc)\<^sup>* \<and>
     (\<forall>w. (y, w) \<in> (A inc)\<^sup>* \<longrightarrow> w \<in> set (L1 @ [z])))"

definition anchored :: "bool \<Rightarrow> nat list \<Rightarrow> nat \<Rightarrow> bool" where
  "anchored inc ns y \<longleftrightarrow> (\<exists>pre s post. ns = pre @ s # post \<and> (y, s) \<in> (A inc)\<^sup>* \<and> (s, y) \<in> (A inc)\<^sup>* \<and>
     (\<forall>x\<in>set post. (y, x) \<notin> (A inc)\<^sup>*))"

lemma settled_append: "settled inc L y \<Longrightarrow> settled inc (L @ M) y"
  unfolding settled_def by (metis append_assoc append_Cons)

lemma settled_last:
  assumes "(y, z) \<in> (A inc)\<^sup>*" and "(z, y) \<in> (A inc)\<^sup>*" and "\<And>w. (y, w) \<in> (A inc)\<^sup>* \<Longrightarrow> w \<in> set (L @ [z])"
  shows "settled inc (L @ [z]) y"
  unfolding settled_def using assms by (intro exI[of _ L] exI[of _ z] exI[of _ "[]"]) auto

lemma settled_reach: "settled inc L y \<Longrightarrow> (y, w) \<in> (A inc)\<^sup>* \<Longrightarrow> w \<in> set L"
  by (auto simp: settled_def)

lemma anchored_push: "anchored inc ns y \<Longrightarrow> anchored inc (t # ns) y"
  unfolding anchored_def by (metis append_Cons)

lemma anchored_pop:
  assumes "anchored inc (u # ns) y"
  shows "anchored inc ns y \<or> (y, u) \<in> (A inc)\<^sup>* \<and> (u, y) \<in> (A inc)\<^sup>* \<and> (\<forall>x\<in>set ns. (y, x) \<notin> (A inc)\<^sup>*)"
proof -
  from assms obtain pre s post where p: "u # ns = pre @ s # post" "(y, s) \<in> (A inc)\<^sup>*" "(s, y) \<in> (A inc)\<^sup>*"
    "\<forall>x\<in>set post. (y, x) \<notin> (A inc)\<^sup>*" by (auto simp: anchored_def)
  then show ?thesis by (cases pre) (auto simp: anchored_def)
qed

lemma stack_reaches_top:
  "successively (\<lambda>x y. (y, x) \<in> A inc) (u # ns) \<Longrightarrow> s \<in> set ns \<Longrightarrow> (s, u) \<in> (A inc)\<^sup>*"
  by (induction ns arbitrary: u) (auto intro: rtrancl_into_rtrancl)

definition order_inv :: "bool \<Rightarrow> nat list \<Rightarrow> bool list \<times> nat list \<times> (nat \<times> nat) list \<Rightarrow> bool" where
  "order_inv inc acc = (\<lambda>(vis, fin, st). distinct (acc @ fin @ map fst st) \<and>
     successively (\<lambda>x y. (y, x) \<in> A inc) (map fst st) \<and> (\<forall>y\<in>set acc. settled inc acc y) \<and>
     (\<forall>y\<in>set fin. settled inc (acc @ fin) y \<or> anchored inc (map fst st) y))"

lemma order_push:
  assumes "order_inv inc acc (vis, fin, (u, i) # st)" and "dfs_inv inc (set acc) (vis, fin, (u, i) # st)"
    and "(u, t) \<in> A inc" and "t \<notin> flagged vis"
  shows "order_inv inc acc (vis[t := True], fin, (t, 0) # (u, j) # st)"
proof -
  have "t \<notin> set acc \<union> set fin \<union> insert u (fst ` set st)" using assms(4) dfs_invD(2)[OF assms(2)] by simp
  with assms(1,3) show ?thesis by (auto simp: order_inv_def intro: anchored_push)
qed

lemma order_pop:
  assumes ord: "order_inv inc acc (vis, fin, (u, i) # st)" and inv: "dfs_inv inc (set acc) (vis, fin @ [u], st)"
  shows "order_inv inc acc (vis, fin @ [u], st)"
proof -
  let ?L = "acc @ fin @ [u]" and ?ns = "map fst st"
  note I = dfs_invD[OF inv]
  from ord have acc: "\<forall>y\<in>set acc. settled inc acc y" and chain: "successively (\<lambda>x y. (y, x) \<in> A inc) (u # ?ns)"
    and fin: "\<forall>y\<in>set fin. settled inc (acc @ fin) y \<or> anchored inc (u # ?ns) y" by (auto simp: order_inv_def)
  have reach: "w \<in> set ?L" if "(y, w) \<in> (A inc)\<^sup>*" "y \<in> set (fin @ [u])" "\<forall>x\<in>set ?ns. (y, x) \<notin> (A inc)\<^sup>*" for y w
    using that(1)
  proof (induction rule: rtrancl_induct)
    case (step w w')
    show ?case
    proof (cases "w \<in> set acc")
      case True
      with acc settled_reach[of inc acc w w'] r_into_rtrancl[OF step.hyps(2)] show ?thesis by simp
    next
      case False
      with step have "w \<in> set (fin @ [u])" by auto
      with I(4) step.hyps(2) have "w' \<in> flagged vis" by (auto simp: closed_at_def)
      moreover have "(y, w') \<in> (A inc)\<^sup>*" using step.hyps by (rule rtrancl_into_rtrancl)
      ultimately show ?thesis using I(2) that(3) by auto
    qed
  qed (use that(2) in auto)
  have last: "settled inc ?L y" if "(y, u) \<in> (A inc)\<^sup>*" "(u, y) \<in> (A inc)\<^sup>*" "y \<in> set (fin @ [u])"
    "\<forall>x\<in>set ?ns. (y, x) \<notin> (A inc)\<^sup>*" for y
    using settled_last[OF that(1,2), of "acc @ fin"] reach[OF _ that(3,4)] by simp
  have "settled inc ?L y \<or> anchored inc ?ns y" if "y \<in> set fin" for y
  proof (cases "settled inc (acc @ fin) y")
    case True
    then show ?thesis using settled_append[of inc "acc @ fin" y "[u]"] by simp
  next
    case False
    with fin that anchored_pop last[of y] show ?thesis by fastforce
  qed
  moreover have "settled inc ?L u \<or> anchored inc ?ns u"
  proof (cases "\<exists>x\<in>set ?ns. (u, x) \<in> (A inc)\<^sup>*")
    case True
    then obtain pre s post where "?ns = pre @ s # post" "(u, s) \<in> (A inc)\<^sup>*" "\<forall>x\<in>set post. (u, x) \<notin> (A inc)\<^sup>*"
      by (rule split_list_last_propE) auto
    with stack_reaches_top[OF chain, of s] show ?thesis unfolding anchored_def by auto
  next
    case False
    with last[of u] show ?thesis by simp
  qed
  ultimately show ?thesis using ord by (auto simp: order_inv_def successively_Cons)
qed

lemma finish_order_settles:
  assumes "length vis = count" and "x < count" and "flagged vis = set acc" and "distinct acc"
    and "\<forall>y\<in>set acc. settled inc acc y"
    and "depth_first_finish_order_with_visited g x inc vis = Some (vis', order)"
  shows "distinct (acc @ order) \<and> (\<forall>y\<in>set (acc @ order). settled inc (acc @ order) y)"
proof (cases "vis ! x")
  case True
  with assms show ?thesis by (auto simp: depth_first_finish_order_with_visited_def)
next
  case False
  let ?s = "(vis[x := True], [], [(x, 0)])"
  from False assms(1-3) have x: "x \<notin> set acc" by (auto simp: flagged_def)
  have "dfs_inv inc (set acc) ?s"
    using assms(1-3) by (auto simp: dfs_inv_def frame_ok_def flagged_update)
  moreover have "order_inv inc acc ?s"
    using x assms(4,5) by (auto simp: order_inv_def anchored_def intro: exI[of _ "[]"])
  moreover have "dfs_loop g inc ?s = Some (vis', order)"
    using assms(2,6) False by (simp add: depth_first_finish_order_with_visited_def)
  ultimately have "order_inv inc acc (vis', order, [])"
    using dfs_rule[of "order_inv inc acc" inc "set acc" ?s, OF order_push _ order_pop]
    by (fastforce simp: order_inv_def)
  with settled_append[of inc acc _ order] show ?thesis by (auto simp: order_inv_def anchored_def)
qed

lemma finish_orders_cover:
  assumes "length vis = count" and "\<forall>x\<in>set xs. x < count" and "flagged vis = set acc"
    and "\<forall>u v. u \<in> flagged vis \<longrightarrow> (u, v) \<in> A inc \<longrightarrow> v \<in> flagged vis"
    and "distinct acc" and "\<forall>y\<in>set acc. settled inc acc y"
  shows "\<exists>order. finish_orders g inc xs vis acc = Some order \<and> set acc \<union> set xs \<subseteq> set order \<and>
    set order \<subseteq> {..<count} \<and> distinct order \<and> (\<forall>y\<in>set order. settled inc order y)"
  using assms
proof (induction xs arbitrary: vis acc)
  case Nil
  then show ?case by (auto simp: flagged_def)
next
  case (Cons x xs)
  show ?case
  proof (cases "vis ! x")
    case True
    with Cons.prems have "x \<in> set acc" by (auto simp: flagged_def)
    with True Cons.IH[of vis acc] Cons.prems show ?thesis by auto
  next
    case False
    from finish_order_visits[of vis x inc] Cons.prems obtain vis' order where
      r: "depth_first_finish_order_with_visited g x inc vis = Some (vis', order)" and
      l: "length vis' = count" "flagged vis' = flagged vis \<union> set order" "x \<in> flagged vis'"
        "\<forall>u v. u \<in> flagged vis' \<longrightarrow> (u, v) \<in> A inc \<longrightarrow> v \<in> flagged vis'" by auto
    have "distinct (acc @ order) \<and> (\<forall>y\<in>set (acc @ order). settled inc (acc @ order) y)"
      using finish_order_settles[OF Cons.prems(1) _ Cons.prems(3,5,6) r] Cons.prems(2) by simp
    with Cons.IH[of vis' "acc @ order"] Cons.prems l obtain res where
      "finish_orders g inc xs vis' (acc @ order) = Some res" "set (acc @ order) \<union> set xs \<subseteq> set res"
      "set res \<subseteq> {..<count}" "distinct res" "\<forall>y\<in>set res. settled inc res y" by auto
    with r False l(2,3) Cons.prems(3) show ?thesis by auto
  qed
qed

theorem finish_orders_total:
  "\<exists>order. finish_orders g inc [0..<count] (replicate count False) [] = Some order \<and>
     set order = {..<count} \<and> distinct order \<and> (\<forall>y<count. settled inc order y)"
  using finish_orders_cover[of "replicate count False" "[0..<count]" "[]" inc] by fastforce

end

end
