(* ===== verification/Graph_Dominators.thy ===== *)
theory Graph_Dominators
  imports Graph_Search_Order
begin

text \<open>
  Correctness of the iterative dominator computation. The reference definition is the textbook one:
  a node dominates another when it is on every walk from the entry to it. Two invariants carry the
  proof: the sets never lose a true dominator, and after \<open>k\<close> passes they are bounded by every walk
  of at most \<open>k + 1\<close> nodes. Since every walk contains a simple one, \<open>count + 1\<close> passes suffice; a
  pass that changes nothing is a fixed point, so stopping there loses nothing.
\<close>

section \<open>Walks and their nodes\<close>

lemma walk_reaches: "walk R u p v \<Longrightarrow> x \<in> set p \<Longrightarrow> (u, x) \<in> R\<^sup>*"
proof (induction p arbitrary: u)
  case (Cons z p)
  then have "z = u" by (simp add: walk_def)
  with Cons show ?case by (auto simp: walk_Cons intro: converse_rtrancl_into_rtrancl)
qed (simp add: walk_def)

lemma walk_split: "walk R u (p @ x # q) v \<Longrightarrow> walk R x (x # q) v"
  by (auto simp: walk_def successively_append_iff)

lemma walk_ends: "walk R u p v \<Longrightarrow> u \<in> set p \<and> v \<in> set p"
  by (auto simp: walk_def)

lemma walk_snoc:
  assumes "walk R u p v" and "u \<noteq> v"
  obtains q w where "p = q @ [v]" and "walk R u q w" and "(w, v) \<in> R"
proof -
  from assms obtain q where p: "p = q @ [v]" by (metis walk_def append_butlast_last_id)
  with assms have "q \<noteq> []" by (auto simp: walk_def)
  with assms p have "walk R u q (last q)" "(last q, v) \<in> R" by (auto simp: walk_def successively_append_iff)
  with p that show ?thesis by blast
qed

lemma walk_simple:
  "walk R u p v \<Longrightarrow> \<exists>q. walk R u q v \<and> distinct q \<and> set q \<subseteq> set p"
proof (induction p arbitrary: u)
  case (Cons z p)
  then have z: "z = u" by (simp add: walk_def)
  show ?case
  proof (cases "p = []")
    case True
    with Cons.prems z show ?thesis by (intro exI[of _ "[u]"]) simp
  next
    case False
    with Cons.prems z obtain w where w: "(u, w) \<in> R" "walk R w p v" by (auto simp: walk_Cons)
    with Cons.IH obtain q where q: "walk R w q v" "distinct q" "set q \<subseteq> set p" by blast
    show ?thesis
    proof (cases "u \<in> set q")
      case True
      then obtain a b where ab: "q = a @ u # b" by (meson split_list)
      with q have "walk R u (u # b) v" "distinct (u # b)" by (auto intro: walk_split)
      with ab q(3) show ?thesis by (intro exI[of _ "u # b"]) auto
    next
      case False
      with w(1) q z show ?thesis by (intro exI[of _ "u # q"]) (auto simp: walk_Cons)
    qed
  qed
qed (simp add: walk_def)

section \<open>The dominator passes\<close>

context indexed_graph
begin

abbreviation entry :: nat where "entry \<equiv> gi_entry g"
abbreviation live :: "nat set" where "live \<equiv> E\<^sup>* `` {entry}"

definition Dom :: "nat \<Rightarrow> nat set" where
  "Dom v = {c. \<forall>p. walk E entry p v \<longrightarrow> c \<in> set p}"

definition upto_walks :: "nat \<Rightarrow> NodeSet list \<Rightarrow> nat \<Rightarrow> bool" where
  "upto_walks k D v \<longleftrightarrow> (\<forall>p. walk E entry p v \<longrightarrow> length p \<le> k \<longrightarrow> nset (D ! v) \<subseteq> set p)"

definition dom_inv :: "NodeSet list \<Rightarrow> bool" where
  "dom_inv D \<longleftrightarrow> length D = count \<and> (\<forall>v<count. nset_wf (D ! v)) \<and>
     (\<forall>v<count. v \<notin> live \<longrightarrow> nset (D ! v) = {}) \<and> nset (D ! entry) = {entry} \<and>
     (\<forall>v\<in>live. Dom v \<subseteq> nset (D ! v))"

lemma live_bound: "v \<in> live \<Longrightarrow> v < count"
  using path_bound entry_bound by auto

lemma fold_intersect:
  assumes "nset_wf s" and "\<forall>p\<in>set ps. nset_wf (D ! p)"
  shows "nset_wf (foldl (\<lambda>s p. NodeSet_intersect s (D ! p)) s ps) \<and>
    nset (foldl (\<lambda>s p. NodeSet_intersect s (D ! p)) s ps) = nset s \<inter> (\<Inter>p\<in>set ps. nset (D ! p))"
  using assms by (induction ps arbitrary: s) auto

lemma update_live:
  assumes r: "nset_wf r" "nset r = live" and inv: "dom_inv D" and v: "v \<in> live" "v \<noteq> entry"
  shows "\<exists>n. dominator_update g r (D, ch) v = (D[v := n], ch \<or> n \<noteq> D ! v) \<and> nset_wf n \<and>
    nset n = insert v (\<Inter>p\<in>{u. (u, v) \<in> E \<and> u \<in> live}. nset (D ! p))"
proof -
  let ?ps = "filter (NodeSet_contains r) (nth_or_nil (gi_predecessors g) v)"
  have ps: "set ?ps = {u. (u, v) \<in> E \<and> u \<in> live}"
    using predecessors_eq[OF live_bound[OF v(1)]] r(2) by (auto simp flip: nset_iff)
  from v have "(entry, v) \<in> E\<^sup>*" by simp
  with v(2) obtain u where "(entry, u) \<in> E\<^sup>*" "(u, v) \<in> E" by (metis rtrancl.cases)
  with ps have "u \<in> set ?ps" by auto
  then obtain f rest where fi: "?ps = f # rest" by (cases ?ps) auto
  have wf: "nset_wf (D ! p)" if "p \<in> set ?ps" for p
    using that ps inv live_bound by (auto simp: dom_inv_def)
  let ?n = "NodeSet_insert v (foldl (\<lambda>s p. NodeSet_intersect s (D ! p)) (D ! f) rest)"
  have v1024: "v < 1024" using live_bound[OF v(1)] count_bound by simp
  from fold_intersect[of "D ! f" rest D] wf fi v1024
  have n: "nset_wf ?n" "nset ?n = insert v (nset (D ! f) \<inter> (\<Inter>p\<in>set rest. nset (D ! p)))" by auto
  have "(\<Inter>p\<in>set ?ps. nset (D ! p)) = nset (D ! f) \<inter> (\<Inter>p\<in>set rest. nset (D ! p))" unfolding fi by simp
  with n(2) have n2: "nset ?n = insert v (\<Inter>p\<in>{u. (u, v) \<in> E \<and> u \<in> live}. nset (D ! p))" unfolding ps by simp
  have "NodeSet_contains r v" using v r(2) by (simp flip: nset_iff)
  then have "dominator_update g r (D, ch) v = (D[v := ?n], ch \<or> ?n \<noteq> D ! v)"
    using v(2) fi by (simp add: dominator_update_def Let_def list_update_id)
  with n(1) n2 show ?thesis by blast
qed

lemma update_keeps:
  assumes inv: "dom_inv D" and v: "v \<in> live" "v \<noteq> entry" and n: "nset_wf n"
    "nset n = insert v (\<Inter>p\<in>{u. (u, v) \<in> E \<and> u \<in> live}. nset (D ! p))"
  shows "dom_inv (D[v := n])"
proof -
  have "Dom v \<subseteq> nset n"
  proof
    fix c assume c: "c \<in> Dom v"
    have "c \<in> nset (D ! u)" if u: "(u, v) \<in> E" "u \<in> live" "c \<noteq> v" for u
    proof -
      have "c \<in> Dom u" using c u(1,3) walk_append[OF _ u(1)] by (fastforce simp: Dom_def)
      with inv u(2) show ?thesis by (auto simp: dom_inv_def)
    qed
    with n(2) show "c \<in> nset n" by auto
  qed
  with inv v n(1) live_bound[OF v(1)] show ?thesis by (auto simp: dom_inv_def nth_list_update)
qed

lemma update_tightens:
  assumes inv: "dom_inv D" and up: "\<forall>u\<in>live. upto_walks k D u" and v: "v \<in> live" "v \<noteq> entry"
    and n: "nset n = insert v (\<Inter>p\<in>{u. (u, v) \<in> E \<and> u \<in> live}. nset (D ! p))"
  shows "upto_walks (Suc k) (D[v := n]) v"
  unfolding upto_walks_def
proof (intro allI impI)
  fix p assume p: "walk E entry p v" "length p \<le> Suc k"
  with v(2) obtain q w where q: "p = q @ [v]" "walk E entry q w" "(w, v) \<in> E" by (metis walk_snoc)
  then have "w \<in> live" using walk_rtrancl[of E entry w] by auto
  moreover from this up p(2) q(1,2) have "nset (D ! w) \<subseteq> set q" by (auto simp: upto_walks_def)
  ultimately have "nset n \<subseteq> set p" using n q(1,3) by auto
  moreover have "v < length D" using inv live_bound[OF v(1)] by (simp add: dom_inv_def)
  ultimately show "nset (D[v := n] ! v) \<subseteq> set p" by simp
qed

lemma upto_entry: "dom_inv D \<Longrightarrow> upto_walks k D entry"
  using walk_ends by (fastforce simp: upto_walks_def dom_inv_def)

lemma upto_mono: "upto_walks (Suc k) D v \<Longrightarrow> upto_walks k D v"
  by (auto simp: upto_walks_def)

lemma upto_other: "v \<noteq> w \<Longrightarrow> upto_walks k (D[v := n]) w = upto_walks k D w"
  by (simp add: upto_walks_def)

lemma pass_spec:
  assumes r: "nset_wf r" "nset r = live"
  shows "dom_inv D \<Longrightarrow> \<forall>u\<in>live. upto_walks k D u \<Longrightarrow> \<forall>u\<in>S. upto_walks (Suc k) D u \<Longrightarrow> set vs \<subseteq> live \<Longrightarrow>
    \<exists>D' ch'. foldl (dominator_update g r) (D, ch) vs = (D', ch') \<and> dom_inv D' \<and>
      (\<forall>u\<in>live. upto_walks k D' u) \<and> (\<forall>u\<in>S \<union> set vs. upto_walks (Suc k) D' u) \<and> (\<not> ch' \<longrightarrow> D' = D \<and> \<not> ch)"
proof (induction vs arbitrary: D ch S)
  case (Cons v vs)
  from Cons.prems have v: "v \<in> live" by simp
  obtain D1 ch1 where d1: "dominator_update g r (D, ch) v = (D1, ch1)" "dom_inv D1"
    "\<forall>u\<in>live. upto_walks k D1 u" "\<forall>u\<in>insert v S. upto_walks (Suc k) D1 u" "\<not> ch1 \<longrightarrow> D1 = D \<and> \<not> ch"
  proof (cases "v = entry")
    case True
    with Cons.prems that[of D ch] show ?thesis by (auto simp: dominator_update_def upto_entry)
  next
    case False
    from update_live[OF r Cons.prems(1) v False, of ch] obtain n where
      n: "dominator_update g r (D, ch) v = (D[v := n], ch \<or> n \<noteq> D ! v)" "nset_wf n"
        "nset n = insert v (\<Inter>p\<in>{u. (u, v) \<in> E \<and> u \<in> live}. nset (D ! p))" by blast
    note t = update_tightens[OF Cons.prems(1,2) v False n(3)]
    have "upto_walks k (D[v := n]) u" if "u \<in> live" for u
      using that Cons.prems(2) t upto_mono upto_other by (cases "u = v") auto
    moreover have "upto_walks (Suc k) (D[v := n]) u" if "u \<in> insert v S" for u
      using that Cons.prems(3) t upto_other by (cases "u = v") auto
    ultimately show ?thesis
      using that[OF n(1) update_keeps[OF Cons.prems(1) v False n(2,3)]] by auto
  qed
  from Cons.IH[OF d1(2-4), of ch1] Cons.prems(4) obtain D' ch' where
    "foldl (dominator_update g r) (D1, ch1) vs = (D', ch')" "dom_inv D'" "\<forall>u\<in>live. upto_walks k D' u"
    "\<forall>u\<in>insert v S \<union> set vs. upto_walks (Suc k) D' u" "\<not> ch' \<longrightarrow> D' = D1 \<and> \<not> ch1" by auto
  then show ?case using d1 by auto
qed auto

lemma unchanged_pass_fixed:
  assumes r: "nset_wf r" "nset r = live" and vs: "set vs = live"
    and inv: "dom_inv D" and up: "\<forall>u\<in>live. upto_walks 1 D u"
    and same: "foldl (dominator_update g r) (D, False) vs = (D', False)"
  shows "\<forall>u\<in>live. upto_walks k D u"
proof (induction k)
  case (Suc k)
  from pass_spec[OF r inv Suc, of "{}" vs False] vs same show ?case by auto
qed (simp add: upto_walks_def walk_def)

lemma passes_spec:
  assumes r: "nset_wf r" "nset r = live" and vs: "set vs = live"
  shows "dom_inv D \<Longrightarrow> \<forall>u\<in>live. upto_walks (Suc k) D u \<Longrightarrow>
    dom_inv (dominator_passes g r vs n D) \<and> (\<forall>u\<in>live. upto_walks (Suc k + n) (dominator_passes g r vs n D) u)"
proof (induction n arbitrary: D k)
  case (Suc n)
  from pass_spec[OF r Suc.prems(1,2), of "{}" vs False] vs obtain D' ch' where
    d: "foldl (dominator_update g r) (D, False) vs = (D', ch')" "dom_inv D'"
      "\<forall>u\<in>live. upto_walks (Suc (Suc k)) D' u" "\<not> ch' \<longrightarrow> D' = D" by auto
  show ?case
  proof (cases ch')
    case True
    with Suc.IH[OF d(2,3)] d(1) show ?thesis by simp
  next
    case False
    have "\<forall>u\<in>live. upto_walks 1 D u" using Suc.prems(2) by (auto simp: upto_walks_def)
    from unchanged_pass_fixed[OF r vs Suc.prems(1) this] d False show ?thesis by auto
  qed
qed simp

lemma initial_inv:
  assumes r: "nset_wf r" "nset r = live" and all: "nset_wf a" "nset a = live"
    and D: "D = map (\<lambda>v. if v = entry then NodeSet_insert v NodeSet_empty
              else if NodeSet_contains r v then a else NodeSet_empty) [0..<count]"
  shows "dom_inv D" and "\<forall>u\<in>live. upto_walks 1 D u"
proof -
  have e: "entry < 1024" using entry_bound count_bound by simp
  have at: "D ! v = (if v = entry then NodeSet_insert v NodeSet_empty else if v \<in> live then a else NodeSet_empty)"
    if "v < count" for v using that D r(2) by (auto simp flip: nset_iff)
  have "Dom entry \<subseteq> {entry}" using walk_single[of E entry] by (force simp: Dom_def)
  moreover have "Dom v \<subseteq> live" if "v \<in> live" for v
    using that walk_reaches[of E entry] walk_rtrancl[of E entry v] by (auto simp: Dom_def)
  ultimately show "dom_inv D"
    using at e entry_bound live_bound all by (auto simp: dom_inv_def D)
  then show "\<forall>u\<in>live. upto_walks 1 D u"
    by (auto simp: upto_walks_def walk_def le_Suc_eq length_Suc_conv dom_inv_def)
qed

lemma enough_passes:
  assumes "dom_inv D" and "upto_walks k D v" and "v \<in> live" and "count \<le> k"
  shows "nset (D ! v) = Dom v"
proof
  show "Dom v \<subseteq> nset (D ! v)" using assms(1,3) by (simp add: dom_inv_def)
  show "nset (D ! v) \<subseteq> Dom v"
  proof
    fix c assume c: "c \<in> nset (D ! v)"
    have "c \<in> set p" if p: "walk E entry p v" for p
    proof -
      from walk_simple[OF p] obtain q where q: "walk E entry q v" "distinct q" "set q \<subseteq> set p" by blast
      have "set q \<subseteq> {..<count}" using walk_reaches[OF q(1)] live_bound by auto
      then have "length q \<le> count" using q(2) distinct_card[of q] card_mono[of "{..<count}" "set q"] by simp
      with assms(4) have "length q \<le> k" by simp
      with assms(2) q(1) have "nset (D ! v) \<subseteq> set q" by (simp add: upto_walks_def)
      with q(3) c show ?thesis by auto
    qed
    then show "c \<in> Dom v" by (simp add: Dom_def)
  qed
qed

theorem dominators_exact:
  "\<exists>doms. dominators g = Some doms \<and> length doms = count \<and>
     (\<forall>c v. dominates doms c v \<longleftrightarrow> v \<in> live \<and> (\<forall>p. walk E entry p v \<longrightarrow> c \<in> set p))"
proof -
  from reachable_exact[OF entry_bound] obtain r where
    r: "reachable_from g entry = Some r" "nset_wf r" "nset r = live" by blast
  let ?a = "foldl (\<lambda>s v. if NodeSet_contains r v then NodeSet_insert v s else s) NodeSet_empty [0..<count]"
  have "\<forall>i\<in>set [0..<count]. i < 1024" using count_bound by auto
  from collect_bits[OF this nset_wf_simps(1), of "NodeSet_contains r"]
  have a: "nset_wf ?a" "nset ?a = live" using r(3) live_bound by (auto simp flip: nset_iff)
  from finish_order_exact[OF entry_bound, of True] obtain order where
    o: "depth_first_finish_order g entry True = Some order" "set order = live" by (auto simp: included_all)
  let ?D = "map (\<lambda>v. if v = entry then NodeSet_insert v NodeSet_empty
              else if NodeSet_contains r v then ?a else NodeSet_empty) [0..<count]"
  let ?doms = "dominator_passes g r (rev order) (Suc count) ?D"
  note i = initial_inv[OF r(2,3) a refl]
  have "set (rev order) = live" using o(2) by simp
  note p = passes_spec[OF r(2,3) this i(1) i(2)[unfolded One_nat_def], of "Suc count"]
  have d: "dom_inv ?doms" "\<forall>u\<in>live. upto_walks (Suc 0 + Suc count) ?doms u"
    using p by (rule conjunct1, rule conjunct2)
  have "dominators g = Some ?doms" using r(1) o(1) by (simp add: dominators_def Let_def)
  moreover have len: "length ?doms = count" using d(1) by (simp only: dom_inv_def)
  moreover have "dominates ?doms c v \<longleftrightarrow> v \<in> live \<and> c \<in> Dom v" for c v
  proof (cases "v \<in> live")
    case True
    with enough_passes[OF d(1) bspec[OF d(2) True] True] live_bound[OF True] len show ?thesis
      by (simp del: dominator_passes.simps add: dominates_def nth_opt_def is_some_and_def flip: nset_iff)
  next
    case False
    with d(1) len show ?thesis
      by (auto simp del: dominator_passes.simps simp: dominates_def nth_opt_def is_some_and_def dom_inv_def
          simp flip: nset_iff)
  qed
  ultimately show ?thesis by (auto simp: Dom_def)
qed

end

end
