(* ===== verification/Graph_Components.thy ===== *)
theory Graph_Components
  imports Graph_Search_Order "HOL-Library.Multiset"
begin

text \<open>
  Correctness of the strongly connected components. The reversed adjacency lists the included
  predecessors; collecting one component is a work-list search of the reversed graph that records
  the nodes it pops; the components of the reversed finish order are exactly the classes of mutual
  reachability, and the cycle report is exact.
\<close>

section \<open>The reversed adjacency\<close>

lemma reverse_row_inner:
  "foldl (\<lambda>r e. if edge_included inc e then r[sc_target e := r ! sc_target e @ [u]] else r) rows es =
     foldl (add_predecessor u) rows (filter (edge_included inc) es)"
  by (induction es arbitrary: rows) (simp_all add: add_predecessor_def not_less list_update_beyond)

lemma reverse_row_outer:
  "length (foldl (\<lambda>reverse source.
      foldl (\<lambda>r e. if edge_included inc e then r[sc_target e := r ! sc_target e @ [source]] else r) reverse (ss source))
      (replicate n []) (us :: nat list)) = n \<and>
   (v < n \<longrightarrow> set (foldl (\<lambda>reverse source.
      foldl (\<lambda>r e. if edge_included inc e then r[sc_target e := r ! sc_target e @ [source]] else r) reverse (ss source))
      (replicate n []) us ! v) = {u \<in> set us. \<exists>e\<in>set (ss u). edge_included inc e \<and> sc_target e = v})"
proof (induction us rule: rev_induct)
  case (snoc u us)
  then show ?case
    using add_predecessor_row[of u _ "filter (edge_included inc) (ss u)" v] by (auto simp: reverse_row_inner)
qed simp

section \<open>Collecting one component\<close>

definition visit_logged ::
    "(bool list \<times> nat list) \<times> nat list \<Rightarrow> nat \<Rightarrow> (bool list \<times> nat list) \<times> nat list" where
  "visit_logged = (\<lambda>((assigned, component), stack) p.
     case visit_component (assigned, stack) p of (assigned', stack') \<Rightarrow> ((assigned', component), stack'))"

lemma visit_logged_fold:
  "foldl visit_logged ((a, c), q) ys = (case foldl visit_component (a, q) ys of (a', q') \<Rightarrow> ((a', c), q'))"
proof (induction ys arbitrary: a q)
  case (Cons y ys)
  obtain a' q' where "visit_component (a, q) y = (a', q')" by fastforce
  with Cons show ?case by (simp add: visit_logged_def)
qed simp

context indexed_graph
begin

lemma reverse_rows:
  "length (reverse_edges g inc) = count"
  "v < count \<Longrightarrow> set (reverse_edges g inc ! v) = {u. (u, v) \<in> A inc}"
  using reverse_row_outer[of inc "successors g" count "[0..<count]" v]
  by (auto simp: reverse_edges_def included_edges_def)

sublocale scc: logged_search "{..<count}" "\<lambda>x. rev (reverse_edges g inc ! x)" "\<lambda>_. False"
    "\<lambda>(assigned, component). length assigned = count" "\<lambda>(assigned, component). flagged assigned"
    "\<lambda>x (assigned, component). (assigned, component @ [x])" "\<lambda>_ _. visit_logged"
    "\<lambda>((assigned, component), stack). component_loop (reverse_edges g inc) (assigned, component, stack)" snd
  for inc
proof unfold_locales
  fix x assume "x \<in> {..<count}"
  then show "set (rev (reverse_edges g inc ! x)) \<subseteq> {..<count}"
    using reverse_rows(2)[of x inc] included_bounds by auto
next
  fix s :: "bool list \<times> nat list" and y q
  assume "case s of (assigned, component) \<Rightarrow> length assigned = count" "y \<in> {..<count}"
    "y \<notin> (case s of (assigned, component) \<Rightarrow> flagged assigned)"
  then show "\<exists>s' q'. visit_logged (s, q) y = (s', q') \<and>
      (case s' of (assigned, component) \<Rightarrow> length assigned = count) \<and>
      (case s' of (assigned, component) \<Rightarrow> flagged assigned) =
        insert y (case s of (assigned, component) \<Rightarrow> flagged assigned) \<and>
      set q' = insert y (set q) \<and> length q' = Suc (length q)"
    by (cases s) (auto simp: visit_logged_def visit_component_def flagged_update, auto simp: flagged_def)
next
  fix s :: "bool list \<times> nat list" and x q
  assume "case s of (assigned, component) \<Rightarrow> length assigned = count"
  show "(\<lambda>((assigned, component), stack). component_loop (reverse_edges g inc) (assigned, component, stack)) (s, x # q) =
      (\<lambda>((assigned, component), stack). component_loop (reverse_edges g inc) (assigned, component, stack))
        (foldl visit_logged ((\<lambda>(assigned, component). (assigned, component @ [x])) s, q) (rev (reverse_edges g inc ! x)))"
    by (cases s) (auto simp: visit_logged_fold split: prod.splits)
next
  fix s :: "bool list \<times> nat list" and y q
  show "snd (fst (visit_logged (s, q) y)) = snd s"
    by (cases s) (auto simp: visit_logged_def visit_component_def)
qed (auto simp: visit_logged_def visit_component_def flagged_def)

lemma scc_edges: "scc.edges inc = (A inc)\<inverse>"
  using reverse_rows(2) included_bounds by (auto simp: scc.edges_def)

text \<open>A search from an unassigned node assigns and records its unassigned ancestors.\<close>

lemma component_collects:
  assumes len: "length a = count" and x: "x < count" "x \<notin> flagged a"
    and closed: "\<And>u v. v \<in> flagged a \<Longrightarrow> (u, v) \<in> A inc \<Longrightarrow> u \<in> flagged a"
  shows "\<exists>a' c. component_loop (reverse_edges g inc) (a[x := True], [], [x]) = Some (a', c) \<and>
    length a' = count \<and> distinct c \<and> flagged a' = flagged a \<union> set c \<and>
    set c = {y. (y, x) \<in> (A inc)\<^sup>*} - flagged a"
proof -
  let ?s = "(a[x := True], [] :: nat list)"
  have fl: "flagged (a[x := True]) = insert x (flagged a)" using len x(1) by (simp add: flagged_update)
  have pend: "scc.pending inc ?s [x]" using len fl closed by (auto simp: scc.pending_def scc_edges)
  obtain a' c where r: "component_loop (reverse_edges g inc) (a[x := True], [], [x]) = Some (a', c)"
    and len': "length a' = count" and seen: "flagged a' = ((A inc)\<inverse>)\<^sup>* `` insert x (flagged a)"
    using scc.loop_marks_reachable[OF pend] by (auto simp: scc_edges fl)
  have log: "set c = insert x (flagged a' - insert x (flagged a))"
    using scc.loop_logs_marked[OF pend] r by (auto simp: fl)
  have "distinct c" using scc.loop_logs_distinct[OF pend] r by simp
  have "((A inc)\<inverse>)\<^sup>* `` flagged a = flagged a"
    using scc.closed_image[of "flagged a" inc] closed by (simp add: scc_edges)
  then have "flagged a' = flagged a \<union> {y. (y, x) \<in> (A inc)\<^sup>*}"
    using seen by (auto simp: rtrancl_converse)
  with log x(2) r len' \<open>distinct c\<close> show ?thesis by auto
qed

section \<open>The components are the classes of mutual reachability\<close>

definition scc_class :: "bool \<Rightarrow> nat \<Rightarrow> nat set" where
  "scc_class inc x = {y. (x, y) \<in> (A inc)\<^sup>* \<and> (y, x) \<in> (A inc)\<^sup>*}"

lemma scc_class_eq: "y \<in> scc_class inc x \<Longrightarrow> scc_class inc y = scc_class inc x"
  by (auto simp: scc_class_def intro: rtrancl_trans)

lemma settled_class:
  assumes L: "L = La @ x # Lb" "distinct L" and Lb: "set Lb \<subseteq> F" and x: "x \<notin> F"
    and closed: "\<And>u v. v \<in> F \<Longrightarrow> (u, v) \<in> (A inc)\<^sup>* \<Longrightarrow> u \<in> F"
    and y: "settled inc L y" "y \<notin> F" "(y, x) \<in> (A inc)\<^sup>*"
  shows "(x, y) \<in> (A inc)\<^sup>*"
proof -
  from y(1) obtain L1 z L2 where z: "L = L1 @ z # L2" "(y, z) \<in> (A inc)\<^sup>*" "(z, y) \<in> (A inc)\<^sup>*"
    "\<forall>w. (y, w) \<in> (A inc)\<^sup>* \<longrightarrow> w \<in> set (L1 @ [z])" by (auto simp: settled_def)
  have "z \<notin> set Lb" using closed[OF _ z(2)] y(2) Lb by auto
  have "z = x"
  proof (rule ccontr)
    assume "z \<noteq> x"
    with z(4) y(3) have "x \<in> set L1" by auto
    then obtain Ma Mb where "L1 = Ma @ x # Mb" by (meson split_list)
    with z(1) L have "La @ x # Lb = Ma @ x # Mb @ z # L2" "distinct (La @ x # Lb)" by simp_all
    then have "Lb = Mb @ z # L2" by (metis append_Cons append_eq_append_conv2 distinct_append
      distinct.simps(2) append_Cons_eq_iff not_distinct_conv_prefix)
    with \<open>z \<notin> set Lb\<close> show False by simp
  qed
  with z(3) show ?thesis by simp
qed

lemma collect_classes:
  assumes L: "L = rev starts @ Lb" "distinct L" "set L \<subseteq> {..<count}" "\<forall>y<count. settled inc L y"
    and len: "length a = count" and Lb: "set Lb \<subseteq> flagged a" "flagged a = (\<Union>c\<in>set cs. set c)"
    and closed: "\<And>u v. v \<in> flagged a \<Longrightarrow> (u, v) \<in> (A inc)\<^sup>* \<Longrightarrow> u \<in> flagged a"
    and cs: "\<forall>c\<in>set cs. distinct c \<and> (\<exists>x<count. set c = scc_class inc x)"
      "distinct (map set cs)"
  shows "\<exists>cs'. collect_components (reverse_edges g inc) a cs starts = Some cs' \<and>
    (\<forall>c\<in>set cs'. distinct c \<and> (\<exists>x<count. set c = scc_class inc x)) \<and> distinct (map set cs') \<and>
    set L \<subseteq> (\<Union>c\<in>set cs'. set c)"
  using assms
proof (induction starts arbitrary: a cs Lb)
  case (Cons x starts)
  from Cons.prems(1,3) have x: "x < count" by auto
  show ?case
  proof (cases "a ! x")
    case True
    with x Cons.prems(5) have "x \<in> flagged a" by (simp add: flagged_def)
    with Cons.IH[of "x # Lb" a cs] Cons.prems True show ?thesis by simp
  next
    case False
    then have xn: "x \<notin> flagged a" by (simp add: flagged_def)
    from component_collects[OF Cons.prems(5) x xn, of inc] Cons.prems(8) obtain a' c where
      r: "component_loop (reverse_edges g inc) (a[x := True], [], [x]) = Some (a', c)"
      and c: "length a' = count" "distinct c" "flagged a' = flagged a \<union> set c"
        "set c = {y. (y, x) \<in> (A inc)\<^sup>*} - flagged a" by blast
    have "(x, y) \<in> (A inc)\<^sup>*" if "y \<in> set c" for y
    proof -
      from that c(1,3) have "y < count" by (auto simp: flagged_def)
      with settled_class[of L "rev starts" x Lb "flagged a" inc y] Cons.prems xn c(4) that show ?thesis by simp
    qed
    moreover have "y \<notin> flagged a" if "(x, y) \<in> (A inc)\<^sup>*" for y using Cons.prems(8)[OF _ that] xn by blast
    ultimately have cls: "set c = scc_class inc x" using c(4) by (auto simp: scc_class_def)
    have "x \<in> set c" using cls by (simp add: scc_class_def)
    have "set c \<notin> set (map set cs)" using \<open>x \<in> set c\<close> xn Cons.prems(7) by auto
    moreover have "u \<in> flagged a'" if "v \<in> flagged a'" "(u, v) \<in> (A inc)\<^sup>*" for u v
      using that c(3,4) Cons.prems(8) by (auto intro: rtrancl_trans)
    ultimately have "\<exists>cs'. collect_components (reverse_edges g inc) a' (cs @ [c]) starts = Some cs' \<and>
      (\<forall>c\<in>set cs'. distinct c \<and> (\<exists>x<count. set c = scc_class inc x)) \<and> distinct (map set cs') \<and>
      set L \<subseteq> (\<Union>c\<in>set cs'. set c)"
    proof (intro Cons.IH[of "x # Lb" a' "cs @ [c]"])
      show "set (x # Lb) \<subseteq> flagged a'" using c(3) Cons.prems(6) \<open>x \<in> set c\<close> by auto
      show "flagged a' = (\<Union>c\<in>set (cs @ [c]). set c)" using c(3) Cons.prems(7) by auto
      show "\<forall>d\<in>set (cs @ [c]). distinct d \<and> (\<exists>x<count. set d = scc_class inc x)"
        using c(2) cls x Cons.prems(9) by auto
      show "distinct (map set (cs @ [c]))" if "set c \<notin> set (map set cs)" using that Cons.prems(10) by simp
    qed (use Cons.prems(1-4) c(1) in auto)
    with r False show ?thesis by (simp del: component_loop_eqs)
  qed
qed auto

text \<open>Sorting the components and their order does not change which sets they are.\<close>

lemma sorted_classes:
  fixes cs :: "nat list list" and k :: "nat list \<Rightarrow> nat"
  defines "cs' \<equiv> sort_key k (map sort cs)"
  assumes "\<forall>c\<in>set cs. distinct c \<and> Q (set c)" and "distinct (map set cs)"
  shows "\<forall>c\<in>set cs'. sorted c \<and> distinct c \<and> Q (set c)" and "distinct (map set cs')"
    and "set ` set cs' = set ` set cs"
proof -
  show "\<forall>c\<in>set cs'. sorted c \<and> distinct c \<and> Q (set c)" using assms(2) by (auto simp: cs'_def)
  have "mset (map set cs') = image_mset set (mset (map sort cs))" by (simp add: cs'_def)
  also have "\<dots> = mset (map set cs)" by (simp flip: mset_map add: comp_def)
  finally show "distinct (map set cs')" using assms(3) by (metis mset_eq_imp_distinct_iff)
  show "set ` set cs' = set ` set cs" by (simp add: cs'_def image_image)
qed

theorem components_exact:
  "\<exists>cs. components g inc = Some cs \<and> (\<forall>c\<in>set cs. sorted c \<and> distinct c \<and> (\<exists>x<count. set c = scc_class inc x)) \<and>
     distinct (map set cs) \<and> (\<forall>x<count. scc_class inc x \<in> set ` set cs)"
proof -
  from finish_orders_total[of inc] obtain order where
    o: "finish_orders g inc [0..<count] (replicate count False) [] = Some order"
      "set order = {..<count}" "distinct order" "\<forall>y<count. settled inc order y" by blast
  from collect_classes[of order "rev order" "[]" inc "replicate count False" "[]"] o obtain cs where
    cs: "collect_components (reverse_edges g inc) (replicate count False) [] (rev order) = Some cs"
      "\<forall>c\<in>set cs. distinct c \<and> (\<exists>x<count. set c = scc_class inc x)" "distinct (map set cs)"
      "{..<count} \<subseteq> (\<Union>c\<in>set cs. set c)" by auto
  have "scc_class inc x \<in> set ` set cs" if x: "x < count" for x
  proof -
    from x cs(4) obtain c where c: "c \<in> set cs" "x \<in> set c" by blast
    with cs(2) obtain y where "set c = scc_class inc y" by blast
    with c scc_class_eq have "set c = scc_class inc x" by metis
    with c(1) show ?thesis by blast
  qed
  with sorted_classes[OF cs(2,3), of component_key] o(1) cs(1)
  show ?thesis unfolding components_def Let_def by simp
qed

theorem components_partition:
  "\<exists>cs. components g inc = Some cs \<and> (\<forall>c\<in>set cs. sorted c \<and> distinct c) \<and>
     (\<forall>i<count. \<exists>!k. k < length cs \<and> i \<in> set (cs ! k)) \<and>
     (\<forall>i<count. \<forall>j<count. (\<exists>c\<in>set cs. i \<in> set c \<and> j \<in> set c) \<longleftrightarrow> (i, j) \<in> (A inc)\<^sup>* \<and> (j, i) \<in> (A inc)\<^sup>*)"
proof -
  from components_exact[of inc] obtain cs where
    cs: "components g inc = Some cs" "\<forall>c\<in>set cs. sorted c \<and> distinct c \<and> (\<exists>x<count. set c = scc_class inc x)"
      "distinct (map set cs)" "\<forall>x<count. scc_class inc x \<in> set ` set cs" by blast
  have cls: "set c = scc_class inc i" if "c \<in> set cs" "i \<in> set c" for c i
    using that cs(2) scc_class_eq by metis
  have "\<exists>!k. k < length cs \<and> i \<in> set (cs ! k)" if i: "i < count" for i
  proof -
    from cs(4) i obtain k where k: "k < length cs" "set (cs ! k) = scc_class inc i" by (force simp: in_set_conv_nth)
    then have "i \<in> set (cs ! k)" by (simp add: scc_class_def)
    moreover have "j = k" if "j < length cs" "i \<in> set (cs ! j)" for j
      using cls[of "cs ! j" i] k that nth_eq_iff_index_eq[OF cs(3), of j k] by simp
    ultimately show ?thesis using k(1) by blast
  qed
  moreover have "(\<exists>c\<in>set cs. i \<in> set c \<and> j \<in> set c) \<longleftrightarrow> j \<in> scc_class inc i" if "i < count" for i j
  proof -
    have "i \<in> scc_class inc i" by (simp add: scc_class_def)
    with that cs(4) cls show ?thesis by (metis imageE)
  qed
  ultimately show ?thesis using cs(1,2) by (auto simp: scc_class_def)
qed

section \<open>The cycle reports\<close>

lemma class_cycle:
  assumes c: "sorted c" "distinct c" "set c = scc_class inc x" and "u \<in> set c"
    and self: "\<And>v. self v \<longleftrightarrow> (v, v) \<in> A inc"
  shows "length c > 1 \<or> (case c of [] \<Rightarrow> False | v # _ \<Rightarrow> self v) \<longleftrightarrow> (u, u) \<in> (A inc)\<^sup>+"
proof (cases "length c > 1")
  case True
  then obtain a b r where ab: "c = a # b # r" by (cases c rule: remdups_adj.cases) auto
  with c(2) have "a \<noteq> b" by simp
  then obtain v where v: "v \<in> set c" "v \<noteq> u" using ab by (metis list.set_intros)
  have "set c = scc_class inc u" using c(3) assms(4) scc_class_eq by metis
  with v have "(u, v) \<in> (A inc)\<^sup>+" "(v, u) \<in> (A inc)\<^sup>*" by (auto simp: scc_class_def rtrancl_eq_or_trancl)
  with True show ?thesis by auto
next
  case False
  with assms(4) have cu: "c = [u]" by (cases c) auto
  have "(u, u) \<in> (A inc)\<^sup>+ \<longleftrightarrow> (u, u) \<in> A inc"
  proof
    assume "(u, u) \<in> (A inc)\<^sup>+"
    then obtain w where w: "(u, w) \<in> A inc" "(w, u) \<in> (A inc)\<^sup>*" by (meson tranclD)
    then have "w \<in> scc_class inc u" by (auto simp: scc_class_def)
    moreover have "scc_class inc u = set c" using assms(4) c(3) scc_class_eq by metis
    ultimately have "w = u" using cu by simp
    with w show "(u, u) \<in> A inc" by simp
  qed auto
  with cu self show ?thesis by simp
qed

theorem advance_only_cycles_exact:
  "\<exists>cs. advance_only_cycles g = Some cs \<and> (\<forall>c\<in>set cs. sorted c \<and> distinct c \<and> (\<exists>x<count. set c = scc_class False x)) \<and>
     (\<forall>u. (\<exists>c\<in>set cs. u \<in> set c) \<longleftrightarrow> (u, u) \<in> (A False)\<^sup>+)"
proof -
  from components_exact[of False] obtain cs where
    cs: "components g False = Some cs" "\<forall>c\<in>set cs. sorted c \<and> distinct c \<and> (\<exists>x<count. set c = scc_class False x)"
      "\<forall>x<count. scc_class False x \<in> set ` set cs" by blast
  let ?self = "\<lambda>v. \<exists>e\<in>set (successors g v). sc_target e = v \<and> sc_effect e \<noteq> Some EffectRework"
  let ?P = "\<lambda>c. length c > 1 \<or> (case c of [] \<Rightarrow> False | v # _ \<Rightarrow> ?self v)"
  have self: "?self v \<longleftrightarrow> (v, v) \<in> A False" for v
    using successor_rows by (auto simp: included_edges_def edge_included_def successors_def nth_or_nil_def split: if_splits)
  have P: "?P c \<longleftrightarrow> (u, u) \<in> (A False)\<^sup>+" if "c \<in> set cs" "u \<in> set c" for c u
    using class_cycle[of c False _ u ?self] cs(2) that self by blast
  have "\<exists>c\<in>set cs. u \<in> set c" if "(u, u) \<in> (A False)\<^sup>+" for u
  proof -
    from that have "u < count" using included_bounds by (meson tranclD)
    with cs(3) have "scc_class False u \<in> set ` set cs" by blast
    moreover have "u \<in> scc_class False u" by (simp add: scc_class_def)
    ultimately show ?thesis by auto
  qed
  with P have "(\<exists>c\<in>set (filter ?P cs). u \<in> set c) \<longleftrightarrow> (u, u) \<in> (A False)\<^sup>+" for u
    unfolding set_filter by blast
  with cs(1,2) show ?thesis by (auto simp: advance_only_cycles_def)
qed

end

end
