(* ===== verification/Graph_Props.thy ===== *)
theory Graph_Props
  imports Graph_Dominators Graph_Components
begin

text \<open>
  The graph analyses against the procedure itself. The transitions of a procedure graph are stated
  over its node identifiers, straight from the placements; the dense index is shown to be a faithful
  renaming of them, and every analysis is then exact for the transitions.
\<close>

section \<open>Transitions of a procedure graph\<close>

fun placement_targets :: "bool \<Rightarrow> GraphPlacementV2 \<Rightarrow> GraphNodeId list" where
  "placement_targets rework (PlaceAction a) =
     (case ap_outcome a of OutcomeNext t \<Rightarrow> [t] | OutcomeTerminal \<Rightarrow> [])"
| "placement_targets rework (PlaceDecision d) =
     map (\<lambda>e. route_to (entry_route e))
       (filter (\<lambda>e. rework \<or> route_effect (entry_route e) \<noteq> EffectRework) (route_entries (dp_routes d)))"

text \<open>All transitions, or those that are not rework routes.\<close>

definition transitions :: "bool \<Rightarrow> ProcedureGraphV2 \<Rightarrow> (GraphNodeId \<times> GraphNodeId) set" where
  "transitions rework G = {(a, b). \<exists>p\<in>set (pg_placements G). GraphPlacementV2_id p = a \<and>
     b \<in> set (placement_targets rework p) \<and> b \<in> GraphPlacementV2_id ` set (pg_placements G)}"

definition terminal_action :: "GraphPlacementV2 \<Rightarrow> bool" where
  "terminal_action p \<longleftrightarrow> (\<exists>a. p = PlaceAction a \<and> ap_outcome a = OutcomeTerminal)"

definition node_name :: "ProcedureGraphV2 \<Rightarrow> nat \<Rightarrow> GraphNodeId" where
  "node_name G i = GraphPlacementV2_id (pg_placements G ! i)"

section \<open>The index renames the graph\<close>

lemma placement_successors_targets:
  "(\<exists>e\<in>set (placement_successors m p). edge_included inc e \<and> sc_target e = v) \<longleftrightarrow>
     (\<exists>b\<in>set (placement_targets inc p). m b = Some v)"
  by (cases p) (force simp: placement_successors_def edge_included_def map_filter_def split: ActionOutcomeV2.splits option.splits)+

lemma index_of_name:
  assumes "ProcedureGraphV2_new entry ps mr = Inr G"
  shows "index_placements ps b = Some v \<longleftrightarrow> v < length ps \<and> node_name G v = b"
proof -
  from assms have d: "distinct (map GraphPlacementV2_id ps)" and G: "pg_placements G = ps"
    by (simp_all add: procedure_graph_ok)
  show ?thesis
    using index_placements_nth[OF d, of v] index_placements_Some[of ps b v] by (auto simp: node_name_def G)
qed

lemma included_edges_named:
  assumes "ProcedureGraphV2_new entry ps mr = Inr G"
  shows "(u, v) \<in> included_edges (GraphIndex_new G) inc \<longleftrightarrow>
    u < length ps \<and> v < length ps \<and> (node_name G u, node_name G v) \<in> transitions inc G"
proof -
  from assms have d: "distinct (map GraphPlacementV2_id ps)" and G: "pg_placements G = ps"
    by (simp_all add: procedure_graph_ok)
  have ids: "v < length ps \<Longrightarrow> node_name G v \<in> GraphPlacementV2_id ` set ps" for v by (simp add: node_name_def G)
  have same: "p = ps ! u" if "p \<in> set ps" "u < length ps" "GraphPlacementV2_id p = node_name G u" for p u
    using that d by (metis G distinct_map inj_on_def node_name_def nth_mem)
  have row: "u < length ps \<Longrightarrow> successors (GraphIndex_new G) u = placement_successors (index_placements ps) (ps ! u)"
    by (simp add: successors_def nth_or_nil_def built_index_fields G)
  have "(u, v) \<in> included_edges (GraphIndex_new G) inc \<longleftrightarrow>
      u < length ps \<and> (\<exists>b\<in>set (placement_targets inc (ps ! u)). v < length ps \<and> node_name G v = b)"
    using row placement_successors_targets[of "index_placements ps" "ps ! u" inc v] index_of_name[OF assms]
    by (auto simp: included_edges_def built_index_fields G)
  also have "\<dots> \<longleftrightarrow> u < length ps \<and> v < length ps \<and> (node_name G u, node_name G v) \<in> transitions inc G"
    using ids same by (auto simp: transitions_def G node_name_def)
  finally show ?thesis .
qed

text \<open>Walks and reachability carry over along an injective renaming.\<close>

lemma walk_renamed:
  assumes R: "\<And>x y. (x, y) \<in> R \<longleftrightarrow> x \<in> S \<and> y \<in> S \<and> (f x, f y) \<in> T"
    and T: "\<And>a b. (a, b) \<in> T \<Longrightarrow> b \<in> f ` S" and u: "u \<in> S"
  shows "walk T (f u) q b \<longleftrightarrow> (\<exists>p v. walk R u p v \<and> set p \<subseteq> S \<and> q = map f p \<and> b = f v)"
  using u
proof (induction q arbitrary: u)
  case Nil
  then show ?case by (simp add: walk_def)
next
  case (Cons a q)
  show ?case
  proof (cases "a = f u")
    case False
    then show ?thesis by (auto simp: walk_def hd_map)
  next
    case True
    have step: "(\<exists>w. (f u, w) \<in> T \<and> walk T w q b) \<longleftrightarrow> (\<exists>y\<in>S. (u, y) \<in> R \<and> walk T (f y) q b)"
      using T R Cons.prems by blast
    show ?thesis
    proof
      assume "walk T (f u) (a # q) b"
      then consider "q = []" "b = f u" | y where "y \<in> S" "(u, y) \<in> R" "walk T (f y) q b"
        using True step by (auto simp: walk_Cons)
      then show "\<exists>p v. walk R u p v \<and> set p \<subseteq> S \<and> a # q = map f p \<and> b = f v"
      proof cases
        case 1
        with True Cons.prems walk_single[of R u] show ?thesis by (intro exI[of _ "[u]"] exI[of _ u]) simp
      next
        case 2
        with Cons.IH[of y] obtain p v where "walk R y p v" "set p \<subseteq> S" "q = map f p" "b = f v" by blast
        with 2 True Cons.prems show ?thesis by (intro exI[of _ "u # p"] exI[of _ v]) (auto simp: walk_Cons)
      qed
    next
      assume "\<exists>p v. walk R u p v \<and> set p \<subseteq> S \<and> a # q = map f p \<and> b = f v"
      then obtain p v where p: "walk R u p v" "set p \<subseteq> S" "a # q = map f p" "b = f v"
        by (elim exE conjE)
      from walk_head[OF p(1)] obtain r where r: "p = u # r" by blast
      with p(1) consider "r = []" "u = v" | w where "(u, w) \<in> R" "walk R w r v" by (auto simp: walk_Cons)
      then show "walk T (f u) (a # q) b"
      proof cases
        case 1
        with p r True walk_single[of T "f u"] show ?thesis by simp
      next
        case 2
        with R Cons.IH[of w] p r have "walk T (f w) q b" by auto
        with 2 R True show ?thesis by (auto simp: walk_Cons)
      qed
    qed
  qed
qed

text \<open>The facts the analyses below share, for a constructed graph.\<close>

lemma constructed_graph:
  assumes "ProcedureGraphV2_new entry ps mr = Inr G"
  shows "GraphIndex_node_count (GraphIndex_new G) = length ps" and "pg_placements G = ps"
    and "gi_entry (GraphIndex_new G) < length ps" and "node_name G (gi_entry (GraphIndex_new G)) = entry"
    and "node_name G ` {..<length ps} = GraphPlacementV2_id ` set ps" and "inj_on (node_name G) {..<length ps}"
proof -
  from assms have G: "pg_placements G = ps" "pg_entry G = entry" and d: "distinct (map GraphPlacementV2_id ps)"
    and e: "entry \<in> GraphPlacementV2_id ` set ps" by (auto simp: procedure_graph_ok)
  show "pg_placements G = ps" by (fact G)
  show "GraphIndex_node_count (GraphIndex_new G) = length ps" by (simp add: built_index_fields G)
  from e obtain i where i: "index_placements ps entry = Some i" using index_placements_dom by blast
  then have "gi_entry (GraphIndex_new G) = i" by (simp add: GraphIndex_new_def Let_def G)
  with i index_of_name[OF assms, of entry i]
  show "gi_entry (GraphIndex_new G) < length ps" "node_name G (gi_entry (GraphIndex_new G)) = entry" by auto
  show "node_name G ` {..<length ps} = GraphPlacementV2_id ` set ps"
    by (force simp: node_name_def G in_set_conv_nth image_iff)
  show "inj_on (node_name G) {..<length ps}"
    using d by (auto simp: inj_on_def node_name_def G distinct_conv_nth)
qed

lemma named_walks:
  assumes G: "ProcedureGraphV2_new entry ps mr = Inr G" and u: "u < length ps"
  shows "walk (transitions inc G) (node_name G u) q b \<longleftrightarrow>
    (\<exists>p v. walk (included_edges (GraphIndex_new G) inc) u p v \<and> set p \<subseteq> {..<length ps} \<and>
       q = map (node_name G) p \<and> b = node_name G v)"
proof (rule walk_renamed)
  show "(x, y) \<in> included_edges (GraphIndex_new G) inc \<longleftrightarrow> x \<in> {..<length ps} \<and> y \<in> {..<length ps} \<and>
      (node_name G x, node_name G y) \<in> transitions inc G" for x y
    by (simp add: included_edges_named[OF G])
  show "b \<in> node_name G ` {..<length ps}" if "(a, b) \<in> transitions inc G" for a b
    using that constructed_graph(2,5)[OF G] by (auto simp: transitions_def)
qed (use u in simp)

text \<open>Between two named nodes the walks are exactly the renamed walks of the index.\<close>

lemma named_walks_to:
  assumes G: "ProcedureGraphV2_new entry ps mr = Inr G" and u: "u < length ps" and v: "v < length ps"
  shows "walk (transitions inc G) (node_name G u) q (node_name G v) \<longleftrightarrow>
    (\<exists>p. walk (included_edges (GraphIndex_new G) inc) u p v \<and> set p \<subseteq> {..<length ps} \<and> q = map (node_name G) p)"
proof -
  have "w < length ps" if "walk (included_edges (GraphIndex_new G) inc) u p w" "set p \<subseteq> {..<length ps}" for p w
    using walk_ends[OF that(1)] that(2) by auto
  then show ?thesis
    unfolding named_walks[OF G u] using v inj_onD[OF constructed_graph(6)[OF G]] by (metis lessThan_iff)
qed

lemma walk_range:
  assumes G: "ProcedureGraphV2_new entry ps mr = Inr G" and u: "u < length ps"
    and w: "walk (included_edges (GraphIndex_new G) inc) u p v"
  shows "set p \<subseteq> {..<length ps}"
proof
  fix x assume "x \<in> set p"
  then show "x \<in> {..<length ps}"
    using walk_nodes[OF w] u by (cases "x = u") (auto simp: included_edges_named[OF G])
qed

lemma all_named_walks:
  assumes G: "ProcedureGraphV2_new entry ps mr = Inr G" and u: "u < length ps" and v: "v < length ps"
  shows "(\<forall>q. walk (transitions inc G) (node_name G u) q (node_name G v) \<longrightarrow> P q) \<longleftrightarrow>
    (\<forall>p. walk (included_edges (GraphIndex_new G) inc) u p v \<longrightarrow> P (map (node_name G) p))"
  unfolding named_walks_to[OF assms] using walk_range[OF G u] by blast

lemma named_member:
  assumes "ProcedureGraphV2_new entry ps mr = Inr G" and "i < length ps" and "set p \<subseteq> {..<length ps}"
  shows "node_name G i \<in> set (map (node_name G) p) \<longleftrightarrow> i \<in> set p"
  using inj_on_image_mem_iff[OF constructed_graph(6)[OF assms(1)], of i "set p"] assms(2,3) by simp

lemma named_reach:
  assumes G: "ProcedureGraphV2_new entry ps mr = Inr G" and "u < length ps" and "v < length ps"
  shows "(node_name G u, node_name G v) \<in> (transitions inc G)\<^sup>* \<longleftrightarrow> (u, v) \<in> (included_edges (GraphIndex_new G) inc)\<^sup>*"
  unfolding walk_rtrancl[symmetric] named_walks_to[OF assms] using walk_range[OF G assms(2)] by blast

lemma transitions_names:
  "(a, b) \<in> transitions inc G \<Longrightarrow>
     a \<in> GraphPlacementV2_id ` set (pg_placements G) \<and> b \<in> GraphPlacementV2_id ` set (pg_placements G)"
  by (auto simp: transitions_def)

lemma named_cycle:
  assumes G: "ProcedureGraphV2_new entry ps mr = Inr G" and i: "i < length ps"
  shows "(node_name G i, node_name G i) \<in> (transitions inc G)\<^sup>+ \<longleftrightarrow> (i, i) \<in> (included_edges (GraphIndex_new G) inc)\<^sup>+"
proof -
  have "(node_name G i, node_name G i) \<in> (transitions inc G)\<^sup>+ \<longleftrightarrow>
      (\<exists>b. (node_name G i, b) \<in> transitions inc G \<and> (b, node_name G i) \<in> (transitions inc G)\<^sup>*)"
    by (meson tranclD rtrancl_into_trancl2)
  also have "\<dots> \<longleftrightarrow> (\<exists>j<length ps. (node_name G i, node_name G j) \<in> transitions inc G \<and>
      (node_name G j, node_name G i) \<in> (transitions inc G)\<^sup>*)"
    using transitions_names[of "node_name G i" _ inc G] constructed_graph(2,5)[OF G] by (metis (no_types, lifting) imageE lessThan_iff)
  also have "\<dots> \<longleftrightarrow> (\<exists>j<length ps. (i, j) \<in> included_edges (GraphIndex_new G) inc \<and>
      (j, i) \<in> (included_edges (GraphIndex_new G) inc)\<^sup>*)"
    using i by (auto simp: named_reach[OF G] included_edges_named[OF G])
  also have "\<dots> \<longleftrightarrow> (i, i) \<in> (included_edges (GraphIndex_new G) inc)\<^sup>+"
    by (meson tranclD rtrancl_into_trancl2 included_edges_named[OF G])
  finally show ?thesis .
qed

lemma is_terminal_named:
  assumes "ProcedureGraphV2_new entry ps mr = Inr G"
  shows "is_terminal (GraphIndex_new G) v \<longleftrightarrow> v < length ps \<and> terminal_action (ps ! v)"
  using constructed_graph(2)[OF assms]
  by (auto simp: is_terminal_def nth_opt_def built_index_fields terminal_action_def split: GraphPlacementV2.splits)

section \<open>The sample graph of the witnesses\<close>

text \<open>An entry action, a decision that advances or reworks to the entry, and a terminal action.\<close>

definition sample_placements :: "GraphPlacementV2 list" where
  "sample_placements =
     [PlaceAction (ActionPlacementV2_new (GraphNodeId [1]) (NodeDefinitionId [1]) None None (OutcomeNext (GraphNodeId [2]))),
      PlaceDecision \<lparr>dp_id = GraphNodeId [2], dp_definition = NodeDefinitionId [2], dp_evidence_from = None,
        dp_routes = DecisionRouteMapV2
          [\<lparr>entry_option_id = OptionId [1], entry_route = \<lparr>route_to = GraphNodeId [3], route_effect = EffectAdvance\<rparr>\<rparr>,
           \<lparr>entry_option_id = OptionId [2], entry_route = \<lparr>route_to = GraphNodeId [1], route_effect = EffectRework\<rparr>\<rparr>]\<rparr>,
      PlaceAction (ActionPlacementV2_new (GraphNodeId [3]) (NodeDefinitionId [1]) None None OutcomeTerminal)]"

definition sample_graph :: ProcedureGraphV2 where
  "sample_graph = \<lparr>pg_entry = GraphNodeId [1], pg_placements = sample_placements, pg_manual_rework = None\<rparr>"

lemma sample_built: "ProcedureGraphV2_new (GraphNodeId [1]) sample_placements None = Inr sample_graph"
  by (simp add: procedure_graph_ok sample_graph_def sample_placements_def ActionPlacementV2_new_def)

section \<open>Dominance\<close>

lemma dominators_named:
  assumes "ProcedureGraphV2_new entry ps mr = Inr G"
  shows "\<exists>doms. dominators (GraphIndex_new G) = Some doms \<and> length doms = length ps \<and>
    (\<forall>i<length ps. \<forall>j<length ps. dominates doms i j \<longleftrightarrow>
       (entry, node_name G j) \<in> (transitions True G)\<^sup>* \<and>
       (\<forall>q. walk (transitions True G) entry q (node_name G j) \<longrightarrow> node_name G i \<in> set q))"
proof -
  let ?g = "GraphIndex_new G"
  note C = constructed_graph[OF assms]
  from indexed_graph.dominators_exact[OF built_indexed[OF assms]] obtain doms where
    d: "dominators ?g = Some doms" "length doms = length ps"
      "\<forall>c v. dominates doms c v \<longleftrightarrow> (gi_entry ?g, v) \<in> (graph_edges ?g)\<^sup>* \<and>
        (\<forall>p. walk (graph_edges ?g) (gi_entry ?g) p v \<longrightarrow> c \<in> set p)" by (auto simp: C)
  have "(\<forall>q. walk (transitions True G) entry q (node_name G j) \<longrightarrow> node_name G i \<in> set q) \<longleftrightarrow>
      (\<forall>p. walk (graph_edges ?g) (gi_entry ?g) p j \<longrightarrow> i \<in> set p)" if "i < length ps" "j < length ps" for i j
    using all_named_walks[OF assms C(3) that(2), of True] named_member[OF assms that(1)]
      walk_range[OF assms C(3), of True _ j] by (auto simp: C(4) included_all)
  with d(3) named_reach[OF assms C(3), of _ True] show ?thesis
    using d(1,2) by (auto simp: C(4) included_all)
qed

text \<open>
  C20: the dominator computation returns for every constructed graph, and one placement dominates
  another exactly when the other is reachable from the entry and every walk of transitions from the
  entry to it passes through the first. The bounded number of passes therefore always suffices.
\<close>

theorem dominators_are_exact:
  assumes "ProcedureGraphV2_new entry ps mr = Inr G"
  shows "\<exists>doms. dominators (GraphIndex_new G) = Some doms \<and> length doms = length ps \<and>
    (\<forall>i<length ps. \<forall>j<length ps. dominates doms i j \<longleftrightarrow>
       (entry, node_name G j) \<in> (transitions True G)\<^sup>* \<and>
       (\<forall>q. walk (transitions True G) entry q (node_name G j) \<longrightarrow> node_name G i \<in> set q))"
  by (rule dominators_named[OF assms])

theorem dominators_are_exact_witness:
  "\<exists>doms. dominators (GraphIndex_new sample_graph) = Some doms \<and> length doms = length sample_placements \<and>
    (\<forall>i<length sample_placements. \<forall>j<length sample_placements. dominates doms i j \<longleftrightarrow>
       (GraphNodeId [1], node_name sample_graph j) \<in> (transitions True sample_graph)\<^sup>* \<and>
       (\<forall>q. walk (transitions True sample_graph) (GraphNodeId [1]) q (node_name sample_graph j) \<longrightarrow>
          node_name sample_graph i \<in> set q))"
  by (rule dominators_are_exact[OF sample_built])

section \<open>Reachability\<close>

lemma reachability_named:
  assumes "ProcedureGraphV2_new entry ps mr = Inr G"
  shows "\<exists>r t. reachable_from (GraphIndex_new G) (gi_entry (GraphIndex_new G)) = Some r \<and>
    terminal_reachable_nodes (GraphIndex_new G) = Some t \<and>
    (\<forall>i<length ps.
       (NodeSet_contains r i \<longleftrightarrow> (entry, node_name G i) \<in> (transitions True G)\<^sup>*) \<and>
       (NodeSet_contains t i \<longleftrightarrow> (\<exists>p\<in>set ps. terminal_action p \<and>
          (node_name G i, GraphPlacementV2_id p) \<in> (transitions True G)\<^sup>*)))"
proof -
  let ?g = "GraphIndex_new G"
  note C = constructed_graph[OF assms] and I = built_indexed[OF assms]
  from indexed_graph.reachable_exact[OF I indexed_graph.entry_bound[OF I]] obtain r where
    r: "reachable_from ?g (gi_entry ?g) = Some r" "nset r = (graph_edges ?g)\<^sup>* `` {gi_entry ?g}" by blast
  from indexed_graph.terminal_reachable_exact[OF I] obtain t where
    t: "terminal_reachable_nodes ?g = Some t" "nset t = {u. \<exists>v. is_terminal ?g v \<and> (u, v) \<in> (graph_edges ?g)\<^sup>*}" by blast
  have "NodeSet_contains r i \<longleftrightarrow> (entry, node_name G i) \<in> (transitions True G)\<^sup>*" if "i < length ps" for i
    using named_reach[OF assms C(3) that, of True] r(2) by (auto simp: C(4) included_all simp flip: nset_iff)
  moreover have "NodeSet_contains t i \<longleftrightarrow> (\<exists>p\<in>set ps. terminal_action p \<and>
      (node_name G i, GraphPlacementV2_id p) \<in> (transitions True G)\<^sup>*)" if i: "i < length ps" for i
  proof -
    have "NodeSet_contains t i \<longleftrightarrow> (\<exists>v<length ps. terminal_action (ps ! v) \<and> (i, v) \<in> (graph_edges ?g)\<^sup>*)"
      using t(2) by (auto simp: is_terminal_named[OF assms] simp flip: nset_iff)
    also have "\<dots> \<longleftrightarrow> (\<exists>v<length ps. terminal_action (ps ! v) \<and> (node_name G i, node_name G v) \<in> (transitions True G)\<^sup>*)"
      using named_reach[OF assms i, of _ True] by (auto simp: included_all)
    finally show ?thesis unfolding node_name_def C(2) by (metis in_set_conv_nth)
  qed
  ultimately show ?thesis using r(1) t(1) by blast
qed

text \<open>
  C23: the two reachability analyses return, and they mark exactly the placements reachable from the
  entry and exactly the placements from which a terminal action is reachable.
\<close>

theorem reachability_is_exact:
  assumes "ProcedureGraphV2_new entry ps mr = Inr G"
  shows "\<exists>r t. reachable_from (GraphIndex_new G) (gi_entry (GraphIndex_new G)) = Some r \<and>
    terminal_reachable_nodes (GraphIndex_new G) = Some t \<and>
    (\<forall>i<length ps.
       (NodeSet_contains r i \<longleftrightarrow> (entry, node_name G i) \<in> (transitions True G)\<^sup>*) \<and>
       (NodeSet_contains t i \<longleftrightarrow> (\<exists>p\<in>set ps. terminal_action p \<and>
          (node_name G i, GraphPlacementV2_id p) \<in> (transitions True G)\<^sup>*)))"
  by (rule reachability_named[OF assms])

theorem reachability_is_exact_witness:
  "\<exists>r t. reachable_from (GraphIndex_new sample_graph) (gi_entry (GraphIndex_new sample_graph)) = Some r \<and>
    terminal_reachable_nodes (GraphIndex_new sample_graph) = Some t \<and>
    (\<forall>i<length sample_placements.
       (NodeSet_contains r i \<longleftrightarrow> (GraphNodeId [1], node_name sample_graph i) \<in> (transitions True sample_graph)\<^sup>*) \<and>
       (NodeSet_contains t i \<longleftrightarrow> (\<exists>p\<in>set sample_placements. terminal_action p \<and>
          (node_name sample_graph i, GraphPlacementV2_id p) \<in> (transitions True sample_graph)\<^sup>*)))"
  by (rule reachability_is_exact[OF sample_built])

section \<open>Cycles\<close>

text \<open>
  C21: the strongly connected components are a partition of the placements into the classes of mutual
  reachability: the computation returns, every component is a sorted list without repetitions, every
  placement is in exactly one component, and two placements share a component exactly when each is
  reachable from the other.
\<close>

theorem components_partition_graph:
  assumes "ProcedureGraphV2_new entry ps mr = Inr G"
  shows "\<exists>cs. strongly_connected_components (GraphIndex_new G) = Some cs \<and>
    (\<forall>c\<in>set cs. sorted c \<and> distinct c) \<and>
    (\<forall>i<length ps. \<exists>!k. k < length cs \<and> i \<in> set (cs ! k)) \<and>
    (\<forall>i<length ps. \<forall>j<length ps. (\<exists>c\<in>set cs. i \<in> set c \<and> j \<in> set c) \<longleftrightarrow>
       (node_name G i, node_name G j) \<in> (transitions True G)\<^sup>* \<and>
       (node_name G j, node_name G i) \<in> (transitions True G)\<^sup>*)"
proof -
  note C = constructed_graph[OF assms] and I = built_indexed[OF assms]
  let ?g = "GraphIndex_new G"
  from indexed_graph.components_partition[OF I, of True] obtain cs where
    cs: "components ?g True = Some cs" "\<forall>c\<in>set cs. sorted c \<and> distinct c"
      "\<forall>i<length ps. \<exists>!k. k < length cs \<and> i \<in> set (cs ! k)"
      "\<forall>i<length ps. \<forall>j<length ps. (\<exists>c\<in>set cs. i \<in> set c \<and> j \<in> set c) \<longleftrightarrow>
         (i, j) \<in> (included_edges ?g True)\<^sup>* \<and> (j, i) \<in> (included_edges ?g True)\<^sup>*" by (auto simp: C(1))
  have "(\<exists>c\<in>set cs. i \<in> set c \<and> j \<in> set c) \<longleftrightarrow> (node_name G i, node_name G j) \<in> (transitions True G)\<^sup>* \<and>
      (node_name G j, node_name G i) \<in> (transitions True G)\<^sup>*" if "i < length ps" "j < length ps" for i j
    using that cs(4) by (simp add: named_reach[OF assms])
  with cs(1-3) show ?thesis unfolding strongly_connected_components_def by blast
qed

theorem components_partition_graph_witness:
  "\<exists>cs. strongly_connected_components (GraphIndex_new sample_graph) = Some cs \<and>
    (\<forall>i<length sample_placements. \<exists>!k. k < length cs \<and> i \<in> set (cs ! k))"
  using components_partition_graph[OF sample_built] by blast

lemma advance_cycles_nonempty:
  assumes "ProcedureGraphV2_new entry ps mr = Inr G"
  shows "\<exists>cs. advance_only_cycles (GraphIndex_new G) = Some cs \<and>
    (\<forall>i<length ps. (\<exists>c\<in>set cs. i \<in> set c) \<longleftrightarrow> (node_name G i, node_name G i) \<in> (transitions False G)\<^sup>+) \<and>
    (cs = [] \<longleftrightarrow> acyclic (transitions False G)) \<and>
    (\<forall>c\<in>set cs. c \<noteq> [] \<and> set c \<subseteq> {..<length ps})"
proof -
  note C = constructed_graph[OF assms] and I = built_indexed[OF assms]
  let ?g = "GraphIndex_new G"
  from indexed_graph.advance_only_cycles_exact[OF I] obtain cs where
    cs: "advance_only_cycles ?g = Some cs" "\<forall>c\<in>set cs. \<exists>x<length ps. set c = indexed_graph.scc_class ?g False x"
      "\<forall>u. (\<exists>c\<in>set cs. u \<in> set c) \<longleftrightarrow> (u, u) \<in> (included_edges ?g False)\<^sup>+" by (auto simp: C(1))
  have ex: "(\<exists>c\<in>set cs. i \<in> set c) \<longleftrightarrow> (node_name G i, node_name G i) \<in> (transitions False G)\<^sup>+" if "i < length ps" for i
    using cs(3) named_cycle[OF assms that] by simp
  have "\<exists>x<length ps. x \<in> set c" if "c \<in> set cs" for c
    using cs(2) that by (fastforce simp: indexed_graph.scc_class_def[OF I])
  then have "cs = [] \<longleftrightarrow> (\<forall>i<length ps. \<not> (\<exists>c\<in>set cs. i \<in> set c))"
    by (metis empty_iff last_in_set list.set(1))
  also have "\<dots> \<longleftrightarrow> (\<forall>a\<in>GraphPlacementV2_id ` set ps. (a, a) \<notin> (transitions False G)\<^sup>+)"
    using ex unfolding C(5)[symmetric] by auto
  also have "\<dots> \<longleftrightarrow> acyclic (transitions False G)"
    using transitions_names[of _ _ False G] unfolding acyclic_def C(2) by (meson tranclD)
  finally have "cs = [] \<longleftrightarrow> acyclic (transitions False G)" .
  moreover have "c \<noteq> [] \<and> set c \<subseteq> {..<length ps}" if "c \<in> set cs" for c
  proof -
    from that cs(2) obtain x where x: "x < length ps" "set c = indexed_graph.scc_class ?g False x" by blast
    have "y < length ps" if "(x, y) \<in> (included_edges ?g False)\<^sup>*" for y
      using that x(1) by (cases rule: rtrancl.cases) (auto simp: included_edges_named[OF assms])
    with x show ?thesis by (auto simp: indexed_graph.scc_class_def[OF I])
  qed
  ultimately show ?thesis using cs(1) ex by blast
qed

text \<open>
  C22: the advance-only cycle report is exact: it returns, and it lists a placement exactly when that
  placement lies on a cycle none of whose transitions is a rework route. An empty report therefore
  means that a session cannot return to a placement without a rework.
\<close>

theorem advance_cycles_are_exact:
  assumes "ProcedureGraphV2_new entry ps mr = Inr G"
  shows "\<exists>cs. advance_only_cycles (GraphIndex_new G) = Some cs \<and>
    (\<forall>i<length ps. (\<exists>c\<in>set cs. i \<in> set c) \<longleftrightarrow> (node_name G i, node_name G i) \<in> (transitions False G)\<^sup>+) \<and>
    (cs = [] \<longleftrightarrow> acyclic (transitions False G))"
  using advance_cycles_nonempty[OF assms] by blast

theorem advance_cycles_are_exact_witness:
  "\<exists>cs. advance_only_cycles (GraphIndex_new sample_graph) = Some cs \<and>
    (\<forall>i<length sample_placements. (\<exists>c\<in>set cs. i \<in> set c) \<longleftrightarrow>
       (node_name sample_graph i, node_name sample_graph i) \<in> (transitions False sample_graph)\<^sup>+) \<and>
    (cs = [] \<longleftrightarrow> acyclic (transitions False sample_graph))"
  by (rule advance_cycles_are_exact[OF sample_built])

section \<open>Safe targets of a goal revision\<close>

definition assessment_placement :: "ParsedProcedureV2 \<Rightarrow> GraphPlacementV2 \<Rightarrow> bool" where
  "assessment_placement P p \<longleftrightarrow>
     (\<exists>d. p = PlaceDecision d \<and> dp_definition d \<in> set (assessment_definitions P))"

lemma index_placement_named:
  assumes "ProcedureGraphV2_new entry ps mr = Inr G"
  shows "index_placement (GraphIndex_new G) i = (if i < length ps then Some (ps ! i) else None)"
  using constructed_graph(2)[OF assms] by (simp add: index_placement_def nth_opt_def built_index_fields)

lemma safe_targets_walks:
  assumes "ProcedureGraphV2_new entry ps mr = Inr (pp_graph P)"
  shows "\<exists>ids. goal_revision_safe_targets_v2 P = Some ids \<and>
    (\<forall>a. a \<in> set ids \<longleftrightarrow> a \<in> GraphPlacementV2_id ` set ps \<and>
       (\<forall>t\<in>set ps. \<forall>q. terminal_action t \<longrightarrow> walk (transitions True (pp_graph P)) a q (GraphPlacementV2_id t) \<longrightarrow>
          (\<exists>p\<in>set ps. GraphPlacementV2_id p \<in> set q \<and> assessment_placement P p)))"
proof -
  let ?G = "pp_graph P" and ?g = "GraphIndex_new (pp_graph P)"
  let ?E = "included_edges ?g True" and ?f = "node_name ?G"
  note C = constructed_graph[OF assms]
  let ?a = "\<lambda>i. case index_placement ?g i of
      Some (PlaceDecision p) \<Rightarrow> dp_definition p \<in> set (assessment_definitions P) | _ \<Rightarrow> False"
  have a: "?a i \<longleftrightarrow> i < length ps \<and> assessment_placement P (ps ! i)" for i
    by (auto simp: index_placement_named[OF assms] assessment_placement_def split: GraphPlacementV2.splits)
  from indexed_graph.assessment_free_exact[OF built_indexed[OF assms], of ?a] obtain r where
    r: "assessment_free_to_terminal ?g ?a = Some r"
      "nset r = {u. \<exists>t p. is_terminal ?g t \<and> walk ?E u p t \<and> (\<forall>x\<in>set p. \<not> ?a x)}"
    by (auto simp: included_all)
  let ?ids = "map (\<lambda>(_, p). GraphPlacementV2_id p) (filter (\<lambda>(i, _). \<not> NodeSet_contains r i) (enumerate 0 ps))"
  have "goal_revision_safe_targets_v2 P = Some ?ids"
    using r(1) C(2) by (simp add: goal_revision_safe_targets_v2_def Let_def)
  moreover have mem: "b \<in> set ?ids \<longleftrightarrow> (\<exists>i<length ps. b = ?f i \<and> i \<notin> nset r)" for b
    by (force simp: nset_iff in_set_enumerate_eq node_name_def C(2) image_iff)
  let ?hit = "\<lambda>q. \<exists>d\<in>set ps. GraphPlacementV2_id d \<in> set q \<and> assessment_placement P d"
  let ?safe = "\<lambda>a. \<forall>t\<in>set ps. \<forall>q. terminal_action t \<longrightarrow>
    walk (transitions True ?G) a q (GraphPlacementV2_id t) \<longrightarrow> ?hit q"
  have safe: "i \<notin> nset r \<longleftrightarrow> ?safe (?f i)" if i: "i < length ps" for i
  proof -
    let ?Q = "\<lambda>t. \<forall>q. terminal_action t \<longrightarrow> walk (transitions True ?G) (?f i) q (GraphPlacementV2_id t) \<longrightarrow> ?hit q"
    have nm: "?f t = GraphPlacementV2_id (ps ! t)" for t by (simp add: node_name_def C(2))
    have hit: "(\<exists>x\<in>set p. ?a x) \<longleftrightarrow> ?hit (map ?f p)"
      if "set p \<subseteq> {..<length ps}" for p
    proof -
      have "(\<exists>x\<in>set p. ?a x) \<longleftrightarrow> (\<exists>x<length ps. x \<in> set p \<and> assessment_placement P (ps ! x))" by (auto simp: a)
      also have "\<dots> \<longleftrightarrow> (\<exists>x<length ps. GraphPlacementV2_id (ps ! x) \<in> set (map ?f p) \<and> assessment_placement P (ps ! x))"
        using named_member[OF assms _ that] by (auto simp: node_name_def C(2))
      finally show ?thesis by (metis (no_types, lifting) in_set_conv_nth[of _ ps])
    qed
    have "i \<notin> nset r \<longleftrightarrow> (\<forall>t<length ps. terminal_action (ps ! t) \<longrightarrow>
        (\<forall>p. walk ?E i p t \<longrightarrow> (\<exists>x\<in>set p. ?a x)))"
      unfolding r(2) is_terminal_named[OF assms] by blast
    also have "\<dots> \<longleftrightarrow> (\<forall>t<length ps. terminal_action (ps ! t) \<longrightarrow> (\<forall>q. walk (transitions True ?G) (?f i) q (?f t) \<longrightarrow> ?hit q))"
    proof -
      have "(\<forall>p. walk ?E i p t \<longrightarrow> (\<exists>x\<in>set p. ?a x)) \<longleftrightarrow> (\<forall>p. walk ?E i p t \<longrightarrow> ?hit (map ?f p))" for t
        using hit[OF walk_range[OF assms i]] by blast
      then show ?thesis using all_named_walks[OF assms i, of _ True ?hit] by simp
    qed
    also have "\<dots> \<longleftrightarrow> (\<forall>t<length ps. ?Q (ps ! t))" unfolding nm by blast
    also have "\<dots> \<longleftrightarrow> (\<forall>t\<in>set ps. ?Q t)" by (rule all_set_conv_all_nth[symmetric])
    finally show ?thesis .
  qed
  have "b \<in> set ?ids \<longleftrightarrow> b \<in> GraphPlacementV2_id ` set ps \<and> ?safe b" for b
  proof -
    have "b \<in> set ?ids \<longleftrightarrow> (\<exists>i<length ps. b = ?f i \<and> ?safe (?f i))" using mem[of b] safe by (simp cong: conj_cong)
    also have "\<dots> \<longleftrightarrow> b \<in> ?f ` {..<length ps} \<and> ?safe b" by blast
    finally show ?thesis unfolding C(5) .
  qed
  ultimately show ?thesis by blast
qed

text \<open>
  C19: the safe rework targets of a goal revision are exact: the computation returns, and it lists a
  placement exactly when every walk of transitions from it to a terminal action passes through a
  goal-assessment decision, so a session reworked there cannot complete without a fresh assessment.
\<close>

theorem safe_targets_are_exact:
  assumes "ProcedureGraphV2_new entry ps mr = Inr (pp_graph P)"
  shows "\<exists>ids. goal_revision_safe_targets_v2 P = Some ids \<and>
    (\<forall>a. a \<in> set ids \<longleftrightarrow> a \<in> GraphPlacementV2_id ` set ps \<and>
       (\<forall>t\<in>set ps. \<forall>q. terminal_action t \<longrightarrow> walk (transitions True (pp_graph P)) a q (GraphPlacementV2_id t) \<longrightarrow>
          (\<exists>p\<in>set ps. GraphPlacementV2_id p \<in> set q \<and> assessment_placement P p)))"
  by (rule safe_targets_walks[OF assms])

definition sample_procedure :: ParsedProcedureV2 where
  "sample_procedure = \<lparr>pp_id = [], pp_version = [], pp_name = [], pp_purpose = [], pp_description = None,
     pp_goal_tracking = None, pp_node_definitions = [], pp_graph = sample_graph\<rparr>"

theorem safe_targets_are_exact_witness:
  "\<exists>ids. goal_revision_safe_targets_v2 sample_procedure = Some ids \<and>
    (\<forall>a. a \<in> set ids \<longleftrightarrow> a \<in> GraphPlacementV2_id ` set sample_placements \<and>
       (\<forall>t\<in>set sample_placements. \<forall>q. terminal_action t \<longrightarrow>
          walk (transitions True sample_graph) a q (GraphPlacementV2_id t) \<longrightarrow>
          (\<exists>p\<in>set sample_placements. GraphPlacementV2_id p \<in> set q \<and> assessment_placement sample_procedure p)))"
proof -
  have g: "pp_graph sample_procedure = sample_graph" by (simp add: sample_procedure_def)
  show ?thesis using safe_targets_are_exact[of _ _ _ sample_procedure, unfolded g, OF sample_built] .
qed

end
