(* ===== verification/Canonical_Props.thy ===== *)
theory Canonical_Props
  imports Recorded_Digests
begin

text \<open>
  Canonical JSON determines the value: two values with the same canonical bytes are equal up to
  the order of object entries, and hence two recorded item sets with the same canonical JSON are
  equal. The only assumption on \<open>serde_json\<close> is that its string literals start with a quote and
  are self-delimiting.
\<close>

section \<open>The encoder of string literals\<close>

definition string_codec :: "externals \<Rightarrow> bool" where
  "string_codec ext \<longleftrightarrow>
     (\<forall>s. \<exists>rest. ext_json_string ext s = 34 # rest) \<and>
     (\<forall>s t x y. ext_json_string ext s @ x = ext_json_string ext t @ y \<longrightarrow> s = t \<and> x = y)"

lemma string_codec_head: "string_codec ext \<Longrightarrow> \<exists>rest. ext_json_string ext s = 34 # rest"
  unfolding string_codec_def by blast

lemma string_codec_cancel:
  "string_codec ext \<Longrightarrow> ext_json_string ext s @ x = ext_json_string ext t @ y \<Longrightarrow> s = t \<and> x = y"
  unfolding string_codec_def by blast

section \<open>Integer text is unambiguous\<close>

definition digits_value :: "byte list \<Rightarrow> nat" where
  "digits_value = foldl (\<lambda>a d. 10 * a + (d - 48)) 0"

lemma digits_value_snoc [simp]: "digits_value (ds @ [d]) = 10 * digits_value ds + (d - 48)"
  by (simp add: digits_value_def)

lemma digits_value_nat_text [simp]: "digits_value (nat_text n) = n"
proof (induction n rule: nat_text.induct)
  case (1 n)
  show ?case
  proof (cases "n < 10")
    case True
    then show ?thesis by (subst nat_text.simps) (simp add: digits_value_def)
  next
    case False
    with 1 show ?thesis by (subst nat_text.simps) (simp only: if_False digits_value_snoc, simp)
  qed
qed

lemma nat_text_digits: "d \<in> set (nat_text n) \<Longrightarrow> is_ascii_digit d"
proof (induction n arbitrary: d rule: nat_text.induct)
  case (1 n)
  show ?case
  proof (cases "n < 10")
    case True
    with 1(2) show ?thesis by (subst (asm) nat_text.simps) (simp add: is_ascii_digit_def)
  next
    case False
    with 1(2) have "d \<in> set (nat_text (n div 10)) \<or> d = 48 + n mod 10"
      by (subst (asm) nat_text.simps) auto
    moreover have "is_ascii_digit (48 + n mod 10)"
      using mod_less_divisor[of 10 n] by (simp add: is_ascii_digit_def)
    ultimately show ?thesis using 1(1)[OF False] by blast
  qed
qed

lemma nat_text_not_Nil: "nat_text n \<noteq> []"
  by (subst nat_text.simps) simp

definition stops :: "byte list \<Rightarrow> bool" where
  "stops x \<longleftrightarrow> (case x of [] \<Rightarrow> True | b # _ \<Rightarrow> \<not> is_ascii_digit b)"

lemma takeWhile_nat_text: "stops x \<Longrightarrow> takeWhile is_ascii_digit (nat_text n @ x) = nat_text n"
  using nat_text_digits by (cases x) (auto simp: stops_def takeWhile_append)

lemma nat_text_cancel:
  assumes "nat_text m @ x = nat_text n @ y" "stops x" "stops y"
  shows "m = n"
  by (metis assms digits_value_nat_text takeWhile_nat_text)

lemma int_text_cancel:
  assumes eq: "int_text m @ x = int_text n @ y" and st: "stops x" "stops y"
  shows "m = n"
proof -
  have nodash: "nat_text k @ z \<noteq> 45 # u" for k z u
    using nat_text_not_Nil[of k] nat_text_digits[of "hd (nat_text k)" k]
    by (cases "nat_text k") (auto simp: is_ascii_digit_def)
  show ?thesis
  proof (cases "m < 0"; cases "n < 0")
    assume "m < 0" "n < 0"
    with eq have "nat_text (nat (- m)) @ x = nat_text (nat (- n)) @ y" by (simp add: int_text_def)
    from nat_text_cancel[OF this st] \<open>m < 0\<close> \<open>n < 0\<close> show ?thesis by simp
  next
    assume "\<not> m < 0" "\<not> n < 0"
    with eq have "nat_text (nat m) @ x = nat_text (nat n) @ y" by (simp add: int_text_def)
    from nat_text_cancel[OF this st] \<open>\<not> m < 0\<close> \<open>\<not> n < 0\<close> show ?thesis by simp
  next
    assume "m < 0" "\<not> n < 0"
    with eq nodash[of "nat n" y] show ?thesis by (simp add: int_text_def) metis
  next
    assume "\<not> m < 0" "n < 0"
    with eq nodash[of "nat m" x] show ?thesis by (simp add: int_text_def)
  qed
qed

section \<open>Values up to the order of entries\<close>

abbreviation entry_bytes :: "str \<times> Value \<Rightarrow> byte list" where
  "entry_bytes \<equiv> \<lambda>(k, v). as_bytes k"

fun normal :: "Value \<Rightarrow> Value" where
  "normal (VArray vs) = VArray (map normal vs)"
| "normal (VObject kvs) = VObject (map (\<lambda>(k, v). (k, normal v)) (sort_key entry_bytes kvs))"
| "normal v = v"

text \<open>The first byte tells the constructors apart.\<close>

fun tag :: "Value \<Rightarrow> nat" where
  "tag VNull = 0"
| "tag (VBool b) = (if b then 1 else 2)"
| "tag (VInt _) = 3"
| "tag (VFloat _) = 4"
| "tag (VString _) = 5"
| "tag (VArray _) = 6"
| "tag (VObject _) = 7"

definition byte_tag :: "byte \<Rightarrow> nat" where
  "byte_tag b =
     (if b = 110 then 0 else if b = 116 then 1 else if b = 102 then 2
      else if b = 45 \<or> is_ascii_digit b then 3
      else if b = 34 then 5 else if b = 91 then 6 else if b = 123 then 7 else 8)"

lemma int_text_head: "int_text n \<noteq> [] \<and> byte_tag (hd (int_text n)) = 3"
proof -
  have "nat_text k \<noteq> [] \<and> byte_tag (hd (nat_text k)) = 3" for k
    using nat_text_not_Nil[of k] nat_text_digits[of "hd (nat_text k)" k]
    by (auto simp: byte_tag_def is_ascii_digit_def)
  moreover have "byte_tag 45 = 3" by (simp add: byte_tag_def)
  ultimately show ?thesis by (simp add: int_text_def)
qed

lemma write_head:
  assumes "string_codec ext" "write_canonical_json ext v = Inr b"
  shows "b \<noteq> [] \<and> byte_tag (hd b) = tag v"
  using assms(2)
proof (cases v)
  case (VString s)
  with assms string_codec_head[OF assms(1), of s] show ?thesis by (auto simp: byte_tag_def is_ascii_digit_def)
next
  case (VInt n)
  with assms int_text_head[of n] show ?thesis by (auto split: if_splits)
qed (auto simp: lit_def byte_tag_def is_ascii_digit_def split: if_splits)

lemma same_tag:
  assumes "string_codec ext" "write_canonical_json ext v = Inr b" "write_canonical_json ext w = Inr c"
    "b @ x = c @ y"
  shows "tag v = tag w"
  using write_head[OF assms(1,2)] write_head[OF assms(1,3)] assms(4)
  by (metis hd_append2)

section \<open>Separated pieces\<close>

lemma comma_separated_Cons: "comma_separated (p # ps) = p @ (if ps = [] then [] else 44 # comma_separated ps)"
  by (cases ps) auto

lemma comma_cancel:
  assumes pieces: "\<And>p q x y. p \<in> set ps \<Longrightarrow> q \<in> set qs \<Longrightarrow> stops x \<Longrightarrow> stops y \<Longrightarrow> p @ x = q @ y \<Longrightarrow> p = q"
    and heads: "\<And>p. p \<in> set ps \<union> set qs \<Longrightarrow> p \<noteq> [] \<and> hd p \<noteq> close"
    and close: "close \<noteq> 44" "\<not> is_ascii_digit close"
    and eq: "comma_separated ps @ close # x = comma_separated qs @ close # y"
  shows "ps = qs \<and> x = y"
  using pieces heads eq
proof (induction ps arbitrary: qs)
  case Nil
  show ?case
  proof (cases qs)
    case Nil
    with Nil.prems(3) show ?thesis by simp
  next
    case (Cons q qs')
    moreover from this Nil.prems(2)[of q] obtain b q' where "q = b # q'" "b \<noteq> close" by (cases q) auto
    ultimately show ?thesis using Nil.prems(3) by (simp add: comma_separated_Cons)
  qed
next
  case (Cons p ps)
  show ?case
  proof (cases qs)
    case Nil
    moreover from Cons.prems(2)[of p] obtain b p' where "p = b # p'" "b \<noteq> close" by (cases p) auto
    ultimately show ?thesis using Cons.prems(3) by (simp add: comma_separated_Cons)
  next
    case (Cons q qs')
    define u where "u = (if ps = [] then [] else 44 # comma_separated ps) @ close # x"
    define u' where "u' = (if qs' = [] then [] else 44 # comma_separated qs') @ close # y"
    have st: "stops u" "stops u'" using close by (auto simp: u_def u'_def stops_def is_ascii_digit_def)
    have "p @ u = q @ u'" using Cons.prems(3) Cons by (simp add: comma_separated_Cons u_def u'_def)
    then have pq: "p = q" and uu: "u = u'"
      using Cons.prems(1)[of p q u u'] st Cons by auto
    have "(ps = [] \<longleftrightarrow> qs' = []) \<and> comma_separated ps @ close # x = comma_separated qs' @ close # y"
      using uu close by (auto simp: u_def u'_def split: if_splits)
    then have rest: "comma_separated ps @ close # x = comma_separated qs' @ close # y" ..
    have sub: "set ps \<subseteq> set (p # ps)" "set qs' \<subseteq> set qs" using Cons by auto
    have "ps = qs' \<and> x = y"
    proof (rule Cons.IH[OF _ _ rest])
      fix r t z z' assume "r \<in> set ps" "t \<in> set qs'" "stops z" "stops z'" "r @ z = t @ z'"
      with sub show "r = t" using Cons.prems(1)[of r t z z'] by blast
    next
      fix r assume "r \<in> set ps \<union> set qs'"
      with sub show "r \<noteq> [] \<and> hd r \<noteq> close" using Cons.prems(2)[of r] by blast
    qed
    with pq Cons show ?thesis by simp
  qed
qed

section \<open>Canonical bytes determine the value\<close>

lemma write_array:
  "write_canonical_json ext (VArray vs) = Inr b \<longleftrightarrow>
     (\<exists>ps. list_all2 (\<lambda>v p. write_canonical_json ext v = Inr p) vs ps \<and>
           b = 91 # comma_separated ps @ [93])"
  by (auto simp: collect_ok_Inr)

definition write_entry :: "externals \<Rightarrow> str \<times> Value \<Rightarrow> byte list \<Rightarrow> bool" where
  "write_entry ext e p \<longleftrightarrow>
     (\<exists>bytes. write_canonical_json ext (snd e) = Inr bytes \<and> p = ext_json_string ext (fst e) @ 58 # bytes)"

lemma write_object:
  "write_canonical_json ext (VObject kvs) = Inr b \<longleftrightarrow>
     (\<exists>ps. list_all2 (write_entry ext) (sort_key entry_bytes kvs) ps \<and>
           b = 123 # comma_separated ps @ [125])"
proof -
  have "(case e of (k, v) \<Rightarrow> rbind (write_canonical_json ext v) (\<lambda>bytes. Inr (ext_json_string ext k @ [58] @ bytes)))
      = Inr p \<longleftrightarrow> write_entry ext e p" for e p
    by (cases e) (auto simp: write_entry_def)
  then show ?thesis by (auto simp: collect_ok_Inr)
qed

lemma list_all2_map_eq:
  assumes "list_all2 P xs ps" "list_all2 Q ys ps"
    and "\<And>x y p. x \<in> set xs \<Longrightarrow> y \<in> set ys \<Longrightarrow> P x p \<Longrightarrow> Q y p \<Longrightarrow> f x = g y"
  shows "map f xs = map g ys"
  using assms
proof (induction xs ps arbitrary: ys rule: list_all2_induct)
  case Nil
  then show ?case by simp
next
  case (Cons x xs p ps)
  from Cons.prems(1) obtain y ys' where "ys = y # ys'" "Q y p" "list_all2 Q ys' ps"
    by (auto simp: list_all2_Cons2)
  with Cons show ?case by auto
qed

lemma list_all2_in:
  "list_all2 P xs ps \<Longrightarrow> p \<in> set ps \<Longrightarrow> \<exists>x\<in>set xs. P x p"
  by (induction xs ps rule: list_all2_induct) auto

definition decodes :: "externals \<Rightarrow> Value \<Rightarrow> bool" where
  "decodes ext v \<longleftrightarrow>
     (\<forall>w b c x y. write_canonical_json ext v = Inr b \<longrightarrow> write_canonical_json ext w = Inr c \<longrightarrow>
        stops x \<longrightarrow> stops y \<longrightarrow> b @ x = c @ y \<longrightarrow> b = c \<and> normal v = normal w)"

lemma decodesD:
  "decodes ext v \<Longrightarrow> write_canonical_json ext v = Inr b \<Longrightarrow> write_canonical_json ext w = Inr c \<Longrightarrow>
     stops x \<Longrightarrow> stops y \<Longrightarrow> b @ x = c @ y \<Longrightarrow> b = c \<and> normal v = normal w"
  unfolding decodes_def by blast

lemma stops_simps [simp]: "stops []" "stops (b # x) = (\<not> is_ascii_digit b)"
  by (simp_all add: stops_def)

lemma array_decodes:
  assumes codec: "string_codec ext" and elems: "\<And>v. v \<in> set vs \<Longrightarrow> decodes ext v"
    and v: "list_all2 (\<lambda>v p. write_canonical_json ext v = Inr p) vs ps"
    and w: "list_all2 (\<lambda>v p. write_canonical_json ext v = Inr p) ws qs"
    and eq: "comma_separated ps @ 93 # x = comma_separated qs @ 93 # y"
  shows "ps = qs \<and> map normal vs = map normal ws"
proof -
  have head: "p \<noteq> [] \<and> hd p \<noteq> 93" if "p \<in> set ps \<union> set qs" for p
  proof -
    from that list_all2_in[OF v] list_all2_in[OF w] obtain u where "write_canonical_json ext u = Inr p" by blast
    from write_head[OF codec this] show ?thesis by (cases u) (auto simp: byte_tag_def is_ascii_digit_def split: if_splits)
  qed
  have "ps = qs \<and> x = y"
  proof (rule comma_cancel[OF _ head _ _ eq])
    fix p q x y assume "p \<in> set ps" "q \<in> set qs" "stops x" "stops y" "p @ x = q @ y"
    then show "p = q" using list_all2_in[OF v] list_all2_in[OF w] decodesD elems by metis
  qed (simp_all add: is_ascii_digit_def)
  then have w': "list_all2 (\<lambda>v p. write_canonical_json ext v = Inr p) ws ps" using w by simp
  have "map normal vs = map normal ws"
  proof (rule list_all2_map_eq[OF v w'])
    fix a b p assume "a \<in> set vs" "write_canonical_json ext a = Inr p" "write_canonical_json ext b = Inr p"
    from decodesD[OF elems[OF this(1)] this(2,3), of "[]" "[]"] show "normal a = normal b" by simp
  qed
  with \<open>ps = qs \<and> x = y\<close> show ?thesis by simp
qed

lemma write_entry_cancel:
  assumes codec: "string_codec ext" and "decodes ext (snd e)" "write_entry ext e p" "write_entry ext f q"
    "stops x" "stops y" "p @ x = q @ y"
  shows "p = q \<and> (fst e, normal (snd e)) = (fst f, normal (snd f))"
proof -
  from assms(3,4) obtain b c where b: "write_canonical_json ext (snd e) = Inr b" "p = ext_json_string ext (fst e) @ 58 # b"
    and c: "write_canonical_json ext (snd f) = Inr c" "q = ext_json_string ext (fst f) @ 58 # c"
    by (auto simp: write_entry_def)
  with assms(7) have "ext_json_string ext (fst e) @ (58 # b @ x) = ext_json_string ext (fst f) @ (58 # c @ y)"
    by simp
  from string_codec_cancel[OF codec this] have "fst e = fst f" "b @ x = c @ y" by auto
  with decodesD[OF assms(2) b(1) c(1) assms(5,6)] b c show ?thesis by simp
qed

lemma object_decodes:
  assumes codec: "string_codec ext" and elems: "\<And>e. e \<in> set kvs \<Longrightarrow> decodes ext (snd e)"
    and v: "list_all2 (write_entry ext) kvs ps" and w: "list_all2 (write_entry ext) kws qs"
    and eq: "comma_separated ps @ 125 # x = comma_separated qs @ 125 # y"
  shows "ps = qs \<and> map (\<lambda>e. (fst e, normal (snd e))) kvs = map (\<lambda>e. (fst e, normal (snd e))) kws"
proof -
  have head: "p \<noteq> [] \<and> hd p \<noteq> 125" if "p \<in> set ps \<union> set qs" for p
  proof -
    from that list_all2_in[OF v] list_all2_in[OF w] obtain e where "write_entry ext e p" by blast
    then show ?thesis using string_codec_head[OF codec, of "fst e"] by (auto simp: write_entry_def)
  qed
  have "ps = qs \<and> x = y"
  proof (rule comma_cancel[OF _ head _ _ eq])
    fix p q x y assume *: "p \<in> set ps" "q \<in> set qs" "stops x" "stops y" "p @ x = q @ y"
    from list_all2_in[OF v *(1)] list_all2_in[OF w *(2)] obtain e f
      where "e \<in> set kvs" "write_entry ext e p" "write_entry ext f q" by blast
    with write_entry_cancel[OF codec elems] * show "p = q" by blast
  qed (simp_all add: is_ascii_digit_def)
  then have w': "list_all2 (write_entry ext) kws ps" using w by simp
  have "map (\<lambda>e. (fst e, normal (snd e))) kvs = map (\<lambda>e. (fst e, normal (snd e))) kws"
  proof (rule list_all2_map_eq[OF v w'])
    fix e f p assume "e \<in> set kvs" "write_entry ext e p" "write_entry ext f p"
    from write_entry_cancel[OF codec elems[OF this(1)] this(2,3), of "[]" "[]"]
    show "(fst e, normal (snd e)) = (fst f, normal (snd f))" by simp
  qed
  with \<open>ps = qs \<and> x = y\<close> show ?thesis by simp
qed

lemma decodesI:
  assumes "string_codec ext"
    and "\<And>w b c x y. write_canonical_json ext v = Inr b \<Longrightarrow> write_canonical_json ext w = Inr c \<Longrightarrow>
       stops x \<Longrightarrow> stops y \<Longrightarrow> b @ x = c @ y \<Longrightarrow> tag w = tag v \<Longrightarrow> b = c \<and> normal v = normal w"
  shows "decodes ext v"
  unfolding decodes_def using assms same_tag[THEN sym] by blast

lemma tag_cases [elim]:
  "tag w = 3 \<Longrightarrow> (\<And>n. w = VInt n \<Longrightarrow> P) \<Longrightarrow> P"
  "tag w = 5 \<Longrightarrow> (\<And>s. w = VString s \<Longrightarrow> P) \<Longrightarrow> P"
  "tag w = 6 \<Longrightarrow> (\<And>vs. w = VArray vs \<Longrightarrow> P) \<Longrightarrow> P"
  "tag w = 7 \<Longrightarrow> (\<And>kvs. w = VObject kvs \<Longrightarrow> P) \<Longrightarrow> P"
  by (cases w; simp split: if_splits)+

lemma write_decodes:
  assumes codec: "string_codec ext"
  shows "decodes ext v"
proof (induction v)
  case (VArray vs)
  show ?case
  proof (rule decodesI[OF codec])
    fix w b c x y assume *: "write_canonical_json ext (VArray vs) = Inr b" "write_canonical_json ext w = Inr c"
      "b @ x = c @ y" "tag w = tag (VArray vs)"
    from *(4) obtain ws where w: "w = VArray ws" by (auto elim: tag_cases)
    from *(1,2) obtain ps qs where ps: "list_all2 (\<lambda>v p. write_canonical_json ext v = Inr p) vs ps"
      "b = 91 # comma_separated ps @ [93]" and qs: "list_all2 (\<lambda>v p. write_canonical_json ext v = Inr p) ws qs"
      "c = 91 # comma_separated qs @ [93]" unfolding w write_array by blast
    with *(3) have "comma_separated ps @ 93 # x = comma_separated qs @ 93 # y" by simp
    from array_decodes[OF codec VArray ps(1) qs(1) this] ps qs w show "b = c \<and> normal (VArray vs) = normal w"
      by simp
  qed
next
  case (VObject kvs)
  have elems: "decodes ext (snd e)" if "e \<in> set (sort_key entry_bytes kvs)" for e
    using VObject[of e "snd e"] that by (cases e) simp
  show ?case
  proof (rule decodesI[OF codec])
    fix w b c x y assume *: "write_canonical_json ext (VObject kvs) = Inr b" "write_canonical_json ext w = Inr c"
      "b @ x = c @ y" "tag w = tag (VObject kvs)"
    from *(4) obtain kws where w: "w = VObject kws" by (auto elim: tag_cases)
    from *(1,2) obtain ps qs where ps: "list_all2 (write_entry ext) (sort_key entry_bytes kvs) ps"
      "b = 123 # comma_separated ps @ [125]" and qs: "list_all2 (write_entry ext) (sort_key entry_bytes kws) qs"
      "c = 123 # comma_separated qs @ [125]" unfolding w write_object by blast
    with *(3) have "comma_separated ps @ 125 # x = comma_separated qs @ 125 # y" by simp
    from object_decodes[OF codec elems ps(1) qs(1) this] ps qs w show "b = c \<and> normal (VObject kvs) = normal w"
      by (simp add: case_prod_beta')
  qed
next
  case (VInt n)
  show ?case
    by (rule decodesI[OF codec]) (auto elim!: tag_cases split: if_splits dest: int_text_cancel)
next
  case (VString s)
  show ?case
    by (rule decodesI[OF codec]) (auto elim!: tag_cases dest: string_codec_cancel[OF codec])
next
  case VNull
  show ?case by (rule decodesI[OF codec]) (case_tac w; simp split: if_splits)
next
  case (VBool t)
  show ?case by (rule decodesI[OF codec]) (case_tac w; simp split: if_splits)
next
  case (VFloat f)
  show ?case by (rule decodesI[OF codec]) simp
qed

theorem canonical_bytes_determine_value:
  assumes "string_codec ext" "canonicalize_value ext v = Inr b" "canonicalize_value ext w = Inr b"
  shows "normal v = normal w"
  using decodesD[OF write_decodes[OF assms(1)], of v b w b "[]" "[]"] assms(2,3)
  by (simp add: canonicalize_value_def)

section \<open>Recorded items\<close>

lemma item_value_json:
  "item_value_json_v2 v = Inr
     (case v of
        RvConfirm \<Rightarrow> VObject [(lit ''kind'', json_text ''confirm'')]
      | RvText t \<Rightarrow> kind_and_value ''text'' (VString t)
      | RvChoice t \<Rightarrow> kind_and_value ''choice'' (VString t)
      | RvInteger n \<Rightarrow> kind_and_value ''integer'' (VInt (sint n))
      | RvList ts \<Rightarrow> kind_and_value ''list'' (VArray (map VString ts))
      | RvArtifact a \<Rightarrow> artifact_json a
      | RvCheckResult r \<Rightarrow> check_result_json r)"
  by (cases v) (simp_all add: item_value_json_v2_def)

text \<open>Equal normal forms of objects without repeated keys agree key by key.\<close>

lemma normal_object_lookup:
  assumes eq: "normal (VObject m) = normal (VObject m')"
    and d: "distinct (map fst m)" "distinct (map fst m')"
  shows "map_option normal (map_of m k) = map_option normal (map_of m' k)"
proof -
  have sorted: "map_of (sort_key entry_bytes n) = map_of n" if "distinct (map fst n)" for n
    using that by (intro iffD2[OF map_of_inject_set]) (auto simp: distinct_map)
  have "map_of (map (\<lambda>(k, v). (k, normal v)) n) k = map_option normal (map_of n k)" for n
    by (induction n) auto
  with eq sorted[OF d(1)] sorted[OF d(2)] show ?thesis
    by (metis normal.simps(2) Value.inject(6))
qed

lemmas lookup_kind = normal_object_lookup[where k = "lit ''kind''"]

lemma word_value_inject:
  "sint (a :: i64) = sint b \<longleftrightarrow> a = b"
  "uint (a :: u64) = uint b \<longleftrightarrow> a = b"
  by (metis signed_word_eqI) (rule word_uint_eq_iff[symmetric])

lemma outcome_str_inject [simp]: "CheckResultOutcomeV2_as_str p = CheckResultOutcomeV2_as_str q \<longleftrightarrow> p = q"
  by (cases p; cases q) (simp_all add: CheckResultOutcomeV2_as_str_def lit_def)

lemma artifact_json_inject:
  assumes "normal (artifact_json a) = normal (artifact_json b)"
  shows "a = b"
proof -
  note l = normal_object_lookup[OF assms[unfolded artifact_json_def]]
  from l[of "lit ''location''"] l[of "lit ''digest''"] l[of "lit ''size_bytes''"] l[of "lit ''media_type''"]
    l[of "lit ''location_kind''"]
  show ?thesis
    by (cases a; cases b) (auto simp: lit_def word_value_inject split: ArtifactLocationKindV1.splits)
qed

lemma check_result_json_inject:
  assumes "normal (check_result_json a) = normal (check_result_json b)"
  shows "a = b"
proof -
  note l = normal_object_lookup[OF assms[unfolded check_result_json_def]]
  from l[of "lit ''input_basis''"]
  have "normal (VObject [(lit ''descriptor'', VString (basis_descriptor (cr_input_basis a))),
          (lit ''digest'', VString (Sha256Digest_as_str (basis_digest (cr_input_basis a))))]) =
        normal (VObject [(lit ''descriptor'', VString (basis_descriptor (cr_input_basis b))),
          (lit ''digest'', VString (Sha256Digest_as_str (basis_digest (cr_input_basis b))))])"
    by (simp add: lit_def del: normal.simps)
  note basis = normal_object_lookup[OF this]
  have basis_eq: "cr_input_basis a = cr_input_basis b"
    using basis[of "lit ''descriptor''"] basis[of "lit ''digest''"]
    by (cases "cr_input_basis a"; cases "cr_input_basis b") (simp add: lit_def)
  from l[of "lit ''executor''"]
  have "normal (VObject [(lit ''name'', VString (executor_name (cr_executor a))),
          (lit ''version'', VString (executor_version (cr_executor a)))]) =
        normal (VObject [(lit ''name'', VString (executor_name (cr_executor b))),
          (lit ''version'', VString (executor_version (cr_executor b)))])"
    by (simp add: lit_def del: normal.simps)
  note executor = normal_object_lookup[OF this]
  have "cr_executor a = cr_executor b"
    using executor[of "lit ''name''"] executor[of "lit ''version''"]
    by (cases "cr_executor a"; cases "cr_executor b") (simp add: lit_def)
  with basis_eq l[of "lit ''operation_id''"] l[of "lit ''operation_digest''"] l[of "lit ''outcome''"]
    l[of "lit ''summary''"] l[of "lit ''output_digest''"]
  show ?thesis by (cases a; cases b) (simp add: lit_def)
qed

definition recorded_value_json :: "RecordedItemValueV2 \<Rightarrow> Value" where
  "recorded_value_json v = projr (item_value_json_v2 v)"

lemma item_value_json_total: "item_value_json_v2 v = Inr (recorded_value_json v)"
  by (simp add: recorded_value_json_def item_value_json)

fun kind_name :: "RecordedItemValueV2 \<Rightarrow> string" where
  "kind_name RvConfirm = ''confirm''"
| "kind_name (RvText _) = ''text''"
| "kind_name (RvChoice _) = ''choice''"
| "kind_name (RvInteger _) = ''integer''"
| "kind_name (RvList _) = ''list''"
| "kind_name (RvArtifact _) = ''artifact''"
| "kind_name (RvCheckResult _) = ''check_result''"

lemma recorded_value_entries:
  obtains m where "recorded_value_json v = VObject m" "distinct (map fst m)"
    "map_of m (lit ''kind'') = Some (json_text (kind_name v))"
proof (cases v)
  case (RvArtifact a)
  then show thesis
    by (intro that) (auto simp: recorded_value_json_def item_value_json artifact_json_def kind_and_value_def lit_def)
next
  case (RvCheckResult r)
  then show thesis
    by (intro that) (auto simp: recorded_value_json_def item_value_json check_result_json_def kind_and_value_def lit_def)
qed (auto simp: recorded_value_json_def item_value_json kind_and_value_def lit_def intro!: that)

lemma kind_and_value_inject:
  assumes "normal (kind_and_value k x) = normal (kind_and_value k y)"
  shows "normal x = normal y"
  using normal_object_lookup[OF assms[unfolded kind_and_value_def], of "lit ''value''"]
  by (simp add: lit_def)

lemma strings_normal: "map (normal \<circ> VString) ss = map (normal \<circ> VString) ts \<longleftrightarrow> ss = ts"
  by (rule inj_map_eq_map) (simp add: inj_on_def)

lemma recorded_value_json_inject:
  assumes "normal (recorded_value_json v) = normal (recorded_value_json w)"
  shows "v = w"
proof -
  obtain m where m: "recorded_value_json v = VObject m" "distinct (map fst m)"
    "map_of m (lit ''kind'') = Some (json_text (kind_name v))" by (rule recorded_value_entries)
  obtain n where n: "recorded_value_json w = VObject n" "distinct (map fst n)"
    "map_of n (lit ''kind'') = Some (json_text (kind_name w))" by (rule recorded_value_entries)
  have "lit (kind_name v) = lit (kind_name w)"
    using normal_object_lookup[of m n "lit ''kind''"] assms m n by simp
  moreover note assms
  ultimately show ?thesis
    by (cases v; cases w)
      (auto simp: lit_def recorded_value_json_def item_value_json word_value_inject strings_normal
        simp del: normal.simps(2)
        dest!: kind_and_value_inject artifact_json_inject check_result_json_inject)
qed

lemma recorded_item_json_total:
  "recorded_item_json item = Inr (VObject
     [(lit ''id'', VString (ItemId_as_str (ri_id item))), (lit ''value'', recorded_value_json (ri_value item))])"
  by (simp add: recorded_item_json_def item_value_json_total)

lemma recorded_item_json_inject:
  assumes "recorded_item_json a = Inr v" "recorded_item_json b = Inr w" "normal v = normal w"
  shows "a = b"
proof -
  from assms have "normal (VObject [(lit ''id'', VString (ItemId_as_str (ri_id a))),
       (lit ''value'', recorded_value_json (ri_value a))]) =
     normal (VObject [(lit ''id'', VString (ItemId_as_str (ri_id b))),
       (lit ''value'', recorded_value_json (ri_value b))])"
    by (simp add: recorded_item_json_total del: normal.simps)
  note l = normal_object_lookup[OF this]
  from l[of "lit ''id''"] l[of "lit ''value''"] show ?thesis
    by (cases a; cases b) (auto simp: lit_def dest: recorded_value_json_inject)
qed

lemma recorded_items_json_inject:
  assumes codec: "string_codec ext" and a: "canonical_recorded_items_json_v2 ext A = Inr bytes"
    and b: "canonical_recorded_items_json_v2 ext B = Inr bytes"
  shows "A = B"
proof -
  obtain vs ws where vs: "list_all2 (\<lambda>i v. recorded_item_json i = Inr v) (recorded_items A) vs"
      "canonicalize_value ext (VArray vs) = Inr bytes"
    and ws: "list_all2 (\<lambda>i v. recorded_item_json i = Inr v) (recorded_items B) ws"
      "canonicalize_value ext (VArray ws) = Inr bytes"
    using a b by (auto simp: canonical_recorded_items_json_v2_def collect_ok_Inr)
  from canonical_bytes_determine_value[OF codec vs(2) ws(2)] have normals: "map normal vs = map normal ws" by simp
  have "list_all2 (\<lambda>i v. \<exists>u. recorded_item_json i = Inr u \<and> normal u = v) (recorded_items A) (map normal vs)"
    using vs(1) by (auto simp: list_all2_map2 elim: list_all2_mono)
  moreover have "list_all2 (\<lambda>i v. \<exists>u. recorded_item_json i = Inr u \<and> normal u = v) (recorded_items B) (map normal vs)"
    using ws(1) unfolding normals by (auto simp: list_all2_map2 elim: list_all2_mono)
  ultimately have "map id (recorded_items A) = map id (recorded_items B)"
    by (rule list_all2_map_eq) (auto dest: recorded_item_json_inject)
  then show ?thesis by (cases A; cases B) simp
qed

text \<open>
  C24: the digest an evidence reference carries binds the complete recorded values. When two recorded
  item sets have the same digest, they are the same set of items, values and order, or their two
  canonical encodings are a concrete SHA-256 collision. Only that string literals are
  self-delimiting is assumed of the JSON library.
\<close>

theorem recorded_digest_binds_items:
  assumes "string_codec ext" "recorded_items_digest_v2 ext A = Inr d" "recorded_items_digest_v2 ext B = Inr d"
  shows "A = B \<or> (\<exists>a b. a \<noteq> b \<and> canonical_recorded_items_json_v2 ext A = Inr a \<and>
            canonical_recorded_items_json_v2 ext B = Inr b \<and> ext_sha256_hex ext a = ext_sha256_hex ext b)"
proof -
  obtain a b where ab: "canonical_recorded_items_json_v2 ext A = Inr a" "canonical_recorded_items_json_v2 ext B = Inr b"
    and "sha256_digest_of ext a = Inr d" "sha256_digest_of ext b = Inr d"
    using assms(2,3) by (auto simp: recorded_items_digest_v2_def)
  then have "ext_sha256_hex ext a = ext_sha256_hex ext b"
    by (auto simp: sha256_digest_of_def Sha256Digest_new_def)
  with ab recorded_items_json_inject[OF assms(1)] show ?thesis by metis
qed

text \<open>A concrete encoder: quotes and backslashes are escaped.\<close>

definition quote_text :: "str \<Rightarrow> byte list" where
  "quote_text s = 34 # concat (map (\<lambda>c. if c = 34 \<or> c = 92 then [92, c] else [c]) s) @ [34]"

definition sample_externals :: externals where
  "sample_externals = \<lparr>ext_json_string = quote_text, ext_json_from_slice = (\<lambda>_. Inl []),
     ext_sha256_hex = (\<lambda>_. replicate 64 48)\<rparr>"

lemma quote_text_cancel: "quote_text s @ x = quote_text t @ y \<Longrightarrow> s = t \<and> x = y"
proof (induction s arbitrary: t)
  case Nil
  then show ?case by (cases t) (auto simp: quote_text_def split: if_splits)
next
  case (Cons c s)
  from Cons.prems obtain c' t' where t: "t = c' # t'" by (cases t) (auto simp: quote_text_def split: if_splits)
  with Cons.prems have "c = c' \<and> quote_text s @ x = quote_text t' @ y"
    by (auto simp: quote_text_def split: if_splits)
  with Cons.IH t show ?case by blast
qed

lemma sample_codec: "string_codec sample_externals"
proof -
  have "ext_json_string sample_externals = quote_text" by (simp add: sample_externals_def)
  moreover have "\<exists>rest. quote_text s = 34 # rest" for s by (simp add: quote_text_def)
  ultimately show ?thesis unfolding string_codec_def using quote_text_cancel by metis
qed

theorem recorded_digest_binds_items_witness:
  "\<exists>a b. a \<noteq> b \<and> ext_sha256_hex sample_externals a = ext_sha256_hex sample_externals b \<and>
     canonical_recorded_items_json_v2 sample_externals (RecordedItemSetV2 []) = Inr a"
proof -
  have zeros: "as_bytes (replicate 64 48) = replicate 64 48" by (rule as_bytes_ascii_text) simp
  define A where "A = RecordedItemSetV2 []"
  define B where "B = RecordedItemSetV2 [\<lparr>ri_id = ItemId (lit ''done''), ri_value = RvConfirm\<rparr>]"
  have digest: "recorded_items_digest_v2 sample_externals A = Inr (Sha256Digest (lit ''sha256:'' @ replicate 64 48))"
       "recorded_items_digest_v2 sample_externals B = Inr (Sha256Digest (lit ''sha256:'' @ replicate 64 48))"
    by (auto simp: A_def B_def recorded_items_digest_v2_def canonical_recorded_items_json_v2_def
        canonicalize_value_def recorded_item_json_def item_value_json sha256_digest_of_def Sha256Digest_new_def
        sample_externals_def validate_sha256_digest_def lit_def is_ascii_digit_def starts_with_iff zeros)
  have "A \<noteq> B" by (simp add: A_def B_def)
  with recorded_digest_binds_items[OF sample_codec digest] show ?thesis unfolding A_def by metis
qed

end
