(* ===== verification/Workflow_Memory.thy ===== *)
theory Workflow_Memory
  imports Snapshot_Model Session_Trace "HOL-Library.Product_Lexorder"
begin

text \<open>
  The workflow memory of \<open>workflow_v2.rs\<close>: item slots, blockers and resolved evidence of every
  attempt, the decision and rework history, and all operations on them: blocking and unblocking,
  the atomic item batch, and the successors of a completed, retried, skipped, decided or reworked
  attempt. Errors are the typed graph mutation errors of the code; \<open>?\<close> converts structural and
  domain errors with \<open>state_err\<close> and \<open>domain_err\<close>.
\<close>

section \<open>Orders\<close>

instantiation UnixMillis :: linorder
begin
definition less_eq_UnixMillis :: "UnixMillis \<Rightarrow> UnixMillis \<Rightarrow> bool" where
  "less_eq_UnixMillis a b \<longleftrightarrow> millis_get a \<le> millis_get b"
definition less_UnixMillis :: "UnixMillis \<Rightarrow> UnixMillis \<Rightarrow> bool" where
  "less_UnixMillis a b \<longleftrightarrow> millis_get a < millis_get b"
instance
  by standard (auto simp: less_eq_UnixMillis_def less_UnixMillis_def UnixMillis.expand)
end

primrec BlockerId_as_str :: "BlockerId \<Rightarrow> str" where
  "BlockerId_as_str (BlockerId s) = s"

section \<open>Commands and errors\<close>

datatype ActiveItemMutationV2 =
    MutCheck
  | MutUncheck
  | MutSet str
  | MutReplaceList "str list"
  | MutAdd str
  | MutRemove str bool
  | MutAttach ArtifactValueV1
  | MutRecordCheckResult CheckResultValueV2
  | MutClear

record ActiveItemMutationRequestV2 =
  rq_item_id :: ItemId
  rq_expected_item_revision :: Revision
  rq_mutation :: ActiveItemMutationV2

datatype (plugins only: size code) GraphMutationErrorV2 =
    GmGoalTrackingNotEnabled
  | GmSessionGoalAlreadyDefined GoalRevisionNumberV2
  | GmGoalRevisionStale GoalRevisionNumberV2 GoalRevisionNumberV2
  | GmGoalRevisionTargetNotAllowed GraphNodeId
  | GmGoalRevisionTargetNotRevisionSafe GraphNodeId
  | GmReactivationFlagRequired
  | GmSessionNotPrepared
  | GmSessionNotRunning
  | GmSessionRevisionConflict Revision Revision
  | GmAttemptNotCurrent AttemptId "AttemptId option"
  | GmGraphNodeTypeMismatch GraphNodeId NodeKindV2
  | GmOptionNotAllowed GraphNodeId OptionId "OptionId list"
  | GmOptionGuardUnsatisfied GraphNodeId OptionId ConditionStateV2 "Value list"
  | GmRouteNotAllowed GraphNodeId OptionId
  | GmDecisionReasonMissing GraphNodeId
  | GmEvidenceReferenceUnresolved GraphNodeId "GraphNodeId list"
  | GmEvidenceReferenceStale GraphNodeId GraphNodeId AttemptId "AttemptId option"
  | GmGoalAssessmentDecisionRequiresAssessment GraphNodeId
  | GmGoalAssessmentDecisionRequired GraphNodeId
  | GmCriterionNotFound CriterionId
  | GmCriterionResultAlreadyRecorded CriterionId
  | GmCriterionModeMixed CriterionId CriterionAssessmentModeV2 CriterionStatusV2
  | GmCriterionCitationInvalid CriterionId CriterionCitationV2 "GraphNodeId list" "ItemId list"
  | GmCriterionResultMissing "CriterionId list"
  | GmGoalAssessmentOutcomeNotAllowed OptionId GoalOutcome "OptionId list"
  | GmSessionCancelled
  | GmManualReworkTargetNotAllowed GraphNodeId
  | GmManualReworkTargetNotOnTrace GraphNodeId
  | GmSkipNotAllowed GraphNodeId
  | GmSkipReasonRequired GraphNodeId
  | GmBlockerIdAlreadyUsed BlockerId
  | GmTooManyOpenBlockers u32
  | GmBlockerNotFound BlockerId
  | GmBlockerNotCurrent BlockerId
  | GmBlockerAlreadyResolved BlockerId
  | GmNoOpenBlockers
  | GmItemMutationBatchEmpty
  | GmTooManyItemMutations u32
  | GmDuplicateItemMutation ItemId
  | GmItemNotFound ItemId
  | GmItemRevisionConflict Revision Revision
  | GmItemTypeMismatch
  | GmItemConstraintFailed
  | GmListValueNotFound
  | GmListValueDuplicate
  | GmRequiredItemsMissing "ItemId list"
  | GmBlockersPresent
  | GmSessionGoalMissing
  | GmFreshGoalAssessmentMissing GoalRevisionNumberV2
  | GmInvalidState ProcedureStateErrorV2
  | GmDomain DomainError

abbreviation gm_invalid :: "string \<Rightarrow> GraphMutationErrorV2" where
  "gm_invalid reason \<equiv> GmInvalidState (state_invalid reason)"
abbreviation state_err :: "ProcedureStateErrorV2 + 'a \<Rightarrow> GraphMutationErrorV2 + 'a" where
  "state_err r \<equiv> map_err GmInvalidState r"
abbreviation domain_err :: "DomainError + 'a \<Rightarrow> GraphMutationErrorV2 + 'a" where
  "domain_err r \<equiv> map_err GmDomain r"

definition MAX_OPEN_BLOCKERS_V2 :: nat where
  "MAX_OPEN_BLOCKERS_V2 = 64"
definition MAX_ACTIVE_ITEM_MUTATIONS_V2 :: nat where
  "MAX_ACTIVE_ITEM_MUTATIONS_V2 = MAX_ITEMS_PER_DEFINITION_V2"
definition MAX_BLOCKER_REASON_CHARS_V2 :: nat where
  "MAX_BLOCKER_REASON_CHARS_V2 = 1000"

section \<open>Item slots\<close>

record ItemSlotStateV2 =
  sl_attempt_id :: AttemptId
  sl_item_id :: ItemId
  sl_item_type :: ItemTypeV1
  sl_revision :: Revision
  sl_value :: "RecordedItemValueV2 option"
  sl_created_at :: UnixMillis
  sl_updated_at :: UnixMillis

definition ItemSlotStateV2_new ::
    "AttemptId \<Rightarrow> ItemId \<Rightarrow> ItemTypeV1 \<Rightarrow> Revision \<Rightarrow> RecordedItemValueV2 option \<Rightarrow> UnixMillis \<Rightarrow> UnixMillis \<Rightarrow>
     ProcedureStateErrorV2 + ItemSlotStateV2" where
  "ItemSlotStateV2_new aid iid item_type revision v created_at updated_at =
     (if is_some_and v (\<lambda>x. RecordedItemValueV2_item_type x \<noteq> item_type)
      then Inl (state_invalid ''Procedure v2 item slot value type is inconsistent'')
      else if revision = Revision_ZERO \<and> (v \<noteq> None \<or> created_at \<noteq> updated_at)
      then Inl (state_invalid ''Procedure v2 unset item slot metadata is inconsistent'')
      else if updated_at < created_at
      then Inl (state_invalid ''Procedure v2 item slot timestamps are unordered'')
      else Inr \<lparr>sl_attempt_id = aid, sl_item_id = iid, sl_item_type = item_type, sl_revision = revision,
                sl_value = v, sl_created_at = created_at, sl_updated_at = updated_at\<rparr>)"

text \<open>The admission memo of the code caches a true answer; it does not change the answer.\<close>

definition value_is_admitted :: "ItemSlotStateV2 \<Rightarrow> ItemSpecV2 \<Rightarrow> bool" where
  "value_is_admitted slot declaration \<longleftrightarrow> is_none_or (sl_value slot) (admits_recorded_value declaration)"

definition required_now_v2 :: "ItemSpecV2 list \<Rightarrow> ItemSlotStateV2 list \<Rightarrow> nat \<Rightarrow> bool" where
  "required_now_v2 items slots index = required_now (items ! index) items (map sl_value slots)"

section \<open>Blockers\<close>

record BlockerStateV2 =
  bl_blocker_id :: BlockerId
  bl_attempt_id :: AttemptId
  bl_reason :: str
  bl_state :: BlockerState
  bl_created_at :: UnixMillis
  bl_resolved_at :: "UnixMillis option"

definition BlockerStateV2_new ::
    "BlockerId \<Rightarrow> AttemptId \<Rightarrow> str \<Rightarrow> BlockerState \<Rightarrow> UnixMillis \<Rightarrow> UnixMillis option \<Rightarrow>
     ProcedureStateErrorV2 + BlockerStateV2" where
  "BlockerStateV2_new bid aid reason state created_at resolved_at =
     (if trim reason = [] \<or> length reason > MAX_BLOCKER_REASON_CHARS_V2
      then Inl (state_invalid ''Procedure v2 blocker reason is invalid'')
      else if \<not> (case state of BlockerOpen \<Rightarrow> resolved_at = None
                 | BlockerResolved \<Rightarrow> is_some_and resolved_at (\<lambda>t. created_at \<le> t))
      then Inl (state_invalid ''Procedure v2 blocker state metadata is inconsistent'')
      else Inr \<lparr>bl_blocker_id = bid, bl_attempt_id = aid, bl_reason = reason, bl_state = state,
                bl_created_at = created_at, bl_resolved_at = resolved_at\<rparr>)"

section \<open>Resolved evidence\<close>

record EvidenceResolutionStateV2 =
  evr_ordinal :: u32
  evr_required :: bool
  evr_selected_item_ids :: "ItemId list"
  evr_resolution :: ResolvedEvidenceReferenceV2

fun is_unresolved :: "ResolvedEvidenceReferenceV2 \<Rightarrow> bool" where
  "is_unresolved (Unresolved _) = True"
| "is_unresolved _ = False"

definition EvidenceResolutionStateV2_new ::
    "u32 \<Rightarrow> bool \<Rightarrow> ItemId list \<Rightarrow> ResolvedEvidenceReferenceV2 \<Rightarrow>
     ProcedureStateErrorV2 + EvidenceResolutionStateV2" where
  "EvidenceResolutionStateV2_new ordinal required selected resolution =
     (if ordinal \<ge> 8 \<or> length selected > 16
      then Inl (state_invalid ''Procedure v2 evidence reference metadata is out of bounds'')
      else if \<not> distinct selected then Inl (state_invalid ''Procedure v2 evidence selectors must be unique'')
      else if required \<and> is_unresolved resolution
      then Inl (state_invalid ''required Procedure v2 evidence cannot be unresolved'')
      else if required \<and> (case resolution of Skipped _ \<Rightarrow> True | _ \<Rightarrow> False)
      then Inl (state_invalid ''required Procedure v2 evidence cannot be skipped'')
      else Inr \<lparr>evr_ordinal = ordinal, evr_required = required, evr_selected_item_ids = selected,
                evr_resolution = resolution\<rparr>)"

section \<open>Attempt memory and session memory\<close>

record AttemptWorkflowMemoryV2 =
  am_attempt_id :: AttemptId
  am_item_slots :: "ItemSlotStateV2 list"
  am_blockers :: "BlockerStateV2 list"
  am_evidence :: "EvidenceResolutionStateV2 list"

definition open_blockers :: "BlockerStateV2 list \<Rightarrow> BlockerStateV2 list" where
  "open_blockers blockers = filter (\<lambda>b. bl_state b = BlockerOpen) blockers"

definition AttemptWorkflowMemoryV2_new ::
    "AttemptId \<Rightarrow> ItemSlotStateV2 list \<Rightarrow> BlockerStateV2 list \<Rightarrow> EvidenceResolutionStateV2 list \<Rightarrow>
     ProcedureStateErrorV2 + AttemptWorkflowMemoryV2" where
  "AttemptWorkflowMemoryV2_new aid slots blockers evidence =
     (if (\<exists>s\<in>set slots. sl_attempt_id s \<noteq> aid) \<or> (\<exists>b\<in>set blockers. bl_attempt_id b \<noteq> aid)
      then Inl (state_invalid ''Procedure v2 workflow memory owner is inconsistent'')
      else if \<not> distinct (map sl_item_id slots) \<or> \<not> distinct (map bl_blocker_id blockers)
      then Inl (state_invalid ''Procedure v2 workflow memory identities must be unique'')
      else if length (open_blockers blockers) > MAX_OPEN_BLOCKERS_V2
      then Inl (state_invalid ''a Procedure v2 attempt holds at most 64 open blockers'')
      else if \<exists>(i, r)\<in>set (enumerate 0 evidence). evr_ordinal r \<noteq> u32_clamped i
      then Inl (state_invalid ''Procedure v2 evidence ordinals must be consecutive'')
      else Inr \<lparr>am_attempt_id = aid, am_item_slots = slots, am_blockers = blockers, am_evidence = evidence\<rparr>)"

definition slot_values :: "ItemSlotStateV2 list \<Rightarrow> RecordedItemValueV2 list" where
  "slot_values slots = List.map_filter sl_value slots"

definition AttemptWorkflowMemoryV2_content_scalars :: "AttemptWorkflowMemoryV2 \<Rightarrow> nat" where
  "AttemptWorkflowMemoryV2_content_scalars am = recorded_content_scalars_v2 (slot_values (am_item_slots am))"

definition recorded_slots :: "ItemSlotStateV2 list \<Rightarrow> RecordedItemV2 list" where
  "recorded_slots slots =
     List.map_filter (\<lambda>s. map_option (\<lambda>v. \<lparr>ri_id = sl_item_id s, ri_value = v\<rparr>) (sl_value s)) slots"

definition AttemptWorkflowMemoryV2_recorded_items ::
    "AttemptWorkflowMemoryV2 \<Rightarrow> ProcedureStateErrorV2 + RecordedItemSetV2" where
  "AttemptWorkflowMemoryV2_recorded_items am =
     map_err (\<lambda>_. state_invalid ''Procedure v2 recorded item set is invalid'')
       (RecordedItemSetV2_new (recorded_slots (am_item_slots am)))"

definition AttemptWorkflowMemoryV2_recorded_items_digest ::
    "externals \<Rightarrow> AttemptWorkflowMemoryV2 \<Rightarrow> ProcedureStateErrorV2 + Sha256Digest" where
  "AttemptWorkflowMemoryV2_recorded_items_digest ext am =
     rbind (AttemptWorkflowMemoryV2_recorded_items am) (recorded_items_digest_v2 ext)"

record WorkflowMemoryStateV2 =
  wm_attempts :: "AttemptWorkflowMemoryV2 list"
  wm_decisions :: "DecisionRecordV2 list"
  wm_reworks :: "ReworkRecordV2 list"

definition WorkflowMemoryStateV2_new ::
    "AttemptWorkflowMemoryV2 list \<Rightarrow> DecisionRecordV2 list \<Rightarrow> ReworkRecordV2 list \<Rightarrow>
     ProcedureStateErrorV2 + WorkflowMemoryStateV2" where
  "WorkflowMemoryStateV2_new attempts decisions reworks =
     (if \<not> distinct (map am_attempt_id attempts) \<or> \<not> distinct (map dr_attempt_id decisions)
         \<or> \<not> distinct (map rr_trace reworks)
      then Inl (state_invalid ''Procedure v2 workflow history identities must be unique'')
      else Inr \<lparr>wm_attempts = attempts, wm_decisions = decisions, wm_reworks = reworks\<rparr>)"

abbreviation all_blockers :: "WorkflowMemoryStateV2 \<Rightarrow> BlockerStateV2 list" where
  "all_blockers wm \<equiv> concat (map am_blockers (wm_attempts wm))"

definition active_index :: "WorkflowMemoryStateV2 \<Rightarrow> AttemptId \<Rightarrow> GraphMutationErrorV2 + nat" where
  "active_index wm aid =
     ok_or (gm_invalid ''active Procedure v2 workflow memory is absent'')
       (position (\<lambda>m. am_attempt_id m = aid) (wm_attempts wm))"

section \<open>Blocking and unblocking\<close>

definition set_blockers :: "nat \<Rightarrow> BlockerStateV2 list \<Rightarrow> WorkflowMemoryStateV2 \<Rightarrow> WorkflowMemoryStateV2" where
  "set_blockers i blockers wm =
     wm\<lparr>wm_attempts := modify i (\<lambda>m. m\<lparr>am_blockers := blockers\<rparr>) (wm_attempts wm)\<rparr>"

definition block_active_attempt_v2 ::
    "WorkflowMemoryStateV2 \<Rightarrow> AttemptId \<Rightarrow> BlockerId \<Rightarrow> str \<Rightarrow> UnixMillis \<Rightarrow>
     GraphMutationErrorV2 + WorkflowMemoryStateV2" where
  "block_active_attempt_v2 wm expected_attempt_id blocker_id reason now =
     (if \<exists>b\<in>set (all_blockers wm). bl_blocker_id b = blocker_id
      then Inl (GmBlockerIdAlreadyUsed blocker_id)
      else rbind (active_index wm expected_attempt_id) (\<lambda>index.
        let blockers = am_blockers (wm_attempts wm ! index) in
        if length (open_blockers blockers) \<ge> MAX_OPEN_BLOCKERS_V2
        then Inl (GmTooManyOpenBlockers (of_nat MAX_OPEN_BLOCKERS_V2))
        else rbind (state_err (BlockerStateV2_new blocker_id expected_attempt_id reason BlockerOpen now None)) (\<lambda>blocker.
          Inr (set_blockers index
                 (sort_key (\<lambda>b. (bl_created_at b, as_bytes (BlockerId_as_str (bl_blocker_id b)))) (blockers @ [blocker])) wm))))"

definition check_unblock_target ::
    "WorkflowMemoryStateV2 \<Rightarrow> BlockerStateV2 list \<Rightarrow> BlockerId option \<Rightarrow> GraphMutationErrorV2 + unit" where
  "check_unblock_target wm blockers blocker_id =
     (case blocker_id of
        None \<Rightarrow> Inr ()
      | Some bid \<Rightarrow>
          (case find (\<lambda>b. bl_blocker_id b = bid) blockers of
             Some b \<Rightarrow> if bl_state b = BlockerOpen then Inr () else Inl (GmBlockerAlreadyResolved bid)
           | None \<Rightarrow> if \<exists>b\<in>set (all_blockers wm). bl_blocker_id b = bid
                     then Inl (GmBlockerNotCurrent bid) else Inl (GmBlockerNotFound bid)))"

definition resolve_blocker ::
    "BlockerId list \<Rightarrow> UnixMillis \<Rightarrow> BlockerStateV2 \<Rightarrow> ProcedureStateErrorV2 + BlockerStateV2" where
  "resolve_blocker selected now b =
     (if bl_blocker_id b \<in> set selected
      then BlockerStateV2_new (bl_blocker_id b) (bl_attempt_id b) (bl_reason b) BlockerResolved (bl_created_at b) (Some now)
      else Inr b)"

definition unblock_active_attempt_v2 ::
    "WorkflowMemoryStateV2 \<Rightarrow> AttemptId \<Rightarrow> BlockerId option \<Rightarrow> bool \<Rightarrow> UnixMillis \<Rightarrow>
     GraphMutationErrorV2 + WorkflowMemoryStateV2 \<times> BlockerId list" where
  "unblock_active_attempt_v2 wm expected_attempt_id blocker_id unblock_all now =
     (if (blocker_id \<noteq> None) = unblock_all
      then Inl (gm_invalid ''unblock requires exactly one blocker identifier or all'')
      else rbind (active_index wm expected_attempt_id) (\<lambda>index.
        let blockers = am_blockers (wm_attempts wm ! index) in
        rbind (check_unblock_target wm blockers blocker_id) (\<lambda>_.
        let selected = map bl_blocker_id (filter (\<lambda>b. bl_state b = BlockerOpen \<and>
              is_none_or blocker_id (\<lambda>bid. bl_blocker_id b = bid)) blockers) in
        if selected = [] then Inl GmNoOpenBlockers
        else rbind (state_err (collect_ok (resolve_blocker selected now) blockers)) (\<lambda>resolved.
          Inr (set_blockers index resolved wm, selected)))))"

end
