(* ===== verification/Item_Batch.thy ===== *)
theory Item_Batch
  imports Workflow_Memory
begin

text \<open>
  The item commands of \<open>workflow_v2.rs\<close>: what one command makes of one recorded value, the
  unpublished draft a batch works on, and the atomic batch \<open>mutate_active_items_v2\<close> with its
  single-item form.
\<close>

section \<open>One command on one value\<close>

definition item_value_error :: "DomainError \<Rightarrow> GraphMutationErrorV2" where
  "item_value_error error =
     (case error of BoundExceeded _ _ _ _ \<Rightarrow> GmDomain error | _ \<Rightarrow> GmItemConstraintFailed)"

definition current_list :: "RecordedItemValueV2 option \<Rightarrow> str list" where
  "current_list current = (case Option.bind current as_list of None \<Rightarrow> [] | Some vs \<Rightarrow> vs)"

definition remove_at :: "nat \<Rightarrow> 'a list \<Rightarrow> 'a list" where
  "remove_at i xs = take i xs @ drop (Suc i) xs"

text \<open>
  The candidate of each command. \<open>Remove\<close> with \<open>ignore_missing\<close> returns the current value at
  once, past the checks on the candidate: this early return is the left component.
\<close>

definition list_candidate :: "str list \<Rightarrow> GraphMutationErrorV2 + RecordedItemValueV2 option" where
  "list_candidate vs = map_err item_value_error (rbind (RecordedItemValueV2_list vs) (\<lambda>v. Inr (Some v)))"

definition item_candidate ::
    "ItemSpecV2 \<Rightarrow> RecordedItemValueV2 option \<Rightarrow> ActiveItemMutationV2 \<Rightarrow>
     GraphMutationErrorV2 + bool \<times> RecordedItemValueV2 option" where
  "item_candidate spec current mutation =
     (let checked = (\<lambda>r. rbind r (\<lambda>c. Inr (True, c)));
          typed = (\<lambda>ty r. if ItemSpecV2_item_type spec \<noteq> ty then Inl GmItemTypeMismatch else r)
      in case mutation of
        MutCheck \<Rightarrow> checked (typed TyConfirm (Inr (Some RvConfirm)))
      | MutUncheck \<Rightarrow> checked (typed TyConfirm (Inr None))
      | MutSet v \<Rightarrow> checked
          (case ItemSpecV2_item_type spec of
             TyText \<Rightarrow> map_err item_value_error (rbind (RecordedItemValueV2_text v) (\<lambda>x. Inr (Some x)))
           | TyChoice \<Rightarrow> map_err item_value_error (rbind (RecordedItemValueV2_choice v) (\<lambda>x. Inr (Some x)))
           | TyInteger \<Rightarrow> rbind (ok_or GmItemConstraintFailed (parse_i64 v)) (\<lambda>n. Inr (Some (RvInteger n)))
           | _ \<Rightarrow> Inl GmItemTypeMismatch)
      | MutReplaceList vs \<Rightarrow> checked (typed TyList (list_candidate vs))
      | MutAdd v \<Rightarrow>
          (case spec of
             SpecList s \<Rightarrow>
               if lis_unique s \<and> v \<in> set (current_list current) then Inl GmListValueDuplicate
               else checked (list_candidate (current_list current @ [v]))
           | _ \<Rightarrow> Inl GmItemTypeMismatch)
      | MutRemove v ignore_missing \<Rightarrow>
          (case spec of
             SpecList s \<Rightarrow>
               (case position (\<lambda>candidate. candidate = v) (current_list current) of
                  None \<Rightarrow> if ignore_missing then Inr (False, current) else Inl GmListValueNotFound
                | Some index \<Rightarrow>
                    let vs = remove_at index (current_list current) in
                    checked (if vs = [] then Inr None else list_candidate vs))
           | _ \<Rightarrow> Inl GmItemTypeMismatch)
      | MutAttach v \<Rightarrow> checked (typed TyArtifact (Inr (Some (RvArtifact v))))
      | MutRecordCheckResult v \<Rightarrow> checked (typed TyCheckResult (Inr (Some (RvCheckResult v))))
      | MutClear \<Rightarrow> checked (Inr None))"

definition mutate_item_value_v2 ::
    "ItemSpecV2 \<Rightarrow> RecordedItemValueV2 option \<Rightarrow> ActiveItemMutationV2 \<Rightarrow>
     GraphMutationErrorV2 + RecordedItemValueV2 option" where
  "mutate_item_value_v2 spec current mutation =
     rbind (item_candidate spec current mutation) (\<lambda>(checked, candidate).
       case candidate of
         None \<Rightarrow> Inr None
       | Some v \<Rightarrow>
           if \<not> checked then Inr (Some v)
           else (case recorded_value_bound_error spec v of
               Some error \<Rightarrow> Inl (GmDomain error)
             | None \<Rightarrow> if \<not> admits_recorded_value spec v then Inl GmItemConstraintFailed
                       else Inr (Some v)))"

section \<open>The unpublished draft\<close>

record ActiveItemMemoryMutationOutcomeV2 =
  oc_item_id :: ItemId
  oc_changed :: bool
  oc_item_revision :: Revision
  oc_value_digest :: "Sha256Digest option"

record UnpublishedAttemptDraftV2 =
  dft_attempt_index :: nat
  dft_slots :: "ItemSlotStateV2 list"
  dft_changed :: bool

definition UnpublishedAttemptDraftV2_open ::
    "WorkflowMemoryStateV2 \<Rightarrow> AttemptId \<Rightarrow> GraphMutationErrorV2 + UnpublishedAttemptDraftV2" where
  "UnpublishedAttemptDraftV2_open memory expected_attempt_id =
     rbind (active_index memory expected_attempt_id) (\<lambda>index.
       Inr \<lparr>dft_attempt_index = index, dft_slots = am_item_slots (wm_attempts memory ! index),
            dft_changed = False\<rparr>)"

definition apply_item ::
    "UnpublishedAttemptDraftV2 \<Rightarrow> ItemSpecV2 \<Rightarrow> ItemId \<Rightarrow> Revision \<Rightarrow> ActiveItemMutationV2 \<Rightarrow> UnixMillis \<Rightarrow>
     GraphMutationErrorV2 + UnpublishedAttemptDraftV2 \<times> ActiveItemMemoryMutationOutcomeV2" where
  "apply_item draft spec item_id expected_item_revision mutation now =
     rbind (ok_or (gm_invalid ''active Procedure v2 item slot is absent'')
              (position (\<lambda>s. sl_item_id s = item_id) (dft_slots draft))) (\<lambda>slot_index.
     let current = dft_slots draft ! slot_index in
     if sl_revision current \<noteq> expected_item_revision
     then Inl (GmItemRevisionConflict expected_item_revision (sl_revision current))
     else if now < sl_updated_at current
     then Inl (gm_invalid ''Procedure v2 item mutation timestamp regressed'')
     else rbind (mutate_item_value_v2 spec (sl_value current) mutation) (\<lambda>next_value.
     let value_digest = map_option artifact_digest (Option.bind next_value as_artifact) in
     if sl_value current = next_value
     then Inr (draft, \<lparr>oc_item_id = item_id, oc_changed = False, oc_item_revision = sl_revision current,
                       oc_value_digest = value_digest\<rparr>)
     else rbind (domain_err (Revision_checked_next (sl_revision current))) (\<lambda>next_revision.
     rbind (state_err (ItemSlotStateV2_new (sl_attempt_id current) (sl_item_id current) (sl_item_type current)
              next_revision next_value (sl_created_at current) now)) (\<lambda>next_slot.
     let slots = (dft_slots draft)[slot_index := next_slot];
         content = recorded_content_scalars_v2 (slot_values slots) in
     if content > MAX_ATTEMPT_CONTENT_SCALARS_V2
     then Inl (GmDomain (attempt_content_bound_error_v2 content))
     else Inr (draft\<lparr>dft_slots := slots, dft_changed := True\<rparr>,
               \<lparr>oc_item_id = item_id, oc_changed = True, oc_item_revision = next_revision,
                oc_value_digest = value_digest\<rparr>)))))"

definition publish ::
    "UnpublishedAttemptDraftV2 \<Rightarrow> WorkflowMemoryStateV2 \<Rightarrow> GraphMutationErrorV2 + WorkflowMemoryStateV2" where
  "publish draft source =
     (if \<not> dft_changed draft then Inr source
      else let active = wm_attempts source ! dft_attempt_index draft in
        rbind (state_err (AttemptWorkflowMemoryV2_new (am_attempt_id active) (dft_slots draft)
                 (am_blockers active) (am_evidence active))) (\<lambda>replacement.
          state_err (WorkflowMemoryStateV2_new ((wm_attempts source)[dft_attempt_index draft := replacement])
            (wm_decisions source) (wm_reworks source))))"

section \<open>The batch\<close>

fun first_adjacent_duplicate :: "ActiveItemMutationRequestV2 list \<Rightarrow> ItemId option" where
  "first_adjacent_duplicate (a # b # rest) =
     (if rq_item_id a = rq_item_id b then Some (rq_item_id a) else first_adjacent_duplicate (b # rest))"
| "first_adjacent_duplicate _ = None"

fun apply_requests ::
    "ItemSpecV2 list \<Rightarrow> WorkflowMemoryStateV2 \<Rightarrow> AttemptId \<Rightarrow> UnixMillis \<Rightarrow> UnpublishedAttemptDraftV2 option \<Rightarrow>
     ActiveItemMutationRequestV2 list \<Rightarrow>
     GraphMutationErrorV2 + UnpublishedAttemptDraftV2 option \<times> ActiveItemMemoryMutationOutcomeV2 list" where
  "apply_requests items memory aid now draft [] = Inr (draft, [])"
| "apply_requests items memory aid now draft (request # rest) =
     rbind (ok_or (GmItemNotFound (rq_item_id request))
              (find (\<lambda>spec. ItemSpecV2_id spec = rq_item_id request) items)) (\<lambda>spec.
     rbind (case draft of None \<Rightarrow> UnpublishedAttemptDraftV2_open memory aid | Some d \<Rightarrow> Inr d) (\<lambda>d.
     rbind (apply_item d spec (rq_item_id request) (rq_expected_item_revision request) (rq_mutation request) now)
       (\<lambda>(d', out).
     rbind (apply_requests items memory aid now (Some d') rest) (\<lambda>(final, outs). Inr (final, out # outs)))))"

definition require_active ::
    "SessionTraceV2 \<Rightarrow> AttemptId \<Rightarrow> GraphMutationErrorV2 + SessionAttemptV2" where
  "require_active trace expected_attempt_id =
     (if tr_lifecycle trace \<noteq> SessionRunning then Inl GmSessionNotRunning
      else rbind (ok_or (GmAttemptNotCurrent expected_attempt_id None) (active_attempt trace)) (\<lambda>active.
        if att_attempt_id active \<noteq> expected_attempt_id
        then Inl (GmAttemptNotCurrent expected_attempt_id (Some (att_attempt_id active)))
        else Inr active))"

definition snapshot_node :: "ProcedureSnapshotV2 \<Rightarrow> GraphNodeId \<Rightarrow> ProcedureStateErrorV2 + NodeMemorySpecV2" where
  "snapshot_node snap gid =
     rbind (ProcedureSnapshotV2_memory_model snap) (\<lambda>model. SnapshotMemoryModelV2_node model gid)"

definition mutate_active_items_v2 ::
    "WorkflowMemoryStateV2 \<Rightarrow> ProcedureSnapshotV2 \<Rightarrow> SessionTraceV2 \<Rightarrow> AttemptId \<Rightarrow>
     ActiveItemMutationRequestV2 list \<Rightarrow> UnixMillis \<Rightarrow>
     GraphMutationErrorV2 + WorkflowMemoryStateV2 \<times> ActiveItemMemoryMutationOutcomeV2 list" where
  "mutate_active_items_v2 wm snap trace expected_attempt_id mutations now =
     (if mutations = [] then Inl GmItemMutationBatchEmpty
      else if length mutations > MAX_ACTIVE_ITEM_MUTATIONS_V2
      then Inl (GmTooManyItemMutations (of_nat MAX_ACTIVE_ITEM_MUTATIONS_V2))
      else let ordered = sort_key (\<lambda>r. as_bytes (ItemId_as_str (rq_item_id r))) mutations in
      case first_adjacent_duplicate ordered of
        Some item_id \<Rightarrow> Inl (GmDuplicateItemMutation item_id)
      | None \<Rightarrow>
          rbind (require_active trace expected_attempt_id) (\<lambda>active.
          rbind (state_err (snapshot_node snap (att_graph_node_id active))) (\<lambda>node.
          rbind (apply_requests (nm_items node) wm expected_attempt_id now None ordered) (\<lambda>(draft, outcomes).
          rbind (publish (the draft) wm) (\<lambda>memory. Inr (memory, outcomes))))))"

definition mutate_active_item_v2 ::
    "WorkflowMemoryStateV2 \<Rightarrow> ProcedureSnapshotV2 \<Rightarrow> SessionTraceV2 \<Rightarrow> AttemptId \<Rightarrow> ItemId \<Rightarrow> Revision \<Rightarrow>
     ActiveItemMutationV2 \<Rightarrow> UnixMillis \<Rightarrow>
     GraphMutationErrorV2 + WorkflowMemoryStateV2 \<times> ActiveItemMemoryMutationOutcomeV2" where
  "mutate_active_item_v2 wm snap trace expected_attempt_id item_id expected_item_revision mutation now =
     rbind (mutate_active_items_v2 wm snap trace expected_attempt_id
              [\<lparr>rq_item_id = item_id, rq_expected_item_revision = expected_item_revision, rq_mutation = mutation\<rparr>] now)
       (\<lambda>(memory, outcomes). Inr (memory, hd outcomes))"

end
