(* ===== verification/Item_Batch_Props.thy ===== *)
theory Item_Batch_Props
  imports Item_Batch "HOL-Library.Multiset"
begin

text \<open>
  The atomic item batch against its reference meaning: the commands applied one after another in
  item order, each with its own published memory. The two agree on every result and on every
  error; the order in which a caller lists the commands does not matter; and every recorded value
  stays admitted by its declaration.
\<close>

section \<open>UTF-8 is injective\<close>

lemma base64_eq: "(c :: nat) div 64 = d div 64 \<Longrightarrow> c mod 64 = d mod 64 \<Longrightarrow> c = d"
  by (metis div_mult_mod_eq)

lemma utf8_char_decode:
  assumes "utf8_char c @ x = utf8_char d @ y"
  shows "c = d \<and> x = y"
proof -
  have div2: "n div 4096 = n div 64 div 64" "n div 262144 = n div 64 div 64 div 64" for n :: nat
    by (simp_all add: div_mult2_eq[symmetric])
  have lead: "n div 64 < 32" if "n < 2048" for n :: nat using that by (simp add: less_mult_imp_div_less)
  have lead3: "n div 64 div 64 < 16" if "n < 65536" for n :: nat
    using that by (simp add: div_mult2_eq[symmetric] less_mult_imp_div_less)
  consider "c < 128" | "128 \<le> c" "c < 2048" | "2048 \<le> c" "c < 65536" | "65536 \<le> c" by linarith
  then show ?thesis
    by cases
      (use assms lead[of c] lead[of d] lead3[of c] lead3[of d] in
        \<open>auto simp: utf8_char_def div2 split: if_splits intro: base64_eq\<close>)
qed

lemma as_bytes_inject [simp]: "as_bytes s = as_bytes t \<longleftrightarrow> s = t"
proof (induction s arbitrary: t)
  case Nil
  have "utf8_char d \<noteq> []" for d using utf8_char_length[of d] by auto
  then show ?case by (cases t) simp_all
next
  case (Cons c s)
  show ?case
  proof (cases t)
    case Nil
    then show ?thesis using utf8_char_length[of c] by auto
  next
    case (Cons d t')
    then show ?thesis using utf8_char_decode[of c "as_bytes s" d "as_bytes t'"] Cons.IH[of t'] by auto
  qed
qed

section \<open>Well-formed memories\<close>

text \<open>A memory is well-formed when its own constructors accept it part by part.\<close>

definition attempt_wf :: "AttemptWorkflowMemoryV2 \<Rightarrow> bool" where
  "attempt_wf m \<longleftrightarrow>
     AttemptWorkflowMemoryV2_new (am_attempt_id m) (am_item_slots m) (am_blockers m) (am_evidence m) = Inr m"

definition memory_wf :: "WorkflowMemoryStateV2 \<Rightarrow> bool" where
  "memory_wf wm \<longleftrightarrow>
     (\<forall>m\<in>set (wm_attempts wm). attempt_wf m) \<and>
     WorkflowMemoryStateV2_new (wm_attempts wm) (wm_decisions wm) (wm_reworks wm) = Inr wm"

lemma attempt_wf_iff:
  "attempt_wf m \<longleftrightarrow>
     (\<forall>s\<in>set (am_item_slots m). sl_attempt_id s = am_attempt_id m) \<and>
     (\<forall>b\<in>set (am_blockers m). bl_attempt_id b = am_attempt_id m) \<and>
     distinct (map sl_item_id (am_item_slots m)) \<and> distinct (map bl_blocker_id (am_blockers m)) \<and>
     length (open_blockers (am_blockers m)) \<le> MAX_OPEN_BLOCKERS_V2 \<and>
     (\<forall>(i, r)\<in>set (enumerate 0 (am_evidence m)). evr_ordinal r = u32_clamped i)"
  by (cases m) (auto simp: attempt_wf_def AttemptWorkflowMemoryV2_new_def split: if_splits)

lemma memory_wf_iff:
  "memory_wf wm \<longleftrightarrow>
     (\<forall>m\<in>set (wm_attempts wm). attempt_wf m) \<and> distinct (map am_attempt_id (wm_attempts wm)) \<and>
     distinct (map dr_attempt_id (wm_decisions wm)) \<and> distinct (map rr_trace (wm_reworks wm))"
  by (cases wm) (auto simp: memory_wf_def WorkflowMemoryStateV2_new_def)

definition with_slots :: "nat \<Rightarrow> ItemSlotStateV2 list \<Rightarrow> WorkflowMemoryStateV2 \<Rightarrow> WorkflowMemoryStateV2" where
  "with_slots i slots wm =
     wm\<lparr>wm_attempts := (wm_attempts wm)[i := (wm_attempts wm ! i)\<lparr>am_item_slots := slots\<rparr>]\<rparr>"

lemma with_slots_twice [simp]:
  "i < length (wm_attempts wm) \<Longrightarrow> with_slots i s (with_slots i t wm) = with_slots i s wm"
  by (simp add: with_slots_def)

lemma with_slots_same [simp]:
  "i < length (wm_attempts wm) \<Longrightarrow> with_slots i (am_item_slots (wm_attempts wm ! i)) wm = wm"
  by (simp add: with_slots_def)

lemma with_slots_sel [simp]:
  "length (wm_attempts (with_slots i s wm)) = length (wm_attempts wm)"
  "i < length (wm_attempts wm) \<Longrightarrow> am_item_slots (wm_attempts (with_slots i s wm) ! i) = s"
  "i < length (wm_attempts wm) \<Longrightarrow> am_attempt_id (wm_attempts (with_slots i s wm) ! i) = am_attempt_id (wm_attempts wm ! i)"
  by (simp_all add: with_slots_def)

text \<open>The slots of one attempt keep their owner and their identities.\<close>

definition slots_fit :: "AttemptWorkflowMemoryV2 \<Rightarrow> ItemSlotStateV2 list \<Rightarrow> bool" where
  "slots_fit m slots \<longleftrightarrow>
     map sl_item_id slots = map sl_item_id (am_item_slots m) \<and>
     (\<forall>s\<in>set slots. sl_attempt_id s = am_attempt_id m)"

lemma active_index_Inr:
  "active_index wm aid = Inr i \<longleftrightarrow> position (\<lambda>m. am_attempt_id m = aid) (wm_attempts wm) = Some i"
  by (simp add: active_index_def)

lemma map_attempt_ids_with_slots [simp]:
  "map am_attempt_id (wm_attempts (with_slots i s wm)) = map am_attempt_id (wm_attempts wm)"
  by (cases "i < length (wm_attempts wm)") (auto simp: with_slots_def map_update list_update_beyond intro: list_update_same_conv[THEN iffD2])

lemma position_map_cong: "map f xs = map f ys \<Longrightarrow> position (\<lambda>x. f x = k) xs = position (\<lambda>x. f x = k) ys"
proof (induction xs arbitrary: ys)
  case Nil
  then show ?case by simp
next
  case (Cons x xs)
  then show ?case by (cases ys) auto
qed

lemma active_index_with_slots [simp]: "active_index (with_slots i s wm) aid = active_index wm aid"
  unfolding active_index_def
  by (subst position_map_cong[of am_attempt_id "wm_attempts (with_slots i s wm)" "wm_attempts wm"]) simp_all

lemma attempt_wf_slots:
  "attempt_wf m \<Longrightarrow> slots_fit m slots \<Longrightarrow> attempt_wf (m\<lparr>am_item_slots := slots\<rparr>)"
  by (simp add: attempt_wf_iff slots_fit_def)

lemma memory_wf_with_slots:
  assumes "memory_wf wm" "i < length (wm_attempts wm)" "slots_fit (wm_attempts wm ! i) slots"
  shows "memory_wf (with_slots i slots wm)"
  unfolding memory_wf_iff
proof (intro conjI ballI)
  fix m assume "m \<in> set (wm_attempts (with_slots i slots wm))"
  then consider "m \<in> set (wm_attempts wm)" | "m = (wm_attempts wm ! i)\<lparr>am_item_slots := slots\<rparr>"
    using set_update_subset_insert by (fastforce simp: with_slots_def)
  then show "attempt_wf m"
    using assms by cases (auto simp: memory_wf_iff intro!: attempt_wf_slots)
qed (use assms in \<open>simp_all add: memory_wf_iff with_slots_def\<close>, use assms map_attempt_ids_with_slots[of i slots wm] in \<open>simp add: memory_wf_iff with_slots_def\<close>)

section \<open>One command on the slots\<close>

text \<open>What \<open>apply_item\<close> does to the slots; \<open>None\<close> is an unchanged value.\<close>

definition slot_step ::
    "ItemSlotStateV2 list \<Rightarrow> ItemSpecV2 \<Rightarrow> ActiveItemMutationRequestV2 \<Rightarrow> UnixMillis \<Rightarrow>
     GraphMutationErrorV2 + ItemSlotStateV2 list option \<times> ActiveItemMemoryMutationOutcomeV2" where
  "slot_step slots spec r now =
     rbind (apply_item \<lparr>dft_attempt_index = 0, dft_slots = slots, dft_changed = False\<rparr> spec (rq_item_id r)
              (rq_expected_item_revision r) (rq_mutation r) now) (\<lambda>(d, out).
       Inr (if dft_changed d then Some (dft_slots d) else None, out))"

definition advance_draft :: "UnpublishedAttemptDraftV2 \<Rightarrow> ItemSlotStateV2 list option \<Rightarrow> UnpublishedAttemptDraftV2" where
  "advance_draft d s = (case s of None \<Rightarrow> d | Some slots \<Rightarrow> d\<lparr>dft_slots := slots, dft_changed := True\<rparr>)"

lemma apply_item_slot_step:
  "apply_item d spec (rq_item_id r) (rq_expected_item_revision r) (rq_mutation r) now =
     rbind (slot_step (dft_slots d) spec r now) (\<lambda>(s, out). Inr (advance_draft d s, out))"
proof (cases d)
  case (fields i slots changed)
  then show ?thesis
    by (simp add: slot_step_def apply_item_def Let_def advance_draft_def rbind_def ok_or_def map_err_def
        split: sum.splits option.splits)
qed

lemma slot_step_changedE:
  assumes "slot_step slots spec r now = Inr (Some slots', out)"
  obtains i v rev nxt where "i < length slots" "sl_item_id (slots ! i) = rq_item_id r"
    "sl_revision (slots ! i) = rq_expected_item_revision r" "\<not> now < sl_updated_at (slots ! i)"
    "mutate_item_value_v2 spec (sl_value (slots ! i)) (rq_mutation r) = Inr v"
    "Revision_checked_next (sl_revision (slots ! i)) = Inr rev"
    "ItemSlotStateV2_new (sl_attempt_id (slots ! i)) (sl_item_id (slots ! i)) (sl_item_type (slots ! i)) rev v
       (sl_created_at (slots ! i)) now = Inr nxt"
    "slots' = slots[i := nxt]"
    "recorded_content_scalars_v2 (slot_values slots') \<le> MAX_ATTEMPT_CONTENT_SCALARS_V2"
proof -
  from assms obtain i v rev nxt where i: "position (\<lambda>s. sl_item_id s = rq_item_id r) slots = Some i"
    and rest: "sl_revision (slots ! i) = rq_expected_item_revision r" "\<not> now < sl_updated_at (slots ! i)"
    "mutate_item_value_v2 spec (sl_value (slots ! i)) (rq_mutation r) = Inr v"
    "Revision_checked_next (sl_revision (slots ! i)) = Inr rev"
    "ItemSlotStateV2_new (sl_attempt_id (slots ! i)) (sl_item_id (slots ! i)) (sl_item_type (slots ! i)) rev v
       (sl_created_at (slots ! i)) now = Inr nxt" "slots' = slots[i := nxt]"
    "recorded_content_scalars_v2 (slot_values slots') \<le> MAX_ATTEMPT_CONTENT_SCALARS_V2"
    unfolding slot_step_def apply_item_def by (auto simp: Let_def split: if_splits)
  from position_SomeD[OF i] have "i < length slots" "sl_item_id (slots ! i) = rq_item_id r" by auto
  from that[OF this rest] show ?thesis .
qed

lemma ItemSlotStateV2_new_sel:
  assumes "ItemSlotStateV2_new aid iid ty r v c u = Inr s"
  shows "sl_attempt_id s = aid" "sl_item_id s = iid" "sl_item_type s = ty" "sl_revision s = r" "sl_value s = v"
    "sl_created_at s = c" "sl_updated_at s = u" "is_none_or v (\<lambda>x. RecordedItemValueV2_item_type x = ty)"
  using assms by (cases v; auto simp: ItemSlotStateV2_new_def split: if_splits)+

lemma slots_fit_step:
  assumes "slots_fit m slots" "slot_step slots spec r now = Inr (Some slots', out)"
  shows "slots_fit m slots'"
proof -
  from assms(2) obtain i nxt where i: "i < length slots" "slots' = slots[i := nxt]"
    "sl_item_id nxt = sl_item_id (slots ! i)" "sl_attempt_id nxt = sl_attempt_id (slots ! i)"
    by (elim slot_step_changedE) (blast dest: ItemSlotStateV2_new_sel(1,2))
  have "map sl_item_id slots' = map sl_item_id slots"
    using i by (metis list_update_id map_update nth_map)
  moreover have "\<forall>s\<in>set slots'. sl_attempt_id s = am_attempt_id m"
    using assms(1) i set_update_subset_insert[of slots i nxt] by (auto simp: slots_fit_def)
  ultimately show ?thesis using assms(1) by (simp add: slots_fit_def)
qed

section \<open>Publishing\<close>

lemma publish_changed:
  assumes "memory_wf wm" "i < length (wm_attempts wm)" "slots_fit (wm_attempts wm ! i) slots"
  shows "publish \<lparr>dft_attempt_index = i, dft_slots = slots, dft_changed = True\<rparr> wm = Inr (with_slots i slots wm)"
proof -
  let ?m = "wm_attempts wm ! i"
  have "attempt_wf (?m\<lparr>am_item_slots := slots\<rparr>)"
    using assms by (intro attempt_wf_slots) (auto simp: memory_wf_iff)
  then have "AttemptWorkflowMemoryV2_new (am_attempt_id ?m) slots (am_blockers ?m) (am_evidence ?m)
      = Inr (?m\<lparr>am_item_slots := slots\<rparr>)" by (simp add: attempt_wf_def)
  moreover have "WorkflowMemoryStateV2_new ((wm_attempts wm)[i := ?m\<lparr>am_item_slots := slots\<rparr>])
      (wm_decisions wm) (wm_reworks wm) = Inr (with_slots i slots wm)"
    using memory_wf_with_slots[OF assms] by (simp add: memory_wf_def with_slots_def)
  ultimately show ?thesis by (simp add: publish_def)
qed

text \<open>The memory a draft stands for.\<close>

definition published :: "WorkflowMemoryStateV2 \<Rightarrow> UnpublishedAttemptDraftV2 \<Rightarrow> WorkflowMemoryStateV2" where
  "published wm d = with_slots (dft_attempt_index d) (dft_slots d) wm"

definition draft_fits :: "WorkflowMemoryStateV2 \<Rightarrow> AttemptId \<Rightarrow> UnpublishedAttemptDraftV2 \<Rightarrow> bool" where
  "draft_fits wm aid d \<longleftrightarrow>
     active_index wm aid = Inr (dft_attempt_index d) \<and> dft_attempt_index d < length (wm_attempts wm) \<and>
     slots_fit (wm_attempts wm ! dft_attempt_index d) (dft_slots d) \<and>
     (\<not> dft_changed d \<longrightarrow> dft_slots d = am_item_slots (wm_attempts wm ! dft_attempt_index d))"

lemma publish_draft:
  assumes "memory_wf wm" "draft_fits wm aid d"
  shows "publish d wm = Inr (published wm d)"
proof (cases "dft_changed d")
  case True
  then show ?thesis
    using publish_changed[OF assms(1), of "dft_attempt_index d" "dft_slots d"] assms(2)
    by (cases d) (simp add: draft_fits_def published_def)
next
  case False
  then show ?thesis using assms by (simp add: publish_def published_def draft_fits_def)
qed

lemma published_wf: "memory_wf wm \<Longrightarrow> draft_fits wm aid d \<Longrightarrow> memory_wf (published wm d)"
  unfolding published_def draft_fits_def by (blast intro: memory_wf_with_slots)

lemma draft_fits_advance:
  assumes "draft_fits wm aid d" "slot_step (dft_slots d) spec r now = Inr (s, out)"
  shows "draft_fits wm aid (advance_draft d s)"
  using assms slots_fit_step[of "wm_attempts wm ! dft_attempt_index d" "dft_slots d" spec r now]
  by (auto simp: draft_fits_def advance_draft_def split: option.splits)

section \<open>The reference: one command at a time\<close>

fun sequential ::
    "ProcedureSnapshotV2 \<Rightarrow> SessionTraceV2 \<Rightarrow> AttemptId \<Rightarrow> UnixMillis \<Rightarrow> WorkflowMemoryStateV2 \<Rightarrow>
     ActiveItemMutationRequestV2 list \<Rightarrow>
     GraphMutationErrorV2 + WorkflowMemoryStateV2 \<times> ActiveItemMemoryMutationOutcomeV2 list" where
  "sequential snap trace aid now wm [] = Inr (wm, [])"
| "sequential snap trace aid now wm (r # rs) =
     rbind (mutate_active_item_v2 wm snap trace aid (rq_item_id r) (rq_expected_item_revision r) (rq_mutation r) now)
       (\<lambda>(wm', out). rbind (sequential snap trace aid now wm' rs) (\<lambda>(wm'', outs). Inr (wm'', out # outs)))"

lemma single_request:
  "mutate_active_item_v2 wm snap trace aid (rq_item_id r) (rq_expected_item_revision r) (rq_mutation r) now =
     rbind (require_active trace aid) (\<lambda>active.
     rbind (state_err (snapshot_node snap (att_graph_node_id active))) (\<lambda>node.
     rbind (ok_or (GmItemNotFound (rq_item_id r)) (find (\<lambda>spec. ItemSpecV2_id spec = rq_item_id r) (nm_items node))) (\<lambda>spec.
     rbind (UnpublishedAttemptDraftV2_open wm aid) (\<lambda>d.
     rbind (apply_item d spec (rq_item_id r) (rq_expected_item_revision r) (rq_mutation r) now) (\<lambda>(d', out).
     rbind (publish d' wm) (\<lambda>memory. Inr (memory, out)))))))"
  by (simp add: mutate_active_item_v2_def mutate_active_items_v2_def MAX_ACTIVE_ITEM_MUTATIONS_V2_def
      MAX_ITEMS_PER_DEFINITION_V2_def rbind_def ok_or_def map_err_def Let_def split: sum.splits option.splits)

lemma open_published:
  assumes "draft_fits wm aid d"
  shows "UnpublishedAttemptDraftV2_open (published wm d) aid =
     Inr \<lparr>dft_attempt_index = dft_attempt_index d, dft_slots = dft_slots d, dft_changed = False\<rparr>"
  using assms by (simp add: UnpublishedAttemptDraftV2_open_def published_def draft_fits_def)

lemma single_step:
  assumes active: "require_active trace aid = Inr active"
    and node: "snapshot_node snap (att_graph_node_id active) = Inr node"
    and wf: "memory_wf wm" and fits: "draft_fits wm aid d"
  shows "mutate_active_item_v2 (published wm d) snap trace aid (rq_item_id r) (rq_expected_item_revision r)
       (rq_mutation r) now =
     rbind (ok_or (GmItemNotFound (rq_item_id r)) (find (\<lambda>spec. ItemSpecV2_id spec = rq_item_id r) (nm_items node))) (\<lambda>spec.
     rbind (slot_step (dft_slots d) spec r now) (\<lambda>(s, out). Inr (published wm (advance_draft d s), out)))"
proof -
  let ?d = "\<lparr>dft_attempt_index = dft_attempt_index d, dft_slots = dft_slots d, dft_changed = False\<rparr>"
  have wf': "memory_wf (published wm d)" by (rule published_wf[OF wf fits])
  have fits': "draft_fits (published wm d) aid ?d"
    using fits by (simp add: draft_fits_def published_def slots_fit_def)
  have pub: "publish (advance_draft ?d s) (published wm d) = Inr (published wm (advance_draft d s))"
    if "slot_step (dft_slots d) spec r now = Inr (s, out)" for spec s out
  proof -
    from that have "draft_fits (published wm d) aid (advance_draft ?d s)"
      by (intro draft_fits_advance[OF fits', of spec r now]) simp
    from publish_draft[OF wf' this] show ?thesis
      using fits by (cases s) (auto simp: published_def advance_draft_def draft_fits_def)
  qed
  show ?thesis
    by (auto simp: single_request active node open_published[OF fits] apply_item_slot_step pub rbind_def ok_or_def
        split: sum.splits option.splits)
qed

lemma apply_requests_sequential:
  assumes active: "require_active trace aid = Inr active"
    and node: "snapshot_node snap (att_graph_node_id active) = Inr node"
    and wf: "memory_wf wm" and fits: "draft_fits wm aid d"
  shows "rbind (apply_requests (nm_items node) wm aid now (Some d) rs) (\<lambda>(fd, outs).
       rbind (publish (the fd) wm) (\<lambda>m. Inr (m, outs))) = sequential snap trace aid now (published wm d) rs"
  using fits
proof (induction rs arbitrary: d)
  case Nil
  then show ?case by (simp add: publish_draft[OF wf])
next
  case (Cons r rs)
  show ?case
  proof (cases "find (\<lambda>spec. ItemSpecV2_id spec = rq_item_id r) (nm_items node)")
    case None
    then show ?thesis by (simp add: single_step[OF active node wf Cons.prems])
  next
    case (Some spec)
    show ?thesis
    proof (cases "slot_step (dft_slots d) spec r now")
      case (Inl e)
      with Some show ?thesis by (simp add: single_step[OF active node wf Cons.prems] apply_item_slot_step)
    next
      case (Inr so)
      obtain t out where so: "so = (t, out)" by (cases so)
      from Cons.IH[OF draft_fits_advance[OF Cons.prems Inr[unfolded so]]]
      have "sequential snap trace aid now (published wm (advance_draft d t)) rs =
        rbind (apply_requests (nm_items node) wm aid now (Some (advance_draft d t)) rs) (\<lambda>(fd, outs).
          rbind (publish (the fd) wm) (\<lambda>m. Inr (m, outs)))" by simp
      with Some Inr so show ?thesis
        by (simp add: single_step[OF active node wf Cons.prems] apply_item_slot_step rbind_def split: sum.splits prod.splits)
    qed
  qed
qed

section \<open>Item order\<close>

abbreviation item_order :: "ActiveItemMutationRequestV2 \<Rightarrow> byte list" where
  "item_order r \<equiv> as_bytes (ItemId_as_str (rq_item_id r))"

lemma item_order_inject: "item_order r = item_order q \<longleftrightarrow> rq_item_id r = rq_item_id q"
  by (cases "rq_item_id r"; cases "rq_item_id q") simp

fun adjacent_duplicate :: "ItemId list \<Rightarrow> ItemId option" where
  "adjacent_duplicate (a # b # rest) = (if a = b then Some a else adjacent_duplicate (b # rest))"
| "adjacent_duplicate _ = None"

lemma first_adjacent_duplicate_ids: "first_adjacent_duplicate rs = adjacent_duplicate (map rq_item_id rs)"
  by (induction rs rule: first_adjacent_duplicate.induct) auto

lemma distinct_no_duplicate: "distinct (map rq_item_id rs) \<Longrightarrow> first_adjacent_duplicate rs = None"
  by (induction rs rule: first_adjacent_duplicate.induct) auto

lemma sorted_no_duplicate_distinct:
  "sorted (map item_order rs) \<Longrightarrow> first_adjacent_duplicate rs = None \<Longrightarrow> distinct (map rq_item_id rs)"
proof (induction rs rule: first_adjacent_duplicate.induct)
  case (1 a b rest)
  then have ab: "rq_item_id a \<noteq> rq_item_id b" and rest: "distinct (map rq_item_id (b # rest))"
    and sorted: "sorted (map item_order (b # rest))" by (auto split: if_splits)
  from ab 1(2) have "item_order a < item_order b" by (simp add: less_le)
  moreover have "\<forall>q\<in>set (b # rest). item_order b \<le> item_order q" using sorted by auto
  ultimately have "\<forall>q\<in>set (b # rest). rq_item_id a \<noteq> rq_item_id q"
    by (metis item_order_inject leD)
  with rest show ?case by auto
qed auto

lemma sorted_ids_unique:
  assumes "mset rs = mset qs"
  shows "map rq_item_id (sort_key item_order rs) = map rq_item_id (sort_key item_order qs)"
proof -
  have "sort (map item_order qs) = map item_order (sort_key item_order ps)" if "mset ps = mset qs" for ps
    by (rule properties_for_sort) (simp_all add: that)
  from this[OF assms] this[OF refl]
  have "map (\<lambda>i. as_bytes (ItemId_as_str i)) (map rq_item_id (sort_key item_order rs)) =
        map (\<lambda>i. as_bytes (ItemId_as_str i)) (map rq_item_id (sort_key item_order qs))" by (simp add: comp_def)
  then show ?thesis by (rule map_injective) (simp add: inj_on_def)
qed

lemma sorted_requests_unique:
  assumes "mset rs = mset qs" "distinct (map rq_item_id rs)"
  shows "sort_key item_order rs = sort_key item_order qs"
proof (rule sort_key_inj_key_eq)
  show "mset rs = mset (sort_key item_order qs)" using assms(1) by simp
  show "inj_on item_order (set rs)" using assms(2) by (auto simp: inj_on_def distinct_map)
qed simp

lemma sequential_start:
  assumes "memory_wf wm" "rs \<noteq> []"
  shows "rbind (require_active trace aid) (\<lambda>active.
     rbind (state_err (snapshot_node snap (att_graph_node_id active))) (\<lambda>node.
     rbind (apply_requests (nm_items node) wm aid now None rs) (\<lambda>(draft, outcomes).
     rbind (publish (the draft) wm) (\<lambda>memory. Inr (memory, outcomes))))) =
   sequential snap trace aid now wm rs"
proof -
  obtain r rest where rs: "rs = r # rest" using assms(2) by (cases rs) auto
  show ?thesis
  proof (cases "require_active trace aid")
    case (Inl e)
    then show ?thesis by (simp add: rs single_request)
  next
    case act: (Inr active)
    show ?thesis
    proof (cases "snapshot_node snap (att_graph_node_id active)")
      case (Inl e)
      then show ?thesis by (simp add: rs single_request act)
    next
      case node: (Inr node)
      show ?thesis
      proof (cases "UnpublishedAttemptDraftV2_open wm aid")
        case (Inl e)
        then show ?thesis by (simp add: rs single_request act node rbind_def ok_or_def split: option.splits)
      next
        case d: (Inr d)
        then have fits: "draft_fits wm aid d" and pub: "published wm d = wm"
          using position_SomeD assms(1)
          by (fastforce simp: UnpublishedAttemptDraftV2_open_def draft_fits_def published_def slots_fit_def
              active_index_def memory_wf_iff attempt_wf_iff)+
        have "apply_requests (nm_items node) wm aid now None rs = apply_requests (nm_items node) wm aid now (Some d) rs"
          by (simp add: rs d)
        then show ?thesis
          using apply_requests_sequential[OF act node assms(1) fits, of now rs] pub by (simp add: act node)
      qed
    qed
  qed
qed

subsection \<open>A session for the witnesses\<close>

text \<open>One running attempt on an action node with a confirmation and a text item, nothing recorded yet.\<close>

definition sample_common :: "string \<Rightarrow> ItemCommonV2" where
  "sample_common name = \<lparr>ic_id = ItemId (lit name), ic_prompt = lit name, ic_help = None, ic_required = True,
     ic_required_when = None\<rparr>"

definition sample_spec :: NodeMemorySpecV2 where
  "sample_spec = \<lparr>nm_node_kind = KindAction, nm_node_definition_id = NodeDefinitionId (lit ''work''),
     nm_items = [SpecConfirm (sample_common ''done''),
                 SpecText \<lparr>txt_common = sample_common ''note'', txt_min_length = 1, txt_max_length = 40, txt_multiline = False\<rparr>],
     nm_evidence = [], nm_options = [], nm_option_guards = Map.empty, nm_reason_required = False,
     nm_goal_assessment = False, nm_assessment_outcomes = Map.empty, nm_terminal = True, nm_advance_target = None,
     nm_routes = Map.empty\<rparr>"

definition sample_snapshot :: ProcedureSnapshotV2 where
  "sample_snapshot = \<lparr>snap_snapshot_id = ProcedureSnapshotId [],
     snap_runtime = \<lparr>rt_procedure_id = lit ''sample'', rt_procedure_version = lit ''1'', rt_name = lit ''Sample'',
       rt_purpose = lit ''Sample'', rt_digest = Sha256Digest [], rt_canonical_json = CanonicalProcedureJsonV1 [],
       rt_goal_tracking = False, rt_entry_graph_node_id = GraphNodeId (lit ''work''), rt_graph_nodes = [],
       rt_memory_model = Inr \<lparr>mm_nodes = [GraphNodeId (lit ''work'') \<mapsto> sample_spec],
         mm_manual_rework_targets = [GraphNodeId (lit ''work'')]\<rparr>\<rparr>,
     snap_source = \<lparr>source_kind = SourcePreset, source_label = lit ''sample'', source_display = lit ''preset:sample''\<rparr>,
     snap_created_at = UnixMillis 0\<rparr>"

definition sample_attempt :: SessionAttemptV2 where
  "sample_attempt = \<lparr>att_attempt_id = AttemptId (lit ''a1''), att_graph_node_id = GraphNodeId (lit ''work''),
     att_number = AttemptNumberV2 1, att_trace = TraceSequenceV2 1, att_lifecycle = AttemptActive,
     att_validity = Valid, att_goal_revision = None\<rparr>"

definition sample_trace :: SessionTraceV2 where
  "sample_trace = \<lparr>tr_session_id = SessionId (lit ''s1''), tr_lifecycle = SessionRunning, tr_revision = Revision 1,
     tr_attempts = [sample_attempt]\<rparr>"

definition sample_slot :: "string \<Rightarrow> ItemTypeV1 \<Rightarrow> ItemSlotStateV2" where
  "sample_slot name ty = \<lparr>sl_attempt_id = AttemptId (lit ''a1''), sl_item_id = ItemId (lit name), sl_item_type = ty,
     sl_revision = Revision 0, sl_value = None, sl_created_at = UnixMillis 5, sl_updated_at = UnixMillis 5\<rparr>"

definition sample_memory :: WorkflowMemoryStateV2 where
  "sample_memory = \<lparr>wm_attempts = [\<lparr>am_attempt_id = AttemptId (lit ''a1''),
       am_item_slots = [sample_slot ''done'' TyConfirm, sample_slot ''note'' TyText], am_blockers = [], am_evidence = []\<rparr>],
     wm_decisions = [], wm_reworks = []\<rparr>"

definition sample_requests :: "ActiveItemMutationRequestV2 list" where
  "sample_requests =
     [\<lparr>rq_item_id = ItemId (lit ''note''), rq_expected_item_revision = Revision 0, rq_mutation = MutSet (lit ''ready'')\<rparr>,
      \<lparr>rq_item_id = ItemId (lit ''done''), rq_expected_item_revision = Revision 0, rq_mutation = MutCheck\<rparr>]"

lemmas sample_defs = sample_common_def sample_spec_def sample_snapshot_def sample_attempt_def sample_trace_def
  sample_slot_def sample_memory_def sample_requests_def

lemma sample_memory_wf: "memory_wf sample_memory"
  by (simp add: memory_wf_iff attempt_wf_iff sample_memory_def sample_slot_def open_blockers_def lit_def)

lemma sample_batch_ok:
  "\<exists>memory outcomes. mutate_active_items_v2 sample_memory sample_snapshot sample_trace (AttemptId (lit ''a1''))
     sample_requests (UnixMillis 9) = Inr (memory, outcomes)"
  by (simp add: mutate_active_items_v2_def sample_defs lit_def MAX_ACTIVE_ITEM_MUTATIONS_V2_def
        MAX_ITEMS_PER_DEFINITION_V2_def require_active_def active_attempt_def is_active_def snapshot_node_def
        ProcedureSnapshotV2_memory_model_def SnapshotMemoryModelV2_node_def ItemSpecV2_id_def
        UnpublishedAttemptDraftV2_open_def active_index_def apply_item_def mutate_item_value_v2_def
        item_candidate_def Let_def less_UnixMillis_def Revision_checked_next_def checked_succ_def
        ItemSlotStateV2_new_def Revision_ZERO_def slot_values_def recorded_content_scalars_v2_def
        MAX_ATTEMPT_CONTENT_SCALARS_V2_def RecordedItemValueV2_text_def MAX_TEXT_SCALARS_V2_def trim_def
        is_whitespace_def publish_def AttemptWorkflowMemoryV2_new_def WorkflowMemoryStateV2_new_def open_blockers_def
        map_filter_simps)

text \<open>
  C25: an atomic batch of item commands means exactly the single commands applied one after another in
  item order, each on the memory the previous one published: same final memory, same outcomes, and
  on failure the same error as the first failing command.
\<close>

theorem batch_is_sequential:
  assumes "memory_wf wm" "rs \<noteq> []" "length rs \<le> 128" "distinct (map rq_item_id rs)"
  shows "mutate_active_items_v2 wm snap trace aid rs now =
     sequential snap trace aid now wm (sort_key (\<lambda>r. as_bytes (ItemId_as_str (rq_item_id r))) rs)"
proof -
  have "first_adjacent_duplicate (sort_key item_order rs) = None"
    using assms(4) by (intro distinct_no_duplicate) (simp add: distinct_map)
  moreover have "sort_key item_order rs \<noteq> []" using assms(2) by (metis length_0_conv length_sort)
  ultimately show ?thesis
    using assms sequential_start[OF assms(1), of "sort_key item_order rs" trace aid snap now]
    by (simp add: mutate_active_items_v2_def MAX_ACTIVE_ITEM_MUTATIONS_V2_def MAX_ITEMS_PER_DEFINITION_V2_def)
qed

theorem batch_is_sequential_witness:
  "\<exists>memory outcomes.
     mutate_active_items_v2 sample_memory sample_snapshot sample_trace (AttemptId (lit ''a1'')) sample_requests
       (UnixMillis 9) = Inr (memory, outcomes) \<and>
     sequential sample_snapshot sample_trace (AttemptId (lit ''a1'')) (UnixMillis 9) sample_memory
       (sort_key item_order sample_requests) = Inr (memory, outcomes)"
proof -
  have "mutate_active_items_v2 sample_memory sample_snapshot sample_trace (AttemptId (lit ''a1'')) sample_requests
       (UnixMillis 9) = sequential sample_snapshot sample_trace (AttemptId (lit ''a1'')) (UnixMillis 9) sample_memory
         (sort_key item_order sample_requests)"
    by (rule batch_is_sequential) (simp_all add: sample_memory_wf sample_requests_def lit_def)
  with sample_batch_ok show ?thesis by metis
qed

text \<open>
  C27: the order in which a caller lists the commands of a batch has no influence: two batches with the
  same commands give the same memory, the same outcomes or the same error, duplicates included.
\<close>

theorem batch_order_irrelevant:
  assumes "mset rs = mset qs"
  shows "mutate_active_items_v2 wm snap trace aid rs now = mutate_active_items_v2 wm snap trace aid qs now"
proof -
  have len: "length rs = length qs" and nil: "rs = [] \<longleftrightarrow> qs = []"
    using assms by (auto dest: mset_eq_length)
  have dup: "first_adjacent_duplicate (sort_key item_order rs) = first_adjacent_duplicate (sort_key item_order qs)"
    by (simp add: first_adjacent_duplicate_ids sorted_ids_unique[OF assms])
  have same: "sort_key item_order rs = sort_key item_order qs"
    if "first_adjacent_duplicate (sort_key item_order rs) = None"
  proof -
    have "distinct (map rq_item_id (sort_key item_order rs))"
      by (rule sorted_no_duplicate_distinct[OF _ that]) simp
    then have "distinct (map rq_item_id rs)" by (simp add: distinct_map)
    then show ?thesis by (rule sorted_requests_unique[OF assms])
  qed
  show ?thesis
    using len nil dup same by (simp add: mutate_active_items_v2_def Let_def split: option.splits)
qed

theorem batch_order_irrelevant_witness:
  "mutate_active_items_v2 sample_memory sample_snapshot sample_trace (AttemptId (lit ''a1'')) sample_requests (UnixMillis 9) =
   mutate_active_items_v2 sample_memory sample_snapshot sample_trace (AttemptId (lit ''a1'')) (rev sample_requests) (UnixMillis 9)"
  by (rule batch_order_irrelevant) simp

section \<open>Values stay admitted\<close>

lemma mutated_value_admitted:
  assumes "mutate_item_value_v2 spec current mutation = Inr v" "is_none_or current (admits_recorded_value spec)"
  shows "is_none_or v (admits_recorded_value spec)"
proof -
  from assms(1) obtain checked c where c: "item_candidate spec current mutation = Inr (checked, c)"
    by (auto simp: mutate_item_value_v2_def)
  have "\<not> checked \<Longrightarrow> c = current"
    using c by (auto simp: item_candidate_def Let_def rbind_def
        split: ActiveItemMutationV2.splits ItemSpecV2.splits if_splits sum.splits option.splits ItemTypeV1.splits)
  with c assms show ?thesis
    by (auto simp: mutate_item_value_v2_def split: option.splits if_splits)
qed

definition slot_ok :: "ItemSpecV2 list \<Rightarrow> ItemSlotStateV2 \<Rightarrow> bool" where
  "slot_ok items s \<longleftrightarrow>
     is_none_or (find (\<lambda>spec. ItemSpecV2_id spec = sl_item_id s) items) (value_is_admitted s) \<and>
     is_none_or (sl_value s) (\<lambda>v. RecordedItemValueV2_item_type v = sl_item_type s)"

text \<open>What the memory of an attempt promises on its recorded values.\<close>

definition values_ok :: "ItemSpecV2 list \<Rightarrow> AttemptWorkflowMemoryV2 \<Rightarrow> bool" where
  "values_ok items m \<longleftrightarrow>
     (\<forall>s\<in>set (am_item_slots m). slot_ok items s) \<and>
     AttemptWorkflowMemoryV2_content_scalars m \<le> MAX_ATTEMPT_CONTENT_SCALARS_V2"

lemma slot_step_ok:
  assumes step: "slot_step slots spec r now = Inr (Some slots', out)" and ok: "\<forall>s\<in>set slots. slot_ok items s"
    and spec: "find (\<lambda>spec. ItemSpecV2_id spec = rq_item_id r) items = Some spec"
  shows "(\<forall>s\<in>set slots'. slot_ok items s) \<and>
     recorded_content_scalars_v2 (slot_values slots') \<le> MAX_ATTEMPT_CONTENT_SCALARS_V2"
  using step
proof (rule slot_step_changedE)
  fix i v rv nxt
  assume i: "i < length slots" "sl_item_id (slots ! i) = rq_item_id r"
    and v: "mutate_item_value_v2 spec (sl_value (slots ! i)) (rq_mutation r) = Inr v"
    and nxt: "ItemSlotStateV2_new (sl_attempt_id (slots ! i)) (sl_item_id (slots ! i)) (sl_item_type (slots ! i)) rv v
       (sl_created_at (slots ! i)) now = Inr nxt"
    and slots': "slots' = slots[i := nxt]"
    and content: "recorded_content_scalars_v2 (slot_values slots') \<le> MAX_ATTEMPT_CONTENT_SCALARS_V2"
  note sel = ItemSlotStateV2_new_sel[OF nxt]
  have "slot_ok items (slots ! i)" using ok i(1) by simp
  then have "is_none_or (sl_value (slots ! i)) (admits_recorded_value spec)"
    using spec i(2) by (simp add: slot_ok_def value_is_admitted_def)
  from mutated_value_admitted[OF v this] have "slot_ok items nxt"
    using spec i(2) sel by (simp add: slot_ok_def value_is_admitted_def)
  with ok content show ?thesis using set_update_subset_insert[of slots i nxt] slots' by auto
qed

lemma apply_requests_ok:
  assumes "apply_requests items wm aid now (Some d) rs = Inr (fd, outs)"
    and "\<forall>s\<in>set (dft_slots d). slot_ok items s"
    and "recorded_content_scalars_v2 (slot_values (dft_slots d)) \<le> MAX_ATTEMPT_CONTENT_SCALARS_V2"
    and "draft_fits wm aid d"
  shows "\<exists>d'. fd = Some d' \<and> draft_fits wm aid d' \<and> (\<forall>s\<in>set (dft_slots d'). slot_ok items s) \<and>
     recorded_content_scalars_v2 (slot_values (dft_slots d')) \<le> MAX_ATTEMPT_CONTENT_SCALARS_V2"
  using assms
proof (induction rs arbitrary: d outs)
  case Nil
  then show ?case by auto
next
  case (Cons r rs)
  from Cons.prems(1) obtain spec s out outs' where
    spec: "find (\<lambda>spec. ItemSpecV2_id spec = rq_item_id r) items = Some spec"
    and s: "slot_step (dft_slots d) spec r now = Inr (s, out)"
    and rest: "apply_requests items wm aid now (Some (advance_draft d s)) rs = Inr (fd, outs')"
    by (auto simp: apply_item_slot_step)
  show ?case
  proof (rule Cons.IH[OF rest _ _ draft_fits_advance[OF Cons.prems(4) s]])
    show "\<forall>t\<in>set (dft_slots (advance_draft d s)). slot_ok items t"
      using Cons.prems(2) slot_step_ok[OF _ Cons.prems(2) spec] s
      by (cases s) (simp_all add: advance_draft_def)
    show "recorded_content_scalars_v2 (slot_values (dft_slots (advance_draft d s))) \<le> MAX_ATTEMPT_CONTENT_SCALARS_V2"
      using Cons.prems(3) slot_step_ok[OF _ Cons.prems(2) spec] s
      by (cases s) (simp_all add: advance_draft_def)
  qed
qed

lemma published_frame:
  assumes "memory_wf wm" "draft_fits wm aid d"
  shows "wm_decisions (published wm d) = wm_decisions wm" "wm_reworks (published wm d) = wm_reworks wm"
    "map am_attempt_id (wm_attempts (published wm d)) = map am_attempt_id (wm_attempts wm)"
    "am_attempt_id m \<noteq> aid \<Longrightarrow> m \<in> set (wm_attempts (published wm d)) \<longleftrightarrow> m \<in> set (wm_attempts wm)"
    "m \<in> set (wm_attempts (published wm d)) \<Longrightarrow> am_attempt_id m = aid \<Longrightarrow>
       m = (wm_attempts wm ! dft_attempt_index d)\<lparr>am_item_slots := dft_slots d\<rparr>"
proof -
  let ?i = "dft_attempt_index d" and ?new = "(wm_attempts wm ! dft_attempt_index d)\<lparr>am_item_slots := dft_slots d\<rparr>"
  from assms have i: "?i < length (wm_attempts wm)" "am_attempt_id (wm_attempts wm ! ?i) = aid"
    and dist: "distinct (map am_attempt_id (wm_attempts wm))"
    by (auto simp: draft_fits_def active_index_def memory_wf_iff dest: position_SomeD)
  have atts: "set (wm_attempts (published wm d)) = insert ?new (set (wm_attempts wm) - {wm_attempts wm ! ?i})"
    using i dist by (simp add: published_def with_slots_def set_update_distinct distinct_map)
  show "wm_decisions (published wm d) = wm_decisions wm" "wm_reworks (published wm d) = wm_reworks wm"
    by (simp_all add: published_def with_slots_def)
  show "map am_attempt_id (wm_attempts (published wm d)) = map am_attempt_id (wm_attempts wm)"
    by (simp add: published_def)
  show "m \<in> set (wm_attempts (published wm d)) \<longleftrightarrow> m \<in> set (wm_attempts wm)" if "am_attempt_id m \<noteq> aid"
    using that i(2) unfolding atts by auto
  show "m = ?new" if "m \<in> set (wm_attempts (published wm d))" "am_attempt_id m = aid"
    using that i dist unfolding atts by (auto simp: distinct_map inj_on_def)
qed

text \<open>
  C26: an accepted item batch keeps the memory well-formed, touches only the slots of the active attempt
  (all other attempts, decisions and reworks stay as they are), and leaves every recorded value of
  that attempt of its declared type, admitted by its declaration, and the recorded content of the
  attempt within the 16 MiB scalar bound.
\<close>

theorem batch_keeps_values_admitted:
  assumes wf: "memory_wf wm" and act: "require_active trace aid = Inr active"
    and node: "snapshot_node snap (att_graph_node_id active) = Inr spec"
    and ok: "\<forall>m\<in>set (wm_attempts wm). am_attempt_id m = aid \<longrightarrow> values_ok (nm_items spec) m"
    and mut: "mutate_active_items_v2 wm snap trace aid rs now = Inr (wm', outs)"
  shows "memory_wf wm' \<and> (\<forall>m\<in>set (wm_attempts wm'). am_attempt_id m = aid \<longrightarrow> values_ok (nm_items spec) m) \<and>
     (\<forall>m. am_attempt_id m \<noteq> aid \<longrightarrow> m \<in> set (wm_attempts wm') \<longleftrightarrow> m \<in> set (wm_attempts wm)) \<and>
     wm_decisions wm' = wm_decisions wm \<and> wm_reworks wm' = wm_reworks wm"
proof -
  let ?ordered = "sort_key item_order rs"
  from mut act node obtain draft where run: "apply_requests (nm_items spec) wm aid now None ?ordered = Inr (draft, outs)"
    and pub: "publish (the draft) wm = Inr wm'" and ne: "?ordered \<noteq> []"
    by (auto simp: mutate_active_items_v2_def Let_def split: if_splits option.splits) (metis length_0_conv length_sort)
  from run ne obtain d where d: "UnpublishedAttemptDraftV2_open wm aid = Inr d"
    "apply_requests (nm_items spec) wm aid now (Some d) ?ordered = Inr (draft, outs)"
    by (cases ?ordered) (auto)
  from d(1) have fits: "draft_fits wm aid d" and mem: "wm_attempts wm ! dft_attempt_index d \<in> set (wm_attempts wm)"
    "am_attempt_id (wm_attempts wm ! dft_attempt_index d) = aid"
    "dft_slots d = am_item_slots (wm_attempts wm ! dft_attempt_index d)"
    using position_SomeD wf
    by (fastforce simp: UnpublishedAttemptDraftV2_open_def draft_fits_def slots_fit_def active_index_def
        memory_wf_iff attempt_wf_iff)+
  from ok mem have start: "\<forall>s\<in>set (dft_slots d). slot_ok (nm_items spec) s"
    "recorded_content_scalars_v2 (slot_values (dft_slots d)) \<le> MAX_ATTEMPT_CONTENT_SCALARS_V2"
    by (auto simp: values_ok_def AttemptWorkflowMemoryV2_content_scalars_def)
  from apply_requests_ok[OF d(2) start fits] obtain d' where d': "draft = Some d'" "draft_fits wm aid d'"
    "\<forall>s\<in>set (dft_slots d'). slot_ok (nm_items spec) s"
    "recorded_content_scalars_v2 (slot_values (dft_slots d')) \<le> MAX_ATTEMPT_CONTENT_SCALARS_V2" by blast
  have wm': "wm' = published wm d'" using pub publish_draft[OF wf d'(2)] d'(1) by simp
  have "values_ok (nm_items spec) m" if "m \<in> set (wm_attempts wm')" "am_attempt_id m = aid" for m
    using published_frame(5)[OF wf d'(2), of m] that d'(3,4) wm'
    by (auto simp: values_ok_def AttemptWorkflowMemoryV2_content_scalars_def)
  then show ?thesis
    using published_wf[OF wf d'(2)] published_frame[OF wf d'(2)] unfolding wm' by blast
qed

theorem batch_keeps_values_admitted_witness:
  "\<exists>memory outcomes. mutate_active_items_v2 sample_memory sample_snapshot sample_trace (AttemptId (lit ''a1''))
     sample_requests (UnixMillis 9) = Inr (memory, outcomes) \<and>
   (\<forall>m\<in>set (wm_attempts memory). am_attempt_id m = AttemptId (lit ''a1'') \<longrightarrow> values_ok (nm_items sample_spec) m)"
proof -
  obtain memory outcomes where run: "mutate_active_items_v2 sample_memory sample_snapshot sample_trace
     (AttemptId (lit ''a1'')) sample_requests (UnixMillis 9) = Inr (memory, outcomes)" using sample_batch_ok by blast
  have act: "require_active sample_trace (AttemptId (lit ''a1'')) = Inr sample_attempt"
    by (simp add: require_active_def active_attempt_def is_active_def sample_defs)
  have node: "snapshot_node sample_snapshot (att_graph_node_id sample_attempt) = Inr sample_spec"
    by (simp add: snapshot_node_def ProcedureSnapshotV2_memory_model_def SnapshotMemoryModelV2_node_def
        sample_snapshot_def sample_attempt_def)
  have ok: "\<forall>m\<in>set (wm_attempts sample_memory). am_attempt_id m = AttemptId (lit ''a1'') \<longrightarrow>
      values_ok (nm_items sample_spec) m"
    by (simp add: values_ok_def AttemptWorkflowMemoryV2_content_scalars_def slot_values_def slot_ok_def
        recorded_content_scalars_v2_def value_is_admitted_def sample_memory_def sample_slot_def is_none_or_def
        map_filter_simps split: option.splits)
  from batch_keeps_values_admitted[OF sample_memory_wf act node ok run] run show ?thesis by blast
qed

end
