(* ===== verification/Attempt_Successors.thy ===== *)
theory Attempt_Successors
  imports Item_Batch
begin

text \<open>
  What becomes of the workflow memory when the session moves on (\<open>workflow_v2.rs\<close>): evidence is
  resolved at the activation of a fresh attempt, readiness gates completion and decision, and each
  transition (complete, retry, skip, decide, manual and goal rework) appends the memory of the fresh
  attempt. The code repeats the construction of the fresh memory in every transition; here it is
  \<open>fresh_attempt_memory\<close>.
\<close>

section \<open>Evidence resolution at activation\<close>

definition current_sources :: "SessionTraceV2 \<Rightarrow> GraphNodeId \<Rightarrow> SessionAttemptV2 list" where
  "current_sources trace node =
     filter (\<lambda>a. att_graph_node_id a = node \<and> att_validity a = Valid) (tr_attempts trace)"

definition attempt_memory :: "WorkflowMemoryStateV2 \<Rightarrow> AttemptId \<Rightarrow> AttemptWorkflowMemoryV2 option" where
  "attempt_memory wm aid = find (\<lambda>m. am_attempt_id m = aid) (wm_attempts wm)"

definition trace_attempt :: "SessionTraceV2 \<Rightarrow> AttemptId \<Rightarrow> SessionAttemptV2 option" where
  "trace_attempt trace aid = find (\<lambda>a. att_attempt_id a = aid) (tr_attempts trace)"

definition resolve_reference ::
    "externals \<Rightarrow> SessionTraceV2 \<Rightarrow> WorkflowMemoryStateV2 \<Rightarrow> UnixMillis \<Rightarrow> nat \<times> EvidenceSpecV2 \<Rightarrow>
     GraphMutationErrorV2 + EvidenceResolutionStateV2" where
  "resolve_reference ext trace memory resolved_at = (\<lambda>(ordinal, reference).
     rbind
       (case current_sources trace (ev_source_node reference) of
          [] \<Rightarrow>
            if ev_required reference
            then Inl (gm_invalid ''required Procedure v2 evidence is unresolved at activation'')
            else Inr (Unresolved (ev_source_node reference))
        | [source] \<Rightarrow>
            if att_lifecycle source \<noteq> AttemptCompleted \<and> att_lifecycle source \<noteq> AttemptSkipped
            then Inl (gm_invalid ''Procedure v2 evidence source is not terminal at activation'')
            else
              rbind (ok_or (gm_invalid ''Procedure v2 evidence source memory is absent'')
                       (attempt_memory memory (att_attempt_id source))) (\<lambda>source_memory.
              rbind (state_err (AttemptWorkflowMemoryV2_recorded_items_digest ext source_memory)) (\<lambda>digest.
              rbind (domain_err (EvidenceReferenceSnapshotV2_new (ev_source_node reference) (att_attempt_id source)
                       (att_number source) digest resolved_at)) (\<lambda>snapshot.
                Inr (if att_lifecycle source = AttemptSkipped then Skipped snapshot else Resolved snapshot))))
        | _ \<Rightarrow> Inl (gm_invalid ''Procedure v2 evidence source is not uniquely current at activation'')) (\<lambda>resolution.
     rbind (if ordinal < 2 ^ 32 then Inr (of_nat ordinal)
            else Inl (gm_invalid ''Procedure v2 evidence reference ordinal is out of bounds'')) (\<lambda>ord.
       state_err (EvidenceResolutionStateV2_new ord (ev_required reference) (ev_selected_item_ids reference) resolution))))"

definition resolve_evidence_at_activation_v2 ::
    "externals \<Rightarrow> NodeMemorySpecV2 \<Rightarrow> SessionTraceV2 \<Rightarrow> WorkflowMemoryStateV2 \<Rightarrow> UnixMillis \<Rightarrow>
     GraphMutationErrorV2 + EvidenceResolutionStateV2 list" where
  "resolve_evidence_at_activation_v2 ext spec trace memory resolved_at =
     collect_ok (resolve_reference ext trace memory resolved_at) (enumerate 0 (nm_evidence spec))"

section \<open>The memory of a fresh attempt\<close>

definition fresh_slot :: "AttemptId \<Rightarrow> UnixMillis \<Rightarrow> ItemSpecV2 \<Rightarrow> ProcedureStateErrorV2 + ItemSlotStateV2" where
  "fresh_slot aid at item =
     ItemSlotStateV2_new aid (ItemSpecV2_id item) (ItemSpecV2_item_type item) Revision_ZERO None at at"

definition fresh_attempt_memory ::
    "externals \<Rightarrow> NodeMemorySpecV2 \<Rightarrow> SessionTraceV2 \<Rightarrow> WorkflowMemoryStateV2 \<Rightarrow> AttemptId \<Rightarrow> UnixMillis \<Rightarrow>
     GraphMutationErrorV2 + AttemptWorkflowMemoryV2" where
  "fresh_attempt_memory ext spec trace wm aid at =
     rbind (state_err (collect_ok (fresh_slot aid at) (nm_items spec))) (\<lambda>slots.
     rbind (resolve_evidence_at_activation_v2 ext spec trace wm at) (\<lambda>evidence.
       state_err (AttemptWorkflowMemoryV2_new aid slots [] evidence)))"

section \<open>Readiness\<close>

definition missing_items :: "NodeMemorySpecV2 \<Rightarrow> AttemptWorkflowMemoryV2 \<Rightarrow> ItemId list" where
  "missing_items spec memory =
     map (\<lambda>(i, item, slot). ItemSpecV2_id item)
       (filter (\<lambda>(i, item, slot). required_now_v2 (nm_items spec) (am_item_slots memory) i \<and>
                  \<not> is_some_and (sl_value slot) (is_satisfied_by item))
         (enumerate 0 (zip (nm_items spec) (am_item_slots memory))))"

definition check_items_and_blockers ::
    "NodeMemorySpecV2 \<Rightarrow> AttemptWorkflowMemoryV2 \<Rightarrow> GraphMutationErrorV2 + unit" where
  "check_items_and_blockers spec memory =
     (let missing = missing_items spec memory in
      if missing \<noteq> [] then Inl (GmRequiredItemsMissing missing)
      else if \<exists>b\<in>set (am_blockers memory). bl_state b = BlockerOpen then Inl GmBlockersPresent
      else Inr ())"

definition validate_active_action_ready_v2 ::
    "WorkflowMemoryStateV2 \<Rightarrow> ProcedureSnapshotV2 \<Rightarrow> SessionTraceV2 \<Rightarrow> GraphMutationErrorV2 + unit" where
  "validate_active_action_ready_v2 wm snap trace =
     rbind (ok_or GmSessionNotRunning (active_attempt trace)) (\<lambda>active.
     rbind (ok_or (gm_invalid ''active Procedure v2 workflow memory is absent'')
              (attempt_memory wm (att_attempt_id active))) (\<lambda>memory.
     rbind (state_err (snapshot_node snap (att_graph_node_id active))) (\<lambda>spec.
       if nm_node_kind spec \<noteq> KindAction
       then Inl (GmGraphNodeTypeMismatch (att_graph_node_id active) (nm_node_kind spec))
       else check_items_and_blockers spec memory)))"

section \<open>Completion, retry and skip\<close>

definition complete_action_successor_v2 ::
    "externals \<Rightarrow> WorkflowMemoryStateV2 \<Rightarrow> ProcedureSnapshotV2 \<Rightarrow> SessionTraceV2 \<Rightarrow> SessionTraceV2 \<Rightarrow>
     UnixMillis \<Rightarrow> GraphMutationErrorV2 + WorkflowMemoryStateV2" where
  "complete_action_successor_v2 ext wm snap previous_trace next_tr ended_at =
     rbind (validate_active_action_ready_v2 wm snap previous_trace) (\<lambda>_.
     rbind (state_err (ProcedureSnapshotV2_memory_model snap)) (\<lambda>model.
     rbind (case active_attempt next_tr of
         None \<Rightarrow> Inr (wm_attempts wm)
       | Some fresh \<Rightarrow>
           rbind (state_err (SnapshotMemoryModelV2_node model (att_graph_node_id fresh))) (\<lambda>spec.
           rbind (fresh_attempt_memory ext spec next_tr wm (att_attempt_id fresh) ended_at) (\<lambda>memory.
             Inr (wm_attempts wm @ [memory])))) (\<lambda>attempts.
       state_err (WorkflowMemoryStateV2_new attempts (wm_decisions wm) (wm_reworks wm)))))"

definition retry_successor_v2 ::
    "externals \<Rightarrow> WorkflowMemoryStateV2 \<Rightarrow> ProcedureSnapshotV2 \<Rightarrow> SessionTraceV2 \<Rightarrow> UnixMillis \<Rightarrow>
     GraphMutationErrorV2 + WorkflowMemoryStateV2" where
  "retry_successor_v2 ext wm snap next_tr started_at =
     rbind (ok_or GmSessionNotRunning (active_attempt next_tr)) (\<lambda>fresh.
     rbind (state_err (snapshot_node snap (att_graph_node_id fresh))) (\<lambda>spec.
     rbind (fresh_attempt_memory ext spec next_tr wm (att_attempt_id fresh) started_at) (\<lambda>memory.
       state_err (WorkflowMemoryStateV2_new (wm_attempts wm @ [memory]) (wm_decisions wm) (wm_reworks wm)))))"

definition clear_slot :: "UnixMillis \<Rightarrow> ItemSlotStateV2 \<Rightarrow> GraphMutationErrorV2 + ItemSlotStateV2" where
  "clear_slot ended_at slot =
     (if sl_value slot = None then Inr slot
      else rbind (domain_err (Revision_checked_next (sl_revision slot))) (\<lambda>revision.
        state_err (ItemSlotStateV2_new (sl_attempt_id slot) (sl_item_id slot) (sl_item_type slot) revision None
          (sl_created_at slot) ended_at)))"

definition skip_action_successor_v2 ::
    "externals \<Rightarrow> WorkflowMemoryStateV2 \<Rightarrow> ProcedureSnapshotV2 \<Rightarrow> SessionTraceV2 \<Rightarrow> SessionTraceV2 \<Rightarrow>
     UnixMillis \<Rightarrow> GraphMutationErrorV2 + WorkflowMemoryStateV2" where
  "skip_action_successor_v2 ext wm snap previous_trace next_tr ended_at =
     rbind (ok_or GmSessionNotRunning (active_attempt previous_trace)) (\<lambda>source.
     rbind (active_index wm (att_attempt_id source)) (\<lambda>source_index.
     let source_memory = wm_attempts wm ! source_index in
     rbind (collect_ok (clear_slot ended_at) (am_item_slots source_memory)) (\<lambda>cleared_slots.
     rbind (state_err (AttemptWorkflowMemoryV2_new (att_attempt_id source) cleared_slots
              (am_blockers source_memory) (am_evidence source_memory))) (\<lambda>cleared_memory.
     rbind (state_err (WorkflowMemoryStateV2_new ((wm_attempts wm)[source_index := cleared_memory])
              (wm_decisions wm) (wm_reworks wm))) (\<lambda>cleared.
       case active_attempt next_tr of
         None \<Rightarrow> Inr cleared
       | Some fresh \<Rightarrow>
           rbind (state_err (snapshot_node snap (att_graph_node_id fresh))) (\<lambda>spec.
           rbind (fresh_attempt_memory ext spec next_tr cleared (att_attempt_id fresh) ended_at) (\<lambda>memory.
             state_err (WorkflowMemoryStateV2_new (wm_attempts cleared @ [memory])
               (wm_decisions cleared) (wm_reworks cleared)))))))))"

section \<open>Reading selected evidence\<close>

datatype EvidenceLookupErrorV2 =
    ReferenceNotDeclared
  | ItemNotSelected
  | NotAvailable string
  | LookupStale AttemptId
  | ValueAbsent

record SelectedEvidenceItemV2 =
  se_consumer_graph_node_id :: GraphNodeId
  se_consumer_attempt_id :: AttemptId
  se_consumer_attempt_number :: AttemptNumberV2
  se_source_graph_node_id :: GraphNodeId
  se_source_attempt_id :: AttemptId
  se_source_attempt_number :: AttemptNumberV2
  se_items_digest :: Sha256Digest
  se_item_id :: ItemId
  se_item_revision :: Revision
  se_value :: RecordedItemValueV2
  se_value_digest :: Sha256Digest

definition selects :: "ItemId \<Rightarrow> EvidenceResolutionStateV2 \<Rightarrow> bool" where
  "selects item_id reference \<longleftrightarrow>
     evr_selected_item_ids reference = [] \<or> item_id \<in> set (evr_selected_item_ids reference)"

definition read_source_item ::
    "externals \<Rightarrow> WorkflowMemoryStateV2 \<Rightarrow> SessionTraceV2 \<Rightarrow> SessionAttemptV2 \<Rightarrow> EvidenceReferenceSnapshotV2 \<Rightarrow> ItemId \<Rightarrow>
     ProcedureStateErrorV2 + (EvidenceLookupErrorV2 + SelectedEvidenceItemV2)" where
  "read_source_item ext wm trace consumer_attempt snapshot item_id =
     rbind (ok_or (state_invalid ''Procedure v2 evidence source trace is absent'')
              (trace_attempt trace (es_source_attempt_id snapshot))) (\<lambda>source_attempt.
     if att_validity consumer_attempt \<noteq> Valid \<or> att_validity source_attempt \<noteq> Valid
     then Inr (Inl (LookupStale (es_source_attempt_id snapshot)))
     else rbind (ok_or (state_invalid ''Procedure v2 evidence source is absent'')
              (attempt_memory wm (es_source_attempt_id snapshot))) (\<lambda>source.
     case find (\<lambda>s. sl_item_id s = item_id) (am_item_slots source) of
       None \<Rightarrow> Inr (Inl ItemNotSelected)
     | Some slot \<Rightarrow>
         (case sl_value slot of
            None \<Rightarrow> Inr (Inl ValueAbsent)
          | Some v \<Rightarrow>
              rbind (recorded_value_digest_v2 ext v) (\<lambda>digest.
                Inr (Inr \<lparr>se_consumer_graph_node_id = att_graph_node_id consumer_attempt,
                          se_consumer_attempt_id = att_attempt_id consumer_attempt,
                          se_consumer_attempt_number = att_number consumer_attempt,
                          se_source_graph_node_id = att_graph_node_id source_attempt,
                          se_source_attempt_id = att_attempt_id source_attempt,
                          se_source_attempt_number = att_number source_attempt,
                          se_items_digest = es_items_digest snapshot, se_item_id = sl_item_id slot,
                          se_item_revision = sl_revision slot, se_value = v, se_value_digest = digest\<rparr>)))))"

definition selected_evidence_item ::
    "externals \<Rightarrow> WorkflowMemoryStateV2 \<Rightarrow> SessionTraceV2 \<Rightarrow> AttemptId \<Rightarrow> GraphNodeId \<Rightarrow> ItemId \<Rightarrow>
     ProcedureStateErrorV2 + (EvidenceLookupErrorV2 + SelectedEvidenceItemV2)" where
  "selected_evidence_item ext wm trace consumer_attempt_id source_node item_id =
     rbind (ok_or (state_invalid ''Procedure v2 evidence consumer is absent'')
              (attempt_memory wm consumer_attempt_id)) (\<lambda>consumer.
     rbind (ok_or (state_invalid ''Procedure v2 evidence consumer trace is absent'')
              (trace_attempt trace consumer_attempt_id)) (\<lambda>consumer_attempt.
     let declared = filter (\<lambda>r. ResolvedEvidenceReferenceV2_source_node (evr_resolution r) = source_node)
                      (am_evidence consumer) in
     if declared = [] then Inr (Inl ReferenceNotDeclared)
     else case find (selects item_id) declared of
       None \<Rightarrow> Inr (Inl ItemNotSelected)
     | Some reference \<Rightarrow>
         (case evr_resolution reference of
            Resolved snapshot \<Rightarrow> read_source_item ext wm trace consumer_attempt snapshot item_id
          | Skipped _ \<Rightarrow> Inr (Inl (NotAvailable ''skipped''))
          | Unresolved _ \<Rightarrow> Inr (Inl (NotAvailable ''unresolved'')))))"

record EvidenceReadbackV2 =
  rb_reference :: EvidenceResolutionStateV2
  rb_items :: RecordedItemSetV2
  rb_decision :: "DecisionRecordV2 option"
  rb_stale :: bool

definition readback_items ::
    "WorkflowMemoryStateV2 \<Rightarrow> EvidenceResolutionStateV2 \<Rightarrow> ProcedureStateErrorV2 + RecordedItemSetV2" where
  "readback_items wm reference =
     (case evr_resolution reference of
        Resolved snapshot \<Rightarrow>
          rbind (ok_or (state_invalid ''Procedure v2 evidence source is absent'')
                   (attempt_memory wm (es_source_attempt_id snapshot))) (\<lambda>source.
            map_err (\<lambda>_. state_invalid ''Procedure v2 selected read-back is invalid'')
              (RecordedItemSetV2_new
                (if evr_selected_item_ids reference = [] then recorded_slots (am_item_slots source)
                 else recorded_slots (filter (\<lambda>s. sl_item_id s \<in> set (evr_selected_item_ids reference))
                        (am_item_slots source)))))
      | _ \<Rightarrow> map_err (\<lambda>_. state_invalid ''Procedure v2 empty read-back is invalid'') (RecordedItemSetV2_new []))"

definition readback_reference ::
    "WorkflowMemoryStateV2 \<Rightarrow> SessionTraceV2 \<Rightarrow> SessionAttemptV2 \<Rightarrow> EvidenceResolutionStateV2 \<Rightarrow>
     ProcedureStateErrorV2 + EvidenceReadbackV2" where
  "readback_reference wm trace consumer_attempt reference =
     (let source = map_option es_source_attempt_id (ResolvedEvidenceReferenceV2_snapshot (evr_resolution reference)) in
      rbind (readback_items wm reference) (\<lambda>items.
      rbind (case source of
          None \<Rightarrow> Inr False
        | Some sid \<Rightarrow>
            rbind (ok_or (state_invalid ''Procedure v2 evidence source trace is absent'') (trace_attempt trace sid))
              (\<lambda>source_attempt. Inr (att_validity consumer_attempt = Stale \<or> att_validity source_attempt = Stale)))
        (\<lambda>stale.
        Inr \<lparr>rb_reference = reference, rb_items = items,
             rb_decision = Option.bind source (\<lambda>sid. find (\<lambda>d. dr_attempt_id d = sid) (wm_decisions wm)),
             rb_stale = stale\<rparr>)))"

definition selected_readback ::
    "WorkflowMemoryStateV2 \<Rightarrow> SessionTraceV2 \<Rightarrow> AttemptId \<Rightarrow> ProcedureStateErrorV2 + EvidenceReadbackV2 list" where
  "selected_readback wm trace aid =
     rbind (ok_or (state_invalid ''Procedure v2 evidence consumer is absent'') (attempt_memory wm aid)) (\<lambda>consumer.
     rbind (ok_or (state_invalid ''Procedure v2 evidence consumer trace is absent'') (trace_attempt trace aid))
       (\<lambda>consumer_attempt. collect_ok (readback_reference wm trace consumer_attempt) (am_evidence consumer)))"

end
