(* ===== verification/Attempt_Decisions.thy ===== *)
theory Attempt_Decisions
  imports Attempt_Successors
begin

text \<open>
  Decisions and reworks of \<open>workflow_v2.rs\<close>: the checks a decision passes in order (node kind,
  assessment, option, outcome, route, reason, required items, blockers, evidence, guard), the trace
  and memory it leads to, manual and goal rework, and the memory of the first attempt.
\<close>

section \<open>The checks of a decision\<close>

definition check_decision_choice ::
    "NodeMemorySpecV2 \<Rightarrow> GraphNodeId \<Rightarrow> OptionId \<Rightarrow> GoalOutcome option \<Rightarrow>
     GraphMutationErrorV2 + GraphNodeId \<times> TransitionEffectV2" where
  "check_decision_choice spec node selected_option determined =
     (if nm_node_kind spec \<noteq> KindDecision then Inl (GmGraphNodeTypeMismatch node (nm_node_kind spec))
      else if nm_goal_assessment spec \<and> determined = None
      then Inl (GmGoalAssessmentDecisionRequiresAssessment node)
      else if \<not> nm_goal_assessment spec \<and> determined \<noteq> None
      then Inl (GmGoalAssessmentDecisionRequired node)
      else if selected_option \<notin> set (nm_options spec)
      then Inl (GmOptionNotAllowed node selected_option (nm_options spec))
      else rbind (case determined of
          None \<Rightarrow> Inr ()
        | Some out \<Rightarrow>
            let allowed = filter (\<lambda>oid. nm_assessment_outcomes spec oid = Some out) (nm_options spec) in
            if selected_option \<notin> set allowed
            then Inl (GmGoalAssessmentOutcomeNotAllowed selected_option out allowed)
            else Inr ()) (\<lambda>_.
        ok_or (GmRouteNotAllowed node selected_option) (nm_routes spec selected_option)))"

definition check_decision_reason ::
    "NodeMemorySpecV2 \<Rightarrow> GraphNodeId \<Rightarrow> ReasonV2 option \<Rightarrow> GraphMutationErrorV2 + ReasonV2" where
  "check_decision_reason spec node reason =
     (case (nm_reason_required spec, reason) of
        (True, None) \<Rightarrow> Inl (GmDecisionReasonMissing node)
      | (_, Some r) \<Rightarrow> Inr r
      | (False, None) \<Rightarrow> Inl (gm_invalid ''Procedure v2 decision record requires a reason''))"

definition check_reference_fresh ::
    "SessionTraceV2 \<Rightarrow> GraphNodeId \<Rightarrow> EvidenceResolutionStateV2 \<Rightarrow> GraphMutationErrorV2 + unit" where
  "check_reference_fresh trace node reference =
     (case ResolvedEvidenceReferenceV2_snapshot (evr_resolution reference) of
        None \<Rightarrow> Inr ()
      | Some snapshot \<Rightarrow>
          rbind (ok_or (gm_invalid ''Procedure v2 evidence source trace is absent'')
                   (trace_attempt trace (es_source_attempt_id snapshot))) (\<lambda>source.
            if att_validity source \<noteq> Valid
            then Inl (GmEvidenceReferenceStale node (es_source_node snapshot) (es_source_attempt_id snapshot)
                   (map_option att_attempt_id
                     (find (\<lambda>a. att_graph_node_id a = es_source_node snapshot \<and> att_validity a = Valid)
                        (tr_attempts trace))))
            else Inr ()))"

definition check_decision_evidence ::
    "SessionTraceV2 \<Rightarrow> NodeMemorySpecV2 \<Rightarrow> GraphNodeId \<Rightarrow> AttemptWorkflowMemoryV2 \<Rightarrow>
     GraphMutationErrorV2 + unit" where
  "check_decision_evidence trace spec node memory =
     (let unresolved = map (\<lambda>(declaration, reference). ev_source_node declaration)
            (filter (\<lambda>(declaration, reference). ev_required declaration \<and> is_unresolved (evr_resolution reference))
              (zip (nm_evidence spec) (am_evidence memory))) in
      if unresolved \<noteq> [] then Inl (GmEvidenceReferenceUnresolved node unresolved)
      else for_each (check_reference_fresh trace node) (am_evidence memory))"

text \<open>The values the guard predicates read: one lookup per predicate, later insertions win.\<close>

definition guard_values ::
    "externals \<Rightarrow> WorkflowMemoryStateV2 \<Rightarrow> SessionTraceV2 \<Rightarrow> AttemptId \<Rightarrow> EvidencePredicateV2 list \<Rightarrow>
     ProcedureStateErrorV2 + (GraphNodeId \<times> ItemId \<rightharpoonup> RecordedItemValueV2)" where
  "guard_values ext wm trace aid predicates =
     rbind (collect_ok (\<lambda>p.
         rbind (selected_evidence_item ext wm trace aid (ep_source_node p) (ep_item p)) (\<lambda>r.
           Inr (case r of Inl _ \<Rightarrow> None
                | Inr selected \<Rightarrow> Some ((ep_source_node p, ep_item p), se_value selected)))) predicates) (\<lambda>found.
       Inr (btree_map (List.map_filter id found)))"

definition check_decision_guard ::
    "externals \<Rightarrow> WorkflowMemoryStateV2 \<Rightarrow> SessionTraceV2 \<Rightarrow> AttemptId \<Rightarrow> NodeMemorySpecV2 \<Rightarrow> GraphNodeId \<Rightarrow> OptionId \<Rightarrow>
     GraphMutationErrorV2 + unit" where
  "check_decision_guard ext wm trace aid spec node selected_option =
     (case nm_option_guards spec selected_option of
        None \<Rightarrow> Inr ()
      | Some guard \<Rightarrow>
          rbind (state_err (guard_values ext wm trace aid (guard_predicates guard))) (\<lambda>values.
            let status = OptionGuardV2_evaluate guard (\<lambda>source item. values (source, item)) in
            if cs_state status \<noteq> Met
            then Inl (GmOptionGuardUnsatisfied node selected_option (cs_state status)
                   (map (\<lambda>(p, s). evidence_predicate_status_value_v2 p s)
                     (zip (guard_predicates guard) (cs_predicates status))))
            else Inr ()))"

section \<open>The decision\<close>

text \<open>A mutating trace method run on a copy.\<close>

definition mutated :: "SessionTraceV2 outcome \<Rightarrow> GraphMutationErrorV2 + SessionTraceV2" where
  "mutated r = (case fst r of Inl e \<Rightarrow> Inl (GmDomain e) | Inr _ \<Rightarrow> Inr (snd r))"

record DecisionMemoryTransitionV2 =
  dt_trace :: SessionTraceV2
  dt_memory :: WorkflowMemoryStateV2
  dt_decision :: DecisionRecordV2
  dt_declared_rework :: "ReworkRecordV2 option"

definition route_trace ::
    "SessionTraceV2 \<Rightarrow> AttemptId \<Rightarrow> TransitionEffectV2 \<Rightarrow> GraphNodeId \<Rightarrow> AttemptId \<Rightarrow> GoalRevisionNumberV2 option \<Rightarrow>
     GraphMutationErrorV2 + SessionTraceV2" where
  "route_trace trace expected effect target fresh_id goal =
     mutated (case effect of
        EffectAdvance \<Rightarrow> SessionTraceV2_advance trace expected AdvanceCompleted target fresh_id goal
      | EffectRework \<Rightarrow> SessionTraceV2_rework_to trace expected target fresh_id goal)"

definition decision_record_of ::
    "ProcedureSnapshotV2 \<Rightarrow> SessionTraceV2 \<Rightarrow> SessionTraceV2 \<Rightarrow> SessionAttemptV2 \<Rightarrow> NodeMemorySpecV2 \<Rightarrow> OptionId \<Rightarrow>
     TransitionEffectV2 \<Rightarrow> GraphNodeId \<Rightarrow> ReasonV2 \<Rightarrow> ResolvedEvidenceSetV2 \<Rightarrow> ActorAttributionV2 option \<Rightarrow> UnixMillis \<Rightarrow>
     DecisionRecordV2" where
  "decision_record_of snap previous_trace trace active spec selected_option effect target reason evidence actor now =
     \<lparr>dr_trace = att_trace active, dr_session_id = tr_session_id previous_trace,
      dr_session_revision = tr_revision trace, dr_procedure_snapshot_id = snap_snapshot_id snap,
      dr_procedure_digest = rt_digest (snap_runtime snap), dr_graph_node_id = att_graph_node_id active,
      dr_node_definition_id = nm_node_definition_id spec, dr_attempt_id = att_attempt_id active,
      dr_attempt_number = att_number active, dr_goal_revision = att_goal_revision active,
      dr_selected_option = selected_option, dr_route_effect = effect, dr_route_target = target,
      dr_reason = reason, dr_evidence = evidence, dr_actor = actor, dr_recorded_at = now\<rparr>"

definition declared_rework_of ::
    "TransitionEffectV2 \<Rightarrow> SessionAttemptV2 \<Rightarrow> SessionAttemptV2 \<Rightarrow> GraphNodeId \<Rightarrow> ReasonV2 \<Rightarrow> ActorAttributionV2 option \<Rightarrow>
     UnixMillis \<Rightarrow> GraphMutationErrorV2 + ReworkRecordV2 option" where
  "declared_rework_of effect active fresh target reason actor now =
     (case effect of
        EffectAdvance \<Rightarrow> Inr None
      | EffectRework \<Rightarrow>
          rbind (domain_err (ReworkRecordV2_new
            \<lparr>rr_trace = att_trace fresh, rr_kind = ReworkDeclared, rr_from_node = att_graph_node_id active,
             rr_to_node = target, rr_target_attempt_id = att_attempt_id fresh, rr_reason = reason,
             rr_reactivated = False, rr_actor = actor, rr_recorded_at = now\<rparr>)) (\<lambda>r. Inr (Some r)))"

definition decide_active_route_v2 ::
    "externals \<Rightarrow> WorkflowMemoryStateV2 \<Rightarrow> ProcedureSnapshotV2 \<Rightarrow> SessionTraceV2 \<Rightarrow> AttemptId \<Rightarrow> OptionId \<Rightarrow> AttemptId \<Rightarrow>
     GoalRevisionNumberV2 option \<Rightarrow> ReasonV2 option \<Rightarrow> ActorAttributionV2 option \<Rightarrow> GoalOutcome option \<Rightarrow> UnixMillis \<Rightarrow>
     GraphMutationErrorV2 + DecisionMemoryTransitionV2" where
  "decide_active_route_v2 ext wm snap previous_trace expected_attempt_id selected_option fresh_attempt_id
       goal_revision reason actor determined_goal_outcome now =
     rbind (ok_or GmSessionNotRunning (active_attempt previous_trace)) (\<lambda>active.
     let node = att_graph_node_id active in
     if att_attempt_id active \<noteq> expected_attempt_id
     then Inl (GmAttemptNotCurrent expected_attempt_id (Some (att_attempt_id active))) else
     rbind (state_err (ProcedureSnapshotV2_memory_model snap)) (\<lambda>model.
     rbind (state_err (SnapshotMemoryModelV2_node model node)) (\<lambda>spec.
     rbind (check_decision_choice spec node selected_option determined_goal_outcome) (\<lambda>(route_target, route_effect).
     rbind (check_decision_reason spec node reason) (\<lambda>reason'.
     rbind (ok_or (gm_invalid ''active Procedure v2 workflow memory is absent'')
              (attempt_memory wm expected_attempt_id)) (\<lambda>active_memory.
     rbind (check_items_and_blockers spec active_memory) (\<lambda>_.
     rbind (check_decision_evidence previous_trace spec node active_memory) (\<lambda>_.
     rbind (check_decision_guard ext wm previous_trace expected_attempt_id spec node selected_option) (\<lambda>_.
     rbind (domain_err (ResolvedEvidenceSetV2_new (map evr_resolution (am_evidence active_memory)))) (\<lambda>evidence.
     rbind (route_trace previous_trace expected_attempt_id route_effect route_target fresh_attempt_id goal_revision) (\<lambda>trace.
     rbind (domain_err (DecisionRecordV2_new (decision_record_of snap previous_trace trace active spec selected_option
              route_effect route_target reason' evidence actor now))) (\<lambda>decision.
     rbind (ok_or (gm_invalid ''fresh Procedure v2 decision target is absent'') (active_attempt trace)) (\<lambda>fresh.
     rbind (state_err (SnapshotMemoryModelV2_node model (att_graph_node_id fresh))) (\<lambda>target_spec.
     rbind (fresh_attempt_memory ext target_spec trace wm (att_attempt_id fresh) now) (\<lambda>fresh_memory.
     rbind (declared_rework_of route_effect active fresh route_target reason' actor now) (\<lambda>declared_rework.
     rbind (state_err (WorkflowMemoryStateV2_new (wm_attempts wm @ [fresh_memory]) (wm_decisions wm @ [decision])
              (wm_reworks wm @ (case declared_rework of None \<Rightarrow> [] | Some r \<Rightarrow> [r])))) (\<lambda>memory.
       Inr \<lparr>dt_trace = trace, dt_memory = memory, dt_decision = decision,
            dt_declared_rework = declared_rework\<rparr>)))))))))))))))))"

section \<open>Manual and goal rework\<close>

record ManualReworkMemoryTransitionV2 =
  mr_trace :: SessionTraceV2
  mr_memory :: WorkflowMemoryStateV2
  mr_record :: ReworkRecordV2

definition manual_rework_v2 ::
    "externals \<Rightarrow> WorkflowMemoryStateV2 \<Rightarrow> ProcedureSnapshotV2 \<Rightarrow> SessionTraceV2 \<Rightarrow> AttemptId option \<Rightarrow> GraphNodeId \<Rightarrow>
     AttemptId \<Rightarrow> GoalRevisionNumberV2 option \<Rightarrow> ReasonV2 \<Rightarrow> ActorAttributionV2 option \<Rightarrow> UnixMillis \<Rightarrow>
     GraphMutationErrorV2 + ManualReworkMemoryTransitionV2" where
  "manual_rework_v2 ext wm snap previous_trace expected_attempt_id target fresh_attempt_id goal_revision reason actor now =
     rbind (state_err (ProcedureSnapshotV2_memory_model snap)) (\<lambda>model.
     if target \<notin> set (mm_manual_rework_targets model) then Inl (GmManualReworkTargetNotAllowed target)
     else if current_sources previous_trace target = [] then Inl (GmManualReworkTargetNotOnTrace target)
     else rbind (ok_or (gm_invalid ''Procedure v2 manual rework source is absent'')
            (case active_attempt previous_trace of Some a \<Rightarrow> Some a | None \<Rightarrow> last_opt (tr_attempts previous_trace))) (\<lambda>source.
     rbind (mutated (SessionTraceV2_manual_rework previous_trace expected_attempt_id target fresh_attempt_id goal_revision)) (\<lambda>trace.
     rbind (ok_or (gm_invalid ''fresh Procedure v2 manual rework target is absent'') (active_attempt trace)) (\<lambda>fresh.
     rbind (state_err (SnapshotMemoryModelV2_node model (att_graph_node_id fresh))) (\<lambda>spec.
     rbind (fresh_attempt_memory ext spec trace wm (att_attempt_id fresh) now) (\<lambda>fresh_memory.
     rbind (domain_err (ReworkRecordV2_new
         \<lparr>rr_trace = att_trace fresh, rr_kind = ReworkManual, rr_from_node = att_graph_node_id source,
          rr_to_node = target, rr_target_attempt_id = att_attempt_id fresh, rr_reason = reason,
          rr_reactivated = (tr_lifecycle previous_trace = SessionCompleted), rr_actor = actor,
          rr_recorded_at = now\<rparr>)) (\<lambda>record.
     rbind (state_err (WorkflowMemoryStateV2_new (wm_attempts wm @ [fresh_memory]) (wm_decisions wm)
              (wm_reworks wm @ [record]))) (\<lambda>memory.
       Inr \<lparr>mr_trace = trace, mr_memory = memory, mr_record = record\<rparr>))))))))"

definition goal_rework_v2 ::
    "externals \<Rightarrow> WorkflowMemoryStateV2 \<Rightarrow> ProcedureSnapshotV2 \<Rightarrow> SessionTraceV2 \<Rightarrow> AttemptId option \<Rightarrow> GraphNodeId \<Rightarrow>
     AttemptId \<Rightarrow> GoalRevisionNumberV2 \<Rightarrow> UnixMillis \<Rightarrow>
     GraphMutationErrorV2 + SessionTraceV2 \<times> WorkflowMemoryStateV2" where
  "goal_rework_v2 ext wm snap previous_trace expected_attempt_id target fresh_attempt_id goal_revision now =
     rbind (mutated (SessionTraceV2_manual_rework previous_trace expected_attempt_id target fresh_attempt_id
              (Some goal_revision))) (\<lambda>trace.
     rbind (ok_or (gm_invalid ''fresh Procedure v2 goal rework target is absent'') (active_attempt trace)) (\<lambda>fresh.
     rbind (state_err (snapshot_node snap (att_graph_node_id fresh))) (\<lambda>spec.
     rbind (fresh_attempt_memory ext spec trace wm (att_attempt_id fresh) now) (\<lambda>fresh_memory.
     rbind (state_err (WorkflowMemoryStateV2_new (wm_attempts wm @ [fresh_memory]) (wm_decisions wm) (wm_reworks wm))) (\<lambda>memory.
       Inr (trace, memory))))))"

section \<open>The memory of an existing and of a new trace\<close>

record AttemptMetadataV2 =
  md_attempt_id :: AttemptId
  md_started_at :: UnixMillis
  md_ended_at :: "UnixMillis option"
  md_terminal_reason :: "str option"

definition MAX_TERMINAL_REASON_CHARACTERS_V2 :: nat where
  "MAX_TERMINAL_REASON_CHARACTERS_V2 = 2000"

definition AttemptMetadataV2_new ::
    "AttemptId \<Rightarrow> UnixMillis \<Rightarrow> UnixMillis option \<Rightarrow> str option \<Rightarrow> ProcedureStateErrorV2 + AttemptMetadataV2" where
  "AttemptMetadataV2_new aid started_at ended_at terminal_reason =
     (if is_some_and terminal_reason (\<lambda>reason. trim reason = [] \<or> length reason > MAX_TERMINAL_REASON_CHARACTERS_V2)
      then Inl (state_invalid ''Procedure v2 terminal reason is invalid'')
      else Inr \<lparr>md_attempt_id = aid, md_started_at = started_at, md_ended_at = ended_at,
                md_terminal_reason = terminal_reason\<rparr>)"

definition empty_for_trace ::
    "ProcedureSnapshotV2 \<Rightarrow> SessionTraceV2 \<Rightarrow> AttemptMetadataV2 list \<Rightarrow> ProcedureStateErrorV2 + WorkflowMemoryStateV2" where
  "empty_for_trace snap trace metadata =
     rbind (ProcedureSnapshotV2_memory_model snap) (\<lambda>model.
     rbind (collect_ok (\<lambda>(attempt, md).
         rbind (SnapshotMemoryModelV2_node model (att_graph_node_id attempt)) (\<lambda>node.
         if nm_evidence node \<noteq> []
         then Inl (state_invalid ''Procedure v2 evidence resolution is required for an activated attempt'')
         else rbind (collect_ok (fresh_slot (att_attempt_id attempt) (md_started_at md)) (nm_items node)) (\<lambda>slots.
           AttemptWorkflowMemoryV2_new (att_attempt_id attempt) slots [] []))) (zip (tr_attempts trace) metadata)) (\<lambda>attempts.
       WorkflowMemoryStateV2_new attempts [] []))"

definition initial_reference :: "nat \<times> EvidenceSpecV2 \<Rightarrow> ProcedureStateErrorV2 + EvidenceResolutionStateV2" where
  "initial_reference = (\<lambda>(ordinal, reference).
     if ev_required reference
     then Inl (state_invalid ''required Procedure v2 evidence is unresolved at initial activation'')
     else if ordinal < 2 ^ 32
     then EvidenceResolutionStateV2_new (of_nat ordinal) False (ev_selected_item_ids reference)
            (Unresolved (ev_source_node reference))
     else Inl (state_invalid ''Procedure v2 evidence reference ordinal is out of bounds''))"

definition is_initial_trace :: "SessionTraceV2 \<Rightarrow> AttemptMetadataV2 list \<Rightarrow> bool" where
  "is_initial_trace trace metadata \<longleftrightarrow>
     tr_lifecycle trace = SessionRunning \<and> tr_revision trace = Revision 1 \<and>
     (case (tr_attempts trace, metadata) of
        ([attempt], [md]) \<Rightarrow>
          att_lifecycle attempt = AttemptActive \<and> att_validity attempt = Valid \<and>
          att_number attempt = AttemptNumberV2_FIRST \<and> att_trace attempt = TraceSequenceV2_FIRST \<and>
          md_attempt_id md = att_attempt_id attempt
      | _ \<Rightarrow> False)"

definition initial_for_trace ::
    "ProcedureSnapshotV2 \<Rightarrow> SessionTraceV2 \<Rightarrow> AttemptMetadataV2 list \<Rightarrow> ProcedureStateErrorV2 + WorkflowMemoryStateV2" where
  "initial_for_trace snap trace metadata =
     (if \<not> is_initial_trace trace metadata
      then Inl (state_invalid ''initial Procedure v2 workflow memory requires one fresh active attempt'')
      else rbind (ProcedureSnapshotV2_memory_model snap) (\<lambda>model.
        rbind (collect_ok (\<lambda>(attempt, md).
            rbind (SnapshotMemoryModelV2_node model (att_graph_node_id attempt)) (\<lambda>node.
            rbind (collect_ok (fresh_slot (att_attempt_id attempt) (md_started_at md)) (nm_items node)) (\<lambda>slots.
            rbind (collect_ok initial_reference (enumerate 0 (nm_evidence node))) (\<lambda>evidence.
              AttemptWorkflowMemoryV2_new (att_attempt_id attempt) slots [] evidence))))
            (zip (tr_attempts trace) metadata)) (\<lambda>attempts.
          WorkflowMemoryStateV2_new attempts [] [])))"

end
