(* ===== verification/Workflow_Validate.thy ===== *)
theory Workflow_Validate
  imports Attempt_Decisions
begin

text \<open>
  Admission of a whole workflow memory (\<open>validate_workflow_memory_v2\<close> and its parts) and of a
  successor of an admitted memory (\<open>validate_workflow_memory_successor_v2\<close>), from
  \<open>workflow_v2.rs\<close>. Maps keyed by identity are built from lists; sets of attempt identities are
  lists.
\<close>

section \<open>Counters and goal transitions\<close>

record GraphNodeCounterV2 =
  cn_graph_node_id :: GraphNodeId
  cn_attempt_count :: u64
  cn_rework_traversal_count :: u64

datatype WorkflowGoalTransitionV2 = GoalNone | GoalInitialBinding AttemptId | GoalRework AttemptId

definition is_terminal_lifecycle :: "AttemptLifecycle \<Rightarrow> bool" where
  "is_terminal_lifecycle l \<longleftrightarrow> l = AttemptCompleted \<or> l = AttemptSkipped"

definition by_id :: "('a \<Rightarrow> 'k) \<Rightarrow> 'a list \<Rightarrow> 'k \<rightharpoonup> 'a" where
  "by_id key xs = btree_map (map (\<lambda>x. (key x, x)) xs)"

section \<open>Evidence of one attempt\<close>

definition validate_reference_source ::
    "externals \<Rightarrow> SessionAttemptV2 \<Rightarrow> UnixMillis \<Rightarrow> (AttemptId \<rightharpoonup> SessionAttemptV2) \<Rightarrow>
     (AttemptId \<rightharpoonup> AttemptWorkflowMemoryV2) \<Rightarrow> EvidenceResolutionStateV2 \<Rightarrow> EvidenceReferenceSnapshotV2 \<Rightarrow>
     ProcedureStateErrorV2 + unit" where
  "validate_reference_source ext consumer started_at attempts_by_id memory_by_id persisted reference =
     rbind (ok_or (state_invalid ''Procedure v2 evidence source attempt is absent'')
              (attempts_by_id (es_source_attempt_id reference))) (\<lambda>source.
     rbind (ok_or (state_invalid ''Procedure v2 evidence source memory is absent'')
              (memory_by_id (es_source_attempt_id reference))) (\<lambda>source_memory.
     rbind (if att_graph_node_id source \<noteq> es_source_node reference
               \<or> att_number source \<noteq> es_source_attempt_number reference
               \<or> att_trace consumer \<le> att_trace source
               \<or> att_lifecycle source = AttemptActive
               \<or> es_resolved_at reference \<noteq> started_at
            then Inl (state_invalid ''Procedure v2 evidence source snapshot is inconsistent'')
            else rbind (AttemptWorkflowMemoryV2_recorded_items_digest ext source_memory) (\<lambda>digest.
              if digest \<noteq> es_items_digest reference
              then Inl (state_invalid ''Procedure v2 evidence source snapshot is inconsistent'')
              else Inr ())) (\<lambda>_.
     rbind (case evr_resolution persisted of
         Resolved _ \<Rightarrow>
           if att_lifecycle source \<noteq> AttemptCompleted
           then Inl (state_invalid ''resolved Procedure v2 evidence source is not completed'') else Inr ()
       | Skipped _ \<Rightarrow>
           if evr_required persisted \<or> att_lifecycle source \<noteq> AttemptSkipped
           then Inl (state_invalid ''skipped Procedure v2 evidence source is inconsistent'')
           else rbind (AttemptWorkflowMemoryV2_recorded_items source_memory) (\<lambda>items.
             if recorded_items items \<noteq> []
             then Inl (state_invalid ''skipped Procedure v2 evidence source is inconsistent'') else Inr ())
       | Unresolved _ \<Rightarrow> Inr ()) (\<lambda>_.
     if att_validity consumer = Valid \<and> att_validity source \<noteq> Valid
     then Inl (state_invalid ''a valid Procedure v2 attempt holds stale evidence'') else Inr ()))))"

definition validate_reference ::
    "externals \<Rightarrow> SessionAttemptV2 list \<Rightarrow> SessionAttemptV2 \<Rightarrow> UnixMillis \<Rightarrow> (AttemptId \<rightharpoonup> AttemptWorkflowMemoryV2) \<Rightarrow>
     nat \<times> EvidenceResolutionStateV2 \<times> EvidenceSpecV2 \<Rightarrow> ProcedureStateErrorV2 + unit" where
  "validate_reference ext attempts consumer started_at memory_by_id = (\<lambda>(index, persisted, declared).
     if evr_ordinal persisted \<noteq> u32_clamped index \<or> evr_required persisted \<noteq> ev_required declared
        \<or> evr_selected_item_ids persisted \<noteq> ev_selected_item_ids declared
        \<or> ResolvedEvidenceReferenceV2_source_node (evr_resolution persisted) \<noteq> ev_source_node declared
     then Inl (state_invalid ''Procedure v2 evidence snapshot declaration metadata changed'')
     else case ResolvedEvidenceReferenceV2_snapshot (evr_resolution persisted) of
       None \<Rightarrow>
         if evr_required persisted then Inl (state_invalid ''required Procedure v2 evidence is unresolved'')
         else if \<exists>source\<in>set attempts. att_graph_node_id source = ev_source_node declared
                 \<and> att_trace source < att_trace consumer \<and> att_validity source = Valid
                 \<and> is_terminal_lifecycle (att_lifecycle source)
         then Inl (state_invalid ''optional Procedure v2 evidence is unresolved despite a valid source'')
         else Inr ()
     | Some reference \<Rightarrow>
         validate_reference_source ext consumer started_at (by_id att_attempt_id attempts) memory_by_id persisted reference)"

definition validate_attempt_evidence_v2 ::
    "externals \<Rightarrow> SessionAttemptV2 \<Rightarrow> AttemptWorkflowMemoryV2 \<Rightarrow> NodeMemorySpecV2 \<Rightarrow> UnixMillis \<Rightarrow>
     SessionAttemptV2 list \<Rightarrow> (AttemptId \<rightharpoonup> AttemptWorkflowMemoryV2) \<Rightarrow> ProcedureStateErrorV2 + unit" where
  "validate_attempt_evidence_v2 ext consumer consumer_memory spec started_at attempts memory_by_id =
     (if length (am_evidence consumer_memory) \<noteq> length (nm_evidence spec)
      then Inl (state_invalid ''Procedure v2 evidence snapshots do not match the immutable placement'')
      else for_each (validate_reference ext attempts consumer started_at memory_by_id)
             (enumerate 0 (zip (am_evidence consumer_memory) (nm_evidence spec))))"

section \<open>One attempt\<close>

definition slot_consistent :: "AttemptMetadataV2 \<Rightarrow> ItemSlotStateV2 \<Rightarrow> bool" where
  "slot_consistent md slot \<longleftrightarrow>
     \<not> (sl_created_at slot \<noteq> md_started_at md \<or> sl_updated_at slot < md_started_at md
        \<or> is_some_and (md_ended_at md) (\<lambda>ended. sl_updated_at slot > ended)
        \<or> (sl_revision slot = Revision_ZERO \<and>
             (sl_created_at slot \<noteq> md_started_at md \<or> sl_updated_at slot \<noteq> md_started_at md))
        \<or> (sl_revision slot = Revision 1 \<and> sl_value slot = None))"

definition validate_slot :: "AttemptMetadataV2 \<Rightarrow> ItemSlotStateV2 \<times> ItemSpecV2 \<Rightarrow> ProcedureStateErrorV2 + unit" where
  "validate_slot md = (\<lambda>(slot, item).
     if \<not> slot_consistent md slot
     then Inl (state_invalid ''Procedure v2 item slot timestamps are inconsistent'')
     else if \<not> value_is_admitted slot item
     then Inl (state_invalid ''Procedure v2 item value violates its immutable declaration'')
     else Inr ())"

abbreviation blocker_order :: "BlockerStateV2 \<Rightarrow> UnixMillis \<times> byte list" where
  "blocker_order b \<equiv> (bl_created_at b, as_bytes (BlockerId_as_str (bl_blocker_id b)))"

fun validate_blockers ::
    "AttemptMetadataV2 \<Rightarrow> BlockerId list \<Rightarrow> (UnixMillis \<times> byte list) option \<Rightarrow> BlockerStateV2 list \<Rightarrow>
     ProcedureStateErrorV2 + BlockerId list" where
  "validate_blockers md seen prior [] = Inr seen"
| "validate_blockers md seen prior (b # bs) =
     (if bl_blocker_id b \<in> set seen \<or> bl_created_at b < md_started_at md
         \<or> is_some_and (md_ended_at md) (\<lambda>ended. bl_created_at b > ended \<or>
              is_some_and (bl_resolved_at b) (\<lambda>resolved. resolved > ended))
      then Inl (state_invalid ''Procedure v2 blocker history is inconsistent'')
      else if is_some_and prior (\<lambda>p. blocker_order b \<le> p)
      then Inl (state_invalid ''Procedure v2 blockers are not canonically ordered'')
      else validate_blockers md (bl_blocker_id b # seen) (Some (blocker_order b)) bs)"

definition validate_attempt_memory ::
    "externals \<Rightarrow> SnapshotMemoryModelV2 \<Rightarrow> SessionAttemptV2 list \<Rightarrow> (AttemptId \<rightharpoonup> AttemptWorkflowMemoryV2) \<Rightarrow>
     BlockerId list \<Rightarrow> SessionAttemptV2 \<Rightarrow> AttemptMetadataV2 \<Rightarrow> AttemptWorkflowMemoryV2 \<Rightarrow>
     ProcedureStateErrorV2 + BlockerId list" where
  "validate_attempt_memory ext model attempts memory_by_id blocker_ids attempt md memory =
     (if att_attempt_id attempt \<noteq> md_attempt_id md \<or> att_attempt_id attempt \<noteq> am_attempt_id memory
      then Inl (state_invalid ''Procedure v2 workflow memory order is inconsistent'')
      else rbind (SnapshotMemoryModelV2_node model (att_graph_node_id attempt)) (\<lambda>spec.
      if length (am_item_slots memory) \<noteq> length (nm_items spec)
         \<or> (\<exists>(slot, item)\<in>set (zip (am_item_slots memory) (nm_items spec)).
              sl_item_id slot \<noteq> ItemSpecV2_id item \<or> sl_item_type slot \<noteq> ItemSpecV2_item_type item
              \<or> sl_attempt_id slot \<noteq> att_attempt_id attempt)
      then Inl (state_invalid ''Procedure v2 item slots do not match the immutable definition'')
      else rbind (for_each (validate_slot md) (zip (am_item_slots memory) (nm_items spec))) (\<lambda>_.
      if att_lifecycle attempt = AttemptCompleted \<and> missing_items spec memory \<noteq> []
      then Inl (state_invalid ''completed Procedure v2 attempt is missing a required item'')
      else if att_lifecycle attempt = AttemptSkipped \<and> (\<exists>slot\<in>set (am_item_slots memory). sl_value slot \<noteq> None)
      then Inl (state_invalid ''skipped Procedure v2 attempts cannot retain recorded item values'')
      else rbind (validate_blockers md blocker_ids None (am_blockers memory)) (\<lambda>seen.
      if att_lifecycle attempt = AttemptCompleted \<and> (\<exists>b\<in>set (am_blockers memory). bl_state b = BlockerOpen)
      then Inl (state_invalid ''completed Procedure v2 attempts cannot retain open blockers'')
      else rbind (validate_attempt_evidence_v2 ext attempt memory spec (md_started_at md) attempts memory_by_id)
        (\<lambda>_. Inr seen)))))"

fun validate_attempts ::
    "externals \<Rightarrow> SnapshotMemoryModelV2 \<Rightarrow> SessionAttemptV2 list \<Rightarrow> (AttemptId \<rightharpoonup> AttemptWorkflowMemoryV2) \<Rightarrow>
     BlockerId list \<Rightarrow> (SessionAttemptV2 \<times> AttemptMetadataV2 \<times> AttemptWorkflowMemoryV2) list \<Rightarrow>
     ProcedureStateErrorV2 + unit" where
  "validate_attempts ext model attempts memory_by_id blocker_ids [] = Inr ()"
| "validate_attempts ext model attempts memory_by_id blocker_ids ((attempt, md, memory) # rest) =
     rbind (validate_attempt_memory ext model attempts memory_by_id blocker_ids attempt md memory)
       (\<lambda>seen. validate_attempts ext model attempts memory_by_id seen rest)"

section \<open>Decision history\<close>

definition decision_consistent ::
    "ProcedureSnapshotV2 \<Rightarrow> SessionTraceV2 \<Rightarrow> NodeMemorySpecV2 \<Rightarrow> SessionAttemptV2 \<Rightarrow> AttemptMetadataV2 \<Rightarrow>
     GraphNodeId \<times> TransitionEffectV2 \<Rightarrow> ResolvedEvidenceSetV2 \<Rightarrow> DecisionRecordV2 \<Rightarrow> bool" where
  "decision_consistent snap trace spec attempt md route evidence record \<longleftrightarrow>
     dr_trace record = att_trace attempt \<and> dr_session_id record = tr_session_id trace \<and>
     dr_session_revision record \<noteq> Revision_ZERO \<and>
     revision_get (dr_session_revision record) \<le> revision_get (tr_revision trace) \<and>
     dr_procedure_snapshot_id record = snap_snapshot_id snap \<and>
     dr_procedure_digest record = rt_digest (snap_runtime snap) \<and>
     dr_graph_node_id record = att_graph_node_id attempt \<and>
     dr_node_definition_id record = nm_node_definition_id spec \<and>
     dr_attempt_number record = att_number attempt \<and> dr_goal_revision record = att_goal_revision attempt \<and>
     dr_route_target record = fst route \<and> dr_route_effect record = snd route \<and>
     dr_evidence record = evidence \<and> md_ended_at md = Some (dr_recorded_at record)"

definition validate_decision ::
    "ProcedureSnapshotV2 \<Rightarrow> SessionTraceV2 \<Rightarrow> WorkflowMemoryStateV2 \<Rightarrow> SnapshotMemoryModelV2 \<Rightarrow>
     SessionAttemptV2 \<times> AttemptMetadataV2 \<Rightarrow> ProcedureStateErrorV2 + unit" where
  "validate_decision snap trace memory model = (\<lambda>(attempt, md).
     rbind (SnapshotMemoryModelV2_node model (att_graph_node_id attempt)) (\<lambda>spec.
     let record = by_id dr_attempt_id (wm_decisions memory) (att_attempt_id attempt);
         requires_record = (nm_node_kind spec = KindDecision \<and> att_lifecycle attempt = AttemptCompleted) in
     if requires_record \<noteq> (record \<noteq> None)
     then Inl (state_invalid ''Procedure v2 decision history is incomplete'')
     else case record of
       None \<Rightarrow> Inr ()
     | Some record \<Rightarrow>
         rbind (ok_or (state_invalid ''Procedure v2 decision selected no declared route'')
                  (nm_routes spec (dr_selected_option record))) (\<lambda>route.
         rbind (map_err (\<lambda>_. state_invalid ''Procedure v2 decision evidence is invalid'')
                  (ResolvedEvidenceSetV2_new (map evr_resolution
                     (am_evidence (the (by_id am_attempt_id (wm_attempts memory) (att_attempt_id attempt))))))) (\<lambda>evidence.
           if \<not> decision_consistent snap trace spec attempt md route evidence record
           then Inl (state_invalid ''Procedure v2 decision record is inconsistent'') else Inr ()))))"

definition validate_decision_history_v2 ::
    "ProcedureSnapshotV2 \<Rightarrow> SessionTraceV2 \<Rightarrow> AttemptMetadataV2 list \<Rightarrow> WorkflowMemoryStateV2 \<Rightarrow> SnapshotMemoryModelV2 \<Rightarrow>
     ProcedureStateErrorV2 + unit" where
  "validate_decision_history_v2 snap trace metadata memory model =
     for_each (validate_decision snap trace memory model) (zip (tr_attempts trace) metadata)"

section \<open>Rework history\<close>

definition validate_goal_target ::
    "SessionTraceV2 \<Rightarrow> WorkflowMemoryStateV2 \<Rightarrow> AttemptId \<Rightarrow> ProcedureStateErrorV2 + unit" where
  "validate_goal_target trace memory target_id =
     rbind (ok_or (state_invalid ''Procedure v2 goal rework target is absent'') (trace_attempt trace target_id)) (\<lambda>target.
       if att_number target = AttemptNumberV2_FIRST \<or> target_id \<in> set (map rr_target_attempt_id (wm_reworks memory))
       then Inl (state_invalid ''Procedure v2 goal rework target cause is inconsistent'') else Inr ())"

definition advances_to ::
    "WorkflowMemoryStateV2 \<Rightarrow> NodeMemorySpecV2 \<Rightarrow> SessionAttemptV2 \<Rightarrow> GraphNodeId \<Rightarrow> bool" where
  "advances_to memory spec source target \<longleftrightarrow>
     (case nm_node_kind spec of
        KindAction \<Rightarrow> nm_advance_target spec = Some target
      | KindDecision \<Rightarrow>
          is_some_and (by_id dr_attempt_id (wm_decisions memory) (att_attempt_id source)) (\<lambda>d.
            dr_route_effect d = EffectAdvance \<and> dr_route_target d = target))"

definition validate_attempt_cause ::
    "SessionTraceV2 \<Rightarrow> WorkflowMemoryStateV2 \<Rightarrow> SnapshotMemoryModelV2 \<Rightarrow> AttemptId list \<Rightarrow> AttemptId list \<Rightarrow>
     SessionAttemptV2 \<Rightarrow> ProcedureStateErrorV2 + unit" where
  "validate_attempt_cause trace memory model goal_targets reactivated_targets attempt =
     (if att_trace attempt = TraceSequenceV2_FIRST then Inr ()
      else rbind (ok_or (state_invalid ''Procedure v2 repeated attempt has no predecessor'')
             (by_id att_trace (tr_attempts trace) (TraceSequenceV2 (trace_get (att_trace attempt) - 1)))) (\<lambda>predecessor.
      let recorded_rework = (att_attempt_id attempt \<in> set (map rr_target_attempt_id (wm_reworks memory)));
          goal_rework = (att_attempt_id attempt \<in> set goal_targets);
          retry = (\<not> recorded_rework \<and> \<not> goal_rework \<and> att_graph_node_id predecessor = att_graph_node_id attempt
                   \<and> att_lifecycle predecessor = AttemptAbandoned);
          reactivated = (att_attempt_id attempt \<in> set reactivated_targets);
          terminal_source = (is_some_and (mm_nodes model (att_graph_node_id predecessor)) nm_terminal
                             \<and> is_terminal_lifecycle (att_lifecycle predecessor)) in
      if recorded_rework \<and> goal_rework
      then Inl (state_invalid ''Procedure v2 appended attempt has conflicting rework causes'')
      else if goal_rework \<and> (reactivated \<noteq> terminal_source
                \<or> (\<not> reactivated \<and> att_lifecycle predecessor \<noteq> AttemptAbandoned))
      then Inl (state_invalid ''Procedure v2 goal rework source is inconsistent'')
      else rbind (SnapshotMemoryModelV2_node model (att_graph_node_id predecessor)) (\<lambda>spec.
        if \<not> retry \<and> \<not> (\<not> recorded_rework \<and> \<not> goal_rework \<and> \<not> retry
                        \<and> is_terminal_lifecycle (att_lifecycle predecessor)
                        \<and> advances_to memory spec predecessor (att_graph_node_id attempt))
           \<and> \<not> recorded_rework \<and> \<not> goal_rework
        then Inl (state_invalid ''Procedure v2 rework history is incomplete'') else Inr ())))"

definition declared_rework_consistent :: "SessionAttemptV2 \<Rightarrow> DecisionRecordV2 \<Rightarrow> ReworkRecordV2 \<Rightarrow> bool" where
  "declared_rework_consistent source decision record \<longleftrightarrow>
     \<not> rr_reactivated record \<and> att_lifecycle source = AttemptCompleted \<and>
     dr_route_effect decision = EffectRework \<and> dr_route_target decision = rr_to_node record \<and>
     dr_reason decision = rr_reason record \<and> dr_actor decision = rr_actor record \<and>
     dr_recorded_at decision = rr_recorded_at record"

definition validate_rework_kind ::
    "WorkflowMemoryStateV2 \<Rightarrow> SnapshotMemoryModelV2 \<Rightarrow> AttemptMetadataV2 list \<Rightarrow> SessionAttemptV2 \<Rightarrow> ReworkRecordV2 \<Rightarrow>
     ProcedureStateErrorV2 + unit" where
  "validate_rework_kind memory model metadata source record =
     (case rr_kind record of
        ReworkDeclared \<Rightarrow>
          rbind (ok_or (state_invalid ''declared Procedure v2 rework has no decision'')
                   (by_id dr_attempt_id (wm_decisions memory) (att_attempt_id source))) (\<lambda>decision.
            if \<not> declared_rework_consistent source decision record
            then Inl (state_invalid ''declared Procedure v2 rework record is inconsistent'') else Inr ())
      | ReworkManual \<Rightarrow>
          if rr_to_node record \<notin> set (mm_manual_rework_targets model)
          then Inl (state_invalid ''manual Procedure v2 rework target is not declared'')
          else let source_metadata = the (by_id md_attempt_id metadata (att_attempt_id source)) in
            if \<not> (if rr_reactivated record then is_terminal_lifecycle (att_lifecycle source)
                  else att_lifecycle source = AttemptAbandoned
                    \<and> md_ended_at source_metadata = Some (rr_recorded_at record)
                    \<and> md_terminal_reason source_metadata = Some (reason_as_str (rr_reason record)))
            then Inl (state_invalid ''manual Procedure v2 rework source is inconsistent'') else Inr ())"

definition validate_rework_record ::
    "SessionTraceV2 \<Rightarrow> AttemptMetadataV2 list \<Rightarrow> WorkflowMemoryStateV2 \<Rightarrow> SnapshotMemoryModelV2 \<Rightarrow> ReworkRecordV2 \<Rightarrow>
     ProcedureStateErrorV2 + unit" where
  "validate_rework_record trace metadata memory model record =
     rbind (ok_or (state_invalid ''Procedure v2 rework target trace is absent'')
              (by_id att_trace (tr_attempts trace) (rr_trace record))) (\<lambda>target.
     if trace_get (rr_trace record) = 0 then Inl (state_invalid ''Procedure v2 rework trace is invalid'') else
     rbind (ok_or (state_invalid ''Procedure v2 rework source trace is absent'')
              (by_id att_trace (tr_attempts trace) (TraceSequenceV2 (trace_get (rr_trace record) - 1)))) (\<lambda>source.
     if att_attempt_id target \<noteq> rr_target_attempt_id record \<or> att_graph_node_id target \<noteq> rr_to_node record
        \<or> att_graph_node_id source \<noteq> rr_from_node record
        \<or> md_started_at (the (by_id md_attempt_id metadata (att_attempt_id target))) \<noteq> rr_recorded_at record
     then Inl (state_invalid ''Procedure v2 rework record identity is inconsistent'')
     else if \<not> (\<exists>a\<in>set (tr_attempts trace). att_trace a < att_trace target \<and> att_graph_node_id a = att_graph_node_id target)
     then Inl (state_invalid ''Procedure v2 rework target has no earlier attempt'')
     else validate_rework_kind memory model metadata source record))"

definition validate_rework_history_v2 ::
    "SessionTraceV2 \<Rightarrow> AttemptMetadataV2 list \<Rightarrow> WorkflowMemoryStateV2 \<Rightarrow> SnapshotMemoryModelV2 \<Rightarrow> AttemptId list \<Rightarrow>
     AttemptId list \<Rightarrow> ProcedureStateErrorV2 + unit" where
  "validate_rework_history_v2 trace metadata memory model goal_targets reactivated_targets =
     (if \<not> set reactivated_targets \<subseteq> set goal_targets
      then Inl (state_invalid ''Procedure v2 goal reactivation cause is inconsistent'')
      else rbind (for_each (validate_goal_target trace memory) goal_targets) (\<lambda>_.
      rbind (for_each (validate_attempt_cause trace memory model goal_targets reactivated_targets) (tr_attempts trace)) (\<lambda>_.
        for_each (validate_rework_record trace metadata memory model) (wm_reworks memory))))"

section \<open>Rework counters\<close>

fun count_nodes :: "(GraphNodeId \<rightharpoonup> u64) \<Rightarrow> GraphNodeId list \<Rightarrow> ProcedureStateErrorV2 + (GraphNodeId \<rightharpoonup> u64)" where
  "count_nodes counts [] = Inr counts"
| "count_nodes counts (n # ns) =
     rbind (ok_or (state_invalid ''Procedure v2 rework counter overflowed'')
              (checked_succ (unwrap_or 0 (counts n)))) (\<lambda>c. count_nodes (counts(n \<mapsto> c)) ns)"

definition validate_rework_counters_v2 ::
    "SessionTraceV2 \<Rightarrow> GraphNodeCounterV2 list \<Rightarrow> WorkflowMemoryStateV2 \<Rightarrow> AttemptId list \<Rightarrow>
     ProcedureStateErrorV2 + unit" where
  "validate_rework_counters_v2 trace counters memory goal_targets =
     rbind (count_nodes Map.empty (map rr_to_node (wm_reworks memory))) (\<lambda>recorded.
     rbind (collect_ok (\<lambda>tid. rbind (ok_or (state_invalid ''Procedure v2 goal rework counter target is absent'')
              (trace_attempt trace tid)) (\<lambda>a. Inr (att_graph_node_id a))) goal_targets) (\<lambda>goal_nodes.
     rbind (count_nodes recorded goal_nodes) (\<lambda>expected.
       if \<exists>c\<in>set counters. cn_rework_traversal_count c \<noteq> unwrap_or 0 (expected (cn_graph_node_id c))
       then Inl (state_invalid ''Procedure v2 rework counter disagrees with transition history'') else Inr ())))"

section \<open>Validity history\<close>

text \<open>
  The replay of the transition history: \<open>prefix\<close> are the attempts already replayed, \<open>expected\<close> is
  \<open>expected_validity\<close>.
\<close>

fun replay_validity ::
    "AttemptId list \<Rightarrow> SessionAttemptV2 list \<Rightarrow> bool list \<Rightarrow> SessionAttemptV2 list \<Rightarrow> ProcedureStateErrorV2 + bool list" where
  "replay_validity targets prefix expected [] = Inr expected"
| "replay_validity targets prefix expected (a # rest) =
     (if \<not> last expected
      then Inl (state_invalid ''Procedure v2 transition validity source is not on the valid trace'')
      else rbind
        (if att_attempt_id a \<in> set targets
         then (case position (\<lambda>(candidate, valid). valid \<and> att_graph_node_id candidate = att_graph_node_id a)
                      (zip prefix expected) of
             None \<Rightarrow> Inl (state_invalid ''Procedure v2 rework validity target is not on the valid trace'')
           | Some i \<Rightarrow> Inr (take i expected @ replicate (length expected - i) False))
         else if att_graph_node_id (last prefix) = att_graph_node_id a \<and> att_lifecycle (last prefix) = AttemptAbandoned
         then Inr (butlast expected @ [False])
         else Inr expected) (\<lambda>expected'.
        replay_validity targets (prefix @ [a]) (expected' @ [True]) rest))"

definition validate_attempt_validity_history_v2 ::
    "SessionTraceV2 \<Rightarrow> WorkflowMemoryStateV2 \<Rightarrow> AttemptId list \<Rightarrow> ProcedureStateErrorV2 + unit" where
  "validate_attempt_validity_history_v2 trace memory goal_targets =
     (case tr_attempts trace of
        [] \<Rightarrow> Inl (state_invalid ''Procedure v2 attempt validity history is empty'')
      | first # rest \<Rightarrow>
          rbind (replay_validity (map rr_target_attempt_id (wm_reworks memory) @ goal_targets) [first] [True] rest)
            (\<lambda>replayed.
          rbind (if tr_lifecycle trace = SessionCancelled
                 then if \<not> last replayed
                      then Inl (state_invalid ''Procedure v2 cancellation validity source is not on the valid trace'')
                      else Inr (butlast replayed @ [False])
                 else Inr replayed) (\<lambda>expected.
            if \<exists>(a, e)\<in>set (zip (tr_attempts trace) expected). is_valid (att_validity a) \<noteq> e
            then Inl (state_invalid ''Procedure v2 attempt validity is inconsistent with transition history'')
            else Inr ())))"

section \<open>The whole memory\<close>

definition validate_workflow_memory_v2 ::
    "externals \<Rightarrow> ProcedureSnapshotV2 \<Rightarrow> SessionTraceV2 \<Rightarrow> GraphNodeCounterV2 list \<Rightarrow> AttemptMetadataV2 list \<Rightarrow>
     WorkflowMemoryStateV2 \<Rightarrow> AttemptId list \<Rightarrow> AttemptId list \<Rightarrow> ProcedureStateErrorV2 + unit" where
  "validate_workflow_memory_v2 ext snap trace counters metadata memory goal_targets reactivated_targets =
     (if length (wm_attempts memory) \<noteq> length (tr_attempts trace) \<or> length metadata \<noteq> length (tr_attempts trace)
      then Inl (state_invalid ''Procedure v2 workflow memory is incomplete'')
      else if tr_lifecycle trace = SessionPrepared
      then if wm_attempts memory \<noteq> [] \<or> wm_decisions memory \<noteq> [] \<or> wm_reworks memory \<noteq> []
              \<or> (\<exists>c\<in>set counters. cn_attempt_count c \<noteq> 0 \<or> cn_rework_traversal_count c \<noteq> 0)
           then Inl (state_invalid ''prepared Procedure v2 workflow state is not empty'') else Inr ()
      else rbind (ProcedureSnapshotV2_memory_model snap) (\<lambda>model.
        rbind (validate_attempts ext model (tr_attempts trace) (by_id am_attempt_id (wm_attempts memory)) []
                 (zip (tr_attempts trace) (zip metadata (wm_attempts memory)))) (\<lambda>_.
        rbind (validate_decision_history_v2 snap trace metadata memory model) (\<lambda>_.
        rbind (validate_rework_history_v2 trace metadata memory model goal_targets reactivated_targets) (\<lambda>_.
        rbind (validate_rework_counters_v2 trace counters memory goal_targets) (\<lambda>_.
          validate_attempt_validity_history_v2 trace memory goal_targets))))))"

section \<open>Successors\<close>

definition history_appended :: "WorkflowMemoryStateV2 \<Rightarrow> WorkflowMemoryStateV2 \<Rightarrow> bool" where
  "history_appended previous successor \<longleftrightarrow>
     length (wm_attempts previous) \<le> length (wm_attempts successor) \<and>
     length (wm_attempts successor) \<le> length (wm_attempts previous) + 1 \<and>
     length (wm_decisions previous) \<le> length (wm_decisions successor) \<and>
     length (wm_decisions successor) \<le> length (wm_decisions previous) + 1 \<and>
     length (wm_reworks previous) \<le> length (wm_reworks successor) \<and>
     length (wm_reworks successor) \<le> length (wm_reworks previous) + 1 \<and>
     take (length (wm_decisions previous)) (wm_decisions successor) = wm_decisions previous \<and>
     take (length (wm_reworks previous)) (wm_reworks successor) = wm_reworks previous"

definition check_appended_decision ::
    "SessionTraceV2 \<Rightarrow> WorkflowMemoryStateV2 \<Rightarrow> SessionTraceV2 \<Rightarrow> WorkflowMemoryStateV2 \<Rightarrow> ProcedureStateErrorV2 + unit" where
  "check_appended_decision previous_trace previous next_tr successor =
     (case nth_opt (wm_decisions successor) (length (wm_decisions previous)) of
        None \<Rightarrow> Inr ()
      | Some decision \<Rightarrow>
          rbind (ok_or (state_invalid ''new Procedure v2 decision has no active source attempt'')
                   (active_attempt previous_trace)) (\<lambda>source.
          rbind (ok_or (state_invalid ''new Procedure v2 decision source attempt is absent'')
                   (trace_attempt next_tr (att_attempt_id source))) (\<lambda>next_source.
            if dr_attempt_id decision \<noteq> att_attempt_id source \<or> dr_session_revision decision \<noteq> tr_revision next_tr
               \<or> att_lifecycle next_source \<noteq> AttemptCompleted
            then Inl (state_invalid ''new Procedure v2 decision is not bound to its transition revision'')
            else Inr ())))"

definition slot_identity_unchanged :: "ItemSlotStateV2 \<Rightarrow> ItemSlotStateV2 \<Rightarrow> bool" where
  "slot_identity_unchanged old new \<longleftrightarrow>
     sl_attempt_id old = sl_attempt_id new \<and> sl_item_id old = sl_item_id new \<and>
     sl_item_type old = sl_item_type new \<and> sl_created_at old = sl_created_at new"

definition next_item_revision :: "ItemSlotStateV2 \<Rightarrow> ProcedureStateErrorV2 + Revision" where
  "next_item_revision old =
     map_err (\<lambda>_. state_invalid ''Procedure v2 item revision overflowed'') (Revision_checked_next (sl_revision old))"

definition check_skipped_slot :: "ItemSlotStateV2 \<times> ItemSlotStateV2 \<Rightarrow> ProcedureStateErrorV2 + unit" where
  "check_skipped_slot = (\<lambda>(old, new).
     rbind (if sl_value old \<noteq> None
            then if sl_value new \<noteq> None then Inr False
                 else rbind (next_item_revision old) (\<lambda>r. Inr (sl_revision new = r \<and> sl_updated_at old \<le> sl_updated_at new))
            else Inr (new = old)) (\<lambda>value_cleared.
       if \<not> slot_identity_unchanged old new \<or> \<not> value_cleared
       then Inl (state_invalid ''Procedure v2 skip item clearing is inconsistent'') else Inr ()))"

definition check_active_slot :: "ItemSlotStateV2 \<times> ItemSlotStateV2 \<Rightarrow> ProcedureStateErrorV2 + bool" where
  "check_active_slot = (\<lambda>(old, new).
     if \<not> slot_identity_unchanged old new then Inl (state_invalid ''Procedure v2 item slot identity changed'')
     else if old = new then Inr False
     else rbind (next_item_revision old) (\<lambda>r.
       if sl_revision new \<noteq> r \<or> sl_updated_at new < sl_updated_at old
       then Inl (state_invalid ''Procedure v2 item slot revision is not monotonic'') else Inr True))"

definition blocker_monotonic :: "BlockerStateV2 \<Rightarrow> BlockerStateV2 \<Rightarrow> bool" where
  "blocker_monotonic old new \<longleftrightarrow>
     bl_blocker_id old = bl_blocker_id new \<and> bl_attempt_id old = bl_attempt_id new \<and>
     bl_reason old = bl_reason new \<and> bl_created_at old = bl_created_at new \<and>
     (bl_state old = BlockerOpen \<or> bl_state new = BlockerResolved) \<and>
     (bl_state old = BlockerResolved \<longrightarrow> bl_resolved_at old = bl_resolved_at new)"

definition check_active_blocker ::
    "BlockerStateV2 list \<Rightarrow> BlockerStateV2 \<Rightarrow> ProcedureStateErrorV2 + bool" where
  "check_active_blocker new_blockers old =
     (case find (\<lambda>new. bl_blocker_id new = bl_blocker_id old) new_blockers of
        None \<Rightarrow> Inl (state_invalid ''Procedure v2 blocker history was removed'')
      | Some new \<Rightarrow>
          if \<not> blocker_monotonic old new
          then Inl (state_invalid ''Procedure v2 blocker history changed non-monotonically'')
          else Inr (old \<noteq> new))"

text \<open>The result is whether the attempt changed while its cursor stayed.\<close>

definition check_attempt_successor ::
    "SessionAttemptV2 \<Rightarrow> SessionAttemptV2 \<Rightarrow> AttemptWorkflowMemoryV2 \<Rightarrow> AttemptWorkflowMemoryV2 \<Rightarrow>
     ProcedureStateErrorV2 + bool" where
  "check_attempt_successor old_attempt new_attempt old_memory new_memory =
     (if att_lifecycle old_attempt = AttemptActive \<and> att_lifecycle new_attempt = AttemptSkipped
      then if am_evidence old_memory \<noteq> am_evidence new_memory \<or> am_blockers old_memory \<noteq> am_blockers new_memory
              \<or> length (am_item_slots old_memory) \<noteq> length (am_item_slots new_memory)
           then Inl (state_invalid ''Procedure v2 skip changed preserved workflow memory'')
           else rbind (for_each check_skipped_slot (zip (am_item_slots old_memory) (am_item_slots new_memory)))
                  (\<lambda>_. Inr False)
      else if att_lifecycle old_attempt \<noteq> AttemptActive \<or> att_lifecycle new_attempt \<noteq> AttemptActive
      then if old_memory \<noteq> new_memory
           then Inl (state_invalid ''Procedure v2 terminal workflow history is immutable'') else Inr False
      else if am_evidence old_memory \<noteq> am_evidence new_memory
              \<or> length (am_item_slots old_memory) \<noteq> length (am_item_slots new_memory)
              \<or> length (am_blockers old_memory) > length (am_blockers new_memory)
      then Inl (state_invalid ''Procedure v2 active workflow-memory successor is invalid'')
      else rbind (collect_ok check_active_slot (zip (am_item_slots old_memory) (am_item_slots new_memory))) (\<lambda>slots_changed.
      rbind (collect_ok (check_active_blocker (am_blockers new_memory)) (am_blockers old_memory)) (\<lambda>blockers_changed.
        if \<exists>new\<in>set (am_blockers new_memory). bl_blocker_id new \<notin> set (map bl_blocker_id (am_blockers old_memory))
              \<and> bl_state new \<noteq> BlockerOpen
        then Inl (state_invalid ''new Procedure v2 blockers must be appended in the open state'')
        else Inr (True \<in> set slots_changed \<or> True \<in> set blockers_changed
                  \<or> length (am_blockers old_memory) \<noteq> length (am_blockers new_memory)))))"

definition begin_successor_ok ::
    "ProcedureSnapshotV2 \<Rightarrow> SessionTraceV2 \<Rightarrow> WorkflowMemoryStateV2 \<Rightarrow> SessionTraceV2 \<Rightarrow> WorkflowMemoryStateV2 \<Rightarrow>
     WorkflowGoalTransitionV2 \<Rightarrow> AttemptWorkflowMemoryV2 \<Rightarrow> SessionAttemptV2 \<Rightarrow> bool" where
  "begin_successor_ok snap previous_trace previous next_tr successor goal_transition fresh fresh_attempt \<longleftrightarrow>
     tr_attempts previous_trace = [] \<and> wm_attempts previous = [] \<and> length (tr_attempts next_tr) = 1 \<and>
     length (wm_attempts successor) = 1 \<and> wm_decisions successor = [] \<and> wm_reworks successor = [] \<and>
     att_graph_node_id fresh_attempt = rt_entry_graph_node_id (snap_runtime snap) \<and>
     (\<forall>slot\<in>set (am_item_slots fresh). sl_revision slot = Revision_ZERO \<and> sl_value slot = None) \<and>
     am_blockers fresh = [] \<and>
     (case goal_transition of
        GoalNone \<Rightarrow> att_goal_revision fresh_attempt = None
      | GoalInitialBinding aid \<Rightarrow>
          att_attempt_id fresh_attempt = aid \<and> att_goal_revision fresh_attempt = Some GoalRevisionNumberV2_FIRST
      | GoalRework _ \<Rightarrow> False)"

definition check_begin ::
    "ProcedureSnapshotV2 \<Rightarrow> SessionTraceV2 \<Rightarrow> WorkflowMemoryStateV2 \<Rightarrow> SessionTraceV2 \<Rightarrow> WorkflowMemoryStateV2 \<Rightarrow>
     WorkflowGoalTransitionV2 \<Rightarrow> ProcedureStateErrorV2 + unit" where
  "check_begin snap previous_trace previous next_tr successor goal_transition =
     rbind (ok_or (state_invalid ''prepared Procedure v2 begin has no workflow memory'') (nth_opt (wm_attempts successor) 0)) (\<lambda>fresh.
     rbind (ok_or (state_invalid ''prepared Procedure v2 begin has no attempt'') (nth_opt (tr_attempts next_tr) 0)) (\<lambda>fresh_attempt.
       if begin_successor_ok snap previous_trace previous next_tr successor goal_transition fresh fresh_attempt then Inr ()
       else Inl (state_invalid ''prepared Procedure v2 begin workflow successor is invalid'')))"

definition check_initial_binding ::
    "SessionTraceV2 \<Rightarrow> WorkflowMemoryStateV2 \<Rightarrow> SessionTraceV2 \<Rightarrow> WorkflowMemoryStateV2 \<Rightarrow> WorkflowGoalTransitionV2 \<Rightarrow> bool \<Rightarrow>
     ProcedureStateErrorV2 + bool" where
  "check_initial_binding previous_trace previous next_tr successor goal_transition cursor_stable_changed =
     (case goal_transition of
        GoalInitialBinding aid \<Rightarrow>
          rbind (ok_or (state_invalid ''Procedure v2 initial goal binding has no active attempt'') (active_attempt previous_trace)) (\<lambda>old.
          rbind (ok_or (state_invalid ''Procedure v2 initial goal binding has no successor active attempt'')
                   (active_attempt next_tr)) (\<lambda>new.
            if att_attempt_id old \<noteq> aid \<or> att_attempt_id new \<noteq> aid \<or> att_goal_revision old \<noteq> None
               \<or> att_goal_revision new \<noteq> Some GoalRevisionNumberV2_FIRST
               \<or> length (tr_attempts previous_trace) \<noteq> length (tr_attempts next_tr) \<or> cursor_stable_changed
               \<or> wm_decisions previous \<noteq> wm_decisions successor \<or> wm_reworks previous \<noteq> wm_reworks successor
            then Inl (state_invalid ''Procedure v2 initial goal binding is not cursor-stable'')
            else Inr True))
      | _ \<Rightarrow> Inr False)"

definition check_fresh_cause ::
    "SessionTraceV2 \<Rightarrow> WorkflowMemoryStateV2 \<Rightarrow> WorkflowMemoryStateV2 \<Rightarrow> WorkflowGoalTransitionV2 \<Rightarrow> NodeMemorySpecV2 \<Rightarrow>
     SessionAttemptV2 \<Rightarrow> SessionAttemptV2 \<Rightarrow> SessionAttemptV2 \<Rightarrow> ProcedureStateErrorV2 + unit" where
  "check_fresh_cause previous_trace previous successor goal_transition source_spec fresh_attempt source next_source =
     (let retry = (att_graph_node_id source = att_graph_node_id fresh_attempt \<and> att_lifecycle next_source = AttemptAbandoned);
          ordinary_advance =
            (case nm_node_kind source_spec of
               KindAction \<Rightarrow> nm_advance_target source_spec = Some (att_graph_node_id fresh_attempt)
             | KindDecision \<Rightarrow>
                 is_some_and (find (\<lambda>d. dr_attempt_id d = att_attempt_id source) (wm_decisions successor)) (\<lambda>d.
                   dr_route_effect d = EffectAdvance \<and> dr_route_target d = att_graph_node_id fresh_attempt));
          appended_rework = nth_opt (wm_reworks successor) (length (wm_reworks previous));
          no_prior_target = (current_sources previous_trace (att_graph_node_id fresh_attempt) = []) in
      rbind (case goal_transition of
          GoalRework target \<Rightarrow>
            if target \<noteq> att_attempt_id fresh_attempt \<or> appended_rework \<noteq> None \<or> no_prior_target
            then Inl (state_invalid ''Procedure v2 goal rework is not bound to its fresh target'') else Inr True
        | GoalNone \<Rightarrow> Inr False
        | GoalInitialBinding _ \<Rightarrow>
            Inl (state_invalid ''Procedure v2 initial goal binding cannot append an attempt'')) (\<lambda>goal_rework.
      case appended_rework of
        Some record \<Rightarrow>
          if no_prior_target \<or> rr_target_attempt_id record \<noteq> att_attempt_id fresh_attempt
             \<or> rr_trace record \<noteq> att_trace fresh_attempt \<or> rr_from_node record \<noteq> att_graph_node_id source
             \<or> rr_to_node record \<noteq> att_graph_node_id fresh_attempt
             \<or> rr_reactivated record \<noteq> (tr_lifecycle previous_trace = SessionCompleted)
          then Inl (state_invalid ''new Procedure v2 rework record is not bound to its transition'') else Inr ()
      | None \<Rightarrow>
          if \<not> retry \<and> \<not> ordinary_advance \<and> \<not> goal_rework
          then Inl (state_invalid ''Procedure v2 rework transition has no record'') else Inr ()))"

definition check_fresh_attempt ::
    "SnapshotMemoryModelV2 \<Rightarrow> SessionTraceV2 \<Rightarrow> WorkflowMemoryStateV2 \<Rightarrow> SessionTraceV2 \<Rightarrow> WorkflowMemoryStateV2 \<Rightarrow>
     WorkflowGoalTransitionV2 \<Rightarrow> ProcedureStateErrorV2 + unit" where
  "check_fresh_attempt model previous_trace previous next_tr successor goal_transition =
     rbind (ok_or (state_invalid ''fresh Procedure v2 workflow memory is absent'') (last_opt (wm_attempts successor))) (\<lambda>fresh.
     if (\<exists>slot\<in>set (am_item_slots fresh). sl_revision slot \<noteq> Revision_ZERO \<or> sl_value slot \<noteq> None)
        \<or> am_blockers fresh \<noteq> []
     then Inl (state_invalid ''fresh Procedure v2 attempts must start with empty mutable memory'') else
     rbind (ok_or (state_invalid ''fresh Procedure v2 attempt is absent'') (last_opt (tr_attempts next_tr))) (\<lambda>fresh_attempt.
     rbind (ok_or (state_invalid ''fresh Procedure v2 attempt has no source'')
       (case active_attempt previous_trace of Some a \<Rightarrow> Some a | None \<Rightarrow> last_opt (tr_attempts previous_trace))) (\<lambda>source.
     rbind (ok_or (state_invalid ''fresh Procedure v2 attempt source is absent'')
              (trace_attempt next_tr (att_attempt_id source))) (\<lambda>next_source.
     rbind (SnapshotMemoryModelV2_node model (att_graph_node_id source)) (\<lambda>source_spec.
       check_fresh_cause previous_trace previous successor goal_transition source_spec fresh_attempt source next_source)))))"

definition validate_workflow_memory_successor_v2 ::
    "ProcedureSnapshotV2 \<Rightarrow> SessionTraceV2 \<Rightarrow> WorkflowMemoryStateV2 \<Rightarrow> SessionTraceV2 \<Rightarrow> WorkflowMemoryStateV2 \<Rightarrow>
     WorkflowGoalTransitionV2 \<Rightarrow> ProcedureStateErrorV2 + unit" where
  "validate_workflow_memory_successor_v2 snap previous_trace previous next_tr successor goal_transition =
     (if \<not> history_appended previous successor
      then Inl (state_invalid ''Procedure v2 workflow history is not append-only'')
      else rbind (ProcedureSnapshotV2_memory_model snap) (\<lambda>model.
      rbind (check_appended_decision previous_trace previous next_tr successor) (\<lambda>_.
      rbind (collect_ok (\<lambda>i. check_attempt_successor (tr_attempts previous_trace ! i) (tr_attempts next_tr ! i)
               (wm_attempts previous ! i) (wm_attempts successor ! i)) [0..<length (wm_attempts previous)]) (\<lambda>changes.
      let cursor_stable_changed = (True \<in> set changes) in
      if tr_lifecycle previous_trace = SessionPrepared \<and> tr_lifecycle next_tr = SessionRunning
      then check_begin snap previous_trace previous next_tr successor goal_transition
      else rbind (check_initial_binding previous_trace previous next_tr successor goal_transition cursor_stable_changed)
        (\<lambda>initial_goal_binding.
      let cursor_stable = is_some_and (active_attempt previous_trace) (\<lambda>old.
            is_some_and (active_attempt next_tr) (\<lambda>new. att_attempt_id new = att_attempt_id old)) in
      if cursor_stable \<and> \<not> cursor_stable_changed \<and> wm_decisions previous = wm_decisions successor
         \<and> wm_reworks previous = wm_reworks successor \<and> \<not> initial_goal_binding
      then Inl (state_invalid ''Procedure v2 cursor-stable replacement changed no workflow memory'')
      else if length (tr_attempts previous_trace) < length (tr_attempts next_tr)
      then check_fresh_attempt model previous_trace previous next_tr successor goal_transition
      else if length (wm_reworks successor) \<noteq> length (wm_reworks previous)
      then Inl (state_invalid ''Procedure v2 rework history requires a fresh target attempt'')
      else (case goal_transition of
          GoalRework _ \<Rightarrow> Inl (state_invalid ''Procedure v2 goal rework requires a fresh target attempt'')
        | _ \<Rightarrow> Inr ()))))))"

end
