(* ===== verification/Procedure_Parse.thy ===== *)
theory Procedure_Parse
  imports Snapshot_Model Graph_Index
begin

text \<open>
  From the decoded source document to the procedure model: the wire types of \<open>procedure_v2_wire.rs\<close>
  and the mapping of \<open>procedure_v2_parse.rs\<close>, which enforces the bounds of every single value and
  nothing that needs a second declaration. Decoding the source text into the wire types is derived
  \<open>serde\<close> code; its defaults and its rejection of duplicate keys are not repeated here.
\<close>

section \<open>Errors (lib.rs)\<close>

text \<open>The reason of an invalid document: a decoder message, or the domain error whose text it is.\<close>

datatype document_reason = ReasonText str | ReasonDomain DomainError

datatype ConfigError =
    CfgInvalidSchema str str                     \<comment> \<open>expected, actual\<close>
  | CfgInvalidIdentifier string str
  | CfgInvalidValue string string
  | CfgInvalidScalar string str string
  | CfgOutOfBounds string nat nat nat            \<comment> \<open>field, min, max, actual\<close>
  | CfgDuplicateValue string str
  | CfgUnknownV2Reference string str
  | CfgV2ShapeMismatch string string
  | CfgSerialization CanonicalJsonErrorV1
  | CfgNonCanonicalNumber
  | CfgInvalidDigest
  | CfgInputTooLarge nat nat
  | CfgInputTooDeep nat nat
  | CfgInputTooComplex nat nat
  | CfgDuplicateKey str
  | CfgUnsupportedYamlFeature string
  | CfgInvalidDocument document_reason
  | CfgCoreAdmission str

definition validate_count :: "string \<Rightarrow> nat \<Rightarrow> nat \<Rightarrow> nat \<Rightarrow> ConfigError + unit" where
  "validate_count field actual lo hi =
     (if lo \<le> actual \<and> actual \<le> hi then Inr () else Inl (CfgOutOfBounds field lo hi actual))"

definition config_validate_text :: "string \<Rightarrow> str \<Rightarrow> nat \<Rightarrow> nat \<Rightarrow> bool \<Rightarrow> ConfigError + unit" where
  "config_validate_text field value lo hi require_non_whitespace =
     rbind (validate_count field (length value) lo hi) (\<lambda>_.
       if require_non_whitespace \<and> trim value = [] then validate_count field 0 lo hi else Inr ())"

text \<open>\<open>bytes.windows(2).any(|window| window == b"--")\<close>.\<close>

fun has_double_hyphen :: "byte list \<Rightarrow> bool" where
  "has_double_hyphen (a # b # bs) \<longleftrightarrow> a = 45 \<and> b = 45 \<or> has_double_hyphen (b # bs)"
| "has_double_hyphen _ \<longleftrightarrow> False"

definition config_validate_identifier :: "string \<Rightarrow> str \<Rightarrow> ConfigError + unit" where
  "config_validate_identifier field value =
     rbind (validate_count field (byte_len value) 1 64) (\<lambda>_.
       let bytes = as_bytes value in
       if bytes \<noteq> [] \<and> is_ascii_lowercase (hd bytes) \<and> last bytes \<noteq> 45
          \<and> (\<forall>b\<in>set bytes. is_ascii_lowercase b \<or> is_ascii_digit b \<or> b = 45) \<and> \<not> has_double_hyphen bytes
       then Inr () else Inl (CfgInvalidIdentifier field value))"

section \<open>Wire types (procedure_v2_wire.rs)\<close>

datatype PredicateScalarWire = WireBoolean bool | WireInteger i64 | WireText str

text \<open>The fields \<open>ItemPredicateWire\<close> and \<open>EvidencePredicateWire\<close> have in common.\<close>

record OperatorWire =
  ow_field :: "str option"
  ow_equals :: "PredicateScalarWire option"
  ow_not_equals :: "PredicateScalarWire option"
  ow_empty :: "bool option"
  ow_non_empty :: "bool option"
  ow_at_least :: "i64 option"
  ow_at_most :: "i64 option"

record ItemPredicateWire = OperatorWire +
  iw_item :: str

record EvidencePredicateWire = OperatorWire +
  ew_node :: str
  ew_item :: str

text \<open>The fields every item variant has in common.\<close>

record ItemCommonWire =
  cw_id :: str
  cw_prompt :: str
  cw_help :: "str option"
  cw_required :: bool
  cw_required_when :: "ItemPredicateWire list option"

datatype ItemWire =
    WConfirm ItemCommonWire
  | WText ItemCommonWire u32 u32 bool                  \<comment> \<open>min_length, max_length, multiline\<close>
  | WChoice ItemCommonWire "str list"
  | WInteger ItemCommonWire "i64 option" "i64 option"
  | WList ItemCommonWire u16 u16 u16 u32 bool          \<comment> \<open>min_items, max_items, max_item_length, max_total_length, unique\<close>
  | WArtifact ItemCommonWire "str list option"
  | WCheckResult ItemCommonWire str str "str list"     \<comment> \<open>operation_id, operation_digest, accepted_outcomes\<close>

record DecisionOptionWire =
  dow_id :: str
  dow_label :: str
  dow_criteria :: "str option"
  dow_guards :: "EvidencePredicateWire list option"

record ReasonPolicyWire =
  rw_required :: bool
  rw_prompt :: "str option"

record AssessmentWire =
  asw_target :: str
  asw_outcomes :: "(str \<times> str) list"

record ActionDefinitionWire =
  aw_title :: str
  aw_intent :: str
  aw_description :: "str option"
  aw_instructions :: "str list option"
  aw_items :: "ItemWire list option"

record DecisionDefinitionWire =
  dw_title :: str
  dw_description :: "str option"
  dw_objective :: str
  dw_prompt :: str
  dw_evidence_guidance :: "str list option"
  dw_items :: "ItemWire list option"
  dw_options :: "DecisionOptionWire list"
  dw_reason :: ReasonPolicyWire
  dw_assessment :: "AssessmentWire option"

datatype NodeDefinitionWire = WActionDefinition ActionDefinitionWire | WDecisionDefinition DecisionDefinitionWire

record DelegationWire =
  lw_binding_ref :: str
  lw_role_ref :: str
  lw_role_snapshot_digest :: str
  lw_max_rounds :: u8
  lw_after_accept :: str

record EvidenceReferenceWire =
  vw_node :: str
  vw_required :: bool
  vw_items :: "str list option"

record SkipPolicyWire =
  sw_allowed :: bool
  sw_reason_required :: bool

record RouteWire =
  tw_to :: str
  tw_effect :: str

record GraphPlacementWire =
  pw_id :: str
  pw_use :: str
  pw_evidence_from :: "EvidenceReferenceWire list option"
  pw_skip :: "SkipPolicyWire option"
  pw_delegation :: "DelegationWire option"
  pw_next :: "str option"
  pw_terminal :: "bool option"
  pw_routes :: "(str \<times> RouteWire) list option"

record GraphWire =
  gw_entry :: str
  gw_nodes :: "GraphPlacementWire list"

record ProcedureV2DocumentWire =
  pdw_schema :: str
  pdw_id :: str
  pdw_version :: str
  pdw_name :: str
  pdw_purpose :: str
  pdw_description :: "str option"
  pdw_goal_tracking :: "bool option"
  pdw_node_definitions :: "(str \<times> NodeDefinitionWire) list"
  pdw_graph :: GraphWire
  pdw_manual_rework :: "str list option"

section \<open>Mapping (procedure_v2_parse.rs)\<close>

definition DOMAIN_SENTINEL_FIELD :: string where
  "DOMAIN_SENTINEL_FIELD = ''procedure v2''"

definition PLACEMENT_FIELD :: string where
  "PLACEMENT_FIELD = ''graph.nodes''"

definition map_domain_error :: "DomainError \<Rightarrow> ConfigError" where
  "map_domain_error e =
     (case e of
        EmptyValue field \<Rightarrow> CfgInvalidValue field ''must not be empty''
      | ValueTooLong field maximum actual \<Rightarrow> CfgOutOfBounds field 1 maximum actual
      | InvalidIdentifier field \<Rightarrow> CfgInvalidValue field ''must be lowercase kebab-case''
      | InvalidState reason \<Rightarrow> CfgInvalidValue DOMAIN_SENTINEL_FIELD reason
      | BoundExceeded field actual maximum _ \<Rightarrow> CfgOutOfBounds field 0 maximum actual
      | other \<Rightarrow> CfgInvalidDocument (ReasonDomain other))"

abbreviation mapped :: "DomainError + 'a \<Rightarrow> ConfigError + 'a" where
  "mapped r \<equiv> map_err map_domain_error r"

text \<open>\<open>Option::map(f).transpose()?\<close>.\<close>

definition transposed :: "('a \<Rightarrow> 'e + 'b) \<Rightarrow> 'a option \<Rightarrow> 'e + 'b option" where
  "transposed f x = (case x of None \<Rightarrow> Inr None | Some y \<Rightarrow> rbind (f y) (\<lambda>z. Inr (Some z)))"

lemma transposed_Inr [simp]:
  "transposed f x = Inr y \<longleftrightarrow> (case x of None \<Rightarrow> y = None | Some a \<Rightarrow> \<exists>b. f a = Inr b \<and> y = Some b)"
  by (auto simp: transposed_def split: option.splits)

definition optional_nonempty :: "string \<Rightarrow> 'a list option \<Rightarrow> ConfigError + 'a list" where
  "optional_nonempty field value =
     (case value of
        None \<Rightarrow> Inr []
      | Some entries \<Rightarrow>
          if entries = [] then Inl (CfgInvalidValue field ''must be omitted or contain at least one entry'')
          else Inr entries)"

fun map_predicate_scalar :: "PredicateScalarWire \<Rightarrow> ConfigError + PredicateScalarV2" where
  "map_predicate_scalar (WireBoolean v) = Inr (PsBoolean v)"
| "map_predicate_scalar (WireInteger v) = Inr (PsInteger v)"
| "map_predicate_scalar (WireText v) = mapped (PredicateScalarV2_text v)"

text \<open>
  The part \<open>map_item_predicate\<close> and \<open>map_evidence_predicate\<close> share, with the field names each reports:
  the \<open>field\<close> key, the flags and the predicate as a whole.
\<close>

definition map_field_outcome :: "string \<Rightarrow> str option \<Rightarrow> ConfigError + bool" where
  "map_field_outcome name field =
     (case field of None \<Rightarrow> Inr False
      | Some v \<Rightarrow> if v = lit ''outcome'' then Inr True
                  else Inl (CfgInvalidValue name ''must be outcome when present''))"

definition operator_flag :: "string \<Rightarrow> ItemPredicateOperatorV2 \<Rightarrow> bool option \<Rightarrow> ConfigError + ItemPredicateOperatorV2 list" where
  "operator_flag name op flag =
     (case flag of None \<Rightarrow> Inr []
      | Some v \<Rightarrow> if \<not> v then Inl (CfgInvalidValue name ''must be true when present'') else Inr [op])"

definition map_operator ::
    "string \<Rightarrow> string \<Rightarrow> string \<Rightarrow> 'a OperatorWire_scheme \<Rightarrow> ConfigError + ItemPredicateOperatorV2" where
  "map_operator empty_name non_empty_name name wire =
     rbind (map_or_ok [] (\<lambda>v. rbind (map_predicate_scalar v) (\<lambda>s. Inr [OpEquals s])) (ow_equals wire)) (\<lambda>equals.
     rbind (map_or_ok [] (\<lambda>v. rbind (map_predicate_scalar v) (\<lambda>s. Inr [OpNotEquals s])) (ow_not_equals wire)) (\<lambda>not_equals.
     rbind (operator_flag empty_name OpEmpty (ow_empty wire)) (\<lambda>empty.
     rbind (operator_flag non_empty_name OpNonEmpty (ow_non_empty wire)) (\<lambda>non_empty.
       case equals @ not_equals @ empty @ non_empty
            @ (case ow_at_least wire of Some n \<Rightarrow> [OpAtLeast n] | None \<Rightarrow> [])
            @ (case ow_at_most wire of Some n \<Rightarrow> [OpAtMost n] | None \<Rightarrow> []) of
         [operator] \<Rightarrow> Inr operator
       | _ \<Rightarrow> Inl (CfgInvalidValue name ''each predicate must declare exactly one operator'')))))"

definition map_item_predicate :: "ItemPredicateWire \<Rightarrow> ConfigError + ItemPredicateV2" where
  "map_item_predicate wire =
     rbind (mapped (ItemId_new (iw_item wire))) (\<lambda>item.
     rbind (map_field_outcome ''required_when.field'' (ow_field wire)) (\<lambda>field_outcome.
     rbind (map_operator ''required_when.empty'' ''required_when.non_empty'' ''required_when'' wire) (\<lambda>operator.
       Inr \<lparr>ip_item = item, ip_field_outcome = field_outcome, ip_operator = operator\<rparr>)))"

definition map_evidence_predicate :: "EvidencePredicateWire \<Rightarrow> ConfigError + EvidencePredicateV2" where
  "map_evidence_predicate wire =
     rbind (mapped (GraphNodeId_new (ew_node wire))) (\<lambda>source_node.
     rbind (mapped (ItemId_new (ew_item wire))) (\<lambda>item.
     rbind (map_field_outcome ''node_definitions.options.guards.field'' (ow_field wire)) (\<lambda>field_outcome.
     rbind (map_operator ''node_definitions.options.guards.empty'' ''node_definitions.options.guards.non_empty''
              ''node_definitions.options.guards'' wire) (\<lambda>operator.
       Inr \<lparr>ep_source_node = source_node, ep_item = item, ep_field_outcome = field_outcome,
            ep_operator = operator\<rparr>))))"

definition item_common :: "ItemCommonWire \<Rightarrow> ConfigError + ItemCommonV2" where
  "item_common wire =
     rbind (mapped (ItemId_new (cw_id wire))) (\<lambda>iid.
     rbind (transposed (\<lambda>predicates. rbind (collect_ok map_item_predicate predicates) (\<lambda>ps.
              mapped (ItemConditionV2_new ps))) (cw_required_when wire)) (\<lambda>required_when.
       mapped (rbind (ItemCommonV2_new iid (cw_prompt wire) (cw_help wire) (cw_required wire)) (\<lambda>common.
         with_required_when common required_when))))"

fun map_item :: "ItemWire \<Rightarrow> ConfigError + ItemSpecV2" where
  "map_item (WConfirm c) = rbind (item_common c) (\<lambda>common. Inr (SpecConfirm common))"
| "map_item (WText c min_length max_length multiline) =
     rbind (item_common c) (\<lambda>common.
       mapped (rbind (TextItemSpecV2_new common min_length max_length multiline) (\<lambda>s. Inr (SpecText s))))"
| "map_item (WChoice c choices) =
     rbind (item_common c) (\<lambda>common.
       mapped (rbind (ChoiceItemSpecV2_new common choices) (\<lambda>s. Inr (SpecChoice s))))"
| "map_item (WInteger c minimum maximum) =
     rbind (item_common c) (\<lambda>common.
       mapped (rbind (IntegerItemSpecV2_new common minimum maximum) (\<lambda>s. Inr (SpecInteger s))))"
| "map_item (WList c min_items max_items max_item_length max_total_length unique) =
     rbind (item_common c) (\<lambda>common.
       mapped (rbind (ListItemSpecV2_new common min_items max_items max_item_length max_total_length unique)
         (\<lambda>s. Inr (SpecList s))))"
| "map_item (WArtifact c allowed_media_types) =
     rbind (optional_nonempty ''allowed_media_types'' allowed_media_types) (\<lambda>media_types.
     rbind (item_common c) (\<lambda>common.
       mapped (rbind (ArtifactItemSpecV2_new common media_types) (\<lambda>s. Inr (SpecArtifact s)))))"
| "map_item (WCheckResult c operation_id operation_digest accepted_outcomes) =
     rbind (map_err (\<lambda>_. CfgInvalidIdentifier ''operation_id'' operation_id) (OperationId_new operation_id)) (\<lambda>op_id.
     rbind (map_err (\<lambda>_. CfgInvalidScalar ''operation_digest'' operation_digest ''must be a lowercase SHA-256 digest'')
              (Sha256Digest_new operation_digest)) (\<lambda>op_digest.
     rbind (collect_ok (\<lambda>out. map_err (\<lambda>_. CfgInvalidScalar ''accepted_outcomes'' out
                ''must contain only pass, fail, or inconclusive'') (CheckResultOutcomeV2_from_str out)) accepted_outcomes) (\<lambda>outcomes.
     rbind (item_common c) (\<lambda>common.
       map_err (\<lambda>_. CfgInvalidValue ''accepted_outcomes'' ''must contain one to three unique outcomes'')
         (rbind (CheckResultItemSpecV2_new common op_id op_digest outcomes) (\<lambda>s. Inr (SpecCheckResult s)))))))"

definition map_items :: "ItemWire list \<Rightarrow> ConfigError + ItemSpecV2 list" where
  "map_items items = collect_ok map_item items"

definition map_option_wire :: "DecisionOptionWire \<Rightarrow> ConfigError + DecisionOptionV2" where
  "map_option_wire wire =
     rbind (mapped (OptionId_new (dow_id wire))) (\<lambda>oid.
     rbind (transposed (\<lambda>predicates. rbind (collect_ok map_evidence_predicate predicates) (\<lambda>ps.
              mapped (OptionGuardV2_new ps))) (dow_guards wire)) (\<lambda>guards.
     rbind (mapped (DecisionOptionV2_new oid (dow_label wire) (dow_criteria wire))) (\<lambda>opt.
       Inr (with_guards opt guards))))"

definition map_assessment :: "AssessmentWire \<Rightarrow> ConfigError + AssessmentContractV2" where
  "map_assessment wire =
     rbind (mapped (AssessmentTargetV2_from_str (asw_target wire))) (\<lambda>target.
     rbind (collect_ok (\<lambda>(option_id, out).
         rbind (mapped (OptionId_new option_id)) (\<lambda>oid.
         rbind (mapped (GoalOutcome_from_str out)) (\<lambda>outcome.
           Inr \<lparr>om_option_id = oid, om_outcome = outcome\<rparr>))) (asw_outcomes wire)) (\<lambda>outcomes.
       mapped (AssessmentContractV2_with_target target outcomes)))"

definition map_node_definition :: "str \<Rightarrow> NodeDefinitionWire \<Rightarrow> ConfigError + ParsedNodeDefinition" where
  "map_node_definition id_text wire =
     rbind (mapped (NodeDefinitionId_new id_text)) (\<lambda>did.
       case wire of
         WActionDefinition w \<Rightarrow>
           rbind (optional_nonempty ''instructions'' (aw_instructions w)) (\<lambda>instructions.
           rbind (optional_nonempty ''items'' (aw_items w)) (\<lambda>item_wires.
           rbind (map_items item_wires) (\<lambda>items.
           rbind (mapped (ActionDefinitionV2_new did (aw_title w) (aw_intent w) (aw_description w) instructions items)) (\<lambda>d.
             Inr (ParsedAction d)))))
       | WDecisionDefinition w \<Rightarrow>
           rbind (optional_nonempty ''evidence_guidance'' (dw_evidence_guidance w)) (\<lambda>evidence_guidance.
           rbind (optional_nonempty ''items'' (dw_items w)) (\<lambda>item_wires.
           rbind (map_items item_wires) (\<lambda>items.
           rbind (collect_ok map_option_wire (dw_options w)) (\<lambda>options.
           rbind (mapped (ReasonPolicyV2_new (rw_required (dw_reason w)) (rw_prompt (dw_reason w)))) (\<lambda>reason.
           rbind (transposed map_assessment (dw_assessment w)) (\<lambda>assessment.
           rbind (mapped (DecisionDefinitionV2_new
               \<lparr>dd_id = did, dd_title = dw_title w, dd_description = dw_description w, dd_objective = dw_objective w,
                dd_prompt = dw_prompt w, dd_evidence_guidance = evidence_guidance, dd_items = items,
                dd_options = options, dd_reason = reason, dd_assessment = assessment\<rparr>)) (\<lambda>d.
             Inr (ParsedDecision d)))))))))"

definition map_evidence_reference :: "EvidenceReferenceWire \<Rightarrow> ConfigError + EvidenceReferenceV2" where
  "map_evidence_reference wire =
     rbind (mapped (GraphNodeId_new (vw_node wire))) (\<lambda>source_node.
     rbind (transposed (collect_ok (\<lambda>item. mapped (ItemId_new item))) (vw_items wire)) (\<lambda>selected_items.
       mapped (EvidenceReferenceV2_new source_node (vw_required wire) selected_items)))"

definition map_evidence_from :: "EvidenceReferenceWire list option \<Rightarrow> ConfigError + EvidenceFromListV2 option" where
  "map_evidence_from wire =
     transposed (\<lambda>entries. rbind (collect_ok map_evidence_reference entries) (\<lambda>references.
       mapped (EvidenceFromListV2_new references))) wire"

definition map_action_outcome :: "str option \<Rightarrow> bool option \<Rightarrow> ConfigError + ActionOutcomeV2" where
  "map_action_outcome next_text terminal =
     (case (next_text, terminal) of
        (Some target, None) \<Rightarrow> rbind (mapped (GraphNodeId_new target)) (\<lambda>to. Inr (OutcomeNext to))
      | (None, Some flag) \<Rightarrow>
          if flag then Inr OutcomeTerminal
          else Inl (CfgInvalidValue ''graph.nodes.terminal'' ''terminal must be true'')
      | (Some _, Some _) \<Rightarrow> Inl (CfgInvalidValue PLACEMENT_FIELD ''an action placement declares either next or terminal, not both'')
      | (None, None) \<Rightarrow> Inl (CfgInvalidValue PLACEMENT_FIELD ''an action placement must declare next or terminal''))"

definition map_skip :: "SkipPolicyWire \<Rightarrow> ConfigError + SkipPolicyV2" where
  "map_skip wire = mapped (SkipPolicyV2_new (sw_allowed wire) (sw_reason_required wire))"

definition DelegationBindingRefV1_new :: "str \<Rightarrow> DomainError + DelegationBindingRefV1" where
  "DelegationBindingRefV1_new = procedure_identifier_new ''DelegationBindingRefV1'' DelegationBindingRefV1"

definition map_delegation :: "DelegationWire \<Rightarrow> ConfigError + DelegationDeclarationV1" where
  "map_delegation wire =
     rbind (mapped (DelegationBindingRefV1_new (lw_binding_ref wire))) (\<lambda>binding_ref.
     rbind (mapped (DelegationRoleRefV1_new (lw_role_ref wire))) (\<lambda>role_ref.
     rbind (mapped (Sha256Digest_new (lw_role_snapshot_digest wire))) (\<lambda>digest.
     rbind (mapped (DelegationAfterAcceptV1_from_str (lw_after_accept wire))) (\<lambda>after_accept.
       mapped (DelegationDeclarationV1_new binding_ref role_ref digest (lw_max_rounds wire) after_accept)))))"

definition map_route :: "str \<times> RouteWire \<Rightarrow> ConfigError + DecisionRouteEntryV2" where
  "map_route entry =
     rbind (mapped (OptionId_new (fst entry))) (\<lambda>option_id.
     rbind (mapped (GraphNodeId_new (tw_to (snd entry)))) (\<lambda>to.
     rbind (mapped (TransitionEffectV2_from_str (tw_effect (snd entry)))) (\<lambda>effect.
       Inr \<lparr>entry_option_id = option_id, entry_route = \<lparr>route_to = to, route_effect = effect\<rparr>\<rparr>)))"

definition map_placement :: "GraphPlacementWire \<Rightarrow> ConfigError + GraphPlacementV2" where
  "map_placement wire =
     rbind (mapped (GraphNodeId_new (pw_id wire))) (\<lambda>gid.
     rbind (mapped (NodeDefinitionId_new (pw_use wire))) (\<lambda>did.
     rbind (map_evidence_from (pw_evidence_from wire)) (\<lambda>evidence_from.
       case pw_routes wire of
         Some routes \<Rightarrow>
           if pw_skip wire \<noteq> None
           then Inl (CfgInvalidValue PLACEMENT_FIELD ''a decision placement does not declare skip'')
           else if pw_delegation wire \<noteq> None
           then Inl (CfgInvalidValue PLACEMENT_FIELD ''a decision placement does not declare delegation'')
           else if pw_next wire \<noteq> None \<or> pw_terminal wire \<noteq> None
           then Inl (CfgInvalidValue PLACEMENT_FIELD ''a decision placement declares only routes'')
           else rbind (collect_ok map_route routes) (\<lambda>entries.
             rbind (mapped (DecisionRouteMapV2_new entries)) (\<lambda>route_map.
               Inr (PlaceDecision \<lparr>dp_id = gid, dp_definition = did, dp_evidence_from = evidence_from,
                 dp_routes = route_map\<rparr>)))
       | None \<Rightarrow>
           rbind (map_action_outcome (pw_next wire) (pw_terminal wire)) (\<lambda>outcome.
           rbind (transposed map_skip (pw_skip wire)) (\<lambda>skip.
             case pw_delegation wire of
               Some delegation \<Rightarrow>
                 if skip \<noteq> None
                 then Inl (CfgInvalidValue PLACEMENT_FIELD ''a delegated action cannot declare skip'')
                 else rbind (map_delegation delegation) (\<lambda>decl.
                   Inr (PlaceAction (ActionPlacementV2_delegated gid did evidence_from decl outcome)))
             | None \<Rightarrow> Inr (PlaceAction (ActionPlacementV2_new gid did evidence_from skip outcome)))))))"

definition map_manual_rework :: "str list \<Rightarrow> ConfigError + ManualReworkTargetListV2" where
  "map_manual_rework allowed_targets =
     rbind (collect_ok (\<lambda>target. mapped (GraphNodeId_new target)) allowed_targets) (\<lambda>targets.
       mapped (ManualReworkTargetListV2_new targets))"

definition map_graph :: "GraphWire \<Rightarrow> ManualReworkTargetListV2 option \<Rightarrow> ConfigError + ProcedureGraphV2" where
  "map_graph wire manual_rework =
     rbind (mapped (GraphNodeId_new (gw_entry wire))) (\<lambda>entry.
     rbind (collect_ok map_placement (gw_nodes wire)) (\<lambda>placements.
       mapped (ProcedureGraphV2_new entry placements manual_rework)))"

definition MAX_NODE_DEFINITIONS_PER_PROCEDURE_V2 :: nat where
  "MAX_NODE_DEFINITIONS_PER_PROCEDURE_V2 = 1024"

definition map_document :: "ProcedureV2DocumentWire \<Rightarrow> ConfigError + ParsedProcedureV2" where
  "map_document document =
     (if pdw_schema document \<noteq> PROCEDURE_SCHEMA_V2
      then Inl (CfgInvalidSchema PROCEDURE_SCHEMA_V2 (pdw_schema document)) else
      rbind (config_validate_identifier ''procedure.id'' (pdw_id document)) (\<lambda>_.
      rbind (config_validate_text ''procedure.version'' (pdw_version document) 1 64 False) (\<lambda>_.
      rbind (config_validate_text ''procedure.name'' (pdw_name document) 1 120 True) (\<lambda>_.
      rbind (config_validate_text ''procedure.purpose'' (pdw_purpose document) 1 500 True) (\<lambda>_.
      rbind (case pdw_description document of None \<Rightarrow> Inr ()
             | Some d \<Rightarrow> config_validate_text ''procedure.description'' d 0 1000 False) (\<lambda>_.
      rbind (transposed (\<lambda>flag. mapped (GoalTrackingOptIn_from_bool flag)) (pdw_goal_tracking document)) (\<lambda>goal_tracking.
      rbind (collect_ok (\<lambda>(id_text, wire). map_node_definition id_text wire) (pdw_node_definitions document)) (\<lambda>node_definitions.
      rbind (validate_count ''node_definitions'' (length node_definitions) 1 MAX_NODE_DEFINITIONS_PER_PROCEDURE_V2) (\<lambda>_.
      rbind (transposed map_manual_rework (pdw_manual_rework document)) (\<lambda>manual_rework.
      rbind (map_graph (pdw_graph document) manual_rework) (\<lambda>graph.
        Inr \<lparr>pp_id = pdw_id document, pp_version = pdw_version document, pp_name = pdw_name document,
             pp_purpose = pdw_purpose document, pp_description = pdw_description document,
             pp_goal_tracking = goal_tracking, pp_node_definitions = node_definitions, pp_graph = graph\<rparr>)))))))))))"

definition delegated_placements :: "ParsedProcedureV2 \<Rightarrow> str list" where
  "delegated_placements parsed =
     List.map_filter (\<lambda>p. case p of
         PlaceAction a \<Rightarrow> if ap_delegation a \<noteq> None then Some (GraphNodeId_as_str (ap_id a)) else None
       | PlaceDecision _ \<Rightarrow> None) (pg_placements (pp_graph parsed))"

end
