(* ===== verification/Authoring_Document.thy ===== *)
theory Authoring_Document
  imports Snapshot_Model Graph_Index "HOL-Library.AList"
begin

text \<open>
  The authoring document of \<open>procedure_v2_document.rs\<close>: the tree rebuilt from a parsed procedure, in
  schema key order and author order, and its projection to JSON. It is the only source of the canonical
  bytes, the digest and the formatted text of a procedure.
\<close>

section \<open>The tree\<close>

datatype AuthoringValue =
    AuthoringText str
  | AuthoringFlag bool
  | AuthoringInteger i64
  | AuthoringSeq "AuthoringValue list"
  | AuthoringMap "(str \<times> AuthoringValue) list"

text \<open>
  Collecting entries into a \<open>serde_json::Map\<close>, a \<open>BTreeMap\<close>: sorted by key, a later entry replaces an
  earlier one with the same key.
\<close>

definition btree_entries :: "(str \<times> 'v) list \<Rightarrow> (str \<times> 'v) list" where
  "btree_entries entries = sort_key (\<lambda>(k, _). as_bytes k) (AList.clearjunk (rev entries))"

lemma authoring_entry_size [termination_simp]:
  "(k, v) \<in> set kvs \<Longrightarrow> size v < Suc (size_list (size_prod (\<lambda>_. 0) size) kvs)"
  by (induction kvs) auto

fun into_json :: "AuthoringValue \<Rightarrow> Value" where
  "into_json (AuthoringText v) = VString v"
| "into_json (AuthoringFlag v) = VBool v"
| "into_json (AuthoringInteger v) = VInt (sint v)"
| "into_json (AuthoringSeq vs) = VArray (map into_json vs)"
| "into_json (AuthoringMap entries) = VObject (btree_entries (map (\<lambda>(k, v). (k, into_json v)) entries))"

section \<open>Entries of one object\<close>

text \<open>What one call of the builder \<open>Entries\<close> appends; \<open>finish\<close> is \<open>AuthoringMap\<close>.\<close>

type_synonym entries = "(str \<times> AuthoringValue) list"

definition Entries_value :: "string \<Rightarrow> AuthoringValue \<Rightarrow> entries" where
  "Entries_value key v = [(lit key, v)]"

definition Entries_text :: "string \<Rightarrow> str \<Rightarrow> entries" where
  "Entries_text key v = [(lit key, AuthoringText v)]"

definition Entries_flag :: "string \<Rightarrow> bool \<Rightarrow> entries" where
  "Entries_flag key v = [(lit key, AuthoringFlag v)]"

definition Entries_integer :: "string \<Rightarrow> i64 \<Rightarrow> entries" where
  "Entries_integer key v = [(lit key, AuthoringInteger v)]"

definition Entries_optional_text :: "string \<Rightarrow> str option \<Rightarrow> entries" where
  "Entries_optional_text key v = (case v of None \<Rightarrow> [] | Some v \<Rightarrow> Entries_text key v)"

definition Entries_optional_integer :: "string \<Rightarrow> i64 option \<Rightarrow> entries" where
  "Entries_optional_integer key v = (case v of None \<Rightarrow> [] | Some v \<Rightarrow> Entries_integer key v)"

definition Entries_optional_value :: "string \<Rightarrow> AuthoringValue option \<Rightarrow> entries" where
  "Entries_optional_value key v = (case v of None \<Rightarrow> [] | Some v \<Rightarrow> Entries_value key v)"

definition strings :: "str list \<Rightarrow> AuthoringValue" where
  "strings vs = AuthoringSeq (map AuthoringText vs)"

definition Entries_optional_strings :: "string \<Rightarrow> str list \<Rightarrow> entries" where
  "Entries_optional_strings key vs = (if vs = [] then [] else Entries_value key (strings vs))"

section \<open>Items\<close>

fun predicate_scalar_value :: "PredicateScalarV2 \<Rightarrow> AuthoringValue" where
  "predicate_scalar_value (PsBoolean v) = AuthoringFlag v"
| "predicate_scalar_value (PsInteger v) = AuthoringInteger v"
| "predicate_scalar_value (PsText v) = AuthoringText v"

text \<open>The \<open>match predicate.operator()\<close> shared by conditions and guards.\<close>

fun operator_entries :: "ItemPredicateOperatorV2 \<Rightarrow> entries" where
  "operator_entries (OpEquals expected) = Entries_value ''equals'' (predicate_scalar_value expected)"
| "operator_entries (OpNotEquals expected) = Entries_value ''not_equals'' (predicate_scalar_value expected)"
| "operator_entries OpEmpty = Entries_flag ''empty'' True"
| "operator_entries OpNonEmpty = Entries_flag ''non_empty'' True"
| "operator_entries (OpAtLeast expected) = Entries_integer ''at_least'' expected"
| "operator_entries (OpAtMost expected) = Entries_integer ''at_most'' expected"

definition item_predicate_value :: "ItemPredicateV2 \<Rightarrow> AuthoringValue" where
  "item_predicate_value predicate =
     AuthoringMap (Entries_text ''item'' (ItemId_as_str (ip_item predicate))
       @ (if ip_field_outcome predicate then Entries_text ''field'' (lit ''outcome'') else [])
       @ operator_entries (ip_operator predicate))"

definition condition_value :: "ItemConditionV2 \<Rightarrow> AuthoringValue" where
  "condition_value c = AuthoringSeq (map item_predicate_value (condition_predicates c))"

definition guard_predicate_value :: "EvidencePredicateV2 \<Rightarrow> AuthoringValue" where
  "guard_predicate_value predicate =
     AuthoringMap (Entries_value ''evidence'' (AuthoringMap
           (Entries_text ''node'' (GraphNodeId_as_str (ep_source_node predicate))
            @ Entries_text ''item'' (ItemId_as_str (ep_item predicate))))
       @ (if ep_field_outcome predicate then Entries_text ''field'' (lit ''outcome'') else [])
       @ operator_entries (ep_operator predicate))"

definition guards_value :: "OptionGuardV2 \<Rightarrow> AuthoringValue" where
  "guards_value g = AuthoringSeq (map guard_predicate_value (guard_predicates g))"

definition common_item_fields :: "ItemCommonV2 \<Rightarrow> entries" where
  "common_item_fields common =
     Entries_text ''prompt'' (ic_prompt common)
     @ Entries_optional_text ''help'' (ic_help common)
     @ Entries_flag ''required'' (ic_required common)
     @ Entries_optional_value ''required_when'' (map_option condition_value (ic_required_when common))"

text \<open>The type-specific fields, written after the common ones.\<close>

fun item_fields :: "ItemSpecV2 \<Rightarrow> entries" where
  "item_fields (SpecConfirm _) = []"
| "item_fields (SpecText s) =
     Entries_integer ''min_length'' (ucast (txt_min_length s))
     @ Entries_integer ''max_length'' (ucast (txt_max_length s))
     @ Entries_flag ''multiline'' (txt_multiline s)"
| "item_fields (SpecChoice s) = Entries_value ''choices'' (strings (cho_choices s))"
| "item_fields (SpecInteger s) =
     Entries_optional_integer ''minimum'' (int_minimum s)
     @ Entries_optional_integer ''maximum'' (int_maximum s)"
| "item_fields (SpecList s) =
     Entries_integer ''min_items'' (ucast (lis_min_items s))
     @ Entries_integer ''max_items'' (ucast (lis_max_items s))
     @ Entries_integer ''max_item_length'' (ucast (lis_max_item_length s))
     @ Entries_integer ''max_total_length'' (ucast (lis_max_total_length s))
     @ Entries_flag ''unique'' (lis_unique s)"
| "item_fields (SpecArtifact s) = Entries_optional_strings ''allowed_media_types'' (art_allowed_media_types s)"
| "item_fields (SpecCheckResult s) =
     Entries_text ''operation_id'' (OperationId_as_str (chk_operation_id s))
     @ Entries_text ''operation_digest'' (Sha256Digest_as_str (chk_operation_digest s))
     @ Entries_value ''accepted_outcomes'' (strings (map CheckResultOutcomeV2_as_str (chk_accepted_outcomes s)))"

fun item_type_text :: "ItemSpecV2 \<Rightarrow> string" where
  "item_type_text (SpecConfirm _) = ''confirm''"
| "item_type_text (SpecText _) = ''text''"
| "item_type_text (SpecChoice _) = ''choice''"
| "item_type_text (SpecInteger _) = ''integer''"
| "item_type_text (SpecList _) = ''list''"
| "item_type_text (SpecArtifact _) = ''artifact''"
| "item_type_text (SpecCheckResult _) = ''check_result''"

definition item_value :: "ItemSpecV2 \<Rightarrow> AuthoringValue" where
  "item_value item =
     AuthoringMap (Entries_text ''id'' (ItemId_as_str (ic_id (ItemSpecV2_common item)))
       @ Entries_text ''type'' (lit (item_type_text item))
       @ common_item_fields (ItemSpecV2_common item)
       @ item_fields item)"

definition items_value :: "ItemSpecV2 list \<Rightarrow> AuthoringValue option" where
  "items_value items = (if items = [] then None else Some (AuthoringSeq (map item_value items)))"

section \<open>Node definitions\<close>

primrec OptionId_as_str :: "OptionId \<Rightarrow> str" where
  "OptionId_as_str (OptionId s) = s"

primrec AssessmentTargetV2_as_str :: "AssessmentTargetV2 \<Rightarrow> str" where
  "AssessmentTargetV2_as_str SESSION_GOAL = lit ''session_goal''"

definition action_definition_value :: "ActionDefinitionV2 \<Rightarrow> AuthoringValue" where
  "action_definition_value d =
     AuthoringMap (Entries_text ''type'' (lit ''action'')
       @ Entries_text ''title'' (ad_title d)
       @ Entries_text ''intent'' (ad_intent d)
       @ Entries_optional_text ''description'' (ad_description d)
       @ Entries_optional_strings ''instructions'' (ad_instructions d)
       @ Entries_optional_value ''items'' (items_value (ad_items d)))"

definition assessment_value :: "AssessmentContractV2 \<Rightarrow> AuthoringValue" where
  "assessment_value assessment =
     AuthoringMap (Entries_text ''target'' (AssessmentTargetV2_as_str (ac_target assessment))
       @ Entries_value ''outcomes'' (AuthoringMap (map (\<lambda>m.
           (OptionId_as_str (om_option_id m), AuthoringText (GoalOutcome_as_str (om_outcome m))))
           (ac_outcomes assessment))))"

definition decision_option_value :: "DecisionOptionV2 \<Rightarrow> AuthoringValue" where
  "decision_option_value opt =
     AuthoringMap (Entries_text ''id'' (OptionId_as_str (do_id opt))
       @ Entries_text ''label'' (do_label opt)
       @ Entries_optional_text ''criteria'' (do_criteria opt)
       @ Entries_optional_value ''guards'' (map_option guards_value (do_guards opt)))"

definition reason_policy_value :: "ReasonPolicyV2 \<Rightarrow> AuthoringValue" where
  "reason_policy_value reason =
     AuthoringMap (Entries_flag ''required'' (rp_required reason)
       @ Entries_optional_text ''prompt'' (rp_prompt reason))"

definition decision_definition_value :: "DecisionDefinitionV2 \<Rightarrow> AuthoringValue" where
  "decision_definition_value d =
     AuthoringMap (Entries_text ''type'' (lit ''decision'')
       @ Entries_text ''title'' (dd_title d)
       @ Entries_optional_text ''description'' (dd_description d)
       @ Entries_text ''objective'' (dd_objective d)
       @ Entries_text ''prompt'' (dd_prompt d)
       @ Entries_optional_strings ''evidence_guidance'' (dd_evidence_guidance d)
       @ Entries_optional_value ''items'' (items_value (dd_items d))
       @ Entries_value ''options'' (AuthoringSeq (map decision_option_value (dd_options d)))
       @ Entries_value ''reason'' (reason_policy_value (dd_reason d))
       @ Entries_optional_value ''assessment'' (map_option assessment_value (dd_assessment d)))"

fun node_definition_value :: "ParsedNodeDefinition \<Rightarrow> AuthoringValue" where
  "node_definition_value (ParsedAction d) = action_definition_value d"
| "node_definition_value (ParsedDecision d) = decision_definition_value d"

section \<open>The graph and the document\<close>

definition evidence_reference_value :: "EvidenceReferenceV2 \<Rightarrow> AuthoringValue" where
  "evidence_reference_value r =
     AuthoringMap (Entries_text ''node'' (GraphNodeId_as_str (er_source_node r))
       @ Entries_flag ''required'' (er_required r)
       @ Entries_optional_value ''items''
           (map_option (\<lambda>items. strings (map ItemId_as_str items)) (er_selected_items r)))"

definition evidence_from_value :: "EvidenceFromListV2 \<Rightarrow> AuthoringValue" where
  "evidence_from_value list = AuthoringSeq (map evidence_reference_value (evidence_entries list))"

primrec DelegationBindingRefV1_as_str :: "DelegationBindingRefV1 \<Rightarrow> str" where
  "DelegationBindingRefV1_as_str (DelegationBindingRefV1 s) = s"

primrec DelegationRoleRefV1_as_str :: "DelegationRoleRefV1 \<Rightarrow> str" where
  "DelegationRoleRefV1_as_str (DelegationRoleRefV1 s) = s"

definition delegation_value :: "DelegationDeclarationV1 \<Rightarrow> AuthoringValue" where
  "delegation_value d =
     AuthoringMap (Entries_text ''binding_ref'' (DelegationBindingRefV1_as_str (dl_binding_ref d))
       @ Entries_text ''role_ref'' (DelegationRoleRefV1_as_str (dl_role_ref d))
       @ Entries_text ''role_snapshot_digest'' (Sha256Digest_as_str (dl_role_snapshot_digest d))
       @ Entries_integer ''max_rounds'' (ucast (dl_max_rounds d))
       @ Entries_text ''after_accept'' (DelegationAfterAcceptV1_as_str (dl_after_accept d)))"

definition skip_policy_value :: "SkipPolicyV2 \<Rightarrow> AuthoringValue" where
  "skip_policy_value skip =
     AuthoringMap (Entries_flag ''allowed'' (skip_allowed skip)
       @ Entries_flag ''reason_required'' (skip_reason_required skip))"

definition route_value :: "DecisionRouteV2 \<Rightarrow> AuthoringValue" where
  "route_value route =
     AuthoringMap (Entries_text ''to'' (GraphNodeId_as_str (route_to route))
       @ Entries_text ''effect'' (TransitionEffectV2_as_str (route_effect route)))"

fun placement_value :: "GraphPlacementV2 \<Rightarrow> AuthoringValue" where
  "placement_value (PlaceAction p) =
     AuthoringMap (Entries_text ''id'' (GraphNodeId_as_str (ap_id p))
       @ Entries_text ''use'' (NodeDefinitionId_as_str (ap_definition p))
       @ Entries_optional_value ''evidence_from'' (map_option evidence_from_value (ap_evidence_from p))
       @ Entries_optional_value ''delegation'' (map_option delegation_value (ap_delegation p))
       @ Entries_optional_value ''skip'' (map_option skip_policy_value (ap_skip p))
       @ (case ap_outcome p of
            OutcomeNext target \<Rightarrow> Entries_text ''next'' (GraphNodeId_as_str target)
          | OutcomeTerminal \<Rightarrow> Entries_flag ''terminal'' True))"
| "placement_value (PlaceDecision p) =
     AuthoringMap (Entries_text ''id'' (GraphNodeId_as_str (dp_id p))
       @ Entries_text ''use'' (NodeDefinitionId_as_str (dp_definition p))
       @ Entries_optional_value ''evidence_from'' (map_option evidence_from_value (dp_evidence_from p))
       @ Entries_value ''routes'' (AuthoringMap (map (\<lambda>entry.
           (OptionId_as_str (entry_option_id entry), route_value (entry_route entry)))
           (route_entries (dp_routes p)))))"

definition graph_value :: "ProcedureGraphV2 \<Rightarrow> AuthoringValue" where
  "graph_value graph =
     AuthoringMap (Entries_text ''entry'' (GraphNodeId_as_str (pg_entry graph))
       @ Entries_value ''nodes'' (AuthoringSeq (map placement_value (pg_placements graph))))"

definition manual_rework_value :: "ManualReworkTargetListV2 \<Rightarrow> AuthoringValue" where
  "manual_rework_value targets =
     AuthoringMap (Entries_value ''allowed_targets'' (strings (map GraphNodeId_as_str (rework_targets targets))))"

definition goal_tracking_enabled :: "ParsedProcedureV2 \<Rightarrow> bool" where
  "goal_tracking_enabled parsed \<longleftrightarrow> is_some_and (pp_goal_tracking parsed) tracking_enabled"

definition authoring_document_value :: "ParsedProcedureV2 \<Rightarrow> AuthoringValue" where
  "authoring_document_value parsed =
     AuthoringMap (Entries_text ''schema'' PROCEDURE_SCHEMA_V2
       @ Entries_text ''id'' (pp_id parsed)
       @ Entries_text ''version'' (pp_version parsed)
       @ Entries_text ''name'' (pp_name parsed)
       @ Entries_text ''purpose'' (pp_purpose parsed)
       @ Entries_optional_text ''description'' (pp_description parsed)
       @ (if goal_tracking_enabled parsed then Entries_flag ''goal_tracking'' True else [])
       @ Entries_value ''node_definitions'' (AuthoringMap (map (\<lambda>d.
           (NodeDefinitionId_as_str (ParsedNodeDefinition_id d), node_definition_value d))
           (pp_node_definitions parsed)))
       @ Entries_value ''graph'' (graph_value (pp_graph parsed))
       @ Entries_optional_value ''manual_rework'' (map_option manual_rework_value (pg_manual_rework (pp_graph parsed))))"

definition canonical_document_value :: "ParsedProcedureV2 \<Rightarrow> Value" where
  "canonical_document_value parsed = into_json (authoring_document_value parsed)"

end
