(* ===== verification/Procedure_Validate.thy ===== *)
theory Procedure_Validate
  imports Procedure_Parse Authoring_Document
begin

text \<open>
  Closed semantic validation of a parsed procedure (\<open>procedure_v2_validate.rs\<close>): every reference of
  the document is resolved against the declarations of the same document. A validated procedure
  carries its canonical bytes and digest (\<open>procedure_v2_canonical.rs\<close>), after the worst-case charge of
  its delegated actions was checked (\<open>procedure_v2_delegation_package.rs\<close>).
\<close>

section \<open>Items\<close>

abbreviation unknown_reference :: "string \<Rightarrow> str \<Rightarrow> ConfigError" where
  "unknown_reference field value \<equiv> CfgUnknownV2Reference field value"

abbreviation shape_mismatch :: "string \<Rightarrow> string \<Rightarrow> ConfigError" where
  "shape_mismatch field reason \<equiv> CfgV2ShapeMismatch field reason"

definition predicate_matches_item :: "bool \<Rightarrow> ItemPredicateOperatorV2 \<Rightarrow> ItemSpecV2 \<Rightarrow> bool" where
  "predicate_matches_item field_outcome operator controller \<longleftrightarrow>
     field_outcome = (ItemSpecV2_item_type controller = TyCheckResult) \<and>
     (case (controller, operator) of
        (SpecConfirm _, OpEquals (PsBoolean _)) \<Rightarrow> True
      | (SpecConfirm _, OpNotEquals (PsBoolean _)) \<Rightarrow> True
      | (SpecChoice s, OpEquals (PsText v)) \<Rightarrow> v \<in> set (cho_choices s)
      | (SpecChoice s, OpNotEquals (PsText v)) \<Rightarrow> v \<in> set (cho_choices s)
      | (SpecInteger _, OpEquals (PsInteger _)) \<Rightarrow> True
      | (SpecInteger _, OpNotEquals (PsInteger _)) \<Rightarrow> True
      | (SpecInteger _, OpAtLeast _) \<Rightarrow> True
      | (SpecInteger _, OpAtMost _) \<Rightarrow> True
      | (SpecText _, OpEmpty) \<Rightarrow> True
      | (SpecText _, OpNonEmpty) \<Rightarrow> True
      | (SpecList _, OpEmpty) \<Rightarrow> True
      | (SpecList _, OpNonEmpty) \<Rightarrow> True
      | (SpecCheckResult _, OpEquals (PsText v)) \<Rightarrow> is_ok (CheckResultOutcomeV2_from_str v)
      | (SpecCheckResult _, OpNotEquals (PsText v)) \<Rightarrow> is_ok (CheckResultOutcomeV2_from_str v)
      | _ \<Rightarrow> False)"

definition REQUIRED_WHEN_CONTROLLER_REASON :: string where
  "REQUIRED_WHEN_CONTROLLER_REASON =
     ''required_when must reference an earlier unconditionally required item in the same definition''"

definition check_controller :: "ItemSpecV2 list \<Rightarrow> ItemPredicateV2 \<Rightarrow> ConfigError + unit" where
  "check_controller earlier predicate =
     (case find (\<lambda>item. ItemSpecV2_id item = ip_item predicate) earlier of
        None \<Rightarrow> Inl (shape_mismatch ''node_definitions.items.required_when.item'' REQUIRED_WHEN_CONTROLLER_REASON)
      | Some controller \<Rightarrow>
          if \<not> ic_required (ItemSpecV2_common controller) \<or> ic_required_when (ItemSpecV2_common controller) \<noteq> None
          then Inl (shape_mismatch ''node_definitions.items.required_when.item'' REQUIRED_WHEN_CONTROLLER_REASON)
          else if \<not> predicate_matches_item (ip_field_outcome predicate) (ip_operator predicate) controller
          then Inl (shape_mismatch ''node_definitions.items.required_when''
                 ''required_when operator and literal must match the controller item type'')
          else Inr ())"

definition validate_required_when :: "ItemSpecV2 list \<Rightarrow> ConfigError + unit" where
  "validate_required_when items =
     for_each (\<lambda>(dependent_index, dependent).
       case ic_required_when (ItemSpecV2_common dependent) of
         None \<Rightarrow> Inr ()
       | Some c \<Rightarrow> for_each (check_controller (take dependent_index items)) (condition_predicates c))
       (enumerate 0 items)"

section \<open>Definitions\<close>

fun definition_items :: "ParsedNodeDefinition \<Rightarrow> ItemSpecV2 list" where
  "definition_items (ParsedAction d) = ad_items d"
| "definition_items (ParsedDecision d) = dd_items d"

definition validate_definition :: "bool \<Rightarrow> ParsedNodeDefinition \<Rightarrow> ConfigError + unit" where
  "validate_definition goal_tracking d =
     rbind (validate_required_when (definition_items d)) (\<lambda>_.
       case d of
         ParsedAction _ \<Rightarrow> Inr ()
       | ParsedDecision decision \<Rightarrow>
           (case dd_assessment decision of
              None \<Rightarrow> Inr ()
            | Some assessment \<Rightarrow>
                rbind (for_each (\<lambda>mapping.
                    if \<not> (\<exists>opt\<in>set (dd_options decision). do_id opt = om_option_id mapping)
                    then Inl (shape_mismatch ''node_definitions.assessment.outcomes''
                           ''an assessment outcome names an option the decision definition does not declare'')
                    else Inr ()) (ac_outcomes assessment)) (\<lambda>_.
                  if \<not> goal_tracking
                  then Inl (shape_mismatch ''node_definitions.assessment''
                         ''a session-goal assessment requires the procedure to declare goal_tracking: true'')
                  else Inr ())))"

section \<open>Placements\<close>

type_synonym definition_index = "NodeDefinitionId \<rightharpoonup> ParsedNodeDefinition"
type_synonym placement_index = "GraphNodeId \<rightharpoonup> GraphPlacementV2"

fun placement_definition :: "GraphPlacementV2 \<Rightarrow> NodeDefinitionId" where
  "placement_definition (PlaceAction p) = ap_definition p"
| "placement_definition (PlaceDecision p) = dp_definition p"

fun placement_evidence_from :: "GraphPlacementV2 \<Rightarrow> EvidenceFromListV2 option" where
  "placement_evidence_from (PlaceAction p) = ap_evidence_from p"
| "placement_evidence_from (PlaceDecision p) = dp_evidence_from p"

definition lookup_definition :: "NodeDefinitionId \<Rightarrow> definition_index \<Rightarrow> ConfigError + ParsedNodeDefinition" where
  "lookup_definition did definitions =
     ok_or (unknown_reference ''graph.nodes.use'' (NodeDefinitionId_as_str did)) (definitions did)"

definition validate_evidence_reference ::
    "GraphNodeId \<Rightarrow> definition_index \<Rightarrow> placement_index \<Rightarrow> EvidenceReferenceV2 \<Rightarrow> ConfigError + unit" where
  "validate_evidence_reference placement_id definitions placements reference =
     (case placements (er_source_node reference) of
        None \<Rightarrow> Inl (unknown_reference ''graph.nodes.evidence_from.node'' (GraphNodeId_as_str (er_source_node reference)))
      | Some source \<Rightarrow>
          if er_source_node reference = placement_id
          then Inl (shape_mismatch ''graph.nodes.evidence_from.node''
                 ''an evidence reference must not name its consuming placement'')
          else (case er_selected_items reference of
              None \<Rightarrow> Inr ()
            | Some selected \<Rightarrow>
                rbind (lookup_definition (placement_definition source) definitions) (\<lambda>source_definition.
                  for_each (\<lambda>item.
                    if \<not> (\<exists>s\<in>set (definition_items source_definition). ItemSpecV2_id s = item)
                    then Inl (unknown_reference ''graph.nodes.evidence_from.items'' (ItemId_as_str item))
                    else Inr ()) selected)))"

definition validate_evidence ::
    "GraphNodeId \<Rightarrow> EvidenceFromListV2 option \<Rightarrow> definition_index \<Rightarrow> placement_index \<Rightarrow> ConfigError + unit" where
  "validate_evidence placement_id evidence_from definitions placements =
     (case evidence_from of
        None \<Rightarrow> Inr ()
      | Some list \<Rightarrow>
          for_each (validate_evidence_reference placement_id definitions placements) (evidence_entries list))"

definition evidence_list :: "EvidenceFromListV2 option \<Rightarrow> EvidenceReferenceV2 list" where
  "evidence_list evidence_from = (case evidence_from of None \<Rightarrow> [] | Some list \<Rightarrow> evidence_entries list)"

definition validate_option_guard ::
    "EvidenceFromListV2 option \<Rightarrow> definition_index \<Rightarrow> placement_index \<Rightarrow> EvidencePredicateV2 \<Rightarrow> ConfigError + unit" where
  "validate_option_guard evidence_from definitions placements predicate =
     (if \<not> (\<exists>reference\<in>set (filter (\<lambda>r. er_source_node r = ep_source_node predicate) (evidence_list evidence_from)).
              er_required reference \<and> is_some_and (er_selected_items reference) (\<lambda>items. ep_item predicate \<in> set items))
      then Inl (shape_mismatch ''node_definitions.options.guards.evidence''
             ''an option guard must reference a required evidence source with an explicit selected item'')
      else rbind (ok_or (unknown_reference ''graph.nodes.evidence_from.node'' (GraphNodeId_as_str (ep_source_node predicate)))
                    (placements (ep_source_node predicate))) (\<lambda>source.
        rbind (lookup_definition (placement_definition source) definitions) (\<lambda>source_definition.
          case find (\<lambda>item. ItemSpecV2_id item = ep_item predicate) (definition_items source_definition) of
            None \<Rightarrow> Inl (unknown_reference ''graph.nodes.evidence_from.items'' (ItemId_as_str (ep_item predicate)))
          | Some item \<Rightarrow>
              if \<not> predicate_matches_item (ep_field_outcome predicate) (ep_operator predicate) item
              then Inl (shape_mismatch ''node_definitions.options.guards''
                     ''option guard operator and literal must match the selected evidence item type'')
              else Inr ())))"

definition option_guard_predicates :: "DecisionDefinitionV2 \<Rightarrow> EvidencePredicateV2 list" where
  "option_guard_predicates d = concat (map guard_predicates (List.map_filter do_guards (dd_options d)))"

definition validate_option_guards ::
    "EvidenceFromListV2 option \<Rightarrow> DecisionDefinitionV2 \<Rightarrow> definition_index \<Rightarrow> placement_index \<Rightarrow> ConfigError + unit" where
  "validate_option_guards evidence_from d definitions placements =
     for_each (validate_option_guard evidence_from definitions placements) (option_guard_predicates d)"

definition validate_route ::
    "DecisionDefinitionV2 \<Rightarrow> placement_index \<Rightarrow> DecisionRouteEntryV2 \<Rightarrow> ConfigError + unit" where
  "validate_route used placements entry =
     (if \<not> (\<exists>opt\<in>set (dd_options used). do_id opt = entry_option_id entry)
      then Inl (shape_mismatch ''graph.nodes.routes'' ''a route names an option the decision definition does not declare'')
      else if placements (route_to (entry_route entry)) = None
      then Inl (unknown_reference ''graph.nodes.routes.to'' (GraphNodeId_as_str (route_to (entry_route entry))))
      else Inr ())"

definition validate_placement ::
    "definition_index \<Rightarrow> placement_index \<Rightarrow> GraphPlacementV2 \<Rightarrow> ConfigError + unit" where
  "validate_placement definitions placements placement =
     rbind (lookup_definition (placement_definition placement) definitions) (\<lambda>d.
       case (placement, d) of
         (PlaceAction action, ParsedAction _) \<Rightarrow>
           rbind (validate_evidence (ap_id action) (ap_evidence_from action) definitions placements) (\<lambda>_.
             case ap_outcome action of
               OutcomeNext target \<Rightarrow>
                 if placements target = None
                 then Inl (unknown_reference ''graph.nodes.next'' (GraphNodeId_as_str target)) else Inr ()
             | OutcomeTerminal \<Rightarrow> Inr ())
       | (PlaceDecision decision, ParsedDecision used) \<Rightarrow>
           rbind (validate_evidence (dp_id decision) (dp_evidence_from decision) definitions placements) (\<lambda>_.
           rbind (validate_option_guards (dp_evidence_from decision) used definitions placements) (\<lambda>_.
           rbind (for_each (validate_route used placements) (route_entries (dp_routes decision))) (\<lambda>_.
             for_each (\<lambda>opt.
               if \<not> (\<exists>entry\<in>set (route_entries (dp_routes decision)). entry_option_id entry = do_id opt)
               then Inl (shape_mismatch ''graph.nodes.routes'' ''every declared decision option must have exactly one route'')
               else Inr ()) (dd_options used))))
       | (PlaceAction _, ParsedDecision _) \<Rightarrow>
           Inl (shape_mismatch ''graph.nodes.use'' ''an action placement must use an action definition'')
       | (PlaceDecision _, ParsedAction _) \<Rightarrow>
           Inl (shape_mismatch ''graph.nodes.use'' ''a decision placement must use a decision definition''))"

definition definition_index :: "ParsedProcedureV2 \<Rightarrow> definition_index" where
  "definition_index parsed = btree_map (map (\<lambda>d. (ParsedNodeDefinition_id d, d)) (pp_node_definitions parsed))"

definition placement_index :: "ParsedProcedureV2 \<Rightarrow> placement_index" where
  "placement_index parsed = btree_map (map (\<lambda>p. (GraphPlacementV2_id p, p)) (pg_placements (pp_graph parsed)))"

definition validate_closed_references :: "ParsedProcedureV2 \<Rightarrow> ConfigError + unit" where
  "validate_closed_references parsed =
     rbind (for_each (validate_definition (goal_tracking_enabled parsed)) (pp_node_definitions parsed)) (\<lambda>_.
     rbind (for_each (validate_placement (definition_index parsed) (placement_index parsed))
              (pg_placements (pp_graph parsed))) (\<lambda>_.
       case pg_manual_rework (pp_graph parsed) of
         None \<Rightarrow> Inr ()
       | Some manual_rework \<Rightarrow>
           for_each (\<lambda>target.
             if placement_index parsed target = None
             then Inl (unknown_reference ''manual_rework.allowed_targets'' (GraphNodeId_as_str target))
             else Inr ()) (rework_targets manual_rework)))"

section \<open>Canonical bytes\<close>

text \<open>
  \<open>String::from_utf8\<close>: the text whose UTF-8 encoding the bytes are. Surrogates and overlong forms
  are refused by comparing with the encoding of the decoded scalar.
\<close>

definition utf8_length :: "byte \<Rightarrow> nat" where
  "utf8_length b = (if b < 128 then 1 else if b < 224 then 2 else if b < 240 then 3 else 4)"

definition utf8_decode :: "byte list \<Rightarrow> scalar" where
  "utf8_decode bs =
     (case bs of
        [a] \<Rightarrow> a
      | [a, b] \<Rightarrow> (a mod 32) * 64 + b mod 64
      | [a, b, c] \<Rightarrow> (a mod 16) * 4096 + (b mod 64) * 64 + c mod 64
      | [a, b, c, d] \<Rightarrow> (a mod 8) * 262144 + (b mod 64) * 4096 + (c mod 64) * 64 + d mod 64
      | _ \<Rightarrow> 0)"

definition is_scalar :: "nat \<Rightarrow> bool" where
  "is_scalar c \<longleftrightarrow> c < 55296 \<or> 57343 < c \<and> c < 1114112"

function from_utf8 :: "byte list \<Rightarrow> str option" where
  "from_utf8 [] = Some []"
| "from_utf8 (b # bs) =
     (if is_scalar (utf8_decode (take (utf8_length b) (b # bs)))
         \<and> utf8_char (utf8_decode (take (utf8_length b) (b # bs))) = take (utf8_length b) (b # bs)
      then map_option ((#) (utf8_decode (take (utf8_length b) (b # bs)))) (from_utf8 (drop (utf8_length b - 1) bs))
      else None)"
  by pat_completeness auto
termination by (relation "measure length") auto

lemma from_utf8_bytes: "from_utf8 bs = Some s \<Longrightarrow> as_bytes s = bs"
proof (induction bs arbitrary: s rule: from_utf8.induct)
  case (2 b bs)
  define c where "c = utf8_decode (take (utf8_length b) (b # bs))"
  from 2(2) obtain s' where s: "is_scalar c" "utf8_char c = take (utf8_length b) (b # bs)"
      "from_utf8 (drop (utf8_length b - 1) bs) = Some s'" "s = c # s'"
    by (auto simp: c_def split: if_splits)
  have "as_bytes s' = drop (utf8_length b - 1) bs"
    using 2(1)[of s'] s by (simp add: c_def)
  moreover have "drop (utf8_length b - 1) bs = drop (utf8_length b) (b # bs)"
    by (simp add: utf8_length_def)
  ultimately show ?case using s(2,4) by (simp only: as_bytes_simps append_take_drop_id)
qed simp

datatype CanonicalJsonV1 = CanonicalJsonV1 (canonical_str: str)

text \<open>
  \<open>String::from_utf8(...).expect(...)\<close>: the absence of a text for the bytes is the panic, kept apart
  from every error of the function.
\<close>

definition canonical_json_from_serializable :: "externals \<Rightarrow> Value \<Rightarrow> (ConfigError + CanonicalJsonV1) option" where
  "canonical_json_from_serializable ext value =
     (case canonicalize_value ext value of
        Inl e \<Rightarrow> Some (Inl (if e = UnsupportedNumber then CfgNonCanonicalNumber else CfgSerialization e))
      | Inr bytes \<Rightarrow> map_option (\<lambda>s. Inr (CanonicalJsonV1 s)) (from_utf8 bytes))"

text \<open>\<open>?\<close> on a computation that may also panic.\<close>

definition pbind :: "('e + 'a) option \<Rightarrow> ('a \<Rightarrow> ('e + 'b) option) \<Rightarrow> ('e + 'b) option" where
  "pbind r f = Option.bind r (\<lambda>r. case r of Inl e \<Rightarrow> Some (Inl e) | Inr x \<Rightarrow> f x)"

lemma pbind_ok: "pbind r f = Some (Inr y) \<longleftrightarrow> (\<exists>x. r = Some (Inr x) \<and> f x = Some (Inr y))"
  by (cases r) (auto simp: pbind_def split: sum.splits)

fun for_each_panic :: "('a \<Rightarrow> ('e + unit) option) \<Rightarrow> 'a list \<Rightarrow> ('e + unit) option" where
  "for_each_panic f [] = Some (Inr ())"
| "for_each_panic f (x # xs) = pbind (f x) (\<lambda>_. for_each_panic f xs)"

section \<open>The charge of delegated actions (procedure_v2_delegation_package.rs)\<close>

text \<open>\<open>usize\<close> arithmetic that saturates.\<close>

definition usize_saturated :: "nat \<Rightarrow> nat" where
  "usize_saturated n = min n (2 ^ 64 - 1)"

definition DELEGATION_WORK_PACKAGE_MAX_BYTES_V1 :: nat where
  "DELEGATION_WORK_PACKAGE_MAX_BYTES_V1 = 950000"

definition invalid_evidence :: ConfigError where
  "invalid_evidence = CfgInvalidValue ''delegation work package evidence''
     ''frozen evidence does not match declared selectors''"

definition source_items :: "ParsedProcedureV2 \<Rightarrow> GraphNodeId \<Rightarrow> ConfigError + ItemSpecV2 list" where
  "source_items parsed source_node =
     rbind (ok_or invalid_evidence (find (\<lambda>p. GraphPlacementV2_id p = source_node) (pg_placements (pp_graph parsed)))) (\<lambda>source.
     rbind (ok_or invalid_evidence
              (find (\<lambda>d. ParsedNodeDefinition_id d = placement_definition source) (pp_node_definitions parsed))) (\<lambda>d.
       Inr (definition_items d)))"

definition charge_reference :: "ParsedProcedureV2 \<Rightarrow> nat \<Rightarrow> EvidenceReferenceV2 \<Rightarrow> ConfigError + nat" where
  "charge_reference parsed charge reference =
     rbind (case er_selected_items reference of
         Some selected \<Rightarrow> Inr (length selected)
       | None \<Rightarrow> rbind (source_items parsed (er_source_node reference)) (\<lambda>items. Inr (length items))) (\<lambda>count.
       Inr (usize_saturated (usize_saturated (charge + 1500) + usize_saturated (count * 400))))"

fun charge_references :: "ParsedProcedureV2 \<Rightarrow> nat \<Rightarrow> EvidenceReferenceV2 list \<Rightarrow> ConfigError + nat" where
  "charge_references parsed charge [] = Inr charge"
| "charge_references parsed charge (r # rs) =
     rbind (charge_reference parsed charge r) (\<lambda>charge'. charge_references parsed charge' rs)"

definition validate_delegated_action :: "externals \<Rightarrow> ParsedProcedureV2 \<Rightarrow> ActionPlacementV2 \<Rightarrow> (ConfigError + unit) option" where
  "validate_delegated_action ext parsed action =
     (case find (\<lambda>d. ParsedNodeDefinition_id d = ap_definition action) (pp_node_definitions parsed) of
        None \<Rightarrow> Some (Inl (CfgInvalidValue ''delegation work package definition'' ''action definition is missing''))
      | Some d \<Rightarrow>
          pbind (canonical_json_from_serializable ext (into_json (node_definition_value d))) (\<lambda>json.
            Some (rbind (charge_references parsed (usize_saturated (byte_len (canonical_str json) + 53000))
                     (evidence_list (ap_evidence_from action))) (\<lambda>charge.
              if charge > DELEGATION_WORK_PACKAGE_MAX_BYTES_V1
              then Inl (CfgOutOfBounds ''delegation work package worst-case JSON bytes'' 0
                     DELEGATION_WORK_PACKAGE_MAX_BYTES_V1 charge)
              else Inr ()))))"

definition validate_delegation_package_budget_v1 :: "externals \<Rightarrow> ParsedProcedureV2 \<Rightarrow> (ConfigError + unit) option" where
  "validate_delegation_package_budget_v1 ext parsed =
     for_each_panic (\<lambda>p. case p of
         PlaceAction action \<Rightarrow>
           if ap_delegation action = None then Some (Inr ()) else validate_delegated_action ext parsed action
       | PlaceDecision _ \<Rightarrow> Some (Inr ())) (pg_placements (pp_graph parsed))"

section \<open>Validated procedures\<close>

definition SOURCE_PROJECTION_MAX_CHARACTERS :: nat where
  "SOURCE_PROJECTION_MAX_CHARACTERS = 1048576"

definition canonical_projection :: "externals \<Rightarrow> ParsedProcedureV2 \<Rightarrow> (ConfigError + CanonicalJsonV1 \<times> Sha256Digest) option" where
  "canonical_projection ext parsed =
     pbind (canonical_json_from_serializable ext (canonical_document_value parsed)) (\<lambda>json.
       Some (rbind (validate_count ''canonical source projection characters'' (length (canonical_str json)) 1
                SOURCE_PROJECTION_MAX_CHARACTERS) (\<lambda>_.
         rbind (validate_count ''canonical source projection encoded bytes'' (byte_len (canonical_str json)) 1
                MAX_PROCEDURE_DOCUMENT_BYTES) (\<lambda>_.
         rbind (map_err (\<lambda>_. CfgInvalidDigest)
                (Sha256Digest_new (lit ''sha256:'' @ ext_sha256_hex ext (as_bytes (canonical_str json))))) (\<lambda>digest.
           Inr (json, digest))))))"

record ValidatedProcedureV2 =
  vp_parsed :: ParsedProcedureV2
  vp_canonical_json :: CanonicalJsonV1
  vp_digest :: Sha256Digest

definition validate_procedure_v2 :: "externals \<Rightarrow> ParsedProcedureV2 \<Rightarrow> (ConfigError + ValidatedProcedureV2) option" where
  "validate_procedure_v2 ext parsed =
     pbind (Some (validate_closed_references parsed)) (\<lambda>_.
     pbind (validate_delegation_package_budget_v1 ext parsed) (\<lambda>_.
     pbind (canonical_projection ext parsed) (\<lambda>(json, digest).
       Some (Inr \<lparr>vp_parsed = parsed, vp_canonical_json = json, vp_digest = digest\<rparr>))))"

definition ValidatedProcedureV2_runtime_v2 ::
    "externals \<Rightarrow> ValidatedProcedureV2 \<Rightarrow> ProcedureStateErrorV2 + ProcedureRuntimeV2" where
  "ValidatedProcedureV2_runtime_v2 ext v =
     rbind (map_err (\<lambda>_. state_invalid ''Procedure v2 canonical source is invalid'')
              (CanonicalProcedureJsonV1_new (canonical_str (vp_canonical_json v)))) (\<lambda>canonical.
     rbind (CanonicalProcedureDocumentV2_new ext canonical (vp_digest v)) (\<lambda>document.
       ProcedureRuntimeV2_from_admitted_document ext document))"

end
