(* ===== verification/Document_Reading.thy ===== *)
theory Document_Reading
  imports Procedure_Validate "HOL-Library.Multiset"
begin

text \<open>
  Reading the JSON projection of an authoring document: what the object lookups of the runtime see of
  the entries the document builder wrote, and that every part of the document written by
  \<open>procedure_v2_document.rs\<close> is read back by the parser of \<open>workflow_v2.rs\<close> as the value it came from.
\<close>

named_theorems read_simps \<open>lookups in written objects\<close>

section \<open>Objects\<close>

lemma of_char_nat_inject [simp]: "(of_char c :: nat) = of_char d \<longleftrightarrow> c = d"
  by (metis char_of_char)

declare lit_inject [simp]

lemma map_of_same_set:
  assumes "distinct (map fst xs)" "distinct (map fst ys)" "set xs = set ys"
  shows "map_of xs = map_of ys"
proof
  fix k
  have "map_of xs k = Some v \<longleftrightarrow> map_of ys k = Some v" for v
    using assms by (simp add: map_of_eq_Some_iff)
  then show "map_of xs k = map_of ys k" by (metis option.exhaust)
qed

lemma btree_entries_lookup: "map_of (btree_entries es) = map_of (rev es)"
proof -
  let ?c = "AList.clearjunk (rev es)"
  have d: "distinct (map fst ?c)" by (rule distinct_clearjunk)
  have "distinct (map fst (sort_key (\<lambda>(k, _). as_bytes k) ?c))"
    using d by (simp add: distinct_map)
  then have "map_of (sort_key (\<lambda>(k, _). as_bytes k) ?c) = map_of ?c"
    using d by (intro map_of_same_set) simp_all
  then show ?thesis by (simp add: btree_entries_def map_of_clearjunk)
qed

definition json_of :: "entries \<Rightarrow> json_map" where
  "json_of es = btree_entries (map (\<lambda>(k, v). (k, into_json v)) es)"

definition entry_of :: "entries \<Rightarrow> str \<Rightarrow> AuthoringValue option" where
  "entry_of es key = map_of (rev es) key"

lemma into_json_map [read_simps]: "into_json (AuthoringMap es) = VObject (json_of es)"
  by (simp add: json_of_def)

lemma lookup_json_of [read_simps]: "map_of (json_of es) k = map_option into_json (entry_of es k)"
proof -
  have "map_of (map (\<lambda>(k, v). (k, into_json v)) (rev es)) k = map_option into_json (map_of (rev es) k)"
    by (induction es) (auto simp: map_of_append map_add_def split: option.splits)
  then show ?thesis by (simp add: json_of_def btree_entries_lookup entry_of_def rev_map)
qed

lemma get_json_of [read_simps]: "json_get (json_of es) key = map_option into_json (entry_of es (lit key))"
  by (simp add: json_get_def lookup_json_of)

lemma entry_of_Nil [read_simps]: "entry_of [] k = None"
  by (simp add: entry_of_def)

definition or_else :: "'a option \<Rightarrow> 'a option \<Rightarrow> 'a option" where
  "or_else x y = (case x of None \<Rightarrow> y | Some v \<Rightarrow> Some v)"

lemma or_else_simps [simp]:
  "or_else None y = y"
  "or_else (Some v) y = Some v"
  "or_else x None = x"
  by (simp_all add: or_else_def split: option.splits)

lemma entry_of_append [read_simps]: "entry_of (es @ fs) k = or_else (entry_of fs k) (entry_of es k)"
  by (simp add: entry_of_def map_add_def or_else_def split: option.splits)

lemma entry_of_writes [read_simps]:
  "entry_of (Entries_value key v) k = (if k = lit key then Some v else None)"
  "entry_of (Entries_text key t) k = (if k = lit key then Some (AuthoringText t) else None)"
  "entry_of (Entries_flag key b) k = (if k = lit key then Some (AuthoringFlag b) else None)"
  "entry_of (Entries_integer key n) k = (if k = lit key then Some (AuthoringInteger n) else None)"
  by (simp_all add: entry_of_def Entries_value_def Entries_text_def Entries_flag_def Entries_integer_def)

lemma entry_of_optional_writes [read_simps]:
  "entry_of (Entries_optional_value key v') k = (if k = lit key then v' else None)"
  "entry_of (Entries_optional_text key t') k = (if k = lit key then map_option AuthoringText t' else None)"
  "entry_of (Entries_optional_integer key n') k = (if k = lit key then map_option AuthoringInteger n' else None)"
  "entry_of (Entries_optional_strings key ts) k =
     (if k = lit key \<and> ts \<noteq> [] then Some (strings ts) else None)"
  by (cases v'; cases t'; cases n'; simp add: Entries_optional_value_def Entries_optional_text_def
      Entries_optional_integer_def Entries_optional_strings_def read_simps)+

lemma entry_of_if [read_simps]:
  "entry_of (if c then es else fs) k = (if c then entry_of es k else entry_of fs k)"
  by simp

lemma collect_ok_map_id:
  "(\<And>x. x \<in> set xs \<Longrightarrow> f (g (h x)) = Inr x) \<Longrightarrow> collect_ok f (map g (map h xs)) = Inr xs"
  by (induction xs) auto

section \<open>Scalars\<close>

lemma signed_word_as_i64 [simp]: "Value_as_i64 (VInt (sint (w :: i64))) = Some w"
  using sint_range_size[of w] by (simp add: word_size)

lemma sint_ucast_small:
  fixes w :: "'a::len word"
  assumes "LENGTH('a) < 64"
  shows "sint (ucast w :: i64) = uint w"
proof -
  have "uint w < 2 ^ LENGTH('a)" by (rule uint_lt2p)
  also have "(2::int) ^ LENGTH('a) \<le> 2 ^ 63" using assms by (intro power_increasing) auto
  finally have "uint w < 2 ^ 63" .
  then have "uint (ucast w :: i64) = uint w"
    by (simp add: unsigned_ucast_eq take_bit_int_eq_self)
  moreover have "- (2 ^ 63) \<le> uint w" by (rule order_trans[OF _ uint_ge_0]) simp
  ultimately show ?thesis
    using \<open>uint w < 2 ^ 63\<close> by (simp add: sint_uint signed_take_bit_int_eq_self_iff)
qed

lemma uint_as_u64 [simp]:
  fixes w :: "'a::len word"
  assumes "LENGTH('a) < 64"
  shows "Value_as_u64 (VInt (uint w)) = Some (ucast w)"
proof -
  have "uint w < 2 ^ LENGTH('a)" by (rule uint_lt2p)
  also have "(2::int) ^ LENGTH('a) \<le> 2 ^ 64" using assms by (intro power_increasing) auto
  finally show ?thesis by simp
qed

text \<open>An identifier that was once admitted is admitted again.\<close>

lemma new_as_str:
  "ItemId_new s = Inr i \<Longrightarrow> ItemId_as_str i = s"
  "GraphNodeId_new s = Inr g \<Longrightarrow> GraphNodeId_as_str g = s"
  "NodeDefinitionId_new s = Inr d \<Longrightarrow> NodeDefinitionId_as_str d = s"
  "OptionId_new s = Inr p \<Longrightarrow> OptionId_as_str p = s"
  "OperationId_new s = Inr q \<Longrightarrow> OperationId_as_str q = s"
  "Sha256Digest_new s = Inr h \<Longrightarrow> Sha256Digest_as_str h = s"
  by (auto simp: ItemId_new_def GraphNodeId_new_def NodeDefinitionId_new_def OptionId_new_def
      OperationId_new_def Sha256Digest_new_def procedure_identifier_new_def)

section \<open>Predicates and conditions\<close>

text \<open>
  Well-formedness says that a value is what its constructor returns for its own parts; it is what the
  parser of the source guarantees (theory \<open>Document_Round_Trip\<close>).
\<close>

definition operator_wf :: "ItemPredicateOperatorV2 \<Rightarrow> bool" where
  "operator_wf operator \<longleftrightarrow>
     (\<forall>t. ItemPredicateOperatorV2_expected operator = Some (PsText t) \<longrightarrow> PredicateScalarV2_text t = Inr (PsText t))"

definition predicate_wf :: "ItemPredicateV2 \<Rightarrow> bool" where
  "predicate_wf p \<longleftrightarrow> ItemId_new (ItemId_as_str (ip_item p)) = Inr (ip_item p) \<and> operator_wf (ip_operator p)"

definition evidence_predicate_wf :: "EvidencePredicateV2 \<Rightarrow> bool" where
  "evidence_predicate_wf p \<longleftrightarrow>
     GraphNodeId_new (GraphNodeId_as_str (ep_source_node p)) = Inr (ep_source_node p) \<and>
     ItemId_new (ItemId_as_str (ep_item p)) = Inr (ep_item p) \<and> operator_wf (ep_operator p)"

definition condition_wf :: "ItemConditionV2 \<Rightarrow> bool" where
  "condition_wf c \<longleftrightarrow>
     ItemConditionV2_new (condition_predicates c) = Inr c \<and> (\<forall>p\<in>set (condition_predicates c). predicate_wf p)"

definition guard_wf :: "OptionGuardV2 \<Rightarrow> bool" where
  "guard_wf g \<longleftrightarrow>
     OptionGuardV2_new (guard_predicates g) = Inr g \<and> (\<forall>p\<in>set (guard_predicates g). evidence_predicate_wf p)"

lemma read_scalar:
  "(\<And>t. s = PsText t \<Longrightarrow> PredicateScalarV2_text t = Inr s) \<Longrightarrow>
     parse_predicate_scalar_v2 (into_json (predicate_scalar_value s)) = Inr s"
  by (cases s) (simp_all add: parse_predicate_scalar_v2_def del: Value_as_i64.simps(1))

lemma read_item_predicate:
  assumes "predicate_wf p"
  shows "parse_item_predicate (into_json (item_predicate_value p)) = Inr p"
proof -
  note wf = assms[unfolded predicate_wf_def operator_wf_def]
  obtain item outcome operator where p: "p = \<lparr>ip_item = item, ip_field_outcome = outcome, ip_operator = operator\<rparr>"
    by (cases p)
  show ?thesis
    using wf by (cases operator) (auto simp: p parse_item_predicate_def item_predicate_value_def read_simps
        required_text_def read_scalar simp del: into_json.simps(5) Value_as_i64.simps(1))
qed

lemma read_evidence_predicate:
  assumes "evidence_predicate_wf p"
  shows "parse_evidence_predicate_v2 (into_json (guard_predicate_value p)) = Inr p"
proof -
  note wf = assms[unfolded evidence_predicate_wf_def operator_wf_def]
  obtain node item outcome operator where
    p: "p = \<lparr>ep_source_node = node, ep_item = item, ep_field_outcome = outcome, ep_operator = operator\<rparr>"
    by (cases p)
  show ?thesis
    using wf by (cases operator) (auto simp: p parse_evidence_predicate_v2_def guard_predicate_value_def read_simps
        required_text_def read_scalar simp del: into_json.simps(5) Value_as_i64.simps(1))
qed

lemma read_condition:
  assumes "condition_wf c"
  shows "parse_item_condition_v2 (into_json (condition_value c)) = Inr c"
proof -
  have "collect_ok parse_item_predicate (map into_json (map item_predicate_value (condition_predicates c)))
      = Inr (condition_predicates c)"
    using assms by (intro collect_ok_map_id) (simp add: condition_wf_def read_item_predicate)
  with assms show ?thesis by (simp add: parse_item_condition_v2_def condition_value_def condition_wf_def comp_def)
qed

section \<open>Items\<close>

definition common_wf :: "ItemCommonV2 \<Rightarrow> bool" where
  "common_wf c \<longleftrightarrow>
     ItemId_new (ItemId_as_str (ic_id c)) = Inr (ic_id c) \<and>
     rbind (ItemCommonV2_new (ic_id c) (ic_prompt c) (ic_help c) (ic_required c))
       (\<lambda>common. with_required_when common (ic_required_when c)) = Inr c \<and>
     (\<forall>condition. ic_required_when c = Some condition \<longrightarrow> condition_wf condition)"

fun fields_wf :: "ItemSpecV2 \<Rightarrow> bool" where
  "fields_wf (SpecConfirm c) \<longleftrightarrow> True"
| "fields_wf (SpecText s) \<longleftrightarrow>
     TextItemSpecV2_new (txt_common s) (txt_min_length s) (txt_max_length s) (txt_multiline s) = Inr s"
| "fields_wf (SpecChoice s) \<longleftrightarrow> ChoiceItemSpecV2_new (cho_common s) (cho_choices s) = Inr s"
| "fields_wf (SpecInteger s) \<longleftrightarrow> IntegerItemSpecV2_new (int_common s) (int_minimum s) (int_maximum s) = Inr s"
| "fields_wf (SpecList s) \<longleftrightarrow>
     ListItemSpecV2_new (lis_common s) (lis_min_items s) (lis_max_items s) (lis_max_item_length s)
       (lis_max_total_length s) (lis_unique s) = Inr s"
| "fields_wf (SpecArtifact s) \<longleftrightarrow> ArtifactItemSpecV2_new (art_common s) (art_allowed_media_types s) = Inr s"
| "fields_wf (SpecCheckResult s) \<longleftrightarrow>
     OperationId_new (OperationId_as_str (chk_operation_id s)) = Inr (chk_operation_id s) \<and>
     Sha256Digest_new (Sha256Digest_as_str (chk_operation_digest s)) = Inr (chk_operation_digest s) \<and>
     CheckResultItemSpecV2_new (chk_common s) (chk_operation_id s) (chk_operation_digest s)
       (chk_accepted_outcomes s) = Inr s"

definition item_wf :: "ItemSpecV2 \<Rightarrow> bool" where
  "item_wf item \<longleftrightarrow> common_wf (ItemSpecV2_common item) \<and> fields_wf item"

text \<open>The keys of the type-specific fields are none of the common ones.\<close>

lemma entry_of_item_fields:
  "k \<in> {''id'', ''type'', ''prompt'', ''help'', ''required'', ''required_when''} \<Longrightarrow>
     entry_of (item_fields item) (lit k) = None"
  by (cases item) (auto simp: read_simps)

lemma entry_of_common_fields:
  "k \<notin> {''prompt'', ''help'', ''required'', ''required_when''} \<Longrightarrow>
     entry_of (common_item_fields common) (lit k) = None"
  by (auto simp: common_item_fields_def read_simps)

lemma read_item_common:
  assumes "common_wf (ItemSpecV2_common item)" "into_json (item_value item) = VObject m"
  shows "parse_item_common m = Inr (ItemSpecV2_common item)"
proof -
  define c where "c = ItemSpecV2_common item"
  note wf = assms(1)[unfolded common_wf_def, folded c_def]
  have m: "m = json_of (Entries_text ''id'' (ItemId_as_str (ic_id c)) @ Entries_text ''type'' (lit (item_type_text item))
      @ common_item_fields c @ item_fields item)"
    using assms(2) by (simp add: item_value_def into_json_map c_def del: into_json.simps(5))
  have "json_get m ''required_when'' = map_option (\<lambda>x. into_json (condition_value x)) (ic_required_when c)"
    by (simp add: m read_simps entry_of_item_fields common_item_fields_def option.map_comp comp_def)
  moreover have "get_str m ''help'' = ic_help c"
    by (cases "ic_help c") (simp_all add: m read_simps entry_of_item_fields common_item_fields_def)
  moreover have "get_str m ''id'' = Some (ItemId_as_str (ic_id c))" "get_str m ''prompt'' = Some (ic_prompt c)"
    "get_bool m ''required'' = Some (ic_required c)"
    by (simp_all add: m read_simps entry_of_item_fields common_item_fields_def)
  ultimately show ?thesis
    using wf by (cases "ic_required_when c") (auto simp: parse_item_common_def required_text_def read_condition c_def)
qed

lemma read_strings [read_simps]: "into_json (strings ts) = VArray (map VString ts)"
  by (simp add: strings_def comp_def)

lemma read_text_list: "collect_ok (\<lambda>v. ok_or e (Value_as_str v)) (map VString ts) = Inr ts"
  by (induction ts) auto

lemma read_outcomes:
  "collect_ok (\<lambda>out. rbind (ok_or e (Value_as_str out)) (\<lambda>text. map_err f (CheckResultOutcomeV2_from_str text)))
     (map VString (map CheckResultOutcomeV2_as_str os)) = Inr os"
proof -
  have "CheckResultOutcomeV2_from_str (CheckResultOutcomeV2_as_str out) = Inr out" for out
    by (cases out) (simp_all add: CheckResultOutcomeV2_from_str_def CheckResultOutcomeV2_as_str_def)
  then show ?thesis by (induction os) auto
qed

lemma upcast_small:
  fixes w :: "'a::len word"
  assumes "LENGTH('a) < 64"
  shows "unat (ucast w :: u64) = unat w" "(ucast (ucast w :: u64) :: 'a word) = w"
proof -
  have "unat w < 2 ^ LENGTH('a)" by (rule unsigned_less)
  also have "(2::nat) ^ LENGTH('a) \<le> 2 ^ 64" using assms by (intro power_increasing) auto
  finally show u: "unat (ucast w :: u64) = unat w"
    by (simp add: unsigned_ucast_eq take_bit_nat_eq_self)
  have "unat w < 2 ^ LENGTH('a)" by (rule unsigned_less)
  with u show "(ucast (ucast w :: u64) :: 'a word) = w"
    by (simp add: word_unat_eq_iff unsigned_ucast_eq take_bit_nat_eq_self unsigned_take_bit_eq)
qed

lemma read_u32: "entry_of es (lit key) = Some (AuthoringInteger (ucast (w :: u32))) \<Longrightarrow>
    optional_u32 (json_of es) key d = Inr w"
  by (simp add: optional_u32_def read_simps sint_ucast_small upcast_small unsigned_less[of w, simplified] del: Value_as_u64.simps(1))

lemma read_u16: "entry_of es (lit key) = Some (AuthoringInteger (ucast (w :: u16))) \<Longrightarrow>
    optional_u16 (json_of es) key d = Inr w"
  by (simp add: optional_u16_def read_simps sint_ucast_small upcast_small unsigned_less[of w, simplified] del: Value_as_u64.simps(1))

lemma read_item:
  assumes "item_wf item" "into_json (item_value item) = VObject m"
  shows "parse_item_spec_v2 m = Inr item"
proof -
  have common: "parse_item_common m = Inr (ItemSpecV2_common item)"
    using assms by (intro read_item_common) (simp_all add: item_wf_def)
  define es where "es = Entries_text ''id'' (ItemId_as_str (ic_id (ItemSpecV2_common item)))
      @ Entries_text ''type'' (lit (item_type_text item)) @ common_item_fields (ItemSpecV2_common item) @ item_fields item"
  have m: "m = json_of es"
    using assms(2) by (simp add: item_value_def into_json_map es_def del: into_json.simps(5))
  have parsed: "required_text m ''type'' = Inr (lit (item_type_text item))"
    by (simp add: m es_def read_simps entry_of_item_fields entry_of_common_fields required_text_def)
  have special: "entry_of es (lit k) = entry_of (item_fields item) (lit k)"
    if "k \<notin> {''id'', ''type'', ''prompt'', ''help'', ''required'', ''required_when''}" for k
    using that by (simp add: es_def read_simps entry_of_common_fields)
  note start = parse_item_spec_v2_def common parsed item_declared_def parse_item_type_def
  have get: "json_get m k = map_option into_json (entry_of (item_fields item) (lit k))"
    if "k \<notin> {''id'', ''type'', ''prompt'', ''help'', ''required'', ''required_when''}" for k
    using special[OF that] by (simp add: m get_json_of)
  have fields: "fields_wf item" using assms(1) by (simp add: item_wf_def)
  show ?thesis
  proof (cases item)
    case (SpecText s)
    have "optional_u32 m ''min_length'' 0 = Inr (txt_min_length s)"
      "optional_u32 m ''max_length'' DEFAULT_TEXT_MAX_SCALARS_V2 = Inr (txt_max_length s)"
      unfolding m by (rule read_u32, simp add: special SpecText read_simps)+
    moreover have "get_bool m ''multiline'' = Some (txt_multiline s)" by (simp add: get SpecText read_simps)
    ultimately show ?thesis using fields by (simp add: start SpecText unwrap_or_def)
  next
    case (SpecList s)
    have "optional_u16 m ''min_items'' 0 = Inr (lis_min_items s)"
      "optional_u16 m ''max_items'' DEFAULT_LIST_MAX_ITEMS_V2 = Inr (lis_max_items s)"
      "optional_u16 m ''max_item_length'' DEFAULT_LIST_MAX_ITEM_SCALARS_V2 = Inr (lis_max_item_length s)"
      unfolding m by (rule read_u16, simp add: special SpecList read_simps)+
    moreover have "optional_u32 m ''max_total_length'' DEFAULT_LIST_MAX_TOTAL_SCALARS_V2 = Inr (lis_max_total_length s)"
      unfolding m by (rule read_u32, simp add: special SpecList read_simps)
    moreover have "get_bool m ''unique'' = Some (lis_unique s)" by (simp add: get SpecList read_simps)
    ultimately show ?thesis using fields by (simp add: start SpecList unwrap_or_def)
  next
    case (SpecChoice s)
    have "get_array m ''choices'' = Some (map VString (cho_choices s))" by (simp add: get SpecChoice read_simps)
    then show ?thesis using fields by (simp add: start SpecChoice read_text_list)
  next
    case (SpecInteger s)
    have "get_i64 m ''minimum'' = int_minimum s"
      by (cases "int_minimum s") (simp_all add: get SpecInteger read_simps del: Value_as_i64.simps(1))
    moreover have "get_i64 m ''maximum'' = int_maximum s"
      by (cases "int_maximum s") (simp_all add: get SpecInteger read_simps del: Value_as_i64.simps(1))
    ultimately show ?thesis using fields by (simp add: start SpecInteger)
  next
    case (SpecArtifact s)
    have "get_array m ''allowed_media_types'' =
        (if art_allowed_media_types s = [] then None else Some (map VString (art_allowed_media_types s)))"
      by (simp add: get SpecArtifact read_simps)
    then show ?thesis using fields
      by (cases "art_allowed_media_types s = []") (simp_all add: start SpecArtifact read_text_list)
  next
    case (SpecCheckResult s)
    have "required_text m ''operation_id'' = Inr (OperationId_as_str (chk_operation_id s))"
      "required_text m ''operation_digest'' = Inr (Sha256Digest_as_str (chk_operation_digest s))"
      "get_array m ''accepted_outcomes'' = Some (map VString (map CheckResultOutcomeV2_as_str (chk_accepted_outcomes s)))"
      by (simp_all add: required_text_def get SpecCheckResult read_simps)
    then show ?thesis using fields by (simp add: start SpecCheckResult read_outcomes del: map_map)
  qed (use start in simp)
qed

lemma read_items:
  assumes "\<forall>item\<in>set items. item_wf item"
  shows "map_or_ok [] (collect_ok (\<lambda>v. rbind (ok_or e (Value_as_object v)) parse_item_spec_v2))
     (Option.bind (map_option into_json (items_value items)) Value_as_array) = Inr items"
proof -
  have "rbind (ok_or e (Value_as_object (into_json (item_value item)))) parse_item_spec_v2 = Inr item"
    if "item \<in> set items" for item
  proof -
    obtain m where m: "into_json (item_value item) = VObject m" by (simp add: item_value_def)
    with read_item[OF _ m] that assms show ?thesis by simp
  qed
  then show ?thesis by (simp add: items_value_def collect_ok_map_id del: map_map)
qed

end
