(* ===== verification/Document_Round_Trip.thy ===== *)
theory Document_Round_Trip
  imports Document_Reading
begin

text \<open>
  The runtime reads the procedure that was validated: the document \<open>podway-config\<close> renders of a
  parsed procedure is admitted by \<open>podway-core\<close>, and the graph and the workflow-memory model read out
  of it are those of the procedure. The only assumption is that \<open>serde_json\<close> reads back the canonical
  bytes it wrote.
\<close>

section \<open>Objects with author-chosen keys\<close>

lemma btree_entries_distinct: "distinct (map fst (btree_entries es))"
  by (simp add: btree_entries_def distinct_map) (simp add: distinct_clearjunk flip: distinct_map)

lemma btree_entries_set:
  assumes "distinct (map fst es)"
  shows "set (btree_entries es) = set es"
proof -
  have "(k, v) \<in> set (btree_entries es) \<longleftrightarrow> (k, v) \<in> set es" for k v
  proof -
    have "(k, v) \<in> set (btree_entries es) \<longleftrightarrow> map_of (btree_entries es) k = Some v"
      by (simp add: btree_entries_distinct)
    also have "\<dots> \<longleftrightarrow> (k, v) \<in> set (rev es)"
      using assms by (simp add: btree_entries_lookup map_of_eq_Some_iff rev_map[symmetric])
    finally show ?thesis by simp
  qed
  then show ?thesis by auto
qed

text \<open>Collecting the entries of such an object into a map, in whatever order it keeps them.\<close>

lemma collect_object:
  assumes keys: "distinct (map key xs)" and read: "\<And>x. x \<in> set xs \<Longrightarrow> f (key x, val x) = Inr (h x)"
    and ids: "distinct (map (\<lambda>x. fst (h x)) xs)"
  shows "\<exists>ys. collect_ok f (btree_entries (map (\<lambda>x. (key x, val x)) xs)) = Inr ys \<and> btree_map ys = btree_map (map h xs)"
proof -
  let ?es = "map (\<lambda>x. (key x, val x)) xs" and ?g = "\<lambda>e. projr (f e)"
  have d: "distinct (map fst ?es)" using keys by (simp add: comp_def)
  have f: "f e = Inr (?g e)" if "e \<in> set (btree_entries ?es)" for e
    using that read by (auto simp: btree_entries_set[OF d])
  have g: "map ?g ?es = map h xs" using read by simp
  have "distinct (btree_entries ?es)" using btree_entries_distinct[of ?es] by (simp add: distinct_map)
  moreover have "distinct (map fst (map ?g ?es))"
    unfolding g using ids by (simp add: comp_def)
  then have "inj_on (fst \<circ> ?g) (set ?es)"
    by (auto simp: distinct_map inj_on_def)
  ultimately have "distinct (map fst (map ?g (btree_entries ?es)))"
    by (simp add: distinct_map btree_entries_set[OF d] comp_def)
  moreover have "set (map ?g (btree_entries ?es)) = set (map h xs)"
    by (simp only: set_map btree_entries_set[OF d]) (metis g set_map)
  moreover have "distinct (map fst (map h xs))" using ids by (simp add: comp_def)
  ultimately have "map_of (rev (map ?g (btree_entries ?es))) = map_of (rev (map h xs))"
    by (intro map_of_same_set) (simp_all only: rev_map[symmetric] distinct_rev set_rev)
  moreover have "collect_ok f (btree_entries ?es) = Inr (map ?g (btree_entries ?es))"
    using f by (rule collect_ok_pure)
  ultimately show ?thesis by (simp add: btree_map_def)
qed

lemma json_of_author_map:
  "json_of (map (\<lambda>x. (key x, val x)) xs) = btree_entries (map (\<lambda>x. (key x, into_json (val x))) xs)"
  by (simp add: json_of_def comp_def)

section \<open>What the runtime should read\<close>

fun definition_options :: "ParsedNodeDefinition \<Rightarrow> DecisionOptionV2 list" where
  "definition_options (ParsedAction _) = []"
| "definition_options (ParsedDecision d) = dd_options d"

fun definition_assessment :: "ParsedNodeDefinition \<Rightarrow> AssessmentContractV2 option" where
  "definition_assessment (ParsedAction _) = None"
| "definition_assessment (ParsedDecision d) = dd_assessment d"

fun definition_reason_required :: "ParsedNodeDefinition \<Rightarrow> bool" where
  "definition_reason_required (ParsedAction _) = False"
| "definition_reason_required (ParsedDecision d) = rp_required (dd_reason d)"

fun placement_target :: "GraphPlacementV2 \<Rightarrow> GraphNodeId option" where
  "placement_target (PlaceAction p) = next_target (ap_outcome p)"
| "placement_target (PlaceDecision p) = None"

fun placement_terminal :: "GraphPlacementV2 \<Rightarrow> bool" where
  "placement_terminal (PlaceAction p) \<longleftrightarrow> ap_outcome p = OutcomeTerminal"
| "placement_terminal (PlaceDecision p) \<longleftrightarrow> False"

fun placement_routes :: "GraphPlacementV2 \<Rightarrow> DecisionRouteEntryV2 list" where
  "placement_routes (PlaceAction p) = []"
| "placement_routes (PlaceDecision p) = route_entries (dp_routes p)"

definition evidence_spec :: "EvidenceReferenceV2 \<Rightarrow> EvidenceSpecV2" where
  "evidence_spec r = \<lparr>ev_source_node = er_source_node r, ev_required = er_required r,
     ev_selected_item_ids = (case er_selected_items r of None \<Rightarrow> [] | Some items \<Rightarrow> items)\<rparr>"

definition option_guards :: "DecisionOptionV2 list \<Rightarrow> OptionId \<rightharpoonup> OptionGuardV2" where
  "option_guards opts = btree_map (List.map_filter (\<lambda>opt. map_option (Pair (do_id opt)) (do_guards opt)) opts)"

definition assessment_outcomes :: "ParsedNodeDefinition \<Rightarrow> OptionId \<rightharpoonup> GoalOutcome" where
  "assessment_outcomes d =
     (case definition_assessment d of None \<Rightarrow> Map.empty
      | Some a \<Rightarrow> btree_map (map (\<lambda>m. (om_option_id m, om_outcome m)) (ac_outcomes a)))"

definition memory_spec :: "ParsedNodeDefinition \<Rightarrow> GraphPlacementV2 \<Rightarrow> NodeMemorySpecV2" where
  "memory_spec d p =
     \<lparr>nm_node_kind = GraphPlacementV2_node_kind p, nm_node_definition_id = placement_definition p,
      nm_items = definition_items d, nm_evidence = map evidence_spec (evidence_list (placement_evidence_from p)),
      nm_options = map do_id (definition_options d), nm_option_guards = option_guards (definition_options d),
      nm_reason_required = definition_reason_required d,
      nm_goal_assessment = (definition_assessment d \<noteq> None), nm_assessment_outcomes = assessment_outcomes d,
      nm_terminal = placement_terminal p, nm_advance_target = placement_target p,
      nm_routes = btree_map (map (\<lambda>e. (entry_option_id e, route_to (entry_route e), route_effect (entry_route e)))
        (placement_routes p))\<rparr>"

text \<open>The stored node of a placement; \<open>bytes\<close> is its canonical text.\<close>

definition node_snapshot :: "ParsedNodeDefinition \<Rightarrow> byte list \<Rightarrow> nat \<Rightarrow> GraphPlacementV2 \<Rightarrow> GraphNodeSnapshotV2" where
  "node_snapshot d bytes i p =
     \<lparr>gn_graph_node_id = GraphPlacementV2_id p, gn_node_definition_id = placement_definition p,
      gn_placement_index = of_nat i, gn_node_kind = GraphPlacementV2_node_kind p,
      gn_goal_assessment = (definition_assessment d \<noteq> None), gn_canonical_placement_json = bytes,
      gn_action_target = Inr (placement_target p), gn_invalid_next_type = False,
      gn_terminal = placement_terminal p,
      gn_skip = (case p of PlaceAction a \<Rightarrow> ap_skip a | PlaceDecision _ \<Rightarrow> None),
      gn_delegated = (case p of PlaceAction a \<Rightarrow> ap_delegation a \<noteq> None | PlaceDecision _ \<Rightarrow> False)\<rparr>"

section \<open>Reading a definition\<close>

definition option_wf :: "DecisionOptionV2 \<Rightarrow> bool" where
  "option_wf opt \<longleftrightarrow> OptionId_new (OptionId_as_str (do_id opt)) = Inr (do_id opt) \<and>
     (\<forall>g. do_guards opt = Some g \<longrightarrow> guard_wf g)"

definition assessment_wf :: "AssessmentContractV2 \<Rightarrow> bool" where
  "assessment_wf a \<longleftrightarrow> distinct (map om_option_id (ac_outcomes a)) \<and>
     (\<forall>m\<in>set (ac_outcomes a). OptionId_new (OptionId_as_str (om_option_id m)) = Inr (om_option_id m))"

definition definition_wf :: "ParsedNodeDefinition \<Rightarrow> bool" where
  "definition_wf d \<longleftrightarrow> (\<forall>item\<in>set (definition_items d). item_wf item) \<and>
     (\<forall>opt\<in>set (definition_options d). option_wf opt) \<and>
     (\<forall>a. definition_assessment d = Some a \<longrightarrow> assessment_wf a)"

lemma option_str_inject [simp]: "OptionId_as_str i = OptionId_as_str j \<longleftrightarrow> i = j"
  by (cases i; cases j) simp

lemma graph_node_str_inject [simp]: "GraphNodeId_as_str i = GraphNodeId_as_str j \<longleftrightarrow> i = j"
  by (cases i; cases j) simp

lemma definition_str_inject [simp]: "NodeDefinitionId_as_str i = NodeDefinitionId_as_str j \<longleftrightarrow> i = j"
  by (cases i; cases j) simp

lemma definition_object:
  obtains m where "into_json (node_definition_value d) = VObject m"
    "json_get m ''items'' = map_option into_json (items_value (definition_items d))"
    "json_get m ''type'' = Some (json_text (case d of ParsedAction _ \<Rightarrow> ''action'' | ParsedDecision _ \<Rightarrow> ''decision''))"
    "json_get m ''options'' = (case d of ParsedAction _ \<Rightarrow> None
       | ParsedDecision dd \<Rightarrow> Some (VArray (map into_json (map decision_option_value (dd_options dd)))))"
    "json_get m ''assessment'' = map_option (\<lambda>a. into_json (assessment_value a)) (definition_assessment d)"
    "json_get m ''reason'' = (case d of ParsedAction _ \<Rightarrow> None
       | ParsedDecision dd \<Rightarrow> Some (into_json (reason_policy_value (dd_reason dd))))"
proof (cases d)
  case (ParsedAction a)
  show thesis
    by (rule that[of "json_of (case action_definition_value a of AuthoringMap es \<Rightarrow> es)"])
      (simp_all add: ParsedAction action_definition_value_def read_simps del: into_json.simps(5))
next
  case (ParsedDecision dd)
  show thesis
    by (rule that[of "json_of (case decision_definition_value dd of AuthoringMap es \<Rightarrow> es)"])
      (simp_all add: ParsedDecision decision_definition_value_def read_simps option.map_comp comp_def del: into_json.simps(5))
qed

lemma read_option:
  assumes "option_wf opt"
  shows "parse_option (into_json (decision_option_value opt)) = Inr (do_id opt, do_guards opt)"
proof (cases "do_guards opt")
  case None
  with assms show ?thesis
    by (simp add: parse_option_def decision_option_value_def read_simps required_text_def option_wf_def
        del: into_json.simps(5))
next
  case (Some g)
  with assms have g: "guard_wf g" by (simp add: option_wf_def)
  then have "collect_ok parse_evidence_predicate_v2 (map into_json (map guard_predicate_value (guard_predicates g)))
      = Inr (guard_predicates g)"
    by (intro collect_ok_map_id) (simp add: guard_wf_def read_evidence_predicate)
  with Some assms g show ?thesis
    by (simp add: parse_option_def decision_option_value_def guards_value_def guard_wf_def read_simps
        required_text_def option_wf_def del: into_json.simps(5) map_map)
qed

lemma GoalOutcome_read [simp]: "GoalOutcome_from_str (GoalOutcome_as_str out) = Inr out"
  by (cases out) (simp_all add: GoalOutcome_from_str_def GoalOutcome_as_str_def)

lemma read_assessment:
  assumes "assessment_wf a" "json_get m ''assessment'' = Some (into_json (assessment_value a))"
  shows "parse_assessment_outcomes m = Inr (btree_map (map (\<lambda>m. (om_option_id m, om_outcome m)) (ac_outcomes a)))"
    "targets_session_goal m"
proof -
  let ?key = "\<lambda>m. OptionId_as_str (om_option_id m)" and ?val = "\<lambda>m. AuthoringText (GoalOutcome_as_str (om_outcome m))"
  define es where "es = Entries_text ''target'' (AssessmentTargetV2_as_str (ac_target a))
      @ Entries_value ''outcomes'' (AuthoringMap (map (\<lambda>m. (?key m, ?val m)) (ac_outcomes a)))"
  define entries where "entries = btree_entries (map (\<lambda>m. (?key m, into_json (?val m))) (ac_outcomes a))"
  have "distinct (map ?key (ac_outcomes a))"
    using assms by (simp add: assessment_wf_def distinct_map inj_on_def)
  then have "\<exists>ys. collect_ok (\<lambda>(key, v).
           rbind (map_err (\<lambda>_. state_invalid ''Procedure v2 assessment option is invalid'') (OptionId_new key)) (\<lambda>oid.
           rbind (ok_or (state_invalid ''Procedure v2 assessment outcome is invalid'') (Value_as_str v)) (\<lambda>text.
           rbind (map_err (\<lambda>_. state_invalid ''Procedure v2 assessment outcome is invalid'')
                    (GoalOutcome_from_str text)) (\<lambda>out. Inr (oid, out))))) entries = Inr ys
      \<and> btree_map ys = btree_map (map (\<lambda>m. (om_option_id m, om_outcome m)) (ac_outcomes a))"
    unfolding entries_def using assms by (intro collect_object) (simp_all add: assessment_wf_def)
  moreover have obj: "get_object m ''assessment'' = Some (json_of es)"
    using assms(2) by (simp add: assessment_value_def es_def into_json_map del: into_json.simps(5))
  moreover have "get_object (json_of es) ''outcomes'' = Some entries"
    by (simp add: es_def read_simps json_of_author_map entries_def del: into_json.simps(5))
  ultimately show "parse_assessment_outcomes m = Inr (btree_map (map (\<lambda>m. (om_option_id m, om_outcome m)) (ac_outcomes a)))"
    unfolding parse_assessment_outcomes_def by auto
  have "get_str (json_of es) ''target'' = Some (lit ''session_goal'')"
    by (cases "ac_target a") (simp add: es_def read_simps del: into_json.simps(5))
  with obj show "targets_session_goal m" by (simp add: targets_session_goal_def)
qed

lemma read_definition:
  assumes "definition_wf d"
  obtains m where "into_json (node_definition_value d) = VObject m"
    "get_str m ''type'' = Some (lit (case d of ParsedAction _ \<Rightarrow> ''action'' | ParsedDecision _ \<Rightarrow> ''decision''))"
    "parse_items m = Inr (definition_items d)"
    "parse_options m = Inr (map do_id (definition_options d), option_guards (definition_options d))"
    "parse_assessment_outcomes m = Inr (assessment_outcomes d)"
    "targets_session_goal m \<longleftrightarrow> definition_assessment d \<noteq> None"
    "unwrap_or False (Option.bind (get_object m ''reason'') (\<lambda>r. get_bool r ''required'')) = definition_reason_required d"
proof -
  from definition_object[of d] obtain m where m: "into_json (node_definition_value d) = VObject m"
    "json_get m ''items'' = map_option into_json (items_value (definition_items d))"
    "json_get m ''type'' = Some (json_text (case d of ParsedAction _ \<Rightarrow> ''action'' | ParsedDecision _ \<Rightarrow> ''decision''))"
    "json_get m ''options'' = (case d of ParsedAction _ \<Rightarrow> None
       | ParsedDecision dd \<Rightarrow> Some (VArray (map into_json (map decision_option_value (dd_options dd)))))"
    "json_get m ''assessment'' = map_option (\<lambda>a. into_json (assessment_value a)) (definition_assessment d)"
    "json_get m ''reason'' = (case d of ParsedAction _ \<Rightarrow> None
       | ParsedDecision dd \<Rightarrow> Some (into_json (reason_policy_value (dd_reason dd))))" by blast
  have "parse_items m = Inr (definition_items d)"
    using read_items[of "definition_items d"] assms by (simp add: parse_items_def m definition_wf_def)
  moreover have "parse_options m = Inr (map do_id (definition_options d), option_guards (definition_options d))"
  proof (cases d)
    case (ParsedDecision dd)
    have "collect_ok parse_option (map into_json (map decision_option_value (dd_options dd)))
        = Inr (map (\<lambda>opt. (do_id opt, do_guards opt)) (dd_options dd))"
      unfolding map_map using assms
      by (subst collect_ok_pure[where g = "\<lambda>v. projr (parse_option v)"])
        (auto simp: ParsedDecision definition_wf_def read_option)
    then show ?thesis
      by (simp add: parse_options_def m ParsedDecision option_guards_def comp_def List.map_filter_def filter_map)
  qed (simp add: parse_options_def m option_guards_def btree_map_def)
  moreover have "parse_assessment_outcomes m = Inr (assessment_outcomes d)"
    "targets_session_goal m \<longleftrightarrow> definition_assessment d \<noteq> None"
    using read_assessment[of _ m] assms
    by (cases "definition_assessment d"; auto simp: assessment_outcomes_def m definition_wf_def
        parse_assessment_outcomes_def targets_session_goal_def)+
  moreover have "unwrap_or False (Option.bind (get_object m ''reason'') (\<lambda>r. get_bool r ''required'')) = definition_reason_required d"
    by (cases d) (simp_all add: m unwrap_or_def reason_policy_value_def read_simps del: into_json.simps(5))
  ultimately show thesis using m by (intro that) auto
qed

section \<open>Reading a placement\<close>

definition reference_wf :: "EvidenceReferenceV2 \<Rightarrow> bool" where
  "reference_wf r \<longleftrightarrow>
     GraphNodeId_new (GraphNodeId_as_str (er_source_node r)) = Inr (er_source_node r) \<and>
     (\<forall>items. er_selected_items r = Some items \<longrightarrow>
        (\<forall>item\<in>set items. ItemId_new (ItemId_as_str item) = Inr item))"

definition route_wf :: "DecisionRouteEntryV2 \<Rightarrow> bool" where
  "route_wf e \<longleftrightarrow> OptionId_new (OptionId_as_str (entry_option_id e)) = Inr (entry_option_id e) \<and>
     GraphNodeId_new (GraphNodeId_as_str (route_to (entry_route e))) = Inr (route_to (entry_route e))"

definition placement_wf :: "GraphPlacementV2 \<Rightarrow> bool" where
  "placement_wf p \<longleftrightarrow>
     GraphNodeId_new (GraphNodeId_as_str (GraphPlacementV2_id p)) = Inr (GraphPlacementV2_id p) \<and>
     NodeDefinitionId_new (NodeDefinitionId_as_str (placement_definition p)) = Inr (placement_definition p) \<and>
     (\<forall>r\<in>set (evidence_list (placement_evidence_from p)). reference_wf r) \<and>
     (\<forall>t. placement_target p = Some t \<longrightarrow> GraphNodeId_new (GraphNodeId_as_str t) = Inr t) \<and>
     (\<forall>e\<in>set (placement_routes p). route_wf e) \<and> distinct (map entry_option_id (placement_routes p)) \<and>
     (\<forall>a skip. p = PlaceAction a \<longrightarrow> ap_skip a = Some skip \<longrightarrow> skip_allowed skip)"

lemma placement_json:
  assumes "into_json (placement_value p) = VObject m"
  shows "m = json_of (case placement_value p of AuthoringMap es \<Rightarrow> es)"
  using assms by (cases p) (simp_all add: into_json_map del: into_json.simps(5))

lemma placement_object:
  assumes "into_json (placement_value p) = VObject m"
  shows "json_get m ''id'' = Some (VString (GraphNodeId_as_str (GraphPlacementV2_id p)))"
    "json_get m ''use'' = Some (VString (NodeDefinitionId_as_str (placement_definition p)))"
    "json_get m ''evidence_from'' = map_option (\<lambda>e. into_json (evidence_from_value e)) (placement_evidence_from p)"
    "json_get m ''next'' = map_option (\<lambda>t. VString (GraphNodeId_as_str t)) (placement_target p)"
    "json_get m ''terminal'' = (if placement_terminal p then Some (VBool True) else None)"
    "json_get m ''skip'' = (case p of PlaceAction a \<Rightarrow> map_option (\<lambda>s. into_json (skip_policy_value s)) (ap_skip a)
       | PlaceDecision _ \<Rightarrow> None)"
    "json_get m ''delegation'' = (case p of PlaceAction a \<Rightarrow> map_option (\<lambda>s. into_json (delegation_value s)) (ap_delegation a)
       | PlaceDecision _ \<Rightarrow> None)"
    "json_get m ''routes'' = (case p of PlaceAction a \<Rightarrow> None | PlaceDecision _ \<Rightarrow>
       Some (VObject (json_of (map (\<lambda>e. (OptionId_as_str (entry_option_id e), route_value (entry_route e))) (placement_routes p)))))"
  unfolding placement_json[OF assms]
  by (cases p; cases "case p of PlaceAction a \<Rightarrow> ap_outcome a | PlaceDecision _ \<Rightarrow> OutcomeTerminal";
      simp add: read_simps option.map_comp comp_def del: into_json.simps(5))+

lemma read_reference:
  assumes "reference_wf r"
  shows "parse_evidence_spec (into_json (evidence_reference_value r)) = Inr (evidence_spec r)"
proof -
  have "collect_ok (\<lambda>item. rbind (ok_or (state_invalid ''Procedure v2 evidence selector is invalid'') (Value_as_str item)) (\<lambda>text.
      map_err (\<lambda>_. state_invalid ''Procedure v2 evidence selector is invalid'') (ItemId_new text)))
      (map VString (map ItemId_as_str items)) = Inr items" if "er_selected_items r = Some items" for items
    using assms that by (intro collect_ok_map_id) (simp add: reference_wf_def)
  with assms show ?thesis
    by (cases "er_selected_items r") (simp_all add: parse_evidence_spec_def evidence_reference_value_def evidence_spec_def
        reference_wf_def required_text_def unwrap_or_def read_simps del: into_json.simps(5) map_map)
qed

lemma read_evidence:
  assumes "\<forall>r\<in>set (evidence_list evidence_from). reference_wf r"
  shows "map_or_ok [] (collect_ok parse_evidence_spec)
     (Option.bind (map_option (\<lambda>e. into_json (evidence_from_value e)) evidence_from) Value_as_array)
     = Inr (map evidence_spec (evidence_list evidence_from))"
proof (cases evidence_from)
  case (Some list)
  have "collect_ok parse_evidence_spec (map (\<lambda>r. into_json (evidence_reference_value r)) (evidence_entries list))
      = Inr (map (\<lambda>v. projr (parse_evidence_spec v)) (map (\<lambda>r. into_json (evidence_reference_value r)) (evidence_entries list)))"
    using assms by (intro collect_ok_pure) (auto simp: Some evidence_list_def read_reference)
  with assms show ?thesis
    by (simp add: Some evidence_list_def evidence_from_value_def comp_def read_reference)
qed (simp add: evidence_list_def)

lemma TransitionEffect_read [simp]: "TransitionEffectV2_from_str (TransitionEffectV2_as_str e) = Inr e"
  by (cases e) (simp_all add: TransitionEffectV2_from_str_def TransitionEffectV2_as_str_def)

lemma read_routes:
  assumes "placement_wf p" "into_json (placement_value p) = VObject m"
  shows "parse_routes m = Inr (btree_map (map (\<lambda>e. (entry_option_id e, route_to (entry_route e), route_effect (entry_route e)))
    (placement_routes p)))"
proof (cases p)
  case (PlaceAction a)
  with placement_object(8)[OF assms(2)] have "json_get m ''routes'' = None" by simp
  then show ?thesis by (simp add: parse_routes_def PlaceAction btree_map_def)
next
  case (PlaceDecision d)
  let ?key = "\<lambda>e. OptionId_as_str (entry_option_id e)" and ?val = "\<lambda>e. route_value (entry_route e)"
  let ?h = "\<lambda>e. (entry_option_id e, route_to (entry_route e), route_effect (entry_route e))"
  have "get_object m ''routes'' = Some (btree_entries (map (\<lambda>e. (?key e, into_json (?val e))) (placement_routes p)))"
    using placement_object(8)[OF assms(2)] by (simp add: PlaceDecision json_of_author_map)
  moreover have "distinct (map ?key (placement_routes p))"
    using assms(1) by (simp add: placement_wf_def distinct_map inj_on_def)
  then have "\<exists>ys. collect_ok (\<lambda>(key, v).
           rbind (ok_or (state_invalid ''Procedure v2 decision route is invalid'') (Value_as_object v)) (\<lambda>route.
           rbind (map_err (\<lambda>_. state_invalid ''Procedure v2 option identity is invalid'') (OptionId_new key)) (\<lambda>oid.
           rbind (required_text route ''to'') (\<lambda>to_text.
           rbind (map_err (\<lambda>_. state_invalid ''Procedure v2 route target is invalid'') (GraphNodeId_new to_text)) (\<lambda>target.
           rbind (required_text route ''effect'') (\<lambda>effect_text.
           rbind (map_err (\<lambda>_. state_invalid ''Procedure v2 route effect is invalid'')
                    (TransitionEffectV2_from_str effect_text)) (\<lambda>effect. Inr (oid, target, effect))))))))
      (btree_entries (map (\<lambda>e. (?key e, into_json (?val e))) (placement_routes p))) = Inr ys \<and>
      btree_map ys = btree_map (map ?h (placement_routes p))"
    using assms(1) by (intro collect_object) (simp_all add: placement_wf_def route_wf_def route_value_def read_simps
        required_text_def distinct_map del: into_json.simps(5))
  ultimately show ?thesis unfolding parse_routes_def by auto
qed

section \<open>Reading the graph\<close>

lemma btree_entries_subset: "set (btree_entries es) \<subseteq> set es"
proof
  fix e assume e: "e \<in> set (btree_entries es)"
  obtain k v where kv: "e = (k, v)" by (cases e)
  with e have "map_of (btree_entries es) k = Some v"
    using btree_entries_distinct[of es] by (simp add: map_of_eq_Some_iff)
  then have "map_of (rev es) k = Some v" by (simp add: btree_entries_lookup)
  with kv show "e \<in> set es" by (auto dest: map_of_SomeD)
qed

lemma collect_ok_total: "(\<And>x. x \<in> set xs \<Longrightarrow> \<exists>y. f x = Inr y) \<Longrightarrow> \<exists>ys. collect_ok f xs = Inr ys"
  by (induction xs) fastforce+

lemma projection_is_canonicalizable: "\<exists>bytes. canonicalize_value ext (into_json v) = Inr bytes"
  unfolding canonicalize_value_def
proof (induction v rule: into_json.induct)
  case (3 w)
  have "Value_as_i64 (VInt (sint w)) \<noteq> None" by (simp del: Value_as_i64.simps(1))
  then show ?case by (simp del: Value_as_i64.simps(1))
next
  case (4 vs)
  then have "\<exists>ys. collect_ok (write_canonical_json ext) (map into_json vs) = Inr ys"
    by (intro collect_ok_total) auto
  then show ?case by auto
next
  case (5 entries)
  let ?es = "map (\<lambda>(k, v). (k, into_json v)) entries"
  have "\<exists>ys. collect_ok (\<lambda>(k, v). rbind (write_canonical_json ext v) (\<lambda>bytes. Inr (ext_json_string ext k @ [58] @ bytes)))
      (sort_key (\<lambda>(k, v). as_bytes k) (btree_entries ?es)) = Inr ys"
  proof (rule collect_ok_total)
    fix e assume "e \<in> set (sort_key (\<lambda>(k, v). as_bytes k) (btree_entries ?es))"
    then have "e \<in> set ?es" using btree_entries_subset[of ?es] by auto
    then obtain k v where kv: "(k, v) \<in> set entries" "e = (k, into_json v)" by auto
    with 5[OF kv(1) refl] show "\<exists>y. (case e of (k, v) \<Rightarrow>
        rbind (write_canonical_json ext v) (\<lambda>bytes. Inr (ext_json_string ext k @ [58] @ bytes))) = Inr y" by auto
  qed
  then show ?case by auto
qed simp_all

lemma lookup_renamed:
  assumes "inj f"
  shows "map_of (map (\<lambda>d. (f (k d), g d)) ds) (f x) = map_option g (map_of (map (\<lambda>d. (k d, d)) ds) x)"
  using assms by (induction ds) (auto dest: injD)

definition definitions_json :: "ParsedProcedureV2 \<Rightarrow> json_map" where
  "definitions_json P = json_of (map (\<lambda>d. (NodeDefinitionId_as_str (ParsedNodeDefinition_id d), node_definition_value d))
     (pp_node_definitions P))"

lemma lookup_definitions_json:
  "map_of (definitions_json P) (NodeDefinitionId_as_str did)
     = map_option (\<lambda>d. into_json (node_definition_value d)) (definition_index P did)"
proof -
  have "inj NodeDefinitionId_as_str" by (rule injI) simp
  from lookup_renamed[OF this, of ParsedNodeDefinition_id node_definition_value "rev (pp_node_definitions P)" did]
  show ?thesis
    by (simp add: definitions_json_def lookup_json_of entry_of_def definition_index_def btree_map_def rev_map
        option.map_comp comp_def)
qed

text \<open>What closed-reference validation has established of a placement and its definition.\<close>

definition kind_agrees :: "GraphPlacementV2 \<Rightarrow> ParsedNodeDefinition \<Rightarrow> bool" where
  "kind_agrees p d \<longleftrightarrow> ((\<exists>a. p = PlaceAction a) \<longleftrightarrow> (\<exists>a. d = ParsedAction a))"

definition resolved :: "ParsedProcedureV2 \<Rightarrow> GraphPlacementV2 \<Rightarrow> ParsedNodeDefinition \<Rightarrow> bool" where
  "resolved P p d \<longleftrightarrow> placement_wf p \<and> definition_wf d \<and>
     definition_index P (placement_definition p) = Some d \<and> kind_agrees p d"

lemma read_graph_node:
  assumes "resolved P p d" "i < 2 ^ 32" "into_json (placement_value p) = VObject m"
  obtains bytes where "canonicalize_value ext (VObject m) = Inr bytes"
    "parse_graph_node ext (definitions_json P) i (VObject m) m (GraphPlacementV2_id p) = Inr (node_snapshot d bytes i p)"
proof -
  note wf = assms(1)[unfolded resolved_def placement_wf_def]
  note obj = placement_object[OF assms(3)]
  obtain bytes where bytes: "canonicalize_value ext (VObject m) = Inr bytes"
    using projection_is_canonicalizable[of ext "placement_value p"] assms(3) by metis
  obtain dm where dm: "into_json (node_definition_value d) = VObject dm"
    "get_str dm ''type'' = Some (lit (case d of ParsedAction _ \<Rightarrow> ''action'' | ParsedDecision _ \<Rightarrow> ''decision''))"
    "targets_session_goal dm \<longleftrightarrow> definition_assessment d \<noteq> None"
    using read_definition[of d] wf by metis
  have skip: "parse_skip_policy m = (case p of PlaceAction a \<Rightarrow> ap_skip a | PlaceDecision _ \<Rightarrow> None)"
    using wf obj(6) by (cases p; cases "case p of PlaceAction a \<Rightarrow> ap_skip a | PlaceDecision _ \<Rightarrow> None")
      (auto simp: parse_skip_policy_def skip_policy_value_def read_simps simp del: into_json.simps(5))
  have target: "(case get_str m ''next'' of None \<Rightarrow> Inr None
       | Some target \<Rightarrow> rbind (map_err (\<lambda>_. state_invalid ''Procedure v2 action target is invalid'')
           (GraphNodeId_new target)) (\<lambda>t. Inr (Some t))) = Inr (placement_target p)"
    using wf by (cases "placement_target p") (simp_all add: obj)
  have next_type: "\<not> is_some_and (json_get m ''next'') (\<lambda>v. Value_as_str v = None)"
    by (cases "placement_target p") (simp_all add: obj is_some_and_def)
  have terminal: "(get_bool m ''terminal'' = Some True) = placement_terminal p" by (simp add: obj)
  have delegated: "(json_get m ''delegation'' \<noteq> None) =
      (case p of PlaceAction a \<Rightarrow> ap_delegation a \<noteq> None | PlaceDecision _ \<Rightarrow> False)"
    by (cases p) (simp_all add: obj)
  define kind_text where "kind_text = lit (case d of ParsedAction _ \<Rightarrow> ''action'' | ParsedDecision _ \<Rightarrow> ''decision'')"
  have kind: "(if kind_text = lit ''action'' then Inr KindAction else if kind_text = lit ''decision'' then Inr KindDecision
      else Inl e) = Inr (GraphPlacementV2_node_kind p)" for e :: ProcedureStateErrorV2
    using wf by (cases d; cases p) (auto simp: kind_agrees_def kind_text_def)
  have use: "get_str m ''use'' = Some (NodeDefinitionId_as_str (placement_definition p))" by (simp add: obj)
  have named: "NodeDefinitionId_new (NodeDefinitionId_as_str (placement_definition p)) = Inr (placement_definition p)"
    using wf by simp
  have found: "Option.bind (map_of (definitions_json P) (NodeDefinitionId_as_str (placement_definition p))) Value_as_object = Some dm"
    using wf dm(1) by (simp add: lookup_definitions_json)
  have "parse_graph_node ext (definitions_json P) i (VObject m) m (GraphPlacementV2_id p)
    = Inr (node_snapshot d bytes i p)"
    by (simp only: parse_graph_node_def required_string_def use found named dm(2)[folded kind_text_def] kind bytes
        result_simps assms(2) if_True)
      (simp add: node_snapshot_def target next_type terminal delegated dm(3) skip del: not_None_eq)
  with bytes show thesis by (rule that)
qed

text \<open>The stored nodes of a list of placements, numbered from \<open>index\<close>, each with its canonical bytes.\<close>

definition stores_nodes :: "externals \<Rightarrow> ParsedProcedureV2 \<Rightarrow> nat \<Rightarrow> GraphPlacementV2 list \<Rightarrow> GraphNodeSnapshotV2 list \<Rightarrow> bool" where
  "stores_nodes ext P index ps nodes \<longleftrightarrow>
     list_all2 (\<lambda>(i, p) node. \<exists>d bytes. resolved P p d \<and> node = node_snapshot d bytes i p \<and>
       canonicalize_value ext (into_json (placement_value p)) = Inr bytes) (enumerate index ps) nodes"

lemma read_graph_nodes:
  assumes "\<forall>p\<in>set ps. \<exists>d. resolved P p d" "distinct (map GraphPlacementV2_id ps)"
    "set (map GraphPlacementV2_id ps) \<inter> set seen = {}" "index + length ps \<le> 2 ^ 32"
  shows "\<exists>nodes. parse_graph_nodes ext (definitions_json P) index seen (map into_json (map placement_value ps)) = Inr nodes
    \<and> stores_nodes ext P index ps nodes"
  using assms
proof (induction ps arbitrary: index seen)
  case Nil
  then show ?case by (simp add: stores_nodes_def)
next
  case (Cons p ps)
  obtain d where d: "resolved P p d" using Cons.prems(1) by auto
  obtain m where m: "into_json (placement_value p) = VObject m" by (cases p) simp_all
  have "index < 2 ^ 32" using Cons.prems(4) by simp
  from read_graph_node[OF d this m, of ext] obtain bytes where
    bytes: "canonicalize_value ext (VObject m) = Inr bytes" and node: "parse_graph_node ext (definitions_json P) index (VObject m) m (GraphPlacementV2_id p)
      = Inr (node_snapshot d bytes index p)" by blast
  have "\<exists>nodes. parse_graph_nodes ext (definitions_json P) (Suc index) (GraphPlacementV2_id p # seen)
      (map into_json (map placement_value ps)) = Inr nodes \<and> stores_nodes ext P (Suc index) ps nodes"
    using Cons.prems by (intro Cons.IH) auto
  then obtain nodes where nodes: "parse_graph_nodes ext (definitions_json P) (Suc index) (GraphPlacementV2_id p # seen)
      (map into_json (map placement_value ps)) = Inr nodes" "stores_nodes ext P (Suc index) ps nodes" by blast
  have "GraphNodeId_new (GraphNodeId_as_str (GraphPlacementV2_id p)) = Inr (GraphPlacementV2_id p)"
    using d by (simp add: resolved_def placement_wf_def)
  then have "parse_graph_nodes ext (definitions_json P) index seen (map into_json (map placement_value (p # ps)))
      = Inr (node_snapshot d bytes index p # nodes)"
    using Cons.prems(3) node nodes(1) by (simp add: m required_string_def placement_object[OF m] del: map_map)
  moreover have "stores_nodes ext P index (p # ps) (node_snapshot d bytes index p # nodes)"
    using d bytes nodes(2) m by (auto simp: stores_nodes_def enumerate_simps)
  ultimately show ?case by blast
qed

section \<open>Reading the memory model\<close>

lemma read_node_memory_spec:
  assumes "resolved P p d" "get_object root ''graph'' = Some graph"
    "get_array graph ''nodes'' = Some (map into_json (map placement_value ps))" "i < length ps" "ps ! i = p" "i < 2 ^ 32"
  shows "parse_node_memory_spec root (definitions_json P) (node_snapshot d bytes i p)
    = Inr (GraphPlacementV2_id p, memory_spec d p)"
proof -
  note wf = assms(1)[unfolded resolved_def]
  have pw: "placement_wf p" and dw: "definition_wf d" using wf by simp_all
  obtain m where m: "into_json (placement_value p) = VObject m" by (cases p) simp_all
  have index: "unat (gn_placement_index (node_snapshot d bytes i p)) = i"
    using assms(6) by (simp add: node_snapshot_def unat_of_nat)
  have at: "Value_as_object (map into_json (map placement_value ps) ! i) = Some m"
    using assms(4,5) m by simp
  have placement: "Option.bind (Option.bind (get_object root ''graph'') (\<lambda>graph. get_array graph ''nodes'')) (\<lambda>placements.
          let i = unat (gn_placement_index (node_snapshot d bytes i p)) in
          if i < length placements then Value_as_object (placements ! i) else None) = Some m"
    unfolding index using assms(2-4) at by (simp add: Let_def del: map_map)
  obtain dm where dm: "into_json (node_definition_value d) = VObject dm"
    "parse_items dm = Inr (definition_items d)"
    "parse_options dm = Inr (map do_id (definition_options d), option_guards (definition_options d))"
    "parse_assessment_outcomes dm = Inr (assessment_outcomes d)"
    "targets_session_goal dm \<longleftrightarrow> definition_assessment d \<noteq> None"
    "unwrap_or False (Option.bind (get_object dm ''reason'') (\<lambda>r. get_bool r ''required'')) = definition_reason_required d"
    using read_definition[OF dw] by metis
  have found: "Option.bind (map_of (definitions_json P)
      (NodeDefinitionId_as_str (gn_node_definition_id (node_snapshot d bytes i p)))) Value_as_object = Some dm"
    using wf dm(1) by (simp add: lookup_definitions_json node_snapshot_def)
  have evidence: "map_or_ok [] (collect_ok parse_evidence_spec) (get_array m ''evidence_from'')
      = Inr (map evidence_spec (evidence_list (placement_evidence_from p)))"
    using read_evidence pw by (simp add: placement_object[OF m] placement_wf_def)
  have target: "GraphNodeSnapshotV2_advance_target (node_snapshot d bytes i p) = Inr (placement_target p)"
    by (simp add: GraphNodeSnapshotV2_advance_target_def node_snapshot_def)
  show ?thesis
    by (simp only: parse_node_memory_spec_def placement found dm(2-6) evidence read_routes[OF pw m] target
        result_simps prod.case)
      (simp add: memory_spec_def node_snapshot_def)
qed

section \<open>Reading the document\<close>

definition procedure_wf :: "ParsedProcedureV2 \<Rightarrow> bool" where
  "procedure_wf P \<longleftrightarrow>
     (\<forall>d\<in>set (pp_node_definitions P). definition_wf d) \<and>
     (\<forall>p\<in>set (pg_placements (pp_graph P)). placement_wf p) \<and>
     length (pg_placements (pp_graph P)) \<le> 1024 \<and>
     distinct (map GraphPlacementV2_id (pg_placements (pp_graph P))) \<and>
     pg_entry (pp_graph P) \<in> GraphPlacementV2_id ` set (pg_placements (pp_graph P)) \<and>
     GraphNodeId_new (GraphNodeId_as_str (pg_entry (pp_graph P))) = Inr (pg_entry (pp_graph P)) \<and>
     (\<forall>targets. pg_manual_rework (pp_graph P) = Some targets \<longrightarrow>
        (\<forall>t\<in>set (rework_targets targets). GraphNodeId_new (GraphNodeId_as_str t) = Inr t))"

definition manual_targets :: "ParsedProcedureV2 \<Rightarrow> GraphNodeId list" where
  "manual_targets P = (case pg_manual_rework (pp_graph P) of None \<Rightarrow> [] | Some targets \<Rightarrow> rework_targets targets)"

text \<open>The runtime has the procedure: its texts, its nodes in author order, the memory model of every node.\<close>

definition runtime_stores :: "ParsedProcedureV2 \<Rightarrow> ProcedureRuntimeV2 \<Rightarrow> bool" where
  "runtime_stores P rt \<longleftrightarrow>
     rt_procedure_id rt = pp_id P \<and> rt_procedure_version rt = pp_version P \<and>
     rt_name rt = pp_name P \<and> rt_purpose rt = pp_purpose P \<and>
     rt_goal_tracking rt = goal_tracking_enabled P \<and> rt_entry_graph_node_id rt = pg_entry (pp_graph P) \<and>
     list_all2 (\<lambda>(i, p) node. \<exists>d bytes. definition_index P (placement_definition p) = Some d \<and> node = node_snapshot d bytes i p)
       (enumerate 0 (pg_placements (pp_graph P))) (rt_graph_nodes rt) \<and>
     (\<exists>model. rt_memory_model rt = Inr model \<and> mm_manual_rework_targets model = manual_targets P \<and>
        dom (mm_nodes model) = GraphPlacementV2_id ` set (pg_placements (pp_graph P)) \<and>
        (\<forall>p\<in>set (pg_placements (pp_graph P)). \<exists>d. definition_index P (placement_definition p) = Some d \<and>
           mm_nodes model (GraphPlacementV2_id p) = Some (memory_spec d p)))"

definition document_root :: "ParsedProcedureV2 \<Rightarrow> json_map" where
  "document_root P = json_of (case authoring_document_value P of AuthoringMap es \<Rightarrow> es)"

definition document_graph :: "ParsedProcedureV2 \<Rightarrow> json_map" where
  "document_graph P = json_of (case graph_value (pp_graph P) of AuthoringMap es \<Rightarrow> es)"

lemma document_object:
  "canonical_document_value P = VObject (document_root P)"
  "get_str (document_root P) ''schema'' = Some PROCEDURE_SCHEMA_V2"
  "get_str (document_root P) ''id'' = Some (pp_id P)"
  "get_str (document_root P) ''version'' = Some (pp_version P)"
  "get_str (document_root P) ''name'' = Some (pp_name P)"
  "get_str (document_root P) ''purpose'' = Some (pp_purpose P)"
  "json_get (document_root P) ''goal_tracking'' = (if goal_tracking_enabled P then Some (VBool True) else None)"
  "get_object (document_root P) ''node_definitions'' = Some (definitions_json P)"
  "get_object (document_root P) ''graph'' = Some (document_graph P)"
  by (simp_all add: canonical_document_value_def document_root_def document_graph_def graph_value_def
      authoring_document_value_def definitions_json_def read_simps del: into_json.simps(5))

lemma document_graph_object:
  "get_str (document_graph P) ''entry'' = Some (GraphNodeId_as_str (pg_entry (pp_graph P)))"
  "get_array (document_graph P) ''nodes'' = Some (map into_json (map placement_value (pg_placements (pp_graph P))))"
  by (simp_all add: document_graph_def graph_value_def read_simps)

lemma document_manual_rework:
  "Option.bind (get_object (document_root P) ''manual_rework'') (\<lambda>m. get_array m ''allowed_targets'') =
     map_option (\<lambda>targets. map VString (map GraphNodeId_as_str (rework_targets targets))) (pg_manual_rework (pp_graph P))"
  by (cases "pg_manual_rework (pp_graph P)") (simp_all add: document_root_def authoring_document_value_def read_simps
      manual_rework_value_def del: into_json.simps(5))

lemma read_memory_model:
  assumes "procedure_wf P" "stores_nodes ext P 0 (pg_placements (pp_graph P)) nodes"
  shows "\<exists>model. SnapshotMemoryModelV2_parse (document_root P) nodes = Inr model \<and> mm_manual_rework_targets model = manual_targets P \<and>
    dom (mm_nodes model) = GraphPlacementV2_id ` set (pg_placements (pp_graph P)) \<and>
    (\<forall>p\<in>set (pg_placements (pp_graph P)). \<exists>d. definition_index P (placement_definition p) = Some d \<and>
       mm_nodes model (GraphPlacementV2_id p) = Some (memory_spec d p))"
proof -
  let ?ps = "pg_placements (pp_graph P)"
  let ?root = "document_root P"
  note root = document_object(8,9) document_graph_object(2) document_manual_rework
  define spec where "spec p = (GraphPlacementV2_id p, memory_spec (the (definition_index P (placement_definition p))) p)" for p
  have len: "length nodes = length ?ps" using assms(2) by (auto simp: stores_nodes_def dest: list_all2_lengthD)
  have "parse_node_memory_spec ?root (definitions_json P) (nodes ! i) = Inr (spec (?ps ! i))" if i: "i < length ?ps" for i
  proof -
    from list_all2_nthD[OF assms(2)[unfolded stores_nodes_def], of i] i obtain d bytes where
      "resolved P (?ps ! i) d" "nodes ! i = node_snapshot d bytes i (?ps ! i)" by (auto simp: nth_enumerate_eq)
    moreover have "i < 2 ^ 32" using i assms(1) by (simp add: procedure_wf_def)
    ultimately show ?thesis
      using read_node_memory_spec[OF _ root(2,3) i refl] by (simp add: spec_def resolved_def)
  qed
  then have "list_all2 (\<lambda>x y. parse_node_memory_spec ?root (definitions_json P) x = Inr y) nodes (map spec ?ps)"
    using len by (simp add: list_all2_conv_all_nth)
  then have specs: "collect_ok (parse_node_memory_spec ?root (definitions_json P)) nodes = Inr (map spec ?ps)"
    by (simp add: collect_ok_Inr)
  have "parse_manual_rework_targets ?root = Inr (manual_targets P)"
  proof (cases "pg_manual_rework (pp_graph P)")
    case (Some targets)
    have "collect_ok (\<lambda>target. rbind (ok_or (state_invalid ''Procedure v2 manual rework target is invalid'') (Value_as_str target))
        (\<lambda>text. map_err (\<lambda>_. state_invalid ''Procedure v2 manual rework target is invalid'') (GraphNodeId_new text)))
        (map VString (map GraphNodeId_as_str (rework_targets targets))) = Inr (rework_targets targets)"
      using assms(1) Some by (intro collect_ok_map_id) (simp add: procedure_wf_def)
    with Some root(4) show ?thesis by (simp add: parse_manual_rework_targets_def manual_targets_def del: map_map)
  next
    case None
    show ?thesis unfolding parse_manual_rework_targets_def document_manual_rework None by (simp add: manual_targets_def None)
  qed
  with specs have parsed: "SnapshotMemoryModelV2_parse ?root nodes =
      Inr \<lparr>mm_nodes = btree_map (map spec ?ps), mm_manual_rework_targets = manual_targets P\<rparr>"
    by (simp add: SnapshotMemoryModelV2_parse_def root)
  have "distinct (map fst (rev (map spec ?ps)))"
    using assms(1) by (simp add: procedure_wf_def spec_def rev_map[symmetric] comp_def)
  then have look: "btree_map (map spec ?ps) (GraphPlacementV2_id p) = Some (snd (spec p))" if "p \<in> set ?ps" for p
    using that by (simp add: btree_map_def map_of_eq_Some_iff) (auto simp: spec_def)
  have dom: "dom (btree_map (map spec ?ps)) = GraphPlacementV2_id ` set ?ps"
    by (simp add: btree_map_def dom_map_of_conv_image_fst spec_def image_image)
  have defined: "\<exists>d. definition_index P (placement_definition p) = Some d" if "p \<in> set ?ps" for p
  proof -
    from that obtain i where "i < length ?ps" "?ps ! i = p" by (auto simp: in_set_conv_nth)
    with list_all2_nthD[OF assms(2)[unfolded stores_nodes_def], of i] show ?thesis
      by (auto simp: nth_enumerate_eq resolved_def)
  qed
  show ?thesis
  proof (intro exI conjI ballI)
    show "SnapshotMemoryModelV2_parse ?root nodes =
      Inr \<lparr>mm_nodes = btree_map (map spec ?ps), mm_manual_rework_targets = manual_targets P\<rparr>" by (rule parsed)
    fix p assume p: "p \<in> set ?ps"
    then show "definition_index P (placement_definition p) = Some (the (definition_index P (placement_definition p)))"
      using defined by force
    show "mm_nodes \<lparr>mm_nodes = btree_map (map spec ?ps), mm_manual_rework_targets = manual_targets P\<rparr> (GraphPlacementV2_id p)
      = Some (memory_spec (the (definition_index P (placement_definition p))) p)"
      using look[OF p] by (simp add: spec_def)
  qed (simp_all add: dom)
qed

lemma read_document:
  assumes wf: "procedure_wf P" and closed: "\<forall>p\<in>set (pg_placements (pp_graph P)). \<exists>d. resolved P p d"
    and doc: "doc_document doc = canonical_document_value P"
  shows "\<exists>rt. ProcedureRuntimeV2_from_admitted_document ext doc = Inr rt \<and> runtime_stores P rt \<and>
    stores_nodes ext P 0 (pg_placements (pp_graph P)) (rt_graph_nodes rt) \<and> rt_canonical_json rt = doc_canonical_json doc"
proof -
  let ?ps = "pg_placements (pp_graph P)"
  let ?root = "document_root P"
  note obj = document_object[of P] document_graph_object[of P]
  obtain nodes where nodes: "parse_graph_nodes ext (definitions_json P) 0 [] (map into_json (map placement_value ?ps)) = Inr nodes"
    "stores_nodes ext P 0 ?ps nodes"
    using read_graph_nodes[OF closed, of "[]" 0 ext] wf by (auto simp: procedure_wf_def)
  obtain model where model: "SnapshotMemoryModelV2_parse ?root nodes = Inr model"
    "mm_manual_rework_targets model = manual_targets P" "dom (mm_nodes model) = GraphPlacementV2_id ` set ?ps"
    "\<forall>p\<in>set ?ps. \<exists>d. definition_index P (placement_definition p) = Some d \<and> mm_nodes model (GraphPlacementV2_id p) = Some (memory_spec d p)"
    using read_memory_model[OF wf nodes(2)] by blast
  define rt where "rt = \<lparr>rt_procedure_id = pp_id P, rt_procedure_version = pp_version P, rt_name = pp_name P,
      rt_purpose = pp_purpose P, rt_digest = doc_digest doc, rt_canonical_json = doc_canonical_json doc,
      rt_goal_tracking = goal_tracking_enabled P, rt_entry_graph_node_id = pg_entry (pp_graph P),
      rt_graph_nodes = nodes, rt_memory_model = SnapshotMemoryModelV2_parse ?root nodes\<rparr>"
  have ids: "map gn_graph_node_id nodes = map GraphPlacementV2_id ?ps"
    using nodes(2) by (auto simp: stores_nodes_def node_snapshot_def list_eq_iff_nth_eq list_all2_conv_all_nth nth_enumerate_eq)
  have goal: "(case json_get ?root ''goal_tracking'' of None \<Rightarrow> Inr False
       | Some v \<Rightarrow> if v = VBool True then Inr True
                   else Inl (state_invalid ''Procedure v2 goal tracking must be absent or true'')) = Inr (goal_tracking_enabled P)"
    by (simp add: obj)
  have entry: "GraphNodeId_new (GraphNodeId_as_str (pg_entry (pp_graph P))) = Inr (pg_entry (pp_graph P))"
    "pg_entry (pp_graph P) \<in> set (map gn_graph_node_id nodes)"
    using wf unfolding ids by (simp_all add: procedure_wf_def)
  have count: "\<not> (map into_json (map placement_value ?ps) = [] \<or>
      length (map into_json (map placement_value ?ps)) > MAX_GRAPH_NODES_PER_PROCEDURE_V2)"
    using wf by (auto simp: procedure_wf_def MAX_GRAPH_NODES_PER_PROCEDURE_V2_def)
  have "ProcedureRuntimeV2_from_admitted_document ext doc = Inr rt"
    by (simp only: ProcedureRuntimeV2_from_admitted_document_def doc obj(1) required_string_def obj(2-6) obj(8-11) goal
        Value_as_object.simps entry(1) nodes(1) count if_False result_simps not_not entry(2) HOL.simp_thms rt_def)
  moreover have "runtime_stores P rt"
    unfolding runtime_stores_def
  proof (intro conjI)
    show "list_all2 (\<lambda>(i, p) node. \<exists>d bytes. definition_index P (placement_definition p) = Some d \<and> node = node_snapshot d bytes i p)
       (enumerate 0 ?ps) (rt_graph_nodes rt)"
      unfolding rt_def ProcedureRuntimeV2.simps
      by (rule list_all2_mono[OF nodes(2)[unfolded stores_nodes_def]]) (auto simp: resolved_def)
    show "\<exists>model. rt_memory_model rt = Inr model \<and> mm_manual_rework_targets model = manual_targets P \<and>
        dom (mm_nodes model) = GraphPlacementV2_id ` set ?ps \<and>
        (\<forall>p\<in>set ?ps. \<exists>d. definition_index P (placement_definition p) = Some d \<and>
           mm_nodes model (GraphPlacementV2_id p) = Some (memory_spec d p))"
      by (rule exI[of _ model]) (intro conjI model(2-4), simp add: rt_def model(1))
  qed (simp_all add: rt_def)
  moreover have "stores_nodes ext P 0 ?ps (rt_graph_nodes rt)" "rt_canonical_json rt = doc_canonical_json doc"
    using nodes(2) by (simp_all add: rt_def)
  ultimately show ?thesis by blast
qed

end
