(* ===== verification/Parsed_Procedures.thy ===== *)
theory Parsed_Procedures
  imports Document_Round_Trip Canonical_Props "HOL-Library.Code_Target_Nat"
begin

text \<open>
  Every procedure the parser returns is well formed, closed-reference validation resolves every
  placement, and hence the runtime of a validated procedure is the procedure.
\<close>

section \<open>The parser returns well-formed values\<close>

lemma mapped_id_wf:
  "ItemId_new s = Inr i \<Longrightarrow> ItemId_new (ItemId_as_str i) = Inr i"
  "GraphNodeId_new s = Inr g \<Longrightarrow> GraphNodeId_new (GraphNodeId_as_str g) = Inr g"
  "NodeDefinitionId_new s = Inr d \<Longrightarrow> NodeDefinitionId_new (NodeDefinitionId_as_str d) = Inr d"
  "OptionId_new s = Inr p \<Longrightarrow> OptionId_new (OptionId_as_str p) = Inr p"
  "OperationId_new s = Inr q \<Longrightarrow> OperationId_new (OperationId_as_str q) = Inr q"
  "Sha256Digest_new s = Inr h \<Longrightarrow> Sha256Digest_new (Sha256Digest_as_str h) = Inr h"
  by (simp_all add: new_as_str)

lemma mapped_scalar:
  assumes "map_predicate_scalar v = Inr (PsText t)"
  shows "PredicateScalarV2_text t = Inr (PsText t)"
  using assms by (cases v) (auto simp: PredicateScalarV2_text_def)

lemma single_case [simp]: "(case xs of [a] \<Rightarrow> Inr a | _ \<Rightarrow> Inl e) = Inr y \<longleftrightarrow> xs = [y]"
  by (auto split: list.splits)

lemma mapped_operator_wf:
  assumes "map_operator a b c wire = Inr operator"
  shows "operator_wf operator"
proof -
  define least where "least = (case ow_at_least wire of Some n \<Rightarrow> [OpAtLeast n] | None \<Rightarrow> [])"
  define most where "most = (case ow_at_most wire of Some n \<Rightarrow> [OpAtMost n] | None \<Rightarrow> [])"
  from assms obtain equals not_equals empty non_empty where
    e: "map_or_ok [] (\<lambda>v. rbind (map_predicate_scalar v) (\<lambda>s. Inr [OpEquals s])) (ow_equals wire) = Inr equals"
    and n: "map_or_ok [] (\<lambda>v. rbind (map_predicate_scalar v) (\<lambda>s. Inr [OpNotEquals s])) (ow_not_equals wire) = Inr not_equals"
    and f: "operator_flag a OpEmpty (ow_empty wire) = Inr empty" "operator_flag b OpNonEmpty (ow_non_empty wire) = Inr non_empty"
    and one: "equals @ not_equals @ empty @ non_empty @ least @ most = [operator]"
    unfolding map_operator_def least_def[symmetric] most_def[symmetric] rbind_eq_Inr single_case by blast
  have "\<forall>op\<in>set equals. operator_wf op"
    using e by (cases "ow_equals wire") (auto simp: map_or_ok_def operator_wf_def intro: mapped_scalar)
  moreover have "\<forall>op\<in>set not_equals. operator_wf op"
    using n by (cases "ow_not_equals wire") (auto simp: map_or_ok_def operator_wf_def intro: mapped_scalar)
  moreover have "\<forall>op\<in>set empty. operator_wf op" "\<forall>op\<in>set non_empty. operator_wf op"
    using f by (auto simp: operator_flag_def operator_wf_def split: option.splits if_splits)
  moreover have "\<forall>op\<in>set least. operator_wf op" "\<forall>op\<in>set most. operator_wf op"
    by (auto simp: operator_wf_def least_def most_def split: option.splits)
  ultimately have "\<forall>op\<in>set [operator]. operator_wf op" unfolding one[symmetric] by auto
  then show ?thesis by simp
qed

lemma collected: "collect_ok f xs = Inr ys \<Longrightarrow> y \<in> set ys \<Longrightarrow> \<exists>x\<in>set xs. f x = Inr y"
  by (induction xs arbitrary: ys) auto

lemma collected_all: "collect_ok f xs = Inr ys \<Longrightarrow> (\<And>x y. f x = Inr y \<Longrightarrow> P y) \<Longrightarrow> \<forall>y\<in>set ys. P y"
  by (induction xs arbitrary: ys) auto

lemma mapped_predicate_wf:
  "map_item_predicate w = Inr p \<Longrightarrow> predicate_wf p"
  "map_evidence_predicate v = Inr q \<Longrightarrow> evidence_predicate_wf q"
  by (auto simp: map_item_predicate_def map_evidence_predicate_def predicate_wf_def evidence_predicate_wf_def
      mapped_id_wf mapped_operator_wf)

lemma mapped_condition_wf:
  assumes "collect_ok map_item_predicate ws = Inr ps" "ItemConditionV2_new ps = Inr c"
  shows "condition_wf c"
proof -
  have "condition_predicates c = ps" using assms(2) by (auto simp: ItemConditionV2_new_def split: if_splits)
  moreover have "\<forall>p\<in>set ps. predicate_wf p" using assms(1) mapped_predicate_wf(1) by (rule collected_all)
  ultimately show ?thesis using assms(2) by (simp add: condition_wf_def)
qed

lemma mapped_guard_wf:
  assumes "collect_ok map_evidence_predicate ws = Inr ps" "OptionGuardV2_new ps = Inr g"
  shows "guard_wf g"
proof -
  have "guard_predicates g = ps" using assms(2) by (auto simp: OptionGuardV2_new_def split: if_splits)
  moreover have "\<forall>p\<in>set ps. evidence_predicate_wf p" using assms(1) mapped_predicate_wf(2) by (rule collected_all)
  ultimately show ?thesis using assms(2) by (simp add: guard_wf_def)
qed

lemma mapped_common_wf:
  assumes "item_common w = Inr c"
  shows "common_wf c"
proof -
  from assms obtain iid required_when common where iid: "ItemId_new (cw_id w) = Inr iid"
    and rw: "(case cw_required_when w of None \<Rightarrow> required_when = None
      | Some ws \<Rightarrow> \<exists>rw. rbind (collect_ok map_item_predicate ws) (\<lambda>ps. mapped (ItemConditionV2_new ps)) = Inr rw \<and> required_when = Some rw)"
    and c: "ItemCommonV2_new iid (cw_prompt w) (cw_help w) (cw_required w) = Inr common"
      "with_required_when common required_when = Inr c"
    by (auto simp: item_common_def)
  have parts: "ic_id c = iid" "ic_prompt c = cw_prompt w" "ic_help c = cw_help w" "ic_required c = cw_required w"
    "ic_required_when c = required_when"
    using c by (auto simp: ItemCommonV2_new_def with_required_when_def split: if_splits option.splits)
  have "condition_wf condition" if "required_when = Some condition" for condition
    using rw that by (auto split: option.splits intro: mapped_condition_wf)
  with iid c show ?thesis by (auto simp: common_wf_def parts mapped_id_wf)
qed

lemma constructed_fields:
  "TextItemSpecV2_new c a b m = Inr t \<Longrightarrow> fields_wf (SpecText t) \<and> txt_common t = c"
  "ChoiceItemSpecV2_new c cs = Inr ch \<Longrightarrow> fields_wf (SpecChoice ch) \<and> cho_common ch = c"
  "IntegerItemSpecV2_new c lo hi = Inr i \<Longrightarrow> fields_wf (SpecInteger i) \<and> int_common i = c"
  "ListItemSpecV2_new c w x y z u = Inr l \<Longrightarrow> fields_wf (SpecList l) \<and> lis_common l = c"
  "ArtifactItemSpecV2_new c ms = Inr ar \<Longrightarrow> fields_wf (SpecArtifact ar) \<and> art_common ar = c"
  by (auto simp: TextItemSpecV2_new_def ChoiceItemSpecV2_new_def IntegerItemSpecV2_new_def ListItemSpecV2_new_def
      ArtifactItemSpecV2_new_def split: if_splits option.splits)

lemma constructed_check_result:
  assumes "CheckResultItemSpecV2_new c op dg os = Inr k" "OperationId_new s = Inr op" "Sha256Digest_new h = Inr dg"
  shows "fields_wf (SpecCheckResult k) \<and> chk_common k = c"
proof -
  have "chk_common k = c" "chk_operation_id k = op" "chk_operation_digest k = dg" "chk_accepted_outcomes k = os"
    using assms(1) by (auto simp: CheckResultItemSpecV2_new_def split: if_splits)
  with assms show ?thesis by (auto simp: mapped_id_wf)
qed

lemma mapped_item_wf: "map_item w = Inr item \<Longrightarrow> item_wf item"
  by (cases w) (auto simp: item_wf_def mapped_common_wf dest: constructed_fields constructed_check_result simp del: fields_wf.simps(2-))

lemma option_parts:
  "DecisionOptionV2_new oid label criteria = Inr opt \<Longrightarrow> do_id opt = oid"
  by (auto simp: DecisionOptionV2_new_def)

lemma mapped_option_wf:
  assumes "map_option_wire w = Inr opt"
  shows "option_wf opt"
proof -
  from assms obtain oid guards bare where "OptionId_new (dow_id w) = Inr oid"
    and g: "(case dow_guards w of None \<Rightarrow> guards = None
      | Some ws \<Rightarrow> \<exists>gs. rbind (collect_ok map_evidence_predicate ws) (\<lambda>ps. mapped (OptionGuardV2_new ps)) = Inr gs \<and> guards = Some gs)"
    and "DecisionOptionV2_new oid (dow_label w) (dow_criteria w) = Inr bare" "opt = with_guards bare guards"
    by (auto simp: map_option_wire_def)
  moreover have "guard_wf gs" if "guards = Some gs" for gs
    using g that by (auto split: option.splits intro: mapped_guard_wf)
  ultimately show ?thesis by (auto simp: option_wf_def with_guards_def option_parts mapped_id_wf)
qed

lemma mapped_assessment_wf:
  assumes "map_assessment w = Inr a"
  shows "assessment_wf a"
proof -
  from assms obtain target outcomes where
    c: "collect_ok (\<lambda>(option_id, out).
         rbind (mapped (OptionId_new option_id)) (\<lambda>oid.
         rbind (mapped (GoalOutcome_from_str out)) (\<lambda>outcome.
           Inr \<lparr>om_option_id = oid, om_outcome = outcome\<rparr>))) (asw_outcomes w) = Inr outcomes"
    and a: "AssessmentContractV2_with_target target outcomes = Inr a"
    by (auto simp: map_assessment_def)
  have "ac_outcomes a = outcomes" "distinct (map om_option_id outcomes)"
    using a by (auto simp: AssessmentContractV2_with_target_def split: if_splits)
  moreover have "\<forall>m\<in>set outcomes. OptionId_new (OptionId_as_str (om_option_id m)) = Inr (om_option_id m)"
    using collected[OF c] by (fastforce simp: mapped_id_wf)
  ultimately show ?thesis by (simp add: assessment_wf_def)
qed

lemma mapped_definition_wf:
  assumes "map_node_definition t w = Inr d"
  shows "definition_wf d"
proof (cases w)
  case (WActionDefinition a)
  with assms obtain items where "map_items items = Inr (definition_items d)" "definition_options d = []"
      "definition_assessment d = None"
    by (auto simp: map_node_definition_def ActionDefinitionV2_new_def)
  then show ?thesis
    using collected_all[of map_item _ _ item_wf, OF _ mapped_item_wf] by (simp add: definition_wf_def map_items_def)
next
  case (WDecisionDefinition x)
  with assms obtain items where "map_items items = Inr (definition_items d)"
      "collect_ok map_option_wire (dw_options x) = Inr (definition_options d)"
      "(case dw_assessment x of None \<Rightarrow> definition_assessment d = None
        | Some aw \<Rightarrow> \<exists>a. map_assessment aw = Inr a \<and> definition_assessment d = Some a)"
    by (cases "dw_assessment x") (auto simp: map_node_definition_def DecisionDefinitionV2_new_def)
  then show ?thesis
    using collected_all[of map_item _ _ item_wf, OF _ mapped_item_wf]
      collected_all[of map_option_wire _ _ option_wf, OF _ mapped_option_wf]
    by (simp add: definition_wf_def map_items_def split: option.splits) (auto intro: mapped_assessment_wf)
qed

lemma mapped_reference_wf:
  assumes "map_evidence_reference w = Inr r"
  shows "reference_wf r"
proof -
  from assms obtain g sel where g: "GraphNodeId_new (vw_node w) = Inr g"
    and sel: "(case vw_items w of None \<Rightarrow> sel = None
      | Some ws \<Rightarrow> \<exists>is. collect_ok (\<lambda>item. mapped (ItemId_new item)) ws = Inr is \<and> sel = Some is)"
    and r: "EvidenceReferenceV2_new g (vw_required w) sel = Inr r"
    by (auto simp: map_evidence_reference_def)
  have "er_source_node r = g" "er_selected_items r = sel"
    using r by (auto simp: EvidenceReferenceV2_new_def)
  moreover have "\<forall>item\<in>set items. ItemId_new (ItemId_as_str item) = Inr item" if "sel = Some items" for items
    using sel that by (auto split: option.splits dest!: collected simp: mapped_id_wf)
  ultimately show ?thesis using g by (auto simp: reference_wf_def mapped_id_wf)
qed

lemma mapped_evidence_wf:
  assumes "map_evidence_from w = Inr ev" "r \<in> set (evidence_list ev)"
  shows "reference_wf r"
proof (cases w)
  case (Some ws)
  with assms(1) obtain rs list where "collect_ok map_evidence_reference ws = Inr rs"
      "EvidenceFromListV2_new rs = Inr list" "ev = Some list"
    by (auto simp: map_evidence_from_def)
  with assms(2) show ?thesis
    by (auto simp: evidence_list_def EvidenceFromListV2_new_def split: if_splits dest!: collected intro: mapped_reference_wf)
qed (use assms in \<open>simp add: map_evidence_from_def evidence_list_def\<close>)

lemma mapped_routes_wf:
  assumes "collect_ok map_route ws = Inr entries" "DecisionRouteMapV2_new entries = Inr routes"
  shows "\<forall>e\<in>set (route_entries routes). route_wf e" "distinct (map entry_option_id (route_entries routes))"
proof -
  have "route_entries routes = entries" "distinct (map entry_option_id entries)"
    using assms(2) by (auto simp: DecisionRouteMapV2_new_def split: if_splits)
  moreover have "\<forall>e\<in>set entries. route_wf e"
    using assms(1) by (rule collected_all) (auto simp: map_route_def route_wf_def mapped_id_wf)
  ultimately show "\<forall>e\<in>set (route_entries routes). route_wf e" "distinct (map entry_option_id (route_entries routes))"
    by simp_all
qed

lemma mapped_outcome_wf:
  assumes "map_action_outcome n t = Inr out" "next_target out = Some target"
  shows "GraphNodeId_new (GraphNodeId_as_str target) = Inr target"
  using assms by (cases out) (auto simp: map_action_outcome_def mapped_id_wf split: option.splits if_splits)

lemma mapped_skip_allowed:
  assumes "transposed map_skip w = Inr skip" "skip = Some policy"
  shows "skip_allowed policy"
  using assms by (auto simp: map_skip_def SkipPolicyV2_new_def split: option.splits if_splits)

lemma mapped_decision_placement:
  assumes "map_placement w = Inr p" "pw_routes w = Some routes"
  shows "placement_wf p"
proof -
  from assms obtain gid did evidence entries route_map where
    "GraphNodeId_new (pw_id w) = Inr gid" "NodeDefinitionId_new (pw_use w) = Inr did"
    "map_evidence_from (pw_evidence_from w) = Inr evidence"
    "collect_ok map_route routes = Inr entries" "DecisionRouteMapV2_new entries = Inr route_map"
    "p = PlaceDecision \<lparr>dp_id = gid, dp_definition = did, dp_evidence_from = evidence, dp_routes = route_map\<rparr>"
    by (auto simp: map_placement_def split: if_splits)
  then show ?thesis
    using mapped_routes_wf[of routes entries route_map] mapped_evidence_wf[of "pw_evidence_from w" evidence]
    by (simp add: placement_wf_def mapped_id_wf)
qed

lemma mapped_action_placement:
  assumes "map_placement w = Inr p" "pw_routes w = None"
  shows "placement_wf p"
proof -
  from assms obtain gid did evidence out skip where
    ids: "GraphNodeId_new (pw_id w) = Inr gid" "NodeDefinitionId_new (pw_use w) = Inr did"
    and ev: "map_evidence_from (pw_evidence_from w) = Inr evidence"
    and out: "map_action_outcome (pw_next w) (pw_terminal w) = Inr out"
    and skip: "transposed map_skip (pw_skip w) = Inr skip"
    and p: "(case pw_delegation w of
        Some delegation \<Rightarrow> if skip \<noteq> None
          then Inl (CfgInvalidValue PLACEMENT_FIELD ''a delegated action cannot declare skip'')
          else rbind (map_delegation delegation) (\<lambda>decl. Inr (PlaceAction (ActionPlacementV2_delegated gid did evidence decl out)))
      | None \<Rightarrow> Inr (PlaceAction (ActionPlacementV2_new gid did evidence skip out))) = Inr p"
    unfolding map_placement_def rbind_eq_Inr by auto
  define a where "a = (case p of PlaceAction a \<Rightarrow> a)"
  have a: "p = PlaceAction a" "ap_id a = gid" "ap_definition a = did" "ap_evidence_from a = evidence" "ap_outcome a = out"
    "ap_skip a = None \<or> ap_skip a = skip"
    using p by (auto simp: a_def ActionPlacementV2_delegated_def ActionPlacementV2_new_def split: option.splits if_splits)
  then show ?thesis
    using ids mapped_evidence_wf[OF ev] mapped_outcome_wf[OF out] mapped_skip_allowed[OF skip]
    by (auto simp: placement_wf_def mapped_id_wf)
qed

lemma mapped_placement_wf: "map_placement w = Inr p \<Longrightarrow> placement_wf p"
  using mapped_decision_placement mapped_action_placement by (cases "pw_routes w") auto

lemma mapped_graph:
  assumes "map_graph w mr = Inr g"
  shows "\<forall>p\<in>set (pg_placements g). placement_wf p" "length (pg_placements g) \<le> 1024"
    "distinct (map GraphPlacementV2_id (pg_placements g))"
    "pg_entry g \<in> GraphPlacementV2_id ` set (pg_placements g)"
    "GraphNodeId_new (GraphNodeId_as_str (pg_entry g)) = Inr (pg_entry g)" "pg_manual_rework g = mr"
proof -
  from assms obtain entry ps where e: "GraphNodeId_new (gw_entry w) = Inr entry"
    and ps: "collect_ok map_placement (gw_nodes w) = Inr ps" and g: "ProcedureGraphV2_new entry ps mr = Inr g"
    by (auto simp: map_graph_def)
  have parts: "pg_entry g = entry" "pg_placements g = ps" "pg_manual_rework g = mr"
    "length ps \<le> 1024" "distinct (map GraphPlacementV2_id ps)" "entry \<in> GraphPlacementV2_id ` set ps"
    using g by (auto simp: ProcedureGraphV2_new_def placements_loop_ok MAX_GRAPH_NODES_PER_PROCEDURE_V2_def split: if_splits)
  then show "length (pg_placements g) \<le> 1024" "distinct (map GraphPlacementV2_id (pg_placements g))"
    "pg_entry g \<in> GraphPlacementV2_id ` set (pg_placements g)" "pg_manual_rework g = mr" by simp_all
  show "GraphNodeId_new (GraphNodeId_as_str (pg_entry g)) = Inr (pg_entry g)" using e parts by (simp add: mapped_id_wf)
  show "\<forall>p\<in>set (pg_placements g). placement_wf p"
    unfolding parts using ps mapped_placement_wf by (rule collected_all)
qed

lemma mapped_rework_wf:
  assumes "map_manual_rework w = Inr targets"
  shows "\<forall>t\<in>set (rework_targets targets). GraphNodeId_new (GraphNodeId_as_str t) = Inr t"
proof -
  from assms obtain ts where c: "collect_ok (\<lambda>target. mapped (GraphNodeId_new target)) w = Inr ts"
    and "ManualReworkTargetListV2_new ts = Inr targets" by (auto simp: map_manual_rework_def)
  then have "rework_targets targets = ts" by (auto simp: ManualReworkTargetListV2_new_def split: if_splits)
  moreover have "\<forall>t\<in>set ts. GraphNodeId_new (GraphNodeId_as_str t) = Inr t"
    using c by (rule collected_all) (auto simp: mapped_id_wf)
  ultimately show ?thesis by simp
qed

lemma mapped_document_wf:
  assumes "map_document w = Inr P"
  shows "procedure_wf P"
proof -
  from assms obtain mr where
    defs: "collect_ok (\<lambda>(id_text, wire). map_node_definition id_text wire) (pdw_node_definitions w) = Inr (pp_node_definitions P)"
    and mr: "transposed map_manual_rework (pdw_manual_rework w) = Inr mr"
    and g: "map_graph (pdw_graph w) mr = Inr (pp_graph P)"
    unfolding map_document_def by (auto split: if_splits simp del: transposed_Inr)
  have "\<forall>d\<in>set (pp_node_definitions P). definition_wf d"
    using defs by (rule collected_all) (auto intro: mapped_definition_wf)
  moreover have "\<forall>t\<in>set (rework_targets targets). GraphNodeId_new (GraphNodeId_as_str t) = Inr t" if "mr = Some targets" for targets
    using mr that by (auto split: option.splits dest: mapped_rework_wf)
  ultimately show ?thesis using mapped_graph[OF g] by (simp add: procedure_wf_def)
qed

section \<open>Closed references resolve every placement\<close>

lemma placement_resolves:
  assumes "validate_placement (definition_index P) (placement_index P) p = Inr ()"
  obtains d where "definition_index P (placement_definition p) = Some d" "kind_agrees p d"
proof -
  from assms obtain d where d: "definition_index P (placement_definition p) = Some d"
    by (auto simp: validate_placement_def lookup_definition_def)
  with assms have "kind_agrees p d"
    by (cases p; cases d) (simp_all add: validate_placement_def lookup_definition_def kind_agrees_def)
  with d that show thesis by blast
qed

lemma closed_references_resolve:
  assumes "procedure_wf P" "validate_closed_references P = Inr ()" "p \<in> set (pg_placements (pp_graph P))"
  shows "\<exists>d. resolved P p d"
proof -
  have "validate_placement (definition_index P) (placement_index P) p = Inr ()"
    using assms(2,3) by (auto simp: validate_closed_references_def)
  then obtain d where d: "definition_index P (placement_definition p) = Some d" "kind_agrees p d"
    by (rule placement_resolves)
  then have "d \<in> set (pp_node_definitions P)"
    by (auto simp: definition_index_def btree_map_def dest!: map_of_SomeD)
  with assms(1,3) d show ?thesis by (auto simp: resolved_def procedure_wf_def)
qed

section \<open>The runtime of a validated procedure\<close>

lemma validated_projection:
  assumes "validate_procedure_v2 ext P = Some (Inr V)"
  obtains bytes where "validate_closed_references P = Inr ()"
    "canonicalize_value ext (canonical_document_value P) = Inr bytes"
    "as_bytes (canonical_str (vp_canonical_json V)) = bytes" "canonical_str (vp_canonical_json V) \<noteq> []"
    "byte_len (canonical_str (vp_canonical_json V)) \<le> MAX_PROCEDURE_DOCUMENT_BYTES"
    "Sha256Digest_as_str (vp_digest V) = lit ''sha256:'' @ ext_sha256_hex ext bytes"
proof -
  from assms obtain json digest where closed: "validate_closed_references P = Inr ()"
    and proj: "canonical_projection ext P = Some (Inr (json, digest))"
    and V: "V = \<lparr>vp_parsed = P, vp_canonical_json = json, vp_digest = digest\<rparr>"
    by (auto simp: validate_procedure_v2_def pbind_ok)
  from proj have json: "canonical_json_from_serializable ext (canonical_document_value P) = Some (Inr json)"
    and len: "1 \<le> length (canonical_str json)" "byte_len (canonical_str json) \<le> MAX_PROCEDURE_DOCUMENT_BYTES"
    and digest: "Sha256Digest_new (lit ''sha256:'' @ ext_sha256_hex ext (as_bytes (canonical_str json))) = Inr digest"
    by (auto simp: canonical_projection_def pbind_ok validate_count_def split: if_splits)
  from json obtain bytes where "canonicalize_value ext (canonical_document_value P) = Inr bytes" "from_utf8 bytes = Some (canonical_str json)"
    by (auto simp: canonical_json_from_serializable_def split: sum.splits)
  moreover have "canonical_str json \<noteq> []" using len(1) by auto
  ultimately show thesis
    using that closed len digest new_as_str(6)[OF digest] by (simp add: V from_utf8_bytes)
qed

lemma runtime_document:
  assumes "validate_procedure_v2 ext P = Some (Inr V)"
    and read: "\<And>bytes. canonicalize_value ext (canonical_document_value P) = Inr bytes \<Longrightarrow>
      ext_json_from_slice ext bytes = Inr (canonical_document_value P)"
  obtains doc bytes where "doc_document doc = canonical_document_value P"
    "canonicalize_value ext (canonical_document_value P) = Inr bytes"
    "as_bytes (canonical_json_str (doc_canonical_json doc)) = bytes"
    "ValidatedProcedureV2_runtime_v2 ext V = ProcedureRuntimeV2_from_admitted_document ext doc"
proof -
  from assms(1) obtain bytes where V: "canonicalize_value ext (canonical_document_value P) = Inr bytes"
    "as_bytes (canonical_str (vp_canonical_json V)) = bytes" "canonical_str (vp_canonical_json V) \<noteq> []"
    "byte_len (canonical_str (vp_canonical_json V)) \<le> MAX_PROCEDURE_DOCUMENT_BYTES"
    "Sha256Digest_as_str (vp_digest V) = lit ''sha256:'' @ ext_sha256_hex ext bytes"
    by (rule validated_projection)
  have "ext_json_from_slice ext bytes = Inr (canonical_document_value P)" using V(1) by (rule read)
  then show thesis
    using V by (intro that[of "\<lparr>doc_canonical_json = CanonicalProcedureJsonV1 (canonical_str (vp_canonical_json V)),
        doc_digest = vp_digest V, doc_document = canonical_document_value P\<rparr>"])
      (simp_all add: ValidatedProcedureV2_runtime_v2_def CanonicalProcedureJsonV1_new_def CanonicalProcedureDocumentV2_new_def
        verify_canonical_json_v1_def verify_canonical_json_value_v1_def)
qed

lemma validated_runtime:
  assumes "map_document wire = Inr P" "validate_procedure_v2 ext P = Some (Inr V)"
    and "\<And>bytes. canonicalize_value ext (canonical_document_value P) = Inr bytes \<Longrightarrow>
      ext_json_from_slice ext bytes = Inr (canonical_document_value P)"
  obtains rt where "ValidatedProcedureV2_runtime_v2 ext V = Inr rt" "runtime_stores P rt"
    "stores_nodes ext P 0 (pg_placements (pp_graph P)) (rt_graph_nodes rt)"
    "canonicalize_value ext (canonical_document_value P) = Inr (as_bytes (canonical_json_str (rt_canonical_json rt)))"
proof -
  from assms(2,3) obtain doc bytes where doc: "doc_document doc = canonical_document_value P"
    "canonicalize_value ext (canonical_document_value P) = Inr bytes"
    "as_bytes (canonical_json_str (doc_canonical_json doc)) = bytes"
    "ValidatedProcedureV2_runtime_v2 ext V = ProcedureRuntimeV2_from_admitted_document ext doc"
    by (rule runtime_document)
  have wf: "procedure_wf P" using assms(1) by (rule mapped_document_wf)
  have "validate_closed_references P = Inr ()" using assms(2) by (rule validated_projection)
  then have "\<forall>p\<in>set (pg_placements (pp_graph P)). \<exists>d. resolved P p d"
    using closed_references_resolve[OF wf] by simp
  from read_document[OF wf this doc(1), of ext] doc that show thesis by auto
qed

text \<open>
  C8: a source document that parses and validates is the document the runtime works with: reading its
  canonical projection back gives a runtime whose texts, nodes in author order, item specifications,
  evidence declarations, guards, outcomes, routes and rework targets are those that were declared. It
  is assumed that the JSON reader returns the value whose canonical bytes it is given.
\<close>

theorem runtime_reads_validated_procedure:
  assumes "map_document wire = Inr P" "validate_procedure_v2 ext P = Some (Inr V)"
    and "\<And>bytes. canonicalize_value ext (canonical_document_value P) = Inr bytes \<Longrightarrow>
      ext_json_from_slice ext bytes = Inr (canonical_document_value P)"
  shows "\<exists>rt. ValidatedProcedureV2_runtime_v2 ext V = Inr rt \<and> runtime_stores P rt"
  by (rule validated_runtime[OF assms]) auto

text \<open>
  A goal-tracked procedure of one decision and two actions: \<open>work\<close> records a text, \<open>check\<close> consumes it
  behind a guard, assesses the goal and routes to \<open>done\<close> or back to \<open>work\<close>. The reader of the sample
  looks the bytes up among the values that are written: the document and its placements.
\<close>

definition sample_guard :: EvidencePredicateWire where
  "sample_guard = \<lparr>ow_field = None, ow_equals = None, ow_not_equals = None, ow_empty = None,
     ow_non_empty = Some True, ow_at_least = None, ow_at_most = None, ew_node = lit ''work'', ew_item = lit ''t''\<rparr>"

definition sample_definitions :: "(str \<times> NodeDefinitionWire) list" where
  "sample_definitions =
    [(lit ''c'', WDecisionDefinition \<lparr>dw_title = lit ''C'', dw_description = None, dw_objective = lit ''O'', dw_prompt = lit ''P'',
        dw_evidence_guidance = None, dw_items = None,
        dw_options = [\<lparr>dow_id = lit ''ok'', dow_label = lit ''L'', dow_criteria = None,
          dow_guards = Some [sample_guard]\<rparr>,
          \<lparr>dow_id = lit ''redo'', dow_label = lit ''L'', dow_criteria = None, dow_guards = None\<rparr>,
          \<lparr>dow_id = lit ''drop'', dow_label = lit ''L'', dow_criteria = None, dow_guards = None\<rparr>],
        dw_reason = \<lparr>rw_required = True, rw_prompt = None\<rparr>,
        dw_assessment = Some \<lparr>asw_target = lit ''session_goal'', asw_outcomes = [(lit ''ok'', lit ''achieved''),
          (lit ''redo'', lit ''not_achieved''), (lit ''drop'', lit ''superseded'')]\<rparr>\<rparr>),
     (lit ''w'', WActionDefinition \<lparr>aw_title = lit ''T'', aw_intent = lit ''I'', aw_description = None, aw_instructions = None,
        aw_items = Some [WText \<lparr>cw_id = lit ''t'', cw_prompt = lit ''p'', cw_help = None, cw_required = True, cw_required_when = None\<rparr>
          1 5 False]\<rparr>)]"

definition sample_placement :: "string \<Rightarrow> string \<Rightarrow> GraphPlacementWire" where
  "sample_placement name used = \<lparr>pw_id = lit name, pw_use = lit used, pw_evidence_from = None, pw_skip = None,
     pw_delegation = None, pw_next = None, pw_terminal = None, pw_routes = None\<rparr>"

definition sample_wire :: ProcedureV2DocumentWire where
  "sample_wire = \<lparr>pdw_schema = PROCEDURE_SCHEMA_V2, pdw_id = lit ''p'', pdw_version = lit ''1'', pdw_name = lit ''N'',
     pdw_purpose = lit ''P'', pdw_description = None, pdw_goal_tracking = Some True, pdw_node_definitions = sample_definitions,
     pdw_graph = \<lparr>gw_entry = lit ''work'', gw_nodes =
       [(sample_placement ''work'' ''w'')\<lparr>pw_next := Some (lit ''check''), pw_skip := Some \<lparr>sw_allowed = True, sw_reason_required = True\<rparr>\<rparr>,
        (sample_placement ''check'' ''c'')\<lparr>pw_evidence_from := Some [\<lparr>vw_node = lit ''work'', vw_required = True, vw_items = Some [lit ''t'']\<rparr>],
          pw_routes := Some [(lit ''ok'', \<lparr>tw_to = lit ''done'', tw_effect = lit ''advance''\<rparr>),
            (lit ''redo'', \<lparr>tw_to = lit ''work'', tw_effect = lit ''rework''\<rparr>),
            (lit ''drop'', \<lparr>tw_to = lit ''done'', tw_effect = lit ''advance''\<rparr>)]\<rparr>,
        (sample_placement ''done'' ''w'')\<lparr>pw_terminal := Some True\<rparr>]\<rparr>,
     pdw_manual_rework = Some [lit ''work'', lit ''done'']\<rparr>"

definition parsed_sample :: ParsedProcedureV2 where
  "parsed_sample = projr (map_document sample_wire)"

definition sample_written :: "Value list" where
  "sample_written = canonical_document_value parsed_sample #
     map (\<lambda>p. into_json (placement_value p)) (pg_placements (pp_graph parsed_sample))"

definition sample_ext :: externals where
  "sample_ext = sample_externals\<lparr>ext_json_from_slice := (\<lambda>bytes.
     case find (\<lambda>v. canonicalize_value sample_externals v = Inr bytes) sample_written of
       Some v \<Rightarrow> Inr v | None \<Rightarrow> Inl [])\<rparr>"

lemma sample_parses: "map_document sample_wire = Inr parsed_sample"
proof -
  have "\<not> isl (map_document sample_wire)" by code_simp
  then show ?thesis by (simp add: parsed_sample_def)
qed

lemma from_utf8_ascii: "\<forall>b\<in>set bs. b < 128 \<Longrightarrow> from_utf8 bs = Some bs"
  by (induction bs) (simp_all add: utf8_length_def utf8_decode_def is_scalar_def utf8_char_def)

lemma write_strings:
  "ext_json_string ext = ext_json_string ext' \<Longrightarrow> write_canonical_json ext v = write_canonical_json ext' v"
proof (induction ext v rule: write_canonical_json.induct)
  case (6 ext vs)
  then have "collect_ok (write_canonical_json ext) vs = collect_ok (write_canonical_json ext') vs"
    by (intro collect_ok_cong) simp_all
  then show ?case by simp
next
  case (7 ext kvs)
  then have "collect_ok (\<lambda>(k, v). rbind (write_canonical_json ext v) (\<lambda>bytes. Inr (ext_json_string ext k @ [58] @ bytes)))
        (sort_key (\<lambda>(k, v). as_bytes k) kvs) =
      collect_ok (\<lambda>(k, v). rbind (write_canonical_json ext' v) (\<lambda>bytes. Inr (ext_json_string ext' k @ [58] @ bytes)))
        (sort_key (\<lambda>(k, v). as_bytes k) kvs)"
    by (intro collect_ok_cong) auto
  then show ?case by simp
qed simp_all


lemma sample_references_closed: "validate_closed_references parsed_sample = Inr ()"
  by code_simp

lemma sample_delegation_budget: "validate_delegation_package_budget_v1 sample_ext parsed_sample = Some (Inr ())"
  by code_simp

lemma sample_canonical_bytes:
  "case canonicalize_value sample_externals (canonical_document_value parsed_sample) of
     Inr bytes \<Rightarrow> (\<forall>b\<in>set bytes. b < 128) \<and> 1 \<le> length bytes \<and> length bytes \<le> 4096 | Inl _ \<Rightarrow> False"
  by code_simp

lemma sample_validates: "\<exists>V. validate_procedure_v2 sample_ext parsed_sample = Some (Inr V)"
proof -
  from sample_canonical_bytes obtain bytes where
    c: "canonicalize_value sample_externals (canonical_document_value parsed_sample) = Inr bytes"
    and ascii: "\<forall>b\<in>set bytes. b < 128" and len: "1 \<le> length bytes" "length bytes \<le> 4096"
    by (auto split: sum.splits)
  from ascii have same: "as_bytes bytes = bytes" by (rule as_bytes_ascii_text)
  have "canonicalize_value sample_ext (canonical_document_value parsed_sample) = Inr bytes"
    using c write_strings[of sample_ext sample_externals] by (simp add: canonicalize_value_def sample_ext_def)
  then have "canonical_json_from_serializable sample_ext (canonical_document_value parsed_sample) = Some (Inr (CanonicalJsonV1 bytes))"
    by (simp add: canonical_json_from_serializable_def from_utf8_ascii[OF ascii])
  moreover have "Sha256Digest_new (lit ''sha256:'' @ replicate 64 48) = Inr (Sha256Digest (lit ''sha256:'' @ replicate 64 48))"
    by code_simp
  ultimately have "\<exists>d. canonical_projection sample_ext parsed_sample = Some (Inr (CanonicalJsonV1 bytes, d))"
    using len by (simp add: canonical_projection_def pbind_def validate_count_def SOURCE_PROJECTION_MAX_CHARACTERS_def
        MAX_PROCEDURE_DOCUMENT_BYTES_def byte_len_def same sample_ext_def sample_externals_def)
  then show ?thesis by (auto simp: validate_procedure_v2_def pbind_def sample_references_closed sample_delegation_budget)
qed
lemma find_only: "distinct (map f vs) \<Longrightarrow> v \<in> set vs \<Longrightarrow> find (\<lambda>w. f w = f v) vs = Some v"
  by (induction vs) auto

lemma sample_written_distinct: "distinct (map (canonicalize_value sample_externals) sample_written)"
  by code_simp

lemma sample_reads:
  assumes "v \<in> set sample_written" "canonicalize_value sample_ext v = Inr bytes"
  shows "ext_json_from_slice sample_ext bytes = Inr v"
proof -
  have "canonicalize_value sample_externals v = Inr bytes"
    using assms(2) write_strings[of sample_ext sample_externals v] by (simp add: sample_ext_def canonicalize_value_def)
  with find_only[OF sample_written_distinct assms(1)] show ?thesis by (simp add: sample_ext_def)
qed

theorem runtime_reads_validated_procedure_witness:
  "\<exists>P V rt. map_document sample_wire = Inr P \<and> validate_procedure_v2 sample_ext P = Some (Inr V) \<and>
     ValidatedProcedureV2_runtime_v2 sample_ext V = Inr rt \<and> runtime_stores P rt"
proof -
  from sample_validates obtain V where V: "validate_procedure_v2 sample_ext parsed_sample = Some (Inr V)" ..
  have "\<exists>rt. ValidatedProcedureV2_runtime_v2 sample_ext V = Inr rt \<and> runtime_stores parsed_sample rt"
    by (rule runtime_reads_validated_procedure[OF sample_parses V]) (rule sample_reads, simp add: sample_written_def)
  with sample_parses V show ?thesis by blast
qed

end
