(* ===== verification/Goal_State.thy ===== *)
theory Goal_State
  imports Workflow_Validate
begin

text \<open>
  The session goal of \<open>goal_state_v2.rs\<close>: the state of criterion results per attempt, the goal
  history of a session, the goal model read out of a snapshot, the check that a goal revision
  cannot bypass its assessment, and the validators of a goal state and of its successor. A
  \<open>BTreeSet\<close> of identities is a list read with \<open>set\<close>.
\<close>

section \<open>Criterion results and goal history\<close>

record CriterionAssessmentStateV2 =
  ca_result :: CriterionAssessmentResultV2
  ca_actor :: "ActorAttributionV2 option"
  ca_recorded_at :: UnixMillis

record AttemptCriterionAssessmentStateV2 =
  aca_attempt_id :: AttemptId
  aca_goal_revision :: GoalRevisionNumberV2
  aca_results :: "CriterionAssessmentStateV2 list"

abbreviation ca_criterion_id :: "CriterionAssessmentStateV2 \<Rightarrow> CriterionId" where
  "ca_criterion_id s \<equiv> car_criterion_id (ca_result s)"

definition AttemptCriterionAssessmentStateV2_new ::
    "AttemptId \<Rightarrow> GoalRevisionNumberV2 \<Rightarrow> CriterionAssessmentStateV2 list \<Rightarrow>
     ProcedureStateErrorV2 + AttemptCriterionAssessmentStateV2" where
  "AttemptCriterionAssessmentStateV2_new aid goal_revision results =
     (if goal_revision < GoalRevisionNumberV2_FIRST \<or> results = [] \<or> \<not> distinct (map ca_criterion_id results)
      then Inl (state_invalid ''Procedure v2 criterion assessment identity is invalid'')
      else if \<exists>state\<in>set results. CriterionAssessmentResultV2_mode (ca_result state)
                \<noteq> CriterionAssessmentResultV2_mode (ca_result (hd results))
      then Inl (state_invalid ''Procedure v2 criterion assessment modes are mixed'')
      else Inr \<lparr>aca_attempt_id = aid, aca_goal_revision = goal_revision, aca_results = results\<rparr>)"

record GoalStateV2 =
  gs_current_revision :: "GoalRevisionNumberV2 option"
  gs_revisions :: "GoalRevisionRecordV2 list"
  gs_attempt_assessments :: "AttemptCriterionAssessmentStateV2 list"
  gs_assessments :: "GoalAssessmentRecordV2 list"

definition GoalStateV2_empty :: GoalStateV2 where
  "GoalStateV2_empty =
     \<lparr>gs_current_revision = None, gs_revisions = [], gs_attempt_assessments = [], gs_assessments = []\<rparr>"

text \<open>\<open>windows(2)\<close> finds no pair out of order: the consecutive elements ascend strictly.\<close>

fun strictly_ascending :: "('a \<Rightarrow> 'k :: linorder) \<Rightarrow> 'a list \<Rightarrow> bool" where
  "strictly_ascending key (x # y # xs) \<longleftrightarrow> key x < key y \<and> strictly_ascending key (y # xs)"
| "strictly_ascending key _ \<longleftrightarrow> True"

definition GoalStateV2_new ::
    "GoalRevisionNumberV2 option \<Rightarrow> GoalRevisionRecordV2 list \<Rightarrow> AttemptCriterionAssessmentStateV2 list \<Rightarrow>
     GoalAssessmentRecordV2 list \<Rightarrow> ProcedureStateErrorV2 + GoalStateV2" where
  "GoalStateV2_new current revisions attempt_assessments assessments =
     (if \<not> distinct (map gr_revision revisions) \<or> \<not> distinct (map aca_attempt_id attempt_assessments)
         \<or> \<not> distinct (map ga_decision_attempt_id assessments)
      then Inl (state_invalid ''Procedure v2 goal history identities must be unique'')
      else if \<not> strictly_ascending ga_decision_trace assessments
      then Inl (state_invalid ''Procedure v2 goal assessments are not in trace order'')
      else Inr \<lparr>gs_current_revision = current, gs_revisions = revisions,
                gs_attempt_assessments = attempt_assessments, gs_assessments = assessments\<rparr>)"

definition latest_fresh_assessment :: "GoalStateV2 \<Rightarrow> SessionTraceV2 \<Rightarrow> GoalAssessmentRecordV2 option" where
  "latest_fresh_assessment state trace =
     Option.bind (gs_current_revision state) (\<lambda>current.
       find (\<lambda>a. ga_goal_revision a = current \<and>
               (\<exists>attempt\<in>set (tr_attempts trace). att_attempt_id attempt = ga_decision_attempt_id a
                  \<and> att_validity attempt = Valid)) (rev (gs_assessments state)))"

definition bound_attempts :: "SessionTraceV2 \<Rightarrow> GoalRevisionRecordV2 list \<Rightarrow> AttemptId list" where
  "bound_attempts trace revisions =
     remdups (List.map_filter (\<lambda>revision. map_option att_attempt_id
       (find (\<lambda>attempt. att_trace attempt = gr_binding_trace revision) (tr_attempts trace))) revisions)"

definition goal_rework_target_attempt_ids :: "GoalStateV2 \<Rightarrow> SessionTraceV2 \<Rightarrow> AttemptId list" where
  "goal_rework_target_attempt_ids state trace =
     bound_attempts trace (filter (\<lambda>r. gr_revision r > GoalRevisionNumberV2_FIRST) (gs_revisions state))"

definition reactivated_goal_rework_target_attempt_ids :: "GoalStateV2 \<Rightarrow> SessionTraceV2 \<Rightarrow> AttemptId list" where
  "reactivated_goal_rework_target_attempt_ids state trace =
     bound_attempts trace
       (filter gr_reactivated (filter (\<lambda>r. gr_revision r > GoalRevisionNumberV2_FIRST) (gs_revisions state)))"

section \<open>The goal model of a snapshot\<close>

text \<open>
  \<open>dominance_edges\<close> is a \<open>BTreeMap\<close> filled by \<open>insert\<close>; it is kept as its insertions, newest first,
  and read with \<open>map_of\<close>, so that its key set is finite by construction.
\<close>

record GoalSnapshotModelV2 =
  gsm_outcome_maps :: "GraphNodeId \<rightharpoonup> (OptionId \<rightharpoonup> GoalOutcome)"
  gsm_manual_targets :: "GraphNodeId list"
  gsm_dominance_edges :: "(GraphNodeId \<times> GraphNodeId list) list"
  gsm_terminal_nodes :: "GraphNodeId list"

definition parse_outcome_map ::
    "json_map \<Rightarrow> GraphNodeSnapshotV2 \<Rightarrow> ProcedureStateErrorV2 + GraphNodeId \<times> (OptionId \<rightharpoonup> GoalOutcome)" where
  "parse_outcome_map definitions node =
     rbind (ok_or (state_invalid ''Procedure v2 goal assessment definition is absent'')
       (Option.bind (map_of definitions (NodeDefinitionId_as_str (gn_node_definition_id node))) Value_as_object)) (\<lambda>def_map.
     rbind (ok_or (state_invalid ''Procedure v2 goal assessment outcomes are absent'')
       (Option.bind (get_object def_map ''assessment'') (\<lambda>a. get_object a ''outcomes''))) (\<lambda>outcomes.
     rbind (collect_ok (\<lambda>(key, v).
         rbind (map_err (\<lambda>_. state_invalid ''Procedure v2 assessment option is invalid'') (OptionId_new key)) (\<lambda>oid.
         rbind (ok_or (state_invalid ''Procedure v2 assessment outcome is invalid'') (Value_as_str v)) (\<lambda>text.
         rbind (map_err (\<lambda>_. state_invalid ''Procedure v2 assessment outcome is invalid'')
                  (GoalOutcome_from_str text)) (\<lambda>out. Inr (oid, out))))) outcomes) (\<lambda>values.
       Inr (gn_graph_node_id node, btree_map values))))"

definition parse_goal_route :: "str \<times> Value \<Rightarrow> ProcedureStateErrorV2 + GraphNodeId" where
  "parse_goal_route = (\<lambda>(key, v).
     rbind (ok_or (state_invalid ''Procedure v2 goal route metadata is invalid'') (Value_as_object v)) (\<lambda>route.
     rbind (ok_or (state_invalid ''Procedure v2 goal route target is invalid'') (get_str route ''to'')) (\<lambda>target.
       map_err (\<lambda>_. state_invalid ''Procedure v2 goal route target is invalid'') (GraphNodeId_new target))))"

text \<open>One placement: whether it is terminal, and its successors.\<close>

definition parse_goal_placement ::
    "externals \<Rightarrow> GraphNodeSnapshotV2 \<Rightarrow> ProcedureStateErrorV2 + GraphNodeId \<times> bool \<times> GraphNodeId list" where
  "parse_goal_placement ext node =
     rbind (map_err (\<lambda>_. state_invalid ''Procedure v2 goal placement metadata is invalid'')
              (ext_json_from_slice ext (gn_canonical_placement_json node))) (\<lambda>v.
     rbind (ok_or (state_invalid ''Procedure v2 goal placement metadata is invalid'') (Value_as_object v)) (\<lambda>placement.
     rbind (case get_str placement ''next'' of
         None \<Rightarrow> Inr []
       | Some target \<Rightarrow>
           rbind (map_err (\<lambda>_. state_invalid ''Procedure v2 goal advance target is invalid'') (GraphNodeId_new target))
             (\<lambda>t. Inr [t])) (\<lambda>advance.
     rbind (case get_object placement ''routes'' of
         None \<Rightarrow> Inr []
       | Some routes \<Rightarrow> collect_ok parse_goal_route routes) (\<lambda>routed.
       Inr (gn_graph_node_id node, get_bool placement ''terminal'' = Some True, advance @ routed)))))"

definition GoalSnapshotModelV2_parse ::
    "externals \<Rightarrow> ProcedureSnapshotV2 \<Rightarrow> ProcedureStateErrorV2 + GoalSnapshotModelV2" where
  "GoalSnapshotModelV2_parse ext snap =
     rbind (map_err (\<lambda>_. state_invalid ''Procedure v2 goal snapshot metadata is invalid'')
              (ext_json_from_slice ext (as_bytes (canonical_json_str (rt_canonical_json (snap_runtime snap)))))) (\<lambda>document.
     rbind (ok_or (state_invalid ''Procedure v2 goal snapshot metadata is invalid'') (Value_as_object document)) (\<lambda>root.
     rbind (ok_or (state_invalid ''Procedure v2 goal definitions are absent'') (get_object root ''node_definitions'')) (\<lambda>definitions.
     rbind (collect_ok (parse_outcome_map definitions)
              (filter gn_goal_assessment (rt_graph_nodes (snap_runtime snap)))) (\<lambda>outcome_maps.
     rbind (collect_ok (parse_goal_placement ext) (rt_graph_nodes (snap_runtime snap))) (\<lambda>placements.
     rbind (map_or_ok [] (collect_ok (\<lambda>v.
         rbind (ok_or (state_invalid ''Procedure v2 manual goal target is invalid'') (Value_as_str v)) (\<lambda>text.
           map_err (\<lambda>_. state_invalid ''Procedure v2 manual goal target is invalid'') (GraphNodeId_new text))))
         (Option.bind (get_object root ''manual_rework'') (\<lambda>m. get_array m ''allowed_targets''))) (\<lambda>manual_targets.
       Inr \<lparr>gsm_outcome_maps = btree_map outcome_maps, gsm_manual_targets = manual_targets,
            gsm_dominance_edges = rev (map (\<lambda>(gid, terminal, successors). (gid, successors)) placements),
            gsm_terminal_nodes = map fst (filter (\<lambda>(gid, terminal, successors). terminal) placements)\<rparr>))))))"

section \<open>Revision-safe targets\<close>

text \<open>
  The recursion enumerates simple paths: \<open>visiting\<close> holds the nodes of the current path only, an
  entry is removed when its call returns. It ends because a call that recurses adds a key of
  \<open>dominance_edges\<close> to \<open>visiting\<close> that was not there.
\<close>

function reaches_terminal_without_assessment ::
    "GoalSnapshotModelV2 \<Rightarrow> GraphNodeId set \<Rightarrow> GraphNodeId \<Rightarrow> bool" where
  "reaches_terminal_without_assessment model visiting node =
     (if gsm_outcome_maps model node \<noteq> None then False
      else if node \<in> set (gsm_terminal_nodes model) then True
      else if node \<in> visiting then False
      else (case map_of (gsm_dominance_edges model) node of
          None \<Rightarrow> False
        | Some successors \<Rightarrow>
            list_ex (reaches_terminal_without_assessment model (insert node visiting)) successors))"
  by pat_completeness auto
termination
proof (relation "measure (\<lambda>(model, visiting, node). card (fst ` set (gsm_dominance_edges model) - visiting))")
  fix model visiting node successors succ
  assume *: "node \<notin> visiting" "map_of (gsm_dominance_edges model) node = Some successors"
  then have "node \<in> fst ` set (gsm_dominance_edges model)" by (metis domI dom_map_of_conv_image_fst)
  with * have "fst ` set (gsm_dominance_edges model) - insert node visiting
      \<subset> fst ` set (gsm_dominance_edges model) - visiting" by auto
  then show "((model, insert node visiting, succ), model, visiting, node)
      \<in> measure (\<lambda>(model, visiting, node). card (fst ` set (gsm_dominance_edges model) - visiting))"
    by (simp add: psubset_card_mono)
qed simp

declare reaches_terminal_without_assessment.simps [simp del]

definition revision_safe :: "GoalSnapshotModelV2 \<Rightarrow> GraphNodeId \<Rightarrow> bool" where
  "revision_safe model target \<longleftrightarrow> \<not> reaches_terminal_without_assessment model {} target"

definition validate_goal_revision_target_v2 ::
    "externals \<Rightarrow> ProcedureSnapshotV2 \<Rightarrow> GraphNodeId \<Rightarrow> GraphMutationErrorV2 + unit" where
  "validate_goal_revision_target_v2 ext snap target =
     rbind (state_err (GoalSnapshotModelV2_parse ext snap)) (\<lambda>model.
       if target \<notin> set (gsm_manual_targets model) then Inl (GmGoalRevisionTargetNotAllowed target)
       else if \<not> revision_safe model target then Inl (GmGoalRevisionTargetNotRevisionSafe target)
       else Inr ())"

end
