(* ===== verification/Goal_Safety.thy ===== *)
theory Goal_Safety
  imports Goal_State Graph_Props
begin

text \<open>
  The target of a goal revision is checked twice: when the procedure is vetted, by a reverse search
  over the dense graph index (\<open>procedure_v2_graph.rs\<close>), and again when a session is revised, by an
  enumeration of simple paths over the stored snapshot (\<open>goal_state_v2.rs\<close>). Here the second is
  shown exact for walks and equal to the first on a model that stores the procedure;
  \<open>Goal_Targets\<close> shows that the model read from a snapshot does.
\<close>

section \<open>Walks can be made simple\<close>

lemma walk_suffix: "walk R u (a @ x # b) v \<Longrightarrow> walk R x (x # b) v"
  by (auto simp: walk_def successively_append_iff)

lemma walk_distinct:
  assumes "walk R u p v"
  shows "\<exists>q. walk R u q v \<and> distinct q \<and> set q \<subseteq> set p"
  using assms
proof (induction p arbitrary: u)
  case Nil
  then show ?case by (simp add: walk_def)
next
  case (Cons y p)
  then have y: "y = u" by (simp add: walk_def)
  show ?case
  proof (cases "p = []")
    case True
    with Cons.prems y show ?thesis by (intro exI[of _ "[u]"]) (simp add: walk_Cons walk_single)
  next
    case False
    with Cons.prems y obtain w where w: "(u, w) \<in> R" "walk R w p v" by (auto simp: walk_Cons)
    from Cons.IH[OF w(2)] obtain q where q: "walk R w q v" "distinct q" "set q \<subseteq> set p" by blast
    show ?thesis
    proof (cases "u \<in> set q")
      case True
      then obtain a b where ab: "q = a @ u # b" by (meson split_list)
      with q have "walk R u (u # b) v" "distinct (u # b)" using walk_suffix[of R w a u b v] by auto
      with q(3) ab show ?thesis by (intro exI[of _ "u # b"]) (auto simp: y)
    next
      case False
      with q w(1) have "walk R u (u # q) v" "distinct (u # q)" by (auto simp: walk_Cons)
      with q(3) show ?thesis by (intro exI[of _ "u # q"]) (auto simp: y)
    qed
  qed
qed

section \<open>The path enumeration is exact\<close>

definition model_edges :: "GoalSnapshotModelV2 \<Rightarrow> (GraphNodeId \<times> GraphNodeId) set" where
  "model_edges M = {(u, v). \<exists>successors. map_of (gsm_dominance_edges M) u = Some successors \<and> v \<in> set successors}"

definition assessed :: "GoalSnapshotModelV2 \<Rightarrow> GraphNodeId \<Rightarrow> bool" where
  "assessed M n \<longleftrightarrow> gsm_outcome_maps M n \<noteq> None"

lemma reaches_walk:
  "reaches_terminal_without_assessment M V n \<Longrightarrow>
     \<exists>p t. t \<in> set (gsm_terminal_nodes M) \<and> walk (model_edges M) n p t \<and> (\<forall>x\<in>set p. \<not> assessed M x)"
proof (induction M V n rule: reaches_terminal_without_assessment.induct)
  case (1 M V n)
  from "1.prems" have na: "\<not> assessed M n"
    by (subst (asm) reaches_terminal_without_assessment.simps) (auto simp: assessed_def split: if_splits)
  show ?case
  proof (cases "n \<in> set (gsm_terminal_nodes M)")
    case True
    with na show ?thesis by (intro exI[of _ "[n]"] exI[of _ n]) (simp add: walk_single)
  next
    case False
    with "1.prems" na obtain ss m where m: "n \<notin> V" "map_of (gsm_dominance_edges M) n = Some ss" "m \<in> set ss"
      "reaches_terminal_without_assessment M (insert n V) m"
      by (subst (asm) reaches_terminal_without_assessment.simps)
        (auto simp: assessed_def list_ex_iff split: if_splits option.splits)
    from "1.IH"[of ss m] False na m obtain p t where
      "t \<in> set (gsm_terminal_nodes M)" "walk (model_edges M) m p t" "\<forall>x\<in>set p. \<not> assessed M x"
      by (auto simp: assessed_def)
    moreover have "(n, m) \<in> model_edges M" using m by (auto simp: model_edges_def)
    ultimately show ?thesis using na
      by (intro exI[of _ "n # p"] exI[of _ t]) (auto simp: walk_Cons)
  qed
qed

lemma walk_found:
  assumes "walk (model_edges M) n p t" "t \<in> set (gsm_terminal_nodes M)" "\<forall>x\<in>set p. \<not> assessed M x"
    "distinct p" "set p \<inter> V = {}"
  shows "reaches_terminal_without_assessment M V n"
  using assms
proof (induction p arbitrary: n V)
  case Nil
  then show ?case by (simp add: walk_def)
next
  case (Cons y p)
  then have y: "y = n" by (simp add: walk_def)
  show ?case
  proof (cases "n \<in> set (gsm_terminal_nodes M)")
    case True
    with Cons.prems y show ?thesis by (subst reaches_terminal_without_assessment.simps) (simp add: assessed_def)
  next
    case False
    with Cons.prems(1,2) y obtain w where w: "(n, w) \<in> model_edges M" "walk (model_edges M) w p t"
      by (auto simp: walk_Cons)
    have "reaches_terminal_without_assessment M (insert n V) w"
      using Cons.prems y by (intro Cons.IH[OF w(2)]) auto
    with w(1) Cons.prems y False show ?thesis
      by (subst reaches_terminal_without_assessment.simps) (auto simp: assessed_def model_edges_def list_ex_iff)
  qed
qed

lemma revision_safe_walks:
  "revision_safe M n \<longleftrightarrow> (\<forall>t\<in>set (gsm_terminal_nodes M). \<forall>p. walk (model_edges M) n p t \<longrightarrow> (\<exists>x\<in>set p. assessed M x))"
proof
  assume safe: "revision_safe M n"
  show "\<forall>t\<in>set (gsm_terminal_nodes M). \<forall>p. walk (model_edges M) n p t \<longrightarrow> (\<exists>x\<in>set p. assessed M x)"
  proof (intro ballI allI impI)
    fix t p assume t: "t \<in> set (gsm_terminal_nodes M)" and p: "walk (model_edges M) n p t"
    from walk_distinct[OF p] obtain q where "walk (model_edges M) n q t" "distinct q" "set q \<subseteq> set p" by blast
    with walk_found[of M n q t "{}"] t safe show "\<exists>x\<in>set p. assessed M x" by (auto simp: revision_safe_def)
  qed
next
  assume "\<forall>t\<in>set (gsm_terminal_nodes M). \<forall>p. walk (model_edges M) n p t \<longrightarrow> (\<exists>x\<in>set p. assessed M x)"
  with reaches_walk[of M "{}" n] show "revision_safe M n" by (auto simp: revision_safe_def)
qed

text \<open>
  C18: the runtime check of a goal-revision target is exact: a target is revision-safe exactly when no
  walk along the stored successors leads from it to a terminal placement past all goal-assessment
  placements. The enumeration of simple paths ends on every model and misses no walk with cycles.
\<close>

theorem revision_safe_exact:
  "revision_safe M n \<longleftrightarrow>
     \<not> (\<exists>t p. t \<in> set (gsm_terminal_nodes M) \<and> walk (model_edges M) n p t \<and> set p \<inter> dom (gsm_outcome_maps M) = {})"
proof -
  have "set p \<inter> dom (gsm_outcome_maps M) \<noteq> {} \<longleftrightarrow> (\<exists>x\<in>set p. assessed M x)" for p
    by (auto simp: assessed_def)
  then show ?thesis using revision_safe_walks[of M n] by blast
qed

section \<open>Vetting and runtime agree\<close>

text \<open>
  A goal model stores a parsed procedure when it has its transitions, its terminal actions and its
  goal-assessment placements.
\<close>

definition stores_procedure :: "GoalSnapshotModelV2 \<Rightarrow> ParsedProcedureV2 \<Rightarrow> GraphPlacementV2 list \<Rightarrow> bool" where
  "stores_procedure M P ps \<longleftrightarrow>
     model_edges M = transitions True (pp_graph P) \<and>
     set (gsm_terminal_nodes M) = GraphPlacementV2_id ` {p \<in> set ps. terminal_action p} \<and>
     dom (gsm_outcome_maps M) = GraphPlacementV2_id ` {p \<in> set ps. assessment_placement P p}"

text \<open>
  On a model that stores the procedure, a placement is listed by the vetting exactly when the path
  enumeration finds it revision-safe, although the listing is a reverse search over bit sets.
\<close>

lemma stored_model_agrees:
  assumes "ProcedureGraphV2_new entry ps mr = Inr (pp_graph P)" "stores_procedure M P ps"
  shows "\<exists>ids. goal_revision_safe_targets_v2 P = Some ids \<and>
    (\<forall>a\<in>GraphPlacementV2_id ` set ps. a \<in> set ids \<longleftrightarrow> revision_safe M a)"
proof -
  from safe_targets_walks[OF assms(1)] obtain ids where ids: "goal_revision_safe_targets_v2 P = Some ids"
    "\<forall>a. a \<in> set ids \<longleftrightarrow> a \<in> GraphPlacementV2_id ` set ps \<and>
       (\<forall>t\<in>set ps. \<forall>q. terminal_action t \<longrightarrow> walk (transitions True (pp_graph P)) a q (GraphPlacementV2_id t) \<longrightarrow>
          (\<exists>p\<in>set ps. GraphPlacementV2_id p \<in> set q \<and> assessment_placement P p))" by blast
  have hit: "(\<exists>x\<in>set q. assessed M x) \<longleftrightarrow> (\<exists>p\<in>set ps. GraphPlacementV2_id p \<in> set q \<and> assessment_placement P p)" for q
    using assms(2) by (auto simp: stores_procedure_def assessed_def dom_def set_eq_iff image_iff)
  have "a \<in> set ids \<longleftrightarrow> revision_safe M a" if "a \<in> GraphPlacementV2_id ` set ps" for a
    unfolding revision_safe_walks hit using assms(2) ids(2) that by (auto simp: stores_procedure_def)
  with ids(1) show ?thesis by blast
qed

end
