(* ===== verification/Goal_Targets.thy ===== *)
theory Goal_Targets
  imports Parsed_Procedures Goal_Safety
begin

text \<open>
  The goal model a session revision is checked against (\<open>goal_state_v2.rs\<close>) is read a second time from the
  snapshot: the document for the assessments and the manual targets, the canonical bytes of every placement
  for its successors. Here it is shown to store the validated procedure, so that the runtime admits exactly
  the declared manual targets that vetting lists as safe.
\<close>

section \<open>Reading the placements\<close>

lemma placement_targets_all:
  "set (placement_targets True p) = set_option (placement_target p) \<union> (\<lambda>e. route_to (entry_route e)) ` set (placement_routes p)"
proof (cases p)
  case (PlaceAction a)
  then show ?thesis by (cases "ap_outcome a") simp_all
qed simp

lemma read_goal_routes:
  assumes "placement_wf p" "into_json (placement_value p) = VObject m"
  shows "\<exists>routed. (case get_object m ''routes'' of None \<Rightarrow> Inr [] | Some routes \<Rightarrow> collect_ok parse_goal_route routes) = Inr routed \<and>
    set routed = (\<lambda>e. route_to (entry_route e)) ` set (placement_routes p)"
proof (cases p)
  case (PlaceAction a)
  with placement_object(8)[OF assms(2)] show ?thesis by simp
next
  case (PlaceDecision d)
  let ?key = "\<lambda>e. OptionId_as_str (entry_option_id e)" and ?val = "\<lambda>e. route_value (entry_route e)"
  let ?es = "map (\<lambda>e. (?key e, into_json (?val e))) (placement_routes p)"
  have obj: "get_object m ''routes'' = Some (btree_entries ?es)"
    using placement_object(8)[OF assms(2)] by (simp add: PlaceDecision json_of_author_map)
  have "distinct (map fst ?es)"
    using assms(1) by (simp add: placement_wf_def distinct_map inj_on_def comp_def)
  then have es: "set (btree_entries ?es) = set ?es" by (rule btree_entries_set)
  have read: "parse_goal_route (?key e, into_json (?val e)) = Inr (route_to (entry_route e))"
    if "e \<in> set (placement_routes p)" for e
    using assms(1) that by (auto simp: placement_wf_def route_wf_def parse_goal_route_def route_value_def read_simps
        simp del: into_json.simps(5))
  then have "collect_ok parse_goal_route (btree_entries ?es) = Inr (map (\<lambda>x. projr (parse_goal_route x)) (btree_entries ?es))"
    by (intro collect_ok_pure) (auto simp: es)
  moreover have "(\<lambda>x. projr (parse_goal_route x)) ` set ?es = (\<lambda>e. route_to (entry_route e)) ` set (placement_routes p)"
    using read by (auto simp: image_image intro!: image_cong)
  ultimately show ?thesis unfolding obj by (simp add: es)
qed

lemma read_goal_placement:
  assumes "placement_wf p" "ext_json_from_slice ext bytes = Inr (into_json (placement_value p))"
  shows "\<exists>ss. parse_goal_placement ext (node_snapshot d bytes i p) = Inr (GraphPlacementV2_id p, placement_terminal p, ss) \<and>
    set ss = set (placement_targets True p)"
proof -
  obtain m where m: "into_json (placement_value p) = VObject m" by (cases p) simp_all
  from read_goal_routes[OF assms(1) m] obtain routed where
    r: "(case get_object m ''routes'' of None \<Rightarrow> Inr [] | Some routes \<Rightarrow> collect_ok parse_goal_route routes) = Inr routed"
      "set routed = (\<lambda>e. route_to (entry_route e)) ` set (placement_routes p)" by blast
  define advance where "advance = (case placement_target p of None \<Rightarrow> [] | Some t \<Rightarrow> [t])"
  have a: "(case get_str m ''next'' of None \<Rightarrow> Inr []
      | Some target \<Rightarrow> rbind (map_err (\<lambda>_. state_invalid ''Procedure v2 goal advance target is invalid'') (GraphNodeId_new target))
          (\<lambda>t. Inr [t])) = Inr advance"
    using assms(1) by (cases "placement_target p") (simp_all add: placement_object[OF m] placement_wf_def advance_def)
  have t: "(get_bool m ''terminal'' = Some True) = placement_terminal p" by (simp add: placement_object[OF m])
  have "parse_goal_placement ext (node_snapshot d bytes i p) = Inr (GraphPlacementV2_id p, placement_terminal p, advance @ routed)"
    unfolding parse_goal_placement_def
    by (simp only: node_snapshot_def GraphNodeSnapshotV2.simps assms(2) m Value_as_object.simps a r(1) t result_simps)
  moreover have "set (advance @ routed) = set (placement_targets True p)"
    unfolding placement_targets_all using r(2) by (auto simp: advance_def split: option.splits)
  ultimately show ?thesis by blast
qed

section \<open>Reading the outcome maps\<close>

lemma read_outcome_map:
  assumes "resolved P p d" "definition_assessment d \<noteq> None"
  shows "\<exists>outcomes. parse_outcome_map (definitions_json P) (node_snapshot d bytes i p) = Inr (GraphPlacementV2_id p, outcomes)"
proof -
  from assms(2) obtain a where a: "definition_assessment d = Some a" by blast
  obtain m where m: "into_json (node_definition_value d) = VObject m"
    "json_get m ''assessment'' = map_option (\<lambda>a. into_json (assessment_value a)) (definition_assessment d)"
    by (rule definition_object[of d])
  have found: "Option.bind (map_of (definitions_json P)
      (NodeDefinitionId_as_str (gn_node_definition_id (node_snapshot d bytes i p)))) Value_as_object = Some m"
    using assms(1) m(1) by (simp add: lookup_definitions_json node_snapshot_def resolved_def)
  obtain es where es: "Option.bind (get_object m ''assessment'') (\<lambda>a. get_object a ''outcomes'') = Some es"
    using m(2) a by (simp add: assessment_value_def read_simps del: into_json.simps(5))
  have "assessment_wf a" using assms(1) a by (simp add: resolved_def definition_wf_def)
  from read_assessment(1)[OF this, of m] m(2) a have "\<exists>ys. parse_assessment_outcomes m = Inr ys" by simp
  then show ?thesis
    unfolding parse_assessment_outcomes_def parse_outcome_map_def found result_simps es by (auto simp: node_snapshot_def)
qed

section \<open>The goal model stores the procedure\<close>

text \<open>Distinct keys of the wire map give distinct definitions.\<close>

lemma mapped_definition_id:
  "map_node_definition k w = Inr d \<Longrightarrow> NodeDefinitionId_as_str (ParsedNodeDefinition_id d) = k"
  by (cases w) (auto simp: map_node_definition_def ActionDefinitionV2_new_def DecisionDefinitionV2_new_def
      split: if_splits dest!: new_as_str)

lemma mapped_definitions_distinct:
  assumes "map_document wire = Inr P" "distinct (map fst (pdw_node_definitions wire))"
  shows "distinct (map ParsedNodeDefinition_id (pp_node_definitions P))"
proof -
  from assms(1) have "collect_ok (\<lambda>(id_text, wire). map_node_definition id_text wire) (pdw_node_definitions wire) = Inr (pp_node_definitions P)"
    unfolding map_document_def by (auto split: if_splits simp del: transposed_Inr)
  then have "list_all2 (\<lambda>e d. NodeDefinitionId_as_str (ParsedNodeDefinition_id d) = fst e) (pdw_node_definitions wire) (pp_node_definitions P)"
    unfolding collect_ok_Inr by (rule list_all2_mono) (auto dest: mapped_definition_id)
  then have "map (\<lambda>d. NodeDefinitionId_as_str (ParsedNodeDefinition_id d)) (pp_node_definitions P) = map fst (pdw_node_definitions wire)"
    by (auto simp: list_eq_iff_nth_eq list_all2_conv_all_nth)
  with assms(2) have "distinct (map NodeDefinitionId_as_str (map ParsedNodeDefinition_id (pp_node_definitions P)))"
    by (simp add: comp_def)
  then show ?thesis unfolding distinct_map[of NodeDefinitionId_as_str] by blast
qed

lemma assessed_by_definition:
  assumes "distinct (map ParsedNodeDefinition_id (pp_node_definitions P))" "resolved P p d"
  shows "assessment_placement P p \<longleftrightarrow> definition_assessment d \<noteq> None"
proof -
  have index: "definition_index P k = Some e \<longleftrightarrow> e \<in> set (pp_node_definitions P) \<and> ParsedNodeDefinition_id e = k" for k e
    using assms(1) by (auto simp: definition_index_def btree_map_def map_of_eq_Some_iff rev_map[symmetric] comp_def)
  from assms(2) have d: "d \<in> set (pp_node_definitions P)" "ParsedNodeDefinition_id d = placement_definition p" "kind_agrees p d"
    by (simp_all add: resolved_def index)
  show ?thesis
  proof (cases d)
    case (ParsedAction a)
    with d(3) show ?thesis by (auto simp: assessment_placement_def kind_agrees_def)
  next
    case (ParsedDecision dd)
    with d(3) obtain pd where p: "p = PlaceDecision pd" by (cases p) (auto simp: kind_agrees_def)
    have "dp_definition pd \<in> set (assessment_definitions P) \<longleftrightarrow>
        (\<exists>e. ParsedDecision e \<in> set (pp_node_definitions P) \<and> dd_assessment e \<noteq> None \<and> dd_id e = dp_definition pd)"
      by (force simp: assessment_definitions_def List.map_filter_def split: ParsedNodeDefinition.splits if_splits)
    also have "\<dots> \<longleftrightarrow> dd_assessment dd \<noteq> None"
      using d ParsedDecision p index by (metis ParsedNodeDefinition.inject(2) ParsedNodeDefinition_id.simps(2) option.inject placement_definition.simps(2))
    finally show ?thesis by (simp add: assessment_placement_def p ParsedDecision)
  qed
qed

lemma stored_at:
  assumes "stores_nodes ext P 0 ps nodes" "i < length ps"
  obtains d bytes where "resolved P (ps ! i) d" "nodes ! i = node_snapshot d bytes i (ps ! i)"
    "canonicalize_value ext (into_json (placement_value (ps ! i))) = Inr bytes"
  using list_all2_nthD[OF assms(1)[unfolded stores_nodes_def], of i] assms(2) by (auto simp: nth_enumerate_eq)

lemma stored_length: "stores_nodes ext P 0 ps nodes \<Longrightarrow> length nodes = length ps"
  by (auto simp: stores_nodes_def dest: list_all2_lengthD)

text \<open>The placements, one by one: identifier, terminal flag and all targets.\<close>

lemma read_goal_placements:
  assumes nodes: "stores_nodes ext P 0 ps nodes"
    and read: "\<And>p bytes. p \<in> set ps \<Longrightarrow> canonicalize_value ext (into_json (placement_value p)) = Inr bytes \<Longrightarrow>
      ext_json_from_slice ext bytes = Inr (into_json (placement_value p))"
  obtains entries where "collect_ok (parse_goal_placement ext) nodes = Inr entries"
    "list_all2 (\<lambda>p (gid, terminal, ss). gid = GraphPlacementV2_id p \<and> terminal = placement_terminal p \<and>
       set ss = set (placement_targets True p)) ps entries"
proof -
  have e: "\<exists>ss. parse_goal_placement ext (nodes ! i) = Inr (GraphPlacementV2_id (ps ! i), placement_terminal (ps ! i), ss) \<and>
      set ss = set (placement_targets True (ps ! i))" if i: "i < length ps" for i
  proof -
    from stored_at[OF nodes i] obtain d bytes where n: "resolved P (ps ! i) d" "nodes ! i = node_snapshot d bytes i (ps ! i)"
      "canonicalize_value ext (into_json (placement_value (ps ! i))) = Inr bytes" by blast
    have "ext_json_from_slice ext bytes = Inr (into_json (placement_value (ps ! i)))" using read[OF _ n(3)] i by simp
    with read_goal_placement[of "ps ! i" ext bytes d i] n(1,2) show ?thesis by (simp add: resolved_def)
  qed
  have "\<exists>entry. parse_goal_placement ext n = Inr entry" if "n \<in> set nodes" for n
    using that e stored_length[OF nodes] by (metis in_set_conv_nth)
  then obtain entries where entries: "collect_ok (parse_goal_placement ext) nodes = Inr entries"
    using collect_ok_total by metis
  then have l: "list_all2 (\<lambda>n e. parse_goal_placement ext n = Inr e) nodes entries" by (simp add: collect_ok_Inr)
  have "\<exists>ss. entries ! i = (GraphPlacementV2_id (ps ! i), placement_terminal (ps ! i), ss) \<and>
      set ss = set (placement_targets True (ps ! i))" if "i < length ps" for i
    using e[OF that] list_all2_nthD[OF l, of i] that stored_length[OF nodes] by auto
  then have "list_all2 (\<lambda>p (gid, terminal, ss). gid = GraphPlacementV2_id p \<and> terminal = placement_terminal p \<and>
       set ss = set (placement_targets True p)) ps entries"
    using list_all2_lengthD[OF l] stored_length[OF nodes] by (fastforce simp: list_all2_conv_all_nth)
  with entries show thesis by (rule that)
qed

lemma read_outcome_maps:
  assumes nodes: "stores_nodes ext P 0 ps nodes" and distinct: "distinct (map ParsedNodeDefinition_id (pp_node_definitions P))"
  obtains maps where "collect_ok (parse_outcome_map (definitions_json P)) (filter gn_goal_assessment nodes) = Inr maps"
    "fst ` set maps = GraphPlacementV2_id ` {p \<in> set ps. assessment_placement P p}"
proof -
  have "\<exists>outcomes. parse_outcome_map (definitions_json P) n = Inr outcomes"
    if "n \<in> set (filter gn_goal_assessment nodes)" for n
  proof -
    from that obtain i where i: "i < length ps" "nodes ! i = n" using stored_length[OF nodes] by (auto simp: in_set_conv_nth)
    from stored_at[OF nodes i(1)] obtain d bytes where "resolved P (ps ! i) d" "n = node_snapshot d bytes i (ps ! i)"
      using i(2) by metis
    with read_outcome_map[of P "ps ! i" d bytes i] that show ?thesis by (auto simp: node_snapshot_def)
  qed
  then obtain maps where maps: "collect_ok (parse_outcome_map (definitions_json P)) (filter gn_goal_assessment nodes) = Inr maps"
    using collect_ok_total by metis
  then have l: "list_all2 (\<lambda>n m. parse_outcome_map (definitions_json P) n = Inr m) (filter gn_goal_assessment nodes) maps"
    by (simp add: collect_ok_Inr)
  have "list_all2 (\<lambda>n m. gn_graph_node_id n = fst m) (filter gn_goal_assessment nodes) maps"
    using l by (rule list_all2_mono) (auto simp: parse_outcome_map_def)
  then have "map fst maps = map gn_graph_node_id (filter gn_goal_assessment nodes)"
    by (auto simp: list_eq_iff_nth_eq list_all2_conv_all_nth)
  then have "fst ` set maps = gn_graph_node_id ` {n \<in> set nodes. gn_goal_assessment n}" by (metis list.set_map set_filter)
  also have "\<dots> = GraphPlacementV2_id ` {p \<in> set ps. assessment_placement P p}"
  proof -
    let ?n = "\<lambda>n. (gn_graph_node_id n, gn_goal_assessment n)" and ?p = "\<lambda>p. (GraphPlacementV2_id p, assessment_placement P p)"
    have "?n (nodes ! i) = ?p (ps ! i)" if "i < length ps" for i
      by (rule stored_at[OF nodes that]) (use assessed_by_definition[OF distinct] in \<open>auto simp: node_snapshot_def\<close>)
    then have same: "map ?n nodes = map ?p ps" using stored_length[OF nodes] by (intro nth_equalityI) simp_all
    have "gn_graph_node_id ` {n \<in> set nodes. gn_goal_assessment n} = fst ` {x \<in> set (map ?n nodes). snd x}" by force
    also have "\<dots> = GraphPlacementV2_id ` {p \<in> set ps. assessment_placement P p}" unfolding same by force
    finally show ?thesis .
  qed
  finally show thesis using maps that by blast
qed

text \<open>Closed references: every target is a placement, so all stored successors are transitions.\<close>

lemma indexed_placement: "placement_index P m = Some q \<Longrightarrow> m \<in> GraphPlacementV2_id ` set (pg_placements (pp_graph P))"
  by (auto simp: placement_index_def btree_map_def dest!: map_of_SomeD)

lemma closed_target:
  assumes "validate_closed_references P = Inr ()" "p \<in> set (pg_placements (pp_graph P))" "m \<in> set (placement_targets True p)"
  shows "m \<in> GraphPlacementV2_id ` set (pg_placements (pp_graph P))"
proof -
  have v: "validate_placement (definition_index P) (placement_index P) p = Inr ()"
    using assms(1,2) by (auto simp: validate_closed_references_def)
  then obtain d where "definition_index P (placement_definition p) = Some d" "kind_agrees p d" by (rule placement_resolves)
  with v assms(3) have "placement_index P m \<noteq> None"
    by (cases p; cases d)
      (auto simp: kind_agrees_def validate_placement_def lookup_definition_def validate_route_def split: ActionOutcomeV2.split_asm if_split_asm)
  then show ?thesis using indexed_placement by blast
qed

lemma closed_manual_target:
  assumes "validate_closed_references P = Inr ()" "m \<in> set (manual_targets P)"
  shows "m \<in> GraphPlacementV2_id ` set (pg_placements (pp_graph P))"
proof -
  have "placement_index P m \<noteq> None"
    using assms by (auto simp: manual_targets_def validate_closed_references_def split: option.splits if_splits)
  then show ?thesis using indexed_placement by blast
qed

lemma read_manual_targets:
  assumes "procedure_wf P"
  shows "map_or_ok [] (collect_ok (\<lambda>v.
         rbind (ok_or (state_invalid ''Procedure v2 manual goal target is invalid'') (Value_as_str v)) (\<lambda>text.
           map_err (\<lambda>_. state_invalid ''Procedure v2 manual goal target is invalid'') (GraphNodeId_new text))))
       (Option.bind (get_object (document_root P) ''manual_rework'') (\<lambda>m. get_array m ''allowed_targets'')) = Inr (manual_targets P)"
proof (cases "pg_manual_rework (pp_graph P)")
  case (Some targets)
  have "collect_ok (\<lambda>v.
         rbind (ok_or (state_invalid ''Procedure v2 manual goal target is invalid'') (Value_as_str v)) (\<lambda>text.
           map_err (\<lambda>_. state_invalid ''Procedure v2 manual goal target is invalid'') (GraphNodeId_new text)))
       (map VString (map GraphNodeId_as_str (rework_targets targets))) = Inr (rework_targets targets)"
    using assms Some by (intro collect_ok_map_id) (simp add: procedure_wf_def)
  then show ?thesis unfolding document_manual_rework Some by (simp add: manual_targets_def Some del: map_map)
next
  case None
  show ?thesis unfolding document_manual_rework None by (simp add: manual_targets_def None)
qed

lemma mapped_graph_built:
  assumes "map_document wire = Inr P"
  obtains entry mr where "ProcedureGraphV2_new entry (pg_placements (pp_graph P)) mr = Inr (pp_graph P)"
proof -
  from assms obtain mr where "map_graph (pdw_graph wire) mr = Inr (pp_graph P)"
    unfolding map_document_def by (auto split: if_splits simp del: transposed_Inr)
  then obtain entry ps where g: "ProcedureGraphV2_new entry ps mr = Inr (pp_graph P)" by (auto simp: map_graph_def)
  from constructed_graph(2)[OF g] g that show thesis by simp
qed

lemma entries_store:
  fixes P entries
  defines "ps \<equiv> pg_placements (pp_graph P)"
  assumes closed: "validate_closed_references P = Inr ()" and wf: "procedure_wf P"
    and l: "list_all2 (\<lambda>p (gid, terminal, ss). gid = GraphPlacementV2_id p \<and> terminal = placement_terminal p \<and>
       set ss = set (placement_targets True p)) ps entries"
    and M: "gsm_dominance_edges M = rev (map (\<lambda>(gid, terminal, successors). (gid, successors)) entries)"
      "gsm_terminal_nodes M = map fst (filter (\<lambda>(gid, terminal, successors). terminal) entries)"
  shows "model_edges M = transitions True (pp_graph P)"
    "set (gsm_terminal_nodes M) = GraphPlacementV2_id ` {p \<in> set ps. terminal_action p}"
proof -
  have entry: "\<exists>p\<in>set ps. gid = GraphPlacementV2_id p \<and> terminal = placement_terminal p \<and> set ss = set (placement_targets True p)"
    if "(gid, terminal, ss) \<in> set entries" for gid terminal ss
    using that l by (fastforce simp: list_all2_conv_all_nth in_set_conv_nth)
  have placed: "\<exists>ss. (GraphPlacementV2_id p, placement_terminal p, ss) \<in> set entries \<and> set ss = set (placement_targets True p)"
    if "p \<in> set ps" for p
    using that l by (fastforce simp: list_all2_conv_all_nth in_set_conv_nth)
  have "map fst entries = map GraphPlacementV2_id ps"
    using l by (fastforce simp: list_eq_iff_nth_eq list_all2_conv_all_nth)
  then have d: "distinct (map fst entries)" using wf by (simp add: procedure_wf_def ps_def)
  have "map_of (gsm_dominance_edges M) u = Some ss \<longleftrightarrow> (\<exists>t. (u, t, ss) \<in> set entries)" for u ss
    using d by (force simp: M(1) map_of_eq_Some_iff rev_map[symmetric] comp_def case_prod_beta)
  then have edges: "(u, v) \<in> model_edges M \<longleftrightarrow> (\<exists>t ss. (u, t, ss) \<in> set entries \<and> v \<in> set ss)" for u v
    by (auto simp: model_edges_def)
  have targets: "(u, v) \<in> transitions True (pp_graph P) \<longleftrightarrow>
      (\<exists>p\<in>set ps. GraphPlacementV2_id p = u \<and> v \<in> set (placement_targets True p))" for u v
    using closed_target[OF closed] by (auto simp: transitions_def ps_def)
  have "(u, v) \<in> model_edges M \<longleftrightarrow> (u, v) \<in> transitions True (pp_graph P)" for u v
    unfolding edges targets using entry placed by metis
  then show "model_edges M = transitions True (pp_graph P)" by auto
  have "terminal_action p = placement_terminal p" for p by (cases p) (simp_all add: terminal_action_def)
  moreover have "u \<in> set (gsm_terminal_nodes M) \<longleftrightarrow> (\<exists>ss. (u, True, ss) \<in> set entries)" for u
    by (force simp: M(2))
  moreover have "(\<exists>ss. (u, True, ss) \<in> set entries) \<longleftrightarrow> (\<exists>p\<in>set ps. GraphPlacementV2_id p = u \<and> placement_terminal p)" for u
  proof
    assume "\<exists>ss. (u, True, ss) \<in> set entries"
    then show "\<exists>p\<in>set ps. GraphPlacementV2_id p = u \<and> placement_terminal p" using entry[of u True] by auto
  next
    assume "\<exists>p\<in>set ps. GraphPlacementV2_id p = u \<and> placement_terminal p"
    then obtain p where "p \<in> set ps" "GraphPlacementV2_id p = u" "placement_terminal p" by blast
    with placed[of p] show "\<exists>ss. (u, True, ss) \<in> set entries" by auto
  qed
  ultimately show "set (gsm_terminal_nodes M) = GraphPlacementV2_id ` {p \<in> set ps. terminal_action p}"
    by (auto simp: set_eq_iff image_iff)
qed

lemma goal_model_stores:
  fixes snap P
  defines "ps \<equiv> pg_placements (pp_graph P)"
  assumes wf: "procedure_wf P" and closed: "validate_closed_references P = Inr ()"
    and distinct: "distinct (map ParsedNodeDefinition_id (pp_node_definitions P))"
    and nodes: "stores_nodes ext P 0 ps (rt_graph_nodes (snap_runtime snap))"
    and document: "ext_json_from_slice ext (as_bytes (canonical_json_str (rt_canonical_json (snap_runtime snap))))
      = Inr (canonical_document_value P)"
    and placements: "\<And>p bytes. p \<in> set ps \<Longrightarrow> canonicalize_value ext (into_json (placement_value p)) = Inr bytes \<Longrightarrow>
      ext_json_from_slice ext bytes = Inr (into_json (placement_value p))"
  obtains M where "GoalSnapshotModelV2_parse ext snap = Inr M" "stores_procedure M P ps" "gsm_manual_targets M = manual_targets P"
proof -
  from nodes placements obtain entries where e: "collect_ok (parse_goal_placement ext) (rt_graph_nodes (snap_runtime snap)) = Inr entries"
    and l: "list_all2 (\<lambda>p (gid, terminal, ss). gid = GraphPlacementV2_id p \<and> terminal = placement_terminal p \<and>
       set ss = set (placement_targets True p)) ps entries" by (rule read_goal_placements)
  from nodes distinct obtain maps where m: "collect_ok (parse_outcome_map (definitions_json P))
      (filter gn_goal_assessment (rt_graph_nodes (snap_runtime snap))) = Inr maps"
    "fst ` set maps = GraphPlacementV2_id ` {p \<in> set ps. assessment_placement P p}" by (rule read_outcome_maps)
  define M where "M = \<lparr>gsm_outcome_maps = btree_map maps, gsm_manual_targets = manual_targets P,
      gsm_dominance_edges = rev (map (\<lambda>(gid, terminal, successors). (gid, successors)) entries),
      gsm_terminal_nodes = map fst (filter (\<lambda>(gid, terminal, successors). terminal) entries)\<rparr>"
  have "GoalSnapshotModelV2_parse ext snap = Inr M"
    unfolding GoalSnapshotModelV2_parse_def
    by (simp only: document document_object(1,8) Value_as_object.simps m(1) e read_manual_targets[OF wf] M_def result_simps)
  moreover have "dom (gsm_outcome_maps M) = GraphPlacementV2_id ` {p \<in> set ps. assessment_placement P p}"
    unfolding m(2)[symmetric] by (simp add: M_def btree_map_def dom_map_of_conv_image_fst)
  then have "stores_procedure M P ps"
    using entries_store[OF closed wf l[unfolded ps_def], of M] by (simp add: stores_procedure_def M_def ps_def)
  ultimately show thesis using that by (simp add: M_def)
qed

section \<open>Vetting and runtime agree\<close>

text \<open>
  C17: the authoring-time list of safe goal-revision targets is what a session enforces. For a source
  document that parses and validates, the listing returns, and the runtime check of a goal revision, on any
  snapshot of the procedure, answers from the declared manual targets and that list alone: a target that is
  not a declared manual target is refused as not allowed, a declared one that is not listed is refused as
  not revision-safe, and every other target is admitted. The goal model of the runtime is the one
  \<open>GoalSnapshotModelV2::parse\<close> reads back from the snapshot. It is assumed that the decoder of the source
  refuses duplicate keys of \<open>node_definitions\<close>, as it is documented to, and that the JSON reader returns the
  value whose canonical bytes it is given, for the document and for its placements.
\<close>

theorem safe_targets_agree_with_runtime:
  assumes "map_document wire = Inr P" "distinct (map fst (pdw_node_definitions wire))"
    "validate_procedure_v2 ext P = Some (Inr V)" "ValidatedProcedureV2_runtime_v2 ext V = Inr (snap_runtime snap)"
    and read: "\<And>v bytes. v \<in> insert (canonical_document_value P)
        ((\<lambda>p. into_json (placement_value p)) ` set (pg_placements (pp_graph P))) \<Longrightarrow>
      canonicalize_value ext v = Inr bytes \<Longrightarrow> ext_json_from_slice ext bytes = Inr v"
  shows "\<exists>ids. goal_revision_safe_targets_v2 P = Some ids \<and>
    (\<forall>target. validate_goal_revision_target_v2 ext snap target =
       (if target \<notin> set (manual_targets P) then Inl (GmGoalRevisionTargetNotAllowed target)
        else if target \<notin> set ids then Inl (GmGoalRevisionTargetNotRevisionSafe target)
        else Inr ()))"
proof -
  let ?ps = "pg_placements (pp_graph P)"
  have rt: "stores_nodes ext P 0 ?ps (rt_graph_nodes (snap_runtime snap))"
    "canonicalize_value ext (canonical_document_value P) = Inr (as_bytes (canonical_json_str (rt_canonical_json (snap_runtime snap))))"
    by (rule validated_runtime[OF assms(1,3)]; use read assms(4) in auto)+
  have closed: "validate_closed_references P = Inr ()" using assms(3) by (rule validated_projection)
  from read[OF _ rt(2)] have doc: "ext_json_from_slice ext (as_bytes (canonical_json_str (rt_canonical_json (snap_runtime snap))))
      = Inr (canonical_document_value P)" by simp
  obtain M where M: "GoalSnapshotModelV2_parse ext snap = Inr M" "stores_procedure M P ?ps" "gsm_manual_targets M = manual_targets P"
    by (rule goal_model_stores[OF mapped_document_wf[OF assms(1)] closed mapped_definitions_distinct[OF assms(1,2)] rt(1) doc])
      (use read in blast)+
  obtain entry mr where "ProcedureGraphV2_new entry ?ps mr = Inr (pp_graph P)" by (rule mapped_graph_built[OF assms(1)])
  from stored_model_agrees[OF this M(2)] obtain ids where ids: "goal_revision_safe_targets_v2 P = Some ids"
    "\<forall>a\<in>GraphPlacementV2_id ` set ?ps. a \<in> set ids \<longleftrightarrow> revision_safe M a" by blast
  have "revision_safe M a \<longleftrightarrow> a \<in> set ids" if "a \<in> set (manual_targets P)" for a
    using ids(2) closed_manual_target[OF closed that] by blast
  then have "validate_goal_revision_target_v2 ext snap target =
       (if target \<notin> set (manual_targets P) then Inl (GmGoalRevisionTargetNotAllowed target)
        else if target \<notin> set ids then Inl (GmGoalRevisionTargetNotRevisionSafe target)
        else Inr ())" for target
    by (simp add: validate_goal_revision_target_v2_def M(1,3))
  with ids(1) show ?thesis by blast
qed

text \<open>
  In the sample, work may be redone under a revised goal, since the assessment lies between it and the end;
  the end may not, although it is declared; and the assessment is safe but not declared.
\<close>

lemma sample_targets:
  "case goal_revision_safe_targets_v2 parsed_sample of
     Some ids \<Rightarrow> GraphNodeId (lit ''work'') \<in> set ids \<and> GraphNodeId (lit ''check'') \<in> set ids \<and>
       GraphNodeId (lit ''done'') \<notin> set ids \<and>
       manual_targets parsed_sample = [GraphNodeId (lit ''work''), GraphNodeId (lit ''done'')]
   | None \<Rightarrow> False"
  by code_simp

theorem safe_targets_agree_with_runtime_witness:
  "\<exists>snap. validate_goal_revision_target_v2 sample_ext snap (GraphNodeId (lit ''work'')) = Inr () \<and>
     validate_goal_revision_target_v2 sample_ext snap (GraphNodeId (lit ''done'')) =
       Inl (GmGoalRevisionTargetNotRevisionSafe (GraphNodeId (lit ''done''))) \<and>
     validate_goal_revision_target_v2 sample_ext snap (GraphNodeId (lit ''check'')) =
       Inl (GmGoalRevisionTargetNotAllowed (GraphNodeId (lit ''check'')))"
proof -
  from sample_validates obtain V where V: "validate_procedure_v2 sample_ext parsed_sample = Some (Inr V)" ..
  obtain rt where rt: "ValidatedProcedureV2_runtime_v2 sample_ext V = Inr rt"
    by (rule validated_runtime[OF sample_parses V]) (rule sample_reads, auto simp: sample_written_def)
  let ?snap = "\<lparr>snap_snapshot_id = ProcedureSnapshotId [], snap_runtime = rt,
      snap_source = \<lparr>source_kind = SourceFile, source_label = [97], source_display = lit ''procedure:'' @ [97]\<rparr>,
      snap_created_at = UnixMillis 1\<rparr>"
  have d: "distinct (map fst (pdw_node_definitions sample_wire))"
    by (simp add: sample_wire_def sample_definitions_def lit_def)
  from sample_targets obtain ids where ids: "goal_revision_safe_targets_v2 parsed_sample = Some ids"
    "GraphNodeId (lit ''work'') \<in> set ids" "GraphNodeId (lit ''done'') \<notin> set ids"
    "manual_targets parsed_sample = [GraphNodeId (lit ''work''), GraphNodeId (lit ''done'')]"
    by (auto split: option.splits)
  have "\<exists>ids. goal_revision_safe_targets_v2 parsed_sample = Some ids \<and>
    (\<forall>target. validate_goal_revision_target_v2 sample_ext ?snap target =
       (if target \<notin> set (manual_targets parsed_sample) then Inl (GmGoalRevisionTargetNotAllowed target)
        else if target \<notin> set ids then Inl (GmGoalRevisionTargetNotRevisionSafe target)
        else Inr ()))"
    by (rule safe_targets_agree_with_runtime[OF sample_parses d V]) (simp add: rt, rule sample_reads, auto simp: sample_written_def)
  with ids have "validate_goal_revision_target_v2 sample_ext ?snap target =
       (if target \<notin> {GraphNodeId (lit ''work''), GraphNodeId (lit ''done'')} then Inl (GmGoalRevisionTargetNotAllowed target)
        else if target \<notin> set ids then Inl (GmGoalRevisionTargetNotRevisionSafe target)
        else Inr ())" for target by simp
  with ids(2,3) show ?thesis by (intro exI[of _ ?snap]) (simp add: lit_def)
qed

end
