(* ===== verification/Goal_Validate.thy ===== *)
theory Goal_Validate
  imports Goal_State
begin

text \<open>
  Admission of a goal state against its session (\<open>validate_goal_state_v2\<close>) and of a successor of an
  admitted goal state (\<open>validate_goal_state_successor_v2\<close>), from \<open>goal_state_v2.rs\<close>. The successor
  check returns the goal transition the workflow-memory successor check then works with.
\<close>

section \<open>Goal revisions\<close>

definition goal_number :: "nat \<Rightarrow> GoalRevisionNumberV2" where
  "goal_number n = GoalRevisionNumberV2 (of_nat n)"

definition validate_initial_revision ::
    "SessionTraceV2 \<Rightarrow> AttemptMetadataV2 \<Rightarrow> GoalRevisionRecordV2 \<Rightarrow> ProcedureStateErrorV2 + unit" where
  "validate_initial_revision trace binding_metadata revision =
     (if gr_created_at revision < md_started_at binding_metadata
      then Inl (state_invalid ''Procedure v2 initial goal revision predates its binding attempt'')
      else if is_some_and (md_ended_at binding_metadata) (\<lambda>ended. gr_created_at revision > ended)
      then Inl (state_invalid ''Procedure v2 initial goal revision postdates its binding attempt'')
      else if \<exists>attempt\<in>set (tr_attempts trace). att_trace attempt > gr_binding_trace revision \<and> att_goal_revision attempt = None
      then Inl (state_invalid ''Procedure v2 attempt after goal definition is unbound'')
      else Inr ())"

definition validate_later_revision ::
    "GoalSnapshotModelV2 \<Rightarrow> SessionTraceV2 \<Rightarrow> (AttemptId \<rightharpoonup> AttemptMetadataV2) \<Rightarrow> SessionAttemptV2 \<Rightarrow> AttemptMetadataV2 \<Rightarrow>
     GoalRevisionRecordV2 \<Rightarrow> ProcedureStateErrorV2 + unit" where
  "validate_later_revision model trace metadata_by_id binding binding_metadata revision =
     rbind (ok_or (state_invalid ''Procedure v2 goal revision prior cursor is absent'')
       (find (\<lambda>a. checked_succ (trace_get (att_trace a)) = Some (trace_get (gr_binding_trace revision)))
          (tr_attempts trace))) (\<lambda>prior_cursor.
     rbind (ok_or (state_invalid ''Procedure v2 goal revision prior metadata is absent'')
       (metadata_by_id (att_attempt_id prior_cursor))) (\<lambda>prior_metadata.
     let terminal_reactivation = (att_graph_node_id prior_cursor \<in> set (gsm_terminal_nodes model)
           \<and> is_terminal_lifecycle (att_lifecycle prior_cursor)) in
     if gr_reactivated revision \<noteq> terminal_reactivation
     then Inl (state_invalid ''Procedure v2 goal reactivation disagrees with the prior cursor'')
     else rbind (if gr_reactivated revision
         then if is_none_or (md_ended_at prior_metadata) (\<lambda>ended_at. ended_at > gr_created_at revision)
              then Inl (state_invalid ''Procedure v2 goal reactivation predates the prior terminal cursor'') else Inr ()
         else if att_lifecycle prior_cursor \<noteq> AttemptAbandoned
              \<or> md_ended_at prior_metadata \<noteq> Some (gr_created_at revision)
              \<or> md_terminal_reason prior_metadata \<noteq> map_option goal_reason_str (gr_reason revision)
         then Inl (state_invalid ''Procedure v2 running goal revision source is inconsistent'') else Inr ()) (\<lambda>_.
     if gr_created_at revision \<noteq> md_started_at binding_metadata
        \<or> gr_rework_to revision \<noteq> Some (att_graph_node_id binding)
        \<or> att_graph_node_id binding \<notin> set (gsm_manual_targets model)
        \<or> \<not> revision_safe model (att_graph_node_id binding)
     then Inl (state_invalid ''Procedure v2 goal revision rework target is inconsistent'')
     else Inr ())))"

definition validate_goal_revision ::
    "GoalSnapshotModelV2 \<Rightarrow> SessionTraceV2 \<Rightarrow> (AttemptId \<rightharpoonup> AttemptMetadataV2) \<Rightarrow> nat \<times> GoalRevisionRecordV2 \<Rightarrow>
     ProcedureStateErrorV2 + unit" where
  "validate_goal_revision model trace metadata_by_id = (\<lambda>(index, revision).
     if gr_revision revision \<noteq> goal_number (Suc index)
        \<or> gr_predecessor revision \<noteq> (if index > 0 then Some (goal_number index) else None)
     then Inl (state_invalid ''Procedure v2 goal revision history is not contiguous'')
     else rbind (ok_or (state_invalid ''Procedure v2 goal revision binding attempt is absent'')
         (find (\<lambda>a. att_trace a = gr_binding_trace revision) (tr_attempts trace))) (\<lambda>binding.
     rbind (ok_or (state_invalid ''Procedure v2 goal revision binding metadata is absent'')
         (metadata_by_id (att_attempt_id binding))) (\<lambda>binding_metadata.
     if att_goal_revision binding \<noteq> Some (goal_number (Suc index))
     then Inl (state_invalid ''Procedure v2 goal revision binding is inconsistent'')
     else if index = 0 then validate_initial_revision trace binding_metadata revision
     else validate_later_revision model trace metadata_by_id binding binding_metadata revision)))"

definition validate_goal_binding ::
    "GoalRevisionRecordV2 list \<Rightarrow> SessionAttemptV2 \<Rightarrow> ProcedureStateErrorV2 + unit" where
  "validate_goal_binding revisions attempt =
     (if att_goal_revision attempt \<noteq>
         map_option gr_revision (find (\<lambda>r. gr_binding_trace r \<le> att_trace attempt) (rev revisions))
      then Inl (state_invalid ''Procedure v2 attempt goal binding is invalid'') else Inr ())"

section \<open>Criterion results\<close>

definition citation_valid :: "AttemptWorkflowMemoryV2 \<Rightarrow> CriterionCitationV2 \<Rightarrow> bool" where
  "citation_valid memory citation =
     (case citation of
        CiteEvidence source \<Rightarrow>
          \<exists>reference\<in>set (am_evidence memory).
            ResolvedEvidenceReferenceV2_source_node (evr_resolution reference) = source \<and>
            (case evr_resolution reference of Resolved _ \<Rightarrow> True | _ \<Rightarrow> False)
      | CiteItem item \<Rightarrow>
          \<exists>slot\<in>set (am_item_slots memory). sl_item_id slot = item \<and> sl_value slot \<noteq> None)"

fun validate_criterion_results ::
    "AttemptMetadataV2 \<Rightarrow> (CriterionId \<rightharpoonup> nat) \<Rightarrow> AttemptWorkflowMemoryV2 \<Rightarrow> nat option \<Rightarrow>
     CriterionAssessmentStateV2 list \<Rightarrow> ProcedureStateErrorV2 + unit" where
  "validate_criterion_results md criterion_order memory prior [] = Inr ()"
| "validate_criterion_results md criterion_order memory prior (result # results) =
     (if ca_recorded_at result < md_started_at md \<or> is_some_and (md_ended_at md) (\<lambda>ended. ca_recorded_at result > ended)
      then Inl (state_invalid ''Procedure v2 criterion assessment timestamp is outside its attempt'')
      else rbind (ok_or (state_invalid ''Procedure v2 criterion is not in the bound goal revision'')
             (criterion_order (ca_criterion_id result))) (\<lambda>index.
      if is_some_and prior (\<lambda>p. index \<le> p)
      then Inl (state_invalid ''Procedure v2 criterion results are not in definition order'')
      else if \<exists>citation\<in>set (car_citations (ca_result result)). \<not> citation_valid memory citation
      then Inl (state_invalid ''Procedure v2 criterion citation target is invalid'')
      else validate_criterion_results md criterion_order memory (Some index) results))"

definition criterion_positions :: "GoalDefinitionV2 \<Rightarrow> CriterionId \<rightharpoonup> nat" where
  "criterion_positions definition_of =
     btree_map (map (\<lambda>(i, c). (gc_id c, i)) (enumerate 0 (goal_criteria definition_of)))"

fun validate_attempt_assessments ::
    "ProcedureSnapshotV2 \<Rightarrow> SessionTraceV2 \<Rightarrow> AttemptMetadataV2 list \<Rightarrow> WorkflowMemoryStateV2 \<Rightarrow> GoalRevisionRecordV2 list \<Rightarrow>
     TraceSequenceV2 option \<Rightarrow> AttemptCriterionAssessmentStateV2 list \<Rightarrow> ProcedureStateErrorV2 + unit" where
  "validate_attempt_assessments snap trace metadata workflow revisions prior [] = Inr ()"
| "validate_attempt_assessments snap trace metadata workflow revisions prior (assessment # rest) =
     rbind (ok_or (state_invalid ''Procedure v2 criterion assessment attempt is absent'')
              (by_id att_attempt_id (tr_attempts trace) (aca_attempt_id assessment))) (\<lambda>attempt.
     if is_some_and prior (\<lambda>p. att_trace attempt \<le> p)
     then Inl (state_invalid ''Procedure v2 criterion assessment owners are not in trace order'')
     else rbind (ok_or (state_invalid ''Procedure v2 criterion assessment node is absent'')
              (ProcedureSnapshotV2_graph_node snap (att_graph_node_id attempt))) (\<lambda>node.
     rbind (ok_or (state_invalid ''Procedure v2 criterion assessment metadata is absent'')
              (by_id md_attempt_id metadata (att_attempt_id attempt))) (\<lambda>attempt_metadata.
     if \<not> gn_goal_assessment node \<or> att_goal_revision attempt \<noteq> Some (aca_goal_revision assessment)
     then Inl (state_invalid ''Procedure v2 criterion assessment owner is invalid'')
     else rbind (ok_or (state_invalid ''Procedure v2 criterion assessment goal revision is absent'')
              (by_id gr_revision revisions (aca_goal_revision assessment))) (\<lambda>revision.
     rbind (ok_or (state_invalid ''Procedure v2 criterion assessment memory is absent'')
              (by_id am_attempt_id (wm_attempts workflow) (aca_attempt_id assessment))) (\<lambda>memory.
     rbind (validate_criterion_results attempt_metadata (criterion_positions (gr_criteria revision)) memory None
              (aca_results assessment)) (\<lambda>_.
       validate_attempt_assessments snap trace metadata workflow revisions (Some (att_trace attempt)) rest))))))"

section \<open>Assessments\<close>

definition assessment_matches_decision ::
    "SessionAttemptV2 \<Rightarrow> DecisionRecordV2 \<Rightarrow> GoalOutcome \<Rightarrow> AttemptCriterionAssessmentStateV2 \<Rightarrow> GoalAssessmentRecordV2 \<Rightarrow> bool" where
  "assessment_matches_decision attempt decision expected_outcome result_state assessment \<longleftrightarrow>
     att_lifecycle attempt = AttemptCompleted \<and> att_goal_revision attempt = Some (ga_goal_revision assessment) \<and>
     ga_decision_graph_node_id assessment = att_graph_node_id attempt \<and>
     ga_decision_trace assessment = att_trace attempt \<and> ga_outcome assessment = expected_outcome \<and>
     ga_criterion_results assessment = map ca_result (aca_results result_state) \<and>
     ga_evidence assessment = dr_evidence decision \<and> ga_actor assessment = dr_actor decision \<and>
     ga_recorded_at assessment = dr_recorded_at decision"

text \<open>
  The index \<open>revisions[&assessment.goal_revision()]\<close> is the revision the attempt is bound to, which
  the loops before have found in the history.
\<close>

definition validate_goal_assessment ::
    "GoalSnapshotModelV2 \<Rightarrow> SessionTraceV2 \<Rightarrow> WorkflowMemoryStateV2 \<Rightarrow> GoalStateV2 \<Rightarrow> GoalAssessmentRecordV2 \<Rightarrow>
     ProcedureStateErrorV2 + unit" where
  "validate_goal_assessment model trace workflow state assessment =
     rbind (ok_or (state_invalid ''Procedure v2 goal assessment attempt is absent'')
              (by_id att_attempt_id (tr_attempts trace) (ga_decision_attempt_id assessment))) (\<lambda>attempt.
     rbind (ok_or (state_invalid ''Procedure v2 goal assessment decision is absent'')
              (find (\<lambda>d. dr_attempt_id d = ga_decision_attempt_id assessment) (wm_decisions workflow))) (\<lambda>decision.
     rbind (ok_or (state_invalid ''Procedure v2 goal assessment node contract is absent'')
              (gsm_outcome_maps model (att_graph_node_id attempt))) (\<lambda>node_outcomes.
     rbind (ok_or (state_invalid ''Procedure v2 goal assessment option mapping is absent'')
              (node_outcomes (dr_selected_option decision))) (\<lambda>expected_outcome.
     rbind (ok_or (state_invalid ''Procedure v2 goal assessment criterion state is absent'')
              (find (\<lambda>v. aca_attempt_id v = att_attempt_id attempt) (gs_attempt_assessments state))) (\<lambda>result_state.
     if \<not> assessment_matches_decision attempt decision expected_outcome result_state assessment
     then Inl (state_invalid ''Procedure v2 goal assessment does not match its decision'')
     else let criteria = goal_criteria (gr_criteria (the (by_id gr_revision (gs_revisions state) (ga_goal_revision assessment)))) in
       if map car_criterion_id (ga_criterion_results assessment) \<noteq> map gc_id criteria
       then Inl (state_invalid ''Procedure v2 goal assessment criterion set is incomplete'')
       else Inr ())))))"

definition check_completed_assessed ::
    "ProcedureSnapshotV2 \<Rightarrow> GoalStateV2 \<Rightarrow> SessionAttemptV2 \<Rightarrow> ProcedureStateErrorV2 + unit" where
  "check_completed_assessed snap state attempt =
     (if is_some_and (ProcedureSnapshotV2_graph_node snap (att_graph_node_id attempt)) gn_goal_assessment
         \<and> att_attempt_id attempt \<notin> set (map ga_decision_attempt_id (gs_assessments state))
      then Inl (state_invalid ''completed Procedure v2 goal decision has no assessment'') else Inr ())"

section \<open>The goal state of a session\<close>

definition validate_unset_goal ::
    "SessionTraceV2 \<Rightarrow> GoalStateV2 \<Rightarrow> bool \<Rightarrow> ProcedureStateErrorV2 + unit" where
  "validate_unset_goal trace state any_binding =
     (if gs_current_revision state \<noteq> None \<or> any_binding \<or> gs_attempt_assessments state \<noteq> [] \<or> gs_assessments state \<noteq> []
      then Inl (state_invalid ''Procedure v2 empty goal state is inconsistent'')
      else if tr_lifecycle trace = SessionCompleted
      then Inl (state_invalid ''completed Procedure v2 goal tracking requires an assessment'')
      else Inr ())"

definition validate_set_goal ::
    "externals \<Rightarrow> ProcedureSnapshotV2 \<Rightarrow> SessionTraceV2 \<Rightarrow> AttemptMetadataV2 list \<Rightarrow> WorkflowMemoryStateV2 \<Rightarrow> GoalStateV2 \<Rightarrow>
     ProcedureStateErrorV2 + unit" where
  "validate_set_goal ext snap trace metadata workflow state =
     (if gs_current_revision state \<noteq> Some (goal_number (length (gs_revisions state)))
      then Inl (state_invalid ''Procedure v2 current goal revision is not latest'')
      else rbind (GoalSnapshotModelV2_parse ext snap) (\<lambda>model.
      rbind (for_each (validate_goal_revision model trace (by_id md_attempt_id metadata))
               (enumerate 0 (gs_revisions state))) (\<lambda>_.
      rbind (for_each (validate_goal_binding (gs_revisions state)) (tr_attempts trace)) (\<lambda>_.
      rbind (validate_attempt_assessments snap trace metadata workflow (gs_revisions state) None
               (gs_attempt_assessments state)) (\<lambda>_.
      if \<not> strictly_ascending ga_decision_trace (gs_assessments state)
      then Inl (state_invalid ''Procedure v2 goal assessments are not in trace order'')
      else rbind (for_each (validate_goal_assessment model trace workflow state) (gs_assessments state)) (\<lambda>_.
      rbind (for_each (check_completed_assessed snap state)
               (filter (\<lambda>a. att_lifecycle a = AttemptCompleted) (tr_attempts trace))) (\<lambda>_.
      if tr_lifecycle trace = SessionCompleted \<and> latest_fresh_assessment state trace = None
      then Inl (state_invalid ''completed Procedure v2 session has no fresh goal assessment'')
      else Inr ())))))))"

definition validate_goal_state_v2 ::
    "externals \<Rightarrow> ProcedureSnapshotV2 \<Rightarrow> SessionTraceV2 \<Rightarrow> AttemptMetadataV2 list \<Rightarrow> WorkflowMemoryStateV2 \<Rightarrow> GoalStateV2 \<Rightarrow>
     ProcedureStateErrorV2 + unit" where
  "validate_goal_state_v2 ext snap trace metadata workflow state =
     (let any_binding = (\<exists>attempt\<in>set (tr_attempts trace). att_goal_revision attempt \<noteq> None) in
      if \<not> rt_goal_tracking (snap_runtime snap)
      then if state \<noteq> GoalStateV2_empty \<or> any_binding
           then Inl (state_invalid ''Procedure v2 goal state requires snapshot opt-in'') else Inr ()
      else if gs_revisions state = [] then validate_unset_goal trace state any_binding
      else validate_set_goal ext snap trace metadata workflow state)"

section \<open>Successors\<close>

definition MAX_GOAL_ASSESSMENT_RESULTS :: nat where
  "MAX_GOAL_ASSESSMENT_RESULTS = 16"

definition goal_history_appended :: "GoalStateV2 \<Rightarrow> GoalStateV2 \<Rightarrow> bool" where
  "goal_history_appended previous successor \<longleftrightarrow>
     length (gs_revisions previous) \<le> length (gs_revisions successor) \<and>
     length (gs_revisions successor) \<le> length (gs_revisions previous) + 1 \<and>
     length (gs_attempt_assessments previous) \<le> length (gs_attempt_assessments successor) \<and>
     length (gs_attempt_assessments successor) \<le> length (gs_attempt_assessments previous) + 1 \<and>
     length (gs_assessments previous) \<le> length (gs_assessments successor) \<and>
     length (gs_assessments successor) \<le> length (gs_assessments previous) + 1 \<and>
     take (length (gs_revisions previous)) (gs_revisions successor) = gs_revisions previous \<and>
     take (length (gs_assessments previous)) (gs_assessments successor) = gs_assessments previous"

definition check_criterion_history ::
    "GoalStateV2 \<Rightarrow> AttemptCriterionAssessmentStateV2 \<Rightarrow> ProcedureStateErrorV2 + unit" where
  "check_criterion_history successor old =
     rbind (ok_or (state_invalid ''Procedure v2 criterion history was removed'')
              (find (\<lambda>v. aca_attempt_id v = aca_attempt_id old) (gs_attempt_assessments successor))) (\<lambda>new.
     let new_by_id = by_id ca_criterion_id (aca_results new) in
     if aca_goal_revision new \<noteq> aca_goal_revision old \<or> length (aca_results new) < length (aca_results old)
        \<or> length (aca_results new) > length (aca_results old) + MAX_GOAL_ASSESSMENT_RESULTS
        \<or> (\<exists>state\<in>set (aca_results old). new_by_id (ca_criterion_id state) \<noteq> Some state)
     then Inl (state_invalid ''Procedure v2 criterion history is not append-only'') else Inr ())"

definition result_count :: "GoalStateV2 \<Rightarrow> nat" where
  "result_count state = sum_list (map (\<lambda>v. length (aca_results v)) (gs_attempt_assessments state))"

definition old_results :: "GoalStateV2 \<Rightarrow> AttemptId \<Rightarrow> CriterionAssessmentStateV2 list" where
  "old_results previous aid =
     (case find (\<lambda>old. aca_attempt_id old = aid) (gs_attempt_assessments previous) of
        None \<Rightarrow> [] | Some old \<Rightarrow> aca_results old)"

definition check_appended_results ::
    "SessionTraceV2 \<Rightarrow> WorkflowMemoryStateV2 \<Rightarrow> GoalStateV2 \<Rightarrow> SessionTraceV2 \<Rightarrow> WorkflowMemoryStateV2 \<Rightarrow> GoalStateV2 \<Rightarrow> nat \<Rightarrow>
     ProcedureStateErrorV2 + unit" where
  "check_appended_results previous_trace previous_workflow previous next_tr next_workflow successor result_delta =
     rbind (ok_or (state_invalid ''Procedure v2 criterion successor has no active attempt'') (active_attempt previous_trace)) (\<lambda>active.
     if map_option att_attempt_id (active_attempt next_tr) \<noteq> Some (att_attempt_id active)
        \<or> previous_workflow \<noteq> next_workflow
        \<or> length (gs_assessments successor) \<noteq> length (gs_assessments previous)
        \<or> length (wm_decisions next_workflow) \<noteq> length (wm_decisions previous_workflow)
     then Inl (state_invalid ''Procedure v2 criterion result mutation is not cursor-stable'')
     else case find (\<lambda>candidate. length (aca_results candidate)
                       = length (old_results previous (aca_attempt_id candidate)) + result_delta)
                 (gs_attempt_assessments successor) of
       None \<Rightarrow> Inl (state_invalid ''Procedure v2 criterion result is not bound to the active attempt'')
     | Some changed_owner \<Rightarrow>
         if aca_attempt_id changed_owner \<noteq> att_attempt_id active
         then Inl (state_invalid ''Procedure v2 criterion result is not bound to the active attempt'')
         else
           (case filter (\<lambda>state. ca_criterion_id state
                   \<notin> set (map ca_criterion_id (old_results previous (att_attempt_id active))))
                   (aca_results changed_owner) of
              [] \<Rightarrow> Inr ()
            | first_new # appended \<Rightarrow>
                if \<exists>state\<in>set appended. ca_actor state \<noteq> ca_actor first_new \<or> ca_recorded_at state \<noteq> ca_recorded_at first_new
                then Inl (state_invalid ''Procedure v2 batch criterion results must share one actor and timestamp'')
                else Inr ()))"

definition check_appended_assessment ::
    "WorkflowMemoryStateV2 \<Rightarrow> GoalStateV2 \<Rightarrow> WorkflowMemoryStateV2 \<Rightarrow> GoalStateV2 \<Rightarrow> ProcedureStateErrorV2 + unit" where
  "check_appended_assessment previous_workflow previous next_workflow successor =
     (if length (gs_assessments successor) = length (gs_assessments previous) + 1
      then rbind (ok_or (state_invalid ''Procedure v2 goal assessment lacks its new decision'')
             (nth_opt (wm_decisions next_workflow) (length (wm_decisions previous_workflow)))) (\<lambda>decision.
        if ga_decision_attempt_id (last (gs_assessments successor)) \<noteq> dr_attempt_id decision
        then Inl (state_invalid ''Procedure v2 goal assessment is not paired atomically'') else Inr ())
      else Inr ())"

definition initial_goal_transition ::
    "SessionTraceV2 \<Rightarrow> SessionTraceV2 \<Rightarrow> GoalRevisionRecordV2 \<Rightarrow> ProcedureStateErrorV2 + WorkflowGoalTransitionV2" where
  "initial_goal_transition previous_trace next_tr revision =
     rbind (ok_or (state_invalid ''Procedure v2 initial goal definition has no active attempt'')
       (case active_attempt previous_trace of
          Some a \<Rightarrow> Some a
        | None \<Rightarrow> if tr_lifecycle previous_trace = SessionPrepared then active_attempt next_tr else None)) (\<lambda>active.
     if gr_revision revision \<noteq> GoalRevisionNumberV2_FIRST \<or> gr_binding_trace revision \<noteq> att_trace active
        \<or> map_option att_attempt_id (active_attempt next_tr) \<noteq> Some (att_attempt_id active)
     then Inl (state_invalid ''Procedure v2 initial goal definition binding is invalid'')
     else Inr (GoalInitialBinding (att_attempt_id active)))"

definition later_goal_transition ::
    "SessionTraceV2 \<Rightarrow> SessionTraceV2 \<Rightarrow> GoalRevisionRecordV2 \<Rightarrow> ProcedureStateErrorV2 + WorkflowGoalTransitionV2" where
  "later_goal_transition previous_trace next_tr revision =
     rbind (ok_or (state_invalid ''Procedure v2 goal revision has no fresh target'')
       (nth_opt (tr_attempts next_tr) (length (tr_attempts previous_trace)))) (\<lambda>fresh.
     if gr_binding_trace revision \<noteq> att_trace fresh \<or> gr_rework_to revision \<noteq> Some (att_graph_node_id fresh)
        \<or> att_goal_revision fresh \<noteq> Some (gr_revision revision)
        \<or> gr_reactivated revision \<noteq> (tr_lifecycle previous_trace = SessionCompleted)
     then Inl (state_invalid ''Procedure v2 goal revision transition is inconsistent'')
     else Inr (GoalRework (att_attempt_id fresh)))"

text \<open>
  The difference of the result counts is taken after the history was found to be append-only; as
  \<open>usize\<close> it does not wrap there.
\<close>

definition validate_goal_state_successor_v2 ::
    "SessionTraceV2 \<Rightarrow> WorkflowMemoryStateV2 \<Rightarrow> GoalStateV2 \<Rightarrow> SessionTraceV2 \<Rightarrow> WorkflowMemoryStateV2 \<Rightarrow> GoalStateV2 \<Rightarrow>
     ProcedureStateErrorV2 + WorkflowGoalTransitionV2" where
  "validate_goal_state_successor_v2 previous_trace previous_workflow previous next_tr next_workflow successor =
     (if \<not> goal_history_appended previous successor
      then Inl (state_invalid ''Procedure v2 goal history is not append-only'')
      else rbind (for_each (check_criterion_history successor) (gs_attempt_assessments previous)) (\<lambda>_.
      let result_delta = result_count successor - result_count previous in
      if result_delta > MAX_GOAL_ASSESSMENT_RESULTS
      then Inl (state_invalid ''Procedure v2 criterion successor appends at most sixteen results'')
      else rbind (if result_delta > 0
          then check_appended_results previous_trace previous_workflow previous next_tr next_workflow successor result_delta
          else Inr ()) (\<lambda>_.
      rbind (check_appended_assessment previous_workflow previous next_workflow successor) (\<lambda>_.
      if length (gs_revisions successor) = length (gs_revisions previous)
      then if gs_current_revision successor \<noteq> gs_current_revision previous
           then Inl (state_invalid ''Procedure v2 current goal revision changed without a record'')
           else Inr GoalNone
      else if result_delta \<noteq> 0 \<or> length (gs_assessments successor) \<noteq> length (gs_assessments previous)
           \<or> length (wm_decisions next_workflow) \<noteq> length (wm_decisions previous_workflow)
           \<or> length (wm_reworks next_workflow) \<noteq> length (wm_reworks previous_workflow)
      then Inl (state_invalid ''Procedure v2 goal revision cannot combine unrelated history events'')
      else if gs_revisions previous = [] then initial_goal_transition previous_trace next_tr (last (gs_revisions successor))
      else later_goal_transition previous_trace next_tr (last (gs_revisions successor))))))"

end
