(* ===== verification/Graph_State.thy ===== *)
theory Graph_State
  imports Goal_Validate
begin

text \<open>
  The aggregate of \<open>graph_v2.rs\<close>: \<open>GraphSessionStateV2\<close> holds the session trace, the node counters,
  the attempt metadata, the workflow memory and the goal state of one task, and every value of it
  passes the validation of \<open>new_with_goal_state\<close>. The twelve arguments of that constructor are the
  fields of the record it returns, so it is a function on the record.
\<close>

section \<open>The aggregate\<close>

record GraphSessionStateV2 =
  st_workspace_revision :: Revision
  st_task_title :: str
  st_snapshot :: ProcedureSnapshotV2
  st_trace :: SessionTraceV2
  st_counters :: "GraphNodeCounterV2 list"
  st_attempt_metadata :: "AttemptMetadataV2 list"
  st_workflow_memory :: WorkflowMemoryStateV2
  st_goal_state :: GoalStateV2
  st_created_at :: UnixMillis
  st_completed_at :: "UnixMillis option"
  st_cancelled_at :: "UnixMillis option"
  st_cancel_reason :: "str option"

definition MAX_TASK_TITLE_CHARACTERS_V2 :: nat where
  "MAX_TASK_TITLE_CHARACTERS_V2 = 500"

section \<open>Validation\<close>

definition validate_session_metadata ::
    "SessionLifecycle \<Rightarrow> UnixMillis \<Rightarrow> UnixMillis option \<Rightarrow> UnixMillis option \<Rightarrow> str option \<Rightarrow>
     ProcedureStateErrorV2 + unit" where
  "validate_session_metadata lifecycle created_at completed_at cancelled_at cancel_reason =
     (let cancel_reason_valid = is_some_and cancel_reason (\<lambda>reason.
            trim reason \<noteq> [] \<and> length reason \<le> MAX_TERMINAL_REASON_CHARACTERS_V2);
          valid = (case lifecycle of
              SessionPrepared \<Rightarrow> completed_at = None \<and> cancelled_at = None \<and> cancel_reason = None
            | SessionRunning \<Rightarrow> completed_at = None \<and> cancelled_at = None \<and> cancel_reason = None
            | SessionCompleted \<Rightarrow>
                is_some_and completed_at (\<lambda>ended. ended \<ge> created_at) \<and> cancelled_at = None \<and> cancel_reason = None
            | SessionCancelled \<Rightarrow>
                completed_at = None \<and> is_some_and cancelled_at (\<lambda>ended. ended \<ge> created_at) \<and> cancel_reason_valid)
      in if valid then Inr () else Inl (state_invalid ''Procedure v2 session lifecycle metadata is inconsistent''))"

definition validate_terminal_graph_state_v2 ::
    "ProcedureSnapshotV2 \<Rightarrow> SessionTraceV2 \<Rightarrow> AttemptMetadataV2 list \<Rightarrow> UnixMillis option \<Rightarrow> UnixMillis option \<Rightarrow>
     str option \<Rightarrow> ProcedureStateErrorV2 + unit" where
  "validate_terminal_graph_state_v2 snap trace metadata completed_at cancelled_at cancel_reason =
     (case last_opt (tr_attempts trace) of
        None \<Rightarrow> Inr ()
      | Some last_attempt \<Rightarrow>
          rbind (ok_or (state_invalid ''Procedure v2 terminal attempt metadata is absent'')
                   (find (\<lambda>m. md_attempt_id m = att_attempt_id last_attempt) metadata)) (\<lambda>last_metadata.
          if (case tr_lifecycle trace of
                SessionPrepared \<Rightarrow> False
              | SessionRunning \<Rightarrow> True
              | SessionCompleted \<Rightarrow>
                  is_some_and (ProcedureSnapshotV2_graph_node snap (att_graph_node_id last_attempt)) (\<lambda>node.
                    gn_node_kind node = KindAction \<and> gn_terminal node) \<and>
                  completed_at = md_ended_at last_metadata \<and> cancelled_at = None \<and> cancel_reason = None
              | SessionCancelled \<Rightarrow>
                  cancelled_at = md_ended_at last_metadata \<and> cancel_reason = md_terminal_reason last_metadata \<and>
                  completed_at = None)
          then Inr () else Inl (state_invalid ''Procedure v2 terminal graph metadata is inconsistent'')))"

definition validate_attempt_metadata :: "SessionAttemptV2 \<Rightarrow> AttemptMetadataV2 \<Rightarrow> ProcedureStateErrorV2 + unit" where
  "validate_attempt_metadata attempt md =
     (let ordered_end = is_some_and (md_ended_at md) (\<lambda>ended_at. ended_at \<ge> md_started_at md);
          valid = (case att_lifecycle attempt of
              AttemptActive \<Rightarrow> md_ended_at md = None \<and> md_terminal_reason md = None
            | AttemptCompleted \<Rightarrow> ordered_end
            | AttemptSkipped \<Rightarrow> ordered_end
            | AttemptAbandoned \<Rightarrow> ordered_end \<and> md_terminal_reason md \<noteq> None)
      in if valid then Inr () else Inl (state_invalid ''Procedure v2 attempt lifecycle metadata is inconsistent''))"

definition attempts_at :: "SessionTraceV2 \<Rightarrow> GraphNodeId \<Rightarrow> SessionAttemptV2 list" where
  "attempts_at trace gid = filter (\<lambda>a. att_graph_node_id a = gid) (tr_attempts trace)"

text \<open>
  \<open>counters_by_node[node]\<close>: the counters have distinct nodes of the snapshot and are as many as its
  nodes, whose identities the snapshot keeps distinct, so every node has its counter.
\<close>

definition validate_graph_state_members ::
    "ProcedureSnapshotV2 \<Rightarrow> SessionTraceV2 \<Rightarrow> GraphNodeCounterV2 list \<Rightarrow> AttemptMetadataV2 list \<Rightarrow>
     ProcedureStateErrorV2 + unit" where
  "validate_graph_state_members snap trace counters metadata =
     (let mismatch = state_invalid ''Procedure v2 graph counters do not match the snapshot'' in
      rbind (for_unique (\<lambda>c. if ProcedureSnapshotV2_graph_node snap (cn_graph_node_id c) = None then Inl mismatch else Inr ())
               cn_graph_node_id mismatch [] counters) (\<lambda>_.
      if length counters \<noteq> length (rt_graph_nodes (snap_runtime snap))
      then Inl (state_invalid ''Procedure v2 requires one counter per graph node'')
      else if length metadata \<noteq> length (tr_attempts trace)
      then Inl (state_invalid ''Procedure v2 attempt metadata is incomplete'')
      else rbind (for_each (\<lambda>(attempt, md).
          if att_attempt_id attempt \<noteq> md_attempt_id md
             \<or> ProcedureSnapshotV2_graph_node snap (att_graph_node_id attempt) = None
          then Inl (state_invalid ''Procedure v2 attempt identity is inconsistent'')
          else validate_attempt_metadata attempt md) (zip (tr_attempts trace) metadata)) (\<lambda>_.
      for_each (\<lambda>node.
          if is_some_and (by_id cn_graph_node_id counters (gn_graph_node_id node)) (\<lambda>c.
               cn_attempt_count c = of_nat (length (attempts_at trace (gn_graph_node_id node))))
          then Inr () else Inl (state_invalid ''Procedure v2 attempt counter disagrees with the trace''))
        (rt_graph_nodes (snap_runtime snap)))))"

definition GraphSessionStateV2_new_with_goal_state ::
    "externals \<Rightarrow> GraphSessionStateV2 \<Rightarrow> ProcedureStateErrorV2 + GraphSessionStateV2" where
  "GraphSessionStateV2_new_with_goal_state ext s =
     (if trim (st_task_title s) = [] \<or> length (st_task_title s) > MAX_TASK_TITLE_CHARACTERS_V2
      then Inl (state_invalid ''Procedure v2 task title is invalid'')
      else if st_workspace_revision s = Revision_ZERO
              \<or> (tr_lifecycle (st_trace s) = SessionPrepared) \<noteq> (tr_revision (st_trace s) = Revision_ZERO)
      then Inl (state_invalid ''Procedure v2 persisted revisions are inconsistent'')
      else rbind (validate_session_metadata (tr_lifecycle (st_trace s)) (st_created_at s) (st_completed_at s)
             (st_cancelled_at s) (st_cancel_reason s)) (\<lambda>_.
      rbind (validate_graph_state_members (st_snapshot s) (st_trace s) (st_counters s) (st_attempt_metadata s)) (\<lambda>_.
      rbind (validate_terminal_graph_state_v2 (st_snapshot s) (st_trace s) (st_attempt_metadata s) (st_completed_at s)
             (st_cancelled_at s) (st_cancel_reason s)) (\<lambda>_.
      rbind (validate_goal_state_v2 ext (st_snapshot s) (st_trace s) (st_attempt_metadata s) (st_workflow_memory s)
             (st_goal_state s)) (\<lambda>_.
      rbind (validate_workflow_memory_v2 ext (st_snapshot s) (st_trace s) (st_counters s) (st_attempt_metadata s)
             (st_workflow_memory s) (goal_rework_target_attempt_ids (st_goal_state s) (st_trace s))
             (reactivated_goal_rework_target_attempt_ids (st_goal_state s) (st_trace s))) (\<lambda>_.
        Inr s))))))"

definition GraphSessionStateV2_new_with_workflow_memory ::
    "externals \<Rightarrow> GraphSessionStateV2 \<Rightarrow> ProcedureStateErrorV2 + GraphSessionStateV2" where
  "GraphSessionStateV2_new_with_workflow_memory ext s =
     GraphSessionStateV2_new_with_goal_state ext (s\<lparr>st_goal_state := GoalStateV2_empty\<rparr>)"

definition GraphSessionStateV2_new ::
    "externals \<Rightarrow> GraphSessionStateV2 \<Rightarrow> ProcedureStateErrorV2 + GraphSessionStateV2" where
  "GraphSessionStateV2_new ext s =
     rbind (empty_for_trace (st_snapshot s) (st_trace s) (st_attempt_metadata s)) (\<lambda>memory.
       GraphSessionStateV2_new_with_workflow_memory ext (s\<lparr>st_workflow_memory := memory\<rparr>))"

definition GraphSessionStateV2_prepared ::
    "externals \<Rightarrow> Revision \<Rightarrow> str \<Rightarrow> ProcedureSnapshotV2 \<Rightarrow> SessionId \<Rightarrow> UnixMillis \<Rightarrow>
     ProcedureStateErrorV2 + GraphSessionStateV2" where
  "GraphSessionStateV2_prepared ext workspace_revision task_title snap session_id created_at =
     GraphSessionStateV2_new ext
       \<lparr>st_workspace_revision = workspace_revision, st_task_title = task_title, st_snapshot = snap,
        st_trace = SessionTraceV2_prepared session_id,
        st_counters = map (\<lambda>node. \<lparr>cn_graph_node_id = gn_graph_node_id node, cn_attempt_count = 0,
                                    cn_rework_traversal_count = 0\<rparr>) (rt_graph_nodes (snap_runtime snap)),
        st_attempt_metadata = [], st_workflow_memory = \<lparr>wm_attempts = [], wm_decisions = [], wm_reworks = []\<rparr>,
        st_goal_state = GoalStateV2_empty, st_created_at = created_at, st_completed_at = None,
        st_cancelled_at = None, st_cancel_reason = None\<rparr>"

section \<open>Reads\<close>

definition selected_evidence_readback ::
    "GraphSessionStateV2 \<Rightarrow> AttemptId \<Rightarrow> ProcedureStateErrorV2 + EvidenceReadbackV2 list" where
  "selected_evidence_readback s aid = selected_readback (st_workflow_memory s) (st_trace s) aid"

definition GraphSessionStateV2_selected_evidence_item ::
    "externals \<Rightarrow> GraphSessionStateV2 \<Rightarrow> AttemptId \<Rightarrow> GraphNodeId \<Rightarrow> ItemId \<Rightarrow>
     ProcedureStateErrorV2 + (EvidenceLookupErrorV2 + SelectedEvidenceItemV2)" where
  "GraphSessionStateV2_selected_evidence_item ext s consumer source_node item_id =
     selected_evidence_item ext (st_workflow_memory s) (st_trace s) consumer source_node item_id"

section \<open>Shared steps of the mutations\<close>

definition require_running_active_v2 ::
    "GraphSessionStateV2 \<Rightarrow> Revision \<Rightarrow> AttemptId \<Rightarrow> GraphMutationErrorV2 + SessionAttemptV2" where
  "require_running_active_v2 s expected_session_revision expected_attempt_id =
     (if tr_lifecycle (st_trace s) \<noteq> SessionRunning then Inl GmSessionNotRunning
      else if tr_revision (st_trace s) \<noteq> expected_session_revision
      then Inl (GmSessionRevisionConflict expected_session_revision (tr_revision (st_trace s)))
      else rbind (ok_or (GmAttemptNotCurrent expected_attempt_id None) (active_attempt (st_trace s))) (\<lambda>active.
        if att_attempt_id active \<noteq> expected_attempt_id
        then Inl (GmAttemptNotCurrent expected_attempt_id (Some (att_attempt_id active)))
        else Inr active))"

text \<open>The trace of a cursor-stable mutation: reconstructed from its parts at the next revision.\<close>

definition next_revision_trace :: "SessionTraceV2 \<Rightarrow> GraphMutationErrorV2 + SessionTraceV2" where
  "next_revision_trace trace =
     rbind (domain_err (Revision_checked_next (tr_revision trace))) (\<lambda>revision.
       domain_err (SessionTraceV2_from_parts (tr_session_id trace) (tr_lifecycle trace) revision (tr_attempts trace)))"

definition next_workspace_revision :: "GraphSessionStateV2 \<Rightarrow> GraphMutationErrorV2 + Revision" where
  "next_workspace_revision s = domain_err (Revision_checked_next (st_workspace_revision s))"

text \<open>The metadata of the attempt that ends, at its position in the list.\<close>

definition end_attempt ::
    "AttemptMetadataV2 list \<Rightarrow> AttemptId \<Rightarrow> UnixMillis \<Rightarrow> str option \<Rightarrow> GraphMutationErrorV2 + AttemptMetadataV2 list" where
  "end_attempt metadata aid now reason =
     rbind (ok_or (gm_invalid ''active Procedure v2 attempt metadata is absent'')
              (position (\<lambda>m. md_attempt_id m = aid) metadata)) (\<lambda>i.
     rbind (state_err (AttemptMetadataV2_new aid (md_started_at (metadata ! i)) (Some now) reason)) (\<lambda>ended.
       Inr (metadata[i := ended])))"

definition start_attempt ::
    "AttemptMetadataV2 list \<Rightarrow> AttemptId \<Rightarrow> UnixMillis \<Rightarrow> GraphMutationErrorV2 + AttemptMetadataV2 list" where
  "start_attempt metadata aid now =
     rbind (state_err (AttemptMetadataV2_new aid now None None)) (\<lambda>md. Inr (metadata @ [md]))"

definition checked_add_bool :: "u64 \<Rightarrow> bool \<Rightarrow> u64 option" where
  "checked_add_bool w b = (if b then checked_succ w else Some w)"

definition count_transition ::
    "string \<Rightarrow> string \<Rightarrow> (GraphNodeId \<Rightarrow> bool) \<Rightarrow> bool \<Rightarrow> GraphNodeCounterV2 list \<Rightarrow>
     GraphMutationErrorV2 + GraphNodeCounterV2 list" where
  "count_transition attempt_overflow rework_overflow is_target rework counters =
     collect_ok (\<lambda>c.
       rbind (ok_or (gm_invalid attempt_overflow)
                (checked_add_bool (cn_attempt_count c) (is_target (cn_graph_node_id c)))) (\<lambda>attempts.
       rbind (ok_or (gm_invalid rework_overflow)
                (checked_add_bool (cn_rework_traversal_count c) (is_target (cn_graph_node_id c) \<and> rework))) (\<lambda>reworks.
         Inr \<lparr>cn_graph_node_id = cn_graph_node_id c, cn_attempt_count = attempts,
              cn_rework_traversal_count = reworks\<rparr>))) counters"

definition check_started ::
    "string \<Rightarrow> GraphSessionStateV2 \<Rightarrow> AttemptId \<Rightarrow> UnixMillis \<Rightarrow> GraphMutationErrorV2 + unit" where
  "check_started regressed s aid now =
     rbind (ok_or (gm_invalid ''active Procedure v2 attempt metadata is absent'')
              (find (\<lambda>m. md_attempt_id m = aid) (st_attempt_metadata s))) (\<lambda>md.
       if now < md_started_at md then Inl (gm_invalid regressed) else Inr ())"

end
