(* ===== verification/Graph_Mutations.thy ===== *)
theory Graph_Mutations
  imports Graph_State
begin

text \<open>
  The mutations of \<open>GraphSessionStateV2\<close> in \<open>graph_v2.rs\<close> on items, blockers and the cursor. Each
  is a function on the immutable state that returns the outcome with the successor state or the
  first error in the order of the code; the successor always comes out of
  \<open>new_with_goal_state\<close>. A trace method on \<open>&mut self\<close> runs on a copy (\<open>mutated\<close>), so a failed call
  leaves nothing behind.
\<close>

abbreviation admitted_state ::
    "externals \<Rightarrow> GraphSessionStateV2 \<Rightarrow> GraphMutationErrorV2 + GraphSessionStateV2" where
  "admitted_state ext s \<equiv> state_err (GraphSessionStateV2_new_with_goal_state ext s)"

section \<open>Beginning and delegation\<close>

record GraphInitialGoalV2 =
  ig_statement :: GoalStatementV2
  ig_criteria :: GoalDefinitionV2
  ig_actor :: "ActorAttributionV2 option"

record GraphBeginOutcomeV2 =
  bo_state :: GraphSessionStateV2
  bo_attempt_id :: AttemptId
  bo_goal_revision :: "GoalRevisionNumberV2 option"

text \<open>The first goal revision, bound to the attempt at \<open>binding\<close>.\<close>

definition first_goal_revision ::
    "GraphInitialGoalV2 \<Rightarrow> TraceSequenceV2 \<Rightarrow> UnixMillis \<Rightarrow> GraphMutationErrorV2 + GoalRevisionRecordV2" where
  "first_goal_revision goal binding now =
     domain_err (GoalRevisionRecordV2_new GoalRevisionNumberV2_FIRST None (ig_statement goal) (ig_criteria goal)
       None None False (ig_actor goal) binding now)"

definition first_goal_state :: "GoalRevisionRecordV2 \<Rightarrow> GraphMutationErrorV2 + GoalStateV2" where
  "first_goal_state revision =
     state_err (GoalStateV2_new (Some GoalRevisionNumberV2_FIRST) [revision] [] [])"

definition begin_v2 ::
    "externals \<Rightarrow> GraphSessionStateV2 \<Rightarrow> Revision \<Rightarrow> AttemptId \<Rightarrow> GraphInitialGoalV2 option \<Rightarrow> UnixMillis \<Rightarrow>
     GraphMutationErrorV2 + GraphBeginOutcomeV2" where
  "begin_v2 ext s expected_session_revision attempt_id initial_goal now =
     (if tr_revision (st_trace s) \<noteq> expected_session_revision
      then Inl (GmSessionRevisionConflict expected_session_revision (tr_revision (st_trace s)))
      else if tr_lifecycle (st_trace s) \<noteq> SessionPrepared then Inl GmSessionNotPrepared
      else if initial_goal \<noteq> None \<and> \<not> rt_goal_tracking (snap_runtime (st_snapshot s)) then Inl GmGoalTrackingNotEnabled
      else
        let goal_revision = map_option (\<lambda>_. GoalRevisionNumberV2_FIRST) initial_goal;
            entry_node = rt_entry_graph_node_id (snap_runtime (st_snapshot s)) in
        rbind (mutated (SessionTraceV2_begin (st_trace s) entry_node attempt_id goal_revision)) (\<lambda>trace.
        let counters = map (\<lambda>c. \<lparr>cn_graph_node_id = cn_graph_node_id c,
              cn_attempt_count = (if cn_graph_node_id c = entry_node then 1 else 0),
              cn_rework_traversal_count = 0\<rparr>) (st_counters s) in
        rbind (start_attempt [] attempt_id now) (\<lambda>metadata.
        rbind (state_err (initial_for_trace (st_snapshot s) trace metadata)) (\<lambda>workflow_memory.
        rbind (case initial_goal of
            Some goal \<Rightarrow> rbind (first_goal_revision goal TraceSequenceV2_FIRST now) first_goal_state
          | None \<Rightarrow> Inr GoalStateV2_empty) (\<lambda>goal_state.
        rbind (next_workspace_revision s) (\<lambda>workspace_revision.
        rbind (admitted_state ext (s\<lparr>st_workspace_revision := workspace_revision, st_trace := trace,
                 st_counters := counters, st_attempt_metadata := metadata, st_workflow_memory := workflow_memory,
                 st_goal_state := goal_state, st_completed_at := None, st_cancelled_at := None,
                 st_cancel_reason := None\<rparr>)) (\<lambda>state.
          Inr \<lparr>bo_state = state, bo_attempt_id = attempt_id, bo_goal_revision = goal_revision\<rparr>)))))))"

definition accept_delegation_successor_v1 ::
    "externals \<Rightarrow> GraphSessionStateV2 \<Rightarrow> AttemptId \<Rightarrow> GraphMutationErrorV2 + GraphSessionStateV2" where
  "accept_delegation_successor_v1 ext s attempt_id =
     (if tr_lifecycle (st_trace s) \<noteq> SessionRunning then Inl GmSessionNotRunning
      else rbind (ok_or GmSessionNotRunning (active_attempt (st_trace s))) (\<lambda>active.
      if att_attempt_id active \<noteq> attempt_id
      then Inl (GmAttemptNotCurrent attempt_id (Some (att_attempt_id active)))
      else rbind (ok_or (gm_invalid ''delegation placement is absent'')
             (ProcedureSnapshotV2_graph_node (st_snapshot s) (att_graph_node_id active))) (\<lambda>placement.
      if \<not> gn_delegated placement then Inl (gm_invalid ''delegation acceptance requires a delegated action'')
      else rbind (validate_active_action_ready_v2 (st_workflow_memory s) (st_snapshot s) (st_trace s)) (\<lambda>_.
      rbind (map_err (\<lambda>_. gm_invalid ''session revision overflowed'')
               (Revision_checked_next (tr_revision (st_trace s)))) (\<lambda>revision.
      rbind (map_err (\<lambda>_. gm_invalid ''delegation acceptance trace is invalid'')
               (SessionTraceV2_from_parts (tr_session_id (st_trace s)) (tr_lifecycle (st_trace s)) revision
                  (tr_attempts (st_trace s)))) (\<lambda>trace.
      rbind (map_err (\<lambda>_. gm_invalid ''workspace revision overflowed'')
               (Revision_checked_next (st_workspace_revision s))) (\<lambda>workspace_revision.
        admitted_state ext (s\<lparr>st_workspace_revision := workspace_revision, st_trace := trace\<rparr>))))))))"

section \<open>Items\<close>

record GraphItemMutationEntryV2 =
  ie_item_id :: ItemId
  ie_changed :: bool
  ie_item_revision :: Revision
  ie_value_digest :: "Sha256Digest option"

record GraphItemMutationOutcomeV2 =
  io_state :: GraphSessionStateV2
  io_changed :: bool
  io_item_revision :: Revision
  io_value_digest :: "Sha256Digest option"

record GraphItemsMutationOutcomeV2 =
  iso_state :: GraphSessionStateV2
  iso_changed :: bool
  iso_items :: "GraphItemMutationEntryV2 list"

text \<open>
  A cursor-stable replacement of the workflow memory: both revisions advance, the workspace
  revision is computed first.
\<close>

definition replace_memory ::
    "externals \<Rightarrow> GraphSessionStateV2 \<Rightarrow> WorkflowMemoryStateV2 \<Rightarrow> GraphMutationErrorV2 + GraphSessionStateV2" where
  "replace_memory ext s memory =
     rbind (next_workspace_revision s) (\<lambda>workspace_revision.
     rbind (next_revision_trace (st_trace s)) (\<lambda>trace.
       admitted_state ext (s\<lparr>st_workspace_revision := workspace_revision, st_trace := trace,
         st_workflow_memory := memory\<rparr>)))"

definition GraphSessionStateV2_mutate_active_item_v2 ::
    "externals \<Rightarrow> GraphSessionStateV2 \<Rightarrow> AttemptId \<Rightarrow> ItemId \<Rightarrow> Revision \<Rightarrow> ActiveItemMutationV2 \<Rightarrow> UnixMillis \<Rightarrow>
     GraphMutationErrorV2 + GraphItemMutationOutcomeV2" where
  "GraphSessionStateV2_mutate_active_item_v2 ext s expected_attempt_id item_id expected_item_revision mutation now =
     rbind (mutate_active_item_v2 (st_workflow_memory s) (st_snapshot s) (st_trace s) expected_attempt_id item_id
              expected_item_revision mutation now) (\<lambda>(memory, out).
     rbind (if oc_changed out then replace_memory ext s memory else Inr s) (\<lambda>state.
       Inr \<lparr>io_state = state, io_changed = oc_changed out, io_item_revision = oc_item_revision out,
            io_value_digest = oc_value_digest out\<rparr>))"

definition GraphSessionStateV2_mutate_active_items_v2 ::
    "externals \<Rightarrow> GraphSessionStateV2 \<Rightarrow> AttemptId \<Rightarrow> ActiveItemMutationRequestV2 list \<Rightarrow> UnixMillis \<Rightarrow>
     GraphMutationErrorV2 + GraphItemsMutationOutcomeV2" where
  "GraphSessionStateV2_mutate_active_items_v2 ext s expected_attempt_id mutations now =
     rbind (mutate_active_items_v2 (st_workflow_memory s) (st_snapshot s) (st_trace s) expected_attempt_id mutations now)
       (\<lambda>(memory, outcomes).
     let changed = (\<exists>out\<in>set outcomes. oc_changed out);
         items = map (\<lambda>out. \<lparr>ie_item_id = oc_item_id out, ie_changed = oc_changed out,
                   ie_item_revision = oc_item_revision out, ie_value_digest = oc_value_digest out\<rparr>) outcomes in
     rbind (if changed then replace_memory ext s memory else Inr s) (\<lambda>state.
       Inr \<lparr>iso_state = state, iso_changed = changed, iso_items = items\<rparr>))"

section \<open>Blockers\<close>

record GraphBlockOutcomeV2 =
  blo_state :: GraphSessionStateV2
  blo_graph_node_id :: GraphNodeId
  blo_attempt_id :: AttemptId
  blo_blocker_id :: BlockerId

record GraphUnblockOutcomeV2 =
  ubo_state :: GraphSessionStateV2
  ubo_graph_node_id :: GraphNodeId
  ubo_attempt_id :: AttemptId
  ubo_blocker_ids :: "BlockerId list"

definition GraphSessionStateV2_block_active_attempt_v2 ::
    "externals \<Rightarrow> GraphSessionStateV2 \<Rightarrow> Revision \<Rightarrow> AttemptId \<Rightarrow> BlockerId \<Rightarrow> str \<Rightarrow> UnixMillis \<Rightarrow>
     GraphMutationErrorV2 + GraphBlockOutcomeV2" where
  "GraphSessionStateV2_block_active_attempt_v2 ext s expected_session_revision expected_attempt_id blocker_id reason now =
     rbind (require_running_active_v2 s expected_session_revision expected_attempt_id) (\<lambda>active.
     rbind (block_active_attempt_v2 (st_workflow_memory s) expected_attempt_id blocker_id reason now) (\<lambda>memory.
     rbind (replace_memory ext s memory) (\<lambda>state.
       Inr \<lparr>blo_state = state, blo_graph_node_id = att_graph_node_id active,
            blo_attempt_id = expected_attempt_id, blo_blocker_id = blocker_id\<rparr>)))"

definition GraphSessionStateV2_unblock_active_attempt_v2 ::
    "externals \<Rightarrow> GraphSessionStateV2 \<Rightarrow> Revision \<Rightarrow> AttemptId \<Rightarrow> BlockerId option \<Rightarrow> bool \<Rightarrow> UnixMillis \<Rightarrow>
     GraphMutationErrorV2 + GraphUnblockOutcomeV2" where
  "GraphSessionStateV2_unblock_active_attempt_v2 ext s expected_session_revision expected_attempt_id blocker_id unblock_all now =
     rbind (require_running_active_v2 s expected_session_revision expected_attempt_id) (\<lambda>active.
     rbind (unblock_active_attempt_v2 (st_workflow_memory s) expected_attempt_id blocker_id unblock_all now)
       (\<lambda>(memory, blocker_ids).
     rbind (replace_memory ext s memory) (\<lambda>state.
       Inr \<lparr>ubo_state = state, ubo_graph_node_id = att_graph_node_id active,
            ubo_attempt_id = expected_attempt_id, ubo_blocker_ids = blocker_ids\<rparr>)))"

section \<open>Cancellation\<close>

record GraphCancelOutcomeV2 =
  cao_state :: GraphSessionStateV2
  cao_graph_node_id :: GraphNodeId
  cao_attempt_id :: AttemptId

definition cancel_active_session_v2 ::
    "externals \<Rightarrow> GraphSessionStateV2 \<Rightarrow> Revision \<Rightarrow> AttemptId \<Rightarrow> ReasonV2 \<Rightarrow> UnixMillis \<Rightarrow>
     GraphMutationErrorV2 + GraphCancelOutcomeV2" where
  "cancel_active_session_v2 ext s expected_session_revision expected_attempt_id reason now =
     rbind (require_running_active_v2 s expected_session_revision expected_attempt_id) (\<lambda>active.
     rbind (mutated (SessionTraceV2_cancel (st_trace s) expected_attempt_id)) (\<lambda>trace.
     rbind (end_attempt (st_attempt_metadata s) expected_attempt_id now (Some (reason_as_str reason))) (\<lambda>metadata.
     rbind (next_workspace_revision s) (\<lambda>workspace_revision.
     rbind (admitted_state ext (s\<lparr>st_workspace_revision := workspace_revision, st_trace := trace,
              st_attempt_metadata := metadata, st_completed_at := None, st_cancelled_at := Some now,
              st_cancel_reason := Some (reason_as_str reason)\<rparr>)) (\<lambda>state.
       Inr \<lparr>cao_state = state, cao_graph_node_id = att_graph_node_id active,
            cao_attempt_id = expected_attempt_id\<rparr>)))))"

section \<open>Completion and skip\<close>

text \<open>An action that ends the session needs a fresh assessment when the procedure tracks a goal.\<close>

definition check_terminal_goal :: "GraphSessionStateV2 \<Rightarrow> bool \<Rightarrow> GraphMutationErrorV2 + unit" where
  "check_terminal_goal s terminal =
     (if terminal \<and> rt_goal_tracking (snap_runtime (st_snapshot s))
      then rbind (ok_or GmSessionGoalMissing (gs_current_revision (st_goal_state s))) (\<lambda>goal_revision.
        if latest_fresh_assessment (st_goal_state s) (st_trace s) = None
        then Inl (GmFreshGoalAssessmentMissing goal_revision) else Inr ())
      else Inr ())"

definition end_action_trace ::
    "GraphSessionStateV2 \<Rightarrow> AttemptId \<Rightarrow> AdvanceTerminalV2 \<Rightarrow> string \<Rightarrow> GraphNodeId option \<Rightarrow> AttemptId option \<Rightarrow>
     GraphMutationErrorV2 + SessionTraceV2" where
  "end_action_trace s expected_attempt_id terminal mismatch target fresh_attempt_id =
     (case (target, fresh_attempt_id) of
        (Some t, Some fresh) \<Rightarrow>
          mutated (SessionTraceV2_advance (st_trace s) expected_attempt_id terminal t fresh
                     (gs_current_revision (st_goal_state s)))
      | (None, None) \<Rightarrow> mutated (SessionTraceV2_finish (st_trace s) expected_attempt_id terminal)
      | _ \<Rightarrow> Inl (gm_invalid mismatch))"

record GraphActionCompletionOutcomeV2 =
  aco_state :: GraphSessionStateV2
  aco_from_graph_node_id :: GraphNodeId
  aco_from_attempt_id :: AttemptId
  aco_to_graph_node_id :: "GraphNodeId option"
  aco_to_attempt_id :: "AttemptId option"

record GraphActionSkipOutcomeV2 =
  sko_state :: GraphSessionStateV2
  sko_from_graph_node_id :: GraphNodeId
  sko_from_attempt_id :: AttemptId
  sko_to_graph_node_id :: "GraphNodeId option"
  sko_to_attempt_id :: "AttemptId option"

text \<open>
  What completion and skip share after the memory of the successor is known: metadata, counters,
  workspace revision, validation. A terminal action completes the session.
\<close>

definition end_action_state ::
    "externals \<Rightarrow> GraphSessionStateV2 \<Rightarrow> AttemptId \<Rightarrow> str option \<Rightarrow> string \<Rightarrow> ActionOutcomeV2 \<Rightarrow> AttemptId option \<Rightarrow>
     SessionTraceV2 \<Rightarrow> WorkflowMemoryStateV2 \<Rightarrow> UnixMillis \<Rightarrow> GraphMutationErrorV2 + GraphSessionStateV2" where
  "end_action_state ext s aid reason overflow out to_attempt_id trace memory now =
     rbind (end_attempt (st_attempt_metadata s) aid now reason) (\<lambda>ended.
     rbind (case to_attempt_id of None \<Rightarrow> Inr ended | Some fresh \<Rightarrow> start_attempt ended fresh now) (\<lambda>metadata.
     rbind (count_transition overflow overflow (\<lambda>gid. next_target out = Some gid) False (st_counters s)) (\<lambda>counters.
     rbind (next_workspace_revision s) (\<lambda>workspace_revision.
       admitted_state ext (s\<lparr>st_workspace_revision := workspace_revision, st_trace := trace, st_counters := counters,
         st_attempt_metadata := metadata, st_workflow_memory := memory,
         st_completed_at := (if out = OutcomeTerminal then Some now else None),
         st_cancelled_at := None, st_cancel_reason := None\<rparr>)))))"

definition complete_active_action_v2 ::
    "externals \<Rightarrow> GraphSessionStateV2 \<Rightarrow> Revision \<Rightarrow> AttemptId \<Rightarrow> AttemptId option \<Rightarrow> UnixMillis \<Rightarrow>
     GraphMutationErrorV2 + GraphActionCompletionOutcomeV2" where
  "complete_active_action_v2 ext s expected_session_revision expected_attempt_id fresh_attempt_id now =
     rbind (require_running_active_v2 s expected_session_revision expected_attempt_id) (\<lambda>active.
     rbind (ok_or (gm_invalid ''active Procedure v2 graph node is absent'')
              (ProcedureSnapshotV2_graph_node (st_snapshot s) (att_graph_node_id active))) (\<lambda>node.
     if gn_node_kind node \<noteq> KindAction
     then Inl (GmGraphNodeTypeMismatch (att_graph_node_id active) (gn_node_kind node))
     else rbind (state_err (GraphNodeSnapshotV2_action_outcome node)) (\<lambda>out.
     rbind (check_terminal_goal s (out = OutcomeTerminal)) (\<lambda>_.
     rbind (check_started ''Procedure v2 completion timestamp regressed'' s expected_attempt_id now) (\<lambda>_.
     rbind (end_action_trace s expected_attempt_id AdvanceCompleted
              ''Procedure v2 action fresh-attempt identity is invalid'' (next_target out) fresh_attempt_id) (\<lambda>trace.
     rbind (complete_action_successor_v2 ext (st_workflow_memory s) (st_snapshot s) (st_trace s) trace now) (\<lambda>memory.
     rbind (end_action_state ext s expected_attempt_id None ''Procedure v2 action attempt counter overflowed''
              out fresh_attempt_id trace memory now) (\<lambda>state.
       Inr \<lparr>aco_state = state, aco_from_graph_node_id = att_graph_node_id active,
            aco_from_attempt_id = att_attempt_id active, aco_to_graph_node_id = next_target out,
            aco_to_attempt_id = fresh_attempt_id\<rparr>))))))))"

definition skip_active_action_v2 ::
    "externals \<Rightarrow> GraphSessionStateV2 \<Rightarrow> Revision \<Rightarrow> AttemptId \<Rightarrow> AttemptId option \<Rightarrow> ReasonV2 option \<Rightarrow> UnixMillis \<Rightarrow>
     GraphMutationErrorV2 + GraphActionSkipOutcomeV2" where
  "skip_active_action_v2 ext s expected_session_revision expected_attempt_id fresh_attempt_id reason now =
     rbind (require_running_active_v2 s expected_session_revision expected_attempt_id) (\<lambda>active.
     rbind (ok_or (gm_invalid ''active Procedure v2 graph node is absent'')
              (ProcedureSnapshotV2_graph_node (st_snapshot s) (att_graph_node_id active))) (\<lambda>node.
     if gn_node_kind node \<noteq> KindAction
     then Inl (GmGraphNodeTypeMismatch (att_graph_node_id active) (gn_node_kind node))
     else rbind (ok_or (GmSkipNotAllowed (att_graph_node_id active)) (gn_skip node)) (\<lambda>skip.
     if skip_reason_required skip \<and> reason = None then Inl (GmSkipReasonRequired (att_graph_node_id active))
     else rbind (state_err (GraphNodeSnapshotV2_action_outcome node)) (\<lambda>out.
     rbind (check_terminal_goal s (out = OutcomeTerminal)) (\<lambda>_.
     rbind (check_started ''Procedure v2 skip timestamp regressed'' s expected_attempt_id now) (\<lambda>_.
     rbind (end_action_trace s expected_attempt_id AdvanceSkipped
              ''Procedure v2 skip fresh-attempt identity is invalid'' (next_target out) fresh_attempt_id) (\<lambda>trace.
     rbind (skip_action_successor_v2 ext (st_workflow_memory s) (st_snapshot s) (st_trace s) trace now) (\<lambda>memory.
     rbind (end_action_state ext s expected_attempt_id (map_option reason_as_str reason)
              ''Procedure v2 skip attempt counter overflowed'' out fresh_attempt_id trace memory now) (\<lambda>state.
       Inr \<lparr>sko_state = state, sko_from_graph_node_id = att_graph_node_id active,
            sko_from_attempt_id = att_attempt_id active, sko_to_graph_node_id = next_target out,
            sko_to_attempt_id = fresh_attempt_id\<rparr>)))))))))"

section \<open>Retry\<close>

record GraphRetryOutcomeV2 =
  ro_state :: GraphSessionStateV2
  ro_graph_node_id :: GraphNodeId
  ro_from_attempt_id :: AttemptId
  ro_to_attempt_id :: AttemptId

definition retry_active_attempt_v2 ::
    "externals \<Rightarrow> GraphSessionStateV2 \<Rightarrow> Revision \<Rightarrow> AttemptId \<Rightarrow> AttemptId \<Rightarrow> ReasonV2 \<Rightarrow> UnixMillis \<Rightarrow>
     GraphMutationErrorV2 + GraphRetryOutcomeV2" where
  "retry_active_attempt_v2 ext s expected_session_revision expected_attempt_id fresh_attempt_id reason now =
     rbind (require_running_active_v2 s expected_session_revision expected_attempt_id) (\<lambda>active.
     rbind (check_started ''Procedure v2 retry timestamp regressed'' s expected_attempt_id now) (\<lambda>_.
     let node = att_graph_node_id active in
     rbind (mutated (SessionTraceV2_retry (st_trace s) expected_attempt_id fresh_attempt_id
              (gs_current_revision (st_goal_state s)))) (\<lambda>trace.
     rbind (retry_successor_v2 ext (st_workflow_memory s) (st_snapshot s) trace now) (\<lambda>memory.
     rbind (end_attempt (st_attempt_metadata s) expected_attempt_id now (Some (reason_as_str reason))) (\<lambda>ended.
     rbind (start_attempt ended fresh_attempt_id now) (\<lambda>metadata.
     rbind (count_transition ''Procedure v2 retry attempt counter overflowed'' '''' (\<lambda>gid. gid = node) False
              (st_counters s)) (\<lambda>counters.
     rbind (next_workspace_revision s) (\<lambda>workspace_revision.
     rbind (admitted_state ext (s\<lparr>st_workspace_revision := workspace_revision, st_trace := trace, st_counters := counters,
              st_attempt_metadata := metadata, st_workflow_memory := memory, st_completed_at := None,
              st_cancelled_at := None, st_cancel_reason := None\<rparr>)) (\<lambda>state.
       Inr \<lparr>ro_state = state, ro_graph_node_id = node, ro_from_attempt_id = att_attempt_id active,
            ro_to_attempt_id = fresh_attempt_id\<rparr>)))))))))"

end
