(* ===== verification/Graph_Decisions.thy ===== *)
theory Graph_Decisions
  imports Graph_Mutations
begin

text \<open>
  The mutations of \<open>GraphSessionStateV2\<close> that decide, assess, define and revise the session goal,
  and rework manually, from \<open>graph_v2.rs\<close>.
\<close>

section \<open>Decisions\<close>

text \<open>\<open>results()[0]\<close>: the constructor of the criterion state admits no empty list of results.\<close>

definition determined_outcome_of :: "CriterionAssessmentStateV2 list \<Rightarrow> GoalOutcome" where
  "determined_outcome_of results =
     (if CriterionAssessmentResultV2_mode (ca_result (hd results)) = ModeApplicability then GoalSuperseded
      else if \<forall>state\<in>set results. car_status (ca_result state) = Satisfied then GoalAchieved
      else GoalNotAchieved)"

definition attempt_assessment :: "GoalStateV2 \<Rightarrow> AttemptId \<Rightarrow> AttemptCriterionAssessmentStateV2 option" where
  "attempt_assessment state aid = find (\<lambda>a. aca_attempt_id a = aid) (gs_attempt_assessments state)"

definition check_goal_fence ::
    "GraphSessionStateV2 \<Rightarrow> SessionAttemptV2 \<Rightarrow> GoalRevisionNumberV2 option \<Rightarrow> GraphMutationErrorV2 + unit" where
  "check_goal_fence s active expected_goal_revision =
     (case expected_goal_revision of
        None \<Rightarrow> Inr ()
      | Some expected \<Rightarrow>
          rbind (ok_or GmSessionGoalMissing (gs_current_revision (st_goal_state s))) (\<lambda>current.
          if expected \<noteq> current then Inl (GmGoalRevisionStale expected current)
          else rbind (ok_or (gm_invalid ''fenced Procedure v2 decision attempt lacks its goal revision binding'')
                 (att_goal_revision active)) (\<lambda>actual.
          if actual \<noteq> expected then Inl (GmGoalRevisionStale expected actual) else Inr ())))"

text \<open>The goal revision, the complete criterion results and their outcome.\<close>

definition complete_assessment ::
    "GraphSessionStateV2 \<Rightarrow> SessionAttemptV2 \<Rightarrow>
     GraphMutationErrorV2 + GoalRevisionNumberV2 \<times> AttemptCriterionAssessmentStateV2 \<times> GoalOutcome" where
  "complete_assessment s active =
     rbind (ok_or GmSessionGoalMissing (gs_current_revision (st_goal_state s))) (\<lambda>goal_revision.
     rbind (ok_or GmSessionGoalMissing
              (find (\<lambda>r. gr_revision r = goal_revision) (gs_revisions (st_goal_state s)))) (\<lambda>revision.
     let attempt_state = attempt_assessment (st_goal_state s) (att_attempt_id active);
         missing = map gc_id (filter (\<lambda>criterion.
           \<not> is_some_and attempt_state (\<lambda>a. gc_id criterion \<in> set (map ca_criterion_id (aca_results a))))
           (goal_criteria (gr_criteria revision))) in
     if missing \<noteq> [] then Inl (GmCriterionResultMissing missing)
     else rbind (ok_or (gm_invalid ''complete Procedure v2 goal assessment is absent'') attempt_state) (\<lambda>a.
       Inr (goal_revision, a, determined_outcome_of (aca_results a)))))"

record GraphDecisionOutcomeV2 =
  dco_state :: GraphSessionStateV2
  dco_decision :: DecisionRecordV2
  dco_goal_assessment :: "GoalAssessmentRecordV2 option"
  dco_declared_rework :: "ReworkRecordV2 option"
  dco_from_graph_node_id :: GraphNodeId
  dco_from_attempt_id :: AttemptId
  dco_to_graph_node_id :: GraphNodeId
  dco_to_attempt_id :: AttemptId

definition goal_assessment_record ::
    "DecisionRecordV2 \<Rightarrow> GoalRevisionNumberV2 \<times> AttemptCriterionAssessmentStateV2 \<times> GoalOutcome \<Rightarrow>
     GraphMutationErrorV2 + GoalAssessmentRecordV2" where
  "goal_assessment_record decision = (\<lambda>(goal_revision, attempt_state, out).
     domain_err (GoalAssessmentRecordV2_new goal_revision out (map ca_result (aca_results attempt_state))
       (dr_evidence decision) (dr_actor decision) (dr_attempt_id decision) (dr_graph_node_id decision)
       (dr_trace decision) (dr_recorded_at decision)))"

definition append_assessment ::
    "GoalStateV2 \<Rightarrow> GoalAssessmentRecordV2 option \<Rightarrow> GraphMutationErrorV2 + GoalStateV2" where
  "append_assessment state goal_assessment =
     (case goal_assessment of
        None \<Rightarrow> Inr state
      | Some assessment \<Rightarrow>
          state_err (GoalStateV2_new (gs_current_revision state) (gs_revisions state) (gs_attempt_assessments state)
            (gs_assessments state @ [assessment])))"

definition is_goal_assessment_node :: "GraphSessionStateV2 \<Rightarrow> SessionAttemptV2 \<Rightarrow> bool" where
  "is_goal_assessment_node s active =
     is_some_and (ProcedureSnapshotV2_graph_node (st_snapshot s) (att_graph_node_id active)) gn_goal_assessment"

definition decide_active_route_with_goal_revision_v2 ::
    "externals \<Rightarrow> GraphSessionStateV2 \<Rightarrow> Revision \<Rightarrow> AttemptId \<Rightarrow> OptionId \<Rightarrow> AttemptId \<Rightarrow> GoalRevisionNumberV2 option \<Rightarrow>
     ReasonV2 option \<Rightarrow> ActorAttributionV2 option \<Rightarrow> UnixMillis \<Rightarrow> GraphMutationErrorV2 + GraphDecisionOutcomeV2" where
  "decide_active_route_with_goal_revision_v2 ext s expected_session_revision expected_attempt_id selected_option
       fresh_attempt_id expected_goal_revision reason actor now =
     rbind (require_running_active_v2 s expected_session_revision expected_attempt_id) (\<lambda>active.
     rbind (check_started ''Procedure v2 decision timestamp regressed'' s expected_attempt_id now) (\<lambda>_.
     let is_goal_assessment = is_goal_assessment_node s active in
     if is_goal_assessment \<and> expected_goal_revision = None
     then Inl (gm_invalid ''Procedure v2 goal-assessment decision requires a goal revision fence'')
     else rbind (check_goal_fence s active expected_goal_revision) (\<lambda>_.
     rbind (if is_goal_assessment then rbind (complete_assessment s active) (\<lambda>a. Inr (Some a)) else Inr None)
       (\<lambda>goal_assessment_state.
     rbind (decide_active_route_v2 ext (st_workflow_memory s) (st_snapshot s) (st_trace s) expected_attempt_id
              selected_option fresh_attempt_id (gs_current_revision (st_goal_state s)) reason actor
              (map_option (\<lambda>(_, _, out). out) goal_assessment_state) now) (\<lambda>transition.
     let decision = dt_decision transition; to_node = dr_route_target decision;
         declared_rework = dt_declared_rework transition in
     rbind (ok_or (gm_invalid ''fresh Procedure v2 decision target is absent'')
              (active_attempt (dt_trace transition))) (\<lambda>fresh.
     rbind (end_attempt (st_attempt_metadata s) expected_attempt_id now None) (\<lambda>ended.
     rbind (start_attempt ended (att_attempt_id fresh) now) (\<lambda>metadata.
     rbind (count_transition ''Procedure v2 decision attempt counter overflowed''
              ''Procedure v2 decision rework counter overflowed'' (\<lambda>gid. gid = to_node) (declared_rework \<noteq> None)
              (st_counters s)) (\<lambda>counters.
     rbind (case goal_assessment_state of
         None \<Rightarrow> Inr None
       | Some a \<Rightarrow> rbind (goal_assessment_record decision a) (\<lambda>r. Inr (Some r))) (\<lambda>goal_assessment.
     rbind (append_assessment (st_goal_state s) goal_assessment) (\<lambda>goal_state.
     rbind (next_workspace_revision s) (\<lambda>workspace_revision.
     rbind (admitted_state ext (s\<lparr>st_workspace_revision := workspace_revision, st_trace := dt_trace transition,
              st_counters := counters, st_attempt_metadata := metadata, st_workflow_memory := dt_memory transition,
              st_goal_state := goal_state, st_completed_at := None, st_cancelled_at := None,
              st_cancel_reason := None\<rparr>)) (\<lambda>state.
       Inr \<lparr>dco_state = state, dco_decision = decision, dco_goal_assessment = goal_assessment,
            dco_declared_rework = declared_rework, dco_from_graph_node_id = att_graph_node_id active,
            dco_from_attempt_id = att_attempt_id active, dco_to_graph_node_id = to_node,
            dco_to_attempt_id = att_attempt_id fresh\<rparr>)))))))))))))"

definition GraphSessionStateV2_decide_active_route_v2 ::
    "externals \<Rightarrow> GraphSessionStateV2 \<Rightarrow> Revision \<Rightarrow> AttemptId \<Rightarrow> OptionId \<Rightarrow> AttemptId \<Rightarrow> ReasonV2 option \<Rightarrow>
     ActorAttributionV2 option \<Rightarrow> UnixMillis \<Rightarrow> GraphMutationErrorV2 + GraphDecisionOutcomeV2" where
  "GraphSessionStateV2_decide_active_route_v2 ext s expected_session_revision expected_attempt_id selected_option
       fresh_attempt_id reason actor now =
     rbind (require_running_active_v2 s expected_session_revision expected_attempt_id) (\<lambda>active.
     rbind (check_started ''Procedure v2 decision timestamp regressed'' s expected_attempt_id now) (\<lambda>_.
     if is_goal_assessment_node s active
     then Inl (GmGoalAssessmentDecisionRequiresAssessment (att_graph_node_id active))
     else decide_active_route_with_goal_revision_v2 ext s expected_session_revision expected_attempt_id selected_option
            fresh_attempt_id None reason actor now))"

section \<open>Defining the goal\<close>

text \<open>Statement, criteria and actor are passed as the record \<open>GraphInitialGoalV2\<close> of them.\<close>

record GraphGoalDefinitionOutcomeV2 =
  gdo_state :: GraphSessionStateV2
  gdo_revision :: GoalRevisionRecordV2

definition bind_initial_goal_at_start_v2 ::
    "externals \<Rightarrow> GraphSessionStateV2 \<Rightarrow> GraphInitialGoalV2 \<Rightarrow> UnixMillis \<Rightarrow>
     GraphMutationErrorV2 + GraphGoalDefinitionOutcomeV2" where
  "bind_initial_goal_at_start_v2 ext s goal now =
     (if \<not> rt_goal_tracking (snap_runtime (st_snapshot s)) then Inl GmGoalTrackingNotEnabled
      else case gs_current_revision (st_goal_state s) of
        Some goal_revision \<Rightarrow> Inl (GmSessionGoalAlreadyDefined goal_revision)
      | None \<Rightarrow>
          rbind (ok_or GmSessionNotRunning (active_attempt (st_trace s))) (\<lambda>active.
          rbind (mutated (bind_initial_goal_revision_at_start (st_trace s) (att_attempt_id active))) (\<lambda>trace.
          rbind (first_goal_revision goal (att_trace active) now) (\<lambda>revision.
          rbind (first_goal_state revision) (\<lambda>goal_state.
          rbind (admitted_state ext (s\<lparr>st_trace := trace, st_goal_state := goal_state\<rparr>)) (\<lambda>state.
            Inr \<lparr>gdo_state = state, gdo_revision = revision\<rparr>))))))"

definition define_goal_v2 ::
    "externals \<Rightarrow> GraphSessionStateV2 \<Rightarrow> Revision \<Rightarrow> GraphInitialGoalV2 \<Rightarrow> UnixMillis \<Rightarrow>
     GraphMutationErrorV2 + GraphGoalDefinitionOutcomeV2" where
  "define_goal_v2 ext s expected_session_revision goal now =
     (if \<not> rt_goal_tracking (snap_runtime (st_snapshot s)) then Inl GmGoalTrackingNotEnabled
      else case gs_current_revision (st_goal_state s) of
        Some goal_revision \<Rightarrow> Inl (GmSessionGoalAlreadyDefined goal_revision)
      | None \<Rightarrow>
          if tr_lifecycle (st_trace s) \<noteq> SessionRunning then Inl GmSessionNotRunning
          else if tr_revision (st_trace s) \<noteq> expected_session_revision
          then Inl (GmSessionRevisionConflict expected_session_revision (tr_revision (st_trace s)))
          else rbind (ok_or GmSessionNotRunning (active_attempt (st_trace s))) (\<lambda>active.
          rbind (mutated (bind_initial_goal_revision (st_trace s) (att_attempt_id active))) (\<lambda>trace.
          rbind (first_goal_revision goal (att_trace active) now) (\<lambda>revision.
          rbind (first_goal_state revision) (\<lambda>goal_state.
          rbind (next_workspace_revision s) (\<lambda>workspace_revision.
          rbind (admitted_state ext (s\<lparr>st_workspace_revision := workspace_revision, st_trace := trace,
                   st_goal_state := goal_state\<rparr>)) (\<lambda>state.
            Inr \<lparr>gdo_state = state, gdo_revision = revision\<rparr>)))))))"

section \<open>Assessing criteria\<close>

fun citable_sources ::
    "SessionTraceV2 \<Rightarrow> GraphNodeId list \<Rightarrow> EvidenceResolutionStateV2 list \<Rightarrow> GraphNodeId list" where
  "citable_sources trace seen [] = []"
| "citable_sources trace seen (reference # rest) =
     (let source = ResolvedEvidenceReferenceV2_source_node (evr_resolution reference) in
      if source \<in> set seen then citable_sources trace seen rest
      else (case evr_resolution reference of
              Resolved snapshot \<Rightarrow>
                if \<exists>a\<in>set (tr_attempts trace). att_attempt_id a = es_source_attempt_id snapshot \<and> att_validity a = Valid
                then [source] else []
            | _ \<Rightarrow> []) @ citable_sources trace (source # seen) rest)"

definition citable_assessment_sources_v2 ::
    "GraphSessionStateV2 \<Rightarrow> AttemptWorkflowMemoryV2 \<Rightarrow> GraphNodeId list \<times> ItemId list" where
  "citable_assessment_sources_v2 s memory =
     (citable_sources (st_trace s) [] (am_evidence memory),
      map sl_item_id (filter (\<lambda>slot. sl_value slot \<noteq> None) (am_item_slots memory)))"

text \<open>A citation is admitted against the first reference to its source, or a recorded item.\<close>

definition citation_admitted ::
    "GraphSessionStateV2 \<Rightarrow> AttemptWorkflowMemoryV2 \<Rightarrow> CriterionCitationV2 \<Rightarrow> bool" where
  "citation_admitted s memory citation =
     (case citation of
        CiteEvidence source \<Rightarrow>
          (case find (\<lambda>r. ResolvedEvidenceReferenceV2_source_node (evr_resolution r) = source) (am_evidence memory) of
             None \<Rightarrow> False
           | Some reference \<Rightarrow>
               (case evr_resolution reference of
                  Resolved snapshot \<Rightarrow>
                    \<exists>a\<in>set (tr_attempts (st_trace s)). att_attempt_id a = es_source_attempt_id snapshot \<and> att_validity a = Valid
                | _ \<Rightarrow> False))
      | CiteItem item \<Rightarrow> \<exists>slot\<in>set (am_item_slots memory). sl_item_id slot = item \<and> sl_value slot \<noteq> None)"

definition citation_error ::
    "GraphSessionStateV2 \<Rightarrow> AttemptWorkflowMemoryV2 \<Rightarrow> CriterionAssessmentResultV2 \<Rightarrow> CriterionCitationV2 \<Rightarrow>
     GraphMutationErrorV2" where
  "citation_error s memory result citation =
     (let (sources, items) = citable_assessment_sources_v2 s memory in
      GmCriterionCitationInvalid (car_criterion_id result) citation sources items)"

text \<open>The batch loop over the citations of one result: a repeated one, then an inadmissible one.\<close>

fun check_citations ::
    "GraphSessionStateV2 \<Rightarrow> AttemptWorkflowMemoryV2 \<Rightarrow> CriterionAssessmentResultV2 \<Rightarrow> CriterionCitationV2 list \<Rightarrow>
     CriterionCitationV2 list \<Rightarrow> GraphMutationErrorV2 + unit" where
  "check_citations s memory result seen [] = Inr ()"
| "check_citations s memory result seen (citation # rest) =
     (if citation \<in> set seen \<or> \<not> citation_admitted s memory citation
      then Inl (citation_error s memory result citation)
      else check_citations s memory result (citation # seen) rest)"

text \<open>
  The checks both assessment commands make before they look at a result: the fences, the node, the
  current goal revision and the memory of the active attempt.
\<close>

definition assessment_context ::
    "GraphSessionStateV2 \<Rightarrow> Revision \<Rightarrow> AttemptId \<Rightarrow> GoalRevisionNumberV2 \<Rightarrow>
     GraphMutationErrorV2 + SessionAttemptV2 \<times> GoalRevisionRecordV2" where
  "assessment_context s expected_session_revision expected_attempt_id expected_goal_revision =
     (if \<not> rt_goal_tracking (snap_runtime (st_snapshot s)) then Inl GmGoalTrackingNotEnabled
      else rbind (require_running_active_v2 s expected_session_revision expected_attempt_id) (\<lambda>active.
      rbind (ok_or GmSessionGoalMissing (gs_current_revision (st_goal_state s))) (\<lambda>current.
      if current \<noteq> expected_goal_revision then Inl (GmGoalRevisionStale expected_goal_revision current)
      else if att_goal_revision active \<noteq> Some current
      then Inl (GmGoalRevisionStale expected_goal_revision (unwrap_or current (att_goal_revision active)))
      else rbind (ok_or (gm_invalid ''active Procedure v2 graph node is absent'')
             (ProcedureSnapshotV2_graph_node (st_snapshot s) (att_graph_node_id active))) (\<lambda>node.
      if gn_node_kind node \<noteq> KindDecision
      then Inl (GmGraphNodeTypeMismatch (att_graph_node_id active) (gn_node_kind node))
      else if \<not> gn_goal_assessment node then Inl (GmGoalAssessmentDecisionRequired (att_graph_node_id active))
      else rbind (ok_or GmSessionGoalMissing
             (find (\<lambda>r. gr_revision r = current) (gs_revisions (st_goal_state s)))) (\<lambda>revision.
        Inr (active, revision))))))"

definition active_memory_of :: "GraphSessionStateV2 \<Rightarrow> SessionAttemptV2 \<Rightarrow> GraphMutationErrorV2 + AttemptWorkflowMemoryV2" where
  "active_memory_of s active =
     ok_or (gm_invalid ''active Procedure v2 workflow memory is absent'')
       (find (\<lambda>m. am_attempt_id m = att_attempt_id active) (wm_attempts (st_workflow_memory s)))"

text \<open>\<open>criterion_order[id]\<close> of a result that passed the membership check.\<close>

definition criterion_index :: "GoalRevisionRecordV2 \<Rightarrow> CriterionAssessmentStateV2 \<Rightarrow> nat" where
  "criterion_index revision state = the (criterion_positions (gr_criteria revision) (ca_criterion_id state))"

definition criterion_recorded :: "AttemptCriterionAssessmentStateV2 option \<Rightarrow> CriterionId \<Rightarrow> bool" where
  "criterion_recorded existing cid =
     is_some_and existing (\<lambda>a. cid \<in> set (map ca_criterion_id (aca_results a)))"

definition recorded_mode :: "AttemptCriterionAssessmentStateV2 option \<Rightarrow> CriterionAssessmentModeV2 option" where
  "recorded_mode existing =
     Option.bind existing (\<lambda>a. case aca_results a of [] \<Rightarrow> None
       | state # _ \<Rightarrow> Some (CriterionAssessmentResultV2_mode (ca_result state)))"

text \<open>
  The goal state with the criterion results of the active attempt replaced or added, and the
  session state that holds it: the session revision advances before the workspace revision.
\<close>

definition put_assessment ::
    "AttemptCriterionAssessmentStateV2 list \<Rightarrow> AttemptCriterionAssessmentStateV2 \<Rightarrow> AttemptCriterionAssessmentStateV2 list" where
  "put_assessment assessments a =
     (case position (\<lambda>v. aca_attempt_id v = aca_attempt_id a) assessments of
        Some i \<Rightarrow> assessments[i := a]
      | None \<Rightarrow> assessments @ [a])"

definition replace_assessments ::
    "externals \<Rightarrow> GraphSessionStateV2 \<Rightarrow> GoalRevisionNumberV2 \<Rightarrow> AttemptCriterionAssessmentStateV2 \<Rightarrow>
     GraphMutationErrorV2 + GraphSessionStateV2" where
  "replace_assessments ext s current a =
     rbind (state_err (GoalStateV2_new (Some current) (gs_revisions (st_goal_state s))
              (put_assessment (gs_attempt_assessments (st_goal_state s)) a) (gs_assessments (st_goal_state s)))) (\<lambda>goal_state.
     rbind (next_revision_trace (st_trace s)) (\<lambda>trace.
     rbind (next_workspace_revision s) (\<lambda>workspace_revision.
       admitted_state ext (s\<lparr>st_workspace_revision := workspace_revision, st_trace := trace,
         st_goal_state := goal_state\<rparr>))))"

record GraphCriterionAssessmentOutcomeV2 =
  cro_state :: GraphSessionStateV2
  cro_assessment :: CriterionAssessmentStateV2
  cro_graph_node_id :: GraphNodeId
  cro_attempt_id :: AttemptId
  cro_goal_revision :: GoalRevisionNumberV2
  cro_complete :: bool
  cro_determined_outcome :: "GoalOutcome option"

definition assess_goal_criterion_v2 ::
    "externals \<Rightarrow> GraphSessionStateV2 \<Rightarrow> Revision \<Rightarrow> AttemptId \<Rightarrow> GoalRevisionNumberV2 \<Rightarrow> CriterionAssessmentResultV2 \<Rightarrow>
     ActorAttributionV2 option \<Rightarrow> UnixMillis \<Rightarrow> GraphMutationErrorV2 + GraphCriterionAssessmentOutcomeV2" where
  "assess_goal_criterion_v2 ext s expected_session_revision expected_attempt_id expected_goal_revision result actor now =
     rbind (assessment_context s expected_session_revision expected_attempt_id expected_goal_revision) (\<lambda>(active, revision).
     let positions = criterion_positions (gr_criteria revision); cid = car_criterion_id result in
     if positions cid = None then Inl (GmCriterionNotFound cid)
     else rbind (active_memory_of s active) (\<lambda>memory.
     let existing = attempt_assessment (st_goal_state s) (att_attempt_id active) in
     if criterion_recorded existing cid then Inl (GmCriterionResultAlreadyRecorded cid)
     else rbind (case recorded_mode existing of
         Some mode \<Rightarrow> if mode \<noteq> CriterionAssessmentResultV2_mode result
                       then Inl (GmCriterionModeMixed cid mode (car_status result)) else Inr ()
       | None \<Rightarrow> Inr ()) (\<lambda>_.
     if \<not> distinct (car_citations result) then Inl (citation_error s memory result (hd (car_citations result)))
     else rbind (for_each (\<lambda>citation. if citation_admitted s memory citation then Inr ()
                   else Inl (citation_error s memory result citation)) (car_citations result)) (\<lambda>_.
     let assessment = \<lparr>ca_result = result, ca_actor = actor, ca_recorded_at = now\<rparr>;
         results = (case existing of None \<Rightarrow> [assessment]
                    | Some a \<Rightarrow> sort_key (criterion_index revision) (aca_results a @ [assessment])) in
     rbind (state_err (AttemptCriterionAssessmentStateV2_new (att_attempt_id active) (gr_revision revision) results)) (\<lambda>attempt_state.
     let complete = (length (aca_results attempt_state) = length (remdups (map gc_id (goal_criteria (gr_criteria revision))))) in
     rbind (replace_assessments ext s (gr_revision revision) attempt_state) (\<lambda>state.
       Inr \<lparr>cro_state = state, cro_assessment = assessment, cro_graph_node_id = att_graph_node_id active,
            cro_attempt_id = att_attempt_id active, cro_goal_revision = gr_revision revision, cro_complete = complete,
            cro_determined_outcome = (if complete then Some (determined_outcome_of (aca_results attempt_state)) else None)\<rparr>))))))"

record GraphCriterionAssessmentsOutcomeV2 =
  crs_state :: GraphSessionStateV2
  crs_assessments :: "CriterionAssessmentStateV2 list"
  crs_graph_node_id :: GraphNodeId
  crs_attempt_id :: AttemptId
  crs_goal_revision :: GoalRevisionNumberV2
  crs_mode :: CriterionAssessmentModeV2
  crs_complete :: bool
  crs_determined_outcome :: "GoalOutcome option"

fun assess_entries ::
    "GraphSessionStateV2 \<Rightarrow> AttemptWorkflowMemoryV2 \<Rightarrow> (CriterionId \<rightharpoonup> nat) \<Rightarrow> AttemptCriterionAssessmentStateV2 option \<Rightarrow>
     ActorAttributionV2 option \<Rightarrow> UnixMillis \<Rightarrow> CriterionAssessmentModeV2 option \<Rightarrow> CriterionAssessmentBatchEntryV2 list \<Rightarrow>
     GraphMutationErrorV2 + CriterionAssessmentModeV2 option \<times> CriterionAssessmentStateV2 list" where
  "assess_entries s memory positions existing actor now mode [] = Inr (mode, [])"
| "assess_entries s memory positions existing actor now mode (entry # entries) =
     rbind (domain_err (CriterionAssessmentBatchEntryV2_into_result entry)) (\<lambda>result.
     let cid = car_criterion_id result; actual = CriterionAssessmentResultV2_mode result in
     if positions cid = None then Inl (GmCriterionNotFound cid)
     else if criterion_recorded existing cid then Inl (GmCriterionResultAlreadyRecorded cid)
     else rbind (case mode of
         Some m \<Rightarrow> if m \<noteq> actual then Inl (GmCriterionModeMixed cid m (car_status result)) else Inr m
       | None \<Rightarrow> Inr actual) (\<lambda>m.
     rbind (check_citations s memory result [] (car_citations result)) (\<lambda>_.
     rbind (assess_entries s memory positions existing actor now (Some m) entries) (\<lambda>(mode', states).
       Inr (mode', \<lparr>ca_result = result, ca_actor = actor, ca_recorded_at = now\<rparr> # states)))))"

definition assess_goal_criteria_v2 ::
    "externals \<Rightarrow> GraphSessionStateV2 \<Rightarrow> Revision \<Rightarrow> AttemptId \<Rightarrow> GoalRevisionNumberV2 \<Rightarrow> CriterionAssessmentBatchEntryV2 list \<Rightarrow>
     ActorAttributionV2 option \<Rightarrow> UnixMillis \<Rightarrow> GraphMutationErrorV2 + GraphCriterionAssessmentsOutcomeV2" where
  "assess_goal_criteria_v2 ext s expected_session_revision expected_attempt_id expected_goal_revision entries actor now =
     (if length entries < 1 \<or> length entries > MAX_GOAL_ASSESSMENT_RESULTS
      then Inl (GmDomain (InvalidState ''criterion assessment batch requires between one and sixteen entries''))
      else rbind (domain_err (check_unique cab_criterion_id
             (InvalidState ''criterion assessment batch contains duplicate criterion ids'') entries)) (\<lambda>_.
      rbind (assessment_context s expected_session_revision expected_attempt_id expected_goal_revision) (\<lambda>(active, revision).
      rbind (active_memory_of s active) (\<lambda>memory.
      let existing = attempt_assessment (st_goal_state s) (att_attempt_id active) in
      rbind (assess_entries s memory (criterion_positions (gr_criteria revision)) existing actor now
               (recorded_mode existing) entries) (\<lambda>(mode, states).
      let new_states = sort_key (criterion_index revision) states;
          results = sort_key (criterion_index revision)
            ((case existing of None \<Rightarrow> [] | Some a \<Rightarrow> aca_results a) @ new_states) in
      rbind (state_err (AttemptCriterionAssessmentStateV2_new (att_attempt_id active) (gr_revision revision) results)) (\<lambda>attempt_state.
      let complete = (length results = length (goal_criteria (gr_criteria revision))) in
      rbind (replace_assessments ext s (gr_revision revision) attempt_state) (\<lambda>state.
        Inr \<lparr>crs_state = state, crs_assessments = new_states, crs_graph_node_id = att_graph_node_id active,
             crs_attempt_id = att_attempt_id active, crs_goal_revision = gr_revision revision, crs_mode = the mode,
             crs_complete = complete,
             crs_determined_outcome =
               (if \<not> complete then None
                else if mode = Some ModeApplicability then Some GoalSuperseded
                else if \<forall>state\<in>set results. car_status (ca_result state) = Satisfied then Some GoalAchieved
                else Some GoalNotAchieved)\<rparr>)))))))"

section \<open>Revising the goal and manual rework\<close>

record GraphGoalRevisionOutcomeV2 =
  gro_state :: GraphSessionStateV2
  gro_revision :: GoalRevisionRecordV2
  gro_target_attempt_id :: AttemptId

record GraphManualReworkOutcomeV2 =
  mro_state :: GraphSessionStateV2
  mro_record :: ReworkRecordV2

definition check_revision_cursor ::
    "GraphSessionStateV2 \<Rightarrow> AttemptId option \<Rightarrow> bool \<Rightarrow> GraphMutationErrorV2 + unit" where
  "check_revision_cursor s expected_attempt_id reactivate =
     (case tr_lifecycle (st_trace s) of
        SessionPrepared \<Rightarrow> Inl GmSessionNotRunning
      | SessionCancelled \<Rightarrow> Inl GmSessionCancelled
      | SessionCompleted \<Rightarrow>
          if \<not> reactivate then Inl GmReactivationFlagRequired
          else (case expected_attempt_id of Some expected \<Rightarrow> Inl (GmAttemptNotCurrent expected None) | None \<Rightarrow> Inr ())
      | SessionRunning \<Rightarrow>
          rbind (ok_or GmSessionNotRunning (active_attempt (st_trace s))) (\<lambda>active.
          rbind (ok_or (GmAttemptNotCurrent (att_attempt_id active) (Some (att_attempt_id active))) expected_attempt_id)
            (\<lambda>expected. if att_attempt_id active \<noteq> expected
               then Inl (GmAttemptNotCurrent expected (Some (att_attempt_id active))) else Inr ())))"

text \<open>A running source is ended with the reason; a completed session keeps its metadata.\<close>

definition end_running_source ::
    "GraphSessionStateV2 \<Rightarrow> AttemptId \<Rightarrow> UnixMillis \<Rightarrow> str \<Rightarrow> GraphMutationErrorV2 + AttemptMetadataV2 list" where
  "end_running_source s source now reason =
     (if tr_lifecycle (st_trace s) = SessionRunning
      then end_attempt (st_attempt_metadata s) source now (Some reason)
      else Inr (st_attempt_metadata s))"

definition revise_goal_v2 ::
    "externals \<Rightarrow> GraphSessionStateV2 \<Rightarrow> Revision \<Rightarrow> AttemptId option \<Rightarrow> GoalRevisionNumberV2 \<Rightarrow> GoalStatementV2 \<Rightarrow>
     GoalDefinitionV2 \<Rightarrow> GraphNodeId \<Rightarrow> AttemptId \<Rightarrow> GoalRevisionReasonV2 \<Rightarrow> ActorAttributionV2 option \<Rightarrow> bool \<Rightarrow> UnixMillis \<Rightarrow>
     GraphMutationErrorV2 + GraphGoalRevisionOutcomeV2" where
  "revise_goal_v2 ext s expected_session_revision expected_attempt_id expected_goal_revision statement criteria target
       fresh_attempt_id reason actor reactivate now =
     (if \<not> rt_goal_tracking (snap_runtime (st_snapshot s)) then Inl GmGoalTrackingNotEnabled
      else if tr_revision (st_trace s) \<noteq> expected_session_revision
      then Inl (GmSessionRevisionConflict expected_session_revision (tr_revision (st_trace s)))
      else rbind (ok_or GmSessionGoalMissing (gs_current_revision (st_goal_state s))) (\<lambda>current.
      if current \<noteq> expected_goal_revision then Inl (GmGoalRevisionStale expected_goal_revision current)
      else rbind (check_revision_cursor s expected_attempt_id reactivate) (\<lambda>_.
      rbind (validate_goal_revision_target_v2 ext (st_snapshot s) target) (\<lambda>_.
      if current_sources (st_trace s) target = [] then Inl (GmManualReworkTargetNotOnTrace target)
      else rbind (ok_or (gm_invalid ''Procedure v2 goal revision overflowed'')
             (map_option GoalRevisionNumberV2 (checked_succ (goal_get current)))) (\<lambda>next_revision.
      rbind (goal_rework_v2 ext (st_workflow_memory s) (st_snapshot s) (st_trace s) expected_attempt_id target
               fresh_attempt_id next_revision now) (\<lambda>(trace, memory).
      rbind (ok_or GmSessionNotRunning (active_attempt trace)) (\<lambda>target_attempt.
      rbind (domain_err (GoalRevisionRecordV2_new next_revision (Some current) statement criteria (Some reason)
               (Some target) (tr_lifecycle (st_trace s) = SessionCompleted) actor (att_trace target_attempt) now)) (\<lambda>revision.
      rbind (state_err (GoalStateV2_new (Some next_revision) (gs_revisions (st_goal_state s) @ [revision])
               (gs_attempt_assessments (st_goal_state s)) (gs_assessments (st_goal_state s)))) (\<lambda>goal_state.
      rbind (case active_attempt (st_trace s) of
          Some source \<Rightarrow> end_running_source s (att_attempt_id source) now (goal_reason_str reason)
        | None \<Rightarrow> Inr (st_attempt_metadata s)) (\<lambda>ended.
      rbind (start_attempt ended fresh_attempt_id now) (\<lambda>metadata.
      rbind (count_transition ''Procedure v2 goal attempt counter overflowed'' ''Procedure v2 goal rework counter overflowed''
               (\<lambda>gid. gid = target) True (st_counters s)) (\<lambda>counters.
      rbind (next_workspace_revision s) (\<lambda>workspace_revision.
      rbind (admitted_state ext (s\<lparr>st_workspace_revision := workspace_revision, st_trace := trace,
               st_counters := counters, st_attempt_metadata := metadata, st_workflow_memory := memory,
               st_goal_state := goal_state, st_completed_at := None, st_cancelled_at := None,
               st_cancel_reason := None\<rparr>)) (\<lambda>state.
        Inr \<lparr>gro_state = state, gro_revision = revision, gro_target_attempt_id = fresh_attempt_id\<rparr>))))))))))))))"

definition manual_rework_source ::
    "GraphSessionStateV2 \<Rightarrow> AttemptId option \<Rightarrow> GraphMutationErrorV2 + SessionAttemptV2" where
  "manual_rework_source s expected_attempt_id =
     (case tr_lifecycle (st_trace s) of
        SessionPrepared \<Rightarrow> Inl GmSessionNotRunning
      | SessionCancelled \<Rightarrow> Inl GmSessionCancelled
      | SessionRunning \<Rightarrow>
          rbind (ok_or (gm_invalid ''running Procedure v2 session has no active attempt'') (active_attempt (st_trace s))) (\<lambda>active.
          rbind (ok_or (gm_invalid ''running Procedure v2 manual rework requires an attempt fence'') expected_attempt_id)
            (\<lambda>expected. if att_attempt_id active \<noteq> expected
               then Inl (GmAttemptNotCurrent expected (Some (att_attempt_id active))) else Inr active))
      | SessionCompleted \<Rightarrow>
          (case expected_attempt_id of
             Some expected \<Rightarrow> Inl (GmAttemptNotCurrent expected None)
           | None \<Rightarrow> ok_or (gm_invalid ''completed Procedure v2 session has no attempt'')
                       (last_opt (tr_attempts (st_trace s)))))"

definition GraphSessionStateV2_manual_rework_v2 ::
    "externals \<Rightarrow> GraphSessionStateV2 \<Rightarrow> Revision \<Rightarrow> AttemptId option \<Rightarrow> GraphNodeId \<Rightarrow> AttemptId \<Rightarrow> ReasonV2 \<Rightarrow>
     ActorAttributionV2 option \<Rightarrow> UnixMillis \<Rightarrow> GraphMutationErrorV2 + GraphManualReworkOutcomeV2" where
  "GraphSessionStateV2_manual_rework_v2 ext s expected_session_revision expected_attempt_id target fresh_attempt_id
       reason actor now =
     (if tr_revision (st_trace s) \<noteq> expected_session_revision
      then Inl (GmSessionRevisionConflict expected_session_revision (tr_revision (st_trace s)))
      else rbind (manual_rework_source s expected_attempt_id) (\<lambda>source.
      rbind (ok_or (gm_invalid ''Procedure v2 manual rework source metadata is absent'')
               (find (\<lambda>m. md_attempt_id m = att_attempt_id source) (st_attempt_metadata s))) (\<lambda>source_metadata.
      if now < unwrap_or (md_started_at source_metadata) (md_ended_at source_metadata)
      then Inl (gm_invalid ''Procedure v2 manual rework timestamp regressed'')
      else rbind (manual_rework_v2 ext (st_workflow_memory s) (st_snapshot s) (st_trace s) expected_attempt_id target
               fresh_attempt_id (gs_current_revision (st_goal_state s)) reason actor now) (\<lambda>transition.
      let record = mr_record transition in
      rbind (end_running_source s (att_attempt_id source) now (reason_as_str reason)) (\<lambda>ended.
      rbind (start_attempt ended (rr_target_attempt_id record) now) (\<lambda>metadata.
      rbind (count_transition ''Procedure v2 manual rework attempt counter overflowed''
               ''Procedure v2 manual rework counter overflowed'' (\<lambda>gid. gid = rr_to_node record) True (st_counters s)) (\<lambda>counters.
      rbind (next_workspace_revision s) (\<lambda>workspace_revision.
      rbind (admitted_state ext (s\<lparr>st_workspace_revision := workspace_revision, st_trace := mr_trace transition,
               st_counters := counters, st_attempt_metadata := metadata, st_workflow_memory := mr_memory transition,
               st_completed_at := None, st_cancelled_at := None, st_cancel_reason := None\<rparr>)) (\<lambda>state.
        Inr \<lparr>mro_state = state, mro_record = record\<rparr>)))))))))"

end
