(* ===== verification/Graph_Reach.thy ===== *)
theory Graph_Reach
  imports Graph_Decisions Session_Trace_Props
begin

text \<open>
  The states a session can reach: prepared, then any accepted mutation of the aggregate. Every
  mutation has one of five effects on the trace and the revisions, whatever else it writes; from
  them come the invariant of the reachable states and the revision fence.
\<close>

section \<open>Accepted mutations\<close>

inductive graph_step :: "externals \<Rightarrow> GraphSessionStateV2 \<Rightarrow> GraphSessionStateV2 \<Rightarrow> bool" for ext s where
  began: "begin_v2 ext s r a g now = Inr out \<Longrightarrow> graph_step ext s (bo_state out)"
| delegation: "accept_delegation_successor_v1 ext s a = Inr s' \<Longrightarrow> graph_step ext s s'"
| item: "GraphSessionStateV2_mutate_active_item_v2 ext s a i ir m now = Inr out \<Longrightarrow> graph_step ext s (io_state out)"
| items: "GraphSessionStateV2_mutate_active_items_v2 ext s a ms now = Inr out \<Longrightarrow> graph_step ext s (iso_state out)"
| block: "GraphSessionStateV2_block_active_attempt_v2 ext s r a b reason now = Inr out \<Longrightarrow> graph_step ext s (blo_state out)"
| unblock: "GraphSessionStateV2_unblock_active_attempt_v2 ext s r a b all now = Inr out \<Longrightarrow> graph_step ext s (ubo_state out)"
| cancel: "cancel_active_session_v2 ext s r a rs now = Inr out \<Longrightarrow> graph_step ext s (cao_state out)"
| complete: "complete_active_action_v2 ext s r a f now = Inr out \<Longrightarrow> graph_step ext s (aco_state out)"
| skip: "skip_active_action_v2 ext s r a f rs' now = Inr out \<Longrightarrow> graph_step ext s (sko_state out)"
| retry: "retry_active_attempt_v2 ext s r a f' rs now = Inr out \<Longrightarrow> graph_step ext s (ro_state out)"
| decide: "decide_active_route_with_goal_revision_v2 ext s r a opt f' gr rs' actor now = Inr out \<Longrightarrow>
    graph_step ext s (dco_state out)"
| decide_plain: "GraphSessionStateV2_decide_active_route_v2 ext s r a opt f' rs' actor now = Inr out \<Longrightarrow>
    graph_step ext s (dco_state out)"
| bind_at_start: "bind_initial_goal_at_start_v2 ext s goal now = Inr out \<Longrightarrow> graph_step ext s (gdo_state out)"
| define_goal: "define_goal_v2 ext s r goal now = Inr out \<Longrightarrow> graph_step ext s (gdo_state out)"
| assess: "assess_goal_criterion_v2 ext s r a gr' result actor now = Inr out \<Longrightarrow> graph_step ext s (cro_state out)"
| assess_batch: "assess_goal_criteria_v2 ext s r a gr' entries actor now = Inr out \<Longrightarrow> graph_step ext s (crs_state out)"
| revise: "revise_goal_v2 ext s r a' gr' st cr target f' why actor re now = Inr out \<Longrightarrow> graph_step ext s (gro_state out)"
| rework: "GraphSessionStateV2_manual_rework_v2 ext s r a' target f' rs actor now = Inr out \<Longrightarrow> graph_step ext s (mro_state out)"

inductive graph_reach :: "externals \<Rightarrow> GraphSessionStateV2 \<Rightarrow> bool" for ext where
  prepared: "GraphSessionStateV2_prepared ext w title snap sid created = Inr s \<Longrightarrow> graph_reach ext s"
| step: "graph_reach ext s \<Longrightarrow> graph_step ext s s' \<Longrightarrow> graph_reach ext s'"

section \<open>Effects\<close>

abbreviation admits :: "externals \<Rightarrow> GraphSessionStateV2 \<Rightarrow> bool" where
  "admits ext s \<equiv> GraphSessionStateV2_new_with_goal_state ext s = Inr s"

abbreviation session_rev :: "GraphSessionStateV2 \<Rightarrow> nat" where
  "session_rev s \<equiv> unat (revision_get (tr_revision (st_trace s)))"
abbreviation workspace_rev :: "GraphSessionStateV2 \<Rightarrow> nat" where
  "workspace_rev s \<equiv> unat (revision_get (st_workspace_revision s))"

text \<open>What a mutation never touches.\<close>

definition same_task :: "GraphSessionStateV2 \<Rightarrow> GraphSessionStateV2 \<Rightarrow> bool" where
  "same_task s s' \<longleftrightarrow>
     st_task_title s' = st_task_title s \<and> st_snapshot s' = st_snapshot s \<and> st_created_at s' = st_created_at s"

text \<open>
  Where a trace command may lead: to the entry, to the declared target of an ended action or to the
  target of an advancing route; and an action is only skipped when its placement declares a skip.
\<close>

definition advance_link :: "ProcedureSnapshotV2 \<Rightarrow> GraphNodeId \<Rightarrow> GraphNodeId \<Rightarrow> bool" where
  "advance_link snap n m \<longleftrightarrow>
     (\<exists>node out. ProcedureSnapshotV2_graph_node snap n = Some node \<and> GraphNodeSnapshotV2_action_outcome node = Inr out \<and>
        next_target out = Some m) \<or>
     (\<exists>model spec opt. ProcedureSnapshotV2_memory_model snap = Inr model \<and> mm_nodes model n = Some spec \<and>
        nm_routes spec opt = Some (m, EffectAdvance))"

definition may_end :: "GraphSessionStateV2 \<Rightarrow> SessionAttemptV2 \<Rightarrow> AdvanceTerminalV2 \<Rightarrow> bool" where
  "may_end s active p \<longleftrightarrow> active_attempt (st_trace s) = Some active \<and>
     (p = AdvanceSkipped \<longrightarrow>
        (\<exists>node. ProcedureSnapshotV2_graph_node (st_snapshot s) (att_graph_node_id active) = Some node \<and> gn_skip node \<noteq> None))"

fun follows :: "GraphSessionStateV2 \<Rightarrow> TraceCommand \<Rightarrow> bool" where
  "follows s (TcBegin n a g) \<longleftrightarrow> n = rt_entry_graph_node_id (snap_runtime (st_snapshot s))"
| "follows s (TcAdvance e p n a g) \<longleftrightarrow>
     (\<exists>active. may_end s active p \<and> advance_link (st_snapshot s) (att_graph_node_id active) n)"
| "follows s (TcFinish e p) \<longleftrightarrow> (\<exists>active. may_end s active p)"
| "follows s _ \<longleftrightarrow> True"

inductive graph_effect :: "externals \<Rightarrow> GraphSessionStateV2 \<Rightarrow> GraphSessionStateV2 \<Rightarrow> bool" for ext s where
  unchanged: "graph_effect ext s s"
| moved: "same_task s s' \<Longrightarrow> admits ext s' \<Longrightarrow> workspace_rev s' = Suc (workspace_rev s) \<Longrightarrow>
    trace_step c (st_trace s) = (Inr (), st_trace s') \<Longrightarrow> follows s c \<Longrightarrow> graph_effect ext s s'"
| stayed: "same_task s s' \<Longrightarrow> admits ext s' \<Longrightarrow> workspace_rev s' = Suc (workspace_rev s) \<Longrightarrow>
    tr_lifecycle (st_trace s) \<noteq> SessionPrepared \<Longrightarrow> unat (revision_get r) = Suc (session_rev s) \<Longrightarrow>
    st_trace s' = st_trace s\<lparr>tr_revision := r\<rparr> \<Longrightarrow> graph_effect ext s s'"
| bound: "same_task s s' \<Longrightarrow> admits ext s' \<Longrightarrow> workspace_rev s' = Suc (workspace_rev s) \<Longrightarrow>
    bind_initial_goal_revision (st_trace s) e = (Inr (), st_trace s') \<Longrightarrow> graph_effect ext s s'"
| bound_at_start: "same_task s s' \<Longrightarrow> admits ext s' \<Longrightarrow> st_workspace_revision s' = st_workspace_revision s \<Longrightarrow>
    bind_initial_goal_revision_at_start (st_trace s) e = (Inr (), st_trace s') \<Longrightarrow> graph_effect ext s s'"

declare graph_effect.unchanged [simp]

lemma mutated_Inr [simp]: "mutated r = Inr t \<longleftrightarrow> r = (Inr (), t)"
  by (cases r; cases "fst r") (auto simp: mutated_def)

lemma new_with_goal_state_same: "GraphSessionStateV2_new_with_goal_state ext s = Inr s' \<Longrightarrow> s' = s"
  by (auto simp: GraphSessionStateV2_new_with_goal_state_def split: if_splits)

lemma admitted_stateD:
  assumes "admitted_state ext s = Inr s'"
  shows "s' = s" "admits ext s'"
  using assms new_with_goal_state_same[of ext s s'] by auto

lemma next_workspace_revisionD:
  "next_workspace_revision s = Inr w \<Longrightarrow> unat (revision_get w) = Suc (workspace_rev s)"
  by (simp add: next_workspace_revision_def checked_succ_nat)

lemma next_revision_traceD:
  assumes "trace_wf t" "next_revision_trace t = Inr t'"
  shows "\<exists>r. unat (revision_get r) = Suc (unat (revision_get (tr_revision t))) \<and> t' = t\<lparr>tr_revision := r\<rparr>"
proof -
  from assms(2) obtain r where "Revision_checked_next (tr_revision t) = Inr r"
    "SessionTraceV2_from_parts (tr_session_id t) (tr_lifecycle t) r (tr_attempts t) = Inr t'"
    by (auto simp: next_revision_trace_def)
  then show ?thesis
    using trace_wf_attempts[OF assms(1)] by (intro exI[of _ r]) (auto simp: checked_succ_nat from_parts_ok)
qed

section \<open>Every mutation has an effect\<close>

lemma moved_effect:
  assumes "admitted_state ext s2 = Inr s'" "next_workspace_revision s = Inr w" "st_workspace_revision s2 = w"
    "same_task s s2" "trace_step c (st_trace s) = (Inr (), st_trace s2)" "follows s c"
  shows "graph_effect ext s s'"
  using admitted_stateD[OF assms(1)] assms(2-6) by (auto intro: graph_effect.moved dest: next_workspace_revisionD)

lemma stayed_effect:
  assumes "admitted_state ext s2 = Inr s'" "next_workspace_revision s = Inr w" "st_workspace_revision s2 = w"
    "same_task s s2" "trace_wf (st_trace s)" "next_revision_trace (st_trace s) = Inr (st_trace s2)"
    "tr_lifecycle (st_trace s) \<noteq> SessionPrepared"
  shows "graph_effect ext s s'"
proof -
  from next_revision_traceD[OF assms(5,6)] obtain r where
    "unat (revision_get r) = Suc (session_rev s)" "st_trace s2 = st_trace s\<lparr>tr_revision := r\<rparr>" by blast
  with admitted_stateD[OF assms(1)] assms(2-4,7) show ?thesis
    by (auto intro: graph_effect.stayed dest: next_workspace_revisionD)
qed

lemma replace_memory_effect:
  assumes "replace_memory ext s m = Inr s'" "trace_wf (st_trace s)" "tr_lifecycle (st_trace s) \<noteq> SessionPrepared"
  shows "graph_effect ext s s'"
proof -
  from assms(1) obtain w t where w: "next_workspace_revision s = Inr w" "next_revision_trace (st_trace s) = Inr t"
    "admitted_state ext (s\<lparr>st_workspace_revision := w, st_trace := t, st_workflow_memory := m\<rparr>) = Inr s'"
    by (auto simp: replace_memory_def)
  show ?thesis by (rule stayed_effect[OF w(3,1)]) (use w assms in \<open>simp_all add: same_task_def\<close>)
qed

lemma replace_assessments_effect:
  assumes "replace_assessments ext s g a = Inr s'" "trace_wf (st_trace s)" "tr_lifecycle (st_trace s) \<noteq> SessionPrepared"
  shows "graph_effect ext s s'"
proof -
  from assms(1) obtain gs w t where w: "next_workspace_revision s = Inr w" "next_revision_trace (st_trace s) = Inr t"
    "admitted_state ext (s\<lparr>st_workspace_revision := w, st_trace := t, st_goal_state := gs\<rparr>) = Inr s'"
    by (auto simp: replace_assessments_def)
  show ?thesis by (rule stayed_effect[OF w(3,1)]) (use w assms in \<open>simp_all add: same_task_def\<close>)
qed

lemma end_action_effect:
  assumes "end_action_trace s a p mm (next_target out) f = Inr t" "end_action_state ext s a rs ov out f t m now = Inr s'"
    "may_end s active p" "ProcedureSnapshotV2_graph_node (st_snapshot s) (att_graph_node_id active) = Some node"
    "GraphNodeSnapshotV2_action_outcome node = Inr out"
  shows "graph_effect ext s s'"
proof -
  from assms(2) obtain w cs md where w: "next_workspace_revision s = Inr w"
    "admitted_state ext (s\<lparr>st_workspace_revision := w, st_trace := t, st_counters := cs, st_attempt_metadata := md,
       st_workflow_memory := m, st_completed_at := (if out = OutcomeTerminal then Some now else None),
       st_cancelled_at := None, st_cancel_reason := None\<rparr>) = Inr s'"
    unfolding end_action_state_def by auto
  have link: "next_target out = Some n \<Longrightarrow> advance_link (st_snapshot s) (att_graph_node_id active) n" for n
    using assms(4,5) by (auto simp: advance_link_def)
  from assms(1) consider n g fr where "trace_step (TcAdvance a p n fr g) (st_trace s) = (Inr (), t)" "next_target out = Some n"
    | "trace_step (TcFinish a p) (st_trace s) = (Inr (), t)"
    by (auto simp: end_action_trace_def split: option.splits)
  then obtain c where "trace_step c (st_trace s) = (Inr (), t)" "follows s c"
    using assms(3) link by cases (metis follows.simps(2), metis follows.simps(3))
  then show ?thesis by (intro moved_effect[OF w(2,1), of c]) (simp_all add: same_task_def)
qed

lemma require_running_active:
  "require_running_active_v2 s r a = Inr active \<Longrightarrow> active_attempt (st_trace s) = Some active"
  by (auto simp: require_running_active_v2_def split: if_splits)

lemma require_running_runs:
  "require_running_active_v2 s r a = Inr active \<Longrightarrow> tr_lifecycle (st_trace s) = SessionRunning"
  by (auto simp: require_running_active_v2_def split: if_splits)

lemma require_active_runs: "require_active t a = Inr active \<Longrightarrow> tr_lifecycle t = SessionRunning"
  by (auto simp: require_active_def split: if_splits)

lemma complete_effect:
  "complete_active_action_v2 ext s r a f now = Inr out \<Longrightarrow> graph_effect ext s (aco_state out)"
  by (auto simp: complete_active_action_v2_def may_end_def split: if_splits
      intro!: end_action_effect dest!: require_running_active)

lemma skip_effect:
  "skip_active_action_v2 ext s r a f rs now = Inr out \<Longrightarrow> graph_effect ext s (sko_state out)"
  by (auto simp: skip_active_action_v2_def may_end_def split: if_splits
      intro!: end_action_effect dest!: require_running_active)

lemma items_run:
  "mutate_active_items_v2 wm snap t a ms now = Inr x \<Longrightarrow> tr_lifecycle t = SessionRunning"
  by (auto simp: mutate_active_items_v2_def Let_def split: if_splits option.splits dest: require_active_runs)

lemma item_effects:
  assumes "trace_wf (st_trace s)"
  shows "GraphSessionStateV2_mutate_active_item_v2 ext s a i ir m now = Inr out \<Longrightarrow> graph_effect ext s (io_state out)"
    and "GraphSessionStateV2_mutate_active_items_v2 ext s a ms now = Inr out' \<Longrightarrow> graph_effect ext s (iso_state out')"
  using assms
  by (auto simp: GraphSessionStateV2_mutate_active_item_v2_def GraphSessionStateV2_mutate_active_items_v2_def
      mutate_active_item_v2_def Let_def split: if_splits prod.splits
      intro: replace_memory_effect dest!: items_run)

lemma blocker_effects:
  assumes "trace_wf (st_trace s)"
  shows "GraphSessionStateV2_block_active_attempt_v2 ext s r a b reason now = Inr out \<Longrightarrow> graph_effect ext s (blo_state out)"
    and "GraphSessionStateV2_unblock_active_attempt_v2 ext s r a b' all now = Inr out' \<Longrightarrow> graph_effect ext s (ubo_state out')"
  using assms
  by (auto simp: GraphSessionStateV2_block_active_attempt_v2_def GraphSessionStateV2_unblock_active_attempt_v2_def
      split: prod.splits intro!: replace_memory_effect dest!: require_running_runs)

lemma assess_context_runs:
  "assessment_context s r a g = Inr (active, revision) \<Longrightarrow> tr_lifecycle (st_trace s) = SessionRunning"
  by (auto simp: assessment_context_def split: if_splits dest: require_running_runs)

lemma assess_effects:
  assumes "trace_wf (st_trace s)"
  shows "assess_goal_criterion_v2 ext s r a g result actor now = Inr out \<Longrightarrow> graph_effect ext s (cro_state out)"
    and "assess_goal_criteria_v2 ext s r a g entries actor now = Inr out' \<Longrightarrow> graph_effect ext s (crs_state out')"
  using assms
  by (auto simp: assess_goal_criterion_v2_def assess_goal_criteria_v2_def Let_def split: if_splits prod.splits
      intro: replace_assessments_effect dest!: assess_context_runs)

lemma cancel_effect:
  assumes "cancel_active_session_v2 ext s r a rs now = Inr out"
  shows "graph_effect ext s (cao_state out)"
proof -
  from assms obtain t md w where t: "trace_step (TcCancel a) (st_trace s) = (Inr (), t)"
    and w: "next_workspace_revision s = Inr w"
      "admitted_state ext (s\<lparr>st_workspace_revision := w, st_trace := t, st_attempt_metadata := md, st_completed_at := None,
         st_cancelled_at := Some now, st_cancel_reason := Some (reason_as_str rs)\<rparr>) = Inr (cao_state out)"
    by (auto simp: cancel_active_session_v2_def)
  show ?thesis by (rule moved_effect[OF w(2,1), where c = "TcCancel a"])
    (use t in \<open>simp_all add: same_task_def del: trace_step.simps\<close>)
qed

lemma retry_effect:
  assumes "retry_active_attempt_v2 ext s r a f rs now = Inr out"
  shows "graph_effect ext s (ro_state out)"
proof -
  from assms obtain t md w cs m where
    t: "trace_step (TcRetry a f (gs_current_revision (st_goal_state s))) (st_trace s) = (Inr (), t)"
    and w: "next_workspace_revision s = Inr w"
      "admitted_state ext (s\<lparr>st_workspace_revision := w, st_trace := t, st_counters := cs, st_attempt_metadata := md,
         st_workflow_memory := m, st_completed_at := None, st_cancelled_at := None, st_cancel_reason := None\<rparr>)
         = Inr (ro_state out)"
    by (auto simp: retry_active_attempt_v2_def Let_def)
  show ?thesis by (rule moved_effect[OF w(2,1), where c = "TcRetry a f (gs_current_revision (st_goal_state s))"])
    (use t in \<open>simp_all add: same_task_def del: trace_step.simps\<close>)
qed

lemma begin_effect:
  assumes "begin_v2 ext s r a g now = Inr out"
  shows "graph_effect ext s (bo_state out)"
proof -
  from assms obtain t md w cs m n gr gs where t: "trace_step (TcBegin n a gr) (st_trace s) = (Inr (), t)"
      "n = rt_entry_graph_node_id (snap_runtime (st_snapshot s))"
    and w: "next_workspace_revision s = Inr w"
      "admitted_state ext (s\<lparr>st_workspace_revision := w, st_trace := t, st_counters := cs, st_attempt_metadata := md,
         st_workflow_memory := m, st_goal_state := gs, st_completed_at := None, st_cancelled_at := None,
         st_cancel_reason := None\<rparr>) = Inr (bo_state out)"
    by (auto simp: begin_v2_def Let_def split: if_splits)
  show ?thesis by (rule moved_effect[OF w(2,1), where c = "TcBegin n a gr"])
    (use t in \<open>simp_all add: same_task_def del: trace_step.simps\<close>)
qed

lemma delegation_effect:
  assumes "accept_delegation_successor_v1 ext s a = Inr s'" "trace_wf (st_trace s)"
  shows "graph_effect ext s s'"
proof -
  from assms(1) obtain r t w where r: "tr_lifecycle (st_trace s) = SessionRunning"
    "Revision_checked_next (tr_revision (st_trace s)) = Inr r"
    "SessionTraceV2_from_parts (tr_session_id (st_trace s)) (tr_lifecycle (st_trace s)) r (tr_attempts (st_trace s)) = Inr t"
    and w: "Revision_checked_next (st_workspace_revision s) = Inr w"
      "admitted_state ext (s\<lparr>st_workspace_revision := w, st_trace := t\<rparr>) = Inr s'"
    by (auto simp: accept_delegation_successor_v1_def split: if_splits simp del: checked_next_ok)
  show ?thesis
    by (rule stayed_effect[OF w(2), of s w])
      (use r w(1) assms(2) in \<open>simp_all add: same_task_def next_workspace_revision_def next_revision_trace_def
         del: checked_next_ok\<close>)
qed

lemma decision_trace:
  assumes "decide_active_route_v2 ext wm snap t a opt f g rs actor gout now = Inr tr"
  shows "\<exists>target active. trace_step (TcRework a target f g) t = (Inr (), dt_trace tr) \<or>
    trace_step (TcAdvance a AdvanceCompleted target f g) t = (Inr (), dt_trace tr) \<and>
    active_attempt t = Some active \<and> advance_link snap (att_graph_node_id active) target"
proof -
  from assms obtain effect target active model spec where "route_trace t a effect target f g = Inr (dt_trace tr)"
    and active: "active_attempt t = Some active" and "ProcedureSnapshotV2_memory_model snap = Inr model"
    "mm_nodes model (att_graph_node_id active) = Some spec"
    "check_decision_choice spec (att_graph_node_id active) opt gout = Inr (target, effect)"
    unfolding decide_active_route_v2_def
    by (auto simp: Let_def SnapshotMemoryModelV2_node_def split: if_splits prod.splits)
  moreover from this(5) have "nm_routes spec opt = Some (target, effect)"
    by (auto simp: check_decision_choice_def Let_def split: if_splits option.splits)
  ultimately have "trace_step (TcAdvance a AdvanceCompleted target f g) t = (Inr (), dt_trace tr) \<and>
      advance_link snap (att_graph_node_id active) target \<or> trace_step (TcRework a target f g) t = (Inr (), dt_trace tr)"
    by (cases effect) (auto simp: route_trace_def advance_link_def)
  with active show ?thesis by blast
qed

lemma manual_rework_trace:
  assumes "manual_rework_v2 ext wm snap t e target f g rs actor now = Inr tr"
  shows "trace_step (TcManualRework e target f g) t = (Inr (), mr_trace tr)"
  using assms unfolding manual_rework_v2_def by (auto split: if_splits)

lemma goal_rework_trace:
  assumes "goal_rework_v2 ext wm snap t e target f g now = Inr (t', m)"
  shows "trace_step (TcManualRework e target f (Some g)) t = (Inr (), t')"
  using assms unfolding goal_rework_v2_def by auto

lemma decide_effect:
  assumes "decide_active_route_with_goal_revision_v2 ext s r a opt f gr rs actor now = Inr out"
  shows "graph_effect ext s (dco_state out)"
proof -
  from assms obtain tr gout md w cs gs where
    d: "decide_active_route_v2 ext (st_workflow_memory s) (st_snapshot s) (st_trace s) a opt f
          (gs_current_revision (st_goal_state s)) rs actor gout now = Inr tr"
    and w: "next_workspace_revision s = Inr w"
      "admitted_state ext (s\<lparr>st_workspace_revision := w, st_trace := dt_trace tr, st_counters := cs,
         st_attempt_metadata := md, st_workflow_memory := dt_memory tr, st_goal_state := gs, st_completed_at := None,
         st_cancelled_at := None, st_cancel_reason := None\<rparr>) = Inr (dco_state out)"
    by (auto simp: decide_active_route_with_goal_revision_v2_def Let_def split: if_splits)
  from decision_trace[OF d] obtain c where "trace_step c (st_trace s) = (Inr (), dt_trace tr)" "follows s c"
    using follows.simps(2,6) by (metis AdvanceTerminalV2.distinct(1) may_end_def)
  then show ?thesis
    by (intro moved_effect[OF w(2,1), where c = c]) (simp_all add: same_task_def del: trace_step.simps)
qed

lemma decide_plain_effect:
  "GraphSessionStateV2_decide_active_route_v2 ext s r a opt f rs actor now = Inr out \<Longrightarrow>
    graph_effect ext s (dco_state out)"
  by (auto simp: GraphSessionStateV2_decide_active_route_v2_def split: if_splits intro: decide_effect)

lemma bind_at_start_effect:
  assumes "bind_initial_goal_at_start_v2 ext s goal now = Inr out"
  shows "graph_effect ext s (gdo_state out)"
proof -
  from assms obtain e t gs where t: "bind_initial_goal_revision_at_start (st_trace s) e = (Inr (), t)"
    and w: "admitted_state ext (s\<lparr>st_trace := t, st_goal_state := gs\<rparr>) = Inr (gdo_state out)"
    by (auto simp: bind_initial_goal_at_start_v2_def split: if_splits option.splits)
  from admitted_stateD[OF w] t show ?thesis
    by (intro graph_effect.bound_at_start[where e = e]) (simp_all add: same_task_def)
qed

lemma define_goal_effect:
  assumes "define_goal_v2 ext s r goal now = Inr out"
  shows "graph_effect ext s (gdo_state out)"
proof -
  from assms obtain e t w gs where t: "bind_initial_goal_revision (st_trace s) e = (Inr (), t)"
    and w: "next_workspace_revision s = Inr w"
      "admitted_state ext (s\<lparr>st_workspace_revision := w, st_trace := t, st_goal_state := gs\<rparr>) = Inr (gdo_state out)"
    by (auto simp: define_goal_v2_def split: if_splits option.splits)
  from admitted_stateD[OF w(2)] next_workspace_revisionD[OF w(1)] t show ?thesis
    by (intro graph_effect.bound[where e = e]) (simp_all add: same_task_def)
qed

lemma revise_effect:
  assumes "revise_goal_v2 ext s r a gr st cr target f why actor re now = Inr out"
  shows "graph_effect ext s (gro_state out)"
proof -
  from assms obtain t m g w cs md gs where
    d: "goal_rework_v2 ext (st_workflow_memory s) (st_snapshot s) (st_trace s) a target f g now = Inr (t, m)"
    and w: "next_workspace_revision s = Inr w"
      "admitted_state ext (s\<lparr>st_workspace_revision := w, st_trace := t, st_counters := cs, st_attempt_metadata := md,
         st_workflow_memory := m, st_goal_state := gs, st_completed_at := None, st_cancelled_at := None,
         st_cancel_reason := None\<rparr>) = Inr (gro_state out)"
    by (auto simp: revise_goal_v2_def split: if_splits prod.splits)
  show ?thesis
    by (intro moved_effect[OF w(2,1), where c = "TcManualRework a target f (Some g)"])
      (use goal_rework_trace[OF d] in \<open>simp_all add: same_task_def del: trace_step.simps\<close>)
qed

lemma rework_effect:
  assumes "GraphSessionStateV2_manual_rework_v2 ext s r a target f rs actor now = Inr out"
  shows "graph_effect ext s (mro_state out)"
proof -
  from assms obtain tr w cs md where
    d: "manual_rework_v2 ext (st_workflow_memory s) (st_snapshot s) (st_trace s) a target f
          (gs_current_revision (st_goal_state s)) rs actor now = Inr tr"
    and w: "next_workspace_revision s = Inr w"
      "admitted_state ext (s\<lparr>st_workspace_revision := w, st_trace := mr_trace tr, st_counters := cs,
         st_attempt_metadata := md, st_workflow_memory := mr_memory tr, st_completed_at := None,
         st_cancelled_at := None, st_cancel_reason := None\<rparr>) = Inr (mro_state out)"
    by (auto simp: GraphSessionStateV2_manual_rework_v2_def Let_def split: if_splits)
  show ?thesis
    by (intro moved_effect[OF w(2,1), where c = "TcManualRework a target f (gs_current_revision (st_goal_state s))"])
      (use manual_rework_trace[OF d] in \<open>simp_all add: same_task_def del: trace_step.simps\<close>)
qed

lemma step_effect:
  assumes "graph_step ext s s'" "trace_wf (st_trace s)"
  shows "graph_effect ext s s'"
  using assms
  by (induction rule: graph_step.induct)
    (auto intro: begin_effect delegation_effect item_effects blocker_effects cancel_effect complete_effect
      skip_effect retry_effect decide_effect decide_plain_effect bind_at_start_effect define_goal_effect
      assess_effects revise_effect rework_effect)

end
