(* ===== verification/Graph_Invariants.thy ===== *)
theory Graph_Invariants
  imports Graph_Reach
begin

text \<open>
  What holds in every reachable session state. The validator \<open>new_with_goal_state\<close> runs on every
  successor, so its checks are invariants; here they are read as statements about the session:
  aligned histories, fresh evidence, gated completion, declared transitions, assessed goals.
\<close>

section \<open>Machines whose states are validated\<close>

text \<open>
  \<open>step\<close> relates states only through accepted mutations; \<open>inv\<close> is kept by every step, and \<open>later\<close>
  is a preorder every step respects.
\<close>

locale evolving_machine =
  fixes start :: "'s \<Rightarrow> bool"
    and step :: "'s \<Rightarrow> 's \<Rightarrow> bool"
    and inv :: "'s \<Rightarrow> bool"
    and later :: "'s \<Rightarrow> 's \<Rightarrow> bool"
  assumes start_inv: "start s \<Longrightarrow> inv s"
    and step_inv: "inv s \<Longrightarrow> step s s' \<Longrightarrow> inv s'"
    and step_later: "inv s \<Longrightarrow> step s s' \<Longrightarrow> later s s'"
    and later_refl: "later s s"
    and later_trans: "later a b \<Longrightarrow> later b c \<Longrightarrow> later a c"
begin

lemma steps_inv: "step\<^sup>*\<^sup>* s s' \<Longrightarrow> inv s \<Longrightarrow> inv s'"
  by (induction rule: rtranclp_induct) (auto intro: step_inv)

lemma steps_later: "step\<^sup>*\<^sup>* s s' \<Longrightarrow> inv s \<Longrightarrow> later s s'"
  by (induction rule: rtranclp_induct) (blast intro: later_refl later_trans step_later steps_inv)+

lemma start_steps: "start s \<Longrightarrow> step\<^sup>*\<^sup>* s s' \<Longrightarrow> inv s' \<and> later s s'"
  using steps_inv steps_later start_inv by blast

end

section \<open>The invariant\<close>

definition state_wf :: "externals \<Rightarrow> GraphSessionStateV2 \<Rightarrow> bool" where
  "state_wf ext s \<longleftrightarrow> trace_wf (st_trace s) \<and> admits ext s"

lemma effect_state_wf:
  assumes "graph_effect ext s s'" "state_wf ext s"
  shows "state_wf ext s' \<and> trace_evolves (st_trace s) (st_trace s')"
  using assms
proof cases
  case unchanged
  with assms(2) show ?thesis by (simp add: trace_evolves_refl)
next
  case (moved c)
  with assms(2) trace_step_accept[of "st_trace s" c] show ?thesis by (simp add: state_wf_def)
next
  case (stayed r)
  then have "r \<noteq> Revision_ZERO" by (auto simp: Revision_ZERO_def)
  with stayed assms(2) revision_update_wf[of "st_trace s" r] trace_evolves_refl[of "st_trace s"] show ?thesis
    by (simp add: state_wf_def trace_evolves_def)
next
  case (bound e)
  with assms(2) bind_goal_wf[of "st_trace s" e] show ?thesis by (simp add: state_wf_def)
next
  case (bound_at_start e)
  with assms(2) bind_goal_at_start_wf[of "st_trace s" e] show ?thesis by (simp add: state_wf_def)
qed

lemma step_state_wf: "state_wf ext s \<Longrightarrow> graph_step ext s s' \<Longrightarrow> state_wf ext s'"
  by (meson effect_state_wf step_effect state_wf_def)

lemma prepared_state_wf:
  assumes "GraphSessionStateV2_prepared ext w title snap sid created = Inr s"
  shows "state_wf ext s"
proof -
  from assms obtain m where m: "GraphSessionStateV2_new_with_goal_state ext
      \<lparr>st_workspace_revision = w, st_task_title = title, st_snapshot = snap, st_trace = SessionTraceV2_prepared sid,
       st_counters = map (\<lambda>node. \<lparr>cn_graph_node_id = gn_graph_node_id node, cn_attempt_count = 0,
                                   cn_rework_traversal_count = 0\<rparr>) (rt_graph_nodes (snap_runtime snap)),
       st_attempt_metadata = [], st_workflow_memory = m, st_goal_state = GoalStateV2_empty, st_created_at = created,
       st_completed_at = None, st_cancelled_at = None, st_cancel_reason = None\<rparr> = Inr s"
    by (auto simp: GraphSessionStateV2_prepared_def GraphSessionStateV2_new_def
        GraphSessionStateV2_new_with_workflow_memory_def)
  from new_with_goal_state_same[OF m] m show ?thesis by (simp add: state_wf_def prepared_wf)
qed

lemma reach_state_wf: "graph_reach ext s \<Longrightarrow> state_wf ext s"
  by (induction rule: graph_reach.induct) (auto intro: prepared_state_wf step_state_wf)

section \<open>Revisions\<close>

lemma bind_goal_revision:
  assumes "bind_initial_goal_revision t e = (Inr (), t')"
  shows "unat (revision_get (tr_revision t')) = Suc (unat (revision_get (tr_revision t)))"
  using assms
  by (cases "require_running_active t e")
    (auto simp: bind_initial_goal_revision_def try_mut_def Let_def checked_succ_nat split: if_splits sum.splits)

lemma bind_goal_at_start_revision:
  assumes "bind_initial_goal_revision_at_start t e = (Inr (), t')"
  shows "tr_revision t = Revision 1 \<and> tr_revision t' = Revision 1"
  using assms
  by (cases "require_running_active t e")
    (auto simp: bind_initial_goal_revision_at_start_def try_mut_def split: if_splits)

lemma effect_revisions:
  assumes "graph_effect ext s s'"
  shows "s' = s \<or> session_rev s' = Suc (session_rev s) \<and> workspace_rev s' = Suc (workspace_rev s) \<or>
    session_rev s = 1 \<and> session_rev s' = 1 \<and> st_workspace_revision s' = st_workspace_revision s"
  using assms
proof cases
  case (moved c)
  then show ?thesis using trace_step_revision by blast
next
  case (bound e)
  then show ?thesis using bind_goal_revision by blast
next
  case (bound_at_start e)
  then show ?thesis using bind_goal_at_start_revision by fastforce
qed simp_all

section \<open>What the validator admits\<close>

lemma admitsD:
  assumes "admits ext s"
  shows "validate_session_metadata (tr_lifecycle (st_trace s)) (st_created_at s) (st_completed_at s)
          (st_cancelled_at s) (st_cancel_reason s) = Inr ()"
    and "validate_graph_state_members (st_snapshot s) (st_trace s) (st_counters s) (st_attempt_metadata s) = Inr ()"
    and "validate_terminal_graph_state_v2 (st_snapshot s) (st_trace s) (st_attempt_metadata s) (st_completed_at s)
          (st_cancelled_at s) (st_cancel_reason s) = Inr ()"
    and "validate_goal_state_v2 ext (st_snapshot s) (st_trace s) (st_attempt_metadata s) (st_workflow_memory s)
          (st_goal_state s) = Inr ()"
    and "validate_workflow_memory_v2 ext (st_snapshot s) (st_trace s) (st_counters s) (st_attempt_metadata s)
          (st_workflow_memory s) (goal_rework_target_attempt_ids (st_goal_state s) (st_trace s))
          (reactivated_goal_rework_target_attempt_ids (st_goal_state s) (st_trace s)) = Inr ()"
    and "tr_lifecycle (st_trace s) = SessionPrepared \<longleftrightarrow> tr_revision (st_trace s) = Revision_ZERO"
  using assms by (simp_all add: GraphSessionStateV2_new_with_goal_state_def split: if_splits)

lemma by_id_Some: "by_id key xs k = Some x \<Longrightarrow> x \<in> set xs \<and> key x = k"
  by (auto simp: by_id_def btree_map_def dest: map_of_SomeD)

lemma by_id_exists: "x \<in> set xs \<Longrightarrow> \<exists>y. by_id key xs (key x) = Some y"
  unfolding by_id_def btree_map_def by (rule weak_map_of_SomeI[THEN exE]) (auto simp: rev_map)

lemma by_id_distinct: "distinct (map key xs) \<Longrightarrow> x \<in> set xs \<Longrightarrow> by_id key xs (key x) = Some x"
  by (auto simp: by_id_def btree_map_def rev_map comp_def distinct_map intro!: map_of_is_SomeI)

lemma validate_attempts_each:
  assumes "validate_attempts ext model ats by_memory seen xs = Inr ()" "(a, md, m) \<in> set xs"
  shows "\<exists>seen seen'. validate_attempt_memory ext model ats by_memory seen a md m = Inr seen'"
  using assms by (induction xs arbitrary: seen) (auto, blast+)

text \<open>The attempts of a session, each with its metadata and its memory.\<close>

abbreviation session_attempts ::
    "GraphSessionStateV2 \<Rightarrow> (SessionAttemptV2 \<times> AttemptMetadataV2 \<times> AttemptWorkflowMemoryV2) list" where
  "session_attempts s \<equiv>
     zip (tr_attempts (st_trace s)) (zip (st_attempt_metadata s) (wm_attempts (st_workflow_memory s)))"

lemma admits_lengths:
  assumes "admits ext s"
  shows "length (st_attempt_metadata s) = length (tr_attempts (st_trace s))"
    and "length (wm_attempts (st_workflow_memory s)) = length (tr_attempts (st_trace s))"
  using admitsD(5)[OF assms] by (auto simp: validate_workflow_memory_v2_def split: if_splits)

lemma admits_memory:
  assumes "admits ext s" "trace_wf (st_trace s)" "(a, md, m) \<in> set (session_attempts s)"
  obtains model seen seen' where "ProcedureSnapshotV2_memory_model (st_snapshot s) = Inr model"
    and "validate_attempt_memory ext model (tr_attempts (st_trace s))
       (by_id am_attempt_id (wm_attempts (st_workflow_memory s))) seen a md m = Inr seen'"
proof -
  from assms(3) have "tr_attempts (st_trace s) \<noteq> []" by auto
  with assms(2) have "tr_lifecycle (st_trace s) \<noteq> SessionPrepared"
    by (auto simp: trace_wf_def lifecycle_wf_def)
  with admitsD(5)[OF assms(1)] obtain model where model: "ProcedureSnapshotV2_memory_model (st_snapshot s) = Inr model"
    and "validate_attempts ext model (tr_attempts (st_trace s))
       (by_id am_attempt_id (wm_attempts (st_workflow_memory s))) [] (session_attempts s) = Inr ()"
    by (auto simp: validate_workflow_memory_v2_def split: if_splits)
  from validate_attempts_each[OF this(2) assms(3)] model that show ?thesis by blast
qed

lemma admits_ids:
  assumes "admits ext s" "trace_wf (st_trace s)" "(a, md, m) \<in> set (session_attempts s)"
  shows "md_attempt_id md = att_attempt_id a" and "am_attempt_id m = att_attempt_id a"
proof -
  from admits_memory[OF assms] obtain model seen seen' where
    "validate_attempt_memory ext model (tr_attempts (st_trace s))
       (by_id am_attempt_id (wm_attempts (st_workflow_memory s))) seen a md m = Inr seen'" by metis
  then have "\<not> (att_attempt_id a \<noteq> md_attempt_id md \<or> att_attempt_id a \<noteq> am_attempt_id m)"
    unfolding validate_attempt_memory_def by (auto split: if_splits)
  then show "md_attempt_id md = att_attempt_id a" "am_attempt_id m = att_attempt_id a" by simp_all
qed

lemma admits_aligned:
  assumes "admits ext s" "trace_wf (st_trace s)"
  shows "map md_attempt_id (st_attempt_metadata s) = map att_attempt_id (tr_attempts (st_trace s))"
    and "map am_attempt_id (wm_attempts (st_workflow_memory s)) = map att_attempt_id (tr_attempts (st_trace s))"
proof -
  note len = admits_lengths[OF assms(1)]
  have *: "(tr_attempts (st_trace s) ! i, st_attempt_metadata s ! i, wm_attempts (st_workflow_memory s) ! i)
      \<in> set (session_attempts s)" if "i < length (tr_attempts (st_trace s))" for i
    using that len by (auto simp: in_set_zip)
  show "map md_attempt_id (st_attempt_metadata s) = map att_attempt_id (tr_attempts (st_trace s))"
    "map am_attempt_id (wm_attempts (st_workflow_memory s)) = map att_attempt_id (tr_attempts (st_trace s))"
    using len admits_ids[OF assms *] by (auto simp: list_eq_iff_nth_eq)
qed

lemma admits_counters:
  assumes "admits ext s" "n \<in> set (rt_graph_nodes (snap_runtime (st_snapshot s)))"
  shows "\<exists>c\<in>set (st_counters s). cn_graph_node_id c = gn_graph_node_id n \<and>
    cn_attempt_count c = of_nat (node_count (gn_graph_node_id n) (tr_attempts (st_trace s)))"
proof -
  have "is_some_and (by_id cn_graph_node_id (st_counters s) (gn_graph_node_id n))
      (\<lambda>c. cn_attempt_count c = of_nat (length (attempts_at (st_trace s) (gn_graph_node_id n))))"
    using admitsD(2)[OF assms(1)] assms(2)
    by (auto simp: validate_graph_state_members_def Let_def split: if_splits)
  then obtain c where "by_id cn_graph_node_id (st_counters s) (gn_graph_node_id n) = Some c"
    "cn_attempt_count c = of_nat (length (attempts_at (st_trace s) (gn_graph_node_id n)))"
    by (auto simp: is_some_and_def split: option.splits)
  with by_id_Some show ?thesis unfolding attempts_at_def node_count_def by fastforce
qed

section \<open>Evidence and readiness\<close>

lemma validated_attempt:
  assumes "validate_attempt_memory ext model ats by_memory seen a md m = Inr seen'"
  obtains spec where "mm_nodes model (att_graph_node_id a) = Some spec"
    and "length (am_item_slots m) = length (nm_items spec)"
    and "att_lifecycle a = AttemptCompleted \<longrightarrow> missing_items spec m = [] \<and> (\<forall>b\<in>set (am_blockers m). bl_state b \<noteq> BlockerOpen)"
    and "validate_attempt_evidence_v2 ext a m spec (md_started_at md) ats by_memory = Inr ()"
proof -
  from assms obtain spec where spec: "mm_nodes model (att_graph_node_id a) = Some spec"
    by (auto simp: validate_attempt_memory_def SnapshotMemoryModelV2_node_def split: if_splits)
  with assms have "length (am_item_slots m) = length (nm_items spec)"
    "att_lifecycle a = AttemptCompleted \<longrightarrow> missing_items spec m = []"
    "att_lifecycle a = AttemptCompleted \<longrightarrow> (\<forall>b\<in>set (am_blockers m). bl_state b \<noteq> BlockerOpen)"
    "validate_attempt_evidence_v2 ext a m spec (md_started_at md) ats by_memory = Inr ()"
    by (simp_all add: validate_attempt_memory_def SnapshotMemoryModelV2_node_def split: if_splits) blast
  with spec that show ?thesis by blast
qed

lemma evidence_source:
  assumes "validate_attempt_evidence_v2 ext a m spec at ats by_memory = Inr ()" "r \<in> set (am_evidence m)"
    "ResolvedEvidenceReferenceV2_snapshot (evr_resolution r) = Some snapshot"
  shows "validate_reference_source ext a at (by_id att_attempt_id ats) by_memory r snapshot = Inr ()"
proof -
  from assms(1) have len: "length (am_evidence m) = length (nm_evidence spec)"
    and each: "\<forall>x\<in>set (enumerate 0 (zip (am_evidence m) (nm_evidence spec))).
        validate_reference ext ats a at by_memory x = Inr ()"
    by (auto simp: validate_attempt_evidence_v2_def split: if_splits)
  from assms(2) obtain i where i: "i < length (am_evidence m)" "am_evidence m ! i = r"
    by (auto simp: in_set_conv_nth)
  with len have "(i, r, nm_evidence spec ! i) \<in> set (enumerate 0 (zip (am_evidence m) (nm_evidence spec)))"
    by (auto simp: in_set_enumerate_eq)
  with each have "validate_reference ext ats a at by_memory (i, r, nm_evidence spec ! i) = Inr ()" by blast
  with assms(3) show ?thesis by (simp add: validate_reference_def split: if_splits)
qed

lemma reference_source:
  assumes "validate_reference_source ext a at (by_id att_attempt_id ats) (by_id am_attempt_id mems) r snapshot = Inr ()"
  shows "\<exists>source source_memory. source \<in> set ats \<and> source_memory \<in> set mems \<and>
    att_attempt_id source = es_source_attempt_id snapshot \<and> am_attempt_id source_memory = es_source_attempt_id snapshot \<and>
    att_graph_node_id source = es_source_node snapshot \<and> att_number source = es_source_attempt_number snapshot \<and>
    att_trace source < att_trace a \<and> att_lifecycle source \<noteq> AttemptActive \<and>
    AttemptWorkflowMemoryV2_recorded_items_digest ext source_memory = Inr (es_items_digest snapshot) \<and>
    (att_validity a = Valid \<longrightarrow> att_validity source = Valid)"
proof -
  from assms obtain source source_memory where
    src: "by_id att_attempt_id ats (es_source_attempt_id snapshot) = Some source"
      "by_id am_attempt_id mems (es_source_attempt_id snapshot) = Some source_memory"
    and checks: "att_graph_node_id source = es_source_node snapshot" "att_number source = es_source_attempt_number snapshot"
      "\<not> att_trace a \<le> att_trace source" "att_lifecycle source \<noteq> AttemptActive"
      "AttemptWorkflowMemoryV2_recorded_items_digest ext source_memory = Inr (es_items_digest snapshot)"
      "att_validity a = Valid \<longrightarrow> att_validity source = Valid"
    unfolding validate_reference_source_def by (auto split: if_splits)
  with by_id_Some[OF src(1)] by_id_Some[OF src(2)] show ?thesis by (metis linorder_not_le)
qed

lemma missing_items_Nil:
  assumes "missing_items spec m = []" "length (am_item_slots m) = length (nm_items spec)" "i < length (nm_items spec)"
    "required_now_v2 (nm_items spec) (am_item_slots m) i"
  shows "\<exists>v. sl_value (am_item_slots m ! i) = Some v \<and> is_satisfied_by (nm_items spec ! i) v"
proof -
  have "(i, nm_items spec ! i, am_item_slots m ! i) \<in> set (enumerate 0 (zip (nm_items spec) (am_item_slots m)))"
    using assms(2,3) by (auto simp: in_set_enumerate_eq)
  with assms(1,4) have "is_some_and (sl_value (am_item_slots m ! i)) (is_satisfied_by (nm_items spec ! i))"
    by (auto simp: missing_items_def filter_empty_conv)
  then show ?thesis by (auto simp: is_some_and_def split: option.splits)
qed

section \<open>Transitions\<close>

lemma attempts_wf_traces:
  assumes "attempts_wf ats"
  shows "distinct (map att_trace ats)"
proof -
  from assms have "\<forall>i<length ats. trace_nat (ats ! i) = Suc i" by (simp add: attempts_wf_def)
  then show ?thesis unfolding distinct_conv_nth by (metis Suc_inject length_map nth_map)
qed

lemma predecessor_of:
  assumes "attempts_wf ats" "Suc i < length ats"
  shows "by_id att_trace ats (TraceSequenceV2 (trace_get (att_trace (ats ! Suc i)) - 1)) = Some (ats ! i)"
    and "att_trace (ats ! Suc i) \<noteq> TraceSequenceV2_FIRST"
proof -
  let ?w = "trace_get (att_trace (ats ! Suc i))"
  from assms have n: "unat ?w = Suc (Suc i)" "unat (trace_get (att_trace (ats ! i))) = Suc i"
    by (auto simp: attempts_wf_def)
  then have "?w \<noteq> 0" by (metis nat.distinct(1) unat_0)
  with n have "?w - 1 = trace_get (att_trace (ats ! i))" by (simp add: word_unat_eq_iff unat_minus_one)
  then have "TraceSequenceV2 (?w - 1) = att_trace (ats ! i)" by (cases "att_trace (ats ! i)") simp
  with by_id_distinct[OF attempts_wf_traces[OF assms(1)], of "ats ! i"] assms(2)
  show "by_id att_trace ats (TraceSequenceV2 (?w - 1)) = Some (ats ! i)" by simp
  show "att_trace (ats ! Suc i) \<noteq> TraceSequenceV2_FIRST"
    using n(1) by (auto simp: TraceSequenceV2_FIRST_def)
qed

text \<open>
  How the attempt \<open>a\<close> may follow the attempt \<open>p\<close>: a retry, the declared target of an action, the
  declared route of the recorded decision, a recorded manual rework to a declared target, or the
  rework of a recorded goal revision.
\<close>

definition declared_move ::
    "GraphSessionStateV2 \<Rightarrow> SnapshotMemoryModelV2 \<Rightarrow> NodeMemorySpecV2 \<Rightarrow> SessionAttemptV2 \<Rightarrow> SessionAttemptV2 \<Rightarrow> bool" where
  "declared_move s model spec p a \<longleftrightarrow>
     att_graph_node_id p = att_graph_node_id a \<and> att_lifecycle p = AttemptAbandoned \<or>
     is_terminal_lifecycle (att_lifecycle p) \<and> nm_node_kind spec = KindAction \<and>
       nm_advance_target spec = Some (att_graph_node_id a) \<or>
     att_lifecycle p = AttemptCompleted \<and>
       (\<exists>d\<in>set (wm_decisions (st_workflow_memory s)). \<exists>effect. dr_attempt_id d = att_attempt_id p \<and>
          nm_routes spec (dr_selected_option d) = Some (att_graph_node_id a, effect)) \<or>
     att_graph_node_id a \<in> set (mm_manual_rework_targets model) \<and>
       (\<exists>r\<in>set (wm_reworks (st_workflow_memory s)). rr_kind r = ReworkManual \<and>
          rr_target_attempt_id r = att_attempt_id a \<and> rr_from_node r = att_graph_node_id p \<and>
          rr_to_node r = att_graph_node_id a) \<or>
     (\<exists>r\<in>set (gs_revisions (st_goal_state s)). GoalRevisionNumberV2_FIRST < gr_revision r \<and>
        gr_binding_trace r = att_trace a \<and> gr_rework_to r = Some (att_graph_node_id a))"

lemma decision_route:
  assumes "validate_decision_history_v2 snap trace metadata memory model = Inr ()" "length metadata = length (tr_attempts trace)"
    "p \<in> set (tr_attempts trace)" "mm_nodes model (att_graph_node_id p) = Some spec"
    "by_id dr_attempt_id (wm_decisions memory) (att_attempt_id p) = Some d"
  shows "att_lifecycle p = AttemptCompleted \<and> nm_node_kind spec = KindDecision \<and>
    nm_routes spec (dr_selected_option d) = Some (dr_route_target d, dr_route_effect d)"
proof -
  from assms(2,3) obtain md where "(p, md) \<in> set (zip (tr_attempts trace) metadata)"
    by (metis in_set_impl_in_set_zip1)
  with assms(1) have "validate_decision snap trace memory model (p, md) = Inr ()"
    by (auto simp: validate_decision_history_v2_def)
  with assms(4,5) show ?thesis
    by (auto simp: validate_decision_def SnapshotMemoryModelV2_node_def decision_consistent_def Let_def split: if_splits)
qed

lemma rework_move:
  assumes hist: "validate_rework_history_v2 trace metadata memory model goals reactivated = Inr ()"
    and "attempts_wf (tr_attempts trace)" "Suc i < length (tr_attempts trace)" "r \<in> set (wm_reworks memory)"
    and target: "rr_target_attempt_id r = att_attempt_id (tr_attempts trace ! Suc i)"
  shows "rr_from_node r = att_graph_node_id (tr_attempts trace ! i)"
    and "rr_to_node r = att_graph_node_id (tr_attempts trace ! Suc i)"
    and "validate_rework_kind memory model metadata (tr_attempts trace ! i) r = Inr ()"
proof -
  let ?ats = "tr_attempts trace"
  from hist assms(4) have "validate_rework_record trace metadata memory model r = Inr ()"
    by (auto simp: validate_rework_history_v2_def split: if_splits)
  then obtain a p where a: "by_id att_trace ?ats (rr_trace r) = Some a"
    and p: "by_id att_trace ?ats (TraceSequenceV2 (trace_get (rr_trace r) - 1)) = Some p"
    and ok: "att_attempt_id a = rr_target_attempt_id r" "att_graph_node_id a = rr_to_node r"
      "att_graph_node_id p = rr_from_node r" "validate_rework_kind memory model metadata p r = Inr ()"
    by (auto simp: validate_rework_record_def split: if_splits)
  from by_id_Some[OF a] have "a \<in> set ?ats" and tr: "att_trace a = rr_trace r" by auto
  moreover from assms(2) have "distinct (map att_attempt_id ?ats)" by (simp add: attempts_wf_def)
  ultimately have "a = ?ats ! Suc i"
    using ok(1) target assms(3) by (metis distinct_map inj_onD nth_mem)
  with tr p predecessor_of(1)[OF assms(2,3)] have "p = ?ats ! i" by simp
  with ok \<open>a = ?ats ! Suc i\<close> show "rr_from_node r = att_graph_node_id (?ats ! i)"
    "rr_to_node r = att_graph_node_id (?ats ! Suc i)" "validate_rework_kind memory model metadata (?ats ! i) r = Inr ()"
    by simp_all
qed

lemma goal_move:
  assumes "validate_set_goal ext snap trace metadata workflow state = Inr ()" "attempts_wf (tr_attempts trace)"
    "a \<in> set (tr_attempts trace)" "att_attempt_id a \<in> set (goal_rework_target_attempt_ids state trace)"
  shows "\<exists>r\<in>set (gs_revisions state). GoalRevisionNumberV2_FIRST < gr_revision r \<and>
    gr_binding_trace r = att_trace a \<and> gr_rework_to r = Some (att_graph_node_id a)"
proof -
  let ?ats = "tr_attempts trace"
  from assms(4) obtain r b where r: "r \<in> set (gs_revisions state)" "GoalRevisionNumberV2_FIRST < gr_revision r"
    and b: "find (\<lambda>x. att_trace x = gr_binding_trace r) ?ats = Some b" "att_attempt_id a = att_attempt_id b"
    by (auto simp: goal_rework_target_attempt_ids_def bound_attempts_def map_filter_def split: if_splits)
  from find_SomeD[OF b(1)] have bt: "b \<in> set ?ats" "att_trace b = gr_binding_trace r" by auto
  from assms(2) have "distinct (map att_attempt_id ?ats)" by (simp add: attempts_wf_def)
  with bt(1) assms(3) b(2) have ba: "b = a" by (metis distinct_map inj_onD)
  from r(1) obtain k where k: "k < length (gs_revisions state)" "gs_revisions state ! k = r" by (auto simp: in_set_conv_nth)
  from assms(1) obtain model where
    "\<forall>x\<in>set (enumerate 0 (gs_revisions state)). validate_goal_revision model trace (by_id md_attempt_id metadata) x = Inr ()"
    by (auto simp: validate_set_goal_def split: if_splits)
  with k have v: "validate_goal_revision model trace (by_id md_attempt_id metadata) (k, r) = Inr ()"
    by (auto simp: in_set_enumerate_eq)
  then have "gr_revision r = goal_number (Suc k)" by (auto simp: validate_goal_revision_def split: if_splits)
  with r(2) have "k \<noteq> 0" by (cases k) (auto simp: goal_number_def GoalRevisionNumberV2_FIRST_def)
  with v b(1) obtain md where "validate_later_revision model trace (by_id md_attempt_id metadata) b md r = Inr ()"
    by (auto simp: validate_goal_revision_def split: if_splits)
  then have "gr_rework_to r = Some (att_graph_node_id b)"
    by (auto simp: validate_later_revision_def Let_def split: if_splits)
  with r bt ba show ?thesis by auto
qed

text \<open>A goal rework exists only under a tracked goal, whose state was validated.\<close>

lemma goal_targets_validated:
  assumes "validate_goal_state_v2 ext snap trace metadata workflow state = Inr ()"
    "x \<in> set (goal_rework_target_attempt_ids state trace)"
  shows "validate_set_goal ext snap trace metadata workflow state = Inr ()"
proof -
  from assms(2) have "gs_revisions state \<noteq> []"
    by (auto simp: goal_rework_target_attempt_ids_def bound_attempts_def map_filter_simps)
  with assms(1) show ?thesis
    by (auto simp: validate_goal_state_v2_def GoalStateV2_empty_def Let_def split: if_splits)
qed

lemma admits_move:
  assumes "admits ext s" "trace_wf (st_trace s)" "Suc i < length (tr_attempts (st_trace s))"
  obtains model spec where "ProcedureSnapshotV2_memory_model (st_snapshot s) = Inr model"
    and "mm_nodes model (att_graph_node_id (tr_attempts (st_trace s) ! i)) = Some spec"
    and "declared_move s model spec (tr_attempts (st_trace s) ! i) (tr_attempts (st_trace s) ! Suc i)"
proof -
  let ?t = "st_trace s" and ?wm = "st_workflow_memory s"
  let ?goals = "goal_rework_target_attempt_ids (st_goal_state s) ?t"
  let ?re = "reactivated_goal_rework_target_attempt_ids (st_goal_state s) ?t"
  let ?p = "tr_attempts ?t ! i" and ?a = "tr_attempts ?t ! Suc i"
  from assms(2) have wf: "attempts_wf (tr_attempts ?t)" by (simp add: trace_wf_def)
  from assms(2,3) have "tr_lifecycle ?t \<noteq> SessionPrepared" by (auto simp: trace_wf_def lifecycle_wf_def)
  with admitsD(5)[OF assms(1)] obtain model where model: "ProcedureSnapshotV2_memory_model (st_snapshot s) = Inr model"
    and dec: "validate_decision_history_v2 (st_snapshot s) ?t (st_attempt_metadata s) ?wm model = Inr ()"
    and rew: "validate_rework_history_v2 ?t (st_attempt_metadata s) ?wm model ?goals ?re = Inr ()"
    by (auto simp: validate_workflow_memory_v2_def split: if_splits)
  from rew assms(3) have "validate_attempt_cause ?t ?wm model ?goals ?re ?a = Inr ()"
    by (auto simp: validate_rework_history_v2_def split: if_splits)
  with predecessor_of[OF wf assms(3)] obtain spec where spec: "mm_nodes model (att_graph_node_id ?p) = Some spec"
    and cause: "att_attempt_id ?a \<in> set (map rr_target_attempt_id (wm_reworks ?wm)) \<or> att_attempt_id ?a \<in> set ?goals \<or>
      att_graph_node_id ?p = att_graph_node_id ?a \<and> att_lifecycle ?p = AttemptAbandoned \<or>
      is_terminal_lifecycle (att_lifecycle ?p) \<and> advances_to ?wm spec ?p (att_graph_node_id ?a)"
    unfolding validate_attempt_cause_def
    by (auto simp: SnapshotMemoryModelV2_node_def Let_def split: if_splits)
  have p: "?p \<in> set (tr_attempts ?t)" and a: "?a \<in> set (tr_attempts ?t)" using assms(3) by simp_all
  note route = decision_route[OF dec admits_lengths(1)[OF assms(1)] p spec]
  from cause have "declared_move s model spec ?p ?a"
  proof (elim disjE)
    assume "att_attempt_id ?a \<in> set (map rr_target_attempt_id (wm_reworks ?wm))"
    then obtain r where r: "r \<in> set (wm_reworks ?wm)" "rr_target_attempt_id r = att_attempt_id ?a" by auto
    note m = rework_move[OF rew wf assms(3) r]
    show ?thesis
    proof (cases "rr_kind r")
      case ReworkDeclared
      with m(3) obtain d where d: "by_id dr_attempt_id (wm_decisions ?wm) (att_attempt_id ?p) = Some d"
        "declared_rework_consistent ?p d r" by (auto simp: validate_rework_kind_def split: if_splits)
      with route[OF d(1)] by_id_Some[OF d(1)] m(2) show ?thesis
        by (auto simp: declared_move_def declared_rework_consistent_def)
    next
      case ReworkManual
      with m r show ?thesis by (auto simp: validate_rework_kind_def declared_move_def split: if_splits)
    qed
  next
    assume "att_attempt_id ?a \<in> set ?goals"
    with goal_move[OF goal_targets_validated[OF admitsD(4)[OF assms(1)]] wf a] show ?thesis
      by (simp add: declared_move_def)
  next
    assume adv: "is_terminal_lifecycle (att_lifecycle ?p) \<and> advances_to ?wm spec ?p (att_graph_node_id ?a)"
    show ?thesis
    proof (cases "nm_node_kind spec")
      case KindAction
      with adv show ?thesis by (simp add: declared_move_def advances_to_def)
    next
      case KindDecision
      with adv obtain d where d: "by_id dr_attempt_id (wm_decisions ?wm) (att_attempt_id ?p) = Some d"
        "dr_route_target d = att_graph_node_id ?a"
        by (auto simp: advances_to_def is_some_and_def split: option.splits)
      with route[OF d(1)] by_id_Some[OF d(1)] show ?thesis by (auto simp: declared_move_def)
    qed
  qed (simp add: declared_move_def)
  with model spec that show ?thesis by blast
qed

section \<open>The goal of a completed session\<close>

lemma completed_goal_assessed:
  assumes "admits ext s" "trace_wf (st_trace s)" "rt_goal_tracking (snap_runtime (st_snapshot s))"
    "tr_lifecycle (st_trace s) = SessionCompleted"
  shows "\<exists>current a attempt revision. gs_current_revision (st_goal_state s) = Some current \<and>
    a \<in> set (gs_assessments (st_goal_state s)) \<and> ga_goal_revision a = current \<and>
    attempt \<in> set (tr_attempts (st_trace s)) \<and> att_attempt_id attempt = ga_decision_attempt_id a \<and>
    att_validity attempt = Valid \<and> att_lifecycle attempt = AttemptCompleted \<and>
    revision \<in> set (gs_revisions (st_goal_state s)) \<and> gr_revision revision = current \<and>
    map car_criterion_id (ga_criterion_results a) = map gc_id (goal_criteria (gr_criteria revision))"
proof -
  let ?g = "st_goal_state s" and ?ats = "tr_attempts (st_trace s)"
  from assms(3,4) admitsD(4)[OF assms(1)] have set: "validate_set_goal ext (st_snapshot s) (st_trace s)
      (st_attempt_metadata s) (st_workflow_memory s) ?g = Inr ()" and "gs_revisions ?g \<noteq> []"
    by (auto simp: validate_goal_state_v2_def validate_unset_goal_def Let_def split: if_splits)
  from set assms(4) obtain model where cur: "gs_current_revision ?g = Some (goal_number (length (gs_revisions ?g)))"
    and revs: "\<forall>x\<in>set (enumerate 0 (gs_revisions ?g)).
       validate_goal_revision model (st_trace s) (by_id md_attempt_id (st_attempt_metadata s)) x = Inr ()"
    and each: "\<forall>a\<in>set (gs_assessments ?g).
       validate_goal_assessment model (st_trace s) (st_workflow_memory s) ?g a = Inr ()"
    and fresh: "latest_fresh_assessment ?g (st_trace s) \<noteq> None"
    unfolding validate_set_goal_def by (auto split: if_splits)
  let ?n = "length (gs_revisions ?g)"
  from fresh cur obtain a where "find (\<lambda>a. ga_goal_revision a = goal_number ?n \<and>
      (\<exists>x\<in>set ?ats. att_attempt_id x = ga_decision_attempt_id a \<and> att_validity x = Valid)) (rev (gs_assessments ?g)) = Some a"
    by (auto simp: latest_fresh_assessment_def)
  from find_SomeD[OF this] obtain attempt where a: "a \<in> set (gs_assessments ?g)" "ga_goal_revision a = goal_number ?n"
    and at: "attempt \<in> set ?ats" "att_attempt_id attempt = ga_decision_attempt_id a" "att_validity attempt = Valid"
    by auto
  from \<open>gs_revisions ?g \<noteq> []\<close> have "(?n - 1, last (gs_revisions ?g)) \<in> set (enumerate 0 (gs_revisions ?g))"
    by (simp add: in_set_enumerate_eq last_conv_nth)
  with revs \<open>gs_revisions ?g \<noteq> []\<close> have "gr_revision (last (gs_revisions ?g)) = goal_number ?n"
    by (fastforce simp: validate_goal_revision_def split: if_splits)
  with by_id_exists[of "last (gs_revisions ?g)" "gs_revisions ?g" gr_revision] \<open>gs_revisions ?g \<noteq> []\<close> obtain revision
    where rv: "by_id gr_revision (gs_revisions ?g) (goal_number ?n) = Some revision" by auto
  from assms(2) have "distinct (map att_attempt_id ?ats)" by (simp add: trace_wf_def attempts_wf_def)
  from by_id_distinct[OF this at(1)] at(2)
  have by_at: "by_id att_attempt_id ?ats (ga_decision_attempt_id a) = Some attempt" by simp
  from each a(1) have "validate_goal_assessment model (st_trace s) (st_workflow_memory s) ?g a = Inr ()" by blast
  with by_at rv a(2) have "att_lifecycle attempt = AttemptCompleted"
    "map car_criterion_id (ga_criterion_results a) = map gc_id (goal_criteria (gr_criteria revision))"
    by (auto simp: validate_goal_assessment_def assessment_matches_decision_def Let_def split: if_splits)
  with cur a at by_id_Some[OF rv] show ?thesis by blast
qed

end
