(* ===== verification/Graph_History.thy ===== *)
theory Graph_History
  imports Graph_Invariants "HOL-Library.Sublist"
begin

text \<open>
  The history of a session only grows: decisions, reworks, goal revisions and assessments are
  appended, the memory of an attempt that has ended never changes again, and the evidence of an
  attempt is fixed at its activation.
\<close>

section \<open>Workflow memory\<close>

text \<open>
  From \<open>wm\<close> to \<open>wm'\<close> while \<open>active\<close> is the attempt at the cursor: the other attempts keep their
  memory, fresh ones are appended.
\<close>

definition memory_grows :: "AttemptId option \<Rightarrow> WorkflowMemoryStateV2 \<Rightarrow> WorkflowMemoryStateV2 \<Rightarrow> bool" where
  "memory_grows active wm wm' \<longleftrightarrow>
     prefix (wm_decisions wm) (wm_decisions wm') \<and> prefix (wm_reworks wm) (wm_reworks wm') \<and>
     length (wm_attempts wm) \<le> length (wm_attempts wm') \<and>
     (\<forall>i<length (wm_attempts wm). am_evidence (wm_attempts wm' ! i) = am_evidence (wm_attempts wm ! i) \<and>
        (Some (am_attempt_id (wm_attempts wm ! i)) \<noteq> active \<longrightarrow> wm_attempts wm' ! i = wm_attempts wm ! i))"

lemma memory_grows_refl [simp]: "memory_grows active wm wm"
  by (simp add: memory_grows_def)

lemma memory_new_same: "WorkflowMemoryStateV2_new as ds rs = Inr wm \<Longrightarrow>
    wm = \<lparr>wm_attempts = as, wm_decisions = ds, wm_reworks = rs\<rparr>"
  by (auto simp: WorkflowMemoryStateV2_new_def split: if_splits)

lemma attempt_new_same: "AttemptWorkflowMemoryV2_new aid slots bs ev = Inr m \<Longrightarrow>
    m = \<lparr>am_attempt_id = aid, am_item_slots = slots, am_blockers = bs, am_evidence = ev\<rparr>"
  by (auto simp: AttemptWorkflowMemoryV2_new_def split: if_splits)

lemma memory_appended:
  assumes "WorkflowMemoryStateV2_new (wm_attempts wm @ as) (wm_decisions wm @ ds) (wm_reworks wm @ rs) = Inr wm'"
  shows "memory_grows active wm wm'"
  using memory_new_same[OF assms] by (simp add: memory_grows_def nth_append)

lemma nth_update: "i < length xs \<Longrightarrow> xs[k := x] ! i = (if k = i then x else xs ! i)"
  by (auto simp: nth_list_update)

lemma memory_replaced:
  assumes "WorkflowMemoryStateV2_new ((wm_attempts wm)[k := m]) (wm_decisions wm) (wm_reworks wm) = Inr wm'"
    "am_attempt_id (wm_attempts wm ! k) = aid" "am_evidence m = am_evidence (wm_attempts wm ! k)"
  shows "memory_grows (Some aid) wm wm'"
  using memory_new_same[OF assms(1)] assms(2,3) by (auto simp: memory_grows_def nth_update)

lemma active_indexD: "active_index wm aid = Inr i \<Longrightarrow> i < length (wm_attempts wm) \<and> am_attempt_id (wm_attempts wm ! i) = aid"
  by (auto simp: active_index_def dest: position_SomeD)

lemma apply_item_frame:
  "apply_item d spec iid r mut now = Inr (d', out) \<Longrightarrow> dft_attempt_index d' = dft_attempt_index d"
  by (auto simp: apply_item_def Let_def split: if_splits)

lemma apply_requests_frame:
  assumes "apply_requests items wm aid now (Some d) rs = Inr (final, outs)"
  shows "\<exists>d'. final = Some d' \<and> dft_attempt_index d' = dft_attempt_index d"
  using assms
proof (induction rs arbitrary: d final outs)
  case (Cons r rs)
  then show ?case by (auto dest!: apply_item_frame split: prod.splits) metis
qed simp

lemma publish_grows:
  assumes "publish d wm = Inr wm'" "am_attempt_id (wm_attempts wm ! dft_attempt_index d) = aid"
  shows "memory_grows (Some aid) wm wm'"
  using assms by (auto simp: publish_def Let_def split: if_splits dest!: attempt_new_same intro!: memory_replaced)

abbreviation cursor_id :: "SessionTraceV2 \<Rightarrow> AttemptId option" where
  "cursor_id t \<equiv> map_option att_attempt_id (active_attempt t)"

lemma require_active_cursor: "require_active t aid = Inr active \<Longrightarrow> cursor_id t = Some aid"
  by (auto simp: require_active_def split: if_splits)

lemma require_running_cursor: "require_running_active_v2 s r aid = Inr active \<Longrightarrow> cursor_id (st_trace s) = Some aid"
  by (auto simp: require_running_active_v2_def split: if_splits)

lemma items_grow:
  assumes "mutate_active_items_v2 wm snap t aid ms now = Inr (wm', outs)"
  shows "memory_grows (cursor_id t) wm wm'"
proof -
  let ?o = "sort_key (\<lambda>r. as_bytes (ItemId_as_str (rq_item_id r))) ms"
  from assms obtain active and node :: NodeMemorySpecV2 and draft outs' where req: "require_active t aid = Inr active"
    and run: "apply_requests (nm_items node) wm aid now None ?o = Inr (draft, outs')"
    and pub: "publish (the draft) wm = Inr wm'"
    by (auto simp: mutate_active_items_v2_def Let_def split: if_splits option.splits)
  from assms have "?o \<noteq> []" by (auto simp: mutate_active_items_v2_def split: if_splits dest: arg_cong[of _ _ length])
  then obtain r rs where "?o = r # rs" by (cases ?o) auto
  with run obtain d d' out where d: "UnpublishedAttemptDraftV2_open wm aid = Inr d"
    and "apply_requests (nm_items node) wm aid now (Some d') rs = Inr (draft, tl outs')"
    and "dft_attempt_index d' = dft_attempt_index d"
    by (auto split: prod.splits dest: apply_item_frame)
  with apply_requests_frame obtain d'' where "draft = Some d''" "dft_attempt_index d'' = dft_attempt_index d" by metis
  moreover from d have "am_attempt_id (wm_attempts wm ! dft_attempt_index d) = aid"
    by (auto simp: UnpublishedAttemptDraftV2_open_def dest: active_indexD)
  ultimately show ?thesis using publish_grows[of d'' wm wm' aid] pub require_active_cursor[OF req] by auto
qed

lemma blockers_grow:
  "block_active_attempt_v2 wm aid b reason now = Inr wm' \<Longrightarrow> memory_grows (Some aid) wm wm'"
  "unblock_active_attempt_v2 wm aid b' all now = Inr (wm', ids) \<Longrightarrow> memory_grows (Some aid) wm wm'"
  by (auto simp: block_active_attempt_v2_def unblock_active_attempt_v2_def set_blockers_def modify_def Let_def
      memory_grows_def nth_update split: if_splits dest!: active_indexD)

lemma complete_grows:
  "complete_action_successor_v2 ext wm snap t t' now = Inr wm' \<Longrightarrow> memory_grows active wm wm'"
  using memory_appended[of wm _ "[]" "[]" wm' active] memory_appended[of wm "[]" "[]" "[]" wm' active]
  by (auto simp: complete_action_successor_v2_def split: option.splits)

lemma retry_grows:
  "retry_successor_v2 ext wm snap t' now = Inr wm' \<Longrightarrow> memory_grows active wm wm'"
  using memory_appended[of wm _ "[]" "[]" wm' active] by (auto simp: retry_successor_v2_def)

lemma decide_grows:
  assumes "decide_active_route_v2 ext wm snap t a opt f g rs actor gout now = Inr tr"
  shows "memory_grows active wm (dt_memory tr)"
proof -
  from assms obtain m d rs where "WorkflowMemoryStateV2_new (wm_attempts wm @ [m]) (wm_decisions wm @ [d])
      (wm_reworks wm @ rs) = Inr (dt_memory tr)"
    unfolding decide_active_route_v2_def by (auto simp: Let_def split: if_splits prod.splits)
  then show ?thesis by (rule memory_appended)
qed

lemma manual_rework_grows:
  "manual_rework_v2 ext wm snap t e target f g rs actor now = Inr tr \<Longrightarrow> memory_grows active wm (mr_memory tr)"
  using memory_appended[of wm _ "[]" _ "mr_memory tr" active] by (auto simp: manual_rework_v2_def split: if_splits)

lemma goal_rework_grows:
  "goal_rework_v2 ext wm snap t e target f g now = Inr (t', wm') \<Longrightarrow> memory_grows active wm wm'"
  using memory_appended[of wm _ "[]" "[]" wm' active] by (auto simp: goal_rework_v2_def)

lemma memory_grows_trans:
  assumes "memory_grows active wm1 wm2" "memory_grows None wm2 wm3"
  shows "memory_grows active wm1 wm3"
  using assms unfolding memory_grows_def
  by (auto intro: prefix_order.trans)

lemma skip_grows:
  assumes "skip_action_successor_v2 ext wm snap t t' now = Inr wm'"
  shows "memory_grows (cursor_id t) wm wm'"
proof -
  from assms obtain source k slots m cleared where src: "active_attempt t = Some source"
    and k: "active_index wm (att_attempt_id source) = Inr k"
    and m: "AttemptWorkflowMemoryV2_new (att_attempt_id source) slots (am_blockers (wm_attempts wm ! k))
       (am_evidence (wm_attempts wm ! k)) = Inr m"
    and c: "WorkflowMemoryStateV2_new ((wm_attempts wm)[k := m]) (wm_decisions wm) (wm_reworks wm) = Inr cleared"
    and rest: "wm' = cleared \<or> (\<exists>m'. WorkflowMemoryStateV2_new (wm_attempts cleared @ [m']) (wm_decisions cleared)
       (wm_reworks cleared) = Inr wm')"
    unfolding skip_action_successor_v2_def by (auto simp: Let_def split: option.splits) blast+
  have "memory_grows (Some (att_attempt_id source)) wm cleared"
    using memory_replaced[OF c] active_indexD[OF k] attempt_new_same[OF m] by simp
  moreover from rest memory_appended[of cleared _ "[]" "[]" wm' None] have "memory_grows None cleared wm'" by auto
  ultimately show ?thesis using src by (simp add: memory_grows_trans)
qed

section \<open>The aggregate\<close>

definition history_grows :: "GraphSessionStateV2 \<Rightarrow> GraphSessionStateV2 \<Rightarrow> bool" where
  "history_grows s s' \<longleftrightarrow>
     memory_grows (cursor_id (st_trace s)) (st_workflow_memory s) (st_workflow_memory s') \<and>
     prefix (gs_revisions (st_goal_state s)) (gs_revisions (st_goal_state s')) \<and>
     prefix (gs_assessments (st_goal_state s)) (gs_assessments (st_goal_state s'))"

lemma history_grows_refl [simp]: "history_grows s s"
  by (simp add: history_grows_def)

lemma admitted_history:
  assumes "admitted_state ext s2 = Inr s'"
    "memory_grows (cursor_id (st_trace s)) (st_workflow_memory s) (st_workflow_memory s2)"
    "prefix (gs_revisions (st_goal_state s)) (gs_revisions (st_goal_state s2))"
    "prefix (gs_assessments (st_goal_state s)) (gs_assessments (st_goal_state s2))"
  shows "history_grows s s'"
  using admitted_stateD(1)[OF assms(1)] assms(2-4) by (simp add: history_grows_def)

lemma replace_memory_history:
  assumes "replace_memory ext s m = Inr s'" "memory_grows (cursor_id (st_trace s)) (st_workflow_memory s) m"
  shows "history_grows s s'"
proof -
  from assms(1) obtain w t where
    "admitted_state ext (s\<lparr>st_workspace_revision := w, st_trace := t, st_workflow_memory := m\<rparr>) = Inr s'"
    by (auto simp: replace_memory_def)
  then show ?thesis by (rule admitted_history) (use assms(2) in simp_all)
qed

lemma goal_new_same: "GoalStateV2_new c rs as bs = Inr g \<Longrightarrow>
    g = \<lparr>gs_current_revision = c, gs_revisions = rs, gs_attempt_assessments = as, gs_assessments = bs\<rparr>"
  by (auto simp: GoalStateV2_new_def split: if_splits)

lemma replace_assessments_history:
  assumes "replace_assessments ext s c a = Inr s'"
  shows "history_grows s s'"
proof -
  from assms obtain w t g where g: "GoalStateV2_new (Some c) (gs_revisions (st_goal_state s))
      (put_assessment (gs_attempt_assessments (st_goal_state s)) a) (gs_assessments (st_goal_state s)) = Inr g"
    and "admitted_state ext (s\<lparr>st_workspace_revision := w, st_trace := t, st_goal_state := g\<rparr>) = Inr s'"
    by (auto simp: replace_assessments_def)
  from this(2) show ?thesis by (rule admitted_history) (use goal_new_same[OF g] in simp_all)
qed

lemma end_action_history:
  assumes "end_action_state ext s a rs ov out f t m now = Inr s'"
    "memory_grows (cursor_id (st_trace s)) (st_workflow_memory s) m"
  shows "history_grows s s'"
proof -
  from assms(1) obtain w cs md ca where "admitted_state ext (s\<lparr>st_workspace_revision := w, st_trace := t,
      st_counters := cs, st_attempt_metadata := md, st_workflow_memory := m, st_completed_at := ca,
      st_cancelled_at := None, st_cancel_reason := None\<rparr>) = Inr s'"
    unfolding end_action_state_def by auto
  then show ?thesis by (rule admitted_history) (use assms(2) in simp_all)
qed

lemma complete_history:
  "complete_active_action_v2 ext s r a f now = Inr out \<Longrightarrow> history_grows s (aco_state out)"
  by (auto simp: complete_active_action_v2_def split: if_splits intro: end_action_history complete_grows)

lemma skip_history:
  "skip_active_action_v2 ext s r a f rs now = Inr out \<Longrightarrow> history_grows s (sko_state out)"
  by (auto simp: skip_active_action_v2_def split: if_splits intro: end_action_history skip_grows)

lemma item_histories:
  "GraphSessionStateV2_mutate_active_item_v2 ext s a i ir m now = Inr out \<Longrightarrow> history_grows s (io_state out)"
  "GraphSessionStateV2_mutate_active_items_v2 ext s a ms now = Inr out' \<Longrightarrow> history_grows s (iso_state out')"
  by (auto simp: GraphSessionStateV2_mutate_active_item_v2_def GraphSessionStateV2_mutate_active_items_v2_def
      mutate_active_item_v2_def Let_def split: if_splits prod.splits intro: replace_memory_history items_grow)

lemma blocker_histories:
  "GraphSessionStateV2_block_active_attempt_v2 ext s r a b reason now = Inr out \<Longrightarrow> history_grows s (blo_state out)"
  "GraphSessionStateV2_unblock_active_attempt_v2 ext s r a b' all now = Inr out' \<Longrightarrow> history_grows s (ubo_state out')"
  by (auto simp: GraphSessionStateV2_block_active_attempt_v2_def GraphSessionStateV2_unblock_active_attempt_v2_def
      split: prod.splits intro!: replace_memory_history simp: blockers_grow require_running_cursor
      simp del: map_option_eq_Some)

lemma assess_histories:
  "assess_goal_criterion_v2 ext s r a g result actor now = Inr out \<Longrightarrow> history_grows s (cro_state out)"
  "assess_goal_criteria_v2 ext s r a g entries actor now = Inr out' \<Longrightarrow> history_grows s (crs_state out')"
  by (auto simp: assess_goal_criterion_v2_def assess_goal_criteria_v2_def Let_def split: if_splits prod.splits
      intro: replace_assessments_history)

lemma cancel_history:
  assumes "cancel_active_session_v2 ext s r a rs now = Inr out"
  shows "history_grows s (cao_state out)"
proof -
  from assms obtain t md w where "admitted_state ext (s\<lparr>st_workspace_revision := w, st_trace := t,
      st_attempt_metadata := md, st_completed_at := None, st_cancelled_at := Some now,
      st_cancel_reason := Some (reason_as_str rs)\<rparr>) = Inr (cao_state out)"
    by (auto simp: cancel_active_session_v2_def)
  then show ?thesis by (rule admitted_history) simp_all
qed

lemma delegation_history: "accept_delegation_successor_v1 ext s a = Inr s' \<Longrightarrow> history_grows s s'"
  by (auto simp: accept_delegation_successor_v1_def split: if_splits intro: admitted_history simp del: checked_next_ok)

lemma retry_history:
  assumes "retry_active_attempt_v2 ext s r a f rs now = Inr out"
  shows "history_grows s (ro_state out)"
proof -
  from assms obtain t md w cs m where m: "retry_successor_v2 ext (st_workflow_memory s) (st_snapshot s) t now = Inr m"
    and "admitted_state ext (s\<lparr>st_workspace_revision := w, st_trace := t, st_counters := cs, st_attempt_metadata := md,
         st_workflow_memory := m, st_completed_at := None, st_cancelled_at := None, st_cancel_reason := None\<rparr>)
         = Inr (ro_state out)"
    by (auto simp: retry_active_attempt_v2_def Let_def)
  from this(2) show ?thesis by (rule admitted_history) (use retry_grows[OF m] in simp_all)
qed

lemma prepared_empty:
  assumes "admits ext s" "tr_lifecycle (st_trace s) = SessionPrepared" "trace_wf (st_trace s)"
  shows "wm_attempts (st_workflow_memory s) = []" "wm_decisions (st_workflow_memory s) = []"
    "wm_reworks (st_workflow_memory s) = []" "gs_revisions (st_goal_state s) = []" "gs_assessments (st_goal_state s) = []"
proof -
  from admitsD(5)[OF assms(1)] assms(2)
  show "wm_attempts (st_workflow_memory s) = []" "wm_decisions (st_workflow_memory s) = []"
    "wm_reworks (st_workflow_memory s) = []"
    by (auto simp: validate_workflow_memory_v2_def split: if_splits)
  from assms(2,3) have none: "tr_attempts (st_trace s) = []" by (simp add: trace_wf_def lifecycle_wf_def)
  show revs: "gs_revisions (st_goal_state s) = []"
  proof (rule ccontr)
    assume ne: "gs_revisions (st_goal_state s) \<noteq> []"
    with admitsD(4)[OF assms(1)] have "validate_set_goal ext (st_snapshot s) (st_trace s)
        (st_attempt_metadata s) (st_workflow_memory s) (st_goal_state s) = Inr ()"
      by (auto simp: validate_goal_state_v2_def GoalStateV2_empty_def Let_def split: if_splits)
    then obtain model where "\<forall>x\<in>set (enumerate 0 (gs_revisions (st_goal_state s))).
        validate_goal_revision model (st_trace s) (by_id md_attempt_id (st_attempt_metadata s)) x = Inr ()"
      by (auto simp: validate_set_goal_def split: if_splits)
    moreover from ne have "(0, hd (gs_revisions (st_goal_state s))) \<in> set (enumerate 0 (gs_revisions (st_goal_state s)))"
      by (cases "gs_revisions (st_goal_state s)") simp_all
    ultimately have "validate_goal_revision model (st_trace s) (by_id md_attempt_id (st_attempt_metadata s))
        (0, hd (gs_revisions (st_goal_state s))) = Inr ()" by blast
    with none show False by (simp add: validate_goal_revision_def split: if_splits)
  qed
  from admitsD(4)[OF assms(1)] revs show "gs_assessments (st_goal_state s) = []"
    by (auto simp: validate_goal_state_v2_def validate_unset_goal_def GoalStateV2_empty_def Let_def split: if_splits)
qed

lemma begin_history:
  assumes "begin_v2 ext s r a g now = Inr out" "state_wf ext s"
  shows "history_grows s (bo_state out)"
proof -
  from assms(1) have "tr_lifecycle (st_trace s) = SessionPrepared" by (auto simp: begin_v2_def split: if_splits)
  with assms(2) prepared_empty[of ext s] show ?thesis
    by (simp add: history_grows_def memory_grows_def state_wf_def)
qed

lemma decide_history:
  assumes "decide_active_route_with_goal_revision_v2 ext s r a opt f gr rs actor now = Inr out"
  shows "history_grows s (dco_state out)"
proof -
  from assms obtain tr gout md w cs gs ga where
    d: "decide_active_route_v2 ext (st_workflow_memory s) (st_snapshot s) (st_trace s) a opt f
          (gs_current_revision (st_goal_state s)) rs actor gout now = Inr tr"
    and g: "append_assessment (st_goal_state s) ga = Inr gs"
    and st: "admitted_state ext (s\<lparr>st_workspace_revision := w, st_trace := dt_trace tr, st_counters := cs,
         st_attempt_metadata := md, st_workflow_memory := dt_memory tr, st_goal_state := gs, st_completed_at := None,
         st_cancelled_at := None, st_cancel_reason := None\<rparr>) = Inr (dco_state out)"
    by (auto simp: decide_active_route_with_goal_revision_v2_def Let_def split: if_splits)
  from g have "gs_revisions gs = gs_revisions (st_goal_state s)" "prefix (gs_assessments (st_goal_state s)) (gs_assessments gs)"
    by (auto simp: append_assessment_def split: option.splits dest!: goal_new_same)
  with st show ?thesis by (intro admitted_history[OF st]) (simp_all add: decide_grows[OF d])
qed

lemma decide_plain_history:
  "GraphSessionStateV2_decide_active_route_v2 ext s r a opt f rs actor now = Inr out \<Longrightarrow> history_grows s (dco_state out)"
  by (auto simp: GraphSessionStateV2_decide_active_route_v2_def split: if_splits intro: decide_history)

text \<open>The first goal revision is defined only while the session has none.\<close>

lemma unset_goal:
  assumes "admits ext s" "gs_current_revision (st_goal_state s) = None"
  shows "gs_revisions (st_goal_state s) = []" "gs_assessments (st_goal_state s) = []"
  using admitsD(4)[OF assms(1)] assms(2)
  by (auto simp: validate_goal_state_v2_def validate_set_goal_def validate_unset_goal_def GoalStateV2_empty_def Let_def
      split: if_splits)

lemma goal_definition_histories:
  assumes "admits ext s"
  shows "bind_initial_goal_at_start_v2 ext s goal now = Inr out \<Longrightarrow> history_grows s (gdo_state out)"
    and "define_goal_v2 ext s r goal now = Inr out \<Longrightarrow> history_grows s (gdo_state out)"
  using unset_goal[OF assms]
  by (auto simp: bind_initial_goal_at_start_v2_def define_goal_v2_def split: if_splits option.splits
      intro: admitted_history)

lemma revise_history:
  assumes "revise_goal_v2 ext s r a gr st cr target f why actor re now = Inr out"
  shows "history_grows s (gro_state out)"
proof -
  from assms obtain t m g w cs md rv gs where
    d: "goal_rework_v2 ext (st_workflow_memory s) (st_snapshot s) (st_trace s) a target f g now = Inr (t, m)"
    and g: "GoalStateV2_new (Some g) (gs_revisions (st_goal_state s) @ [rv])
       (gs_attempt_assessments (st_goal_state s)) (gs_assessments (st_goal_state s)) = Inr gs"
    and st: "admitted_state ext (s\<lparr>st_workspace_revision := w, st_trace := t, st_counters := cs, st_attempt_metadata := md,
         st_workflow_memory := m, st_goal_state := gs, st_completed_at := None, st_cancelled_at := None,
         st_cancel_reason := None\<rparr>) = Inr (gro_state out)"
    by (auto simp: revise_goal_v2_def split: if_splits prod.splits)
  show ?thesis
    by (rule admitted_history[OF st]) (use goal_new_same[OF g] goal_rework_grows[OF d] in simp_all)
qed

lemma rework_history:
  assumes "GraphSessionStateV2_manual_rework_v2 ext s r a target f rs actor now = Inr out"
  shows "history_grows s (mro_state out)"
proof -
  from assms obtain tr w cs md where
    d: "manual_rework_v2 ext (st_workflow_memory s) (st_snapshot s) (st_trace s) a target f
          (gs_current_revision (st_goal_state s)) rs actor now = Inr tr"
    and st: "admitted_state ext (s\<lparr>st_workspace_revision := w, st_trace := mr_trace tr, st_counters := cs,
         st_attempt_metadata := md, st_workflow_memory := mr_memory tr, st_completed_at := None,
         st_cancelled_at := None, st_cancel_reason := None\<rparr>) = Inr (mro_state out)"
    by (auto simp: GraphSessionStateV2_manual_rework_v2_def Let_def split: if_splits)
  show ?thesis by (rule admitted_history[OF st]) (use manual_rework_grows[OF d] in simp_all)
qed

lemma step_history:
  assumes "graph_step ext s s'" "state_wf ext s"
  shows "history_grows s s'"
  using assms
  by cases (auto simp: state_wf_def intro: begin_history delegation_history item_histories blocker_histories cancel_history
      complete_history skip_history retry_history decide_history decide_plain_history goal_definition_histories
      assess_histories revise_history rework_history)

section \<open>Along a session\<close>

definition session_extends :: "GraphSessionStateV2 \<Rightarrow> GraphSessionStateV2 \<Rightarrow> bool" where
  "session_extends s s' \<longleftrightarrow>
     same_task s s' \<and> session_rev s \<le> session_rev s' \<and> workspace_rev s \<le> workspace_rev s' \<and>
     trace_evolves (st_trace s) (st_trace s') \<and>
     prefix (wm_decisions (st_workflow_memory s)) (wm_decisions (st_workflow_memory s')) \<and>
     prefix (wm_reworks (st_workflow_memory s)) (wm_reworks (st_workflow_memory s')) \<and>
     prefix (gs_revisions (st_goal_state s)) (gs_revisions (st_goal_state s')) \<and>
     prefix (gs_assessments (st_goal_state s)) (gs_assessments (st_goal_state s')) \<and>
     (\<forall>i<length (tr_attempts (st_trace s)).
        am_evidence (wm_attempts (st_workflow_memory s') ! i) = am_evidence (wm_attempts (st_workflow_memory s) ! i) \<and>
        (\<not> is_active (tr_attempts (st_trace s) ! i) \<longrightarrow>
           wm_attempts (st_workflow_memory s') ! i = wm_attempts (st_workflow_memory s) ! i))"

lemma evolves_nth:
  assumes "trace_evolves t t'" "i < length (tr_attempts t)"
  shows "i < length (tr_attempts t')" "att_evolves (tr_attempts t ! i) (tr_attempts t' ! i)"
  using assms by (auto simp: trace_evolves_def nth_append list_all2_conv_all_nth)

lemma session_extends_refl: "session_extends s s"
  by (simp add: session_extends_def same_task_def trace_evolves_refl)

lemma session_extends_trans:
  assumes "session_extends a b" "session_extends b c"
  shows "session_extends a c"
proof -
  have frozen: "am_evidence (wm_attempts (st_workflow_memory c) ! i) = am_evidence (wm_attempts (st_workflow_memory a) ! i) \<and>
      (\<not> is_active (tr_attempts (st_trace a) ! i) \<longrightarrow>
         wm_attempts (st_workflow_memory c) ! i = wm_attempts (st_workflow_memory a) ! i)"
    if i: "i < length (tr_attempts (st_trace a))" for i
  proof -
    from assms(1) have "trace_evolves (st_trace a) (st_trace b)" by (simp add: session_extends_def)
    from evolves_nth[OF this i] have "i < length (tr_attempts (st_trace b))"
      "\<not> is_active (tr_attempts (st_trace a) ! i) \<longrightarrow> \<not> is_active (tr_attempts (st_trace b) ! i)"
      by (auto simp: att_evolves_def is_active_def)
    with assms i show ?thesis by (auto simp: session_extends_def)
  qed
  have "trace_evolves (st_trace a) (st_trace c)"
    using assms trace_evolves_trans by (auto simp: session_extends_def)
  with assms frozen show ?thesis
    by (auto simp: session_extends_def same_task_def intro: prefix_order.trans)
qed

lemma effect_task: "graph_effect ext s s' \<Longrightarrow> same_task s s'"
  by (cases rule: graph_effect.cases) (auto simp: same_task_def)

lemma cursor_is_active:
  assumes "trace_wf t" "i < length (tr_attempts t)" "Some (att_attempt_id (tr_attempts t ! i)) = cursor_id t"
  shows "is_active (tr_attempts t ! i)"
proof -
  from assms(3)[symmetric] obtain a where a: "active_attempt t = Some a" "att_attempt_id a = att_attempt_id (tr_attempts t ! i)" by auto
  from a(1) have "a \<in> set (tr_attempts t)" "is_active a"
    by (auto simp: active_attempt_def dest: find_SomeD)
  moreover from assms(1) have "distinct (map att_attempt_id (tr_attempts t))" by (simp add: trace_wf_def attempts_wf_def)
  ultimately show ?thesis using a(2) assms(2) by (metis distinct_map inj_onD nth_mem)
qed

lemma step_extends:
  assumes "state_wf ext s" "graph_step ext s s'"
  shows "session_extends s s'"
proof -
  from assms(1) have wf: "trace_wf (st_trace s)" "admits ext s" by (simp_all add: state_wf_def)
  note e = step_effect[OF assms(2) wf(1)]
  have h: "history_grows s s'" by (rule step_history[OF assms(2,1)])
  note al = admits_aligned(2)[OF wf(2,1)] and len = admits_lengths(2)[OF wf(2)]
  have frozen: "am_evidence (wm_attempts (st_workflow_memory s') ! i) = am_evidence (wm_attempts (st_workflow_memory s) ! i) \<and>
      (\<not> is_active (tr_attempts (st_trace s) ! i) \<longrightarrow>
         wm_attempts (st_workflow_memory s') ! i = wm_attempts (st_workflow_memory s) ! i)"
    if i: "i < length (tr_attempts (st_trace s))" for i
  proof -
    from al i len have "am_attempt_id (wm_attempts (st_workflow_memory s) ! i) = att_attempt_id (tr_attempts (st_trace s) ! i)"
      by (metis nth_map)
    with cursor_is_active[OF wf(1) i] h i len show ?thesis
      unfolding history_grows_def memory_grows_def by (metis (no_types, lifting))
  qed
  with h e effect_task[OF e] effect_state_wf[OF e assms(1)] effect_revisions[OF e] show ?thesis
    unfolding session_extends_def history_grows_def memory_grows_def by fastforce
qed

interpretation graph_machine: evolving_machine
  "\<lambda>s. \<exists>w title snap sid created. GraphSessionStateV2_prepared ext w title snap sid created = Inr s"
  "graph_step ext" "state_wf ext" session_extends
  for ext
  by unfold_locales
    (blast intro: prepared_state_wf step_state_wf step_extends session_extends_refl session_extends_trans)+

end
