(* ===== verification/Graph_Demo.thy ===== *)
theory Graph_Demo
  imports Graph_History Item_Batch_Props Canonical_Props "HOL-Library.Code_Target_Nat"
begin

text \<open>
  Two small procedures and a session of each, the concrete inputs of the session properties. In both
  \<open>work\<close> (an action with one confirmation) leads to the decision \<open>assess\<close>, which leads to the terminal
  action \<open>ship\<close> or back to \<open>work\<close>. The untracked one starts at \<open>work\<close> and its decision consumes the
  evidence of \<open>work\<close>; the goal-tracked one starts at \<open>assess\<close>, which assesses the goal. The
  documents are known to the JSON parser by one-byte codes, and the names are one letter long.
\<close>

abbreviation work where "work \<equiv> [119]"
abbreviation assess where "assess \<equiv> [97]"
abbreviation ship where "ship \<equiv> [115]"
abbreviation ok_option where "ok_option \<equiv> [111]"
abbreviation redo_option where "redo_option \<equiv> [114]"

definition demo_document :: Value where
  "demo_document = VObject
     [(lit ''node_definitions'', VObject [(assess, VObject [(lit ''assessment'', VObject [(lit ''outcomes'', VObject
        [(ok_option, VString (lit ''achieved'')), (redo_option, VString (lit ''not_achieved''))])])])]),
      (lit ''manual_rework'', VObject [(lit ''allowed_targets'', VArray [VString work])])]"

definition demo_placement :: "nat \<Rightarrow> Value" where
  "demo_placement n = (if n = 1 then VObject [(lit ''next'', VString assess)]
     else if n = 2 then VObject [(lit ''routes'', VObject
       [(ok_option, VObject [(lit ''to'', VString ship)]), (redo_option, VObject [(lit ''to'', VString work)])])]
     else VObject [(lit ''terminal'', VBool True)])"

definition demo_ext :: externals where
  "demo_ext = \<lparr>ext_json_string = quote_text,
     ext_json_from_slice = (\<lambda>bytes. case bytes of [n] \<Rightarrow> Inr (if n = 48 then demo_document else demo_placement n) | _ \<Rightarrow> Inl []),
     ext_sha256_hex = (\<lambda>_. replicate 64 48)\<rparr>"

definition demo_action :: "str \<Rightarrow> ItemSpecV2 list \<Rightarrow> str option \<Rightarrow> NodeMemorySpecV2" where
  "demo_action name items target = \<lparr>nm_node_kind = KindAction, nm_node_definition_id = NodeDefinitionId name, nm_items = items,
     nm_evidence = [], nm_options = [], nm_option_guards = Map.empty, nm_reason_required = False,
     nm_goal_assessment = False, nm_assessment_outcomes = Map.empty, nm_terminal = (target = None),
     nm_advance_target = map_option GraphNodeId target, nm_routes = Map.empty\<rparr>"

definition demo_decision :: "bool \<Rightarrow> NodeMemorySpecV2" where
  "demo_decision tracked = \<lparr>nm_node_kind = KindDecision, nm_node_definition_id = NodeDefinitionId assess, nm_items = [],
     nm_evidence = (if tracked then [] else [\<lparr>ev_source_node = GraphNodeId work, ev_required = True, ev_selected_item_ids = []\<rparr>]),
     nm_options = [OptionId ok_option, OptionId redo_option], nm_option_guards = Map.empty, nm_reason_required = False,
     nm_goal_assessment = tracked,
     nm_assessment_outcomes = [OptionId ok_option \<mapsto> GoalAchieved, OptionId redo_option \<mapsto> GoalNotAchieved],
     nm_terminal = False, nm_advance_target = None,
     nm_routes = [OptionId ok_option \<mapsto> (GraphNodeId ship, EffectAdvance), OptionId redo_option \<mapsto> (GraphNodeId work, EffectRework)]\<rparr>"

definition demo_node :: "bool \<Rightarrow> str \<Rightarrow> nat \<Rightarrow> NodeKindV2 \<Rightarrow> str option \<Rightarrow> GraphNodeSnapshotV2" where
  "demo_node tracked name n kind target = \<lparr>gn_graph_node_id = GraphNodeId name, gn_node_definition_id = NodeDefinitionId name,
     gn_placement_index = of_nat n, gn_node_kind = kind,
     gn_goal_assessment = (tracked \<and> kind = KindDecision), gn_canonical_placement_json = [n],
     gn_action_target = Inr (map_option GraphNodeId target), gn_invalid_next_type = False,
     gn_terminal = (kind = KindAction \<and> target = None), gn_skip = None, gn_delegated = False\<rparr>"

definition demo_snapshot :: "bool \<Rightarrow> ProcedureSnapshotV2" where
  "demo_snapshot tracked = \<lparr>snap_snapshot_id = ProcedureSnapshotId [],
     snap_runtime = \<lparr>rt_procedure_id = [], rt_procedure_version = [], rt_name = [], rt_purpose = [],
       rt_digest = Sha256Digest [], rt_canonical_json = CanonicalProcedureJsonV1 [48],
       rt_goal_tracking = tracked, rt_entry_graph_node_id = GraphNodeId (if tracked then assess else work),
       rt_graph_nodes = [demo_node tracked work 1 KindAction (Some assess), demo_node tracked assess 2 KindDecision None,
         demo_node tracked ship 3 KindAction None],
       rt_memory_model = Inr \<lparr>mm_nodes = [GraphNodeId work \<mapsto> demo_action work [SpecConfirm \<lparr>ic_id = ItemId [100],
            ic_prompt = [100], ic_help = None, ic_required = True, ic_required_when = None\<rparr>] (Some assess),
          GraphNodeId assess \<mapsto> demo_decision tracked, GraphNodeId ship \<mapsto> demo_action ship [] None],
          mm_manual_rework_targets = [GraphNodeId work]\<rparr>\<rparr>,
     snap_source = \<lparr>source_kind = SourcePreset, source_label = [], source_display = []\<rparr>,
     snap_created_at = UnixMillis 0\<rparr>"

definition demo_goal :: GraphInitialGoalV2 where
  "demo_goal = \<lparr>ig_statement = GoalStatementV2 [103],
     ig_criteria = GoalDefinitionV2 [\<lparr>gc_id = CriterionId [99], gc_statement = [99]\<rparr>], ig_actor = None\<rparr>"

definition demo_result :: CriterionAssessmentResultV2 where
  "demo_result = \<lparr>car_criterion_id = CriterionId [99], car_status = Satisfied,
     car_reason = CriterionAssessmentReasonV2 [114], car_citations = []\<rparr>"

text \<open>
  The sessions, one accepted mutation after the other; the result is the prepared and the last state.
\<close>

abbreviation demo_prepared :: "bool \<Rightarrow> GraphMutationErrorV2 + GraphSessionStateV2" where
  "demo_prepared tracked \<equiv>
     state_err (GraphSessionStateV2_prepared demo_ext (Revision 1) [116] (demo_snapshot tracked) (SessionId []) (UnixMillis 1))"

definition work_session :: "GraphMutationErrorV2 + GraphSessionStateV2 \<times> GraphSessionStateV2" where
  "work_session =
     rbind (demo_prepared False) (\<lambda>s0.
     rbind (begin_v2 demo_ext s0 (Revision 0) (AttemptId [97]) None (UnixMillis 2)) (\<lambda>o1.
     rbind (GraphSessionStateV2_mutate_active_item_v2 demo_ext (bo_state o1) (AttemptId [97]) (ItemId [100])
              (Revision 0) MutCheck (UnixMillis 3)) (\<lambda>o2.
     rbind (complete_active_action_v2 demo_ext (io_state o2) (Revision 2) (AttemptId [97]) (Some (AttemptId [98])) (UnixMillis 4)) (\<lambda>o3.
       Inr (s0, aco_state o3)))))"

definition goal_session :: "GraphMutationErrorV2 + GraphSessionStateV2 \<times> GraphSessionStateV2" where
  "goal_session =
     rbind (demo_prepared True) (\<lambda>s0.
     rbind (begin_v2 demo_ext s0 (Revision 0) (AttemptId [97]) (Some demo_goal) (UnixMillis 2)) (\<lambda>o1.
     rbind (assess_goal_criterion_v2 demo_ext (bo_state o1) (Revision 1) (AttemptId [97]) (GoalRevisionNumberV2 1)
              demo_result None (UnixMillis 3)) (\<lambda>o2.
     rbind (decide_active_route_with_goal_revision_v2 demo_ext (cro_state o2) (Revision 2) (AttemptId [97])
              (OptionId ok_option) (AttemptId [98]) (Some (GoalRevisionNumberV2 1)) (Some (ReasonV2 [114])) None
              (UnixMillis 4)) (\<lambda>o3.
     rbind (complete_active_action_v2 demo_ext (dco_state o3) (Revision 3) (AttemptId [98]) None (UnixMillis 5)) (\<lambda>o4.
       Inr (s0, aco_state o4))))))"

text \<open>What the properties look at in the last states.\<close>

definition work_done :: "GraphSessionStateV2 \<Rightarrow> bool" where
  "work_done s \<longleftrightarrow>
     map att_lifecycle (tr_attempts (st_trace s)) = [AttemptCompleted, AttemptActive] \<and>
     map att_validity (tr_attempts (st_trace s)) = [Valid, Valid] \<and>
     map (\<lambda>m. map (\<lambda>r. ResolvedEvidenceReferenceV2_snapshot (evr_resolution r) \<noteq> None) (am_evidence m))
       (wm_attempts (st_workflow_memory s)) = [[], [True]]"

definition goal_done :: "GraphSessionStateV2 \<Rightarrow> bool" where
  "goal_done s \<longleftrightarrow>
     tr_lifecycle (st_trace s) = SessionCompleted \<and> rt_goal_tracking (snap_runtime (st_snapshot s)) \<and>
     length (tr_attempts (st_trace s)) = 2"

lemma work_session_runs: "case work_session of Inl e \<Rightarrow> False | Inr (s0, s) \<Rightarrow> work_done s"
  by code_simp

lemma goal_session_runs: "case goal_session of Inl e \<Rightarrow> False | Inr (s0, s) \<Rightarrow> goal_done s"
  by code_simp

lemma reach_steps: "(graph_step ext)\<^sup>*\<^sup>* s s' \<Longrightarrow> graph_reach ext s \<Longrightarrow> graph_reach ext s'"
  by (induction rule: rtranclp_induct) (auto intro: graph_reach.step)

lemma work_session_commands:
  obtains s0 o1 o2 o3 where
    "demo_prepared False = Inr s0"
    "begin_v2 demo_ext s0 (Revision 0) (AttemptId [97]) None (UnixMillis 2) = Inr o1"
    "GraphSessionStateV2_mutate_active_item_v2 demo_ext (bo_state o1) (AttemptId [97]) (ItemId [100]) (Revision 0)
       MutCheck (UnixMillis 3) = Inr o2"
    "complete_active_action_v2 demo_ext (io_state o2) (Revision 2) (AttemptId [97]) (Some (AttemptId [98])) (UnixMillis 4) = Inr o3"
    "work_done (aco_state o3)"
  using work_session_runs unfolding work_session_def by (auto simp: rbind_def map_err_def split: sum.splits)

lemma work_session_reach:
  obtains s0 s1 s where "graph_reach demo_ext s0" "graph_step demo_ext s0 s1" "(graph_step demo_ext)\<^sup>*\<^sup>* s0 s"
    "graph_reach demo_ext s" "work_done s"
proof (rule work_session_commands)
  fix s0 o1 o2 o3
  assume c: "demo_prepared False = Inr s0"
    "begin_v2 demo_ext s0 (Revision 0) (AttemptId [97]) None (UnixMillis 2) = Inr o1"
    "GraphSessionStateV2_mutate_active_item_v2 demo_ext (bo_state o1) (AttemptId [97]) (ItemId [100]) (Revision 0)
       MutCheck (UnixMillis 3) = Inr o2"
    "complete_active_action_v2 demo_ext (io_state o2) (Revision 2) (AttemptId [97]) (Some (AttemptId [98])) (UnixMillis 4) = Inr o3"
    and final: "work_done (aco_state o3)"
  from c have p: "graph_reach demo_ext s0" and st: "graph_step demo_ext s0 (bo_state o1)"
    "graph_step demo_ext (bo_state o1) (io_state o2)" "graph_step demo_ext (io_state o2) (aco_state o3)"
    by (auto intro: graph_reach.prepared graph_step.intros)
  from st have "(graph_step demo_ext)\<^sup>*\<^sup>* s0 (aco_state o3)" by (auto intro: rtranclp.rtrancl_into_rtrancl)
  with p st(1) final that reach_steps show thesis by blast
qed

lemma goal_session_reach:
  obtains s where "graph_reach demo_ext s" "goal_done s"
proof -
  from goal_session_runs obtain s0 o1 o2 o3 o4 where
    "demo_prepared True = Inr s0"
    "begin_v2 demo_ext s0 (Revision 0) (AttemptId [97]) (Some demo_goal) (UnixMillis 2) = Inr o1"
    "assess_goal_criterion_v2 demo_ext (bo_state o1) (Revision 1) (AttemptId [97]) (GoalRevisionNumberV2 1)
       demo_result None (UnixMillis 3) = Inr o2"
    "decide_active_route_with_goal_revision_v2 demo_ext (cro_state o2) (Revision 2) (AttemptId [97])
       (OptionId ok_option) (AttemptId [98]) (Some (GoalRevisionNumberV2 1)) (Some (ReasonV2 [114])) None (UnixMillis 4) = Inr o3"
    "complete_active_action_v2 demo_ext (dco_state o3) (Revision 3) (AttemptId [98]) None (UnixMillis 5) = Inr o4"
    and final: "goal_done (aco_state o4)"
    unfolding goal_session_def by (auto simp: rbind_def map_err_def split: sum.splits)
  then have p: "graph_reach demo_ext s0" and st: "graph_step demo_ext s0 (bo_state o1)"
    "graph_step demo_ext (bo_state o1) (cro_state o2)" "graph_step demo_ext (cro_state o2) (dco_state o3)"
    "graph_step demo_ext (dco_state o3) (aco_state o4)"
    by (auto intro: graph_reach.prepared graph_step.intros)
  from st have "(graph_step demo_ext)\<^sup>*\<^sup>* s0 (aco_state o4)" by (auto intro: rtranclp.rtrancl_into_rtrancl)
  with p final that reach_steps show thesis by blast
qed

end
