(* ===== verification/Graph_Fence.thy ===== *)
theory Graph_Fence
  imports Graph_Invariants
begin

text \<open>
  The commands of a session by what they do to its two revisions. A command that changes the session
  (an advancing step) moves the session revision and the workspace revision on by exactly one; an item
  command reports whether it changed anything and moves both on exactly when it did; the goal bound while
  the session is being created moves neither. The classes name the commands, and the three together are
  the step relation.
\<close>

inductive advancing_step :: "externals \<Rightarrow> GraphSessionStateV2 \<Rightarrow> GraphSessionStateV2 \<Rightarrow> bool" for ext s where
  "begin_v2 ext s r a g now = Inr out \<Longrightarrow> advancing_step ext s (bo_state out)"
| "accept_delegation_successor_v1 ext s a = Inr s' \<Longrightarrow> advancing_step ext s s'"
| "GraphSessionStateV2_block_active_attempt_v2 ext s r a b reason now = Inr out \<Longrightarrow> advancing_step ext s (blo_state out)"
| "GraphSessionStateV2_unblock_active_attempt_v2 ext s r a b all now = Inr out \<Longrightarrow> advancing_step ext s (ubo_state out)"
| "cancel_active_session_v2 ext s r a rs now = Inr out \<Longrightarrow> advancing_step ext s (cao_state out)"
| "complete_active_action_v2 ext s r a f now = Inr out \<Longrightarrow> advancing_step ext s (aco_state out)"
| "skip_active_action_v2 ext s r a f rs' now = Inr out \<Longrightarrow> advancing_step ext s (sko_state out)"
| "retry_active_attempt_v2 ext s r a f' rs now = Inr out \<Longrightarrow> advancing_step ext s (ro_state out)"
| "decide_active_route_with_goal_revision_v2 ext s r a opt f' gr rs' actor now = Inr out \<Longrightarrow>
    advancing_step ext s (dco_state out)"
| "GraphSessionStateV2_decide_active_route_v2 ext s r a opt f' rs' actor now = Inr out \<Longrightarrow>
    advancing_step ext s (dco_state out)"
| "define_goal_v2 ext s r goal now = Inr out \<Longrightarrow> advancing_step ext s (gdo_state out)"
| "assess_goal_criterion_v2 ext s r a gr' result actor now = Inr out \<Longrightarrow> advancing_step ext s (cro_state out)"
| "assess_goal_criteria_v2 ext s r a gr' entries actor now = Inr out \<Longrightarrow> advancing_step ext s (crs_state out)"
| "revise_goal_v2 ext s r a' gr' st cr target f' why actor re now = Inr out \<Longrightarrow> advancing_step ext s (gro_state out)"
| "GraphSessionStateV2_manual_rework_v2 ext s r a' target f' rs actor now = Inr out \<Longrightarrow>
    advancing_step ext s (mro_state out)"

text \<open>An item command, with the change it reports.\<close>

inductive item_step :: "externals \<Rightarrow> GraphSessionStateV2 \<Rightarrow> bool \<Rightarrow> GraphSessionStateV2 \<Rightarrow> bool" for ext s where
  "GraphSessionStateV2_mutate_active_item_v2 ext s a i ir m now = Inr out \<Longrightarrow>
    item_step ext s (io_changed out) (io_state out)"
| "GraphSessionStateV2_mutate_active_items_v2 ext s a ms now = Inr out \<Longrightarrow>
    item_step ext s (iso_changed out) (iso_state out)"

inductive start_binding :: "externals \<Rightarrow> GraphSessionStateV2 \<Rightarrow> GraphSessionStateV2 \<Rightarrow> bool" for ext s where
  "bind_initial_goal_at_start_v2 ext s goal now = Inr out \<Longrightarrow> start_binding ext s (gdo_state out)"

lemma step_classes:
  "graph_step ext s s' \<longleftrightarrow>
     advancing_step ext s s' \<or> (\<exists>changed. item_step ext s changed s') \<or> start_binding ext s s'"
proof
  show "graph_step ext s s' \<Longrightarrow>
      advancing_step ext s s' \<or> (\<exists>changed. item_step ext s changed s') \<or> start_binding ext s s'"
    by (induction rule: graph_step.induct) (blast intro: advancing_step.intros item_step.intros start_binding.intros)+
  assume "advancing_step ext s s' \<or> (\<exists>changed. item_step ext s changed s') \<or> start_binding ext s s'"
  then show "graph_step ext s s'"
    by (elim disjE exE advancing_step.cases item_step.cases start_binding.cases)
      (simp_all, (blast intro: graph_step.intros)+)
qed

section \<open>The workspace revision\<close>

text \<open>Every advancing command, and every item command with an effect, stores the next workspace revision.\<close>

lemma stores_next_workspace:
  assumes "admitted_state ext s2 = Inr s'" "next_workspace_revision s = Inr (st_workspace_revision s2)"
  shows "workspace_rev s' = Suc (workspace_rev s)"
  using assms admitted_stateD(1)[OF assms(1)] next_workspace_revisionD[OF assms(2)] by simp

lemma replace_workspace:
  "replace_memory ext s m = Inr s' \<Longrightarrow> workspace_rev s' = Suc (workspace_rev s)"
  "replace_assessments ext s g a = Inr s' \<Longrightarrow> workspace_rev s' = Suc (workspace_rev s)"
  "end_action_state ext s e rs ov out f t wm now = Inr s' \<Longrightarrow> workspace_rev s' = Suc (workspace_rev s)"
  by (auto simp: replace_memory_def replace_assessments_def end_action_state_def intro: stores_next_workspace)

lemmas recording_command_defs =
  GraphSessionStateV2_block_active_attempt_v2_def GraphSessionStateV2_unblock_active_attempt_v2_def
  assess_goal_criterion_v2_def assess_goal_criteria_v2_def complete_active_action_v2_def skip_active_action_v2_def

lemmas moving_command_defs =
  begin_v2_def cancel_active_session_v2_def retry_active_attempt_v2_def
  decide_active_route_with_goal_revision_v2_def revise_goal_v2_def
  GraphSessionStateV2_manual_rework_v2_def

lemma recording_workspace:
  "GraphSessionStateV2_block_active_attempt_v2 ext s r a b reason now = Inr out1 \<Longrightarrow>
    workspace_rev (blo_state out1) = Suc (workspace_rev s)"
  "GraphSessionStateV2_unblock_active_attempt_v2 ext s r a b' all now = Inr out2 \<Longrightarrow>
    workspace_rev (ubo_state out2) = Suc (workspace_rev s)"
  "assess_goal_criterion_v2 ext s r a gr result actor now = Inr out3 \<Longrightarrow>
    workspace_rev (cro_state out3) = Suc (workspace_rev s)"
  "assess_goal_criteria_v2 ext s r a gr entries actor now = Inr out4 \<Longrightarrow>
    workspace_rev (crs_state out4) = Suc (workspace_rev s)"
  "complete_active_action_v2 ext s r a f now = Inr out5 \<Longrightarrow> workspace_rev (aco_state out5) = Suc (workspace_rev s)"
  "skip_active_action_v2 ext s r a f rs now = Inr out6 \<Longrightarrow> workspace_rev (sko_state out6) = Suc (workspace_rev s)"
  by (auto simp: recording_command_defs Let_def dest: replace_workspace split: if_splits prod.splits)

lemma moving_workspace:
  "begin_v2 ext s r a g now = Inr out1 \<Longrightarrow> workspace_rev (bo_state out1) = Suc (workspace_rev s)"
  "cancel_active_session_v2 ext s r a rs now = Inr out2 \<Longrightarrow> workspace_rev (cao_state out2) = Suc (workspace_rev s)"
  "retry_active_attempt_v2 ext s r a f rs now = Inr out3 \<Longrightarrow> workspace_rev (ro_state out3) = Suc (workspace_rev s)"
  "decide_active_route_with_goal_revision_v2 ext s r a opt f gr rs' actor now = Inr out4 \<Longrightarrow>
    workspace_rev (dco_state out4) = Suc (workspace_rev s)"
  "revise_goal_v2 ext s r a' gr' st cr target f why actor re now = Inr out5 \<Longrightarrow>
    workspace_rev (gro_state out5) = Suc (workspace_rev s)"
  "GraphSessionStateV2_manual_rework_v2 ext s r a' target f rs actor now = Inr out6 \<Longrightarrow>
    workspace_rev (mro_state out6) = Suc (workspace_rev s)"
  by (auto simp: moving_command_defs Let_def intro: stores_next_workspace split: if_splits prod.splits)

lemma define_goal_workspace:
  "define_goal_v2 ext s r goal now = Inr out \<Longrightarrow> workspace_rev (gdo_state out) = Suc (workspace_rev s)"
  by (auto simp: define_goal_v2_def intro: stores_next_workspace split: if_splits option.splits)

lemma decide_plain_workspace:
  "GraphSessionStateV2_decide_active_route_v2 ext s r a opt f rs actor now = Inr out \<Longrightarrow>
    workspace_rev (dco_state out) = Suc (workspace_rev s)"
  by (auto simp: GraphSessionStateV2_decide_active_route_v2_def split: if_splits intro: moving_workspace)

lemma delegation_workspace:
  assumes "accept_delegation_successor_v1 ext s a = Inr s'"
  shows "workspace_rev s' = Suc (workspace_rev s)"
  using assms
  by (auto simp: accept_delegation_successor_v1_def next_workspace_revision_def simp del: checked_next_ok
      split: if_splits intro: stores_next_workspace)

lemma advancing_workspace: "advancing_step ext s s' \<Longrightarrow> workspace_rev s' = Suc (workspace_rev s)"
  by (induction rule: advancing_step.induct)
    (auto intro: recording_workspace moving_workspace define_goal_workspace decide_plain_workspace
      delegation_workspace)

lemma item_workspace:
  "item_step ext s changed s' \<Longrightarrow> if changed then workspace_rev s' = Suc (workspace_rev s) else s' = s"
  by (induction rule: item_step.induct)
    (auto simp: GraphSessionStateV2_mutate_active_item_v2_def GraphSessionStateV2_mutate_active_items_v2_def Let_def
      split: if_splits prod.splits dest: replace_workspace)

section \<open>Both revisions\<close>

lemma step_revisions:
  assumes "graph_step ext s s'" "trace_wf (st_trace s)" "workspace_rev s' = Suc (workspace_rev s)"
  shows "session_rev s' = Suc (session_rev s)"
  using effect_revisions[OF step_effect[OF assms(1,2)]] assms(3) by auto

lemma start_binding_revisions:
  assumes "start_binding ext s s'"
  shows "tr_revision (st_trace s) = Revision 1 \<and> tr_revision (st_trace s') = Revision 1 \<and>
    st_workspace_revision s' = st_workspace_revision s"
  using assms
proof cases
  case (1 goal now out)
  then obtain e t gs where t: "bind_initial_goal_revision_at_start (st_trace s) e = (Inr (), t)"
    and w: "admitted_state ext (s\<lparr>st_trace := t, st_goal_state := gs\<rparr>) = Inr s'"
    by (auto simp: bind_initial_goal_at_start_v2_def split: if_splits option.splits)
  from admitted_stateD(1)[OF w] bind_goal_at_start_revision[OF t] show ?thesis by simp
qed

end
