(* ===== verification/Graph_Session_Props.thy ===== *)
theory Graph_Session_Props
  imports Graph_Demo Graph_Fence
begin

text \<open>
  The guarantees of a session, stated over every state that can be reached from a prepared session by
  accepted mutations, whatever the procedure and the order of the commands.
\<close>

lemma reach_admits:
  assumes "graph_reach ext s"
  shows "admits ext s" "trace_wf (st_trace s)"
  using reach_state_wf[OF assms] by (simp_all add: state_wf_def)

text \<open>The two attempts of the sample session, with their metadata and memory.\<close>

lemma work_attempts:
  assumes "graph_reach ext s" "work_done s"
  obtains a md m b md' m' r snapshot where "session_attempts s = [(a, md, m), (b, md', m')]"
    "att_lifecycle a = AttemptCompleted" "att_validity b = Valid" "r \<in> set (am_evidence m')"
    "ResolvedEvidenceReferenceV2_snapshot (evr_resolution r) = Some snapshot"
proof -
  from assms(2) obtain a b where ab: "tr_attempts (st_trace s) = [a, b]" "att_lifecycle a = AttemptCompleted" "att_validity b = Valid"
    by (auto simp: work_done_def)
  from assms(2) obtain m m' r snapshot where m: "wm_attempts (st_workflow_memory s) = [m, m']" "r \<in> set (am_evidence m')"
    "ResolvedEvidenceReferenceV2_snapshot (evr_resolution r) = Some snapshot"
    by (auto simp: work_done_def)
  from admits_lengths(1)[OF reach_admits(1)[OF assms(1)]] ab(1) obtain md md' where "st_attempt_metadata s = [md, md']"
    by (auto simp: length_Suc_conv)
  with ab m that show thesis by simp
qed

text \<open>The three commands of the sample session; the completion names revision 2, so the item command had an effect.\<close>

lemma work_session_steps:
  obtains s0 s1 changed s2 s where "graph_reach demo_ext s0" "advancing_step demo_ext s0 s1"
    "item_step demo_ext s1 changed s2" "advancing_step demo_ext s2 s"
    "session_rev s0 = 0" "session_rev s2 = 2" "work_done s"
proof (rule work_session_commands)
  fix s0 o1 o2 o3
  assume c: "demo_prepared False = Inr s0"
    "begin_v2 demo_ext s0 (Revision 0) (AttemptId [97]) None (UnixMillis 2) = Inr o1"
    "GraphSessionStateV2_mutate_active_item_v2 demo_ext (bo_state o1) (AttemptId [97]) (ItemId [100]) (Revision 0)
       MutCheck (UnixMillis 3) = Inr o2"
    "complete_active_action_v2 demo_ext (io_state o2) (Revision 2) (AttemptId [97]) (Some (AttemptId [98])) (UnixMillis 4) = Inr o3"
    and final: "work_done (aco_state o3)"
  from c have "graph_reach demo_ext s0" by (auto intro: graph_reach.prepared)
  moreover from c(2) have "tr_revision (st_trace s0) = Revision 0" by (auto simp: begin_v2_def split: if_splits)
  moreover from c(4) have "tr_revision (st_trace (io_state o2)) = Revision 2"
    by (auto simp: complete_active_action_v2_def require_running_active_v2_def split: if_splits)
  ultimately show thesis
    by (intro that[OF _ advancing_step.intros(1)[OF c(2)] item_step.intros(1)[OF c(3)] advancing_step.intros(6)[OF c(4)]])
      (simp_all add: final)
qed

text \<open>
  C5: the revision fences of a session, command by command. Every accepted mutation of a reachable session
  is one of three kinds. A command that changes the session (begin, delegation, block, unblock, cancel,
  complete, skip, retry, either decision, defining, assessing or revising the goal, manual rework) advances
  the session revision and the workspace revision by exactly one each, so that a caller holding an old
  revision is always detected. An item command advances both by exactly one when it reports a change and
  returns the session as it was when it reports none. Only the goal binding that completes the creation of a
  session leaves both revisions alone, and it is accepted only at session revision one.
\<close>

theorem session_steps_are_fenced:
  assumes "graph_reach ext s"
  shows "(graph_step ext s s' \<longleftrightarrow>
      advancing_step ext s s' \<or> item_step ext s True s' \<or> item_step ext s False s' \<or> start_binding ext s s') \<and>
    (advancing_step ext s s' \<or> item_step ext s True s' \<longrightarrow>
      session_rev s' = Suc (session_rev s) \<and> workspace_rev s' = Suc (workspace_rev s)) \<and>
    (item_step ext s False s' \<longrightarrow> s' = s) \<and>
    (start_binding ext s s' \<longrightarrow>
      session_rev s = 1 \<and> session_rev s' = 1 \<and> workspace_rev s' = workspace_rev s)"
proof -
  have classes: "graph_step ext s s' \<longleftrightarrow>
      advancing_step ext s s' \<or> item_step ext s True s' \<or> item_step ext s False s' \<or> start_binding ext s s'"
    unfolding step_classes by (metis (full_types))
  moreover have "workspace_rev s' = Suc (workspace_rev s)" if "advancing_step ext s s' \<or> item_step ext s True s'"
    using that advancing_workspace item_workspace[of ext s True s'] by auto
  ultimately show ?thesis
    using step_revisions[OF _ reach_admits(2)[OF assms]] item_workspace[of ext s False s']
      start_binding_revisions[of ext s s'] by auto
qed

theorem session_steps_are_fenced_witness:
  "\<exists>s0 s1 s2 s. graph_reach demo_ext s0 \<and> advancing_step demo_ext s0 s1 \<and> item_step demo_ext s1 True s2 \<and>
     advancing_step demo_ext s2 s \<and> work_done s \<and>
     session_rev s = session_rev s0 + 3 \<and> workspace_rev s = workspace_rev s0 + 3"
proof (rule work_session_steps)
  fix s0 s1 changed s2 s
  assume r0: "graph_reach demo_ext s0" and st: "advancing_step demo_ext s0 s1" "item_step demo_ext s1 changed s2"
    "advancing_step demo_ext s2 s" and rev: "session_rev s0 = 0" "session_rev s2 = 2" and final: "work_done s"
  from st have g: "graph_step demo_ext s0 s1" "graph_step demo_ext s1 s2" unfolding step_classes by blast+
  note r1 = graph_reach.step[OF r0 g(1)] note r2 = graph_reach.step[OF r1 g(2)]
  note fenced = session_steps_are_fenced[OF r0, of s1] session_steps_are_fenced[OF r1, of s2]
    session_steps_are_fenced[OF r2, of s]
  have "changed" using fenced st rev by (cases changed) auto
  with fenced st r0 final show ?thesis by (intro exI[of _ s0] exI[of _ s1] exI[of _ s2] exI[of _ s]) simp
qed

text \<open>
  C7: in every reachable session the trace is well formed, metadata and workflow memory have one entry
  per attempt, in the order of the trace and with its identities, and the counter of every graph node is
  the number of its attempts.
\<close>

theorem reachable_sessions_are_coherent:
  assumes "graph_reach ext s"
  shows "trace_wf (st_trace s) \<and>
    map md_attempt_id (st_attempt_metadata s) = map att_attempt_id (tr_attempts (st_trace s)) \<and>
    map am_attempt_id (wm_attempts (st_workflow_memory s)) = map att_attempt_id (tr_attempts (st_trace s)) \<and>
    (\<forall>n\<in>set (rt_graph_nodes (snap_runtime (st_snapshot s))). \<exists>c\<in>set (st_counters s).
       cn_graph_node_id c = gn_graph_node_id n \<and>
       cn_attempt_count c = of_nat (node_count (gn_graph_node_id n) (tr_attempts (st_trace s))))"
proof -
  note wf = reach_admits[OF assms]
  show ?thesis using wf(2) admits_aligned[OF wf] admits_counters[OF wf(1)] by simp
qed

theorem reachable_sessions_are_coherent_witness:
  "\<exists>s. graph_reach demo_ext s \<and> work_done s \<and>
    map am_attempt_id (wm_attempts (st_workflow_memory s)) = map att_attempt_id (tr_attempts (st_trace s))"
  by (rule work_session_reach) (use reachable_sessions_are_coherent in blast)

text \<open>
  C1: evidence never goes stale under a valid attempt: in every reachable session, whatever a valid
  attempt references as evidence was recorded by an earlier attempt of the declared source node that has
  ended and is still valid, and the digest taken at activation is still the digest of what that attempt
  has recorded.
\<close>

theorem valid_attempts_hold_fresh_evidence:
  assumes "graph_reach ext s" "(a, md, m) \<in> set (session_attempts s)" "att_validity a = Valid"
    "r \<in> set (am_evidence m)" "ResolvedEvidenceReferenceV2_snapshot (evr_resolution r) = Some snapshot"
  shows "\<exists>source source_memory. source \<in> set (tr_attempts (st_trace s)) \<and>
    source_memory \<in> set (wm_attempts (st_workflow_memory s)) \<and>
    att_attempt_id source = es_source_attempt_id snapshot \<and> am_attempt_id source_memory = es_source_attempt_id snapshot \<and>
    att_graph_node_id source = es_source_node snapshot \<and> att_number source = es_source_attempt_number snapshot \<and>
    att_trace source < att_trace a \<and> att_lifecycle source \<noteq> AttemptActive \<and> att_validity source = Valid \<and>
    AttemptWorkflowMemoryV2_recorded_items_digest ext source_memory = Inr (es_items_digest snapshot)"
proof -
  note wf = reach_admits[OF assms(1)]
  obtain model seen seen' where "validate_attempt_memory ext model (tr_attempts (st_trace s))
      (by_id am_attempt_id (wm_attempts (st_workflow_memory s))) seen a md m = Inr seen'"
    using admits_memory[OF wf assms(2)] by blast
  then obtain spec where "validate_attempt_evidence_v2 ext a m spec (md_started_at md) (tr_attempts (st_trace s))
      (by_id am_attempt_id (wm_attempts (st_workflow_memory s))) = Inr ()"
    by (rule validated_attempt)
  from reference_source[OF evidence_source[OF this assms(4,5)]] assms(3) show ?thesis by blast
qed

theorem valid_attempts_hold_fresh_evidence_witness:
  "\<exists>s source. \<exists>snapshot :: EvidenceReferenceSnapshotV2. graph_reach demo_ext s \<and> source \<in> set (tr_attempts (st_trace s)) \<and>
    att_attempt_id source = es_source_attempt_id snapshot \<and> att_validity source = Valid"
proof (rule work_session_reach)
  fix s0 s1 s assume s: "graph_reach demo_ext s" "work_done s"
  obtain a md m b md' m' r snapshot where w: "session_attempts s = [(a, md, m), (b, md', m')]"
    "att_validity b = Valid" "r \<in> set (am_evidence m')"
    "ResolvedEvidenceReferenceV2_snapshot (evr_resolution r) = Some snapshot"
    using work_attempts[OF s] by metis
  have "(b, md', m') \<in> set (session_attempts s)" by (simp add: w(1))
  from valid_attempts_hold_fresh_evidence[OF s(1) this w(2-4)] s(1) show ?thesis by blast
qed

text \<open>
  C2: nothing is completed before it is ready: in every reachable session a completed attempt has, for
  every item of its node that is required under the values recorded, a value that satisfies the
  declaration, and none of its blockers is open.
\<close>

theorem completed_attempts_were_ready:
  assumes "graph_reach ext s" "(a, md, m) \<in> set (session_attempts s)" "att_lifecycle a = AttemptCompleted"
  shows "\<exists>model spec. ProcedureSnapshotV2_memory_model (st_snapshot s) = Inr model \<and>
    mm_nodes model (att_graph_node_id a) = Some spec \<and>
    (\<forall>i<length (nm_items spec). required_now_v2 (nm_items spec) (am_item_slots m) i \<longrightarrow>
       (\<exists>v. sl_value (am_item_slots m ! i) = Some v \<and> is_satisfied_by (nm_items spec ! i) v)) \<and>
    (\<forall>b\<in>set (am_blockers m). bl_state b \<noteq> BlockerOpen)"
proof -
  note wf = reach_admits[OF assms(1)]
  obtain model seen seen' where model: "ProcedureSnapshotV2_memory_model (st_snapshot s) = Inr model"
    and v: "validate_attempt_memory ext model (tr_attempts (st_trace s))
      (by_id am_attempt_id (wm_attempts (st_workflow_memory s))) seen a md m = Inr seen'"
    using admits_memory[OF wf assms(2)] by blast
  from v obtain spec where "mm_nodes model (att_graph_node_id a) = Some spec"
    "length (am_item_slots m) = length (nm_items spec)"
    "missing_items spec m = []" "\<forall>b\<in>set (am_blockers m). bl_state b \<noteq> BlockerOpen"
    using assms(3) by (elim validated_attempt) auto
  with model missing_items_Nil[of spec m] show ?thesis by blast
qed

theorem completed_attempts_were_ready_witness:
  "\<exists>s a md m. graph_reach demo_ext s \<and> (a, md, m) \<in> set (session_attempts s) \<and> att_lifecycle a = AttemptCompleted \<and>
    (\<forall>b\<in>set (am_blockers m). bl_state b \<noteq> BlockerOpen)"
proof (rule work_session_reach)
  fix s0 s1 s assume s: "graph_reach demo_ext s" "work_done s"
  obtain a md m b md' m' where w: "session_attempts s = [(a, md, m), (b, md', m')]" "att_lifecycle a = AttemptCompleted"
    using work_attempts[OF s] by metis
  have a: "(a, md, m) \<in> set (session_attempts s)" by (simp add: w(1))
  from completed_attempts_were_ready[OF s(1) a w(2)] s(1) a w(2) show ?thesis by blast
qed

text \<open>
  C3: a session only moves along its procedure: in every reachable session each attempt follows the one
  before it by a retry of the same node, by the declared target of an ended action, by the declared
  route of the option its completed decision recorded, by a recorded manual rework to a declared
  target, or by the rework of a recorded goal revision.
\<close>

theorem sessions_follow_declared_edges:
  assumes "graph_reach ext s" "Suc i < length (tr_attempts (st_trace s))"
  shows "\<exists>model spec. ProcedureSnapshotV2_memory_model (st_snapshot s) = Inr model \<and>
    mm_nodes model (att_graph_node_id (tr_attempts (st_trace s) ! i)) = Some spec \<and>
    declared_move s model spec (tr_attempts (st_trace s) ! i) (tr_attempts (st_trace s) ! Suc i)"
proof -
  note wf = reach_admits[OF assms(1)]
  from admits_move[OF wf assms(2)] show ?thesis by metis
qed

theorem sessions_follow_declared_edges_witness:
  "\<exists>s model spec a b. graph_reach demo_ext s \<and> tr_attempts (st_trace s) = [a, b] \<and> declared_move s model spec a b"
proof (rule work_session_reach)
  fix s0 s1 s assume s: "graph_reach demo_ext s" "work_done s"
  then obtain a b where ab: "tr_attempts (st_trace s) = [a, b]" by (auto simp: work_done_def)
  then have "Suc 0 < length (tr_attempts (st_trace s))" by simp
  from sessions_follow_declared_edges[OF s(1) this] ab obtain model spec where "declared_move s model spec a b" by auto
  with ab s(1) show ?thesis by blast
qed

text \<open>
  C4: a goal-tracked session that is completed has met its goal check: the current goal revision was
  assessed by a decision that is completed and still valid, with a result for exactly the criteria of that
  revision, in their order.
\<close>

theorem completed_goal_sessions_are_assessed:
  assumes "graph_reach ext s" "rt_goal_tracking (snap_runtime (st_snapshot s))"
    "tr_lifecycle (st_trace s) = SessionCompleted"
  shows "\<exists>current a attempt revision. gs_current_revision (st_goal_state s) = Some current \<and>
    a \<in> set (gs_assessments (st_goal_state s)) \<and> ga_goal_revision a = current \<and>
    attempt \<in> set (tr_attempts (st_trace s)) \<and> att_attempt_id attempt = ga_decision_attempt_id a \<and>
    att_validity attempt = Valid \<and> att_lifecycle attempt = AttemptCompleted \<and>
    revision \<in> set (gs_revisions (st_goal_state s)) \<and> gr_revision revision = current \<and>
    map car_criterion_id (ga_criterion_results a) = map gc_id (goal_criteria (gr_criteria revision))"
  by (rule completed_goal_assessed[OF reach_admits[OF assms(1)] assms(2,3)])

theorem completed_goal_sessions_are_assessed_witness:
  "\<exists>s a. graph_reach demo_ext s \<and> tr_lifecycle (st_trace s) = SessionCompleted \<and> a \<in> set (gs_assessments (st_goal_state s))"
proof (rule goal_session_reach)
  fix s assume s: "graph_reach demo_ext s" "goal_done s"
  then have "rt_goal_tracking (snap_runtime (st_snapshot s))" "tr_lifecycle (st_trace s) = SessionCompleted"
    by (simp_all add: goal_done_def)
  with s(1) completed_goal_sessions_are_assessed[OF s(1)] show ?thesis by blast
qed

text \<open>
  C6: the history of a session is append-only: whatever sequence of accepted mutations leads from a
  reachable state to a later one, the task and its procedure snapshot are the same, the revisions never
  fall, the decisions, reworks, goal revisions and assessments of the earlier state are a prefix of the
  later ones, the attempts of the trace stay, the evidence of an attempt never changes, and the memory of
  an attempt that has ended is frozen.
\<close>

theorem session_history_append_only:
  assumes "graph_reach ext s" "(graph_step ext)\<^sup>*\<^sup>* s s'"
  shows "session_extends s s'"
  using graph_machine.steps_later[OF assms(2)] reach_state_wf[OF assms(1)] by blast

theorem session_history_append_only_witness:
  "\<exists>s0 s. graph_reach demo_ext s0 \<and> (graph_step demo_ext)\<^sup>*\<^sup>* s0 s \<and> work_done s \<and> session_extends s0 s"
  by (rule work_session_reach) (use session_history_append_only in blast)

end
