(* ===== verification/Session_Walks.thy ===== *)
theory Session_Walks
  imports Graph_Invariants Graph_Walks
begin

text \<open>
  Where a session stands in its procedure. The valid path of the trace (theory \<open>Session_Trace_Props\<close>)
  starts at the entry and follows advance edges only, whatever reworks, retries and goal revisions the
  session went through: a rework cuts the path back to its target, it never bends it. Only actions whose
  placement declares a skip are ever skipped.
\<close>

section \<open>Lists\<close>

lemma cut_back:
  assumes "n \<in> set path"
  obtains ws where "path = (takeWhile (\<lambda>m. m \<noteq> n) path @ [n]) @ ws"
proof -
  from assms obtain us ws where "path = us @ n # ws" "n \<notin> set us" by (meson split_list_first)
  moreover from this have "takeWhile (\<lambda>m. m \<noteq> n) path = us" by (auto simp: takeWhile_tail takeWhile_append2)
  ultimately show thesis using that by simp
qed

section \<open>The invariant\<close>

definition declared_path :: "ProcedureSnapshotV2 \<Rightarrow> GraphNodeId list \<Rightarrow> bool" where
  "declared_path snap path \<longleftrightarrow> successively (advance_link snap) path \<and>
     (path \<noteq> [] \<longrightarrow> hd path = rt_entry_graph_node_id (snap_runtime snap))"

definition declared_skips :: "ProcedureSnapshotV2 \<Rightarrow> SessionTraceV2 \<Rightarrow> bool" where
  "declared_skips snap t \<longleftrightarrow> (\<forall>a\<in>set (tr_attempts t). att_lifecycle a = AttemptSkipped \<longrightarrow>
     (\<exists>node. ProcedureSnapshotV2_graph_node snap (att_graph_node_id a) = Some node \<and> gn_skip node \<noteq> None))"

definition follows_procedure :: "GraphSessionStateV2 \<Rightarrow> bool" where
  "follows_procedure s \<longleftrightarrow>
     declared_path (st_snapshot s) (valid_path (st_trace s)) \<and> declared_skips (st_snapshot s) (st_trace s)"

lemma declared_path_prefix: "declared_path snap (xs @ ys) \<Longrightarrow> declared_path snap xs"
  by (auto simp: declared_path_def successively_append_iff)

lemma declared_path_snoc:
  "declared_path snap (path @ [m]) \<Longrightarrow> advance_link snap m n \<Longrightarrow> declared_path snap (path @ [m, n])"
  by (cases path) (auto simp: declared_path_def successively_append_iff simp flip: append_Cons)

lemma declared_path_cut: "declared_path snap path \<Longrightarrow> n \<in> set path \<Longrightarrow> declared_path snap (takeWhile (\<lambda>m. m \<noteq> n) path @ [n])"
  by (metis cut_back declared_path_prefix)

lemma declared_path_butlast: "declared_path snap path \<Longrightarrow> declared_path snap (butlast path)"
  by (cases path rule: rev_cases) (auto intro: declared_path_prefix)

lemma running_cursor:
  assumes "trace_wf t" "tr_lifecycle t = SessionRunning" "active_attempt t = Some active"
  obtains ats where "tr_attempts t = ats @ [active]" "valid_path t = path_of ats @ [att_graph_node_id active]"
    "\<forall>b\<in>set ats. \<not> is_active b"
proof -
  from running_split[OF assms(1,2)] obtain ats a where s: "tr_attempts t = ats @ [a]" "is_active a" "\<forall>b\<in>set ats. \<not> is_active b" .
  with assms(3) have "a = active" by (auto simp: active_attempt_def find_Some_iff nth_append split: if_splits)
  moreover have "valid_att a" using s trace_wf_attempts[OF assms(1)] by (simp add: active_wf)
  ultimately show thesis using s by (intro that[of ats]) (simp_all add: valid_path_def)
qed

lemma command_path:
  assumes "state_wf ext s" "trace_step c (st_trace s) = (Inr (), t')" "follows s c"
    "declared_path (st_snapshot s) (valid_path (st_trace s))"
  shows "declared_path (st_snapshot s) (valid_path t')"
proof -
  let ?t = "st_trace s" and ?path = "valid_path (st_trace s)"
  have wf: "trace_wf ?t" using assms(1) by (simp add: state_wf_def)
  from cursor_refines[OF wf assms(2)] have en: "cursor_enabled c (tr_lifecycle ?t, ?path)"
    and path: "valid_path t' = snd (cursor_step c (tr_lifecycle ?t, ?path))"
    by (auto simp: cursor_of_def) (metis snd_conv)
  show ?thesis
  proof (cases c)
    case (TcAdvance e p n a g)
    with assms(3) obtain active where "active_attempt ?t = Some active"
      and link: "advance_link (st_snapshot s) (att_graph_node_id active) n" by (auto simp: may_end_def)
    with en TcAdvance obtain ats where "?path = path_of ats @ [att_graph_node_id active]"
      using running_cursor[OF wf] by (metis cursor_enabled.simps(2))
    with assms(4) link path TcAdvance show ?thesis by (auto intro: declared_path_snoc)
  qed (use assms(3,4) en path in \<open>auto simp: declared_path_def[of _ "[_]"] intro: declared_path_cut declared_path_butlast\<close>)
qed

section \<open>Skips\<close>

lemma accepted_running:
  assumes "trace_wf t" "require_running_active t e = Inr i"
  obtains ats a where "tr_attempts t = ats @ [a]" "i = length ats" "active_attempt t = Some a" "is_active a"
proof -
  from require_running_active_ok[OF assms] obtain ats a where s: "tr_attempts t = ats @ [a]" "is_active a"
    "\<forall>b\<in>set ats. \<not> is_active b" "i = length ats" by metis
  then have "active_attempt t = Some a"
    by (auto simp: active_attempt_def find_append find_None_iff split: option.splits dest: find_SomeD)
  with s that show thesis by blast
qed

lemma command_skips:
  assumes "trace_wf t" "trace_step c t = (Inr (), t')" "a' \<in> set (tr_attempts t')" "att_lifecycle a' = AttemptSkipped"
  shows "(\<exists>a\<in>set (tr_attempts t). att_lifecycle a = AttemptSkipped \<and> att_graph_node_id a = att_graph_node_id a') \<or>
    (\<exists>e n f g active. (c = TcAdvance e AdvanceSkipped n f g \<or> c = TcFinish e AdvanceSkipped) \<and>
       active_attempt t = Some active \<and> att_graph_node_id active = att_graph_node_id a')"
proof -
  have fresh: "prepare_fresh t n f g = Inr (x, r) \<Longrightarrow> att_lifecycle x = AttemptActive" for n f g x r
    by (auto simp: prepare_fresh_def SessionAttemptV2_new_ok split: if_splits)
  show ?thesis
  proof (cases c)
    case (TcBegin n a g)
    with assms show ?thesis
      by (auto simp: SessionTraceV2_begin_def first_attempt_def SessionAttemptV2_new_ok split: if_splits)
  next
    case (TcAdvance e p n a g)
    with assms(2) obtain i f r where i: "require_running_active t e = Inr i"
      and f: "prepare_fresh t n a g = Inr (f, r)"
      and t': "t' = t\<lparr>tr_attempts := modify i (\<lambda>a. a\<lparr>att_lifecycle := terminal_lifecycle p\<rparr>) (tr_attempts t) @ [f],
                      tr_revision := r\<rparr>"
      by (auto simp: SessionTraceV2_advance_def split: if_splits prod.splits)
    from accepted_running[OF assms(1) i] obtain ats b where
      "tr_attempts t = ats @ [b]" "i = length ats" "active_attempt t = Some b" by metis
    with assms(3,4) t' fresh[OF f] TcAdvance show ?thesis by (cases p) (auto simp: terminal_lifecycle_def)
  next
    case (TcFinish e p)
    with assms(2) obtain i r where i: "require_running_active t e = Inr i"
      and t': "t' = t\<lparr>tr_attempts := modify i (\<lambda>a. a\<lparr>att_lifecycle := terminal_lifecycle p\<rparr>) (tr_attempts t),
                      tr_lifecycle := SessionCompleted, tr_revision := r\<rparr>"
      by (auto simp: SessionTraceV2_finish_def)
    from accepted_running[OF assms(1) i] obtain ats b where
      "tr_attempts t = ats @ [b]" "i = length ats" "active_attempt t = Some b" by metis
    with assms(3,4) t' TcFinish show ?thesis by (cases p) (auto simp: terminal_lifecycle_def)
  next
    case (TcRetry e a g)
    with assms(2) obtain i n f r where i: "require_running_active t e = Inr i" and f: "prepare_fresh t n a g = Inr (f, r)"
      and t': "t' = t\<lparr>tr_attempts := modify i (\<lambda>a. a\<lparr>att_lifecycle := AttemptAbandoned, att_validity := Stale\<rparr>)
                         (tr_attempts t) @ [f], tr_revision := r\<rparr>"
      by (auto simp: SessionTraceV2_retry_def Let_def)
    from accepted_running[OF assms(1) i] obtain ats b where "tr_attempts t = ats @ [b]" "i = length ats" by metis
    with assms(3,4) t' fresh[OF f] show ?thesis by auto
  next
    case (TcCancel e)
    with assms(2) obtain i r where i: "require_running_active t e = Inr i"
      and t': "t' = t\<lparr>tr_attempts := modify i (\<lambda>a. a\<lparr>att_lifecycle := AttemptAbandoned, att_validity := Stale\<rparr>)
                         (tr_attempts t), tr_lifecycle := SessionCancelled, tr_revision := r\<rparr>"
      by (auto simp: SessionTraceV2_cancel_def)
    from accepted_running[OF assms(1) i] obtain ats b where "tr_attempts t = ats @ [b]" "i = length ats" by metis
    with assms(3,4) t' show ?thesis by auto
  next
    case (TcRework e n a g)
    with assms(2) obtain i x f r where i: "require_running_active t e = Inr i" and f: "prepare_fresh t n a g = Inr (f, r)"
      and t': "t' = t\<lparr>tr_attempts := stale_suffix_from_trace x
                   (modify i (\<lambda>a. a\<lparr>att_lifecycle := AttemptCompleted\<rparr>) (tr_attempts t)) @ [f], tr_revision := r\<rparr>"
      by (auto simp: SessionTraceV2_rework_to_def)
    from accepted_running[OF assms(1) i] obtain ats b where "tr_attempts t = ats @ [b]" "i = length ats" by metis
    with assms(3,4) t' fresh[OF f] show ?thesis by (auto simp: stale_suffix_from_trace_def)
  next
    case (TcManualRework e n a g)
    show ?thesis
    proof (cases "tr_lifecycle t")
      case SessionRunning
      with TcManualRework assms(2) obtain y i x f r where i: "require_running_active t y = Inr i"
        and f: "prepare_fresh t n a g = Inr (f, r)"
        and t': "t' = t\<lparr>tr_attempts := stale_suffix_from_trace x
             (modify i (\<lambda>a. a\<lparr>att_lifecycle := AttemptAbandoned\<rparr>) (tr_attempts t)) @ [f], tr_revision := r\<rparr>"
        by (auto simp: SessionTraceV2_manual_rework_def)
      from accepted_running[OF assms(1) i] obtain ats b where "tr_attempts t = ats @ [b]" "i = length ats" by metis
      with assms(3,4) t' fresh[OF f] show ?thesis by (auto simp: stale_suffix_from_trace_def)
    next
      case SessionCompleted
      with TcManualRework assms(2) obtain x f r where f: "prepare_fresh t n a g = Inr (f, r)"
        and t': "t' = t\<lparr>tr_attempts := stale_suffix_from_trace x (tr_attempts t) @ [f], tr_lifecycle := SessionRunning,
             tr_revision := r\<rparr>"
        by (auto simp: SessionTraceV2_manual_rework_def split: if_splits)
      with assms(3,4) fresh[OF f] show ?thesis by (auto simp: stale_suffix_from_trace_def)
    qed (use TcManualRework assms(2) in \<open>simp_all add: SessionTraceV2_manual_rework_def\<close>)
  qed
qed

section \<open>Every reachable session follows its procedure\<close>

lemma same_attempts:
  assumes "trace_wf t" "bind_initial_goal_revision t e = (Inr (), t') \<or> bind_initial_goal_revision_at_start t e = (Inr (), t')"
  shows "map (\<lambda>a. (att_graph_node_id a, att_lifecycle a, att_validity a)) (tr_attempts t')
    = map (\<lambda>a. (att_graph_node_id a, att_lifecycle a, att_validity a)) (tr_attempts t)"
proof -
  from assms(2) obtain i where i: "require_running_active t e = Inr i"
    "tr_attempts t' = modify i (\<lambda>a. a\<lparr>att_goal_revision := Some GoalRevisionNumberV2_FIRST\<rparr>) (tr_attempts t)"
    by (auto simp: bind_initial_goal_revision_def bind_initial_goal_revision_at_start_def Let_def split: if_splits)
  from accepted_running[OF assms(1) i(1)] obtain ats a where "tr_attempts t = ats @ [a]" "i = length ats" by metis
  with i(2) show ?thesis by simp
qed

lemma follows_same:
  assumes "map (\<lambda>a. (att_graph_node_id a, att_lifecycle a, att_validity a)) (tr_attempts (st_trace s'))
    = map (\<lambda>a. (att_graph_node_id a, att_lifecycle a, att_validity a)) (tr_attempts (st_trace s))"
    "st_snapshot s' = st_snapshot s" "follows_procedure s"
  shows "follows_procedure s'"
proof -
  have path: "path_of ats = map fst (filter (\<lambda>(n, l, v). is_valid v) (map (\<lambda>a. (att_graph_node_id a, att_lifecycle a, att_validity a)) ats))" for ats
    by (induction ats) auto
  have skips: "declared_skips snap t \<longleftrightarrow> (\<forall>(n, l, v)\<in>set (map (\<lambda>a. (att_graph_node_id a, att_lifecycle a, att_validity a)) (tr_attempts t)).
      l = AttemptSkipped \<longrightarrow> (\<exists>node. ProcedureSnapshotV2_graph_node snap n = Some node \<and> gn_skip node \<noteq> None))" for snap t
    by (auto simp: declared_skips_def)
  show ?thesis
    using assms unfolding follows_procedure_def valid_path_def path skips by simp
qed

lemma effect_follows:
  assumes "graph_effect ext s s'" "state_wf ext s" "follows_procedure s"
  shows "follows_procedure s'"
  using assms(1)
proof cases
  case (moved c)
  then have snap: "st_snapshot s' = st_snapshot s" by (simp add: same_task_def)
  have wf: "trace_wf (st_trace s)" using assms(2) by (simp add: state_wf_def)
  have "declared_skips (st_snapshot s) (st_trace s')"
    unfolding declared_skips_def
  proof (intro ballI impI)
    fix a' assume "a' \<in> set (tr_attempts (st_trace s'))" "att_lifecycle a' = AttemptSkipped"
    from command_skips[OF wf moved(4) this] show
      "\<exists>node. ProcedureSnapshotV2_graph_node (st_snapshot s) (att_graph_node_id a') = Some node \<and> gn_skip node \<noteq> None"
      using assms(3) moved(5) by (fastforce simp: follows_procedure_def declared_skips_def may_end_def)
  qed
  with command_path[OF assms(2) moved(4,5)] assms(3) snap show ?thesis by (simp add: follows_procedure_def)
next
  case (stayed r)
  with assms(3) show ?thesis by (intro follows_same[of s' s]) (simp_all add: same_task_def)
next
  case (bound e)
  with assms(2,3) same_attempts[of "st_trace s" e "st_trace s'"] show ?thesis
    by (intro follows_same[of s' s]) (simp_all add: same_task_def state_wf_def)
next
  case (bound_at_start e)
  with assms(2,3) same_attempts[of "st_trace s" e "st_trace s'"] show ?thesis
    by (intro follows_same[of s' s]) (simp_all add: same_task_def state_wf_def)
qed (use assms(3) in simp)

lemma prepared_follows:
  assumes "GraphSessionStateV2_prepared ext w title snap sid created = Inr s"
  shows "follows_procedure s"
proof -
  from assms have "st_trace s = SessionTraceV2_prepared sid"
    by (auto simp: GraphSessionStateV2_prepared_def GraphSessionStateV2_new_def
        GraphSessionStateV2_new_with_workflow_memory_def dest!: new_with_goal_state_same)
  then show ?thesis
    by (simp add: follows_procedure_def declared_path_def declared_skips_def valid_path_def SessionTraceV2_prepared_def)
qed

lemma reach_follows: "graph_reach ext s \<Longrightarrow> follows_procedure s"
proof (induction rule: graph_reach.induct)
  case (step s s')
  then have "state_wf ext s" by (simp add: reach_state_wf)
  with step show ?case using effect_follows step_effect by (metis state_wf_def)
qed (rule prepared_follows)

end
