(* ===== verification/Authoring_Diagnostics.thy ===== *)
theory Authoring_Diagnostics
  imports Authoring_Document "HOL-Library.Product_Lexorder"
begin

text \<open>
  The diagnostics of the authoring stages: the closed code catalog and the bounded values of
  \<open>podway-core\<close> (\<open>authoring.rs\<close>), the structural paths and their rendering and the lookups of the source
  index (\<open>procedure_v2_source.rs\<close>), and the location policy and the bounded, ordered report
  (\<open>procedure_v2_diagnostics.rs\<close>). The source index itself is built by walking the events of the
  YAML parser, a third-party package; it is a parameter here, with the fields the code keeps.
\<close>

section \<open>The catalog (authoring.rs)\<close>

definition MAX_AUTHORING_DIAGNOSTICS :: nat where
  "MAX_AUTHORING_DIAGNOSTICS = 256"

definition MAX_AUTHORING_DIAGNOSTIC_MESSAGE_CHARS :: nat where
  "MAX_AUTHORING_DIAGNOSTIC_MESSAGE_CHARS = 512"

definition MAX_AUTHORING_DIAGNOSTIC_HINT_CHARS :: nat where
  "MAX_AUTHORING_DIAGNOSTIC_HINT_CHARS = 512"

definition MAX_AUTHORING_DIAGNOSTIC_FIELD_CHARS :: nat where
  "MAX_AUTHORING_DIAGNOSTIC_FIELD_CHARS = 4096"

definition MAX_AUTHORING_DIAGNOSTIC_SOURCE_PATH_CHARS :: nat where
  "MAX_AUTHORING_DIAGNOSTIC_SOURCE_PATH_CHARS = 4096"

definition MAX_AUTHORING_DIAGNOSTIC_RELATED_GRAPH_NODES :: nat where
  "MAX_AUTHORING_DIAGNOSTIC_RELATED_GRAPH_NODES = 64"

definition MAX_AUTHORING_SOURCE_POSITION :: u32 where
  "MAX_AUTHORING_SOURCE_POSITION = 1048576"

datatype AuthoringSeverity = SeverityError | SeverityWarning

fun AuthoringSeverity_as_str :: "AuthoringSeverity \<Rightarrow> string" where
  "AuthoringSeverity_as_str SeverityError = ''error''"
| "AuthoringSeverity_as_str SeverityWarning = ''warning''"

datatype AuthoringDiagnosticCode =
    CodeAuthoringSchemaInvalid
  | CodeSourceConstructUnsupported
  | CodeSourceProjectionBudgetExceeded
  | CodeGraphProjectionBudgetExceeded
  | CodeFormatNotCanonical
  | CodeEntryNodeInvalid
  | CodeGraphDefinitionUnknown
  | CodeRouteTargetNotFound
  | CodeUnreachableGraphNode
  | CodeNoTerminalPath
  | CodeActionDispositionInvalid
  | CodeDecisionOptionRouteMissing
  | CodeDecisionRouteOptionUndefined
  | CodeGoalAssessmentOptionUnmapped
  | CodeGoalAssessmentOutcomeUnknown
  | CodeGoalAssessmentOutcomeUnreachable
  | CodeGoalAssessmentRequiresGoalTracking
  | CodeGoalAssessmentNotDominatingTerminal
  | CodeEvidenceSourceUnknown
  | CodeEvidenceSourceSelfReference
  | CodeEvidenceSourceDoesNotDominateConsumer
  | CodeSkippableEvidenceSource
  | CodeEvidenceSelectorUnknownItem
  | CodeReadbackBudgetExceeded
  | CodeNextStaticBudgetExceeded
  | CodeDecisionRecordBudgetExceeded
  | CodeEvidencePreviewBudgetExceeded
  | CodePageTokenBudgetExceeded
  | CodeNextFrameBudgetExceeded
  | CodeObservationStaticMembersBudgetExceeded
  | CodeAttemptContentBudgetExceeded
  | CodeDecisionSkipNotAllowed
  | CodeGraphCycleInvalid
  | CodeReworkTargetNotDominating
  | CodeManualReworkTargetUnknown
  | CodeAmbiguousGraphReference
  | CodeUnusedNodeDefinition
  | CodeSingleOptionDecision
  | CodeIndistinguishableOptionLabels
  | CodeIdenticalEffectiveRoutes
  | CodeWeakPurposeGuidance
  | CodeWeakIntentGuidance
  | CodeWeakObjectiveGuidance
  | CodeWeakPromptGuidance
  | CodeWeakCriteriaGuidance
  | CodeWeakReasonGuidance
  | CodeEvidenceGuidanceMissing
  | CodeOptionalEvidenceUnresolvable
  | CodeGoalClarificationPathMissing
  | CodeGoalAssessmentTooEarly
  | CodeManualReworkTargetsBroad
  | CodeOptionLabelsNotDistinct
  | CodeOptionCriteriaWeak
  | CodeDuplicatedNodeDefinition
  | CodeGraphNodeIdConfusing
  | CodeReworkTopologyConfusing
  | CodeNoReactivationPath
  | CodeGoalRevisionTargetUnsafe
  | CodeMultipleGoalAssessmentSources

primrec AuthoringDiagnosticCode_as_str :: "AuthoringDiagnosticCode \<Rightarrow> string" where
  "AuthoringDiagnosticCode_as_str CodeAuthoringSchemaInvalid = ''AUTHORING_SCHEMA_INVALID''"
| "AuthoringDiagnosticCode_as_str CodeSourceConstructUnsupported = ''SOURCE_CONSTRUCT_UNSUPPORTED''"
| "AuthoringDiagnosticCode_as_str CodeSourceProjectionBudgetExceeded = ''SOURCE_PROJECTION_BUDGET_EXCEEDED''"
| "AuthoringDiagnosticCode_as_str CodeGraphProjectionBudgetExceeded = ''GRAPH_PROJECTION_BUDGET_EXCEEDED''"
| "AuthoringDiagnosticCode_as_str CodeFormatNotCanonical = ''FORMAT_NOT_CANONICAL''"
| "AuthoringDiagnosticCode_as_str CodeEntryNodeInvalid = ''ENTRY_NODE_INVALID''"
| "AuthoringDiagnosticCode_as_str CodeGraphDefinitionUnknown = ''GRAPH_DEFINITION_UNKNOWN''"
| "AuthoringDiagnosticCode_as_str CodeRouteTargetNotFound = ''ROUTE_TARGET_NOT_FOUND''"
| "AuthoringDiagnosticCode_as_str CodeUnreachableGraphNode = ''UNREACHABLE_GRAPH_NODE''"
| "AuthoringDiagnosticCode_as_str CodeNoTerminalPath = ''NO_TERMINAL_PATH''"
| "AuthoringDiagnosticCode_as_str CodeActionDispositionInvalid = ''ACTION_DISPOSITION_INVALID''"
| "AuthoringDiagnosticCode_as_str CodeDecisionOptionRouteMissing = ''DECISION_OPTION_ROUTE_MISSING''"
| "AuthoringDiagnosticCode_as_str CodeDecisionRouteOptionUndefined = ''DECISION_ROUTE_OPTION_UNDEFINED''"
| "AuthoringDiagnosticCode_as_str CodeGoalAssessmentOptionUnmapped = ''GOAL_ASSESSMENT_OPTION_UNMAPPED''"
| "AuthoringDiagnosticCode_as_str CodeGoalAssessmentOutcomeUnknown = ''GOAL_ASSESSMENT_OUTCOME_UNKNOWN''"
| "AuthoringDiagnosticCode_as_str CodeGoalAssessmentOutcomeUnreachable = ''GOAL_ASSESSMENT_OUTCOME_UNREACHABLE''"
| "AuthoringDiagnosticCode_as_str CodeGoalAssessmentRequiresGoalTracking = ''GOAL_ASSESSMENT_REQUIRES_GOAL_TRACKING''"
| "AuthoringDiagnosticCode_as_str CodeGoalAssessmentNotDominatingTerminal = ''GOAL_ASSESSMENT_NOT_DOMINATING_TERMINAL''"
| "AuthoringDiagnosticCode_as_str CodeEvidenceSourceUnknown = ''EVIDENCE_SOURCE_UNKNOWN''"
| "AuthoringDiagnosticCode_as_str CodeEvidenceSourceSelfReference = ''EVIDENCE_SOURCE_SELF_REFERENCE''"
| "AuthoringDiagnosticCode_as_str CodeEvidenceSourceDoesNotDominateConsumer = ''EVIDENCE_SOURCE_DOES_NOT_DOMINATE_CONSUMER''"
| "AuthoringDiagnosticCode_as_str CodeSkippableEvidenceSource = ''SKIPPABLE_EVIDENCE_SOURCE''"
| "AuthoringDiagnosticCode_as_str CodeEvidenceSelectorUnknownItem = ''EVIDENCE_SELECTOR_UNKNOWN_ITEM''"
| "AuthoringDiagnosticCode_as_str CodeReadbackBudgetExceeded = ''READBACK_BUDGET_EXCEEDED''"
| "AuthoringDiagnosticCode_as_str CodeNextStaticBudgetExceeded = ''NEXT_STATIC_BUDGET_EXCEEDED''"
| "AuthoringDiagnosticCode_as_str CodeDecisionRecordBudgetExceeded = ''DECISION_RECORD_BUDGET_EXCEEDED''"
| "AuthoringDiagnosticCode_as_str CodeEvidencePreviewBudgetExceeded = ''EVIDENCE_PREVIEW_BUDGET_EXCEEDED''"
| "AuthoringDiagnosticCode_as_str CodePageTokenBudgetExceeded = ''PAGE_TOKEN_BUDGET_EXCEEDED''"
| "AuthoringDiagnosticCode_as_str CodeNextFrameBudgetExceeded = ''NEXT_FRAME_BUDGET_EXCEEDED''"
| "AuthoringDiagnosticCode_as_str CodeObservationStaticMembersBudgetExceeded = ''OBSERVATION_STATIC_MEMBERS_BUDGET_EXCEEDED''"
| "AuthoringDiagnosticCode_as_str CodeAttemptContentBudgetExceeded = ''ATTEMPT_CONTENT_BUDGET_EXCEEDED''"
| "AuthoringDiagnosticCode_as_str CodeDecisionSkipNotAllowed = ''DECISION_SKIP_NOT_ALLOWED''"
| "AuthoringDiagnosticCode_as_str CodeGraphCycleInvalid = ''GRAPH_CYCLE_INVALID''"
| "AuthoringDiagnosticCode_as_str CodeReworkTargetNotDominating = ''REWORK_TARGET_NOT_DOMINATING''"
| "AuthoringDiagnosticCode_as_str CodeManualReworkTargetUnknown = ''MANUAL_REWORK_TARGET_UNKNOWN''"
| "AuthoringDiagnosticCode_as_str CodeAmbiguousGraphReference = ''AMBIGUOUS_GRAPH_REFERENCE''"
| "AuthoringDiagnosticCode_as_str CodeUnusedNodeDefinition = ''UNUSED_NODE_DEFINITION''"
| "AuthoringDiagnosticCode_as_str CodeSingleOptionDecision = ''SINGLE_OPTION_DECISION''"
| "AuthoringDiagnosticCode_as_str CodeIndistinguishableOptionLabels = ''INDISTINGUISHABLE_OPTION_LABELS''"
| "AuthoringDiagnosticCode_as_str CodeIdenticalEffectiveRoutes = ''IDENTICAL_EFFECTIVE_ROUTES''"
| "AuthoringDiagnosticCode_as_str CodeWeakPurposeGuidance = ''WEAK_PURPOSE_GUIDANCE''"
| "AuthoringDiagnosticCode_as_str CodeWeakIntentGuidance = ''WEAK_INTENT_GUIDANCE''"
| "AuthoringDiagnosticCode_as_str CodeWeakObjectiveGuidance = ''WEAK_OBJECTIVE_GUIDANCE''"
| "AuthoringDiagnosticCode_as_str CodeWeakPromptGuidance = ''WEAK_PROMPT_GUIDANCE''"
| "AuthoringDiagnosticCode_as_str CodeWeakCriteriaGuidance = ''WEAK_CRITERIA_GUIDANCE''"
| "AuthoringDiagnosticCode_as_str CodeWeakReasonGuidance = ''WEAK_REASON_GUIDANCE''"
| "AuthoringDiagnosticCode_as_str CodeEvidenceGuidanceMissing = ''EVIDENCE_GUIDANCE_MISSING''"
| "AuthoringDiagnosticCode_as_str CodeOptionalEvidenceUnresolvable = ''OPTIONAL_EVIDENCE_UNRESOLVABLE''"
| "AuthoringDiagnosticCode_as_str CodeGoalClarificationPathMissing = ''GOAL_CLARIFICATION_PATH_MISSING''"
| "AuthoringDiagnosticCode_as_str CodeGoalAssessmentTooEarly = ''GOAL_ASSESSMENT_TOO_EARLY''"
| "AuthoringDiagnosticCode_as_str CodeManualReworkTargetsBroad = ''MANUAL_REWORK_TARGETS_BROAD''"
| "AuthoringDiagnosticCode_as_str CodeOptionLabelsNotDistinct = ''OPTION_LABELS_NOT_DISTINCT''"
| "AuthoringDiagnosticCode_as_str CodeOptionCriteriaWeak = ''OPTION_CRITERIA_WEAK''"
| "AuthoringDiagnosticCode_as_str CodeDuplicatedNodeDefinition = ''DUPLICATED_NODE_DEFINITION''"
| "AuthoringDiagnosticCode_as_str CodeGraphNodeIdConfusing = ''GRAPH_NODE_ID_CONFUSING''"
| "AuthoringDiagnosticCode_as_str CodeReworkTopologyConfusing = ''REWORK_TOPOLOGY_CONFUSING''"
| "AuthoringDiagnosticCode_as_str CodeNoReactivationPath = ''NO_REACTIVATION_PATH''"
| "AuthoringDiagnosticCode_as_str CodeGoalRevisionTargetUnsafe = ''GOAL_REVISION_TARGET_UNSAFE''"
| "AuthoringDiagnosticCode_as_str CodeMultipleGoalAssessmentSources = ''MULTIPLE_GOAL_ASSESSMENT_SOURCES''"

primrec AuthoringDiagnosticCode_severity :: "AuthoringDiagnosticCode \<Rightarrow> AuthoringSeverity" where
  "AuthoringDiagnosticCode_severity CodeAuthoringSchemaInvalid = SeverityError"
| "AuthoringDiagnosticCode_severity CodeSourceConstructUnsupported = SeverityError"
| "AuthoringDiagnosticCode_severity CodeSourceProjectionBudgetExceeded = SeverityError"
| "AuthoringDiagnosticCode_severity CodeGraphProjectionBudgetExceeded = SeverityError"
| "AuthoringDiagnosticCode_severity CodeFormatNotCanonical = SeverityError"
| "AuthoringDiagnosticCode_severity CodeEntryNodeInvalid = SeverityError"
| "AuthoringDiagnosticCode_severity CodeGraphDefinitionUnknown = SeverityError"
| "AuthoringDiagnosticCode_severity CodeRouteTargetNotFound = SeverityError"
| "AuthoringDiagnosticCode_severity CodeUnreachableGraphNode = SeverityError"
| "AuthoringDiagnosticCode_severity CodeNoTerminalPath = SeverityError"
| "AuthoringDiagnosticCode_severity CodeActionDispositionInvalid = SeverityError"
| "AuthoringDiagnosticCode_severity CodeDecisionOptionRouteMissing = SeverityError"
| "AuthoringDiagnosticCode_severity CodeDecisionRouteOptionUndefined = SeverityError"
| "AuthoringDiagnosticCode_severity CodeGoalAssessmentOptionUnmapped = SeverityError"
| "AuthoringDiagnosticCode_severity CodeGoalAssessmentOutcomeUnknown = SeverityError"
| "AuthoringDiagnosticCode_severity CodeGoalAssessmentOutcomeUnreachable = SeverityError"
| "AuthoringDiagnosticCode_severity CodeGoalAssessmentRequiresGoalTracking = SeverityError"
| "AuthoringDiagnosticCode_severity CodeGoalAssessmentNotDominatingTerminal = SeverityError"
| "AuthoringDiagnosticCode_severity CodeEvidenceSourceUnknown = SeverityError"
| "AuthoringDiagnosticCode_severity CodeEvidenceSourceSelfReference = SeverityError"
| "AuthoringDiagnosticCode_severity CodeEvidenceSourceDoesNotDominateConsumer = SeverityError"
| "AuthoringDiagnosticCode_severity CodeSkippableEvidenceSource = SeverityError"
| "AuthoringDiagnosticCode_severity CodeEvidenceSelectorUnknownItem = SeverityError"
| "AuthoringDiagnosticCode_severity CodeReadbackBudgetExceeded = SeverityError"
| "AuthoringDiagnosticCode_severity CodeNextStaticBudgetExceeded = SeverityError"
| "AuthoringDiagnosticCode_severity CodeDecisionRecordBudgetExceeded = SeverityError"
| "AuthoringDiagnosticCode_severity CodeEvidencePreviewBudgetExceeded = SeverityError"
| "AuthoringDiagnosticCode_severity CodePageTokenBudgetExceeded = SeverityError"
| "AuthoringDiagnosticCode_severity CodeNextFrameBudgetExceeded = SeverityError"
| "AuthoringDiagnosticCode_severity CodeObservationStaticMembersBudgetExceeded = SeverityError"
| "AuthoringDiagnosticCode_severity CodeAttemptContentBudgetExceeded = SeverityWarning"
| "AuthoringDiagnosticCode_severity CodeDecisionSkipNotAllowed = SeverityError"
| "AuthoringDiagnosticCode_severity CodeGraphCycleInvalid = SeverityError"
| "AuthoringDiagnosticCode_severity CodeReworkTargetNotDominating = SeverityError"
| "AuthoringDiagnosticCode_severity CodeManualReworkTargetUnknown = SeverityError"
| "AuthoringDiagnosticCode_severity CodeAmbiguousGraphReference = SeverityError"
| "AuthoringDiagnosticCode_severity CodeUnusedNodeDefinition = SeverityWarning"
| "AuthoringDiagnosticCode_severity CodeSingleOptionDecision = SeverityWarning"
| "AuthoringDiagnosticCode_severity CodeIndistinguishableOptionLabels = SeverityWarning"
| "AuthoringDiagnosticCode_severity CodeIdenticalEffectiveRoutes = SeverityWarning"
| "AuthoringDiagnosticCode_severity CodeWeakPurposeGuidance = SeverityWarning"
| "AuthoringDiagnosticCode_severity CodeWeakIntentGuidance = SeverityWarning"
| "AuthoringDiagnosticCode_severity CodeWeakObjectiveGuidance = SeverityWarning"
| "AuthoringDiagnosticCode_severity CodeWeakPromptGuidance = SeverityWarning"
| "AuthoringDiagnosticCode_severity CodeWeakCriteriaGuidance = SeverityWarning"
| "AuthoringDiagnosticCode_severity CodeWeakReasonGuidance = SeverityWarning"
| "AuthoringDiagnosticCode_severity CodeEvidenceGuidanceMissing = SeverityWarning"
| "AuthoringDiagnosticCode_severity CodeOptionalEvidenceUnresolvable = SeverityWarning"
| "AuthoringDiagnosticCode_severity CodeGoalClarificationPathMissing = SeverityWarning"
| "AuthoringDiagnosticCode_severity CodeGoalAssessmentTooEarly = SeverityWarning"
| "AuthoringDiagnosticCode_severity CodeManualReworkTargetsBroad = SeverityWarning"
| "AuthoringDiagnosticCode_severity CodeOptionLabelsNotDistinct = SeverityWarning"
| "AuthoringDiagnosticCode_severity CodeOptionCriteriaWeak = SeverityWarning"
| "AuthoringDiagnosticCode_severity CodeDuplicatedNodeDefinition = SeverityWarning"
| "AuthoringDiagnosticCode_severity CodeGraphNodeIdConfusing = SeverityWarning"
| "AuthoringDiagnosticCode_severity CodeReworkTopologyConfusing = SeverityWarning"
| "AuthoringDiagnosticCode_severity CodeNoReactivationPath = SeverityWarning"
| "AuthoringDiagnosticCode_severity CodeGoalRevisionTargetUnsafe = SeverityWarning"
| "AuthoringDiagnosticCode_severity CodeMultipleGoalAssessmentSources = SeverityWarning"

section \<open>Source locations (authoring.rs)\<close>

record SourceLocation =
  loc_line :: u32
  loc_column :: u32
  loc_end_line :: u32
  loc_end_column :: u32

definition SourceLocation_document_start :: SourceLocation where
  "SourceLocation_document_start = \<lparr>loc_line = 1, loc_column = 1, loc_end_line = 1, loc_end_column = 1\<rparr>"

definition clamp_position :: "u32 \<Rightarrow> u32" where
  "clamp_position value =
     (if value = 0 then 1
      else if value > MAX_AUTHORING_SOURCE_POSITION then MAX_AUTHORING_SOURCE_POSITION else value)"

definition at_least :: "u32 \<Rightarrow> u32 \<Rightarrow> u32" where
  "at_least value lowest = (if value < lowest then lowest else value)"

definition SourceLocation_new :: "u32 \<Rightarrow> u32 \<Rightarrow> u32 \<Rightarrow> u32 \<Rightarrow> SourceLocation" where
  "SourceLocation_new line column end_line end_column =
     (let line' = clamp_position line;
          column' = clamp_position column;
          end_line' = at_least (clamp_position end_line) line';
          end_column' = (if end_line' = line' then at_least (clamp_position end_column) column'
                         else clamp_position end_column)
      in \<lparr>loc_line = line', loc_column = column', loc_end_line = end_line', loc_end_column = end_column'\<rparr>)"

section \<open>Diagnostics (authoring.rs)\<close>

definition bounded :: "str \<Rightarrow> nat \<Rightarrow> str \<Rightarrow> str" where
  "bounded value maximum fallback =
     (let truncated = (if length value > maximum then take maximum value else value)
      in if truncated = [] then fallback else truncated)"

record AuthoringDiagnostic =
  dg_code :: AuthoringDiagnosticCode
  dg_severity :: AuthoringSeverity
  dg_schema :: str
  dg_source_path :: str
  dg_location :: SourceLocation
  dg_field :: str
  dg_message :: str
  dg_hint :: str
  dg_node_definition_id :: "str option"
  dg_graph_node_id :: "str option"
  dg_related_graph_node_ids :: "str list"

definition AuthoringDiagnostic_new ::
    "AuthoringDiagnosticCode \<Rightarrow> str \<Rightarrow> SourceLocation \<Rightarrow> str \<Rightarrow> str \<Rightarrow> str \<Rightarrow> AuthoringDiagnostic" where
  "AuthoringDiagnostic_new code source_path at_location field message hint =
     \<lparr>dg_code = code, dg_severity = AuthoringDiagnosticCode_severity code, dg_schema = PROCEDURE_SCHEMA_V2,
      dg_source_path = bounded source_path MAX_AUTHORING_DIAGNOSTIC_SOURCE_PATH_CHARS (lit ''-''),
      dg_location = at_location,
      dg_field = bounded field MAX_AUTHORING_DIAGNOSTIC_FIELD_CHARS (lit ''$''),
      dg_message = bounded message MAX_AUTHORING_DIAGNOSTIC_MESSAGE_CHARS (lit (AuthoringDiagnosticCode_as_str code)),
      dg_hint = bounded hint MAX_AUTHORING_DIAGNOSTIC_HINT_CHARS (lit ''Review the Procedure v2 authoring contract.''),
      dg_node_definition_id = None, dg_graph_node_id = None, dg_related_graph_node_ids = []\<rparr>"

definition with_node_definition_id :: "str \<Rightarrow> AuthoringDiagnostic \<Rightarrow> AuthoringDiagnostic" where
  "with_node_definition_id node_definition_id d = d\<lparr>dg_node_definition_id := Some node_definition_id\<rparr>"

definition with_graph_node_id :: "str \<Rightarrow> AuthoringDiagnostic \<Rightarrow> AuthoringDiagnostic" where
  "with_graph_node_id graph_node_id d = d\<lparr>dg_graph_node_id := Some graph_node_id\<rparr>"

fun unique_related :: "str list \<Rightarrow> str list \<Rightarrow> str list" where
  "unique_related unique [] = unique"
| "unique_related unique (candidate # rest) =
     (if length unique = MAX_AUTHORING_DIAGNOSTIC_RELATED_GRAPH_NODES then unique
      else unique_related (if candidate \<in> set unique then unique else unique @ [candidate]) rest)"

definition with_related_graph_node_ids :: "str list \<Rightarrow> AuthoringDiagnostic \<Rightarrow> AuthoringDiagnostic" where
  "with_related_graph_node_ids related d = d\<lparr>dg_related_graph_node_ids := unique_related [] related\<rparr>"

section \<open>Structural paths (procedure_v2_source.rs)\<close>

datatype PathSegment = SegmentKey str | SegmentIndex nat

type_synonym FieldPath = "PathSegment list"

definition FieldPath_root :: FieldPath where
  "FieldPath_root = []"

definition child_key :: "FieldPath \<Rightarrow> str \<Rightarrow> FieldPath" where
  "child_key path key = path @ [SegmentKey key]"

definition child_index :: "FieldPath \<Rightarrow> nat \<Rightarrow> FieldPath" where
  "child_index path index = path @ [SegmentIndex index]"

definition FieldPath_parent :: "FieldPath \<Rightarrow> FieldPath option" where
  "FieldPath_parent path = (if path = [] then None else Some (butlast path))"

definition AUTHORING_MAP_KEYS :: "str list" where
  "AUTHORING_MAP_KEYS = [lit ''node_definitions'', lit ''routes'', lit ''outcomes'']"

definition IDENTIFIER_SEQUENCE_KEYS :: "str list" where
  "IDENTIFIER_SEQUENCE_KEYS = [lit ''allowed_targets'', lit ''items'']"

definition element_identifier :: "AuthoringValue \<Rightarrow> str option \<Rightarrow> str option" where
  "element_identifier value parent_key =
     (case value of
        AuthoringMap entries \<Rightarrow>
          Option.bind (find (\<lambda>(key, _). key = lit ''id'' \<or> key = lit ''node'') entries) (\<lambda>(_, v).
            case v of AuthoringText text \<Rightarrow> Some text | _ \<Rightarrow> None)
      | AuthoringText text \<Rightarrow>
          if is_some_and parent_key (\<lambda>parent. parent \<in> set IDENTIFIER_SEQUENCE_KEYS) then Some text else None
      | _ \<Rightarrow> None)"

fun render_segments :: "str \<Rightarrow> AuthoringValue option \<Rightarrow> str option \<Rightarrow> PathSegment list \<Rightarrow> str" where
  "render_segments rendered here parent_key [] = rendered"
| "render_segments rendered here parent_key (SegmentKey key # rest) =
     render_segments
       (if rendered = [] then key
        else if is_some_and parent_key (\<lambda>parent. parent \<in> set AUTHORING_MAP_KEYS)
        then rendered @ lit ''['' @ key @ lit '']''
        else rendered @ lit ''.'' @ key)
       (Option.bind here (\<lambda>value. case value of
            AuthoringMap entries \<Rightarrow> map_option snd (find (\<lambda>(candidate, _). candidate = key) entries)
          | _ \<Rightarrow> None))
       (Some key) rest"
| "render_segments rendered here parent_key (SegmentIndex index # rest) =
     (let element = Option.bind here (\<lambda>value. case value of
            AuthoringSeq values \<Rightarrow> (if index < length values then Some (values ! index) else None)
          | _ \<Rightarrow> None);
          token = (case Option.bind element (\<lambda>value. element_identifier value parent_key) of
              Some text \<Rightarrow> text | None \<Rightarrow> nat_text index)
      in render_segments (rendered @ lit ''['' @ token @ lit '']'') element parent_key rest)"

definition field_string :: "FieldPath \<Rightarrow> AuthoringValue option \<Rightarrow> str" where
  "field_string path document = (if path = [] then lit ''$'' else render_segments [] document None path)"

section \<open>The source index (procedure_v2_source.rs)\<close>

record SourceIndexEntry =
  sie_line :: u32
  sie_column :: u32
  sie_path :: FieldPath
  sie_scalar :: "str option"

record SourceIndex =
  si_entries :: "SourceIndexEntry list"
  si_by_path :: "FieldPath \<rightharpoonup> nat"
  si_line_lengths :: "u32 list"

text \<open>An index of \<open>by_path\<close> past the entries is the panic of the indexing; no caller builds one.\<close>

definition SourceIndex_position :: "SourceIndex \<Rightarrow> FieldPath \<Rightarrow> (u32 \<times> u32) option" where
  "SourceIndex_position index path =
     map_option (\<lambda>i. (sie_line (si_entries index ! i), sie_column (si_entries index ! i))) (si_by_path index path)"

definition SourceIndex_line_length :: "SourceIndex \<Rightarrow> u32 \<Rightarrow> u32" where
  "SourceIndex_line_length index line =
     (if line = 0 then 0
      else if unat (line - 1) < length (si_line_lengths index) then si_line_lengths index ! unat (line - 1) else 0)"

definition SHAPE_WILDCARD :: str where
  "SHAPE_WILDCARD = lit ''*''"

definition path_matches :: "FieldPath \<Rightarrow> str list \<Rightarrow> bool" where
  "path_matches path shape \<longleftrightarrow>
     length path = length shape \<and>
     (\<forall>(segment, expected)\<in>set (zip path shape).
        expected = SHAPE_WILDCARD \<or> (case segment of SegmentKey key \<Rightarrow> key = expected | SegmentIndex _ \<Rightarrow> False))"

definition SourceIndex_locate_shape :: "SourceIndex \<Rightarrow> str list \<Rightarrow> str \<Rightarrow> (u32 \<times> u32) option" where
  "SourceIndex_locate_shape index shape value =
     map_option (\<lambda>entry. (sie_line entry, sie_column entry))
       (find (\<lambda>entry. sie_scalar entry = Some value \<and> path_matches (sie_path entry) shape) (si_entries index))"

section \<open>Locations (procedure_v2_diagnostics.rs)\<close>

record AuthoringContext =
  ctx_source_path :: str
  ctx_index :: SourceIndex

definition context_span :: "AuthoringContext \<Rightarrow> u32 \<Rightarrow> u32 \<Rightarrow> SourceLocation" where
  "context_span context line column =
     SourceLocation_new line column line (saturating_succ32 (SourceIndex_line_length (ctx_index context) line))"

function locate_from :: "AuthoringContext \<Rightarrow> FieldPath \<Rightarrow> SourceLocation" where
  "locate_from context current =
     (case SourceIndex_position (ctx_index context) current of
        Some (line, column) \<Rightarrow> context_span context line column
      | None \<Rightarrow> (case FieldPath_parent current of
            Some parent \<Rightarrow> locate_from context parent
          | None \<Rightarrow> SourceLocation_document_start))"
  by pat_completeness auto
termination
  by (relation "measure (\<lambda>(context, path). length path)") (auto simp: FieldPath_parent_def split: if_splits)

declare locate_from.simps [simp del]

definition context_locate :: "AuthoringContext \<Rightarrow> FieldPath \<Rightarrow> SourceLocation" where
  "context_locate context path = locate_from context path"

primrec diagnostic_hint :: "AuthoringDiagnosticCode \<Rightarrow> string" where
  "diagnostic_hint CodeAuthoringSchemaInvalid =
     ''Correct the reported field against assets/schemas/procedure-v2.schema.json.''"
| "diagnostic_hint CodeSourceConstructUnsupported =
     ''Rewrite the construct as a single-line value with full-line comments only.''"
| "diagnostic_hint CodeSourceProjectionBudgetExceeded =
     ''Split the procedure or shorten its longest values to fit the source projection budget.''"
| "diagnostic_hint CodeGraphProjectionBudgetExceeded =
     ''Split the graph or shorten its generated text to fit the graph projection budget.''"
| "diagnostic_hint CodeFormatNotCanonical =
     ''Run `podway procedure format <file> --write` to rewrite the file in canonical form.''"
| "diagnostic_hint CodeEntryNodeInvalid =
     ''Set graph.entry to the identifier of a declared graph node.''"
| "diagnostic_hint CodeGraphDefinitionUnknown =
     ''Point the placement's `use` at a declared node_definitions key.''"
| "diagnostic_hint CodeRouteTargetNotFound =
     ''Point the transition at a declared graph node identifier.''"
| "diagnostic_hint CodeUnreachableGraphNode =
     ''Add a transition that reaches the node, or remove the node.''"
| "diagnostic_hint CodeNoTerminalPath =
     ''Give the region a path to a terminal action.''"
| "diagnostic_hint CodeActionDispositionInvalid =
     ''Declare exactly one of `next` or `terminal: true` on the action placement.''"
| "diagnostic_hint CodeDecisionOptionRouteMissing =
     ''Add one route for every declared decision option.''"
| "diagnostic_hint CodeDecisionRouteOptionUndefined =
     ''Remove the route, or declare the option on the decision definition.''"
| "diagnostic_hint CodeGoalAssessmentOptionUnmapped =
     ''Map every declared option to one of achieved, not_achieved, or superseded.''"
| "diagnostic_hint CodeGoalAssessmentOutcomeUnknown =
     ''Use one of achieved, not_achieved, or superseded as the mapped outcome.''"
| "diagnostic_hint CodeGoalAssessmentOutcomeUnreachable =
     ''Add an option that maps to the unreachable goal outcome.''"
| "diagnostic_hint CodeGoalAssessmentRequiresGoalTracking =
     ''Declare `goal_tracking: true` at the procedure root, or remove the assessment.''"
| "diagnostic_hint CodeGoalAssessmentNotDominatingTerminal =
     ''Place a session-goal assessment on every path to the terminal action.''"
| "diagnostic_hint CodeEvidenceSourceUnknown =
     ''Point the evidence reference at a declared graph node identifier.''"
| "diagnostic_hint CodeEvidenceSourceSelfReference =
     ''Reference a different placement; a node cannot read back its own evidence.''"
| "diagnostic_hint CodeEvidenceSourceDoesNotDominateConsumer =
     ''Reference a placement that dominates this node, or mark the reference optional.''"
| "diagnostic_hint CodeSkippableEvidenceSource =
     ''Remove the source's skip policy, or mark the evidence reference optional.''"
| "diagnostic_hint CodeEvidenceSelectorUnknownItem =
     ''Select an item the source placement's definition declares.''"
| "diagnostic_hint CodeReadbackBudgetExceeded =
     ''Select fewer evidence items, or read back from fewer source nodes.''"
| "diagnostic_hint CodeNextStaticBudgetExceeded =
     ''Shorten the node's instructions, prompts, and help text.''"
| "diagnostic_hint CodeDecisionRecordBudgetExceeded =
     ''Read back from fewer decision sources, or shorten their reason and criteria text.''"
| "diagnostic_hint CodeEvidencePreviewBudgetExceeded =
     ''Name fewer items in the evidence selector; an omitted selector requests no preview.''"
| "diagnostic_hint CodePageTokenBudgetExceeded =
     ''Name fewer items in the evidence selector, so fewer previews publish a continuation token.''"
| "diagnostic_hint CodeNextFrameBudgetExceeded =
     ''Reduce the graph's placement count or identifier length, or whichever placement allocation charges most.''"
| "diagnostic_hint CodeObservationStaticMembersBudgetExceeded =
     ''Reduce the graph's placement count or identifier length, or shorten static guidance, decision records, or selected evidence metadata.''"
| "diagnostic_hint CodeAttemptContentBudgetExceeded =
     ''Lower the declared max_length, max_items, or max_total_length of the largest items.''"
| "diagnostic_hint CodeDecisionSkipNotAllowed =
     ''Remove the skip policy from the decision placement.''"
| "diagnostic_hint CodeGraphCycleInvalid =
     ''Reduce the region to the single rework cycle the v2 graph rule allows.''"
| "diagnostic_hint CodeReworkTargetNotDominating =
     ''Point the rework route at a node that dominates the decision.''"
| "diagnostic_hint CodeManualReworkTargetUnknown =
     ''List only declared graph node identifiers in manual_rework.allowed_targets.''"
| "diagnostic_hint CodeAmbiguousGraphReference =
     ''Rename one of the colliding identifiers.''"
| "diagnostic_hint CodeUnusedNodeDefinition =
     ''Place the definition in the graph, or delete the definition.''"
| "diagnostic_hint CodeSingleOptionDecision =
     ''Add a second option, or replace the decision with an action.''"
| "diagnostic_hint CodeIndistinguishableOptionLabels =
     ''Rewrite the labels so a reader can tell the options apart.''"
| "diagnostic_hint CodeIdenticalEffectiveRoutes =
     ''Give the options different targets or effects, or merge them.''"
| "diagnostic_hint CodeWeakPurposeGuidance =
     ''State what the procedure exists to accomplish.''"
| "diagnostic_hint CodeWeakIntentGuidance =
     ''State the outcome this node must produce.''"
| "diagnostic_hint CodeWeakObjectiveGuidance =
     ''State what the decision must determine.''"
| "diagnostic_hint CodeWeakPromptGuidance =
     ''Ask the decision as a concrete question.''"
| "diagnostic_hint CodeWeakCriteriaGuidance =
     ''State when this option applies.''"
| "diagnostic_hint CodeWeakReasonGuidance =
     ''Ask for the specific rationale the reason must record.''"
| "diagnostic_hint CodeEvidenceGuidanceMissing =
     ''Add evidence_from references, or describe the evidence in evidence_guidance.''"
| "diagnostic_hint CodeOptionalEvidenceUnresolvable =
     ''Remove the reference, or add a path from the source to this node.''"
| "diagnostic_hint CodeGoalClarificationPathMissing =
     ''Add an early node that records or decides the session goal.''"
| "diagnostic_hint CodeGoalAssessmentTooEarly =
     ''Move the assessment closer to the terminal actions.''"
| "diagnostic_hint CodeManualReworkTargetsBroad =
     ''Narrow manual_rework.allowed_targets to the nodes rework should reach.''"
| "diagnostic_hint CodeOptionLabelsNotDistinct =
     ''Rewrite the labels so their normalized fingerprints are distinct.''"
| "diagnostic_hint CodeOptionCriteriaWeak =
     ''Give every option concrete criteria with a distinct normalized fingerprint.''"
| "diagnostic_hint CodeDuplicatedNodeDefinition =
     ''Reuse one definition from both placements instead of duplicating it.''"
| "diagnostic_hint CodeGraphNodeIdConfusing =
     ''Rename one identifier so the two read differently.''"
| "diagnostic_hint CodeReworkTopologyConfusing =
     ''Use distinct labels and concrete, distinct criteria for each rework option, and never route back to the deciding node.''"
| "diagnostic_hint CodeNoReactivationPath =
     ''Add manual_rework.allowed_targets so a completed session can be reopened.''"
| "diagnostic_hint CodeGoalRevisionTargetUnsafe =
     ''Choose a target whose every path to a terminal passes a goal assessment.''"
| "diagnostic_hint CodeMultipleGoalAssessmentSources =
     ''Reference one goal-assessment source so the read-back has one authority.''"

section \<open>The report (procedure_v2_diagnostics.rs)\<close>

datatype AuthoringStage = StageFormat | StageValidate | StageVet | StageLint

fun AuthoringStage_rank :: "AuthoringStage \<Rightarrow> nat" where
  "AuthoringStage_rank StageFormat = 0"
| "AuthoringStage_rank StageValidate = 1"
| "AuthoringStage_rank StageVet = 2"
| "AuthoringStage_rank StageLint = 3"

record FinalizedDiagnostics =
  fd_diagnostics :: "AuthoringDiagnostic list"
  fd_total :: u32
  fd_truncated :: bool

definition FinalizedDiagnostics_valid :: "FinalizedDiagnostics \<Rightarrow> bool" where
  "FinalizedDiagnostics_valid report \<longleftrightarrow> \<not> (\<exists>d\<in>set (fd_diagnostics report). dg_severity d = SeverityError)"

text \<open>The order of the tuples the code compares: numbers, then the bytes of the texts.\<close>

type_synonym diagnostic_key = "nat \<times> nat \<times> byte list \<times> byte list"

definition diagnostic_key :: "AuthoringDiagnostic \<Rightarrow> diagnostic_key" where
  "diagnostic_key d = (unat (loc_line (dg_location d)), unat (loc_column (dg_location d)),
     as_bytes (lit (AuthoringDiagnosticCode_as_str (dg_code d))), as_bytes (dg_field d))"

definition finalize_diagnostics :: "(AuthoringStage \<times> AuthoringDiagnostic) list \<Rightarrow> FinalizedDiagnostics" where
  "finalize_diagnostics entries =
     \<lparr>fd_diagnostics = map snd (take MAX_AUTHORING_DIAGNOSTICS
        (sort_key (\<lambda>(stage, d). (AuthoringStage_rank stage, diagnostic_key d)) entries)),
      fd_total = (if length entries < 2 ^ 32 then of_nat (length entries) else - 1),
      fd_truncated = (length entries > MAX_AUTHORING_DIAGNOSTICS)\<rparr>"

end
