(* ===== verification/Procedure_Budget.thy ===== *)
theory Procedure_Budget
  imports Procedure_Validate Limits
begin

text \<open>
  The conservative byte accounting of \<open>procedure_v2_budget.rs\<close>: what one placement can charge against
  the allocations of a \<open>session.next\<close> response. All arithmetic is on \<open>u64\<close> and saturates.
\<close>

section \<open>Constants\<close>

definition NEXT_STATIC_BUDGET :: u64 where
  "NEXT_STATIC_BUDGET = 256 * 1024"

definition DECISION_RECORD_BUDGET :: u64 where
  "DECISION_RECORD_BUDGET = 264 * 1024"

definition READBACK_BUDGET :: u64 where
  "READBACK_BUDGET = 216 * 1024"

definition EVIDENCE_PREVIEW_BUDGET :: u64 where
  "EVIDENCE_PREVIEW_BUDGET = 176 * 1024"

definition PAGE_TOKEN_BUDGET :: u64 where
  "PAGE_TOKEN_BUDGET = 64 * 1024"

definition NEXT_SERIALIZATION_RESERVE :: u64 where
  "NEXT_SERIALIZATION_RESERVE = 48 * 1024"

definition NEXT_FRAME_BUDGET :: u64 where
  "NEXT_FRAME_BUDGET = 1024 * 1024"

definition READBACK_RECORD_BUDGET :: u64 where
  "READBACK_RECORD_BUDGET = of_nat MAX_ITEMS_PER_DEFINITION_V2"

definition EVIDENCE_SCALAR_BYTES_V2 :: u64 where
  "EVIDENCE_SCALAR_BYTES_V2 = 6"

definition EVIDENCE_ENTRY_OVERHEAD_BYTES_V2 :: u64 where
  "EVIDENCE_ENTRY_OVERHEAD_BYTES_V2 = 8"

definition MAX_EVIDENCE_PREVIEW_SLOTS_V2 :: u64 where
  "MAX_EVIDENCE_PREVIEW_SLOTS_V2 = 32"

definition MAX_EVIDENCE_PREVIEW_SCALARS_V2 :: u64 where
  "MAX_EVIDENCE_PREVIEW_SCALARS_V2 = 938"

definition MAX_EVIDENCE_PREVIEW_BYTES_V2 :: u64 where
  "MAX_EVIDENCE_PREVIEW_BYTES_V2 = MAX_EVIDENCE_PREVIEW_SCALARS_V2 * EVIDENCE_SCALAR_BYTES_V2"

definition MAX_EVIDENCE_PAGE_TOKEN_CHARS_V2 :: u64 where
  "MAX_EVIDENCE_PAGE_TOKEN_CHARS_V2 = 256"

definition MAX_OBSERVATION_STATIC_MEMBERS_BYTES_V2 :: u64 where
  "MAX_OBSERVATION_STATIC_MEMBERS_BYTES_V2 = 768 * 1024"

definition MAX_OBSERVATION_STATUS_NON_COUNTER_BYTES_V2 :: u64 where
  "MAX_OBSERVATION_STATUS_NON_COUNTER_BYTES_V2 = 32 * 1024"

abbreviation FIELD_OVERHEAD :: u64 where "FIELD_OVERHEAD \<equiv> 64"
abbreviation ARRAY_ELEMENT_OVERHEAD :: u64 where "ARRAY_ELEMENT_OVERHEAD \<equiv> EVIDENCE_ENTRY_OVERHEAD_BYTES_V2"
abbreviation STRING_BYTE_FACTOR :: u64 where "STRING_BYTE_FACTOR \<equiv> EVIDENCE_SCALAR_BYTES_V2"
abbreviation MAX_IDENTIFIER_CHARS :: u64 where "MAX_IDENTIFIER_CHARS \<equiv> 64"
abbreviation MAX_DEFINITION_TITLE_CHARS :: u64 where "MAX_DEFINITION_TITLE_CHARS \<equiv> 120"
abbreviation MAX_UUID_CHARS :: u64 where "MAX_UUID_CHARS \<equiv> 36"
abbreviation MAX_DIGEST_CHARS :: u64 where "MAX_DIGEST_CHARS \<equiv> 71"
abbreviation MAX_TIMESTAMP_CHARS :: u64 where "MAX_TIMESTAMP_CHARS \<equiv> 24"
abbreviation MAX_RECORD_REASON_CHARS :: u64 where "MAX_RECORD_REASON_CHARS \<equiv> 2000"
abbreviation MAX_ACTOR_CHARS :: u64 where "MAX_ACTOR_CHARS \<equiv> 256"
abbreviation MAX_U64_BYTES :: u64 where "MAX_U64_BYTES \<equiv> 20"
abbreviation MAX_BOOL_BYTES :: u64 where "MAX_BOOL_BYTES \<equiv> 5"
abbreviation MAX_GOAL_CRITERIA :: u64 where "MAX_GOAL_CRITERIA \<equiv> 16"
abbreviation MAX_CRITERION_REASON_CHARS :: u64 where "MAX_CRITERION_REASON_CHARS \<equiv> 2000"
abbreviation MAX_CITATIONS_PER_CRITERION :: u64 where "MAX_CITATIONS_PER_CRITERION \<equiv> 4"
abbreviation MAX_RECORD_REFERENCES :: u64 where "MAX_RECORD_REFERENCES \<equiv> 8"
abbreviation MAX_PREDICATE_TEXT_CHARS :: u64 where "MAX_PREDICATE_TEXT_CHARS \<equiv> 120"
abbreviation MAX_CONDITION_STATE_CHARS :: u64 where "MAX_CONDITION_STATE_CHARS \<equiv> 11"
abbreviation MAX_CONDITION_COUNT_BYTES :: u64 where "MAX_CONDITION_COUNT_BYTES \<equiv> 5"
abbreviation DELEGATION_PROJECTION_CHARGE :: u64 where "DELEGATION_PROJECTION_CHARGE \<equiv> 8 * 1024"

definition ALL_ALLOWED_ACTIONS :: "string list" where
  "ALL_ALLOWED_ACTIONS =
     [''session.complete'', ''session.decide'', ''session.retry'', ''session.skip'', ''session.rework'',
      ''session.block'', ''session.unblock'', ''session.cancel'', ''session.reset'', ''goal.define'',
      ''goal.revise'', ''goal.assess_criterion'', ''item.check'', ''item.uncheck'', ''item.set'',
      ''item.add'', ''item.remove'', ''item.attach'', ''item.clear'']"

section \<open>Elementary charges\<close>

definition saturating_mul64 :: "u64 \<Rightarrow> u64 \<Rightarrow> u64" where
  "saturating_mul64 a b = (if unat a * unat b < 2 ^ 64 then a * b else - 1)"

definition u64_clamped :: "nat \<Rightarrow> u64" where
  "u64_clamped n = (if n < 2 ^ 64 then of_nat n else - 1)"

text \<open>Every charge is the true sum or product, cut off at the largest word.\<close>

lemma unat_saturating_mul64: "unat (saturating_mul64 a b) = min (unat a * unat b) (2 ^ 64 - 1)"
proof -
  have "unat (- 1 :: u64) = 2 ^ 64 - 1" by (simp add: unsigned_minus_1_eq_mask mask_eq_exp_minus_1)
  then show ?thesis by (auto simp: saturating_mul64_def unat_word_ariths)
qed

lemma unat_u64_clamped: "unat (u64_clamped n) = min n (2 ^ 64 - 1)"
proof -
  have "unat (- 1 :: u64) = 2 ^ 64 - 1" by (simp add: unsigned_minus_1_eq_mask mask_eq_exp_minus_1)
  then show ?thesis by (auto simp: u64_clamped_def unat_of_nat)
qed

lemmas unat_charges = unat_saturating_add64 unat_saturating_mul64 unat_u64_clamped

abbreviation add :: "u64 \<Rightarrow> u64 \<Rightarrow> u64" where
  "add \<equiv> saturating_add64"

definition field_charge :: u64 where
  "field_charge = FIELD_OVERHEAD"

definition fixed_field :: "u64 \<Rightarrow> u64" where
  "fixed_field encoded_bytes = add FIELD_OVERHEAD encoded_bytes"

definition array_field :: u64 where
  "array_field = FIELD_OVERHEAD"

definition string_bytes :: "u64 \<Rightarrow> u64" where
  "string_bytes characters = saturating_mul64 characters STRING_BYTE_FACTOR"

definition string_field :: "u64 \<Rightarrow> u64" where
  "string_field characters = add FIELD_OVERHEAD (string_bytes characters)"

definition array_string :: "u64 \<Rightarrow> u64" where
  "array_string characters = add ARRAY_ELEMENT_OVERHEAD (string_bytes characters)"

definition actual_chars :: "str \<Rightarrow> u64" where
  "actual_chars value = u64_clamped (length value)"

definition integer_bytes :: "i64 \<Rightarrow> u64" where
  "integer_bytes value = u64_clamped (length (int_text (sint value)))"

text \<open>A charge that grows by the charge of each element in turn.\<close>

definition add_each :: "('a \<Rightarrow> u64) \<Rightarrow> 'a list \<Rightarrow> u64 \<Rightarrow> u64" where
  "add_each f xs charge = fold (\<lambda>x charge. add charge (f x)) xs charge"

text \<open>A charge that grows by each summand in turn.\<close>

definition add_all :: "u64 list \<Rightarrow> u64 \<Rightarrow> u64" where
  "add_all ns charge = fold (\<lambda>n charge. add charge n) ns charge"

definition add_optional_text :: "str option \<Rightarrow> u64 \<Rightarrow> u64" where
  "add_optional_text text charge = (case text of None \<Rightarrow> charge | Some t \<Rightarrow> add charge (string_field (actual_chars t)))"

section \<open>Predicates and guards\<close>

fun scalar_field_charge :: "PredicateScalarV2 \<Rightarrow> u64" where
  "scalar_field_charge (PsBoolean b) = fixed_field (if b then 4 else 5)"
| "scalar_field_charge (PsInteger n) = fixed_field (integer_bytes n)"
| "scalar_field_charge (PsText t) = string_field (actual_chars t)"

fun authored_operator_charge :: "ItemPredicateOperatorV2 \<Rightarrow> u64" where
  "authored_operator_charge (OpEquals expected) = scalar_field_charge expected"
| "authored_operator_charge (OpNotEquals expected) = scalar_field_charge expected"
| "authored_operator_charge OpEmpty = fixed_field 4"
| "authored_operator_charge OpNonEmpty = fixed_field 4"
| "authored_operator_charge (OpAtLeast expected) = fixed_field (integer_bytes expected)"
| "authored_operator_charge (OpAtMost expected) = fixed_field (integer_bytes expected)"

fun predicate_expected_charge :: "ItemPredicateOperatorV2 \<Rightarrow> u64" where
  "predicate_expected_charge (OpEquals expected) = scalar_field_charge expected"
| "predicate_expected_charge (OpNotEquals expected) = scalar_field_charge expected"
| "predicate_expected_charge (OpAtLeast expected) = fixed_field (integer_bytes expected)"
| "predicate_expected_charge (OpAtMost expected) = fixed_field (integer_bytes expected)"
| "predicate_expected_charge OpEmpty = 0"
| "predicate_expected_charge OpNonEmpty = 0"

fun scalar_actual_charge :: "PredicateScalarV2 \<Rightarrow> u64" where
  "scalar_actual_charge (PsBoolean _) = fixed_field MAX_BOOL_BYTES"
| "scalar_actual_charge (PsInteger _) = fixed_field MAX_U64_BYTES"
| "scalar_actual_charge (PsText _) = string_field MAX_PREDICATE_TEXT_CHARS"

fun predicate_actual_charge :: "ItemPredicateOperatorV2 \<Rightarrow> u64" where
  "predicate_actual_charge (OpEquals expected) = scalar_actual_charge expected"
| "predicate_actual_charge (OpNotEquals expected) = scalar_actual_charge expected"
| "predicate_actual_charge (OpAtLeast _) = fixed_field MAX_U64_BYTES"
| "predicate_actual_charge (OpAtMost _) = fixed_field MAX_U64_BYTES"
| "predicate_actual_charge OpEmpty = fixed_field MAX_CONDITION_COUNT_BYTES"
| "predicate_actual_charge OpNonEmpty = fixed_field MAX_CONDITION_COUNT_BYTES"

fun ItemPredicateOperatorV2_as_str :: "ItemPredicateOperatorV2 \<Rightarrow> string" where
  "ItemPredicateOperatorV2_as_str (OpEquals _) = ''equals''"
| "ItemPredicateOperatorV2_as_str (OpNotEquals _) = ''not_equals''"
| "ItemPredicateOperatorV2_as_str OpEmpty = ''empty''"
| "ItemPredicateOperatorV2_as_str OpNonEmpty = ''non_empty''"
| "ItemPredicateOperatorV2_as_str (OpAtLeast _) = ''at_least''"
| "ItemPredicateOperatorV2_as_str (OpAtMost _) = ''at_most''"

definition outcome_field_charge :: "bool \<Rightarrow> u64 list" where
  "outcome_field_charge field_outcome = (if field_outcome then [string_field (actual_chars (lit ''outcome''))] else [])"

definition guard_predicate_charge :: "EvidencePredicateV2 \<Rightarrow> u64 list" where
  "guard_predicate_charge p =
     [ARRAY_ELEMENT_OVERHEAD, field_charge, string_field (actual_chars (GraphNodeId_as_str (ep_source_node p))),
      string_field (actual_chars (ItemId_as_str (ep_item p)))]
     @ outcome_field_charge (ep_field_outcome p) @ [authored_operator_charge (ep_operator p)]"

definition guard_authoring_charge :: "OptionGuardV2 \<Rightarrow> u64" where
  "guard_authoring_charge guard = fold (\<lambda>p. add_all (guard_predicate_charge p)) (guard_predicates guard) array_field"

definition predicate_status_charge :: "EvidencePredicateV2 \<Rightarrow> u64" where
  "predicate_status_charge p =
     add_all ([field_charge, string_field (actual_chars (lit ''evidence'')),
         string_field (actual_chars (GraphNodeId_as_str (ep_source_node p))),
         string_field (actual_chars (ItemId_as_str (ep_item p)))]
       @ outcome_field_charge (ep_field_outcome p)
       @ [string_field (actual_chars (lit (ItemPredicateOperatorV2_as_str (ep_operator p)))),
          predicate_expected_charge (ep_operator p), predicate_actual_charge (ep_operator p),
          string_field MAX_CONDITION_STATE_CHARS]) ARRAY_ELEMENT_OVERHEAD"

definition option_status_charge :: "DecisionOptionV2 \<Rightarrow> u64 \<Rightarrow> u64" where
  "option_status_charge opt charge =
     add_each predicate_status_charge (case do_guards opt of None \<Rightarrow> [] | Some guards \<Rightarrow> guard_predicates guards)
       (add_all [ARRAY_ELEMENT_OVERHEAD, string_field (actual_chars (OptionId_as_str (do_id opt))),
          string_field MAX_CONDITION_STATE_CHARS, array_field] charge)"

definition option_guard_statuses_charge :: "DecisionDefinitionV2 \<Rightarrow> u64" where
  "option_guard_statuses_charge d = fold option_status_charge (dd_options d) array_field"

section \<open>Suggestions\<close>

definition potentially_required :: "ItemSpecV2 \<Rightarrow> bool" where
  "potentially_required item \<longleftrightarrow>
     ic_required (ItemSpecV2_common item) \<or> ic_required_when (ItemSpecV2_common item) \<noteq> None"

definition suggestion :: "string \<Rightarrow> str list \<Rightarrow> str option \<Rightarrow> u64" where
  "suggestion command argv item_id =
     add_optional_text item_id
       (add_each (\<lambda>argument. array_string (actual_chars argument)) argv
          (add_all [string_field (actual_chars (lit command)), array_field, array_string (actual_chars (lit ''podway''))]
             ARRAY_ELEMENT_OVERHEAD))"

definition item_suggestion :: "ItemSpecV2 \<Rightarrow> u64" where
  "item_suggestion item =
     (let iid = ItemId_as_str (ItemSpecV2_id item);
          via = (\<lambda>command verb placeholder. suggestion command ([lit verb, iid] @ placeholder) (Some iid)) in
      case item of
        SpecCheckResult _ \<Rightarrow> suggestion ''item.record_many'' [lit ''record'', lit ''--stdin''] (Some iid)
      | SpecConfirm _ \<Rightarrow> via ''item.check'' ''check'' []
      | SpecText _ \<Rightarrow> via ''item.set'' ''set'' [lit ''<text>'']
      | SpecChoice _ \<Rightarrow> via ''item.set'' ''set'' [lit ''<choice>'']
      | SpecInteger _ \<Rightarrow> via ''item.set'' ''set'' [lit ''<integer>'']
      | SpecList _ \<Rightarrow> via ''item.add'' ''add'' [lit ''<value>'']
      | SpecArtifact _ \<Rightarrow> via ''item.attach'' ''attach'' [lit ''<path>''])"

definition suggestion_charge :: "GraphPlacementV2 \<Rightarrow> ParsedNodeDefinition \<Rightarrow> u64" where
  "suggestion_charge placement d =
     (let charge = add_each item_suggestion (filter potentially_required (definition_items d)) array_field;
          charge = add charge (suggestion ''session.retry'' [lit ''retry'', lit ''--reason'', lit ''<reason>''] None) in
      case (placement, d) of
        (PlaceAction action, ParsedAction _) \<Rightarrow>
          (let charge = add charge (suggestion ''session.complete'' [lit ''complete''] None) in
           if ap_skip action \<noteq> None
           then add charge (suggestion ''session.skip'' [lit ''skip'', lit ''--reason'', lit ''<text>''] None)
           else charge)
      | (PlaceDecision _, ParsedDecision decision) \<Rightarrow>
          add_each (\<lambda>opt. suggestion ''session.decide''
             [lit ''decide'', lit ''--option'', OptionId_as_str (do_id opt), lit ''--reason'', lit ''<reason>''] None)
             (dd_options decision) charge
      | _ \<Rightarrow> - 1)"

section \<open>Static content of a response\<close>

definition option_charge :: "DecisionOptionV2 \<Rightarrow> u64 \<Rightarrow> u64" where
  "option_charge opt charge =
     (let charge = add_optional_text (do_criteria opt)
            (add_all [ARRAY_ELEMENT_OVERHEAD, string_field (actual_chars (OptionId_as_str (do_id opt))),
               string_field (actual_chars (do_label opt))] charge) in
      case do_guards opt of None \<Rightarrow> charge | Some guards \<Rightarrow> add charge (guard_authoring_charge guards))"

definition strings_charge :: "str list \<Rightarrow> u64 \<Rightarrow> u64" where
  "strings_charge values charge = add_each (\<lambda>v. array_string (actual_chars v)) values (add charge array_field)"

fun definition_static_charge :: "ParsedNodeDefinition \<Rightarrow> u64 \<Rightarrow> u64" where
  "definition_static_charge (ParsedAction a) charge =
     strings_charge (ad_instructions a)
       (add_optional_text (ad_description a)
          (add_all [string_field (actual_chars (ad_title a)), string_field (actual_chars (ad_intent a))] charge))"
| "definition_static_charge (ParsedDecision d) charge =
     (let charge = add_optional_text (dd_description d) (add charge (string_field (actual_chars (dd_title d))));
          charge = add_all [string_field (actual_chars (dd_objective d)), string_field (actual_chars (dd_prompt d)),
                     field_charge, fixed_field 4] charge;
          charge = add_optional_text (rp_prompt (dd_reason d)) charge;
          charge = fold option_charge (dd_options d) (add charge array_field);
          charge = strings_charge (map (\<lambda>opt. OptionId_as_str (do_id opt)) (dd_options d)) charge;
          charge = (if \<exists>opt\<in>set (dd_options d). do_guards opt \<noteq> None
                    then add charge (option_guard_statuses_charge d) else charge)
      in if dd_evidence_guidance d \<noteq> [] then strings_charge (dd_evidence_guidance d) charge else charge)"

definition missing_item_charge :: "ItemSpecV2 \<Rightarrow> u64 \<Rightarrow> u64" where
  "missing_item_charge item charge =
     add_all [ARRAY_ELEMENT_OVERHEAD, string_field (actual_chars (ItemId_as_str (ItemSpecV2_id item))),
       string_field (actual_chars (ic_prompt (ItemSpecV2_common item)))] charge"

fun outcome_charge :: "GraphPlacementV2 \<Rightarrow> u64 \<Rightarrow> u64" where
  "outcome_charge (PlaceAction action) charge =
     (let charge = add charge (case next_target (ap_outcome action) of
            Some target \<Rightarrow> string_field (actual_chars (GraphNodeId_as_str target)) | None \<Rightarrow> fixed_field 4)
      in if ap_skip action \<noteq> None then add_all [field_charge, fixed_field 4, fixed_field MAX_BOOL_BYTES] charge else charge)"
| "outcome_charge (PlaceDecision _) charge = charge"

definition next_static_charge ::
    "ParsedProcedureV2 \<Rightarrow> GraphPlacementV2 \<Rightarrow> ParsedNodeDefinition \<Rightarrow> bool \<Rightarrow> u64" where
  "next_static_charge procedure placement d delegated_snapshot =
     (let charge = definition_static_charge d (fixed_field MAX_BOOL_BYTES);
          charge = fold missing_item_charge (filter potentially_required (definition_items d))
                     (add_all [fixed_field 3, array_field] charge);
          charge = outcome_charge placement charge;
          charge = strings_charge (case pg_manual_rework (pp_graph procedure) of None \<Rightarrow> []
                     | Some rework \<Rightarrow> map GraphNodeId_as_str (rework_targets rework)) charge;
          charge = strings_charge (map lit ALL_ALLOWED_ACTIONS) charge;
          charge = add charge (suggestion_charge placement d)
      in if delegated_snapshot then add charge DELEGATION_PROJECTION_CHARGE else charge)"

section \<open>Evidence\<close>

record EvidenceChargesV2 =
  ec_decision_records :: u64
  ec_metadata :: u64
  ec_metadata_records :: u64
  ec_preview :: u64
  ec_page_tokens :: u64

definition reference_metadata_charge :: u64 where
  "reference_metadata_charge =
     add_all [string_field MAX_IDENTIFIER_CHARS, string_field MAX_DEFINITION_TITLE_CHARS, string_field MAX_UUID_CHARS,
       fixed_field MAX_U64_BYTES, string_field MAX_DIGEST_CHARS, string_field (actual_chars (lit ''resolved''))]
       ARRAY_ELEMENT_OVERHEAD"

definition page_token_charge :: u64 where
  "page_token_charge = string_field MAX_EVIDENCE_PAGE_TOKEN_CHARS_V2"

definition readback_item_charge :: "ItemSpecV2 \<Rightarrow> u64" where
  "readback_item_charge item =
     add_all [string_field MAX_IDENTIFIER_CHARS, string_field (actual_chars (lit (item_type_text item))),
       fixed_field MAX_U64_BYTES, string_field MAX_DIGEST_CHARS, fixed_field MAX_U64_BYTES,
       string_field (actual_chars (lit ''scalars'')), fixed_field MAX_BOOL_BYTES] ARRAY_ELEMENT_OVERHEAD"

definition reference_snapshot_charge :: u64 where
  "reference_snapshot_charge =
     add_all [string_field MAX_IDENTIFIER_CHARS, string_field MAX_UUID_CHARS, fixed_field MAX_U64_BYTES,
       string_field MAX_DIGEST_CHARS, string_field (actual_chars (lit ''resolved''))] ARRAY_ELEMENT_OVERHEAD"

definition criterion_result_charge :: u64 where
  "criterion_result_charge =
     add_all [string_field MAX_IDENTIFIER_CHARS, string_field (actual_chars (lit ''unsatisfied'')),
       string_field MAX_CRITERION_REASON_CHARS, array_field,
       saturating_mul64 MAX_CITATIONS_PER_CRITERION (add ARRAY_ELEMENT_OVERHEAD (string_field MAX_IDENTIFIER_CHARS))]
       ARRAY_ELEMENT_OVERHEAD"

definition goal_assessment_record_charge :: u64 where
  "goal_assessment_record_charge =
     add_all [string_field (actual_chars (lit ''assessment'')), string_field (actual_chars (lit ''not_achieved'')),
       array_field, saturating_mul64 MAX_GOAL_CRITERIA criterion_result_charge]
       (string_field (actual_chars (lit ''session_goal'')))"

definition decision_record_charge :: "bool \<Rightarrow> u64" where
  "decision_record_charge is_goal_assessment =
     (let charge = add_all [fixed_field MAX_U64_BYTES, string_field MAX_UUID_CHARS, fixed_field MAX_U64_BYTES,
            string_field (actual_chars (lit ''podway.procedure/v2'')), string_field MAX_UUID_CHARS,
            string_field MAX_DIGEST_CHARS, string_field MAX_IDENTIFIER_CHARS, string_field MAX_IDENTIFIER_CHARS,
            string_field MAX_UUID_CHARS, fixed_field MAX_U64_BYTES, fixed_field MAX_U64_BYTES,
            string_field MAX_IDENTIFIER_CHARS, string_field (actual_chars (lit ''advance'')),
            string_field MAX_IDENTIFIER_CHARS, string_field MAX_RECORD_REASON_CHARS, string_field MAX_ACTOR_CHARS,
            string_field MAX_TIMESTAMP_CHARS, array_field,
            saturating_mul64 MAX_RECORD_REFERENCES reference_snapshot_charge] field_charge
      in if is_goal_assessment then add charge goal_assessment_record_charge else charge)"

text \<open>The accumulators of the loop over the references, and what one reference adds.\<close>

record evidence_tally =
  et_metadata :: u64
  et_metadata_records :: u64
  et_decision_records :: u64
  et_previewable :: u64

definition selected_specs :: "ItemSpecV2 list \<Rightarrow> ItemId list option \<Rightarrow> ItemSpecV2 list option" where
  "selected_specs items selected =
     (case selected of
        None \<Rightarrow> Some items
      | Some ids \<Rightarrow> (if \<forall>iid\<in>set ids. find (\<lambda>item. ItemSpecV2_id item = iid) items \<noteq> None
                     then Some (map (\<lambda>iid. the (find (\<lambda>item. ItemSpecV2_id item = iid) items)) ids) else None))"

definition tally_reference :: "ParsedProcedureV2 \<Rightarrow> EvidenceReferenceV2 \<Rightarrow> evidence_tally \<Rightarrow> evidence_tally option" where
  "tally_reference procedure reference tally =
     Option.bind (find (\<lambda>p. GraphPlacementV2_id p = er_source_node reference) (pg_placements (pp_graph procedure))) (\<lambda>source.
     Option.bind (find (\<lambda>d. ParsedNodeDefinition_id d = placement_definition source) (pp_node_definitions procedure)) (\<lambda>d.
     Option.bind (selected_specs (definition_items d) (er_selected_items reference)) (\<lambda>selected.
       Some
         \<lparr>et_metadata = add_each readback_item_charge selected
            (add_all [reference_metadata_charge, reference_metadata_charge, array_field] (et_metadata tally)),
          et_metadata_records = add (et_metadata_records tally) (u64_clamped (length selected)),
          et_decision_records = (case d of ParsedAction _ \<Rightarrow> et_decision_records tally
            | ParsedDecision dd \<Rightarrow> add (et_decision_records tally) (decision_record_charge (dd_assessment dd \<noteq> None))),
          et_previewable = (case er_selected_items reference of None \<Rightarrow> et_previewable tally
            | Some _ \<Rightarrow> saturating_add64 (et_previewable tally) (u64_clamped (length selected)))\<rparr>)))"

fun tally_references :: "ParsedProcedureV2 \<Rightarrow> evidence_tally \<Rightarrow> EvidenceReferenceV2 list \<Rightarrow> evidence_tally option" where
  "tally_references procedure tally [] = Some tally"
| "tally_references procedure tally (r # rs) =
     Option.bind (tally_reference procedure r tally) (\<lambda>tally'. tally_references procedure tally' rs)"

definition evidence_charges :: "ParsedProcedureV2 \<Rightarrow> GraphPlacementV2 \<Rightarrow> EvidenceChargesV2" where
  "evidence_charges procedure placement =
     (let metadata = add array_field array_field in
      case placement_evidence_from placement of
        None \<Rightarrow> \<lparr>ec_decision_records = 0, ec_metadata = metadata, ec_metadata_records = 0, ec_preview = 0, ec_page_tokens = 0\<rparr>
      | Some evidence \<Rightarrow>
          (case tally_references procedure
              \<lparr>et_metadata = metadata, et_metadata_records = 0, et_decision_records = 0, et_previewable = 0\<rparr>
              (evidence_entries evidence) of
             None \<Rightarrow> \<lparr>ec_decision_records = - 1, ec_metadata = - 1, ec_metadata_records = - 1, ec_preview = - 1, ec_page_tokens = - 1\<rparr>
           | Some tally \<Rightarrow>
               (let slots = min (et_previewable tally) MAX_EVIDENCE_PREVIEW_SLOTS_V2 in
                \<lparr>ec_decision_records = et_decision_records tally, ec_metadata = et_metadata tally,
                 ec_metadata_records = et_metadata_records tally,
                 ec_preview = saturating_mul64 slots MAX_EVIDENCE_PREVIEW_BYTES_V2,
                 ec_page_tokens = saturating_mul64 slots page_token_charge\<rparr>)))"

section \<open>The budget of a placement\<close>

record ProcedurePlacementBudgetV2 =
  pb_next_static :: u64
  pb_decision_records :: u64
  pb_readback :: u64
  pb_readback_records :: u64
  pb_evidence_preview :: u64
  pb_page_tokens :: u64
  pb_counters :: u64
  pb_delegated_snapshot :: bool

definition charged_total :: "ProcedurePlacementBudgetV2 \<Rightarrow> u64" where
  "charged_total b =
     add_all [pb_decision_records b, pb_readback b, pb_evidence_preview b, pb_page_tokens b, pb_counters b] (pb_next_static b)"

definition observation_static_members :: "ProcedurePlacementBudgetV2 \<Rightarrow> u64" where
  "observation_static_members b =
     add_all [pb_decision_records b, pb_readback b, pb_counters b, pb_counters b,
       MAX_OBSERVATION_STATUS_NON_COUNTER_BYTES_V2,
       if pb_delegated_snapshot b then DELEGATION_PROJECTION_CHARGE else 0] (pb_next_static b)"

definition exceeds_budget :: "u64 \<Rightarrow> u64 \<Rightarrow> bool" where
  "exceeds_budget charged budget \<longleftrightarrow> charged > budget"

definition graph_counters_charge :: "ParsedProcedureV2 \<Rightarrow> u64" where
  "graph_counters_charge procedure =
     maximum_graph_counter_array_json_bytes_v2
       (map (\<lambda>p. of_nat (byte_len (GraphNodeId_as_str (GraphPlacementV2_id p)))) (pg_placements (pp_graph procedure)))"

definition delegates :: "ParsedProcedureV2 \<Rightarrow> bool" where
  "delegates procedure \<longleftrightarrow> (\<exists>p\<in>set (pg_placements (pp_graph procedure)).
     case p of PlaceAction action \<Rightarrow> ap_delegation action \<noteq> None | PlaceDecision _ \<Rightarrow> False)"

definition placement_budget :: "ParsedProcedureV2 \<Rightarrow> GraphPlacementV2 \<Rightarrow> ProcedurePlacementBudgetV2" where
  "placement_budget procedure placement =
     (case find (\<lambda>d. ParsedNodeDefinition_id d = placement_definition placement) (pp_node_definitions procedure) of
        None \<Rightarrow> \<lparr>pb_next_static = - 1, pb_decision_records = - 1, pb_readback = - 1, pb_readback_records = - 1,
                 pb_evidence_preview = - 1, pb_page_tokens = - 1, pb_counters = - 1, pb_delegated_snapshot = False\<rparr>
      | Some d \<Rightarrow>
          (let evidence = evidence_charges procedure placement; delegated_snapshot = delegates procedure in
           \<lparr>pb_next_static = next_static_charge procedure placement d delegated_snapshot,
            pb_decision_records = ec_decision_records evidence, pb_readback = ec_metadata evidence,
            pb_readback_records = ec_metadata_records evidence, pb_evidence_preview = ec_preview evidence,
            pb_page_tokens = ec_page_tokens evidence, pb_counters = graph_counters_charge procedure,
            pb_delegated_snapshot = delegated_snapshot\<rparr>))"

definition procedure_placement_budget_v2 :: "ValidatedProcedureV2 \<Rightarrow> GraphNodeId \<Rightarrow> ProcedurePlacementBudgetV2 option" where
  "procedure_placement_budget_v2 procedure graph_node_id =
     map_option (placement_budget (vp_parsed procedure))
       (find (\<lambda>p. GraphPlacementV2_id p = graph_node_id) (pg_placements (pp_graph (vp_parsed procedure))))"

end
