(* ===== verification/Procedure_Vet.thy ===== *)
theory Procedure_Vet
  imports Authoring_Diagnostics Procedure_Budget
begin

text \<open>
  The mandatory graph-wide analysis of \<open>procedure_v2_vet.rs\<close>: one definition per rule, the findings in
  the order the code pushes them and then sorted. A rule is a list of findings; the loops over the
  nodes are maps over their indices. \<open>None\<close> stands for a graph search that does not end, which does
  not happen (theory \<open>Vet_Props\<close>).
\<close>

section \<open>Paths (procedure_v2_authoring.rs)\<close>

definition definition_path :: "str \<Rightarrow> FieldPath" where
  "definition_path did = child_key (child_key FieldPath_root (lit ''node_definitions'')) did"

definition node_path :: "nat \<Rightarrow> FieldPath" where
  "node_path index = child_index (child_key (child_key FieldPath_root (lit ''graph'')) (lit ''nodes'')) index"

definition placement_definition_id :: "GraphPlacementV2 \<Rightarrow> str" where
  "placement_definition_id placement = NodeDefinitionId_as_str (placement_definition placement)"

abbreviation placement_id :: "GraphPlacementV2 \<Rightarrow> str" where
  "placement_id placement \<equiv> GraphNodeId_as_str (GraphPlacementV2_id placement)"

section \<open>The state of the analysis\<close>

record Vet =
  vet_parsed :: ParsedProcedureV2
  vet_context :: AuthoringContext
  vet_document :: AuthoringValue
  vet_graph :: GraphIndex
  vet_definitions :: definition_index
  vet_reachable :: NodeSet
  vet_reaches_terminal :: NodeSet
  vet_dominators :: "NodeSet list"

definition Vet_new :: "ParsedProcedureV2 \<Rightarrow> AuthoringContext \<Rightarrow> Vet option" where
  "Vet_new parsed context =
     (let graph = GraphIndex_new (pp_graph parsed) in
      Option.bind (reachable_from graph (gi_entry graph)) (\<lambda>reachable.
      Option.bind (terminal_reachable_nodes graph) (\<lambda>reaches_terminal.
      Option.bind (dominators graph) (\<lambda>doms.
        Some \<lparr>vet_parsed = parsed, vet_context = context, vet_document = authoring_document_value parsed,
              vet_graph = graph, vet_definitions = definition_index parsed, vet_reachable = reachable,
              vet_reaches_terminal = reaches_terminal, vet_dominators = doms\<rparr>))))"

definition vet_diagnostic :: "Vet \<Rightarrow> AuthoringDiagnosticCode \<Rightarrow> FieldPath \<Rightarrow> str \<Rightarrow> AuthoringDiagnostic" where
  "vet_diagnostic v code path message =
     AuthoringDiagnostic_new code (ctx_source_path (vet_context v)) (context_locate (vet_context v) path)
       (field_string path (Some (vet_document v))) message (lit (diagnostic_hint code))"

text \<open>A finding about one placement carries its node and its definition.\<close>

definition node_finding ::
    "Vet \<Rightarrow> GraphPlacementV2 \<Rightarrow> AuthoringDiagnosticCode \<Rightarrow> FieldPath \<Rightarrow> str \<Rightarrow> AuthoringDiagnostic" where
  "node_finding v placement code path message =
     with_node_definition_id (placement_definition_id placement)
       (with_graph_node_id (placement_id placement) (vet_diagnostic v code path message))"

text \<open>The loop \<open>for node in 0..node_count\<close>, skipping an index that has no placement.\<close>

definition for_nodes :: "Vet \<Rightarrow> (nat \<Rightarrow> GraphPlacementV2 \<Rightarrow> 'a list) \<Rightarrow> 'a list" where
  "for_nodes v f =
     concat (map (\<lambda>node. case index_placement (vet_graph v) node of None \<Rightarrow> [] | Some p \<Rightarrow> f node p)
       [0..<GraphIndex_node_count (vet_graph v)])"

definition placements_using :: "Vet \<Rightarrow> str \<Rightarrow> str list" where
  "placements_using v did =
     map placement_id (filter (\<lambda>p. placement_definition_id p = did) (pg_placements (pp_graph (vet_parsed v))))"

definition is_assessment_placement :: "Vet \<Rightarrow> nat \<Rightarrow> bool" where
  "is_assessment_placement v node =
     (case index_placement (vet_graph v) node of
        Some (PlaceDecision placement) \<Rightarrow>
          (case vet_definitions v (dp_definition placement) of
             Some (ParsedDecision d) \<Rightarrow> dd_assessment d \<noteq> None
           | _ \<Rightarrow> False)
      | _ \<Rightarrow> False)"

definition source_is_skippable :: "Vet \<Rightarrow> nat \<Rightarrow> bool" where
  "source_is_skippable v node =
     (case index_placement (vet_graph v) node of
        Some (PlaceAction action) \<Rightarrow> is_some_and (ap_skip action) skip_allowed
      | _ \<Rightarrow> False)"

section \<open>The rules\<close>

definition reachability :: "Vet \<Rightarrow> AuthoringDiagnostic list" where
  "reachability v = for_nodes v (\<lambda>node placement.
     if NodeSet_contains (vet_reachable v) node then []
     else [node_finding v placement CodeUnreachableGraphNode (node_path node)
             (lit ''Graph node `'' @ placement_id placement @ lit ''` is unreachable from the entry node.'')])"

definition terminal_paths :: "Vet \<Rightarrow> AuthoringDiagnostic list" where
  "terminal_paths v = for_nodes v (\<lambda>node placement.
     if \<not> NodeSet_contains (vet_reachable v) node \<or> NodeSet_contains (vet_reaches_terminal v) node then []
     else [node_finding v placement CodeNoTerminalPath (node_path node)
             (lit ''Reachable graph node `'' @ placement_id placement
                @ lit ''` has no finite path to a terminal action.'')])"

definition definition_finding ::
    "Vet \<Rightarrow> str \<Rightarrow> AuthoringDiagnosticCode \<Rightarrow> FieldPath \<Rightarrow> str \<Rightarrow> AuthoringDiagnostic" where
  "definition_finding v did code path message =
     with_related_graph_node_ids (placements_using v did)
       (with_node_definition_id did (vet_diagnostic v code path message))"

definition unmapped_options :: "Vet \<Rightarrow> DecisionDefinitionV2 \<Rightarrow> AssessmentContractV2 \<Rightarrow> AuthoringDiagnostic list" where
  "unmapped_options v d a =
     (let did = NodeDefinitionId_as_str (dd_id d) in
      map (\<lambda>(i, opt). definition_finding v did CodeGoalAssessmentOptionUnmapped
             (child_index (child_key (definition_path did) (lit ''options'')) i)
             (lit ''Goal-assessment option `'' @ OptionId_as_str (do_id opt) @ lit ''` in definition `'' @ did
                @ lit ''` has no outcome mapping.''))
        (filter (\<lambda>(i, opt). do_id opt \<notin> set (map om_option_id (ac_outcomes a))) (enumerate 0 (dd_options d))))"

text \<open>The outcomes no mapping sets, in the order of the array the code keeps.\<close>

definition unreachable_outcomes :: "AssessmentContractV2 \<Rightarrow> GoalOutcome list" where
  "unreachable_outcomes a =
     filter (\<lambda>out. out \<notin> set (map om_outcome (ac_outcomes a))) [GoalAchieved, GoalNotAchieved, GoalSuperseded]"

definition missing_outcomes :: "Vet \<Rightarrow> DecisionDefinitionV2 \<Rightarrow> AssessmentContractV2 \<Rightarrow> AuthoringDiagnostic list" where
  "missing_outcomes v d a =
     (let did = NodeDefinitionId_as_str (dd_id d) in
      map (\<lambda>missing. definition_finding v did CodeGoalAssessmentOutcomeUnreachable
             (child_key (child_key (definition_path did) (lit ''assessment'')) (lit ''outcomes''))
             (lit ''Goal-assessment definition `'' @ did @ lit ''` cannot record outcome `''
                @ GoalOutcome_as_str missing @ lit ''`.''))
        (unreachable_outcomes a))"

definition assessment_coverage :: "Vet \<Rightarrow> AuthoringDiagnostic list" where
  "assessment_coverage v =
     concat (map (\<lambda>d. case d of
         ParsedAction _ \<Rightarrow> []
       | ParsedDecision decision \<Rightarrow>
           (case dd_assessment decision of None \<Rightarrow> []
            | Some a \<Rightarrow> unmapped_options v decision a @ missing_outcomes v decision a))
       (pp_node_definitions (vet_parsed v)))"

definition assessment_nodes :: "Vet \<Rightarrow> nat list" where
  "assessment_nodes v = filter (is_assessment_placement v) [0..<GraphIndex_node_count (vet_graph v)]"

definition goal_assessment_dominance :: "Vet \<Rightarrow> AuthoringDiagnostic list" where
  "goal_assessment_dominance v =
     (if \<not> goal_tracking_enabled (vet_parsed v) then [] else
      let assessment_ids = map placement_id (List.map_filter (index_placement (vet_graph v)) (assessment_nodes v)) in
      for_nodes v (\<lambda>terminal placement.
        if \<not> NodeSet_contains (vet_reachable v) terminal \<or> \<not> is_terminal (vet_graph v) terminal
           \<or> (\<exists>assessment\<in>set (assessment_nodes v). strictly_dominates (vet_dominators v) assessment terminal)
        then []
        else [with_related_graph_node_ids assessment_ids
                (node_finding v placement CodeGoalAssessmentNotDominatingTerminal (node_path terminal)
                  (lit ''Terminal graph node `'' @ placement_id placement
                     @ lit ''` is reachable without completing a session-goal assessment.''))]))"

definition evidence_reference_findings ::
    "Vet \<Rightarrow> nat \<Rightarrow> GraphPlacementV2 \<Rightarrow> nat \<Rightarrow> EvidenceReferenceV2 \<Rightarrow> AuthoringDiagnostic list" where
  "evidence_reference_findings v consumer placement offset reference =
     (if \<not> er_required reference then [] else
      case index_of (vet_graph v) (er_source_node reference) of
        None \<Rightarrow> []
      | Some source \<Rightarrow>
          (let path = child_index (child_key (node_path consumer) (lit ''evidence_from'')) offset;
               source_id = GraphNodeId_as_str (er_source_node reference);
               finding = (\<lambda>code message. with_related_graph_node_ids [source_id] (node_finding v placement code path message)) in
           (if \<not> strictly_dominates (vet_dominators v) source consumer
            then [finding CodeEvidenceSourceDoesNotDominateConsumer
                    (lit ''Required evidence source `'' @ source_id @ lit ''` does not strictly dominate consumer `''
                       @ placement_id placement @ lit ''`.'')]
            else [])
           @ (if source_is_skippable v source
              then [finding CodeSkippableEvidenceSource
                      (lit ''Required evidence source `'' @ source_id @ lit ''` may be skipped before consumer `''
                         @ placement_id placement @ lit ''` activates.'')]
              else [])))"

definition evidence_rules :: "Vet \<Rightarrow> AuthoringDiagnostic list" where
  "evidence_rules v = for_nodes v (\<lambda>consumer placement.
     case placement_evidence_from placement of
       None \<Rightarrow> []
     | Some references \<Rightarrow>
         if \<not> NodeSet_contains (vet_reachable v) consumer then []
         else concat (map (\<lambda>(offset, reference). evidence_reference_findings v consumer placement offset reference)
                (enumerate 0 (evidence_entries references))))"

definition cycle_findings :: "Vet \<Rightarrow> nat list list \<Rightarrow> AuthoringDiagnostic list" where
  "cycle_findings v cycles =
     concat (map (\<lambda>component. case component of
         [] \<Rightarrow> []
       | first # _ \<Rightarrow>
           (case index_placement (vet_graph v) first of
              None \<Rightarrow> []
            | Some placement \<Rightarrow>
                [with_related_graph_node_ids (map placement_id (List.map_filter (index_placement (vet_graph v)) component))
                   (node_finding v placement CodeGraphCycleInvalid (node_path first)
                      (lit ''The cycle containing graph node `'' @ placement_id placement
                         @ lit ''` has an advance-only traversal.''))])) cycles)"

definition advance_only_cycle_rule :: "Vet \<Rightarrow> AuthoringDiagnostic list option" where
  "advance_only_cycle_rule v = map_option (cycle_findings v) (advance_only_cycles (vet_graph v))"

fun rework_route_findings :: "Vet \<Rightarrow> nat \<Rightarrow> DecisionPlacementV2 \<Rightarrow> DecisionRouteEntryV2 \<Rightarrow> AuthoringDiagnostic list" where
  "rework_route_findings v node decision entry =
     (if route_effect (entry_route entry) \<noteq> EffectRework then [] else
      case index_of (vet_graph v) (route_to (entry_route entry)) of
        None \<Rightarrow> []
      | Some target \<Rightarrow>
          if dominates (vet_dominators v) target node then []
          else [with_related_graph_node_ids [GraphNodeId_as_str (route_to (entry_route entry))]
                  (node_finding v (PlaceDecision decision) CodeReworkTargetNotDominating
                     (child_key (child_key (child_key (node_path node) (lit ''routes''))
                        (OptionId_as_str (entry_option_id entry))) (lit ''to''))
                     (lit ''Rework target `'' @ GraphNodeId_as_str (route_to (entry_route entry))
                        @ lit ''` does not dominate decision `'' @ GraphNodeId_as_str (dp_id decision) @ lit ''`.''))])"

definition rework_dominance :: "Vet \<Rightarrow> AuthoringDiagnostic list" where
  "rework_dominance v = for_nodes v (\<lambda>node placement. case placement of
       PlaceAction _ \<Rightarrow> []
     | PlaceDecision decision \<Rightarrow>
         if \<not> NodeSet_contains (vet_reachable v) node then []
         else concat (map (rework_route_findings v node decision) (route_entries (dp_routes decision))))"

section \<open>The wire budgets\<close>

definition evidence_allocations ::
    "ProcedurePlacementBudgetV2 \<Rightarrow> (u64 \<times> u64 \<times> AuthoringDiagnosticCode \<times> string) list" where
  "evidence_allocations budget =
     [(pb_decision_records budget, DECISION_RECORD_BUDGET, CodeDecisionRecordBudgetExceeded, ''complete decision records''),
      (pb_readback budget, READBACK_BUDGET, CodeReadbackBudgetExceeded, ''evidence reference and item metadata''),
      (pb_evidence_preview budget, EVIDENCE_PREVIEW_BUDGET, CodeEvidencePreviewBudgetExceeded, ''evidence previews''),
      (pb_page_tokens budget, PAGE_TOKEN_BUDGET, CodePageTokenBudgetExceeded, ''continuation tokens'')]"

abbreviation word_text :: "u64 \<Rightarrow> str" where
  "word_text n \<equiv> nat_text (unat n)"

definition admissible_total :: u64 where
  "admissible_total =
     (if NEXT_FRAME_BUDGET < NEXT_SERIALIZATION_RESERVE then 0 else NEXT_FRAME_BUDGET - NEXT_SERIALIZATION_RESERVE)"

definition budget_findings :: "Vet \<Rightarrow> nat \<Rightarrow> GraphPlacementV2 \<Rightarrow> AuthoringDiagnostic list" where
  "budget_findings v node placement =
     (let budget = placement_budget (vet_parsed v) placement;
          subject = lit ''Graph node `'' @ placement_id placement @ lit ''` '';
          related = with_related_graph_node_ids
            (map (\<lambda>r. GraphNodeId_as_str (er_source_node r)) (evidence_list (placement_evidence_from placement)));
          evidence_path = child_key (node_path node) (lit ''evidence_from'') in
      (if exceeds_budget (pb_next_static budget) NEXT_STATIC_BUDGET
       then [node_finding v placement CodeNextStaticBudgetExceeded (node_path node)
               (subject @ lit ''charges '' @ word_text (pb_next_static budget)
                  @ lit '' bytes of procedure-static next content, over the '' @ word_text NEXT_STATIC_BUDGET
                  @ lit ''-byte allocation.'')] else [])
      @ map (\<lambda>(charged, allocation, code, what). related (node_finding v placement code evidence_path
               (subject @ lit ''charges '' @ word_text charged @ lit '' bytes of worst-case '' @ lit what
                  @ lit '', over the '' @ word_text allocation @ lit ''-byte allocation.'')))
          (filter (\<lambda>(charged, allocation, _, _). exceeds_budget charged allocation) (evidence_allocations budget))
      @ (if pb_readback_records budget > READBACK_RECORD_BUDGET
         then [related (node_finding v placement CodeReadbackBudgetExceeded evidence_path
                 (subject @ lit ''selects '' @ word_text (pb_readback_records budget)
                    @ lit '' evidence item metadata records, over the '' @ word_text READBACK_RECORD_BUDGET
                    @ lit '' one response may carry.''))] else [])
      @ (if exceeds_budget (charged_total budget) admissible_total
         then [related (node_finding v placement CodeNextFrameBudgetExceeded (node_path node)
                 (subject @ lit ''charges '' @ word_text (charged_total budget)
                    @ lit '' bytes across every next allocation, over the '' @ word_text admissible_total
                    @ lit '' bytes that remain once the '' @ word_text NEXT_SERIALIZATION_RESERVE
                    @ lit ''-byte serialization reserve is held back.''))] else [])
      @ (if exceeds_budget (observation_static_members budget) MAX_OBSERVATION_STATIC_MEMBERS_BYTES_V2
         then [related (node_finding v placement CodeObservationStaticMembersBudgetExceeded (node_path node)
                 (subject @ lit ''charges '' @ word_text (observation_static_members budget)
                    @ lit '' bytes of worst-case complete observation status and guidance, over their shared ''
                    @ word_text MAX_OBSERVATION_STATIC_MEMBERS_BYTES_V2 @ lit ''-byte allocation.''))] else []))"

definition resource_budgets :: "Vet \<Rightarrow> AuthoringDiagnostic list" where
  "resource_budgets v = for_nodes v (budget_findings v)"

section \<open>The analysis\<close>

definition Vet_run :: "Vet \<Rightarrow> AuthoringDiagnostic list option" where
  "Vet_run v =
     map_option (\<lambda>cycles.
         sort_key diagnostic_key
           (reachability v @ terminal_paths v @ assessment_coverage v @ goal_assessment_dominance v
            @ evidence_rules v @ resource_budgets v @ cycles @ rework_dominance v))
       (advance_only_cycle_rule v)"

definition vet_procedure_v2 :: "ValidatedProcedureV2 \<Rightarrow> AuthoringContext \<Rightarrow> AuthoringDiagnostic list option" where
  "vet_procedure_v2 validated context = Option.bind (Vet_new (vp_parsed validated) context) Vet_run"

end
