(* ===== verification/Vet_Props.thy ===== *)
theory Vet_Props
  imports Procedure_Vet Graph_Props
begin

text \<open>
  What a silent vet means: the graph analyses behind the rules are exact (theory \<open>Graph_Props\<close>), so a
  procedure draws no finding exactly when it has the structural properties the rules stand for and
  every placement fits its allocations.
\<close>

section \<open>Sound procedures\<close>

definition always_before :: "ProcedureGraphV2 \<Rightarrow> GraphNodeId \<Rightarrow> GraphNodeId \<Rightarrow> bool" where
  "always_before G a b \<longleftrightarrow> (\<forall>q. walk (transitions True G) (pg_entry G) q b \<longrightarrow> a \<in> set q)"

definition assesses_goal :: "ParsedProcedureV2 \<Rightarrow> GraphPlacementV2 \<Rightarrow> bool" where
  "assesses_goal P p \<longleftrightarrow> (\<exists>d dd. p = PlaceDecision d \<and> definition_index P (dp_definition d) = Some (ParsedDecision dd) \<and>
     dd_assessment dd \<noteq> None)"

definition skippable :: "GraphPlacementV2 \<Rightarrow> bool" where
  "skippable p \<longleftrightarrow> (\<exists>a. p = PlaceAction a \<and> is_some_and (ap_skip a) skip_allowed)"

definition within_budget :: "ParsedProcedureV2 \<Rightarrow> GraphPlacementV2 \<Rightarrow> bool" where
  "within_budget P p \<longleftrightarrow> (let b = placement_budget P p in
     pb_next_static b \<le> NEXT_STATIC_BUDGET \<and> pb_decision_records b \<le> DECISION_RECORD_BUDGET \<and>
     pb_readback b \<le> READBACK_BUDGET \<and> pb_evidence_preview b \<le> EVIDENCE_PREVIEW_BUDGET \<and>
     pb_page_tokens b \<le> PAGE_TOKEN_BUDGET \<and> pb_readback_records b \<le> READBACK_RECORD_BUDGET \<and>
     charged_total b \<le> admissible_total \<and>
     observation_static_members b \<le> MAX_OBSERVATION_STATIC_MEMBERS_BYTES_V2)"

definition covered_assessment :: "ParsedNodeDefinition \<Rightarrow> bool" where
  "covered_assessment d \<longleftrightarrow> (\<forall>dd a. d = ParsedDecision dd \<longrightarrow> dd_assessment dd = Some a \<longrightarrow>
     do_id ` set (dd_options dd) \<subseteq> om_option_id ` set (ac_outcomes a) \<and> UNIV \<subseteq> om_outcome ` set (ac_outcomes a))"

definition evidence_sound :: "ProcedureGraphV2 \<Rightarrow> bool" where
  "evidence_sound G \<longleftrightarrow> (\<forall>p\<in>set (pg_placements G). \<forall>s\<in>set (pg_placements G).
     \<forall>r\<in>set (evidence_list (placement_evidence_from p)). er_required r \<longrightarrow> er_source_node r = GraphPlacementV2_id s \<longrightarrow>
       s \<noteq> p \<and> always_before G (GraphPlacementV2_id s) (GraphPlacementV2_id p) \<and> \<not> skippable s)"

definition rework_sound :: "ProcedureGraphV2 \<Rightarrow> bool" where
  "rework_sound G \<longleftrightarrow> (\<forall>d s. PlaceDecision d \<in> set (pg_placements G) \<longrightarrow> s \<in> set (pg_placements G) \<longrightarrow>
     (\<forall>e\<in>set (route_entries (dp_routes d)). route_effect (entry_route e) = EffectRework \<longrightarrow>
        route_to (entry_route e) = GraphPlacementV2_id s \<longrightarrow> always_before G (GraphPlacementV2_id s) (dp_id d)))"

definition goal_sound :: "ParsedProcedureV2 \<Rightarrow> bool" where
  "goal_sound P \<longleftrightarrow> (goal_tracking_enabled P \<longrightarrow> (\<forall>t\<in>set (pg_placements (pp_graph P)). terminal_action t \<longrightarrow>
     (\<exists>s\<in>set (pg_placements (pp_graph P)). assesses_goal P s \<and> s \<noteq> t \<and>
        always_before (pp_graph P) (GraphPlacementV2_id s) (GraphPlacementV2_id t))))"

text \<open>
  Every placement is reachable from the entry and reaches a terminal action; every option of a goal
  assessment has an outcome and every outcome an option; under goal tracking an assessment comes before
  every terminal action; required evidence is always recorded before it is consumed and cannot be
  skipped; no cycle avoids rework; rework goes back; and every placement fits its allocations.
\<close>

definition sound_procedure :: "ParsedProcedureV2 \<Rightarrow> bool" where
  "sound_procedure P \<longleftrightarrow> (let G = pp_graph P; ps = pg_placements G in
     (\<forall>p\<in>set ps. (pg_entry G, GraphPlacementV2_id p) \<in> (transitions True G)\<^sup>*) \<and>
     (\<forall>p\<in>set ps. \<exists>t\<in>set ps. terminal_action t \<and> (GraphPlacementV2_id p, GraphPlacementV2_id t) \<in> (transitions True G)\<^sup>*) \<and>
     (\<forall>d\<in>set (pp_node_definitions P). covered_assessment d) \<and> goal_sound P \<and> evidence_sound G \<and>
     (\<forall>p\<in>set ps. within_budget P p) \<and> acyclic (transitions False G) \<and> rework_sound G)"

section \<open>The state of the analysis\<close>

definition vet_facts :: "ParsedProcedureV2 \<Rightarrow> Vet \<Rightarrow> bool" where
  "vet_facts P v \<longleftrightarrow> (let G = pp_graph P; n = length (pg_placements G) in
     vet_parsed v = P \<and> vet_graph v = GraphIndex_new G \<and> vet_definitions v = definition_index P \<and>
     (\<forall>i<n. NodeSet_contains (vet_reachable v) i \<longleftrightarrow> (pg_entry G, node_name G i) \<in> (transitions True G)\<^sup>*) \<and>
     (\<forall>i<n. NodeSet_contains (vet_reaches_terminal v) i \<longleftrightarrow> (\<exists>p\<in>set (pg_placements G). terminal_action p \<and>
        (node_name G i, GraphPlacementV2_id p) \<in> (transitions True G)\<^sup>*)) \<and>
     (\<forall>i<n. \<forall>j<n. dominates (vet_dominators v) i j \<longleftrightarrow>
        (pg_entry G, node_name G j) \<in> (transitions True G)\<^sup>* \<and> always_before G (node_name G i) (node_name G j)))"

lemma vet_state:
  assumes "ProcedureGraphV2_new entry ps mr = Inr (pp_graph P)"
  obtains v where "Vet_new P ctx = Some v" "vet_facts P v"
proof -
  let ?g = "GraphIndex_new (pp_graph P)"
  have G: "pg_placements (pp_graph P) = ps" "pg_entry (pp_graph P) = entry" using assms by (simp_all add: procedure_graph_ok)
  obtain doms where d: "dominators ?g = Some doms"
    "\<forall>i<length ps. \<forall>j<length ps. dominates doms i j \<longleftrightarrow> (entry, node_name (pp_graph P) j) \<in> (transitions True (pp_graph P))\<^sup>* \<and>
       always_before (pp_graph P) (node_name (pp_graph P) i) (node_name (pp_graph P) j)"
    using dominators_named[OF assms] by (auto simp: always_before_def G)
  obtain r t where "reachable_from ?g (gi_entry ?g) = Some r" "terminal_reachable_nodes ?g = Some t"
    "\<forall>i<length ps. (NodeSet_contains r i \<longleftrightarrow> (entry, node_name (pp_graph P) i) \<in> (transitions True (pp_graph P))\<^sup>*) \<and>
       (NodeSet_contains t i \<longleftrightarrow> (\<exists>p\<in>set ps. terminal_action p \<and>
          (node_name (pp_graph P) i, GraphPlacementV2_id p) \<in> (transitions True (pp_graph P))\<^sup>*))"
    using reachability_named[OF assms] by blast
  with d show thesis
    by (intro that[of "\<lparr>vet_parsed = P, vet_context = ctx, vet_document = authoring_document_value P, vet_graph = ?g,
        vet_definitions = definition_index P, vet_reachable = r, vet_reaches_terminal = t, vet_dominators = doms\<rparr>"])
      (simp_all add: Vet_new_def vet_facts_def Let_def G)
qed

lemma for_nodes_silent:
  assumes "ProcedureGraphV2_new entry ps mr = Inr (pp_graph P)" "vet_facts P v"
  shows "for_nodes v f = [] \<longleftrightarrow> (\<forall>i<length ps. f i (ps ! i) = [])"
proof -
  have "vet_graph v = GraphIndex_new (pp_graph P)" using assms(2) by (simp add: vet_facts_def Let_def)
  then show ?thesis
    by (auto simp: for_nodes_def constructed_graph(1)[OF assms(1)] index_placement_named[OF assms(1)])
qed

section \<open>When each rule is silent\<close>

lemma placement_positions:
  assumes "ProcedureGraphV2_new entry ps mr = Inr (pp_graph P)"
  shows "pg_placements (pp_graph P) = ps" "pg_entry (pp_graph P) = entry"
    "node_name (pp_graph P) i = GraphPlacementV2_id (ps ! i)" "distinct ps"
    "i < length ps \<Longrightarrow> j < length ps \<Longrightarrow> ps ! i = ps ! j \<longleftrightarrow> i = j"
proof -
  from assms show G: "pg_placements (pp_graph P) = ps" "pg_entry (pp_graph P) = entry" by (simp_all add: procedure_graph_ok)
  show "node_name (pp_graph P) i = GraphPlacementV2_id (ps ! i)" by (simp add: node_name_def G)
  from assms have "distinct (map GraphPlacementV2_id ps)" by (simp add: procedure_graph_ok)
  then show d: "distinct ps" by (simp add: distinct_map)
  show "i < length ps \<Longrightarrow> j < length ps \<Longrightarrow> ps ! i = ps ! j \<longleftrightarrow> i = j" using d by (simp add: nth_eq_iff_index_eq)
qed

lemma vet_factsD:
  assumes "ProcedureGraphV2_new entry ps mr = Inr (pp_graph P)" "vet_facts P v"
  shows "vet_parsed v = P" "vet_graph v = GraphIndex_new (pp_graph P)" "vet_definitions v = definition_index P"
    "i < length ps \<Longrightarrow> NodeSet_contains (vet_reachable v) i \<longleftrightarrow> (entry, GraphPlacementV2_id (ps ! i)) \<in> (transitions True (pp_graph P))\<^sup>*"
    "i < length ps \<Longrightarrow> NodeSet_contains (vet_reaches_terminal v) i \<longleftrightarrow> (\<exists>p\<in>set ps. terminal_action p \<and>
        (GraphPlacementV2_id (ps ! i), GraphPlacementV2_id p) \<in> (transitions True (pp_graph P))\<^sup>*)"
    "i < length ps \<Longrightarrow> j < length ps \<Longrightarrow> dominates (vet_dominators v) i j \<longleftrightarrow>
        (entry, GraphPlacementV2_id (ps ! j)) \<in> (transitions True (pp_graph P))\<^sup>* \<and>
        always_before (pp_graph P) (GraphPlacementV2_id (ps ! i)) (GraphPlacementV2_id (ps ! j))"
  using assms(2) by (simp_all add: vet_facts_def Let_def placement_positions[OF assms(1)])

lemma index_of_position:
  assumes "ProcedureGraphV2_new entry ps mr = Inr (pp_graph P)" "vet_facts P v"
  shows "index_of (vet_graph v) b = Some i \<longleftrightarrow> i < length ps \<and> GraphPlacementV2_id (ps ! i) = b"
  using index_of_name[OF assms(1)]
  by (simp add: index_of_def vet_factsD[OF assms] built_index_fields placement_positions[OF assms(1)])

text \<open>A condition on all indices is a condition on all placements.\<close>

lemma all_positions: "(\<forall>i<length ps. Q (ps ! i)) \<longleftrightarrow> (\<forall>p\<in>set ps. Q p)"
  by (rule all_set_conv_all_nth[symmetric])

lemma ex_positions: "(\<exists>i<length ps. Q (ps ! i)) \<longleftrightarrow> (\<exists>p\<in>set ps. Q p)"
  by (metis in_set_conv_nth)

lemma concat_enumerate:
  "concat (map (\<lambda>(k, x). f k x) (enumerate 0 xs)) = [] \<longleftrightarrow> (\<forall>k<length xs. f k (xs ! k) = [])"
  by (simp add: all_set_conv_all_nth nth_enumerate_eq)

lemma single_Nil: "(if c then [x] else []) = [] \<longleftrightarrow> \<not> c"
  by simp

lemma named_placement:
  assumes "ProcedureGraphV2_new entry ps mr = Inr (pp_graph P)" "vet_facts P v"
  shows "(\<forall>s\<in>set ps. b = GraphPlacementV2_id s \<longrightarrow> Q s) \<longleftrightarrow>
    (case index_of (vet_graph v) b of None \<Rightarrow> True | Some j \<Rightarrow> Q (ps ! j))"
proof (cases "index_of (vet_graph v) b")
  case None
  then have "\<forall>j<length ps. b \<noteq> GraphPlacementV2_id (ps ! j)"
    using index_of_position[OF assms, of b] by (metis option.distinct(1))
  then have "\<forall>s\<in>set ps. b \<noteq> GraphPlacementV2_id s" by (simp add: all_positions[of ps, symmetric])
  with None show ?thesis by simp
next
  case (Some j)
  then have j: "j < length ps" "b = GraphPlacementV2_id (ps ! j)" using index_of_position[OF assms] by auto
  have "s = ps ! j" if "s \<in> set ps" "b = GraphPlacementV2_id s" for s
    using that assms(1) j by (auto simp: procedure_graph_ok distinct_map inj_on_def)
  with Some j show ?thesis by auto
qed

abbreviation reachable_in :: "ParsedProcedureV2 \<Rightarrow> GraphPlacementV2 \<Rightarrow> bool" where
  "reachable_in P p \<equiv> (pg_entry (pp_graph P), GraphPlacementV2_id p) \<in> (transitions True (pp_graph P))\<^sup>*"

lemma reachability_silent:
  assumes "ProcedureGraphV2_new entry ps mr = Inr (pp_graph P)" "vet_facts P v"
  shows "reachability v = [] \<longleftrightarrow> (\<forall>p\<in>set ps. reachable_in P p)"
  unfolding all_positions[of ps, symmetric]
  by (auto simp: reachability_def for_nodes_silent[OF assms] vet_factsD[OF assms] placement_positions[OF assms(1)])

lemma terminal_paths_silent:
  assumes "ProcedureGraphV2_new entry ps mr = Inr (pp_graph P)" "vet_facts P v"
  shows "terminal_paths v = [] \<longleftrightarrow> (\<forall>p\<in>set ps. reachable_in P p \<longrightarrow>
    (\<exists>t\<in>set ps. terminal_action t \<and> (GraphPlacementV2_id p, GraphPlacementV2_id t) \<in> (transitions True (pp_graph P))\<^sup>*))"
  unfolding all_positions[of ps, symmetric]
  by (auto simp: terminal_paths_def for_nodes_silent[OF assms] vet_factsD[OF assms] placement_positions[OF assms(1)])

lemma assessment_coverage_silent:
  assumes "vet_facts P v"
  shows "assessment_coverage v = [] \<longleftrightarrow> (\<forall>d\<in>set (pp_node_definitions P). covered_assessment d)"
proof -
  have "unmapped_options v d a = [] \<longleftrightarrow> do_id ` set (dd_options d) \<subseteq> om_option_id ` set (ac_outcomes a)" for d a
  proof -
    have "unmapped_options v d a = [] \<longleftrightarrow> (\<forall>k<length (dd_options d). do_id (dd_options d ! k) \<in> om_option_id ` set (ac_outcomes a))"
      unfolding unmapped_options_def Let_def map_is_Nil_conv filter_empty_conv
      by (simp add: all_set_conv_all_nth[of "enumerate 0 _"] nth_enumerate_eq)
    then show ?thesis using all_positions[of "dd_options d" "\<lambda>opt. do_id opt \<in> om_option_id ` set (ac_outcomes a)"] by auto
  qed
  moreover have "missing_outcomes v d a = [] \<longleftrightarrow> UNIV \<subseteq> om_outcome ` set (ac_outcomes a)" for d a
  proof -
    have U: "(UNIV :: GoalOutcome set) = {GoalAchieved, GoalNotAchieved, GoalSuperseded}" using GoalOutcome.exhaust by auto
    show ?thesis unfolding missing_outcomes_def unreachable_outcomes_def Let_def U by auto
  qed
  ultimately have "(case d of ParsedAction _ \<Rightarrow> [] | ParsedDecision decision \<Rightarrow>
      (case dd_assessment decision of None \<Rightarrow> [] | Some a \<Rightarrow> unmapped_options v decision a @ missing_outcomes v decision a)) = []
      \<longleftrightarrow> covered_assessment d" for d
    by (cases d) (simp_all add: covered_assessment_def split: option.splits)
  moreover have "vet_parsed v = P" using assms by (simp add: vet_facts_def Let_def)
  ultimately show ?thesis by (simp add: assessment_coverage_def)
qed

lemma assessment_nodes_named:
  assumes "ProcedureGraphV2_new entry ps mr = Inr (pp_graph P)" "vet_facts P v"
  shows "set (assessment_nodes v) = {i. i < length ps \<and> assesses_goal P (ps ! i)}"
proof -
  have "is_assessment_placement v i \<longleftrightarrow> assesses_goal P (ps ! i)" if "i < length ps" for i
    using that by (cases "ps ! i")
      (auto simp: is_assessment_placement_def vet_factsD[OF assms] index_placement_named[OF assms(1)] assesses_goal_def
        split: option.splits ParsedNodeDefinition.splits)
  then show ?thesis by (auto simp: assessment_nodes_def vet_factsD[OF assms] constructed_graph(1)[OF assms(1)])
qed

lemma goal_dominance_silent:
  assumes "ProcedureGraphV2_new entry ps mr = Inr (pp_graph P)" "vet_facts P v" and "\<forall>p\<in>set ps. reachable_in P p"
  shows "goal_assessment_dominance v = [] \<longleftrightarrow> goal_sound P"
proof -
  note F = vet_factsD[OF assms(1,2)] and PP = placement_positions[OF assms(1)]
  have r: "(entry, GraphPlacementV2_id (ps ! i)) \<in> (transitions True (pp_graph P))\<^sup>*" if "i < length ps" for i
    using assms(3) that by (simp add: PP)
  have "(\<exists>a\<in>set (assessment_nodes v). strictly_dominates (vet_dominators v) a t) \<longleftrightarrow>
      (\<exists>s\<in>set ps. assesses_goal P s \<and> s \<noteq> ps ! t \<and> always_before (pp_graph P) (GraphPlacementV2_id s) (GraphPlacementV2_id (ps ! t)))"
    if t: "t < length ps" for t
    unfolding ex_positions[of ps, symmetric] using t r by (auto simp: assessment_nodes_named[OF assms(1,2)] strictly_dominates_def F PP(5))
  then show ?thesis
    unfolding goal_sound_def PP(1) all_positions[of ps, symmetric]
    by (auto simp: goal_assessment_dominance_def Let_def for_nodes_silent[OF assms(1,2)] F is_terminal_named[OF assms(1)] r)
qed

lemma evidence_reference_silent:
  assumes "ProcedureGraphV2_new entry ps mr = Inr (pp_graph P)" "vet_facts P v" and "\<forall>p\<in>set ps. reachable_in P p"
    and "i < length ps"
  shows "evidence_reference_findings v i p k r = [] \<longleftrightarrow> (\<forall>s\<in>set ps. er_required r \<longrightarrow> er_source_node r = GraphPlacementV2_id s \<longrightarrow>
    s \<noteq> ps ! i \<and> always_before (pp_graph P) (GraphPlacementV2_id s) (GraphPlacementV2_id (ps ! i)) \<and> \<not> skippable s)"
proof -
  note F = vet_factsD[OF assms(1,2)] and PP = placement_positions[OF assms(1)]
  have reach: "(entry, GraphPlacementV2_id (ps ! i)) \<in> (transitions True (pp_graph P))\<^sup>*"
    using assms(3,4) by (simp add: PP)
  have skip: "source_is_skippable v j \<longleftrightarrow> skippable (ps ! j)" if "j < length ps" for j
    using that by (auto simp: source_is_skippable_def F index_placement_named[OF assms(1)] skippable_def split: GraphPlacementV2.splits)
  have dom: "strictly_dominates (vet_dominators v) j i \<longleftrightarrow>
      ps ! j \<noteq> ps ! i \<and> always_before (pp_graph P) (GraphPlacementV2_id (ps ! j)) (GraphPlacementV2_id (ps ! i))" if "j < length ps" for j
    using that assms(4) reach by (simp add: strictly_dominates_def F PP(5))
  let ?Q = "\<lambda>s. s \<noteq> ps ! i \<and> always_before (pp_graph P) (GraphPlacementV2_id s) (GraphPlacementV2_id (ps ! i)) \<and> \<not> skippable s"
  have "evidence_reference_findings v i p k r = [] \<longleftrightarrow> (er_required r \<longrightarrow>
      (case index_of (vet_graph v) (er_source_node r) of None \<Rightarrow> True | Some j \<Rightarrow> ?Q (ps ! j)))"
  proof (cases "index_of (vet_graph v) (er_source_node r)")
    case (Some j)
    then have "j < length ps" using index_of_position[OF assms(1,2)] by blast
    then show ?thesis by (simp add: evidence_reference_findings_def Let_def Some dom skip)
  qed (simp add: evidence_reference_findings_def)
  then show ?thesis using named_placement[OF assms(1,2), of "er_source_node r" ?Q] by blast
qed

lemma evidence_rules_silent:
  assumes "ProcedureGraphV2_new entry ps mr = Inr (pp_graph P)" "vet_facts P v" and "\<forall>p\<in>set ps. reachable_in P p"
  shows "evidence_rules v = [] \<longleftrightarrow> evidence_sound (pp_graph P)"
proof -
  note F = vet_factsD[OF assms(1,2)] and PP = placement_positions[OF assms(1)]
  let ?Q = "\<lambda>p r. \<forall>s\<in>set ps. er_required r \<longrightarrow> er_source_node r = GraphPlacementV2_id s \<longrightarrow>
    s \<noteq> p \<and> always_before (pp_graph P) (GraphPlacementV2_id s) (GraphPlacementV2_id p) \<and> \<not> skippable s"
  have "(case placement_evidence_from (ps ! i) of None \<Rightarrow> []
      | Some references \<Rightarrow> if \<not> NodeSet_contains (vet_reachable v) i then []
          else concat (map (\<lambda>(offset, reference). evidence_reference_findings v i (ps ! i) offset reference)
                 (enumerate 0 (evidence_entries references)))) = []
      \<longleftrightarrow> (\<forall>r\<in>set (evidence_list (placement_evidence_from (ps ! i))). ?Q (ps ! i) r)" (is "?L = [] \<longleftrightarrow> _")
    if i: "i < length ps" for i
  proof -
    have "NodeSet_contains (vet_reachable v) i" using assms(3) i by (simp add: F PP)
    then show ?thesis
    proof (cases "placement_evidence_from (ps ! i)")
      case (Some a)
      with all_positions[of "evidence_entries a" "?Q (ps ! i)"] \<open>NodeSet_contains (vet_reachable v) i\<close> show ?thesis
        by (simp add: evidence_list_def concat_enumerate evidence_reference_silent[OF assms i] del: concat_eq_Nil_conv)
    qed (simp add: evidence_list_def)
  qed
  then have "evidence_rules v = [] \<longleftrightarrow> (\<forall>i<length ps. \<forall>r\<in>set (evidence_list (placement_evidence_from (ps ! i))). ?Q (ps ! i) r)"
    by (simp add: evidence_rules_def for_nodes_silent[OF assms(1,2)])
  also have "\<dots> \<longleftrightarrow> (\<forall>p\<in>set ps. \<forall>r\<in>set (evidence_list (placement_evidence_from p)). ?Q p r)" by (rule all_positions)
  finally show ?thesis unfolding evidence_sound_def PP(1) by blast
qed

lemma rework_dominance_silent:
  assumes "ProcedureGraphV2_new entry ps mr = Inr (pp_graph P)" "vet_facts P v" and "\<forall>p\<in>set ps. reachable_in P p"
  shows "rework_dominance v = [] \<longleftrightarrow> rework_sound (pp_graph P)"
proof -
  note F = vet_factsD[OF assms(1,2)] and PP = placement_positions[OF assms(1)]
  have entry: "rework_route_findings v i d e = [] \<longleftrightarrow> (\<forall>s\<in>set ps. route_effect (entry_route e) = EffectRework \<longrightarrow>
        route_to (entry_route e) = GraphPlacementV2_id s \<longrightarrow> always_before (pp_graph P) (GraphPlacementV2_id s) (GraphPlacementV2_id (ps ! i)))"
    if i: "i < length ps" for i d e
  proof -
    have "(entry, GraphPlacementV2_id (ps ! i)) \<in> (transitions True (pp_graph P))\<^sup>*" using assms(3) i by (simp add: PP)
    then have dom: "dominates (vet_dominators v) j i \<longleftrightarrow> always_before (pp_graph P) (GraphPlacementV2_id (ps ! j)) (GraphPlacementV2_id (ps ! i))"
      if "j < length ps" for j using that i by (simp add: F)
    let ?Q = "\<lambda>s. always_before (pp_graph P) (GraphPlacementV2_id s) (GraphPlacementV2_id (ps ! i))"
    have "rework_route_findings v i d e = [] \<longleftrightarrow> (route_effect (entry_route e) = EffectRework \<longrightarrow>
        (case index_of (vet_graph v) (route_to (entry_route e)) of None \<Rightarrow> True | Some j \<Rightarrow> ?Q (ps ! j)))"
      using index_of_position[OF assms(1,2), of "route_to (entry_route e)"] dom by (auto split: option.splits)
    then show ?thesis using named_placement[OF assms(1,2), of "route_to (entry_route e)" ?Q] by blast
  qed
  let ?Q = "\<lambda>p. \<forall>d. p = PlaceDecision d \<longrightarrow> (\<forall>e\<in>set (route_entries (dp_routes d)). \<forall>s\<in>set ps. route_effect (entry_route e) = EffectRework \<longrightarrow>
        route_to (entry_route e) = GraphPlacementV2_id s \<longrightarrow> always_before (pp_graph P) (GraphPlacementV2_id s) (dp_id d))"
  have "(case ps ! i of PlaceAction _ \<Rightarrow> [] | PlaceDecision decision \<Rightarrow>
         if \<not> NodeSet_contains (vet_reachable v) i then []
         else concat (map (rework_route_findings v i decision) (route_entries (dp_routes decision)))) = [] \<longleftrightarrow> ?Q (ps ! i)"
    if i: "i < length ps" for i
  proof -
    have "NodeSet_contains (vet_reachable v) i" using assms(3) i by (simp add: F PP)
    then show ?thesis by (cases "ps ! i") (simp_all add: entry[OF i] del: rework_route_findings.simps)
  qed
  then have "rework_dominance v = [] \<longleftrightarrow> (\<forall>i<length ps. ?Q (ps ! i))"
    by (simp add: rework_dominance_def for_nodes_silent[OF assms(1,2)])
  also have "\<dots> \<longleftrightarrow> (\<forall>p\<in>set ps. ?Q p)" by (rule all_positions)
  finally show ?thesis unfolding rework_sound_def PP(1) by blast
qed

lemma resource_budgets_silent:
  assumes "ProcedureGraphV2_new entry ps mr = Inr (pp_graph P)" "vet_facts P v"
  shows "resource_budgets v = [] \<longleftrightarrow> (\<forall>p\<in>set ps. within_budget P p)"
proof -
  have "budget_findings v i p = [] \<longleftrightarrow> within_budget P p" for i p
    unfolding budget_findings_def within_budget_def Let_def append_is_Nil_conv map_is_Nil_conv single_Nil
      filter_empty_conv evidence_allocations_def vet_factsD[OF assms] exceeds_budget_def
    by (simp add: not_less)
  then show ?thesis unfolding all_positions[of ps, symmetric] by (simp add: resource_budgets_def for_nodes_silent[OF assms])
qed

lemma cycle_findings_silent:
  assumes "ProcedureGraphV2_new entry ps mr = Inr (pp_graph P)" "vet_facts P v"
  obtains findings where "advance_only_cycle_rule v = Some findings"
    "findings = [] \<longleftrightarrow> acyclic (transitions False (pp_graph P))"
proof -
  note F = vet_factsD[OF assms]
  from advance_cycles_nonempty[OF assms(1)] obtain cs where cs: "advance_only_cycles (GraphIndex_new (pp_graph P)) = Some cs"
    "cs = [] \<longleftrightarrow> acyclic (transitions False (pp_graph P))" "\<forall>c\<in>set cs. c \<noteq> [] \<and> set c \<subseteq> {..<length ps}" by blast
  have "cycle_findings v cs = [] \<longleftrightarrow> cs = []"
  proof (cases cs)
    case (Cons c rest)
    with cs(3) obtain first others where "c = first # others" "first < length ps" by (cases c) auto
    then show ?thesis by (simp add: cycle_findings_def Cons F index_placement_named[OF assms(1)])
  qed (simp add: cycle_findings_def)
  with cs show thesis by (intro that[of "cycle_findings v cs"]) (simp_all add: advance_only_cycle_rule_def F)
qed

section \<open>A silent vet\<close>

lemma vet_silence:
  assumes "ProcedureGraphV2_new entry ps mr = Inr (pp_graph (vp_parsed V))"
  shows "\<exists>findings. vet_procedure_v2 V ctx = Some findings \<and> (findings = [] \<longleftrightarrow> sound_procedure (vp_parsed V))"
proof -
  let ?P = "vp_parsed V"
  obtain v where v: "Vet_new ?P ctx = Some v" "vet_facts ?P v" using assms by (rule vet_state)
  obtain cycles where c: "advance_only_cycle_rule v = Some cycles" "cycles = [] \<longleftrightarrow> acyclic (transitions False (pp_graph ?P))"
    using assms v(2) by (rule cycle_findings_silent)
  let ?all = "reachability v @ terminal_paths v @ assessment_coverage v @ goal_assessment_dominance v
    @ evidence_rules v @ resource_budgets v @ cycles @ rework_dominance v"
  have "vet_procedure_v2 V ctx = Some (sort_key diagnostic_key ?all)"
    by (simp add: vet_procedure_v2_def v Vet_run_def c)
  moreover have "sort_key diagnostic_key ?all = [] \<longleftrightarrow> ?all = []" by (metis set_empty set_sort)
  moreover have "?all = [] \<longleftrightarrow> sound_procedure ?P"
  proof (cases "\<forall>p\<in>set ps. reachable_in ?P p")
    case True
    then show ?thesis
      unfolding sound_procedure_def Let_def placement_positions(1)[OF assms] append_is_Nil_conv
        reachability_silent[OF assms v(2)] terminal_paths_silent[OF assms v(2)] assessment_coverage_silent[OF v(2)]
        goal_dominance_silent[OF assms v(2) True] evidence_rules_silent[OF assms v(2) True]
        resource_budgets_silent[OF assms v(2)] rework_dominance_silent[OF assms v(2) True] c(2)
      by blast
  next
    case False
    then show ?thesis
      unfolding sound_procedure_def Let_def placement_positions(1)[OF assms] append_is_Nil_conv
        reachability_silent[OF assms v(2)] by blast
  qed
  ultimately show ?thesis by auto
qed

text \<open>
  C9: vetting returns for every procedure whose graph was constructed, and it reports nothing exactly
  when the procedure is sound: every placement is reachable and reaches a terminal action, assessments
  cover their options and outcomes, under goal tracking every terminal action is always preceded by an
  assessment, required evidence is always recorded before its consumer by a placement that cannot be
  skipped, no cycle avoids rework, rework routes go back to a placement that is always passed before,
  and every placement fits its byte allocations.
\<close>

theorem vet_silent_exact:
  assumes "ProcedureGraphV2_new entry ps mr = Inr (pp_graph (vp_parsed V))"
  shows "\<exists>findings. vet_procedure_v2 V ctx = Some findings \<and> (findings = [] \<longleftrightarrow> sound_procedure (vp_parsed V))"
  by (rule vet_silence[OF assms])

text \<open>A procedure of two actions, the second of which consumes what the first records.\<close>

definition sample_action :: "string \<Rightarrow> ActionDefinitionV2" where
  "sample_action did = \<lparr>ad_id = NodeDefinitionId (lit did), ad_title = lit ''T'', ad_intent = lit ''I'',
     ad_description = None, ad_instructions = [], ad_items = []\<rparr>"

definition sample_first :: GraphPlacementV2 where
  "sample_first = PlaceAction (ActionPlacementV2_new (GraphNodeId (lit ''a'')) (NodeDefinitionId (lit ''d'')) None None
     (OutcomeNext (GraphNodeId (lit ''b''))))"

definition sample_second :: GraphPlacementV2 where
  "sample_second = PlaceAction (ActionPlacementV2_new (GraphNodeId (lit ''b'')) (NodeDefinitionId (lit ''d''))
     (Some (EvidenceFromListV2 [\<lparr>er_source_node = GraphNodeId (lit ''a''), er_required = True, er_selected_items = None\<rparr>]))
     None OutcomeTerminal)"

definition sample_vetted :: ParsedProcedureV2 where
  "sample_vetted = \<lparr>pp_id = lit ''p'', pp_version = lit ''1'', pp_name = lit ''N'', pp_purpose = lit ''P'',
     pp_description = None, pp_goal_tracking = None, pp_node_definitions = [ParsedAction (sample_action ''d'')],
     pp_graph = \<lparr>pg_entry = GraphNodeId (lit ''a''), pg_placements = [sample_first, sample_second], pg_manual_rework = None\<rparr>\<rparr>"

definition sample_validated :: ValidatedProcedureV2 where
  "sample_validated = \<lparr>vp_parsed = sample_vetted, vp_canonical_json = CanonicalJsonV1 [], vp_digest = Sha256Digest []\<rparr>"

definition sample_context :: AuthoringContext where
  "sample_context = \<lparr>ctx_source_path = lit ''-'', ctx_index = \<lparr>si_entries = [], si_by_path = Map.empty, si_line_lengths = []\<rparr>\<rparr>"

lemmas charge_defs = placement_budget_def next_static_charge_def suggestion_charge_def evidence_charges_def tally_reference_def
  selected_specs_def add_each_def add_all_def add_optional_text_def strings_charge_def ALL_ALLOWED_ACTIONS_def suggestion_def
  actual_chars_def string_field_def string_bytes_def fixed_field_def array_field_def array_string_def field_charge_def
  reference_metadata_charge_def graph_counters_charge_def maximum_graph_counter_array_json_bytes_v2_def charged_total_def
  observation_static_members_def admissible_total_def delegates_def page_token_charge_def
  byte_len_def lit_def potentially_required_def

lemmas budget_defs = NEXT_STATIC_BUDGET_def DECISION_RECORD_BUDGET_def READBACK_BUDGET_def EVIDENCE_PREVIEW_BUDGET_def
  PAGE_TOKEN_BUDGET_def NEXT_SERIALIZATION_RESERVE_def NEXT_FRAME_BUDGET_def READBACK_RECORD_BUDGET_def
  EVIDENCE_SCALAR_BYTES_V2_def EVIDENCE_ENTRY_OVERHEAD_BYTES_V2_def MAX_EVIDENCE_PREVIEW_SLOTS_V2_def
  MAX_EVIDENCE_PREVIEW_SCALARS_V2_def MAX_EVIDENCE_PREVIEW_BYTES_V2_def MAX_EVIDENCE_PAGE_TOKEN_CHARS_V2_def
  MAX_OBSERVATION_STATIC_MEMBERS_BYTES_V2_def MAX_OBSERVATION_STATUS_NON_COUNTER_BYTES_V2_def
  MAX_GRAPH_COUNTER_FIXED_JSON_BYTES_V2_def MAX_ITEMS_PER_DEFINITION_V2_def

text \<open>
  What the allocation for decision records admits: one record of a goal assessment and never two, but the
  records of all eight references of a placement when none of them assesses a goal.
\<close>

lemma decision_record_allocation:
  "unat (decision_record_charge True) = 262186" "unat (decision_record_charge False) = 29118"
  "unat (decision_record_charge True) \<le> unat DECISION_RECORD_BUDGET"
  "unat DECISION_RECORD_BUDGET < 2 * unat (decision_record_charge True)"
  "8 * unat (decision_record_charge False) \<le> unat DECISION_RECORD_BUDGET"
proof -
  show f: "unat (decision_record_charge False) = 29118" and t: "unat (decision_record_charge True) = 262186"
    by (simp_all add: decision_record_charge_def Let_def goal_assessment_record_charge_def criterion_result_charge_def
        reference_snapshot_charge_def charge_defs budget_defs unat_charges)
  show "unat (decision_record_charge True) \<le> unat DECISION_RECORD_BUDGET"
    "unat DECISION_RECORD_BUDGET < 2 * unat (decision_record_charge True)"
    "8 * unat (decision_record_charge False) \<le> unat DECISION_RECORD_BUDGET"
    unfolding f t by (simp_all add: DECISION_RECORD_BUDGET_def)
qed

lemma small_budget:
  assumes "unat (pb_next_static (placement_budget P p)) \<le> 8000" "unat (pb_decision_records (placement_budget P p)) \<le> 8000"
    "unat (pb_readback (placement_budget P p)) \<le> 8000" "unat (pb_evidence_preview (placement_budget P p)) \<le> 8000"
    "unat (pb_page_tokens (placement_budget P p)) \<le> 8000" "unat (pb_counters (placement_budget P p)) \<le> 8000"
    "unat (pb_readback_records (placement_budget P p)) \<le> 128"
  shows "within_budget P p"
proof -
  have "unat (charged_total (placement_budget P p)) \<le> 48000"
    using assms by (simp add: charged_total_def add_all_def unat_charges)
  moreover have "unat (observation_static_members (placement_budget P p)) \<le> 100000"
    using assms by (simp add: observation_static_members_def add_all_def unat_charges budget_defs)
  ultimately show ?thesis
    using assms unfolding within_budget_def Let_def word_le_nat_alt by (simp add: budget_defs admissible_total_def)
qed

lemma sample_placements: "pg_placements (pp_graph sample_vetted) = [sample_first, sample_second]"
  "pg_entry (pp_graph sample_vetted) = GraphNodeId (lit ''a'')" "pg_manual_rework (pp_graph sample_vetted) = None"
  by (simp_all add: sample_vetted_def)

lemma sample_budget:
  assumes "p = sample_first \<or> p = sample_second"
  shows "within_budget sample_vetted p"
  using assms
proof
  assume p: "p = sample_first"
  show ?thesis
    unfolding p by (rule small_budget) (simp_all add: charge_defs budget_defs unat_charges sample_vetted_def sample_action_def
      sample_first_def sample_second_def Let_def ActionPlacementV2_new_def)
next
  assume p: "p = sample_second"
  show ?thesis
    unfolding p by (rule small_budget) (simp_all add: charge_defs budget_defs unat_charges sample_vetted_def sample_action_def
      sample_first_def sample_second_def Let_def ActionPlacementV2_new_def)
qed

lemma sample_transitions: "transitions inc (pp_graph sample_vetted) = {(GraphNodeId (lit ''a''), GraphNodeId (lit ''b''))}"
  by (auto simp: transitions_def sample_placements sample_first_def sample_second_def ActionPlacementV2_new_def lit_def)

lemma acyclic_empty_relation: "acyclic {}"
  by (simp add: acyclic_def)

lemma sample_sound: "sound_procedure sample_vetted"
proof -
  let ?G = "pp_graph sample_vetted"
  have ids: "GraphPlacementV2_id sample_first = GraphNodeId (lit ''a'')" "GraphPlacementV2_id sample_second = GraphNodeId (lit ''b'')"
    by (simp_all add: sample_first_def sample_second_def ActionPlacementV2_new_def)
  have reach: "(GraphNodeId (lit ''a''), GraphNodeId (lit ''b'')) \<in> (transitions inc ?G)\<^sup>*" for inc
    by (rule r_into_rtrancl) (simp add: sample_transitions)
  have last: "terminal_action sample_second" by (simp add: terminal_action_def sample_second_def ActionPlacementV2_new_def)
  have before: "always_before ?G (GraphNodeId (lit ''a'')) b" for b
    unfolding always_before_def sample_placements by (auto dest: walk_head)
  have "evidence_sound ?G"
    unfolding evidence_sound_def sample_placements
    using before[of "GraphNodeId (lit ''b'')"]
    by (auto simp: skippable_def evidence_list_def sample_first_def sample_second_def ActionPlacementV2_new_def lit_def)
  moreover have "goal_sound sample_vetted" by (simp add: goal_sound_def goal_tracking_enabled_def sample_vetted_def)
  moreover have "rework_sound ?G"
    by (simp add: rework_sound_def sample_placements sample_first_def sample_second_def)
  moreover have "covered_assessment d" if "d \<in> set (pp_node_definitions sample_vetted)" for d
    using that by (simp add: covered_assessment_def sample_vetted_def)
  moreover have "acyclic (transitions False ?G)"
    using acyclic_empty_relation by (simp add: sample_transitions acyclic_insert lit_def)
  ultimately show ?thesis
    unfolding sound_procedure_def Let_def sample_placements using reach last sample_budget by (auto simp: ids)
qed

theorem vet_silent_exact_witness:
  "vet_procedure_v2 sample_validated sample_context = Some [] \<and> sound_procedure sample_vetted"
proof -
  have "ProcedureGraphV2_new (pg_entry (pp_graph sample_vetted)) (pg_placements (pp_graph sample_vetted)) None
      = Inr (pp_graph (vp_parsed sample_validated))"
    by (simp add: procedure_graph_ok sample_vetted_def sample_validated_def sample_first_def sample_second_def
        ActionPlacementV2_new_def lit_def)
  from vet_silent_exact[OF this, of sample_context] show ?thesis
    using sample_sound by (auto simp: sample_validated_def)
qed

end
