(* ===== verification/Vetted_Sessions.thy ===== *)
theory Vetted_Sessions
  imports Session_Walks Vet_Props Document_Round_Trip Graph_Demo
begin

text \<open>
  What authoring promises to the running session: a session on the runtime of a procedure stands at the
  end of an advance walk of the procedure graph, and when the vet of the procedure was silent no declared
  move of the session can be refused for structural reasons.
\<close>

section \<open>The snapshot and its procedure\<close>

lemma stored_node:
  assumes "runtime_stores P (snap_runtime snap)" "ProcedureSnapshotV2_graph_node snap n = Some node"
  obtains p d bytes i where "p \<in> set (pg_placements (pp_graph P))" "GraphPlacementV2_id p = n" "node = node_snapshot d bytes i p"
proof -
  let ?ps = "pg_placements (pp_graph P)" and ?nodes = "rt_graph_nodes (snap_runtime snap)"
  from assms(2) obtain i where i: "i < length ?nodes" "?nodes ! i = node" "gn_graph_node_id node = n"
    by (auto simp: ProcedureSnapshotV2_graph_node_def ProcedureRuntimeV2_graph_node_def find_Some_iff)
  from assms(1) have all: "list_all2 (\<lambda>(i, p) node. \<exists>d bytes. definition_index P (placement_definition p) = Some d \<and> node = node_snapshot d bytes i p)
      (enumerate 0 ?ps) ?nodes" by (simp add: runtime_stores_def)
  with i have "i < length ?ps" by (auto dest: list_all2_lengthD)
  with list_all2_nthD2[OF all i(1)] i(2) obtain d bytes where "node = node_snapshot d bytes i (?ps ! i)"
    by (auto simp: nth_enumerate_eq)
  with i(3) \<open>i < length ?ps\<close> show thesis by (intro that[of "?ps ! i"]) (simp_all add: node_snapshot_def)
qed

lemma stored_spec:
  assumes "runtime_stores P (snap_runtime snap)" "ProcedureSnapshotV2_memory_model snap = Inr model" "mm_nodes model n = Some spec"
  obtains p d where "p \<in> set (pg_placements (pp_graph P))" "GraphPlacementV2_id p = n" "spec = memory_spec d p"
proof -
  from assms(1,2) have dom: "dom (mm_nodes model) = GraphPlacementV2_id ` set (pg_placements (pp_graph P))"
    and each: "\<forall>p\<in>set (pg_placements (pp_graph P)). \<exists>d. definition_index P (placement_definition p) = Some d \<and>
       mm_nodes model (GraphPlacementV2_id p) = Some (memory_spec d p)"
    by (auto simp: runtime_stores_def ProcedureSnapshotV2_memory_model_def)
  from assms(3) have "n \<in> dom (mm_nodes model)" by auto
  then obtain p where p: "p \<in> set (pg_placements (pp_graph P))" "GraphPlacementV2_id p = n" unfolding dom by auto
  with each assms(3) show thesis by (metis option.inject that)
qed

lemma link_transition:
  assumes "runtime_stores P (snap_runtime snap)" "advance_link snap n m"
    "m \<in> GraphPlacementV2_id ` set (pg_placements (pp_graph P))"
  shows "(n, m) \<in> transitions False (pp_graph P)"
  using assms(2) unfolding advance_link_def
proof (elim disjE exE conjE)
  fix node out assume o: "ProcedureSnapshotV2_graph_node snap n = Some node" "GraphNodeSnapshotV2_action_outcome node = Inr out"
    "next_target out = Some m"
  obtain p d bytes i where p: "p \<in> set (pg_placements (pp_graph P))" "GraphPlacementV2_id p = n" "node = node_snapshot d bytes i p"
    using assms(1) o(1) by (rule stored_node)
  with o have "placement_target p = Some m"
    by (auto simp: GraphNodeSnapshotV2_action_outcome_def GraphNodeSnapshotV2_advance_target_def node_snapshot_def
        split: if_splits option.splits bool.splits)
  then have "m \<in> set (placement_targets False p)" by (cases p) (auto split: ActionOutcomeV2.splits elim: next_target.elims)
  with p assms(3) show ?thesis by (auto simp: transitions_def)
next
  fix model spec opt assume o: "ProcedureSnapshotV2_memory_model snap = Inr model" "mm_nodes model n = Some spec"
    "nm_routes spec opt = Some (m, EffectAdvance)"
  obtain p d where p: "p \<in> set (pg_placements (pp_graph P))" "GraphPlacementV2_id p = n" "spec = memory_spec d p"
    using assms(1) o(1,2) by (rule stored_spec)
  with o(3) have "(opt, m, EffectAdvance) \<in> set (map (\<lambda>e. (entry_option_id e, route_to (entry_route e), route_effect (entry_route e)))
        (placement_routes p))"
    by (auto simp: memory_spec_def btree_map_def dest!: map_of_SomeD)
  then have "m \<in> set (placement_targets False p)" by (cases p) force+
  with p assms(3) show ?thesis by (auto simp: transitions_def)
qed

section \<open>The walk of a session\<close>

lemma attempt_placed:
  assumes "admits ext s" "runtime_stores P (snap_runtime (st_snapshot s))" "a \<in> set (tr_attempts (st_trace s))"
  shows "att_graph_node_id a \<in> GraphPlacementV2_id ` set (pg_placements (pp_graph P))"
proof -
  from assms(3) obtain md where "(a, md) \<in> set (zip (tr_attempts (st_trace s)) (st_attempt_metadata s))"
    using admits_lengths(1)[OF assms(1)] by (metis in_set_impl_in_set_zip1)
  with admitsD(2)[OF assms(1)] obtain node where "ProcedureSnapshotV2_graph_node (st_snapshot s) (att_graph_node_id a) = Some node"
    by (force simp: validate_graph_state_members_def Let_def split: if_splits)
  from stored_node[OF assms(2) this] show ?thesis by (metis image_eqI)
qed

lemma session_walk:
  assumes "graph_reach ext s" "runtime_stores P (snap_runtime (st_snapshot s))" "valid_path (st_trace s) \<noteq> []"
  shows "walk (transitions False (pp_graph P)) (pg_entry (pp_graph P)) (valid_path (st_trace s)) (last (valid_path (st_trace s)))"
proof -
  let ?path = "valid_path (st_trace s)"
  have adm: "admits ext s" using reach_state_wf[OF assms(1)] by (simp add: state_wf_def)
  have placed: "n \<in> GraphPlacementV2_id ` set (pg_placements (pp_graph P))" if "n \<in> set ?path" for n
    using that attempt_placed[OF adm assms(2)] by (auto simp: valid_path_def path_mem)
  have "declared_path (st_snapshot s) ?path" using reach_follows[OF assms(1)] by (simp add: follows_procedure_def)
  then have links: "successively (advance_link (st_snapshot s)) ?path" and "hd ?path = rt_entry_graph_node_id (snap_runtime (st_snapshot s))"
    using assms(3) by (simp_all add: declared_path_def)
  moreover have "rt_entry_graph_node_id (snap_runtime (st_snapshot s)) = pg_entry (pp_graph P)"
    using assms(2) by (simp add: runtime_stores_def)
  moreover have "successively (\<lambda>x y. (x, y) \<in> transitions False (pp_graph P)) ?path"
    using links by (rule successively_mono) (use link_transition[OF assms(2)] placed in auto)
  ultimately show ?thesis using assms(3) by (simp add: walk_def)
qed

text \<open>
  C11: in every reachable session that is running or completed, the nodes of the valid attempts, in the
  order of the trace, are a walk of the procedure graph that starts at the entry, uses no rework route,
  passes no node twice, and ends at the active node while the session runs.
\<close>

theorem sessions_stand_on_advance_walks:
  assumes "graph_reach ext s" "runtime_stores P (snap_runtime (st_snapshot s))"
    "tr_lifecycle (st_trace s) \<in> {SessionRunning, SessionCompleted}"
  shows "walk (transitions False (pp_graph P)) (pg_entry (pp_graph P)) (valid_path (st_trace s)) (last (valid_path (st_trace s))) \<and>
    distinct (valid_path (st_trace s)) \<and>
    (\<forall>a. active_attempt (st_trace s) = Some a \<longrightarrow> last (valid_path (st_trace s)) = att_graph_node_id a)"
proof -
  let ?t = "st_trace s"
  have wf: "trace_wf ?t" using reach_state_wf[OF assms(1)] by (simp add: state_wf_def)
  then have "tr_attempts ?t \<noteq> []" "valid_att (last (tr_attempts ?t))"
    using assms(3) active_wf by (auto simp: trace_wf_def lifecycle_wf_def attempts_wf_def)
  then have "last (valid_path ?t) = att_graph_node_id (last (tr_attempts ?t))" and ne: "valid_path ?t \<noteq> []"
    by (cases "tr_attempts ?t" rule: rev_cases; simp add: valid_path_def)+
  moreover have "a = last (tr_attempts ?t)" if a: "active_attempt ?t = Some a" for a
  proof (cases "tr_lifecycle ?t = SessionRunning")
    case True
    from running_cursor[OF wf True a] show ?thesis by (metis last_snoc)
  next
    case False
    with assms(3) wf a show ?thesis
      by (auto simp: trace_wf_def lifecycle_wf_def active_attempt_def find_Some_iff)
  qed
  moreover have "distinct (valid_path ?t)" using wf by (simp add: valid_path_def path_of_def trace_wf_def attempts_wf_def)
  ultimately show ?thesis using session_walk[OF assms(1,2) ne] by auto
qed

section \<open>Sources of evidence\<close>

lemma filter_unique:
  assumes "distinct (map f (filter P xs))" "x \<in> set xs" "P x"
  shows "filter (\<lambda>y. f y = f x \<and> P y) xs = [x]"
proof -
  from assms(2) obtain us ws where xs: "xs = us @ x # ws" by (meson split_list)
  have "f x \<notin> f ` {y \<in> set us. P y}" "f x \<notin> f ` {y \<in> set ws. P y}"
    using assms(1,3) unfolding xs by simp_all
  then have "filter (\<lambda>y. f y = f x \<and> P y) us = []" "filter (\<lambda>y. f y = f x \<and> P y) ws = []"
    by (auto simp: filter_empty_conv image_iff)
  with assms(3) show ?thesis unfolding xs by simp
qed

text \<open>A placed source has exactly one valid attempt; it ended by completion or by a skip, and its memory is kept.\<close>

lemma single_source:
  assumes "trace_wf t" "n \<in> set (valid_path t)"
  obtains source where "current_sources t n = [source]" "source \<in> set (tr_attempts t)" "valid_att source" "att_graph_node_id source = n"
proof -
  from assms(2) obtain x where x: "x \<in> set (tr_attempts t)" "valid_att x" "att_graph_node_id x = n"
    by (auto simp: valid_path_def path_mem)
  have "distinct (map att_graph_node_id (filter valid_att (tr_attempts t)))" using assms(1) by (simp add: trace_wf_def attempts_wf_def)
  moreover have valid: "is_valid v \<longleftrightarrow> v = Valid" for v by (cases v) simp_all
  ultimately have "current_sources t n = [x]"
    using filter_unique[of att_graph_node_id valid_att "tr_attempts t" x] x by (simp add: current_sources_def)
  with x that show thesis by blast
qed

lemma ended_source:
  assumes "trace_wf t" "tr_lifecycle t = SessionRunning" "active_attempt t = Some active"
    "x \<in> set (tr_attempts t)" "valid_att x" "att_graph_node_id x \<noteq> att_graph_node_id active"
  shows "att_lifecycle x = AttemptCompleted \<or> att_lifecycle x = AttemptSkipped" "x \<in> set (butlast (tr_attempts t))"
proof -
  obtain ats where ats: "tr_attempts t = ats @ [active]" "\<forall>b\<in>set ats. \<not> is_active b"
    using assms(1-3) by (rule running_cursor)
  with assms(4,6) show "x \<in> set (butlast (tr_attempts t))" by auto
  with ats have "\<not> is_active x" by simp
  moreover have "att_wf x" using trace_wf_attempts[OF assms(1)] assms(4) by blast
  ultimately show "att_lifecycle x = AttemptCompleted \<or> att_lifecycle x = AttemptSkipped"
    using assms(5) by (cases "att_lifecycle x") (auto simp: att_wf_def is_active_def)
qed

section \<open>Declared moves\<close>

fun declared_moves :: "GraphPlacementV2 \<Rightarrow> (GraphNodeId \<times> TransitionEffectV2) list" where
  "declared_moves (PlaceAction a) = (case ap_outcome a of OutcomeNext t \<Rightarrow> [(t, EffectAdvance)] | OutcomeTerminal \<Rightarrow> [])"
| "declared_moves (PlaceDecision d) =
     map (\<lambda>e. (route_to (entry_route e), route_effect (entry_route e))) (route_entries (dp_routes d))"

fun move_command :: "AttemptId \<Rightarrow> GraphNodeId \<times> TransitionEffectV2 \<Rightarrow> AttemptId \<Rightarrow> GoalRevisionNumberV2 option \<Rightarrow> TraceCommand" where
  "move_command current (m, EffectAdvance) fresh g = TcAdvance current AdvanceCompleted m fresh g"
| "move_command current (m, EffectRework) fresh g = TcRework current m fresh g"

lemma move_ids:
  assumes "trace_wf t" "trace_step (move_command current mv fresh g) t = (Inr (), t')"
  shows "map att_attempt_id (butlast (tr_attempts t')) = map att_attempt_id (tr_attempts t)"
proof -
  obtain m effect where mv: "mv = (m, effect)" by (cases mv)
  from assms(2) obtain i where "require_running_active t current = Inr i"
    by (cases effect) (auto simp: mv SessionTraceV2_advance_def SessionTraceV2_rework_to_def)
  from accepted_running[OF assms(1) this] obtain ats b where "tr_attempts t = ats @ [b]" "i = length ats" by metis
  with assms(2) \<open>require_running_active t current = Inr i\<close> show ?thesis
    by (cases effect) (auto simp: mv SessionTraceV2_advance_def SessionTraceV2_rework_to_def stale_suffix_from_trace_def
        butlast_append split: if_splits prod.splits)
qed

lemma closed_evidence:
  assumes "validate_closed_references P = Inr ()" "q \<in> set (pg_placements (pp_graph P))"
    "r \<in> set (evidence_list (placement_evidence_from q))"
  shows "er_source_node r \<in> GraphPlacementV2_id ` set (pg_placements (pp_graph P))"
proof -
  have "validate_placement (definition_index P) (placement_index P) q = Inr ()"
    using assms(1,2) by (auto simp: validate_closed_references_def)
  moreover from this obtain d where "lookup_definition (placement_definition q) (definition_index P) = Inr d"
    by (auto simp: validate_placement_def)
  ultimately have "\<exists>i. validate_evidence i (placement_evidence_from q) (definition_index P) (placement_index P) = Inr ()"
    by (cases q; cases d) (auto simp: validate_placement_def)
  then obtain i where "validate_evidence i (placement_evidence_from q) (definition_index P) (placement_index P) = Inr ()" ..
  with assms(3) obtain s where "placement_index P (er_source_node r) = Some s"
    by (auto simp: validate_evidence_def evidence_list_def validate_evidence_reference_def split: option.splits)
  then show ?thesis by (auto simp: placement_index_def btree_map_def dest!: map_of_SomeD)
qed

lemma closed_moves:
  assumes "validate_closed_references P = Inr ()" "p \<in> set (pg_placements (pp_graph P))" "(m, effect) \<in> set (declared_moves p)"
  shows "m \<in> GraphPlacementV2_id ` set (pg_placements (pp_graph P))"
proof -
  have "validate_placement (definition_index P) (placement_index P) p = Inr ()"
    using assms(1,2) by (auto simp: validate_closed_references_def)
  moreover from this obtain d where "lookup_definition (placement_definition p) (definition_index P) = Inr d"
    by (auto simp: validate_placement_def)
  ultimately have "placement_index P m \<noteq> None"
    using assms(3)
    by (cases p; cases d) (auto simp: validate_placement_def validate_route_def split: ActionOutcomeV2.split_asm if_split_asm)
  then show ?thesis by (auto simp: placement_index_def btree_map_def dest!: map_of_SomeD)
qed

lemma walk_back:
  assumes "walk R u path v" "m \<in> set path"
  shows "(m, v) \<in> R\<^sup>*"
proof -
  from assms(2) obtain us ws where path: "path = us @ m # ws" by (meson split_list)
  with assms(1) have "walk R m (m # ws) v" by (auto simp: walk_def successively_append_iff)
  then show ?thesis using walk_rtrancl by metis
qed

lemma walk_prefix: "walk R u (xs @ ys) v \<Longrightarrow> xs \<noteq> [] \<Longrightarrow> walk R u xs (last xs)"
  by (auto simp: walk_def successively_append_iff)

lemma transitions_mono: "transitions False G \<subseteq> transitions True G"
proof -
  have "set (placement_targets False p) \<subseteq> set (placement_targets True p)" for p by (cases p) auto
  then show ?thesis by (auto simp: transitions_def)
qed

lemma walk_mono: "R \<subseteq> S \<Longrightarrow> walk R u path v \<Longrightarrow> walk S u path v"
  by (auto simp: walk_def elim!: successively_mono)

section \<open>No declared move is refused\<close>

definition evidence_available :: "WorkflowMemoryStateV2 \<Rightarrow> SessionTraceV2 \<Rightarrow> GraphNodeId \<Rightarrow> bool" where
  "evidence_available wm t n \<longleftrightarrow> (\<exists>source memory. current_sources t n = [source] \<and>
     att_lifecycle source = AttemptCompleted \<and> attempt_memory wm (att_attempt_id source) = Some memory)"

lemma move_enabled:
  assumes sound: "sound_procedure P" and closed: "validate_closed_references P = Inr ()"
    and wk: "walk (transitions False (pp_graph P)) (pg_entry (pp_graph P)) path (GraphPlacementV2_id p)"
    and p: "p \<in> set (pg_placements (pp_graph P))" "(m, effect) \<in> set (declared_moves p)"
  shows "effect = EffectAdvance \<longrightarrow> m \<notin> set path \<and> (GraphPlacementV2_id p, m) \<in> transitions False (pp_graph P)"
    and "effect = EffectRework \<longrightarrow> m \<in> set path"
proof -
  let ?G = "pp_graph P"
  have placed: "m \<in> GraphPlacementV2_id ` set (pg_placements ?G)" using closed p by (rule closed_moves)
  show "effect = EffectAdvance \<longrightarrow> m \<notin> set path \<and> (GraphPlacementV2_id p, m) \<in> transitions False ?G"
  proof (intro impI)
    assume "effect = EffectAdvance"
    with p(2) have "m \<in> set (placement_targets False p)" by (cases p) (force split: ActionOutcomeV2.splits)+
    with p(1) placed have edge: "(GraphPlacementV2_id p, m) \<in> transitions False ?G" by (auto simp: transitions_def)
    have "acyclic (transitions False ?G)" using sound by (simp add: sound_procedure_def Let_def)
    with edge walk_back[OF wk] have "m \<notin> set path" by (meson acyclic_def rtrancl_into_trancl2)
    from this edge show "m \<notin> set path \<and> (GraphPlacementV2_id p, m) \<in> transitions False ?G" ..
  qed
  show "effect = EffectRework \<longrightarrow> m \<in> set path"
  proof
    assume rework: "effect = EffectRework"
    with p(2) obtain d e where d: "p = PlaceDecision d" "e \<in> set (route_entries (dp_routes d))"
      "route_to (entry_route e) = m" "route_effect (entry_route e) = EffectRework"
      by (cases p) (auto split: ActionOutcomeV2.splits)
    obtain q where "q \<in> set (pg_placements ?G)" "GraphPlacementV2_id q = m" using placed by auto
    moreover have "rework_sound ?G" using sound by (simp add: sound_procedure_def Let_def)
    ultimately have "always_before ?G m (GraphPlacementV2_id p)" using d p(1) unfolding rework_sound_def by auto
    with walk_mono[OF transitions_mono wk] show "m \<in> set path" by (auto simp: always_before_def)
  qed
qed

lemma evidence_on_path:
  assumes "sound_procedure P" "validate_closed_references P = Inr ()"
    and "walk (transitions True (pp_graph P)) (pg_entry (pp_graph P)) path (GraphPlacementV2_id q)"
    and "q \<in> set (pg_placements (pp_graph P))" "r \<in> set (evidence_list (placement_evidence_from q))" "er_required r"
  obtains s where "s \<in> set (pg_placements (pp_graph P))" "GraphPlacementV2_id s = er_source_node r" "s \<noteq> q" "\<not> skippable s"
    "er_source_node r \<in> set path"
proof -
  obtain s where s: "s \<in> set (pg_placements (pp_graph P))" "GraphPlacementV2_id s = er_source_node r"
    using closed_evidence[OF assms(2,4,5)] by (metis imageE)
  moreover have "evidence_sound (pp_graph P)" using assms(1) by (simp add: sound_procedure_def Let_def)
  ultimately have "s \<noteq> q \<and> always_before (pp_graph P) (GraphPlacementV2_id s) (GraphPlacementV2_id q) \<and> \<not> skippable s"
    using assms(4-6) unfolding evidence_sound_def by metis
  with s assms(3) that show thesis by (auto simp: always_before_def)
qed

lemma never_skipped:
  assumes "graph_reach ext s" "runtime_stores P (snap_runtime (st_snapshot s))" "procedure_wf P"
    "x \<in> set (tr_attempts (st_trace s))" "q \<in> set (pg_placements (pp_graph P))" "GraphPlacementV2_id q = att_graph_node_id x"
    "\<not> skippable q"
  shows "att_lifecycle x \<noteq> AttemptSkipped"
proof
  assume "att_lifecycle x = AttemptSkipped"
  with reach_follows[OF assms(1)] assms(4) obtain node where
    node: "ProcedureSnapshotV2_graph_node (st_snapshot s) (att_graph_node_id x) = Some node" "gn_skip node \<noteq> None"
    by (auto simp: follows_procedure_def declared_skips_def)
  obtain q' d bytes i where q': "q' \<in> set (pg_placements (pp_graph P))" "GraphPlacementV2_id q' = att_graph_node_id x"
    "node = node_snapshot d bytes i q'" using assms(2) node(1) by (rule stored_node)
  have "distinct (map GraphPlacementV2_id (pg_placements (pp_graph P)))" using assms(3) by (simp add: procedure_wf_def)
  with q' assms(5,6) have "q' = q" by (auto simp: distinct_map inj_on_def)
  moreover have "placement_wf q" using assms(3,5) by (simp add: procedure_wf_def)
  ultimately have "skippable q"
    using node(2) q'(3) by (cases q) (auto simp: node_snapshot_def placement_wf_def skippable_def)
  with assms(7) show False ..
qed

text \<open>A declared move is accepted by the trace and leads to a walk that ends at its target.\<close>

lemma declared_move_accepted:
  assumes reach: "graph_reach ext s" and stores: "runtime_stores P (snap_runtime (st_snapshot s))"
    and closed: "validate_closed_references P = Inr ()" and sound: "sound_procedure P"
    and run: "tr_lifecycle (st_trace s) = SessionRunning" "active_attempt (st_trace s) = Some a"
    and p: "p \<in> set (pg_placements (pp_graph P))" "GraphPlacementV2_id p = att_graph_node_id a" "(m, effect) \<in> set (declared_moves p)"
    and room: "room_for_fresh (st_trace s) fresh g"
  obtains t' where "trace_step (move_command (att_attempt_id a) (m, effect) fresh g) (st_trace s) = (Inr (), t')"
    "tr_lifecycle t' = SessionRunning" "walk (transitions True (pp_graph P)) (pg_entry (pp_graph P)) (valid_path t') m"
proof -
  let ?t = "st_trace s" and ?G = "pp_graph P" and ?c = "move_command (att_attempt_id a) (m, effect) fresh g"
  let ?path = "valid_path (st_trace s)"
  have twf: "trace_wf ?t" using reach_state_wf[OF reach] by (simp add: state_wf_def)
  obtain ats where ats: "tr_attempts ?t = ats @ [a]" "?path = path_of ats @ [att_graph_node_id a]"
    using twf run by (rule running_cursor)
  have wk: "walk (transitions False ?G) (pg_entry ?G) ?path (GraphPlacementV2_id p)"
    using session_walk[OF reach stores] ats(2) p(2) by simp
  note moves = move_enabled[OF sound closed wk p(1,3)]
  have "fence_ok ?t (att_attempt_id a)" by (simp add: fence_ok_def ats(1))
  with moves run(1) room have "cursor_enabled ?c (cursor_of ?t) \<and> fences_ok ?c ?t"
    by (cases effect) (simp_all add: cursor_of_def)
  with step_admission[OF twf, of ?c] obtain t' where t': "trace_step ?c ?t = (Inr (), t')" by auto
  from cursor_refines[OF twf t'] have cur: "cursor_of t' = cursor_step ?c (tr_lifecycle ?t, ?path)"
    by (simp add: cursor_of_def)
  have "walk (transitions False ?G) (pg_entry ?G) (valid_path t') m"
  proof (cases effect)
    case EffectAdvance
    with cur have "valid_path t' = ?path @ [m]" by (simp add: cursor_of_def)
    with EffectAdvance moves(1) walk_append[OF wk] show ?thesis by simp
  next
    case EffectRework
    with cur have vp: "valid_path t' = takeWhile (\<lambda>n. n \<noteq> m) ?path @ [m]" by (simp add: cursor_of_def)
    from EffectRework moves(2) obtain ws where "?path = valid_path t' @ ws" unfolding vp by (metis cut_back)
    with wk have "walk (transitions False ?G) (pg_entry ?G) (valid_path t' @ ws) (GraphPlacementV2_id p)" by simp
    from walk_prefix[OF this] show ?thesis by (simp add: vp)
  qed
  with cur t' walk_mono[OF transitions_mono] show thesis by (intro that[of t']) (cases effect; simp add: cursor_of_def)+
qed

text \<open>A source on the walk, other than its end, that is never skipped, is available there.\<close>

lemma available_on_walk:
  assumes adm: "admits ext s" and twf: "trace_wf (st_trace s)"
    and t': "trace_step (move_command current mv fresh g) (st_trace s) = (Inr (), t')"
    and run': "tr_lifecycle t' = SessionRunning" and path: "n \<in> set (valid_path t')" "n \<noteq> last (valid_path t')"
    and unskipped: "\<forall>y\<in>set (tr_attempts (st_trace s)). att_graph_node_id y = n \<longrightarrow> att_lifecycle y \<noteq> AttemptSkipped"
  shows "evidence_available (st_workflow_memory s) t' n"
proof -
  have twf': "trace_wf t'" using trace_step_accept[OF twf t'] by simp
  from running_split[OF twf' run'] obtain ats f where s: "tr_attempts t' = ats @ [f]" "is_active f" "\<forall>b\<in>set ats. \<not> is_active b" .
  then have act: "active_attempt t' = Some f"
    by (auto simp: active_attempt_def find_append find_None_iff split: option.splits dest: find_SomeD)
  obtain ats' where "valid_path t' = path_of ats' @ [att_graph_node_id f]" using twf' run' act by (rule running_cursor)
  with path(2) have other: "n \<noteq> att_graph_node_id f" by simp
  obtain x where x: "current_sources t' n = [x]" "x \<in> set (tr_attempts t')" "valid_att x" "att_graph_node_id x = n"
    using twf' path(1) by (rule single_source)
  note ended = ended_source[OF twf' run' act x(2,3)]
  have "att_lifecycle x \<noteq> AttemptSkipped"
  proof
    assume "att_lifecycle x = AttemptSkipped"
    from command_skips[OF twf t' x(2) this] unskipped x(4) show False
      by (cases mv; cases "snd mv") auto
  qed
  moreover have "att_attempt_id x \<in> set (map am_attempt_id (wm_attempts (st_workflow_memory s)))"
    unfolding admits_aligned(2)[OF adm twf] move_ids[OF twf t', symmetric] using ended(2) x(4) other by simp
  then have "\<exists>memory. attempt_memory (st_workflow_memory s) (att_attempt_id x) = Some memory"
    by (auto simp: attempt_memory_def find_None_iff simp flip: not_None_eq)
  ultimately show ?thesis using ended(1) x other by (auto simp: evidence_available_def)
qed

text \<open>
  C10: a session of a vetted procedure is never stuck for a structural reason. Whatever its history, the
  target of every move its active placement declares (the next node of an action, a route of a decision)
  is accepted by the trace as long as the fresh attempt identifier is new and the counters have room, and
  in the successor every piece of evidence the target requires is available: its source has exactly one
  valid attempt, which was completed and not skipped, and whose memory is kept. The procedure is one that
  the parser builds, its references are closed, the session runs on its runtime, and its vet was silent.
\<close>

theorem vetted_sessions_never_stick:
  assumes "graph_reach ext s" "runtime_stores (vp_parsed V) (snap_runtime (st_snapshot s))"
    "procedure_wf (vp_parsed V)" "validate_closed_references (vp_parsed V) = Inr ()" "vet_procedure_v2 V ctx = Some []"
    "tr_lifecycle (st_trace s) = SessionRunning" "active_attempt (st_trace s) = Some a"
    "p \<in> set (pg_placements (pp_graph (vp_parsed V)))" "GraphPlacementV2_id p = att_graph_node_id a"
    "(m, effect) \<in> set (declared_moves p)" "room_for_fresh (st_trace s) fresh g"
  shows "\<exists>t'. trace_step (move_command (att_attempt_id a) (m, effect) fresh g) (st_trace s) = (Inr (), t') \<and>
    (\<forall>q\<in>set (pg_placements (pp_graph (vp_parsed V))). GraphPlacementV2_id q = m \<longrightarrow>
       (\<forall>r\<in>set (evidence_list (placement_evidence_from q)). er_required r \<longrightarrow>
          evidence_available (st_workflow_memory s) t' (er_source_node r)))"
proof -
  let ?P = "vp_parsed V" and ?G = "pp_graph (vp_parsed V)"
  have "ProcedureGraphV2_new (pg_entry ?G) (pg_placements ?G) (pg_manual_rework ?G) = Inr ?G"
    using assms(3) by (simp add: procedure_graph_ok procedure_wf_def)
  from vet_silence[OF this, of ctx] assms(5) have sound: "sound_procedure ?P" by auto
  have twf: "trace_wf (st_trace s)" and adm: "admits ext s" using reach_state_wf[OF assms(1)] by (simp_all add: state_wf_def)
  obtain t' where t': "trace_step (move_command (att_attempt_id a) (m, effect) fresh g) (st_trace s) = (Inr (), t')"
    "tr_lifecycle t' = SessionRunning" "walk (transitions True ?G) (pg_entry ?G) (valid_path t') m"
    using assms(1,2,4) sound assms(6-11) by (rule declared_move_accepted)
  have "evidence_available (st_workflow_memory s) t' (er_source_node r)"
    if q: "q \<in> set (pg_placements ?G)" "GraphPlacementV2_id q = m" and r: "r \<in> set (evidence_list (placement_evidence_from q))" "er_required r" for q r
  proof -
    obtain src where src: "src \<in> set (pg_placements ?G)" "GraphPlacementV2_id src = er_source_node r" "src \<noteq> q" "\<not> skippable src"
      "er_source_node r \<in> set (valid_path t')"
      using sound assms(4) _ q(1) r by (rule evidence_on_path) (use t'(3) q(2) in simp)
    have "inj_on GraphPlacementV2_id (set (pg_placements ?G))" using assms(3) by (simp add: procedure_wf_def distinct_map)
    with q src t'(3) have "er_source_node r \<noteq> last (valid_path t')" by (auto simp: walk_def dest: inj_onD)
    moreover have "\<forall>y\<in>set (tr_attempts (st_trace s)). att_graph_node_id y = er_source_node r \<longrightarrow> att_lifecycle y \<noteq> AttemptSkipped"
      using never_skipped[OF assms(1-3) _ src(1) _ src(4)] src(2) by metis
    ultimately show ?thesis by (intro available_on_walk[OF adm twf t'(1,2) src(5)])
  qed
  with t'(1) show ?thesis by blast
qed

section \<open>A session of the vetted sample\<close>

definition vetted_snapshot :: ProcedureSnapshotV2 where
  "vetted_snapshot = (let d = ParsedAction (sample_action ''d'') in
     \<lparr>snap_snapshot_id = ProcedureSnapshotId [],
      snap_runtime = \<lparr>rt_procedure_id = lit ''p'', rt_procedure_version = lit ''1'', rt_name = lit ''N'', rt_purpose = lit ''P'',
        rt_digest = Sha256Digest [], rt_canonical_json = CanonicalProcedureJsonV1 [48], rt_goal_tracking = False,
        rt_entry_graph_node_id = GraphNodeId (lit ''a''),
        rt_graph_nodes = [node_snapshot d [1] 0 sample_first, node_snapshot d [3] 1 sample_second],
        rt_memory_model = Inr \<lparr>mm_nodes = [GraphNodeId (lit ''a'') \<mapsto> memory_spec d sample_first,
          GraphNodeId (lit ''b'') \<mapsto> memory_spec d sample_second], mm_manual_rework_targets = []\<rparr>\<rparr>,
      snap_source = \<lparr>source_kind = SourcePreset, source_label = [], source_display = []\<rparr>, snap_created_at = UnixMillis 0\<rparr>)"

definition vetted_session :: "GraphMutationErrorV2 + GraphSessionStateV2" where
  "vetted_session =
     rbind (state_err (GraphSessionStateV2_prepared demo_ext (Revision 1) [116] vetted_snapshot (SessionId []) (UnixMillis 1))) (\<lambda>s0.
     rbind (begin_v2 demo_ext s0 (Revision 0) (AttemptId [97]) None (UnixMillis 2)) (\<lambda>out. Inr (bo_state out)))"

definition vetted_running :: "GraphSessionStateV2 \<Rightarrow> bool" where
  "vetted_running s \<longleftrightarrow> tr_lifecycle (st_trace s) = SessionRunning \<and> tr_revision (st_trace s) = Revision 1 \<and>
     map (\<lambda>a. (att_attempt_id a, att_graph_node_id a, att_lifecycle a)) (tr_attempts (st_trace s))
       = [(AttemptId [97], GraphNodeId (lit ''a''), AttemptActive)]"

lemma vetted_session_runs: "case vetted_session of Inl e \<Rightarrow> False | Inr s \<Rightarrow> vetted_running s"
  by code_simp

lemma vetted_session_reach:
  obtains s where "graph_reach demo_ext s" "st_snapshot s = vetted_snapshot" "vetted_running s"
proof -
  from vetted_session_runs obtain s0 out where
    p: "GraphSessionStateV2_prepared demo_ext (Revision 1) [116] vetted_snapshot (SessionId []) (UnixMillis 1) = Inr s0"
    and b: "begin_v2 demo_ext s0 (Revision 0) (AttemptId [97]) None (UnixMillis 2) = Inr out" and run: "vetted_running (bo_state out)"
    unfolding vetted_session_def by (auto simp: rbind_def map_err_def split: sum.splits)
  have "st_snapshot s0 = vetted_snapshot"
    using p by (auto simp: GraphSessionStateV2_prepared_def GraphSessionStateV2_new_def
        GraphSessionStateV2_new_with_workflow_memory_def dest!: new_with_goal_state_same)
  moreover have "same_task s0 (bo_state out)" using begin_effect[OF b] by (cases rule: graph_effect.cases) (auto simp: same_task_def)
  ultimately have "st_snapshot (bo_state out) = vetted_snapshot" by (simp add: same_task_def)
  with p b run show thesis by (intro that[of "bo_state out"]) (auto intro: graph_reach.intros graph_step.began)
qed

lemma sample_lookup:
  "definition_index sample_vetted (NodeDefinitionId (lit ''d'')) = Some (ParsedAction (sample_action ''d''))"
  by (simp add: definition_index_def btree_map_def sample_vetted_def sample_action_def)

lemma sample_names:
  "GraphPlacementV2_id sample_first = GraphNodeId (lit ''a'')" "GraphPlacementV2_id sample_second = GraphNodeId (lit ''b'')"
  "placement_definition sample_first = NodeDefinitionId (lit ''d'')" "placement_definition sample_second = NodeDefinitionId (lit ''d'')"
  "GraphNodeId (lit ''a'') \<noteq> GraphNodeId (lit ''b'')"
  by (simp_all add: sample_first_def sample_second_def ActionPlacementV2_new_def lit_def)

lemma sample_texts:
  "pp_id sample_vetted = lit ''p''" "pp_version sample_vetted = lit ''1''" "pp_name sample_vetted = lit ''N''"
  "pp_purpose sample_vetted = lit ''P''" "pp_goal_tracking sample_vetted = None"
  by (simp_all add: sample_vetted_def)

lemma sample_stored: "runtime_stores sample_vetted (snap_runtime vetted_snapshot)"
  using sample_lookup sample_names
  by (simp add: runtime_stores_def sample_placements vetted_snapshot_def Let_def sample_texts goal_tracking_enabled_def
      manual_targets_def enumerate_simps insert_commute) blast

lemma sample_identifiers:
  "GraphNodeId_new (lit ''a'') = Inr (GraphNodeId (lit ''a''))" "GraphNodeId_new (lit ''b'') = Inr (GraphNodeId (lit ''b''))"
  "NodeDefinitionId_new (lit ''d'') = Inr (NodeDefinitionId (lit ''d''))"
  by code_simp+

lemma sample_procedure_wf: "procedure_wf sample_vetted"
  unfolding procedure_wf_def sample_placements
  by (auto simp: sample_vetted_def sample_action_def definition_wf_def placement_wf_def sample_first_def sample_second_def
      ActionPlacementV2_new_def evidence_list_def reference_wf_def sample_identifiers)

lemma sample_closed: "validate_closed_references sample_vetted = Inr ()"
  by code_simp

theorem vetted_sessions_never_stick_witness:
  "\<exists>s t'. graph_reach demo_ext s \<and> tr_lifecycle (st_trace s) = SessionRunning \<and>
     trace_step (TcAdvance (AttemptId [97]) AdvanceCompleted (GraphNodeId (lit ''b'')) (AttemptId [98]) None) (st_trace s) = (Inr (), t') \<and>
     evidence_available (st_workflow_memory s) t' (GraphNodeId (lit ''a''))"
proof -
  obtain s where s: "graph_reach demo_ext s" "st_snapshot s = vetted_snapshot" "vetted_running s" by (rule vetted_session_reach)
  then obtain a where a: "tr_attempts (st_trace s) = [a]" "att_attempt_id a = AttemptId [97]"
    "att_graph_node_id a = GraphNodeId (lit ''a'')" "att_lifecycle a = AttemptActive" by (auto simp: vetted_running_def)
  have V: "vp_parsed sample_validated = sample_vetted" by (simp add: sample_validated_def)
  have silent: "vet_procedure_v2 sample_validated sample_context = Some []"
  proof -
    have "ProcedureGraphV2_new (pg_entry (pp_graph sample_vetted)) (pg_placements (pp_graph sample_vetted)) None
        = Inr (pp_graph (vp_parsed sample_validated))"
      using sample_procedure_wf by (simp add: procedure_graph_ok procedure_wf_def V sample_vetted_def)
    from vet_silence[OF this, of sample_context] show ?thesis using sample_sound by (auto simp: V)
  qed
  have "\<exists>t'. trace_step (move_command (att_attempt_id a) (GraphNodeId (lit ''b''), EffectAdvance) (AttemptId [98]) None) (st_trace s) = (Inr (), t') \<and>
    (\<forall>q\<in>set (pg_placements (pp_graph (vp_parsed sample_validated))). GraphPlacementV2_id q = GraphNodeId (lit ''b'') \<longrightarrow>
       (\<forall>r\<in>set (evidence_list (placement_evidence_from q)). er_required r \<longrightarrow>
          evidence_available (st_workflow_memory s) t' (er_source_node r)))"
  proof (rule vetted_sessions_never_stick[OF s(1) _ _ _ silent, where p = sample_first])
    show "room_for_fresh (st_trace s) (AttemptId [98]) None"
      using s(3) a(1,2) by (simp add: room_for_fresh_def goal_ok_def vetted_running_def)
  qed (use s a in \<open>simp_all add: V sample_stored sample_procedure_wf sample_closed sample_placements vetted_running_def active_attempt_def
      is_active_def sample_first_def ActionPlacementV2_new_def\<close>)
  with s a show ?thesis
    by (auto simp: V sample_placements sample_second_def ActionPlacementV2_new_def evidence_list_def vetted_running_def)
qed

theorem sessions_stand_on_advance_walks_witness:
  "\<exists>s. graph_reach demo_ext s \<and> walk (transitions False (pp_graph sample_vetted)) (GraphNodeId (lit ''a''))
     (valid_path (st_trace s)) (last (valid_path (st_trace s)))"
proof -
  obtain s where s: "graph_reach demo_ext s" "st_snapshot s = vetted_snapshot" "vetted_running s" by (rule vetted_session_reach)
  from sessions_stand_on_advance_walks[OF s(1), of sample_vetted] s sample_stored show ?thesis
    by (auto simp: vetted_running_def sample_placements)
qed

end
