(* ===== verification/Protocol_Values.thy ===== *)
theory Protocol_Values
  imports Canonical_Json Domain
begin

text \<open>
  The scalar values of the public contract (\<open>podway-protocol/src/lib.rs\<close>): request identifiers,
  command names, idempotency keys, the workspace summary, the catalogue of public error codes with
  their exit statuses, and the bound on the nesting of a JSON document.
\<close>

section \<open>Errors and bounds\<close>

datatype ProtocolError =
    PeUnsupportedProtocol str "string list"
  | PeInvalidUuid string
  | PeEmptyValue string
  | PeValueTooLong string nat nat      \<comment> \<open>field, maximum, actual\<close>
  | PeInvalidTimestamp
  | PeInvalidErrorCode
  | PeInvalidEvidencePageToken
  | PeInvalidErrorDetails str
  | PeInvalidCommandResult str
  | PeInvalidOutputWarnings
  | PeInvalidExitCode u8
  | PeJsonDepthExceeded nat

definition MAX_COMMAND_BYTES_V1 :: nat where
  "MAX_COMMAND_BYTES_V1 = 128"

definition MAX_IDEMPOTENCY_KEY_BYTES_V1 :: nat where
  "MAX_IDEMPOTENCY_KEY_BYTES_V1 = 256"

definition MAX_WORKSPACE_ROOT_SCALARS_V1 :: nat where
  "MAX_WORKSPACE_ROOT_SCALARS_V1 = 4096"

definition MAX_JSON_DEPTH_V1 :: nat where
  "MAX_JSON_DEPTH_V1 = 64"

section \<open>Validators\<close>

fun protocol_uuid_bytes :: "string \<Rightarrow> nat \<Rightarrow> byte list \<Rightarrow> ProtocolError + unit" where
  "protocol_uuid_bytes field index [] = Inr ()"
| "protocol_uuid_bytes field index (b # bs) =
     (let valid = (if index = 8 \<or> index = 13 \<or> index = 18 \<or> index = 23 then b = 45
                   else is_ascii_digit b \<or> 97 \<le> b \<and> b \<le> 102)
      in if \<not> valid then Inl (PeInvalidUuid field) else protocol_uuid_bytes field (Suc index) bs)"

definition protocol_validate_uuid :: "str \<Rightarrow> string \<Rightarrow> ProtocolError + unit" where
  "protocol_validate_uuid value field =
     (if length (as_bytes value) \<noteq> 36 then Inl (PeInvalidUuid field)
      else protocol_uuid_bytes field 0 (as_bytes value))"

definition validate_non_empty_byte_bounded :: "str \<Rightarrow> nat \<Rightarrow> string \<Rightarrow> ProtocolError + unit" where
  "validate_non_empty_byte_bounded value maximum field =
     (if value = [] then Inl (PeEmptyValue field)
      else if byte_len value > maximum then Inl (PeValueTooLong field maximum (byte_len value))
      else Inr ())"

definition validate_non_empty_scalar_bounded :: "str \<Rightarrow> nat \<Rightarrow> string \<Rightarrow> ProtocolError + unit" where
  "validate_non_empty_scalar_bounded value maximum field =
     (if length value = 0 then Inl (PeEmptyValue field)
      else if length value > maximum then Inl (PeValueTooLong field maximum (length value))
      else Inr ())"

section \<open>Identifiers and keys\<close>

datatype RequestIdV1 = RequestIdV1 str
datatype CommandNameV1 = CommandNameV1 str
datatype IdempotencyKeyV1 = IdempotencyKeyV1 str

definition RequestIdV1_new :: "str \<Rightarrow> ProtocolError + RequestIdV1" where
  "RequestIdV1_new value =
     rbind (protocol_validate_uuid value ''request_id'') (\<lambda>_. Inr (RequestIdV1 value))"

definition CommandNameV1_new :: "str \<Rightarrow> ProtocolError + CommandNameV1" where
  "CommandNameV1_new value =
     rbind (validate_non_empty_byte_bounded value MAX_COMMAND_BYTES_V1 ''command'') (\<lambda>_.
       Inr (CommandNameV1 value))"

definition IdempotencyKeyV1_new :: "str \<Rightarrow> ProtocolError + IdempotencyKeyV1" where
  "IdempotencyKeyV1_new value =
     rbind (validate_non_empty_byte_bounded value MAX_IDEMPOTENCY_KEY_BYTES_V1 ''idempotency_key'') (\<lambda>_.
       Inr (IdempotencyKeyV1 value))"

record WorkspaceOutputV1 =
  wo_uuid :: WorkspaceId
  wo_root :: str
  wo_latest_workspace_sequence :: u64

definition WorkspaceOutputV1_validate :: "WorkspaceOutputV1 \<Rightarrow> ProtocolError + unit" where
  "WorkspaceOutputV1_validate output =
     validate_non_empty_scalar_bounded (wo_root output) MAX_WORKSPACE_ROOT_SCALARS_V1 ''workspace.root''"

definition WorkspaceOutputV1_new :: "WorkspaceId \<Rightarrow> str \<Rightarrow> u64 \<Rightarrow> ProtocolError + WorkspaceOutputV1" where
  "WorkspaceOutputV1_new uuid root latest_workspace_sequence =
     (let output = \<lparr>wo_uuid = uuid, wo_root = root, wo_latest_workspace_sequence = latest_workspace_sequence\<rparr>
      in rbind (WorkspaceOutputV1_validate output) (\<lambda>_. Inr output))"

section \<open>The catalogue of error codes\<close>

record ErrorCodeCatalogEntryV1 =
  ec_code :: string
  ec_exit_code :: u8
  ec_retryable :: bool

definition ec :: "string \<Rightarrow> u8 \<Rightarrow> bool \<Rightarrow> ErrorCodeCatalogEntryV1" where
  "ec code exit_code retryable = \<lparr>ec_code = code, ec_exit_code = exit_code, ec_retryable = retryable\<rparr>"

definition ERROR_CODE_CATALOG_V1 :: "ErrorCodeCatalogEntryV1 list" where
  "ERROR_CODE_CATALOG_V1 =
    [ec ''ARTIFACT_CHANGED'' 1 True,
     ec ''ARTIFACT_MEDIA_TYPE_NOT_ALLOWED'' 1 False,
     ec ''ARTIFACT_NOT_FOUND'' 1 False,
     ec ''ARTIFACT_UNREADABLE'' 5 False,
     ec ''ATTEMPT_CONTENT_LIMIT_EXCEEDED'' 1 False,
     ec ''ATTEMPT_NOT_CURRENT'' 4 True,
     ec ''ATTEMPT_NOT_FOUND'' 1 False,
     ec ''BARE_GIT_REPOSITORY'' 5 False,
     ec ''BLOCKERS_PRESENT'' 1 False,
     ec ''BLOCKER_LIMIT_REACHED'' 1 False,
     ec ''BLOCKER_NOT_CURRENT'' 4 True,
     ec ''BLOCKER_NOT_FOUND'' 1 False,
     ec ''COMMAND_RETIRED'' 2 False,
     ec ''CONFIRMATION_REQUIRED'' 2 False,
     ec ''CRITERION_CITATION_INVALID'' 1 False,
     ec ''CRITERION_MODE_MIXED'' 1 False,
     ec ''CRITERION_NOT_FOUND'' 1 False,
     ec ''CRITERION_RESULT_MISSING'' 1 False,
     ec ''DECISION_REASON_MISSING'' 1 False,
     ec ''DELEGATION_ALREADY_ACCEPTED'' 1 False,
     ec ''DELEGATION_BINDING_MISMATCH'' 1 False,
     ec ''DELEGATION_NOT_APPLICABLE'' 1 False,
     ec ''DELEGATION_RECEIPT_REQUIRED'' 1 False,
     ec ''DELEGATION_RECEIPT_STALE'' 1 False,
     ec ''DIGEST_CONFIRMATION_REQUIRED'' 2 False,
     ec ''EVIDENCE_NOT_AVAILABLE'' 1 False,
     ec ''EVIDENCE_PAGE_TOKEN_EXHAUSTED'' 2 False,
     ec ''EVIDENCE_PAGE_TOKEN_STALE'' 4 True,
     ec ''EVIDENCE_REFERENCE_STALE'' 4 True,
     ec ''EVIDENCE_REFERENCE_UNRESOLVED'' 1 False,
     ec ''FRESH_GOAL_ASSESSMENT_MISSING'' 1 False,
     ec ''GOAL_ASSESSMENT_OUTCOME_NOT_ALLOWED'' 1 False,
     ec ''GOAL_REVISION_STALE'' 4 True,
     ec ''GOAL_REVISION_TARGET_NOT_ALLOWED'' 1 False,
     ec ''GOAL_REVISION_TARGET_NOT_REVISION_SAFE'' 1 False,
     ec ''GOAL_TRACKING_NOT_ENABLED'' 1 False,
     ec ''GRAPH_NODE_NOT_FOUND'' 1 False,
     ec ''GRAPH_NODE_TYPE_MISMATCH'' 1 False,
     ec ''IDEMPOTENCY_KEY_REUSED'' 2 False,
     ec ''INTERNAL_ERROR'' 6 False,
     ec ''ITEM_ALREADY_SET'' 4 True,
     ec ''ITEM_CONSTRAINT_FAILED'' 1 False,
     ec ''ITEM_NOT_FOUND'' 1 False,
     ec ''ITEM_REVISION_CONFLICT'' 4 True,
     ec ''ITEM_TYPE_MISMATCH'' 1 False,
     ec ''LEGACY_RUNTIME_STATE_UNSUPPORTED'' 5 False,
     ec ''LIST_VALUE_DUPLICATE'' 1 False,
     ec ''LIST_VALUE_NOT_FOUND'' 1 False,
     ec ''MANUAL_REWORK_TARGET_NOT_ALLOWED'' 1 False,
     ec ''MANUAL_REWORK_TARGET_NOT_ON_TRACE'' 1 False,
     ec ''MIGRATION_FAILED'' 5 False,
     ec ''MUTATION_OUTCOME_UNKNOWN'' 4 True,
     ec ''NODE_DEFINITION_NOT_FOUND'' 1 False,
     ec ''NOT_A_GIT_WORKTREE'' 5 False,
     ec ''OPTION_GUARD_UNSATISFIED'' 1 False,
     ec ''OPTION_NOT_ALLOWED'' 1 False,
     ec ''PATH_OUTSIDE_WORKTREE'' 5 False,
     ec ''PRESET_NOT_FOUND'' 1 False,
     ec ''PROCEDURE_DIGEST_MISMATCH'' 4 False,
     ec ''PROCEDURE_INVALID'' 1 False,
     ec ''PROCEDURE_NOT_FOUND'' 1 False,
     ec ''PROCEDURE_SCHEMA_UNSUPPORTED'' 1 False,
     ec ''PROCEDURE_V2_SCHEMA_INVALID'' 1 False,
     ec ''REACTIVATION_FLAG_REQUIRED'' 1 False,
     ec ''REQUEST_INVALID'' 2 False,
     ec ''REQUEST_TOO_LARGE'' 2 False,
     ec ''REQUIRED_ITEMS_MISSING'' 1 False,
     ec ''ROUTE_NOT_ALLOWED'' 1 False,
     ec ''SESSION_ALREADY_EXISTS'' 1 False,
     ec ''SESSION_ARCHIVE_LIMIT_REACHED'' 1 False,
     ec ''SESSION_ARCHIVE_NOT_ELIGIBLE'' 1 False,
     ec ''SESSION_ARCHIVE_NOT_FOUND'' 1 False,
     ec ''SESSION_CANCELLED'' 1 False,
     ec ''SESSION_GOAL_ALREADY_DEFINED'' 1 False,
     ec ''SESSION_GOAL_MISSING'' 1 False,
     ec ''SESSION_ID_MISMATCH'' 4 False,
     ec ''SESSION_NOT_FOUND'' 1 False,
     ec ''SESSION_NOT_RUNNING'' 1 False,
     ec ''SESSION_NOT_TERMINAL'' 1 False,
     ec ''SESSION_RESET_NOT_ELIGIBLE'' 1 False,
     ec ''SESSION_REVISION_CONFLICT'' 4 True,
     ec ''SESSION_START_DECISION_REQUIRED'' 5 False,
     ec ''SESSION_START_STATE_CONFLICT'' 4 True,
     ec ''STAGE_NOT_SKIPPABLE'' 1 False,
     ec ''USER_CONFIG_INVALID'' 5 False,
     ec ''WORKSPACE_ALREADY_INITIALIZED'' 1 False,
     ec ''WORKSPACE_BUSY'' 4 True,
     ec ''WORKSPACE_CONFIG_INVALID'' 5 False,
     ec ''WORKSPACE_CONTRACT_MISMATCH'' 5 False,
     ec ''WORKSPACE_ID_CONFLICT'' 5 False,
     ec ''WORKSPACE_INIT_CONFLICT'' 5 False,
     ec ''WORKSPACE_MAINTENANCE'' 4 True,
     ec ''WORKSPACE_NOT_INITIALIZED'' 5 False,
     ec ''WORKSPACE_PATH_UNSAFE'' 5 False,
     ec ''WORKSPACE_SCHEMA_UNSUPPORTED'' 5 False,
     ec ''WORKSPACE_STATE_UNREADABLE'' 5 False,
     ec ''WORKSPACE_UUID_MISMATCH'' 4 False,
     ec ''WORKTREE_GONE'' 5 False]"

definition error_code_catalog_entry_v1 :: "str \<Rightarrow> ErrorCodeCatalogEntryV1 option" where
  "error_code_catalog_entry_v1 code = find (\<lambda>entry. lit (ec_code entry) = code) ERROR_CODE_CATALOG_V1"

definition validate_error_code :: "str \<Rightarrow> ProtocolError + unit" where
  "validate_error_code value =
     (if error_code_catalog_entry_v1 value = None then Inl PeInvalidErrorCode else Inr ())"

datatype ErrorCodeV1 = ErrorCodeV1 str
datatype ExitCodeV1 = ExitCodeV1 u8

definition ErrorCodeV1_new :: "str \<Rightarrow> ProtocolError + ErrorCodeV1" where
  "ErrorCodeV1_new value = rbind (validate_error_code value) (\<lambda>_. Inr (ErrorCodeV1 value))"

definition ExitCodeV1_new :: "u8 \<Rightarrow> ProtocolError + ExitCodeV1" where
  "ExitCodeV1_new value =
     (if \<not> (value = 1 \<or> value = 2 \<or> value = 4 \<or> value = 5 \<or> value = 6) then Inl (PeInvalidExitCode value)
      else Inr (ExitCodeV1 value))"

section \<open>The nesting of a document\<close>

lemma for_each_cong [fundef_cong]:
  "xs = ys \<Longrightarrow> (\<And>x. x \<in> set ys \<Longrightarrow> f x = g x) \<Longrightarrow> for_each f xs = for_each g ys"
  by (induction ys arbitrary: xs) auto

fun validate_json_value_depth :: "Value \<Rightarrow> nat \<Rightarrow> ProtocolError + unit" where
  "validate_json_value_depth value depth =
     (if depth > MAX_JSON_DEPTH_V1 then Inl (PeJsonDepthExceeded MAX_JSON_DEPTH_V1)
      else case value of
             VArray values \<Rightarrow> for_each (\<lambda>v. validate_json_value_depth v (depth + 1)) values
           | VObject values \<Rightarrow> for_each (\<lambda>(_, v). validate_json_value_depth v (depth + 1)) values
           | _ \<Rightarrow> Inr ())"

declare validate_json_value_depth.simps [simp del]

definition validate_json_document_depth :: "Value \<Rightarrow> ProtocolError + unit" where
  "validate_json_document_depth value = validate_json_value_depth value 0"

definition validate_json_map_depth :: "json_map \<Rightarrow> nat \<Rightarrow> ProtocolError + unit" where
  "validate_json_map_depth map_value map_depth =
     for_each (\<lambda>(_, v). validate_json_value_depth v (map_depth + 1)) map_value"

section \<open>Facts\<close>

text \<open>The two copies of the UUID check, in the core and in the protocol, accept the same texts.\<close>

lemma protocol_uuid_bytes_agree:
  "protocol_uuid_bytes field index bs = Inr () \<longleftrightarrow> validate_uuid_bytes field' index bs = Inr ()"
  by (induction bs arbitrary: index) (auto simp: uuid_byte_valid_def)

lemma protocol_validate_uuid_agrees:
  "protocol_validate_uuid value field = Inr () \<longleftrightarrow> validate_uuid value field' = Inr ()"
  by (simp add: protocol_validate_uuid_def validate_uuid_def protocol_uuid_bytes_agree[of _ _ _ field'])

text \<open>Every code of the catalogue is unique and carries an exit status the contract admits.\<close>

lemma catalog_codes_ascend: "successively (<) (map (lit \<circ> ec_code) ERROR_CODE_CATALOG_V1)"
  by (simp add: ERROR_CODE_CATALOG_V1_def ec_def lit_def)

lemma catalog_codes_distinct: "distinct (map ec_code ERROR_CODE_CATALOG_V1)"
proof -
  have "sorted_wrt (<) (map (lit \<circ> ec_code) ERROR_CODE_CATALOG_V1)"
    using catalog_codes_ascend by (simp only: successively_conv_sorted_wrt[OF transp_on_less])
  then have "distinct (map (lit \<circ> ec_code) ERROR_CODE_CATALOG_V1)" by (simp add: strict_sorted_iff)
  then show ?thesis by (auto simp: distinct_map inj_on_def lit_inject)
qed

lemma catalog_exit_codes_admitted: "\<forall>entry\<in>set ERROR_CODE_CATALOG_V1. is_ok (ExitCodeV1_new (ec_exit_code entry))"
  by code_simp

lemma find_unique:
  assumes "distinct (map f xs)" "x \<in> set xs"
  shows "find (\<lambda>y. f y = f x) xs = Some x"
  using assms by (induction xs) force+

lemma catalog_lookup: "entry \<in> set ERROR_CODE_CATALOG_V1 \<Longrightarrow> error_code_catalog_entry_v1 (lit (ec_code entry)) = Some entry"
  unfolding error_code_catalog_entry_v1_def lit_inject by (rule find_unique[OF catalog_codes_distinct])

text \<open>The depth of a value, counting the document itself as depth zero.\<close>

fun json_depth :: "Value \<Rightarrow> nat" where
  "json_depth (VArray values) = Max (insert 0 (set (map (\<lambda>v. Suc (json_depth v)) values)))"
| "json_depth (VObject values) = Max (insert 0 (set (map (\<lambda>(_, v). Suc (json_depth v)) values)))"
| "json_depth _ = 0"

lemma depth_Max_le:
  assumes "finite S"
  shows "d + Max (insert 0 S) \<le> m \<longleftrightarrow> d \<le> m \<and> (\<forall>x\<in>S. d + x \<le> (m :: nat))"
proof -
  have "d + Max (insert 0 S) \<le> m \<longleftrightarrow> d \<le> m \<and> Max (insert 0 S) \<le> m - d" by auto
  also have "\<dots> \<longleftrightarrow> d \<le> m \<and> (\<forall>x\<in>S. d + x \<le> m)" using assms by auto
  finally show ?thesis .
qed

lemma validate_json_value_depth_ok:
  "validate_json_value_depth v depth = Inr () \<longleftrightarrow> depth + json_depth v \<le> MAX_JSON_DEPTH_V1"
proof (induction v arbitrary: depth rule: json_depth.induct)
  case (1 vs)
  have "depth + json_depth (VArray vs) \<le> MAX_JSON_DEPTH_V1 \<longleftrightarrow>
      depth \<le> MAX_JSON_DEPTH_V1 \<and> (\<forall>v\<in>set vs. depth + 1 + json_depth v \<le> MAX_JSON_DEPTH_V1)"
    by (simp add: depth_Max_le del: Max_insert)
  with 1 show ?case by (subst validate_json_value_depth.simps) auto
next
  case (2 vs)
  have "depth + json_depth (VObject vs) \<le> MAX_JSON_DEPTH_V1 \<longleftrightarrow>
      depth \<le> MAX_JSON_DEPTH_V1 \<and> (\<forall>kv\<in>set vs. depth + 1 + json_depth (snd kv) \<le> MAX_JSON_DEPTH_V1)"
    by (simp add: depth_Max_le split_beta del: Max_insert)
  with 2 show ?case by (subst validate_json_value_depth.simps) (auto split: prod.splits)
qed (auto simp: validate_json_value_depth.simps)

end
