(* ===== verification/Byte_Text.thy ===== *)
theory Byte_Text
  imports Protocol_Values
begin

unbundle bit_operations_syntax

text \<open>
  Bytes as text (\<open>podway-protocol/src/evidence_page.rs\<close>): unpadded base64url, lowercase
  hexadecimal, the byte slices of a \<open>str\<close> and the big-endian bytes of a 64-bit word. Each encoder
  and its decoder are inverse to each other in both directions: what is encoded is decoded again,
  and what a decoder accepts is the encoding of its result, so that a value has exactly one spelling.
\<close>

section \<open>Slices\<close>

text \<open>\<open>slice.chunks(n)\<close>; the sizes are the positive constants 3 and 4.\<close>

function chunks :: "nat \<Rightarrow> 'a list \<Rightarrow> 'a list list" where
  "chunks n xs = (if n = 0 \<or> xs = [] then [] else take n xs # chunks n (drop n xs))"
  by pat_completeness auto
termination by (relation "measure (length \<circ> snd)") auto

declare chunks.simps [simp del]

text \<open>\<open>str::split_at_checked\<close>: a text is cut at a byte offset on a character boundary only.\<close>

fun split_at_byte :: "nat \<Rightarrow> str \<Rightarrow> (str \<times> str) option" where
  "split_at_byte 0 s = Some ([], s)"
| "split_at_byte (Suc n) [] = None"
| "split_at_byte (Suc n) (c # s) =
     (if length (utf8_char c) \<le> Suc n
      then map_option (\<lambda>(front, back). (c # front, back)) (split_at_byte (Suc n - length (utf8_char c)) s)
      else None)"

text \<open>\<open>text.get(a..b)\<close>.\<close>

definition str_get :: "nat \<Rightarrow> nat \<Rightarrow> str \<Rightarrow> str option" where
  "str_get a b s =
     (if a \<le> b then Option.bind (split_at_byte a s) (\<lambda>(_, back). map_option fst (split_at_byte (b - a) back))
      else None)"

section \<open>base64url\<close>

definition BASE64URL :: "byte list" where
  "BASE64URL = lit ''ABCDEFGHIJKLMNOPQRSTUVWXYZabcdefghijklmnopqrstuvwxyz0123456789-_''"

definition chunk_value :: "u8 list \<Rightarrow> u32" where
  "chunk_value chunk =
     (let buffer = take 3 (chunk @ [0, 0, 0])
      in push_bit 16 (ucast (buffer ! 0)) OR push_bit 8 (ucast (buffer ! 1)) OR ucast (buffer ! 2))"

definition encode_chunk :: "u8 list \<Rightarrow> str" where
  "encode_chunk chunk =
     (let value = chunk_value chunk;
          characters = [BASE64URL ! unat (drop_bit 18 value AND 0x3f),
                        BASE64URL ! unat (drop_bit 12 value AND 0x3f),
                        BASE64URL ! unat (drop_bit 6 value AND 0x3f),
                        BASE64URL ! unat (value AND 0x3f)];
          kept = length chunk + 1
      in take kept characters)"

definition encode_base64url_v1 :: "u8 list \<Rightarrow> str" where
  "encode_base64url_v1 payload = concat (map encode_chunk (chunks 3 payload))"

definition sextet_of :: "byte \<Rightarrow> ProtocolError + u8" where
  "sextet_of character =
     rbind (ok_or PeInvalidEvidencePageToken (position (\<lambda>candidate. candidate = character) BASE64URL)) (\<lambda>i.
       Inr (of_nat i))"

definition sextets_value :: "u8 list \<Rightarrow> u32" where
  "sextets_value chunk =
     foldl (\<lambda>value (index, sextet). value OR push_bit (18 - 6 * index) (ucast sextet)) 0 (enumerate 0 chunk)"

definition decode_chunk :: "u8 list \<Rightarrow> ProtocolError + u8 list" where
  "decode_chunk chunk =
     (let value = sextets_value chunk;
          kept = length chunk - 1;
          bytes = [ucast (drop_bit 16 value), ucast (drop_bit 8 value), ucast value]
      in if kept < 3 \<and> value AND (push_bit (8 * (3 - kept)) 1 - 1) \<noteq> 0 then Inl PeInvalidEvidencePageToken
         else Inr (take kept bytes))"

definition decode_base64url_v1 :: "str \<Rightarrow> ProtocolError + u8 list" where
  "decode_base64url_v1 token =
     rbind (collect_ok sextet_of (as_bytes token)) (\<lambda>sextets.
       if length sextets mod 4 = 1 then Inl PeInvalidEvidencePageToken
       else rbind (collect_ok decode_chunk (chunks 4 sextets)) (\<lambda>bytes. Inr (concat bytes)))"

section \<open>Hexadecimal and big-endian bytes\<close>

text \<open>\<open>char::to_digit(16)\<close>, \<open>u8::from_str_radix(_, 16)\<close> and \<open>format!("{byte:02x}")\<close>.\<close>

definition to_digit_16 :: "scalar \<Rightarrow> nat option" where
  "to_digit_16 c =
     (if is_ascii_digit c then Some (c - 48) else if 97 \<le> c \<and> c \<le> 102 then Some (c - 87)
      else if 65 \<le> c \<and> c \<le> 70 then Some (c - 55) else None)"

definition u8_from_str_radix_16 :: "str \<Rightarrow> u8 option" where
  "u8_from_str_radix_16 s =
     (let digits = (if 1 < length s \<and> hd s = 43 then tl s else s)
      in if digits = [] \<or> (\<exists>c\<in>set digits. to_digit_16 c = None) then None
         else let n = foldl (\<lambda>a c. 16 * a + the (to_digit_16 c)) 0 digits
              in if n < 256 then Some (of_nat n) else None)"

definition hex_char :: "nat \<Rightarrow> scalar" where
  "hex_char n = (if n < 10 then 48 + n else 87 + n)"

definition hex_byte :: "u8 \<Rightarrow> str" where
  "hex_byte b = [hex_char (unat b div 16), hex_char (unat b mod 16)]"

definition hex_bytes_v1 :: "nat \<Rightarrow> str \<Rightarrow> ProtocolError + u8 list" where
  "hex_bytes_v1 n hex =
     collect_ok (\<lambda>index.
       rbind (ok_or PeInvalidEvidencePageToken (str_get (index * 2) (index * 2 + 2) hex)) (\<lambda>pair.
         ok_or PeInvalidEvidencePageToken (u8_from_str_radix_16 pair))) [0..<n]"

text \<open>\<open>u64::to_be_bytes\<close> and \<open>u64::from_be_bytes\<close>.\<close>

definition to_be_bytes :: "u64 \<Rightarrow> u8 list" where
  "to_be_bytes w = map (\<lambda>n. ucast (drop_bit n w)) [56, 48, 40, 32, 24, 16, 8, 0]"

definition from_be_bytes :: "u8 list \<Rightarrow> u64" where
  "from_be_bytes bs = foldl (\<lambda>w b. push_bit 8 w OR ucast b) 0 bs"

section \<open>The two directions of base64url\<close>

lemma chunks_Nil [simp]: "chunks n [] = []"
  by (simp add: chunks.simps)

lemma chunks_append [simp]: "0 < n \<Longrightarrow> length xs = n \<Longrightarrow> chunks n (xs @ ys) = xs # chunks n ys"
  by (subst chunks.simps) auto

lemma chunks_short: "0 < n \<Longrightarrow> xs \<noteq> [] \<Longrightarrow> length xs \<le> n \<Longrightarrow> chunks n xs = [xs]"
  by (subst chunks.simps) simp

lemma alphabet_length [simp]: "length BASE64URL = 64"
  by (simp add: BASE64URL_def lit_def)

lemma alphabet_distinct: "distinct BASE64URL"
  by (simp add: BASE64URL_def lit_def)

lemma alphabet_ascii: "b \<in> set BASE64URL \<Longrightarrow> b < 128"
  by (auto simp: BASE64URL_def lit_def)

lemma position_nth:
  "distinct xs \<Longrightarrow> i < length xs \<Longrightarrow> position (\<lambda>c. c = xs ! i) xs = Some i"
proof (induction xs arbitrary: i)
  case (Cons x xs)
  then show ?case by (cases i) (auto simp: nth_eq_iff_index_eq)
qed simp

lemma sextet_of_alphabet: "s < 64 \<Longrightarrow> sextet_of (BASE64URL ! unat s) = Inr s"
proof -
  assume "s < 64"
  then have "unat s < 64" by (simp add: word_less_nat_alt)
  then show ?thesis by (simp add: sextet_of_def position_nth alphabet_distinct)
qed

lemma sextet_of_Inr: "sextet_of b = Inr s \<longleftrightarrow> s < 64 \<and> b = BASE64URL ! unat s"
proof
  assume "sextet_of b = Inr s"
  then obtain i where "position (\<lambda>c. c = b) BASE64URL = Some i" "s = of_nat i" by (auto simp: sextet_of_def)
  moreover from this have "i < 64" "BASE64URL ! i = b" by (auto dest: position_SomeD)
  moreover from \<open>i < 64\<close> have "unat (of_nat i :: u8) = i" by (simp add: unat_of_nat)
  ultimately show "s < 64 \<and> b = BASE64URL ! unat s" by (simp add: word_less_nat_alt)
qed (auto simp: sextet_of_alphabet)

text \<open>The sextets of a chunk, before they are looked up in the alphabet.\<close>

definition chunk_sextets :: "u8 list \<Rightarrow> u8 list" where
  "chunk_sextets chunk =
     take (length chunk + 1) (map (\<lambda>n. ucast (take_bit 6 (drop_bit n (chunk_value chunk)))) [18, 12, 6, 0])"

lemma and_63: "(v :: u32) AND 0x3f = take_bit 6 v"
  by (simp add: take_bit_eq_mask mask_numeral)

lemma unat_take_bit6: "unat (ucast (take_bit 6 (v :: u32)) :: u8) = unat (v AND 0x3f)"
  by (simp add: and_63 unsigned_ucast_eq unsigned_take_bit_eq)

lemma encode_chunk_sextets: "encode_chunk chunk = map (\<lambda>s. BASE64URL ! unat s) (chunk_sextets chunk)"
  by (simp add: encode_chunk_def chunk_sextets_def Let_def take_map[symmetric] unat_take_bit6)

lemma below_64: "s < 64 \<longleftrightarrow> take_bit 6 (s :: u8) = s"
proof -
  have "s < 64 \<longleftrightarrow> unat s < 2 ^ 6" by (simp add: word_less_nat_alt)
  also have "\<dots> \<longleftrightarrow> take_bit 6 (unat s) = unat s" by (simp only: take_bit_nat_eq_self_iff)
  also have "\<dots> \<longleftrightarrow> take_bit 6 s = s" by (simp add: word_unat_eq_iff unsigned_take_bit_eq)
  finally show ?thesis .
qed

lemma chunk_sextets_below: "s \<in> set (chunk_sextets chunk) \<Longrightarrow> s < 64"
  by (auto simp: chunk_sextets_def below_64 bit_eq_iff bit_simps dest!: in_set_takeD)

lemma low_mask:
  "(v :: u32) AND 255 = take_bit 8 v"
  "(v :: u32) AND 65535 = take_bit 16 v"
  by (simp_all add: take_bit_eq_mask mask_numeral)

text \<open>Words of a fixed width are compared bit by bit.\<close>

lemma u32_eqI:
  "list_all (\<lambda>n. bit v n = bit w n)
     [0, 1, 2, 3, 4, 5, 6, 7, 8, 9, 10, 11, 12, 13, 14, 15,
      16, 17, 18, 19, 20, 21, 22, 23, 24, 25, 26, 27, 28, 29, 30, 31] \<Longrightarrow> v = (w :: u32)"
  by (rule bit_word_eqI) (auto simp: less_Suc_eq numeral_eq_Suc)

lemma u8_eqI: "list_all (\<lambda>n. bit v n = bit w n) [0, 1, 2, 3, 4, 5, 6, 7] \<Longrightarrow> v = (w :: u8)"
  by (rule bit_word_eqI) (auto simp: less_Suc_eq numeral_eq_Suc)

lemma u8_bit_beyond: "8 \<le> n \<Longrightarrow> \<not> bit (c :: u8) n"
  by (auto dest: bit_imp_le_length)

lemmas bitwise = bit_simps u8_bit_beyond numeral_2_eq_2[symmetric] numeral_3_eq_3[symmetric]

text \<open>A short chunk is a full one padded with zero bytes, and so are its sextets.\<close>

lemma chunk_value_simps:
  "chunk_value [a, b, c] = push_bit 16 (ucast a) OR push_bit 8 (ucast b) OR ucast c"
  "chunk_value [a, b] = chunk_value [a, b, 0]"
  "chunk_value [a] = chunk_value [a, 0, 0]"
  by (simp_all add: chunk_value_def)

lemma sextets_value_simps:
  "sextets_value [s, t, u, v] = push_bit 18 (ucast s) OR push_bit 12 (ucast t) OR push_bit 6 (ucast u) OR ucast v"
  "sextets_value [s, t, u] = sextets_value [s, t, u, 0]"
  "sextets_value [s, t] = sextets_value [s, t, 0, 0]"
  by (simp_all add: sextets_value_def or.assoc)

lemma chunk_sextets_simps:
  "chunk_sextets [a, b, c] = map (\<lambda>n. ucast (take_bit 6 (drop_bit n (chunk_value [a, b, c])))) [18, 12, 6, 0]"
  "chunk_sextets [a, b] = map (\<lambda>n. ucast (take_bit 6 (drop_bit n (chunk_value [a, b, 0])))) [18, 12, 6]"
  "chunk_sextets [a] = map (\<lambda>n. ucast (take_bit 6 (drop_bit n (chunk_value [a, 0, 0])))) [18, 12]"
  by (simp_all add: chunk_sextets_def chunk_value_simps(2,3) numeral_3_eq_3 numeral_2_eq_2)

text \<open>Three bytes and four sextets are two readings of the same 24 bits.\<close>

lemma high_bits: "drop_bit 24 (w :: u32) = 0 \<Longrightarrow> 24 \<le> n \<Longrightarrow> \<not> bit w n"
proof
  assume w: "drop_bit 24 w = 0" and n: "24 \<le> n" and b: "bit w n"
  from n have "bit (drop_bit 24 w) (n - 24) = bit w n" by (simp add: bit_drop_bit_eq)
  with w b show False by simp
qed

lemma sextets_of_value:
  assumes "drop_bit 24 (w :: u32) = 0"
  shows "sextets_value (map (\<lambda>n. ucast (take_bit 6 (drop_bit n w))) [18, 12, 6, 0]) = w"
  by (rule u32_eqI) (simp add: sextets_value_simps bitwise high_bits[OF assms])

lemma bytes_of_value:
  assumes "drop_bit 24 (w :: u32) = 0"
  shows "chunk_value [ucast (drop_bit 16 w), ucast (drop_bit 8 w), ucast w] = w"
  by (rule u32_eqI) (simp add: chunk_value_simps bitwise high_bits[OF assms])

lemma value_of_bytes:
  "ucast (drop_bit 16 (chunk_value [a, b, c])) = a"
  "ucast (drop_bit 8 (chunk_value [a, b, c])) = b"
  "ucast (chunk_value [a, b, c]) = c"
  "drop_bit 24 (chunk_value [a, b, c]) = 0"
  by (rule u8_eqI u32_eqI, simp add: chunk_value_simps bitwise)+

lemma sextet_bit_beyond: "s < 64 \<Longrightarrow> 6 \<le> n \<Longrightarrow> \<not> bit (s :: u8) n"
  by (metis below_64 bit_take_bit_iff not_less)

lemma value_of_sextets:
  assumes "s < 64" "t < 64" "u < 64" "v < 64"
  shows "map (\<lambda>n. ucast (take_bit 6 (drop_bit n (sextets_value [s, t, u, v])))) [18, 12, 6, 0] = [s, t, u, v]"
    and "drop_bit 24 (sextets_value [s, t, u, v]) = 0"
proof -
  note beyond = sextet_bit_beyond[OF assms(1)] sextet_bit_beyond[OF assms(2)] sextet_bit_beyond[OF assms(3)] sextet_bit_beyond[OF assms(4)]
  show "drop_bit 24 (sextets_value [s, t, u, v]) = 0"
    by (rule u32_eqI) (simp add: sextets_value_simps bitwise beyond)
  have "ucast (take_bit 6 (drop_bit 18 (sextets_value [s, t, u, v]))) = s"
    by (rule u8_eqI) (simp add: sextets_value_simps bitwise beyond)
  moreover have "ucast (take_bit 6 (drop_bit 12 (sextets_value [s, t, u, v]))) = t"
    by (rule u8_eqI) (simp add: sextets_value_simps bitwise beyond)
  moreover have "ucast (take_bit 6 (drop_bit 6 (sextets_value [s, t, u, v]))) = u"
    by (rule u8_eqI) (simp add: sextets_value_simps bitwise beyond)
  moreover have "ucast (take_bit 6 (drop_bit 0 (sextets_value [s, t, u, v]))) = v"
    by (rule u8_eqI) (simp add: sextets_value_simps bitwise beyond)
  ultimately show "map (\<lambda>n. ucast (take_bit 6 (drop_bit n (sextets_value [s, t, u, v])))) [18, 12, 6, 0] = [s, t, u, v]"
    by simp
qed

lemma short_chunk_cases:
  assumes "chunk \<noteq> []" "length chunk \<le> 3"
  obtains a where "chunk = [a]" | a b where "chunk = [a, b]" | a b c where "chunk = [a, b, c]"
  using assms by (auto simp: numeral_eq_Suc le_Suc_eq length_Suc_conv)

lemma short_sextets_cases:
  assumes "2 \<le> length ss" "length ss \<le> 4"
  obtains s t where "ss = [s, t]" | s t u where "ss = [s, t, u]" | s t u v where "ss = [s, t, u, v]"
  using assms by (auto simp: numeral_eq_Suc le_Suc_eq length_Suc_conv)

lemma zero_bytes:
  "take_bit 8 (w :: u32) = 0 \<longleftrightarrow> (ucast w :: u8) = 0"
  "take_bit 16 (w :: u32) = 0 \<longleftrightarrow> (ucast (drop_bit 8 w) :: u8) = 0 \<and> (ucast w :: u8) = 0"
proof -
  show "take_bit 8 w = 0 \<longleftrightarrow> (ucast w :: u8) = 0"
    by (auto simp: bit_eq_iff bit_simps)
  have "n < 8 \<or> (\<exists>m<8. n = 8 + m)" if "n < 16" for n :: nat using that by presburger
  then have "(\<forall>n<16. \<not> bit w n) \<longleftrightarrow> (\<forall>n<8. \<not> bit w (8 + n)) \<and> (\<forall>n<8. \<not> bit w n)" by fastforce
  then show "take_bit 16 w = 0 \<longleftrightarrow> (ucast (drop_bit 8 w) :: u8) = 0 \<and> (ucast w :: u8) = 0"
    by (auto simp: bit_eq_iff bit_simps)
qed

lemma decode_chunk_simps:
  "decode_chunk [s, t, u, v] =
     (let w = sextets_value [s, t, u, v] in Inr [ucast (drop_bit 16 w), ucast (drop_bit 8 w), ucast w])"
  "decode_chunk [s, t, u] =
     (let w = sextets_value [s, t, u, 0]
      in if (ucast w :: u8) \<noteq> 0 then Inl PeInvalidEvidencePageToken else Inr [ucast (drop_bit 16 w), ucast (drop_bit 8 w)])"
  "decode_chunk [s, t] =
     (let w = sextets_value [s, t, 0, 0]
      in if (ucast (drop_bit 8 w) :: u8) \<noteq> 0 \<or> (ucast w :: u8) \<noteq> 0 then Inl PeInvalidEvidencePageToken
         else Inr [ucast (drop_bit 16 w)])"
  by (simp_all add: decode_chunk_def Let_def low_mask zero_bytes sextets_value_simps(2,3))

lemma decode_chunk_sextets:
  assumes "chunk \<noteq> []" "length chunk \<le> 3"
  shows "decode_chunk (chunk_sextets chunk) = Inr chunk"
proof -
  have four: "sextets_value (chunk_sextets [a, b, c]) = chunk_value [a, b, c]" for a b c
    unfolding chunk_sextets_simps by (rule sextets_of_value[OF value_of_bytes(4)])
  have pad: "chunk_sextets [a, b, 0] = chunk_sextets [a, b] @ [0]" "chunk_sextets [a, 0, 0] = chunk_sextets [a] @ [0, 0]" for a b
  proof -
    show "chunk_sextets [a, b, 0] = chunk_sextets [a, b] @ [0]"
      by (simp add: chunk_sextets_simps, rule u8_eqI, simp add: chunk_value_simps bitwise)
    show "chunk_sextets [a, 0, 0] = chunk_sextets [a] @ [0, 0]"
      by (simp add: chunk_sextets_simps, intro conjI; rule u8_eqI; simp add: chunk_value_simps bitwise)
  qed
  from assms show ?thesis
  proof (cases rule: short_chunk_cases)
    case (1 a)
    obtain s t where st: "chunk_sextets [a] = [s, t]" by (simp add: chunk_sextets_simps)
    then have "sextets_value [s, t, 0, 0] = chunk_value [a, 0, 0]" using four[of a 0 0] pad(2)[of a] by simp
    then show ?thesis using 1 st by (simp add: decode_chunk_simps value_of_bytes)
  next
    case (2 a b)
    obtain s t u where stu: "chunk_sextets [a, b] = [s, t, u]" by (simp add: chunk_sextets_simps)
    then have "sextets_value [s, t, u, 0] = chunk_value [a, b, 0]" using four[of a b 0] pad(1)[of a b] by simp
    then show ?thesis using 2 stu by (simp add: decode_chunk_simps value_of_bytes)
  next
    case (3 a b c)
    obtain s t u v where "chunk_sextets [a, b, c] = [s, t, u, v]" by (simp add: chunk_sextets_simps)
    then show ?thesis using 3 four[of a b c] by (simp add: decode_chunk_simps value_of_bytes)
  qed
qed

text \<open>The reverse: the sextets a decoder accepts are those of the bytes it returns.\<close>

lemma chunk_sextets_decode:
  assumes dec: "decode_chunk ss = Inr p" and below: "\<forall>s\<in>set ss. s < 64" and len: "2 \<le> length ss" "length ss \<le> 4"
  shows "chunk_sextets p = ss \<and> length p + 1 = length ss"
  using len
proof (cases rule: short_sextets_cases)
  case (1 s t)
  let ?w = "sextets_value [s, t, 0, 0]"
  have w: "drop_bit 24 ?w = 0" "map (\<lambda>n. ucast (take_bit 6 (drop_bit n ?w))) [18, 12, 6, 0] = [s, t, 0, 0]"
    using value_of_sextets[of s t 0 0] below 1 by simp_all
  from dec 1 have p: "p = [ucast (drop_bit 16 ?w)]" "(ucast (drop_bit 8 ?w) :: u8) = 0" "(ucast ?w :: u8) = 0"
    by (auto simp: decode_chunk_simps Let_def split: if_splits)
  with bytes_of_value[OF w(1)] have "chunk_value [ucast (drop_bit 16 ?w), 0, 0] = ?w" by simp
  with w(2) 1 p show ?thesis by (simp add: chunk_sextets_simps)
next
  case (2 s t u)
  let ?w = "sextets_value [s, t, u, 0]"
  have w: "drop_bit 24 ?w = 0" "map (\<lambda>n. ucast (take_bit 6 (drop_bit n ?w))) [18, 12, 6, 0] = [s, t, u, 0]"
    using value_of_sextets[of s t u 0] below 2 by simp_all
  from dec 2 have p: "p = [ucast (drop_bit 16 ?w), ucast (drop_bit 8 ?w)]" "(ucast ?w :: u8) = 0"
    by (auto simp: decode_chunk_simps Let_def split: if_splits)
  with bytes_of_value[OF w(1)] have "chunk_value [ucast (drop_bit 16 ?w), ucast (drop_bit 8 ?w), 0] = ?w" by simp
  with w(2) 2 p show ?thesis by (simp add: chunk_sextets_simps)
next
  case (3 s t u v)
  let ?w = "sextets_value [s, t, u, v]"
  have w: "drop_bit 24 ?w = 0" "map (\<lambda>n. ucast (take_bit 6 (drop_bit n ?w))) [18, 12, 6, 0] = [s, t, u, v]"
    using value_of_sextets[of s t u v] below 3 by simp_all
  from dec 3 have p: "p = [ucast (drop_bit 16 ?w), ucast (drop_bit 8 ?w), ucast ?w]"
    by (simp add: decode_chunk_simps Let_def)
  with bytes_of_value[OF w(1)] w(2) 3 show ?thesis by (simp add: chunk_sextets_simps)
qed

lemma length_chunk_sextets: "length (chunk_sextets chunk) = min 4 (length chunk + 1)"
  by (simp add: chunk_sextets_def)

text \<open>The induction over a list cut into chunks: the last chunk, or a full one and the rest.\<close>

lemma chunked_induct [case_names Short Full]:
  assumes "\<And>xs. length xs \<le> n \<Longrightarrow> P xs"
    and "\<And>xs ys. length xs = n \<Longrightarrow> ys \<noteq> [] \<Longrightarrow> P ys \<Longrightarrow> P (xs @ ys)" and "0 < (n :: nat)"
  shows "P xs"
proof (induction xs rule: length_induct)
  case (1 xs)
  show ?case
  proof (cases "length xs \<le> n")
    case False
    then have "P (drop n xs)" using 1 assms(3) by simp
    then have "P (take n xs @ drop n xs)" using False by (intro assms(2)) auto
    then show ?thesis by simp
  qed (rule assms(1))
qed

definition payload_sextets :: "u8 list \<Rightarrow> u8 list" where
  "payload_sextets payload = concat (map chunk_sextets (chunks 3 payload))"

lemma payload_sextets_simps [simp]:
  "payload_sextets [] = []"
  "length xs = 3 \<Longrightarrow> payload_sextets (xs @ ys) = chunk_sextets xs @ payload_sextets ys"
  by (simp_all add: payload_sextets_def)

lemma payload_sextets_short: "xs \<noteq> [] \<Longrightarrow> length xs \<le> 3 \<Longrightarrow> payload_sextets xs = chunk_sextets xs"
  by (simp add: payload_sextets_def chunks_short)

lemma encode_payload_sextets: "encode_base64url_v1 payload = map (\<lambda>s. BASE64URL ! unat s) (payload_sextets payload)"
  by (simp add: encode_base64url_v1_def payload_sextets_def map_concat comp_def encode_chunk_sextets[abs_def])

lemma payload_sextets_below: "s \<in> set (payload_sextets payload) \<Longrightarrow> s < 64"
  by (auto simp: payload_sextets_def intro: chunk_sextets_below)

lemma payload_sextets_length: "length (payload_sextets payload) = (4 * length payload + 2) div 3"
proof (induction payload rule: chunked_induct[where n = 3])
  case (Short xs)
  show ?case
  proof (cases "xs = []")
    case False
    with Short have "payload_sextets xs = chunk_sextets xs" by (simp add: payload_sextets_short)
    moreover from False have "length xs \<noteq> 0" by simp
    with Short have "length xs = 1 \<or> length xs = 2 \<or> length xs = 3" by linarith
    ultimately show ?thesis by (auto simp: length_chunk_sextets)
  qed simp
qed (simp_all add: length_chunk_sextets)

lemma decode_payload_sextets:
  "collect_ok decode_chunk (chunks 4 (payload_sextets payload)) = Inr (chunks 3 payload)"
proof (induction payload rule: chunked_induct[where n = 3])
  case (Short xs)
  show ?case
  proof (cases "xs = []")
    case False
    then have "length (chunk_sextets xs) \<noteq> 0" "length (chunk_sextets xs) \<le> 4" by (simp_all add: length_chunk_sextets)
    then have "chunks 4 (chunk_sextets xs) = [chunk_sextets xs]" by (intro chunks_short) auto
    then show ?thesis using False Short by (simp add: payload_sextets_short chunks_short decode_chunk_sextets)
  qed simp
next
  case (Full xs ys)
  then have "length (chunk_sextets xs) = 4" "xs \<noteq> []" by (auto simp: length_chunk_sextets)
  with Full show ?case by (simp add: decode_chunk_sextets)
qed simp

lemma concat_chunks: "0 < n \<Longrightarrow> concat (chunks n xs) = xs"
proof (induction n xs rule: chunks.induct)
  case (1 n xs)
  then show ?case by (subst chunks.simps) auto
qed

lemma alphabet_text_ascii:
  "\<forall>s\<in>set ss. (s :: u8) < 64 \<Longrightarrow> as_bytes (map (\<lambda>s. BASE64URL ! unat s) ss) = map (\<lambda>s. BASE64URL ! unat s) ss"
  by (rule as_bytes_ascii_text) (auto simp: word_less_nat_alt intro: alphabet_ascii)

theorem base64url_decode_encode: "decode_base64url_v1 (encode_base64url_v1 payload) = Inr payload"
proof -
  let ?ss = "payload_sextets payload"
  have "collect_ok sextet_of (as_bytes (encode_base64url_v1 payload)) = Inr ?ss"
    unfolding encode_payload_sextets
    by (subst alphabet_text_ascii)
      (auto simp: collect_ok_Inr list_all2_conv_all_nth intro!: sextet_of_alphabet payload_sextets_below[OF nth_mem] dest: payload_sextets_below)
  moreover have "length ?ss mod 4 \<noteq> 1" unfolding payload_sextets_length by presburger
  ultimately show ?thesis
    by (simp add: decode_base64url_v1_def decode_payload_sextets concat_chunks)
qed

lemma payload_sextets_decode:
  assumes "collect_ok decode_chunk (chunks 4 ss) = Inr ps" "\<forall>s\<in>set ss. s < 64" "length ss mod 4 \<noteq> 1"
  shows "payload_sextets (concat ps) = ss"
  using assms
proof (induction ss arbitrary: ps rule: chunked_induct[where n = 4])
  case (Short ss)
  show ?case
  proof (cases "ss = []")
    case False
    with Short have "chunks 4 ss = [ss]" by (simp add: chunks_short)
    with Short obtain p where p: "ps = [p]" "decode_chunk ss = Inr p" by auto
    have "2 \<le> length ss" using False Short(1,4) by (cases ss rule: remdups_adj.cases) auto
    with chunk_sextets_decode[OF p(2) Short(3)] Short(1) have "chunk_sextets p = ss" "length p + 1 = length ss" by auto
    moreover from this \<open>2 \<le> length ss\<close> Short(1) have "p \<noteq> []" "length p \<le> 3" by auto
    ultimately show ?thesis using p by (simp add: payload_sextets_short)
  qed (use Short in simp)
next
  case (Full ss ts)
  then obtain p ps' where p: "ps = p # ps'" "decode_chunk ss = Inr p" "collect_ok decode_chunk (chunks 4 ts) = Inr ps'"
    by auto
  have "chunk_sextets p = ss" "length p = 3"
    using chunk_sextets_decode[OF p(2)] Full(1,5) by auto
  moreover have "payload_sextets (concat ps') = ts" using Full p by simp
  ultimately show ?case using p by simp
qed simp

theorem base64url_encode_decode:
  assumes "decode_base64url_v1 token = Inr payload"
  shows "encode_base64url_v1 payload = token"
proof -
  from assms obtain ss ps where ss: "collect_ok sextet_of (as_bytes token) = Inr ss" "length ss mod 4 \<noteq> 1"
      and ps: "collect_ok decode_chunk (chunks 4 ss) = Inr ps" "payload = concat ps"
    by (auto simp: decode_base64url_v1_def split: if_splits)
  from ss(1) have all: "list_all2 (\<lambda>b s. s < 64 \<and> b = BASE64URL ! unat s) (as_bytes token) ss"
    by (simp add: collect_ok_Inr sextet_of_Inr)
  then have below: "\<forall>s\<in>set ss. s < 64" by (auto simp: list_all2_conv_all_nth in_set_conv_nth)
  from all have "as_bytes token = map (\<lambda>s. BASE64URL ! unat s) ss"
    by (auto simp: list_all2_conv_all_nth intro: nth_equalityI)
  moreover from this below have "as_bytes token = token"
    by (intro as_bytes_ascii) (auto simp: word_less_nat_alt intro: alphabet_ascii)
  moreover have "payload_sextets payload = ss" using payload_sextets_decode[OF ps(1) below ss(2)] ps(2) by simp
  ultimately show ?thesis by (simp add: encode_payload_sextets)
qed

section \<open>The two directions of hexadecimal\<close>

lemma split_at_byte_ascii:
  "\<forall>c\<in>set s. c < 128 \<Longrightarrow> split_at_byte n s = (if n \<le> length s then Some (take n s, drop n s) else None)"
  by (induction n s rule: split_at_byte.induct) auto

lemma str_get_ascii:
  assumes "\<forall>c\<in>set s. c < 128" "a \<le> b"
  shows "str_get a b s = (if b \<le> length s then Some (take (b - a) (drop a s)) else None)"
proof -
  have "\<forall>c\<in>set (drop a s). c < 128" using assms(1) by (auto dest: in_set_dropD)
  with assms show ?thesis by (auto simp: str_get_def split_at_byte_ascii)
qed

lemma lower_hex_ascii: "is_lower_hex c \<Longrightarrow> c < 128"
  by (auto simp: ascii_classes)

lemma hex_char_lower: "n < 16 \<Longrightarrow> is_lower_hex (hex_char n)"
  by (auto simp: ascii_classes hex_char_def)

lemma to_digit_hex_char: "n < 16 \<Longrightarrow> to_digit_16 (hex_char n) = Some n"
  by (auto simp: to_digit_16_def hex_char_def ascii_classes)

lemma lower_hex_digit: "is_lower_hex c \<Longrightarrow> \<exists>n<16. to_digit_16 c = Some n \<and> c = hex_char n"
  by (auto simp: to_digit_16_def hex_char_def ascii_classes)

lemma radix_hex_byte: "u8_from_str_radix_16 (hex_byte b) = Some b"
proof -
  have "unat b < 256" using unsigned_less[where 'a = nat, of b] by simp
  moreover have "hex_char (unat b div 16) \<noteq> 43" by (simp add: hex_char_def)
  ultimately show ?thesis
    by (simp add: u8_from_str_radix_16_def hex_byte_def to_digit_hex_char less_mult_imp_div_less Let_def)
qed

lemma hex_byte_radix:
  assumes "is_lower_hex c" "is_lower_hex d"
  obtains b where "hex_byte b = [c, d]"
proof -
  obtain m n where mn: "m < 16" "c = hex_char m" "n < 16" "d = hex_char n" using assms lower_hex_digit by metis
  then have "unat (of_nat (16 * m + n) :: u8) = 16 * m + n" 
    by (simp add: unat_of_nat del: of_nat_add of_nat_mult)
  with mn have "hex_byte (of_nat (16 * m + n)) = [c, d]" by (simp add: hex_byte_def del: of_nat_add of_nat_mult)
  then show thesis by (rule that)
qed

definition hex_text :: "u8 list \<Rightarrow> str" where
  "hex_text bytes = concat (map hex_byte bytes)"

lemma hex_text_simps [simp]:
  "hex_text [] = []"
  "hex_text (b # bs) = hex_byte b @ hex_text bs"
  "length (hex_text bs) = 2 * length bs"
  by (simp_all add: hex_text_def hex_byte_def length_concat comp_def sum_list_triv)

lemma hex_text_lower: "c \<in> set (hex_text bs) \<Longrightarrow> is_lower_hex c"
proof -
  assume "c \<in> set (hex_text bs)"
  then obtain b where "c \<in> set (hex_byte b)" by (auto simp: hex_text_def)
  moreover have "unat b < 256" using unsigned_less[where 'a = nat, of b] by simp
  ultimately show ?thesis by (auto simp: hex_byte_def less_mult_imp_div_less intro!: hex_char_lower)
qed

lemma hex_text_pair: "i < length bs \<Longrightarrow> take 2 (drop (i * 2) (hex_text bs)) = hex_byte (bs ! i)"
proof (induction bs arbitrary: i)
  case (Cons b bs)
  then show ?case by (cases i) (simp_all add: hex_byte_def)
qed simp

lemma hex_bytes_hex_text: "length bs = n \<Longrightarrow> hex_bytes_v1 n (hex_text bs) = Inr bs"
proof -
  assume n: "length bs = n"
  have ascii: "\<forall>c\<in>set (hex_text bs). c < 128" using hex_text_lower lower_hex_ascii by blast
  have "str_get (i * 2) (i * 2 + 2) (hex_text bs) = Some (hex_byte (bs ! i))" if "i < n" for i
    using that n by (simp add: str_get_ascii[OF ascii] hex_text_pair)
  then show ?thesis
    unfolding hex_bytes_v1_def using n by (simp add: collect_ok_Inr list_all2_conv_all_nth radix_hex_byte)
qed

lemma lower_hex_text:
  assumes "\<forall>c\<in>set hex. is_lower_hex c" "length hex = 2 * n"
  obtains bs where "hex_text bs = hex" "length bs = n"
  using assms
proof (induction n arbitrary: hex thesis)
  case (Suc n)
  from Suc.prems(3) obtain c d rest where hex: "hex = c # d # rest" "length rest = 2 * n"
    by (cases hex rule: remdups_adj.cases) auto
  with Suc.prems obtain b where "hex_byte b = [c, d]" using hex_byte_radix[of c d] by auto
  moreover obtain bs where "hex_text bs = rest" "length bs = n" using Suc.IH[of rest] hex Suc.prems(2) by auto
  ultimately show ?case using hex by (intro Suc.prems(1)[of "b # bs"]) auto
qed simp

lemma u64_eqI:
  "list_all (\<lambda>n. bit v n = bit w n)
     [0, 1, 2, 3, 4, 5, 6, 7, 8, 9, 10, 11, 12, 13, 14, 15,
      16, 17, 18, 19, 20, 21, 22, 23, 24, 25, 26, 27, 28, 29, 30, 31,
      32, 33, 34, 35, 36, 37, 38, 39, 40, 41, 42, 43, 44, 45, 46, 47,
      48, 49, 50, 51, 52, 53, 54, 55, 56, 57, 58, 59, 60, 61, 62, 63] \<Longrightarrow> v = (w :: u64)"
  by (rule bit_word_eqI) (auto simp: less_Suc_eq numeral_eq_Suc)

lemma from_to_be_bytes: "from_be_bytes (to_be_bytes w) = w"
  by (rule u64_eqI) (simp add: from_be_bytes_def to_be_bytes_def bitwise)

lemma to_from_be_bytes:
  assumes "length bs = 8"
  shows "to_be_bytes (from_be_bytes bs) = bs"
proof -
  from assms obtain a b c d e f g h where bs: "bs = [a, b, c, d, e, f, g, h]"
    by (auto simp: numeral_eq_Suc length_Suc_conv)
  show ?thesis unfolding bs to_be_bytes_def from_be_bytes_def list.map foldl.simps
    by (intro arg_cong2[where f = "(#)"] refl; rule u8_eqI; simp add: bitwise)
qed

lemma length_to_be_bytes [simp]: "length (to_be_bytes w) = 8"
  by (simp add: to_be_bytes_def)

end
