(* ===== verification/Evidence_Page.thy ===== *)
theory Evidence_Page
  imports Byte_Text Procedure_Validate Domain_Values
begin

unbundle bit_operations_syntax

text \<open>
  The continuation token of \<open>evidence.read\<close> (\<open>podway-protocol/src/evidence_page.rs\<close>): a fixed-order
  binary payload naming the session, the consumer and source attempts, the item, the digest of the
  value and the offset, written as unpadded base64url. Fixed-size arrays are byte lists whose length
  is part of \<open>token_wf\<close>, the invariant of every token the code can hold.
\<close>

section \<open>The token\<close>

definition EVIDENCE_PAGE_TOKEN_VERSION_V1 :: u8 where
  "EVIDENCE_PAGE_TOKEN_VERSION_V1 = 1"

definition MAX_EVIDENCE_PAGE_TOKEN_CHARS_V1 :: nat where
  "MAX_EVIDENCE_PAGE_TOKEN_CHARS_V1 = 256"

definition UUID_BYTES :: nat where "UUID_BYTES = 16"
definition DIGEST_BYTES :: nat where "DIGEST_BYTES = 32"
definition OFFSET_BYTES :: nat where "OFFSET_BYTES = 8"
definition MAX_ITEM_ID_BYTES :: nat where "MAX_ITEM_ID_BYTES = 64"

record EvidencePageTokenV1 =
  pt_session_id :: "u8 list"
  pt_consumer_attempt_id :: "u8 list"
  pt_source_attempt_id :: "u8 list"
  pt_item_id :: str
  pt_value_digest :: "u8 list"
  pt_offset :: u64

section \<open>Identities as bytes\<close>

fun uuid_groups :: "nat \<Rightarrow> nat list \<Rightarrow> str \<Rightarrow> str \<Rightarrow> ProtocolError + str" where
  "uuid_groups index [] hex rest = (if rest \<noteq> [] then Inl PeInvalidEvidencePageToken else Inr hex)"
| "uuid_groups index (width # widths) hex rest =
     rbind (if index > 0 then ok_or PeInvalidEvidencePageToken (strip_prefix (lit ''-'') rest) else Inr rest) (\<lambda>rest.
     rbind (ok_or PeInvalidEvidencePageToken (split_at_byte width rest)) (\<lambda>(group, rest).
       if \<not> (\<forall>c\<in>set group. is_ascii_digit c \<or> 97 \<le> c \<and> c \<le> 102) then Inl PeInvalidEvidencePageToken
       else uuid_groups (Suc index) widths (hex @ group) rest))"

definition uuid_bytes_v1 :: "str \<Rightarrow> ProtocolError + u8 list" where
  "uuid_bytes_v1 value = rbind (uuid_groups 0 [8, 4, 4, 4, 12] [] value) (hex_bytes_v1 UUID_BYTES)"

definition uuid_text_v1 :: "u8 list \<Rightarrow> str" where
  "uuid_text_v1 bytes =
     (let hex = concat (map hex_byte bytes)
      in take 8 hex @ lit ''-'' @ take 4 (drop 8 hex) @ lit ''-'' @ take 4 (drop 12 hex) @ lit ''-'' @
         take 4 (drop 16 hex) @ lit ''-'' @ take 12 (drop 20 hex))"

definition digest_bytes_v1 :: "str \<Rightarrow> ProtocolError + u8 list" where
  "digest_bytes_v1 value =
     rbind (ok_or PeInvalidEvidencePageToken (strip_prefix (lit ''sha256:'') value)) (\<lambda>hex.
       if byte_len hex \<noteq> DIGEST_BYTES * 2 \<or> \<not> (\<forall>c\<in>set hex. is_ascii_digit c \<or> 97 \<le> c \<and> c \<le> 102)
       then Inl PeInvalidEvidencePageToken
       else hex_bytes_v1 DIGEST_BYTES hex)"

section \<open>Construction and accessors\<close>

definition EvidencePageTokenV1_new ::
    "str \<Rightarrow> str \<Rightarrow> str \<Rightarrow> str \<Rightarrow> str \<Rightarrow> u64 \<Rightarrow> ProtocolError + EvidencePageTokenV1" where
  "EvidencePageTokenV1_new session_id consumer_attempt_id source_attempt_id item_id value_digest offset =
     (if item_id = [] \<or> byte_len item_id > MAX_ITEM_ID_BYTES then Inl PeInvalidEvidencePageToken
      else rbind (uuid_bytes_v1 session_id) (\<lambda>session.
           rbind (uuid_bytes_v1 consumer_attempt_id) (\<lambda>consumer.
           rbind (uuid_bytes_v1 source_attempt_id) (\<lambda>source.
           rbind (digest_bytes_v1 value_digest) (\<lambda>digest.
             Inr \<lparr>pt_session_id = session, pt_consumer_attempt_id = consumer, pt_source_attempt_id = source,
                  pt_item_id = item_id, pt_value_digest = digest, pt_offset = offset\<rparr>)))))"

definition token_session_id :: "EvidencePageTokenV1 \<Rightarrow> str" where
  "token_session_id t = uuid_text_v1 (pt_session_id t)"

definition token_consumer_attempt_id :: "EvidencePageTokenV1 \<Rightarrow> str" where
  "token_consumer_attempt_id t = uuid_text_v1 (pt_consumer_attempt_id t)"

definition token_source_attempt_id :: "EvidencePageTokenV1 \<Rightarrow> str" where
  "token_source_attempt_id t = uuid_text_v1 (pt_source_attempt_id t)"

definition token_value_digest :: "EvidencePageTokenV1 \<Rightarrow> str" where
  "token_value_digest t = foldl (\<lambda>text byte. text @ hex_byte byte) (lit ''sha256:'') (pt_value_digest t)"

section \<open>Encoding and decoding\<close>

text \<open>
  \<open>u8::try_from(self.item_id.len()).expect(...)\<close> panics on a longer item identifier: the panic is
  the value \<open>None\<close>.
\<close>

definition token_payload :: "EvidencePageTokenV1 \<Rightarrow> u8 list" where
  "token_payload t =
     EVIDENCE_PAGE_TOKEN_VERSION_V1 # pt_session_id t @ pt_consumer_attempt_id t @ pt_source_attempt_id t @
     of_nat (byte_len (pt_item_id t)) # map of_nat (as_bytes (pt_item_id t)) @
     pt_value_digest t @ to_be_bytes (pt_offset t)"

definition EvidencePageTokenV1_encode :: "EvidencePageTokenV1 \<Rightarrow> str option" where
  "EvidencePageTokenV1_encode t =
     (if byte_len (pt_item_id t) \<le> 255 then Some (encode_base64url_v1 (token_payload t)) else None)"

definition take_array_v1 :: "nat \<Rightarrow> u8 list \<Rightarrow> nat \<Rightarrow> ProtocolError + u8 list \<times> nat" where
  "take_array_v1 n payload cursor =
     (if cursor + n \<le> length payload then Inr (take n (drop cursor payload), cursor + n)
      else Inl PeInvalidEvidencePageToken)"

text \<open>The reading of the payload: every field at the cursor, and no byte left over.\<close>

definition token_of_payload :: "u8 list \<Rightarrow> ProtocolError + EvidencePageTokenV1" where
  "token_of_payload payload =
     rbind (ok_or PeInvalidEvidencePageToken (nth_opt payload 0)) (\<lambda>version.
     if version \<noteq> EVIDENCE_PAGE_TOKEN_VERSION_V1 then Inl PeInvalidEvidencePageToken
     else
       rbind (take_array_v1 UUID_BYTES payload 1) (\<lambda>(session_id, cursor).
       rbind (take_array_v1 UUID_BYTES payload cursor) (\<lambda>(consumer_attempt_id, cursor).
       rbind (take_array_v1 UUID_BYTES payload cursor) (\<lambda>(source_attempt_id, cursor).
       rbind (ok_or PeInvalidEvidencePageToken (nth_opt payload cursor)) (\<lambda>length_byte.
       let item_length = unat length_byte; cursor = cursor + 1 in
       if item_length = 0 \<or> item_length > MAX_ITEM_ID_BYTES then Inl PeInvalidEvidencePageToken
       else
         rbind (take_array_v1 item_length payload cursor) (\<lambda>(item_bytes, cursor).
         rbind (ok_or PeInvalidEvidencePageToken (from_utf8 (map unat item_bytes))) (\<lambda>item_id.
         rbind (take_array_v1 DIGEST_BYTES payload cursor) (\<lambda>(value_digest, cursor).
         rbind (take_array_v1 OFFSET_BYTES payload cursor) (\<lambda>(offset_bytes, cursor).
           if cursor \<noteq> length payload then Inl PeInvalidEvidencePageToken
           else Inr \<lparr>pt_session_id = session_id, pt_consumer_attempt_id = consumer_attempt_id,
                     pt_source_attempt_id = source_attempt_id, pt_item_id = item_id,
                     pt_value_digest = value_digest, pt_offset = from_be_bytes offset_bytes\<rparr>)))))))))"

definition EvidencePageTokenV1_decode :: "str \<Rightarrow> ProtocolError + EvidencePageTokenV1" where
  "EvidencePageTokenV1_decode token =
     (if token = [] \<or> length token > MAX_EVIDENCE_PAGE_TOKEN_CHARS_V1 then Inl PeInvalidEvidencePageToken
      else rbind (decode_base64url_v1 token) token_of_payload)"

text \<open>The tokens the code can hold: arrays of their length, a non-empty bounded item identifier of Unicode scalars.\<close>

definition token_wf :: "EvidencePageTokenV1 \<Rightarrow> bool" where
  "token_wf t \<longleftrightarrow>
     length (pt_session_id t) = 16 \<and> length (pt_consumer_attempt_id t) = 16 \<and> length (pt_source_attempt_id t) = 16 \<and>
     length (pt_value_digest t) = 32 \<and> (\<forall>c\<in>set (pt_item_id t). is_scalar c) \<and>
     pt_item_id t \<noteq> [] \<and> byte_len (pt_item_id t) \<le> 64"

lemmas page_sizes = UUID_BYTES_def DIGEST_BYTES_def OFFSET_BYTES_def MAX_ITEM_ID_BYTES_def

section \<open>UTF-8 in both directions\<close>

lemma utf8_decode_char:
  assumes "is_scalar c"
  shows "utf8_decode (utf8_char c) = c"
proof -
  have cont: "(128 + r mod 64) mod 64 = r mod 64" for r :: nat using mod_mult_self3[of 2 64 "r mod 64"] by simp
  have lead: "q < 32 \<Longrightarrow> (192 + q) mod 32 = q" "q < 16 \<Longrightarrow> (224 + q) mod 16 = q" "q < 8 \<Longrightarrow> (240 + q) mod 8 = q"
    for q :: nat using mod_mult_self3[of 6 32 q] mod_mult_self3[of 14 16 q] mod_mult_self3[of 30 8 q] by simp_all
  have parts: "c = 64 * (c div 64) + c mod 64" "c div 64 = 64 * (c div 4096) + c div 64 mod 64"
      "c div 4096 = 64 * (c div 262144) + c div 4096 mod 64"
    using mult_div_mod_eq[of 64 "c div 64"] mult_div_mod_eq[of 64 "c div 4096"]
    by (simp_all add: div_mult2_eq[symmetric])
  have bound: "c < 1114112" using assms by (auto simp: is_scalar_def)
  consider "c < 128" | "128 \<le> c" "c < 2048" | "2048 \<le> c" "c < 65536" | "65536 \<le> c" by linarith
  then show ?thesis
  proof cases
    case 2
    then have "c div 64 < 32" by (simp add: less_mult_imp_div_less)
    then show ?thesis using 2 parts(1) by (simp add: utf8_decode_def utf8_char_def cont lead)
  next
    case 3
    then have "c div 4096 < 16" by (simp add: less_mult_imp_div_less)
    then have "utf8_decode (utf8_char c) = c div 4096 * 4096 + c div 64 mod 64 * 64 + c mod 64"
      using 3 by (simp add: utf8_decode_def utf8_char_def cont lead)
    with parts(1,2) show ?thesis by linarith
  next
    case 4
    then have "c div 262144 < 8" using bound by (simp add: less_mult_imp_div_less)
    then have "utf8_decode (utf8_char c) = c div 262144 * 262144 + c div 4096 mod 64 * 4096 + c div 64 mod 64 * 64 + c mod 64"
      using 4 by (simp add: utf8_decode_def utf8_char_def cont lead)
    with parts show ?thesis by linarith
  qed (simp add: utf8_decode_def)
qed

lemma utf8_length_char:
  "is_scalar c \<Longrightarrow> utf8_length (hd (utf8_char c)) = length (utf8_char c)"
  by (auto simp: is_scalar_def utf8_length_def utf8_char_def)

lemma from_utf8_as_bytes: "\<forall>c\<in>set s. is_scalar c \<Longrightarrow> from_utf8 (as_bytes s) = Some s"
proof (induction s)
  case (Cons c s)
  obtain b bs where b: "utf8_char c = b # bs" using utf8_char_length[of c] by (cases "utf8_char c") auto
  have "utf8_length b = length (utf8_char c)" using utf8_length_char[of c] Cons.prems b by simp
  then have n: "take (utf8_length b) (b # bs @ as_bytes s) = utf8_char c"
      "drop (utf8_length b - 1) (bs @ as_bytes s) = as_bytes s" using b by simp_all
  have "as_bytes (c # s) = b # bs @ as_bytes s" using b by simp
  then show ?case using n Cons utf8_decode_char[of c] by simp
qed simp

lemma from_utf8_scalars: "from_utf8 bs = Some s \<Longrightarrow> \<forall>c\<in>set s. is_scalar c"
  by (induction bs arbitrary: s rule: from_utf8.induct) (auto split: if_splits)

lemma scalar_bytes: "is_scalar c \<Longrightarrow> b \<in> set (utf8_char c) \<Longrightarrow> b < 256"
  by (auto simp: is_scalar_def utf8_char_def split: if_splits)

lemma text_bytes: "\<forall>c\<in>set s. is_scalar c \<Longrightarrow> b \<in> set (as_bytes s) \<Longrightarrow> b < 256"
  by (auto simp: as_bytes_def dest: scalar_bytes)

section \<open>Identities in both directions\<close>

lemma split_at_byte_Some: "split_at_byte n s = Some (a, b) \<Longrightarrow> s = a @ b \<and> byte_len a = n"
  by (induction n s arbitrary: a b rule: split_at_byte.induct) (auto simp: byte_len_def split: if_splits)

lemma split_at_byte_lower: "\<forall>c\<in>set g. is_lower_hex c \<Longrightarrow> split_at_byte (length g) (g @ r) = Some (g, r)"
proof (induction g)
  case (Cons c g)
  then show ?case using lower_hex_ascii[of c] by simp
qed simp

text \<open>A UUID text is its five groups with a hyphen before each but the first.\<close>

fun hyphenated :: "nat \<Rightarrow> str list \<Rightarrow> str" where
  "hyphenated index [] = []"
| "hyphenated index (g # gs) = (if index > 0 then [45] else []) @ g @ hyphenated (Suc index) gs"

definition lower_group :: "str \<Rightarrow> bool" where
  "lower_group g \<longleftrightarrow> (\<forall>c\<in>set g. is_lower_hex c)"

lemma lit_hyphen: "lit ''-'' = [45]"
  by (simp add: lit_def)

lemma lower_group_bytes: "lower_group g \<Longrightarrow> byte_len g = length g"
  using lower_hex_ascii by (auto simp: lower_group_def byte_len_def as_bytes_ascii_text)

lemma uuid_groups_step:
  "uuid_groups index (width # widths) acc rest = Inr hex \<longleftrightarrow>
     (\<exists>g r. lower_group g \<and> length g = width \<and> rest = (if index > 0 then [45] else []) @ g @ r \<and>
            uuid_groups (Suc index) widths (acc @ g) r = Inr hex)" (is "?L \<longleftrightarrow> ?R")
proof
  assume ?L
  then obtain tail g r where tail: "rest = (if index > 0 then [45] else []) @ tail"
      and g: "split_at_byte width tail = Some (g, r)" "lower_group g" "uuid_groups (Suc index) widths (acc @ g) r = Inr hex"
    by (auto simp: strip_prefix_Some lit_hyphen lower_group_def is_lower_hex_def split: if_splits)
  with split_at_byte_Some[OF g(1)] lower_group_bytes[OF g(2)] show ?R by auto
next
  assume ?R
  then obtain g r where g: "lower_group g" "length g = width" "rest = (if index > 0 then [45] else []) @ g @ r"
      "uuid_groups (Suc index) widths (acc @ g) r = Inr hex" by blast
  then have "split_at_byte width (g @ r) = Some (g, r)" using split_at_byte_lower[of g r] by (auto simp: lower_group_def)
  with g show ?L by (auto simp: strip_prefix_Some lit_hyphen lower_group_def is_lower_hex_def)
qed

lemma uuid_groups_ok:
  "uuid_groups index widths acc rest = Inr hex \<longleftrightarrow>
     (\<exists>gs. map length gs = widths \<and> (\<forall>g\<in>set gs. lower_group g) \<and> rest = hyphenated index gs \<and> hex = acc @ concat gs)"
proof (induction widths arbitrary: index acc rest)
  case (Cons width widths)
  show ?case
    unfolding uuid_groups_step Cons.IH map_eq_Cons_conv by fastforce
qed auto

declare uuid_groups.simps [simp del]

lemma uuid_text_groups:
  assumes "map length gs = [8, 4, 4, 4, 12]" "hex_text bs = concat gs"
  shows "uuid_text_v1 bs = hyphenated 0 gs"
proof -
  from assms(1) obtain a b c d e where gs: "gs = [a, b, c, d, e]"
    and len: "length a = 8" "length b = 4" "length c = 4" "length d = 4" "length e = 12" by auto
  have "hex_text bs = a @ b @ c @ d @ e" using assms(2) gs by simp
  then show ?thesis using len by (simp add: uuid_text_v1_def hex_text_def[symmetric] gs lit_hyphen)
qed

lemma cut_groups: "length xs = sum_list ws \<Longrightarrow> \<exists>gs. map length gs = ws \<and> concat gs = xs"
proof (induction ws arbitrary: xs)
  case (Cons w ws)
  obtain gs where "map length gs = ws" "concat gs = drop w xs" using Cons.IH[of "drop w xs"] Cons.prems by auto
  then have "map length (take w xs # gs) = w # ws \<and> concat (take w xs # gs) = xs" using Cons.prems by simp
  then show ?case by (rule exI)
qed simp

theorem uuid_bytes_exact: "uuid_bytes_v1 s = Inr bs \<longleftrightarrow> length bs = 16 \<and> s = uuid_text_v1 bs"
proof
  assume "uuid_bytes_v1 s = Inr bs"
  then obtain gs where gs: "map length gs = [8, 4, 4, 4, 12]" "\<forall>g\<in>set gs. lower_group g" "s = hyphenated 0 gs"
      and bs: "hex_bytes_v1 16 (concat gs) = Inr bs"
    unfolding uuid_bytes_v1_def rbind_eq_Inr uuid_groups_ok page_sizes append_Nil by metis
  have "length (concat gs) = 2 * 16" using gs(1) by (simp add: length_concat)
  with gs(2) obtain bs' where "hex_text bs' = concat gs" "length bs' = 16"
    using lower_hex_text[of "concat gs" 16] by (auto simp: lower_group_def)
  moreover from this bs have "bs' = bs" using hex_bytes_hex_text[of bs' 16] by simp
  ultimately show "length bs = 16 \<and> s = uuid_text_v1 bs" using uuid_text_groups[OF gs(1), of bs] gs(3) by simp
next
  assume R: "length bs = 16 \<and> s = uuid_text_v1 bs"
  have "length (hex_text bs) = sum_list [8, 4, 4, 4, 12]" using R by simp
  from cut_groups[OF this] obtain gs where gs: "map length gs = [8, 4, 4, 4, 12]" "concat gs = hex_text bs" by metis
  then have "lower_group g" if "g \<in> set gs" for g
    using hex_text_lower[of _ bs] that unfolding lower_group_def gs(2)[symmetric] by auto
  then have "uuid_groups 0 [8, 4, 4, 4, 12] [] s = Inr (hex_text bs)"
    using R gs uuid_text_groups[OF gs(1), of bs] unfolding uuid_groups_ok by (intro exI[of _ gs]) simp
  then show "uuid_bytes_v1 s = Inr bs" using R by (simp add: uuid_bytes_v1_def page_sizes hex_bytes_hex_text)
qed

lemma token_value_digest_text: "token_value_digest t = lit ''sha256:'' @ hex_text (pt_value_digest t)"
proof -
  have "foldl (\<lambda>text byte. text @ hex_byte byte) acc bs = acc @ hex_text bs" for acc bs
    by (induction bs arbitrary: acc) simp_all
  then show ?thesis by (simp add: token_value_digest_def)
qed

theorem digest_bytes_exact: "digest_bytes_v1 s = Inr bs \<longleftrightarrow> length bs = 32 \<and> s = lit ''sha256:'' @ hex_text bs"
proof
  assume "digest_bytes_v1 s = Inr bs"
  then obtain hex where hex: "s = lit ''sha256:'' @ hex" "byte_len hex = 64" "lower_group hex" "hex_bytes_v1 32 hex = Inr bs"
    by (auto simp: digest_bytes_v1_def strip_prefix_Some page_sizes lower_group_def is_lower_hex_def split: if_splits)
  then obtain bs' where "hex_text bs' = hex" "length bs' = 32"
    using lower_hex_text[of hex 32] lower_group_bytes[of hex] by (auto simp: lower_group_def)
  with hex show "length bs = 32 \<and> s = lit ''sha256:'' @ hex_text bs" using hex_bytes_hex_text[of bs' 32] by simp
next
  assume R: "length bs = 32 \<and> s = lit ''sha256:'' @ hex_text bs"
  have low: "lower_group (hex_text bs)" using hex_text_lower by (simp add: lower_group_def)
  with R show "digest_bytes_v1 s = Inr bs"
    using lower_group_bytes[OF low] hex_bytes_hex_text[of bs 32]
    by (auto simp: digest_bytes_v1_def page_sizes lower_group_def is_lower_hex_def)
qed

text \<open>The identities a token takes are exactly those the core admits.\<close>

lemma validate_uuid_bytes_append:
  "validate_uuid_bytes f i (xs @ ys) = Inr () \<longleftrightarrow>
     validate_uuid_bytes f i xs = Inr () \<and> validate_uuid_bytes f (i + length xs) ys = Inr ()"
  by (induction xs arbitrary: i) auto

lemma validate_uuid_group:
  assumes "\<forall>j<length g. i + j \<notin> {8, 13, 18, 23}"
  shows "validate_uuid_bytes f i g = Inr () \<longleftrightarrow> lower_group g"
  using assms
proof (induction g arbitrary: i)
  case (Cons c g)
  have "i \<notin> {8, 13, 18, 23}" using Cons.prems by (auto dest: spec[of _ 0])
  moreover have "\<forall>j<length g. Suc i + j \<notin> {8, 13, 18, 23}" using Cons.prems by (auto dest: spec[of _ "Suc _"])
  ultimately show ?case using Cons.IH[of "Suc i"]
    by (auto simp: uuid_byte_valid_def lower_group_def is_lower_hex_def)
qed (simp add: lower_group_def)

lemma uuid_shape:
  "(\<exists>bs. uuid_bytes_v1 s = Inr bs) \<longleftrightarrow>
     (\<exists>gs. map length gs = [8, 4, 4, 4, 12] \<and> (\<forall>g\<in>set gs. lower_group g) \<and> s = hyphenated 0 gs)"
proof
  assume "\<exists>bs. uuid_bytes_v1 s = Inr bs"
  then show "\<exists>gs. map length gs = [8, 4, 4, 4, 12] \<and> (\<forall>g\<in>set gs. lower_group g) \<and> s = hyphenated 0 gs"
    unfolding uuid_bytes_v1_def rbind_eq_Inr uuid_groups_ok by metis
next
  assume "\<exists>gs. map length gs = [8, 4, 4, 4, 12] \<and> (\<forall>g\<in>set gs. lower_group g) \<and> s = hyphenated 0 gs"
  then obtain gs where gs: "map length gs = [8, 4, 4, 4, 12]" "\<forall>g\<in>set gs. lower_group g" "s = hyphenated 0 gs" by metis
  have "length (concat gs) = 2 * 16" using gs(1) by (simp add: length_concat)
  with gs(2) obtain bs where "hex_text bs = concat gs" "length bs = 16"
    using lower_hex_text[of "concat gs" 16] by (auto simp: lower_group_def)
  then show "\<exists>bs. uuid_bytes_v1 s = Inr bs" using uuid_text_groups[OF gs(1)] gs(3) by (auto simp: uuid_bytes_exact)
qed

lemma validate_uuid_exact: "validate_uuid s f = Inr () \<longleftrightarrow> (\<exists>bs. uuid_bytes_v1 s = Inr bs)"
  unfolding uuid_shape
proof
  assume ok: "validate_uuid s f = Inr ()"
  then have len: "length s = 36" and "\<forall>c\<in>set s. c < 128"
    unfolding validate_uuid_ok by (simp, metis in_set_conv_nth uuid_byte_valid_ascii)
  with ok have valid: "validate_uuid_bytes f 0 s = Inr ()" by (simp add: validate_uuid_def as_bytes_ascii_text)
  have "length s = sum_list [8, 1, 4, 1, 4, 1, 4, 1, 12]" using len by simp
  from cut_groups[OF this] obtain gs where gs: "map length gs = [8, 1, 4, 1, 4, 1, 4, 1, 12]" "concat gs = s" by metis
  then obtain a x b y c z d w e where parts: "gs = [a, [x], b, [y], c, [z], d, [w], e]"
      and "length a = 8" "length b = 4" "length c = 4" "length d = 4" "length e = 12"
    by (auto simp: length_Suc_conv)
  with valid gs(2)[symmetric]
  have "x = 45" "y = 45" "z = 45" "w = 45" "\<forall>g\<in>set [a, b, c, d, e]. lower_group g"
    by (auto simp: validate_uuid_bytes_append validate_uuid_group uuid_byte_valid_def split: if_splits)
  with parts gs show "\<exists>gs. map length gs = [8, 4, 4, 4, 12] \<and> (\<forall>g\<in>set gs. lower_group g) \<and> s = hyphenated 0 gs"
    by (intro exI[of _ "[a, b, c, d, e]"]) auto
next
  assume "\<exists>gs. map length gs = [8, 4, 4, 4, 12] \<and> (\<forall>g\<in>set gs. lower_group g) \<and> s = hyphenated 0 gs"
  then obtain a b c d e where s: "s = hyphenated 0 [a, b, c, d, e]"
      and len: "length a = 8" "length b = 4" "length c = 4" "length d = 4" "length e = 12"
      and low: "lower_group a" "lower_group b" "lower_group c" "lower_group d" "lower_group e" by auto
  from low have "\<forall>ch\<in>set s. ch < 128" using lower_hex_ascii by (auto simp: s lower_group_def)
  then have "as_bytes s = s" by (rule as_bytes_ascii_text)
  with s len low show "validate_uuid s f = Inr ()"
    by (simp add: validate_uuid_def validate_uuid_bytes_append validate_uuid_group uuid_byte_valid_def)
qed

section \<open>One token, one text\<close>

lemma token_of_payload_ok:
  "token_of_payload P = Inr t \<longleftrightarrow>
     (\<exists>L. 1 \<le> L \<and> L \<le> 64 \<and> length P = 90 + L \<and> P ! 0 = 1 \<and> unat (P ! 49) = L \<and>
        pt_session_id t = take 16 (drop 1 P) \<and> pt_consumer_attempt_id t = take 16 (drop 17 P) \<and>
        pt_source_attempt_id t = take 16 (drop 33 P) \<and> from_utf8 (map unat (take L (drop 50 P))) = Some (pt_item_id t) \<and>
        pt_value_digest t = take 32 (drop (50 + L) P) \<and> pt_offset t = from_be_bytes (take 8 (drop (82 + L) P)))"
  (is "?L \<longleftrightarrow> (\<exists>L. ?R L)")
proof
  assume ?L
  then have "?R (unat (P ! 49))"
    unfolding token_of_payload_def page_sizes EVIDENCE_PAGE_TOKEN_VERSION_V1_def take_array_v1_def nth_opt_def Let_def
    by (simp split: if_splits) (auto simp: Suc_le_eq)
  then show "\<exists>L. ?R L" by blast
next
  assume "\<exists>L. ?R L"
  then obtain L where R: "?R L" by blast
  then have "P \<noteq> []" "49 < length P" by auto
  with R show ?L
    unfolding token_of_payload_def page_sizes EVIDENCE_PAGE_TOKEN_VERSION_V1_def take_array_v1_def nth_opt_def Let_def
    by (cases t) (simp add: Suc_le_eq)
qed

lemma payload_pieces:
  assumes "length P = 90 + L"
  shows "P = take 1 P @ take 16 (drop 1 P) @ take 16 (drop 17 P) @ take 16 (drop 33 P) @ take 1 (drop 49 P) @
             take L (drop 50 P) @ take 32 (drop (50 + L) P) @ take 8 (drop (82 + L) P)"
proof -
  have cut: "take m (drop n P) @ take k (drop (m + n) P) = take (m + k) (drop n P)" for m n k
    by (simp add: take_add)
  have "take 1 P @ take 16 (drop 1 P) @ take 16 (drop 17 P) @ take 16 (drop 33 P) @ take 1 (drop 49 P) @
      take L (drop 50 P) @ take 32 (drop (50 + L) P) @ take 8 (drop (82 + L) P) = take (90 + L) (drop 0 P)"
    using cut[of 32 "50 + L" 8] cut[of L 50 40] cut[of 1 49 "L + 40"] cut[of 16 33 "L + 41"] cut[of 16 17 "L + 57"]
      cut[of 16 1 "L + 73"] cut[of 1 0 "L + 89"]
    by (simp add: add.commute)
  with assms show ?thesis by simp
qed

lemma map_unat_of_nat: "\<forall>b\<in>set bs. b < 256 \<Longrightarrow> map unat (map (of_nat :: nat \<Rightarrow> u8) bs) = bs"
  by (induction bs) (auto simp: unat_of_nat)

lemma take_one_drop: "i < length P \<Longrightarrow> take 1 (drop i P) = [P ! i]"
  by (simp flip: Cons_nth_drop_Suc)

lemma payload_of_token:
  assumes "token_of_payload P = Inr t"
  shows "token_wf t \<and> token_payload t = P"
proof -
  from assms obtain L where L: "1 \<le> L" "L \<le> 64" "length P = 90 + L" "P ! 0 = 1" "unat (P ! 49) = L"
      and ids: "pt_session_id t = take 16 (drop 1 P)" "pt_consumer_attempt_id t = take 16 (drop 17 P)"
        "pt_source_attempt_id t = take 16 (drop 33 P)"
      and item: "from_utf8 (map unat (take L (drop 50 P))) = Some (pt_item_id t)"
      and rest: "pt_value_digest t = take 32 (drop (50 + L) P)" "pt_offset t = from_be_bytes (take 8 (drop (82 + L) P))"
    unfolding token_of_payload_ok by metis
  from from_utf8_bytes[OF item] have bytes: "as_bytes (pt_item_id t) = map unat (take L (drop 50 P))" .
  then have len: "byte_len (pt_item_id t) = L" using L by (simp add: byte_len_def)
  have "map (of_nat :: nat \<Rightarrow> u8) (map unat xs) = xs" for xs by (induction xs) simp_all
  then have item_bytes: "map of_nat (as_bytes (pt_item_id t)) = take L (drop 50 P)" using bytes by simp
  have heads: "take 1 P = [1]" "take 1 (drop 49 P) = [of_nat L]"
    using take_one_drop[of 0 P] take_one_drop[of 49 P] L(3,4) arg_cong[OF L(5), of "of_nat :: nat \<Rightarrow> u8"] by simp_all
  have wf: "token_wf t"
    using L ids rest len from_utf8_scalars[OF item] by (auto simp: token_wf_def byte_len_def)
  have "token_payload t = take 1 P @ take 16 (drop 1 P) @ take 16 (drop 17 P) @ take 16 (drop 33 P) @ take 1 (drop 49 P) @
      take L (drop 50 P) @ take 32 (drop (50 + L) P) @ take 8 (drop (82 + L) P)"
    unfolding token_payload_def ids rest item_bytes len heads EVIDENCE_PAGE_TOKEN_VERSION_V1_def
    using L by (simp add: to_from_be_bytes)
  with wf payload_pieces[OF L(3)] show ?thesis by simp
qed

lemma token_of_payload_token:
  assumes "token_wf t"
  shows "token_of_payload (token_payload t) = Inr t"
proof -
  define L where "L = byte_len (pt_item_id t)"
  have L: "1 \<le> L" "L \<le> 64" "length (as_bytes (pt_item_id t)) = L"
    using assms length_le_byte_len[of "pt_item_id t"] by (auto simp: token_wf_def L_def byte_len_def Suc_le_eq)
  have "map unat (map (of_nat :: nat \<Rightarrow> u8) (as_bytes (pt_item_id t))) = as_bytes (pt_item_id t)"
    using assms text_bytes[of "pt_item_id t"] by (intro map_unat_of_nat) (auto simp: token_wf_def)
  then have "from_utf8 (map unat (map (of_nat :: nat \<Rightarrow> u8) (as_bytes (pt_item_id t)))) = Some (pt_item_id t)"
    using assms from_utf8_as_bytes[of "pt_item_id t"] by (simp add: token_wf_def)
  moreover define front where "front = EVIDENCE_PAGE_TOKEN_VERSION_V1 # pt_session_id t @ pt_consumer_attempt_id t @
      pt_source_attempt_id t @ of_nat L # map of_nat (as_bytes (pt_item_id t))"
  have payload: "token_payload t = front @ pt_value_digest t @ to_be_bytes (pt_offset t)"
    by (simp add: token_payload_def front_def L_def)
  have front: "length front = 50 + L" "front ! 0 = 1" "front ! 49 = of_nat L" "take 16 (drop 1 front) = pt_session_id t"
      "take 16 (drop 17 front) = pt_consumer_attempt_id t" "take 16 (drop 33 front) = pt_source_attempt_id t"
      "take L (drop 50 front) = map of_nat (as_bytes (pt_item_id t))"
    using assms L by (simp_all add: front_def token_wf_def nth_append EVIDENCE_PAGE_TOKEN_VERSION_V1_def)
  moreover have "unat (of_nat L :: u8) = L" using L by (simp add: unat_of_nat)
  ultimately show ?thesis
    unfolding token_of_payload_ok payload
    using assms L by (intro exI[of _ L]) (simp add: token_wf_def nth_append from_to_be_bytes)
qed

lemma token_payload_length: "token_wf t \<Longrightarrow> length (token_payload t) \<le> 154"
  by (auto simp: token_wf_def token_payload_def byte_len_def)

lemma token_text_length:
  assumes "token_wf t"
  shows "0 < length (encode_base64url_v1 (token_payload t))" "length (encode_base64url_v1 (token_payload t)) \<le> 206"
proof -
  have "3 \<le> 4 * length (token_payload t) + 2" by (simp add: token_payload_def)
  then show "0 < length (encode_base64url_v1 (token_payload t))" "length (encode_base64url_v1 (token_payload t)) \<le> 206"
    using token_payload_length[OF assms] by (simp_all add: encode_payload_sextets payload_sextets_length div_greater_zero_iff)
qed

lemma token_text_decodes:
  assumes "token_wf t" "EvidencePageTokenV1_encode t = Some text"
  shows "EvidencePageTokenV1_decode text = Inr t"
proof -
  have "text = encode_base64url_v1 (token_payload t)" using assms(2) by (simp add: EvidencePageTokenV1_encode_def split: if_splits)
  with token_text_length[OF assms(1)] token_of_payload_token[OF assms(1)] show ?thesis
    by (simp add: EvidencePageTokenV1_decode_def MAX_EVIDENCE_PAGE_TOKEN_CHARS_V1_def base64url_decode_encode)
qed

text \<open>
  C28: the continuation tokens of \<open>evidence.read\<close> have one spelling. A text decodes to a token exactly
  when the token has the shape the code guarantees (arrays of their length, a non-empty item
  identifier of at most 64 bytes) and the text is its encoding: padding, another alphabet, non-zero
  unused bits, a foreign version, a truncated or extended payload and an overlong text are all refused.
\<close>

theorem page_token_exact:
  "EvidencePageTokenV1_decode text = Inr t \<longleftrightarrow> token_wf t \<and> EvidencePageTokenV1_encode t = Some text"
proof
  assume "EvidencePageTokenV1_decode text = Inr t"
  then obtain P where P: "decode_base64url_v1 text = Inr P" "token_of_payload P = Inr t"
    by (auto simp: EvidencePageTokenV1_decode_def split: if_splits)
  from payload_of_token[OF P(2)] base64url_encode_decode[OF P(1)]
  show "token_wf t \<and> EvidencePageTokenV1_encode t = Some text"
    by (auto simp: EvidencePageTokenV1_encode_def token_wf_def)
qed (auto intro: token_text_decodes)

lemma token_new_ok:
  "EvidencePageTokenV1_new session consumer source item digest offset = Inr t \<longleftrightarrow>
     item \<noteq> [] \<and> byte_len item \<le> 64 \<and> token_session_id t = session \<and> token_consumer_attempt_id t = consumer \<and>
     token_source_attempt_id t = source \<and> token_value_digest t = digest \<and> pt_item_id t = item \<and> pt_offset t = offset \<and>
     length (pt_session_id t) = 16 \<and> length (pt_consumer_attempt_id t) = 16 \<and> length (pt_source_attempt_id t) = 16 \<and>
     length (pt_value_digest t) = 32"
  unfolding EvidencePageTokenV1_new_def token_session_id_def token_consumer_attempt_id_def token_source_attempt_id_def
    token_value_digest_text page_sizes
  by (cases t) (auto simp: uuid_bytes_exact digest_bytes_exact)

lemma collect_ok_err:
  "(\<And>x e. f x = Inl e \<Longrightarrow> e = err) \<Longrightarrow> collect_ok f xs = Inl e \<Longrightarrow> e = err"
  by (induction xs) (auto simp: rbind_eq_Inl)

lemma hex_bytes_err: "hex_bytes_v1 n hex = Inl e \<Longrightarrow> e = PeInvalidEvidencePageToken"
  unfolding hex_bytes_v1_def by (erule collect_ok_err[rotated]) (auto simp: rbind_eq_Inl ok_or_def split: option.splits)

lemma uuid_groups_err: "uuid_groups index widths acc rest = Inl e \<Longrightarrow> e = PeInvalidEvidencePageToken"
  by (induction widths arbitrary: index acc rest)
    (auto simp: uuid_groups.simps ok_or_def rbind_def split: option.splits if_splits prod.splits sum.splits)

lemma token_new_err:
  "EvidencePageTokenV1_new session consumer source item digest offset = Inl e \<Longrightarrow> e = PeInvalidEvidencePageToken"
proof -
  have uuid: "uuid_bytes_v1 s = Inl e \<Longrightarrow> e = PeInvalidEvidencePageToken" for s e
    by (auto simp: uuid_bytes_v1_def rbind_eq_Inl dest: hex_bytes_err uuid_groups_err)
  have digest: "digest_bytes_v1 s = Inl e \<Longrightarrow> e = PeInvalidEvidencePageToken" for s e
    by (auto simp: digest_bytes_v1_def rbind_eq_Inl ok_or_def dest: hex_bytes_err split: option.splits if_splits)
  assume "EvidencePageTokenV1_new session consumer source item digest offset = Inl e"
  then show ?thesis
    by (auto simp: EvidencePageTokenV1_new_def rbind_eq_Inl split: if_splits dest: uuid digest)
qed

lemma core_identities:
  "is_ok (SessionId_new s) \<longleftrightarrow> (\<exists>bs. uuid_bytes_v1 s = Inr bs)"
  "is_ok (AttemptId_new s) \<longleftrightarrow> (\<exists>bs. uuid_bytes_v1 s = Inr bs)"
  by (simp_all add: SessionId_new_def AttemptId_new_def uuid_new_def is_ok_iff validate_uuid_exact)

lemma core_digest: "is_ok (Sha256Digest_new s) \<longleftrightarrow> (\<exists>bs. digest_bytes_v1 s = Inr bs)"
proof -
  have "is_ok (Sha256Digest_new s) \<longleftrightarrow> validate_sha256_digest s = Inr ()" by (simp add: Sha256Digest_new_def is_ok_iff)
  also have "\<dots> \<longleftrightarrow> (\<exists>h. s = lit ''sha256:'' @ h \<and> length h = 64 \<and> lower_group h)"
    unfolding validate_sha256_digest_grammar lower_group_def by blast
  also have "\<dots> \<longleftrightarrow> (\<exists>bs. length bs = 32 \<and> s = lit ''sha256:'' @ hex_text bs)"
  proof
    assume "\<exists>h. s = lit ''sha256:'' @ h \<and> length h = 64 \<and> lower_group h"
    then obtain h where h: "s = lit ''sha256:'' @ h" "length h = 2 * 32" "lower_group h" by auto
    then obtain bs where "hex_text bs = h" "length bs = 32" using lower_hex_text[of h 32] unfolding lower_group_def by metis
    with h show "\<exists>bs. length bs = 32 \<and> s = lit ''sha256:'' @ hex_text bs" by auto
  next
    assume "\<exists>bs. length bs = 32 \<and> s = lit ''sha256:'' @ hex_text bs"
    then obtain bs where bs: "length bs = 32" "s = lit ''sha256:'' @ hex_text bs" by auto
    then have "length (hex_text bs) = 64" "lower_group (hex_text bs)" using hex_text_lower by (auto simp: lower_group_def)
    with bs show "\<exists>h. s = lit ''sha256:'' @ h \<and> length h = 64 \<and> lower_group h" by metis
  qed
  finally show ?thesis by (simp add: digest_bytes_exact)
qed

text \<open>
  C29: a token names exactly the page it was made for. Construction succeeds exactly when the three
  identities are UUIDs and the digest is a SHA-256 digest in the sense of the core, and the item
  identifier is not empty and has at most 64 bytes; the token then has a text of at most 206
  characters, within the published 256, and what is decoded from that text answers every accessor
  with the identity that was put in.
\<close>

theorem page_token_names_its_page:
  assumes "\<forall>c\<in>set item. is_scalar c"
  shows "if is_ok (SessionId_new session) \<and> is_ok (AttemptId_new consumer) \<and> is_ok (AttemptId_new source) \<and>
            is_ok (Sha256Digest_new digest) \<and> 1 \<le> byte_len item \<and> byte_len item \<le> 64
         then \<exists>t text. EvidencePageTokenV1_new session consumer source item digest offset = Inr t \<and>
            EvidencePageTokenV1_encode t = Some text \<and> length text \<le> 206 \<and> EvidencePageTokenV1_decode text = Inr t \<and>
            token_session_id t = session \<and> token_consumer_attempt_id t = consumer \<and> token_source_attempt_id t = source \<and>
            pt_item_id t = item \<and> token_value_digest t = digest \<and> pt_offset t = offset
         else EvidencePageTokenV1_new session consumer source item digest offset = Inl PeInvalidEvidencePageToken"
    (is "if ?ok then _ else _")
proof -
  let ?new = "EvidencePageTokenV1_new session consumer source item digest offset"
  have item: "1 \<le> byte_len item \<longleftrightarrow> item \<noteq> []"
    using length_le_byte_len[of item] by (cases item) (auto simp: byte_len_def)
  have ok: "?ok \<longleftrightarrow> is_ok ?new"
    unfolding core_identities core_digest item
    by (auto simp: EvidencePageTokenV1_new_def is_ok_iff page_sizes split: if_splits)
  show ?thesis
  proof (cases "is_ok ?new")
    case True
    then obtain t where t: "?new = Inr t" by (auto simp: is_ok_iff)
    then have fields: "token_session_id t = session" "token_consumer_attempt_id t = consumer" "token_source_attempt_id t = source"
        "pt_item_id t = item" "token_value_digest t = digest" "pt_offset t = offset" "token_wf t"
      using assms by (auto simp: token_new_ok token_wf_def)
    let ?text = "encode_base64url_v1 (token_payload t)"
    have "EvidencePageTokenV1_encode t = Some ?text"
      using fields(7) by (simp add: EvidencePageTokenV1_encode_def token_wf_def)
    with token_text_decodes[OF fields(7)] token_text_length(2)[OF fields(7)] t fields ok True show ?thesis by auto
  next
    case False
    with ok token_new_err[of session consumer source item digest offset] show ?thesis
      by (cases ?new) auto
  qed
qed

definition demo_uuid :: str where
  "demo_uuid = lit ''0000000a-000b-4000-8000-00000000000c''"

definition demo_digest :: str where
  "demo_digest = lit ''sha256:aaaaaaaaaaaaaaaaaaaaaaaaaaaaaaaaaaaaaaaaaaaaaaaaaaaaaaaaaaaaaaaa''"

theorem page_token_names_its_page_witness:
  "\<exists>t text. EvidencePageTokenV1_new demo_uuid demo_uuid demo_uuid (lit ''notes'') demo_digest 4096 = Inr t \<and>
     EvidencePageTokenV1_encode t = Some text \<and> EvidencePageTokenV1_decode text = Inr t \<and> token_session_id t = demo_uuid \<and>
     pt_offset t = 4096"
proof -
  have ids: "is_ok (SessionId_new demo_uuid)" "is_ok (AttemptId_new demo_uuid)" "is_ok (Sha256Digest_new demo_digest)"
    by code_simp+
  have item: "1 \<le> byte_len (lit ''notes'')" "byte_len (lit ''notes'') \<le> 64" "\<forall>c\<in>set (lit ''notes''). is_scalar c"
    by (simp_all add: byte_len_def lit_def is_scalar_def)
  from page_token_names_its_page[OF item(3), of demo_uuid demo_uuid demo_uuid demo_digest 4096]
  show ?thesis by (simp only: ids item simp_thms if_True) metis
qed

end
