(* ===== verification/Spec2Isabelle.thy ===== *)
theory Spec2Isabelle
  imports Session_Trace_Props Item_Props Workflow_Records Graph_Props Canonical_Props Item_Batch_Props Workflow_Validate
    Goal_Targets Graph_Session_Props Parsed_Procedures Vetted_Sessions
    Evidence_Page
begin

text \<open>
  A verification development of Podway, a procedure guard: a command-line tool that walks a user or an
  agent through a written procedure (a graph of actions and decisions), records what each attempt
  produced, and admits a step only when its preconditions hold. The development models the pure domain
  core (\<open>src/crates/podway-core\<close>), the authoring stage (\<open>src/crates/podway-config\<close>: parsing,
  validation, the canonical document, the graph analyses and vetting) and the scalar values and paging
  tokens of the public contract (\<open>src/crates/podway-protocol\<close>), and proves what a session can and
  cannot do and what a validated and vetted procedure guarantees.

  \<^bold>\<open>How the parts interact.\<close> An author writes a procedure; \<open>podway-config\<close> parses it, checks its
  references, analyses its graph and renders one canonical JSON document with its digest. A session is
  started on a snapshot of that document. \<open>GraphSessionStateV2\<close> is the whole state of a session: the
  execution trace with its single cursor, a counter per graph node, metadata and workflow memory per
  attempt (item values, blockers, resolved evidence), decisions, reworks, the goal history. Every
  command computes a candidate successor, and the candidate is validated as a whole before it replaces
  the state; the store persists exactly the admitted states under two revision counters.

  \<^bold>\<open>Conventions.\<close> A \<open>Result\<close> is a sum with the error on the left, \<open>?\<close> is \<open>rbind\<close>, a loop with an early
  return is \<open>for_each\<close> or \<open>for_unique\<close>, \<open>collect\<close> is \<open>collect_ok\<close>. Fixed-width integers are words,
  \<open>usize\<close> counts are natural numbers, text is the list of its Unicode scalars, a \<open>BTreeMap\<close> is a map.
  Types keep their Rust names; a method is \<open>Type_method\<close> where its name alone is ambiguous. External
  crates are parameters, collected in the record \<open>externals\<close>: the string literals and the parser of
  \<open>serde_json\<close> and the hexadecimal SHA-256 digest. Theorems that rely on them say so in a hypothesis
  and have a witness with concrete functions.

  \<^bold>\<open>Theories, in the order of the code.\<close>
  \<^item> \<open>Podway_Prelude\<close>, \<open>Rust_Text\<close>: results, loops, checked counters, UTF-8 text; the shared lemmas and
    the collections of simplification rules.
  \<^item> \<open>Domain\<close>, \<open>Domain_Values\<close>, \<open>Limits\<close>: identifiers, digests, errors, revisions, artifacts and safe
    paths, the scale envelope (\<open>lib.rs\<close>, \<open>procedure.rs\<close>, \<open>aggregate.rs\<close>, \<open>procedure_v2/limits.rs\<close>).
  \<^item> \<open>Session_Trace\<close> with \<open>Session_Trace_Inv\<close>, \<open>Session_Trace_Ops\<close>, \<open>Session_Trace_Props\<close>: the cursor
    and the attempts (\<open>session_v2.rs\<close>); its invariant, the effect and the exact admission condition of
    every operation, the refinement of an abstract cursor machine, reconstruction from parts.
  \<^item> \<open>Recorded_Items\<close>, \<open>Item_Specs\<close>, \<open>Item_Props\<close>, \<open>Workflow_Records\<close>: recorded values, the seven item
    declarations, predicates and conditions, decision, rework, goal and assessment records
    (\<open>record_v2.rs\<close>, \<open>procedure_v2/items.rs\<close>, \<open>goal_record_v2.rs\<close>).
  \<^item> \<open>Procedure_Model\<close>: definitions, placements, routes, the procedure graph (\<open>procedure_v2\<close>).
  \<^item> \<open>Canonical_Json\<close>, \<open>Recorded_Digests\<close>, \<open>Canonical_Props\<close>: canonical bytes and digests
    (\<open>canonical.rs\<close>, \<open>workflow_v2.rs\<close>); canonical bytes determine the value.
  \<^item> \<open>Snapshot_Model\<close>: the stored document, the runtime and the memory model read out of it
    (\<open>graph_v2.rs\<close>, \<open>workflow_v2.rs\<close>).
  \<^item> \<open>Workflow_Memory\<close>, \<open>Item_Batch\<close>, \<open>Attempt_Successors\<close>, \<open>Attempt_Decisions\<close>, \<open>Workflow_Validate\<close>:
    the operations on the workflow memory and its two validators (\<open>workflow_v2.rs\<close>);
    \<open>Item_Batch_Props\<close>: the atomic batch against its sequential meaning.
  \<^item> \<open>Goal_State\<close>, \<open>Goal_Validate\<close>, \<open>Goal_Safety\<close>, \<open>Goal_Targets\<close>: the goal history (\<open>goal_state_v2.rs\<close>)
    and revision-safe targets; the goal model read from a snapshot stores the validated procedure, so a
    goal revision is admitted exactly at the declared targets the authoring analysis lists as safe.
  \<^item> \<open>Graph_State\<close>, \<open>Graph_Mutations\<close>, \<open>Graph_Decisions\<close>: the aggregate and every mutation
    (\<open>graph_v2.rs\<close>); \<open>Graph_Reach\<close>, \<open>Graph_Invariants\<close>, \<open>Graph_History\<close>: the step relation, the locale
    of evolving machines interpreted on it, what every admitted state satisfies, how history grows;
    \<open>Graph_Fence\<close>: the commands by what they do to the session and workspace revisions;
    \<open>Graph_Demo\<close>, \<open>Graph_Session_Props\<close>: two evaluated sessions and the guarantees of a session.
  \<^item> \<open>Node_Set\<close>, \<open>Graph_Index\<close>: bit sets and the graph analyses (\<open>procedure_v2_graph.rs\<close>), with
    \<open>Frontier_Search\<close> (a locale for work-list searches), \<open>Graph_Walks\<close>, \<open>Graph_Search_Order\<close>,
    \<open>Graph_Components\<close>, \<open>Graph_Dominators\<close>, \<open>Graph_Props\<close>: every analysis is exact for the procedure.
  \<^item> \<open>Procedure_Parse\<close>, \<open>Procedure_Validate\<close>, \<open>Authoring_Document\<close>: the wire values, their mapping to the
    model, closed-reference validation, the authoring document and its canonical projection
    (\<open>procedure_v2_wire.rs\<close>, \<open>procedure_v2_parse.rs\<close>, \<open>procedure_v2_validate.rs\<close>, \<open>procedure_v2_document.rs\<close>,
    \<open>procedure_v2_canonical.rs\<close>); \<open>Document_Reading\<close>, \<open>Document_Round_Trip\<close>, \<open>Parsed_Procedures\<close>: the
    session runtime reads the written document back as the validated procedure.
  \<^item> \<open>Authoring_Diagnostics\<close>: the diagnostic catalogue, field paths, locations, the finalised report
    (\<open>authoring.rs\<close>, \<open>procedure_v2_source.rs\<close>, \<open>procedure_v2_diagnostics.rs\<close>).
  \<^item> \<open>Procedure_Budget\<close>, \<open>Procedure_Vet\<close>, \<open>Vet_Props\<close>: the worst-case wire charges of a placement and the
    vetting rules (\<open>procedure_v2_budget.rs\<close>, \<open>procedure_v2_vet.rs\<close>); vetting returns, and is silent
    exactly on the procedures that satisfy a declarative specification over walks of the graph.
  \<^item> \<open>Session_Walks\<close>, \<open>Vetted_Sessions\<close>: what authoring promises to the session. The valid attempts of a
    session are a walk of advance edges from the entry, and a session of a silently vetted procedure is
    never refused a declared move, nor the evidence the target of the move requires.
  \<^item> \<open>Protocol_Values\<close>, \<open>Byte_Text\<close>, \<open>Evidence_Page\<close>: identifiers, keys, the error catalogue and the
    nesting bound of the public contract (\<open>podway-protocol/src/lib.rs\<close>), and the continuation token of
    \<open>evidence.read\<close> (\<open>evidence_page.rs\<close>): base64url, hexadecimal and UTF-8 are inverse to their
    decoders in both directions, so a page has one token and a token one text.

  \<^bold>\<open>Bounds and fuel.\<close> The loops of the graph analyses are \<open>partial_function (option)\<close>; each is proved to
  return for every graph that \<open>ProcedureGraphV2::new\<close> accepts (at most 1024 placements, the capacity of
  the bit sets), so no statement is conditional on termination. The recursive path search of the goal
  model terminates by the finite set of stored successors. Nothing else needs fuel.

  \<^bold>\<open>Not modelled.\<close> Decoding of YAML and JSON sources and the texts of decoder errors, the source index
  built from YAML parser events, lints, formatting and text projections; the protocol
  envelopes, command slices and read projections (serialisation of results); the engine services (orchestration of the
  store, Git and the domain); the SQLite store and the Git integration (I/O through external crates);
  presets (data) and the command line. Display texts and derived serialisers are not modelled either.
\<close>

end
